(* ===== verification/Prelude.thy ===== *)
theory Prelude
  imports Complex_Main "HOL-Library.AList" "HOL-Library.List_Lexorder" "HOL-Library.Char_ord"
begin

text \<open>
  Shared vocabulary of the development: the exceptions of the Python code as values, results
  that are either an exception or a value, Python dictionaries as association lists in
  insertion order, Python's rounding functions on rationals, JSON values, and the two
  interfaces most components are instances of (a guarded machine, whose steps may raise and
  keep an invariant, and a table of legal status changes).

  Python floats are modelled by \<open>rat\<close>: the rounding of binary floating point, infinities and
  NaN are outside the model.  Every comparison, tolerance and division is written as in the
  source, with the decimal constants taken at their decimal value.
\<close>

section \<open>Exceptions and results\<close>

text \<open>
  One constructor per exception class the modelled code raises.  Messages are left out, but
  for the symbols of \<open>UnpriceablePosition\<close>, which the class keeps as data.
\<close>

datatype exn =
    ValueError
  | KeyError
  | TypeError
  | RuntimeError
  | ZeroDivisionError
  | OSError
  | IllegalTransition
  | DuplicateExecution
  | InvariantViolation
  | UnpriceablePosition "string list"
  | LedgerCorruption
  | LedgerWriteUnavailable
  | LineageCollision
  | DuplicateAction
  | IdempotencyStoreCorruption
  | NaiveTimestamp
  | ImpossibleAvailability
  | LookAheadViolation
  | LateArrival
  | MarketDataFromConsumer
  | DuplicateEvent
  | UnroutableEvent
  | MissingEventField
  | InvalidBracket
  | ParentExecutionError
  | ParentExecutionCorruption
  | ParentExecutionConflict
  | OrderStateError
  | LiveTradingRejected
  | ModeViolation
  | InsufficientCash
  | InsufficientSellable
  | InvalidMarketSnapshot
  | RiskRejection
  | LedgerError
  | RecoveryRefused
  | JSONDecodeError
  | MissingIdempotencyLineage
  | IdempotencyConflict
  | ForensicHarnessLeak

type_synonym 'a res = "exn + 'a"

definition res_bind :: "'a res \<Rightarrow> ('a \<Rightarrow> 'b res) \<Rightarrow> 'b res" where
  "res_bind m f = (case m of Inl e \<Rightarrow> Inl e | Inr x \<Rightarrow> f x)"

lemma res_bind_simps [simp]:
  "res_bind (Inl e) f = Inl e"
  "res_bind (Inr x) f = f x"
  by (simp_all add: res_bind_def)

lemma res_bind_Inr_iff: "res_bind m f = Inr y \<longleftrightarrow> (\<exists>x. m = Inr x \<and> f x = Inr y)"
  by (cases m) auto

lemma res_bind_cong [fundef_cong]:
  "m = m' \<Longrightarrow> (\<And>x. m' = Inr x \<Longrightarrow> f x = f' x) \<Longrightarrow> res_bind m f = res_bind m' f'"
  by (cases m') auto

text \<open>\<open>[f x for x in xs]\<close> where \<open>f\<close> may raise: the first exception ends the comprehension.\<close>

fun map_res :: "('a \<Rightarrow> 'b res) \<Rightarrow> 'a list \<Rightarrow> 'b list res" where
  "map_res f [] = Inr []"
| "map_res f (x # xs) =
     res_bind (f x) (\<lambda>y. res_bind (map_res f xs) (\<lambda>ys. Inr (y # ys)))"

lemma map_res_cong [fundef_cong]:
  "xs = ys \<Longrightarrow> (\<And>x. x \<in> set ys \<Longrightarrow> f x = g x) \<Longrightarrow> map_res f xs = map_res g ys"
  by (induction xs arbitrary: ys) (auto cong: res_bind_cong)

lemma map_res_Inr: "(\<And>x. x \<in> set xs \<Longrightarrow> f x = Inr (g x)) \<Longrightarrow> map_res f xs = Inr (map g xs)"
  by (induction xs) auto

lemma map_res_list_all2: "map_res f xs = Inr ys \<Longrightarrow> list_all2 (\<lambda>x y. f x = Inr y) xs ys"
  by (induction xs arbitrary: ys) (auto simp: res_bind_Inr_iff)

section \<open>Runs of a step function that may raise\<close>

fun run_steps :: "('s \<Rightarrow> 'e \<Rightarrow> 's res) \<Rightarrow> 's \<Rightarrow> 'e list \<Rightarrow> 's res" where
  "run_steps step s [] = Inr s"
| "run_steps step s (e # es) = res_bind (step s e) (\<lambda>s'. run_steps step s' es)"

lemma run_steps_append:
  "run_steps step s (es @ fs) = res_bind (run_steps step s es) (\<lambda>s'. run_steps step s' fs)"
  by (induction es arbitrary: s) (auto simp: res_bind_def split: sum.splits)

text \<open>
  The interface of a component whose operations either raise or return a new state: every
  operation keeps the invariant.  A run that does not raise then keeps it too.
\<close>

locale guarded_machine =
  fixes step :: "'s \<Rightarrow> 'e \<Rightarrow> 's res"
    and inv :: "'s \<Rightarrow> bool"
  assumes step_inv: "inv s \<Longrightarrow> step s e = Inr s' \<Longrightarrow> inv s'"
begin

lemma run_inv: "inv s \<Longrightarrow> run_steps step s es = Inr s' \<Longrightarrow> inv s'"
proof (induction es arbitrary: s)
  case Nil
  then show ?case by simp
next
  case (Cons e es)
  then show ?case by (auto simp: res_bind_Inr_iff dest: step_inv)
qed

end

text \<open>Sequencing of steps that may raise after they changed the state.\<close>

definition and_then :: "'a res \<times> 's \<Rightarrow> ('a \<Rightarrow> 's \<Rightarrow> 'b res \<times> 's) \<Rightarrow> 'b res \<times> 's" where
  "and_then r f = (case r of (Inl e, s) \<Rightarrow> (Inl e, s) | (Inr x, s) \<Rightarrow> f x s)"

definition pure_then :: "'a res \<Rightarrow> ('a \<Rightarrow> 'b res \<times> 's) \<Rightarrow> 's \<Rightarrow> 'b res \<times> 's" where
  "pure_then r f s = (case r of Inl e \<Rightarrow> (Inl e, s) | Inr x \<Rightarrow> f x)"

lemma and_then_cases:
  assumes "P (snd r)" "\<And>x s. r = (Inr x, s) \<Longrightarrow> P s \<Longrightarrow> P (snd (f x s))"
  shows "P (snd (and_then r f))"
  using assms by (cases r; cases "fst r") (auto simp: and_then_def)

lemma pure_then_cases:
  assumes "P s" "\<And>x. r = Inr x \<Longrightarrow> P (snd (f x))"
  shows "P (snd (pure_then r f s))"
  using assms by (cases r) (auto simp: pure_then_def)

lemma and_then_Inr: "and_then r f = (Inr y, s') \<longleftrightarrow> (\<exists>x s. r = (Inr x, s) \<and> f x s = (Inr y, s'))"
  by (cases r; cases "fst r") (auto simp: and_then_def)

lemma pure_then_Inr: "pure_then r f s = (Inr y, s') \<longleftrightarrow> (\<exists>x. r = Inr x \<and> f x = (Inr y, s'))"
  by (cases r) (auto simp: pure_then_def)

section \<open>Tables of legal status changes\<close>

fun legal_path :: "('a \<Rightarrow> 'a \<Rightarrow> bool) \<Rightarrow> 'a \<Rightarrow> 'a list \<Rightarrow> bool" where
  "legal_path allowed s [] \<longleftrightarrow> True"
| "legal_path allowed s (t # ts) \<longleftrightarrow> allowed s t \<and> legal_path allowed t ts"

text \<open>
  The interface of a transition table with final statuses, with a rank that no legal change
  lowers.  The laws give that a final status has no future and that a status whose rank has
  been passed is never seen again.
\<close>

locale status_table =
  fixes allowed :: "'a \<Rightarrow> 'a \<Rightarrow> bool"
    and terminal :: "'a \<Rightarrow> bool"
    and rank :: "'a \<Rightarrow> nat"
  assumes terminal_final: "terminal s \<Longrightarrow> \<not> allowed s t"
    and rank_mono: "allowed s t \<Longrightarrow> rank s \<le> rank t"
begin

lemma terminal_path: "terminal s \<Longrightarrow> legal_path allowed s ts \<Longrightarrow> ts = []"
  by (cases ts) (auto simp: terminal_final)

lemma path_rank: "legal_path allowed s ts \<Longrightarrow> t \<in> set ts \<Longrightarrow> rank s \<le> rank t"
proof (induction ts arbitrary: s)
  case Nil
  then show ?case by simp
next
  case (Cons u us)
  then show ?case using rank_mono by (fastforce intro: le_trans)
qed

lemma no_return: "legal_path allowed s ts \<Longrightarrow> rank t < rank s \<Longrightarrow> t \<notin> set ts"
  using path_rank by fastforce

lemma path_append:
  "legal_path allowed s (ts @ us) \<Longrightarrow> ts \<noteq> [] \<Longrightarrow> terminal (last ts) \<Longrightarrow> us = []"
  by (induction ts arbitrary: s) (auto split: if_splits dest: terminal_path)

end

section \<open>Searching by a key\<close>

lemma find_by_key:
  "distinct (map k xs) \<Longrightarrow> x \<in> set xs \<Longrightarrow> k x = v \<Longrightarrow> List.find (\<lambda>y. k y = v) xs = Some x"
  by (induction xs) force+

section \<open>Dictionaries in insertion order\<close>

text \<open>
  A Python dict is an association list with distinct keys: \<open>d.get(k)\<close> is \<open>map_of d k\<close>,
  \<open>{**d, k: v}\<close> and \<open>d[k] = v\<close> are \<open>AList.update k v d\<close> (in place for a known key, at the end
  for a new one) and \<open>d.pop(k, None)\<close> is \<open>AList.delete k d\<close>.
\<close>

type_synonym ('k, 'v) dict = "('k \<times> 'v) list"

abbreviation dict_wf :: "('k, 'v) dict \<Rightarrow> bool" where
  "dict_wf d \<equiv> distinct (map fst d)"

definition dict_get :: "('k, 'v) dict \<Rightarrow> 'k \<Rightarrow> 'v \<Rightarrow> 'v" where
  "dict_get d k x = (case map_of d k of None \<Rightarrow> x | Some v \<Rightarrow> v)"

lemma map_of_update [simp]: "map_of (AList.update k v d) = (map_of d)(k \<mapsto> v)"
  by (simp add: update_conv')

lemma map_of_delete [simp]: "map_of (AList.delete k d) = (map_of d)(k := None)"
  by (simp add: delete_conv')

lemma dict_wf_update [simp]: "dict_wf d \<Longrightarrow> dict_wf (AList.update k v d)"
  by (rule distinct_update)

lemma dict_wf_delete [simp]: "dict_wf d \<Longrightarrow> dict_wf (AList.delete k d)"
  by (rule distinct_delete)

lemma dict_get_update [simp]:
  "dict_get (AList.update k v d) k' x = (if k' = k then v else dict_get d k' x)"
  by (simp add: dict_get_def)

lemma dict_get_Nil [simp]: "dict_get [] k x = x"
  by (simp add: dict_get_def)

lemma in_set_dict: "dict_wf d \<Longrightarrow> (k, v) \<in> set d \<longleftrightarrow> map_of d k = Some v"
  by (simp add: map_of_eq_Some_iff)

lemma set_update_subset: "set (AList.update k v d) \<subseteq> insert (k, v) (set d)"
  by (induction d) auto

lemma set_delete_subset: "set (AList.delete k d) \<subseteq> set d"
  by (auto simp: AList.delete_eq)

text \<open>A sum over the entries of a dict, and how an update or a deletion changes it.\<close>

definition dict_sum :: "('k \<Rightarrow> 'v \<Rightarrow> 'a::ab_group_add) \<Rightarrow> ('k, 'v) dict \<Rightarrow> 'a" where
  "dict_sum g d = (\<Sum>(k, v)\<leftarrow>d. g k v)"

lemma dict_sum_simps [simp]:
  "dict_sum g [] = 0"
  "dict_sum g ((k, v) # d) = g k v + dict_sum g d"
  by (simp_all add: dict_sum_def)

lemma dict_sum_cong:
  "(\<And>k v. (k, v) \<in> set d \<Longrightarrow> g k v = h k v) \<Longrightarrow> dict_sum g d = dict_sum h d"
  by (induction d) auto

lemma delete_absent: "map_of d k = None \<Longrightarrow> AList.delete k d = d"
  by (metis AList.delete_id fst_eq_Domain map_of_eq_None_iff image_iff)

lemma dict_sum_split:
  assumes "dict_wf d"
  shows "dict_sum g d =
    (case map_of d k of None \<Rightarrow> 0 | Some w \<Rightarrow> g k w) + dict_sum g (AList.delete k d)"
  using assms
proof (induction d)
  case Nil
  then show ?case by simp
next
  case (Cons p d)
  obtain a b where p: "p = (a, b)" by (cases p)
  show ?case
  proof (cases "a = k")
    case True
    with Cons.prems p have "k \<notin> fst ` set d" by auto
    then have "map_of d k = None" by (simp add: map_of_eq_None_iff)
    with p True show ?thesis by (simp add: delete_absent)
  next
    case False
    with Cons p show ?thesis by (simp add: algebra_simps split: option.split)
  qed
qed

lemma delete_update_same: "AList.delete k (AList.update k v d) = AList.delete k d"
  by (induction d) auto

lemma dict_sum_update:
  assumes "dict_wf d"
  shows "dict_sum g (AList.update k v d) = g k v + dict_sum g (AList.delete k d)"
  using dict_sum_split [of "AList.update k v d" g k] assms by (simp add: delete_update_same)

lemma dict_sum_delete_cong:
  assumes "\<And>k' v. k' \<noteq> k \<Longrightarrow> g k' v = h k' v"
  shows "dict_sum g (AList.delete k d) = dict_sum h (AList.delete k d)"
  by (rule dict_sum_cong) (use assms in \<open>auto simp: AList.delete_eq\<close>)

section \<open>Rounding\<close>

text \<open>
  Python's \<open>round\<close> rounds halves to the even neighbour; \<open>round(x, n)\<close> does so at the n-th
  decimal.  \<open>int(x)\<close> truncates towards zero.
\<close>

definition round_half_even :: "rat \<Rightarrow> int" where
  "round_half_even x =
     (let f = \<lfloor>x\<rfloor>; d = x - of_int f
      in if d < 1/2 then f else if 1/2 < d then f + 1 else if even f then f else f + 1)"

definition round_dec :: "nat \<Rightarrow> rat \<Rightarrow> rat" where
  "round_dec n x = of_int (round_half_even (x * 10 ^ n)) / 10 ^ n"

definition py_int :: "rat \<Rightarrow> int" where
  "py_int x = (if x < 0 then - \<lfloor>- x\<rfloor> else \<lfloor>x\<rfloor>)"

lemma round_half_even_of_int [simp]: "round_half_even (of_int n) = n"
  by (simp add: round_half_even_def)

lemma round_half_even_dist: "\<bar>x - of_int (round_half_even x)\<bar> \<le> 1/2"
proof -
  have "of_int \<lfloor>x\<rfloor> \<le> x" "x < of_int \<lfloor>x\<rfloor> + 1" by linarith+
  then show ?thesis by (auto simp: round_half_even_def Let_def abs_le_iff)
qed

lemma round_half_even_mono: "x \<le> y \<Longrightarrow> round_half_even x \<le> round_half_even y"
proof -
  assume xy: "x \<le> y"
  have fx: "of_int \<lfloor>x\<rfloor> \<le> x" "x < of_int \<lfloor>x\<rfloor> + 1" and fy: "of_int \<lfloor>y\<rfloor> \<le> y" by linarith+
  have "\<lfloor>x\<rfloor> \<le> \<lfloor>y\<rfloor>" using xy by (rule floor_mono)
  show ?thesis
  proof (cases "\<lfloor>x\<rfloor> = \<lfloor>y\<rfloor>")
    case True
    with xy show ?thesis by (auto simp: round_half_even_def Let_def)
  next
    case False
    with \<open>\<lfloor>x\<rfloor> \<le> \<lfloor>y\<rfloor>\<close> have "\<lfloor>x\<rfloor> + 1 \<le> \<lfloor>y\<rfloor>" by simp
    then show ?thesis by (auto simp: round_half_even_def Let_def)
  qed
qed

lemma round_dec_mono: "x \<le> y \<Longrightarrow> round_dec n x \<le> round_dec n y"
  by (simp add: round_dec_def divide_right_mono round_half_even_mono mult_right_mono)

lemma round_dec_exact: "round_dec n (of_int k / 10 ^ n) = of_int k / 10 ^ n"
  by (simp add: round_dec_def)

lemma round_dec_dist: "\<bar>x - round_dec n x\<bar> \<le> 1 / (2 * 10 ^ n)"
proof -
  let ?y = "x * 10 ^ n - of_int (round_half_even (x * 10 ^ n))"
  have "x - round_dec n x = ?y / 10 ^ n"
    by (simp add: round_dec_def diff_divide_distrib)
  then have "\<bar>x - round_dec n x\<bar> = \<bar>?y\<bar> / 10 ^ n" by (simp add: abs_divide)
  also have "\<dots> \<le> (1 / 2) / 10 ^ n" by (intro divide_right_mono round_half_even_dist) simp
  finally show ?thesis by simp
qed

lemma py_int_of_int [simp]: "py_int (of_int n) = n"
  by (simp add: py_int_def)

lemma py_int_nonneg: "0 \<le> x \<Longrightarrow> 0 \<le> py_int x"
  by (simp add: py_int_def)

lemma py_int_le: "0 \<le> x \<Longrightarrow> of_int (py_int x) \<le> x"
  by (simp add: py_int_def)

lemma py_int_gt: "0 \<le> x \<Longrightarrow> x < of_int (py_int x) + 1"
  using floor_correct [of x] by (simp add: py_int_def)

text \<open>
  A product of an integer with a rational of denominator below \<open>10 ^ 9\<close> that is within
  \<open>10 ^ -9\<close> of an integer is that integer: a tolerance test of \<open>1e-9\<close> is exact there.
\<close>

lemma near_int_exact:
  fixes r :: rat
  assumes den: "snd (quotient_of r) < 10 ^ 9"
    and near: "\<bar>of_int n * r - of_int m\<bar> \<le> 1 / 10 ^ 9"
  shows "of_int n * r = of_int m"
proof (rule ccontr)
  assume ne: "of_int n * r \<noteq> of_int m"
  obtain p q where pq: "quotient_of r = (p, q)" by (cases "quotient_of r")
  have q: "0 < q" using pq by (rule quotient_of_denom_pos)
  have r: "r = of_int p / of_int q" using pq by (rule quotient_of_div)
  have eq: "of_int n * r - of_int m = of_int (n * p - m * q) / (of_int q :: rat)"
    using q by (simp add: r field_simps)
  have "n * p - m * q \<noteq> 0"
  proof
    assume "n * p - m * q = 0"
    then have "of_int n * r - (of_int m :: rat) = 0" unfolding eq by simp
    with ne show False by simp
  qed
  then have "1 \<le> \<bar>n * p - m * q\<bar>" by linarith
  then have one: "(1::rat) \<le> \<bar>of_int (n * p - m * q)\<bar>"
    by (metis of_int_1_le_iff of_int_abs)
  have "\<bar>of_int n * r - of_int m\<bar> = \<bar>of_int (n * p - m * q)\<bar> / of_int q"
    using q unfolding eq by (simp add: abs_divide)
  with one q have "1 / of_int q \<le> \<bar>of_int n * r - (of_int m :: rat)\<bar>"
    by (simp add: divide_right_mono)
  moreover have "(of_int q :: rat) < 10 ^ 9"
    using den pq by (metis of_int_less_iff of_int_numeral of_int_power snd_conv)
  then have "1 / 10 ^ 9 < 1 / (of_int q :: rat)"
    using q by (simp add: frac_less2)
  ultimately show False using near by linarith
qed

section \<open>Strings\<close>

text \<open>\<open>str.strip\<close> removes white space at both ends; the characters are those of \<open>str.isspace\<close> below 128.\<close>

definition py_space :: "char \<Rightarrow> bool" where
  "py_space c \<longleftrightarrow> c \<in> {CHR 0x09, CHR 0x0A, CHR 0x0B, CHR 0x0C, CHR 0x0D, CHR 0x1C, CHR 0x1D,
     CHR 0x1E, CHR 0x1F, CHR 0x20}"

definition strip :: "string \<Rightarrow> string" where
  "strip s = rev (dropWhile py_space (rev (dropWhile py_space s)))"

text \<open>\<open>str.upper\<close> and \<open>str.lower\<close> on ASCII letters.\<close>

definition upper_char :: "char \<Rightarrow> char" where
  "upper_char c = (let n = (of_char c :: nat) in if 97 \<le> n \<and> n \<le> 122 then char_of (n - 32) else c)"

definition lower_char :: "char \<Rightarrow> char" where
  "lower_char c = (let n = (of_char c :: nat) in if 65 \<le> n \<and> n \<le> 90 then char_of (n + 32) else c)"

text \<open>The same on the bits of a character, which is how they are evaluated.\<close>

lemma upper_char_code [code]:
  "upper_char (Char b0 b1 b2 b3 b4 b5 b6 b7) =
     (if \<not> b7 \<and> b6 \<and> b5 \<and> (b0 \<or> b1 \<or> b2 \<or> b3 \<or> b4) \<and> \<not> (b4 \<and> b3 \<and> (b2 \<or> b1 \<and> b0))
      then Char b0 b1 b2 b3 b4 False b6 b7 else Char b0 b1 b2 b3 b4 b5 b6 b7)"
  by (cases b0; cases b1; cases b2; cases b3; cases b4; cases b5; cases b6; cases b7)
    (simp_all add: upper_char_def Let_def char_of_eq_iff)

lemma lower_char_code [code]:
  "lower_char (Char b0 b1 b2 b3 b4 b5 b6 b7) =
     (if \<not> b7 \<and> b6 \<and> \<not> b5 \<and> (b0 \<or> b1 \<or> b2 \<or> b3 \<or> b4) \<and> \<not> (b4 \<and> b3 \<and> (b2 \<or> b1 \<and> b0))
      then Char b0 b1 b2 b3 b4 True b6 b7 else Char b0 b1 b2 b3 b4 b5 b6 b7)"
  by (cases b0; cases b1; cases b2; cases b3; cases b4; cases b5; cases b6; cases b7)
    (simp_all add: lower_char_def Let_def char_of_eq_iff)

definition upper :: "string \<Rightarrow> string" where
  "upper s = map upper_char s"

definition lower :: "string \<Rightarrow> string" where
  "lower s = map lower_char s"

lemma py_space_low: "py_space c \<Longrightarrow> (of_char c :: nat) \<le> 32"
  by (auto simp: py_space_def)

lemma lower_space: "py_space (lower_char c) \<longleftrightarrow> py_space c"
proof (cases "65 \<le> (of_char c :: nat) \<and> (of_char c :: nat) \<le> 90")
  case False
  then show ?thesis by (auto simp: lower_char_def Let_def)
next
  case True
  then have "(of_char (lower_char c) :: nat) = of_char c + 32"
    by (simp add: lower_char_def Let_def)
  with True py_space_low [of c] py_space_low [of "lower_char c"] show ?thesis by linarith
qed

lemma strip_idem [simp]: "strip (strip s) = strip s"
proof -
  have d: "dropWhile P (dropWhile P xs) = dropWhile P xs" for P and xs :: "'a list"
    by (induction xs) auto
  have e: "dropWhile P (rev (dropWhile P (rev (dropWhile P xs)))) = rev (dropWhile P (rev (dropWhile P xs)))"
    for P and xs :: "'a list"
  proof (cases "dropWhile P xs")
    case Nil
    show ?thesis unfolding Nil by simp
  next
    case (Cons y ys)
    then have "\<not> P y" by (simp add: dropWhile_eq_Cons_conv)
    then have "dropWhile P (rev ys @ [y]) \<noteq> [] \<and> last (dropWhile P (rev ys @ [y])) = y"
      by (auto simp: dropWhile_append split: if_splits)
    with Cons \<open>\<not> P y\<close> show ?thesis
      by (cases "rev (dropWhile P (rev (dropWhile P xs)))") (auto simp: hd_rev [symmetric])
  qed
  show ?thesis unfolding strip_def by (simp add: d e)
qed

lemma strip_lower [simp]: "strip (lower s) = lower (strip s)"
  by (simp add: strip_def lower_def dropWhile_map rev_map comp_def lower_space)

lemma lower_idem [simp]: "lower (lower s) = lower s"
proof -
  have "lower_char (lower_char c) = lower_char c" for c
    by (cases c) (auto simp: lower_char_code)
  then show ?thesis by (simp add: lower_def)
qed

text \<open>The decimal digits of a number and \<open>f"{n:0wd}"\<close>.\<close>

fun digits_of :: "nat \<Rightarrow> string" where
  "digits_of n = (if n < 10 then [char_of (48 + n)] else digits_of (n div 10) @ [char_of (48 + n mod 10)])"

declare digits_of.simps [simp del]

definition zero_pad :: "nat \<Rightarrow> nat \<Rightarrow> string" where
  "zero_pad w n = replicate (w - length (digits_of n)) (CHR ''0'') @ digits_of n"

section \<open>Durable appends\<close>

text \<open>
  What a durable append of a line does: the whole line lands, or it raises with nothing, a part of the line
  or the whole line on disk.
\<close>

datatype write_outcome = W_ok | W_lost | W_torn | W_landed

section \<open>JSON values\<close>

text \<open>
  What \<open>json.dumps\<close> is given and \<open>json.loads\<close> returns; objects keep their key order.
\<close>

datatype json =
    JNull
  | JBool bool
  | JInt int
  | JNum rat
  | JStr string
  | JList "json list"
  | JObj "(string \<times> json) list"

text \<open>Python truth of a decoded value.\<close>

fun truthy :: "json \<Rightarrow> bool" where
  "truthy JNull = False"
| "truthy (JBool b) = b"
| "truthy (JInt n) = (n \<noteq> 0)"
| "truthy (JNum x) = (x \<noteq> 0)"
| "truthy (JStr s) = (s \<noteq> [])"
| "truthy (JList xs) = (xs \<noteq> [])"
| "truthy (JObj d) = (d \<noteq> [])"

text \<open>\<open>payload.get(k)\<close>, with \<open>None\<close> for a missing key, and \<open>payload[k]\<close>, which raises.\<close>

fun jget :: "json \<Rightarrow> string \<Rightarrow> json res" where
  "jget (JObj d) k = Inr (case map_of d k of None \<Rightarrow> JNull | Some v \<Rightarrow> v)"
| "jget _ k = Inl TypeError"

fun jindex :: "json \<Rightarrow> string \<Rightarrow> json res" where
  "jindex (JObj d) k = (case map_of d k of None \<Rightarrow> Inl KeyError | Some v \<Rightarrow> Inr v)"
| "jindex _ k = Inl TypeError"

text \<open>
  \<open>int(v)\<close> and \<open>float(v)\<close> of a decoded value.  A string is refused here: the writers modelled
  below never put a number into a JSON string.
\<close>

fun json_int :: "json \<Rightarrow> int res" where
  "json_int (JInt n) = Inr n"
| "json_int (JNum x) = Inr (py_int x)"
| "json_int (JBool b) = Inr (if b then 1 else 0)"
| "json_int (JStr s) = Inl ValueError"
| "json_int _ = Inl TypeError"

fun json_float :: "json \<Rightarrow> rat res" where
  "json_float (JInt n) = Inr (of_int n)"
| "json_float (JNum x) = Inr x"
| "json_float (JBool b) = Inr (if b then 1 else 0)"
| "json_float (JStr s) = Inl ValueError"
| "json_float _ = Inl TypeError"

text \<open>\<open>str(v)\<close>; \<open>S\<close> renders a value that is no string.\<close>

definition py_str :: "(json \<Rightarrow> string) \<Rightarrow> json \<Rightarrow> string" where
  "py_str S v = (case v of JStr s \<Rightarrow> s | _ \<Rightarrow> S v)"

definition of_opt :: "('a \<Rightarrow> json) \<Rightarrow> 'a option \<Rightarrow> json" where
  "of_opt f v = (case v of None \<Rightarrow> JNull | Some x \<Rightarrow> f x)"

lemma of_opt_simps [simp]: "of_opt f None = JNull" "of_opt f (Some x) = f x"
  by (simp_all add: of_opt_def)

text \<open>Fields the code reads without a conversion: a string, or a string or null.\<close>

fun json_str :: "json \<Rightarrow> string res" where
  "json_str (JStr s) = Inr s"
| "json_str _ = Inl TypeError"

fun json_opt_str :: "json \<Rightarrow> string option res" where
  "json_opt_str JNull = Inr None"
| "json_opt_str (JStr s) = Inr (Some s)"
| "json_opt_str _ = Inl TypeError"

fun json_opt_float :: "json \<Rightarrow> rat option res" where
  "json_opt_float JNull = Inr None"
| "json_opt_float (JNum x) = Inr (Some x)"
| "json_opt_float (JInt n) = Inr (Some (of_int n))"
| "json_opt_float _ = Inl TypeError"

end
