(* ===== verification/Lineage.thy ===== *)
theory Lineage
  imports Prelude
begin

text \<open>
  The chain of custody of \<open>src/src/quantagent/domain/lineage.py\<close>.  A \<open>Lineage\<close> is a total
  function from its fourteen field names to optional strings.  \<open>content_id\<close> is a truncated
  digest: SHA-256 over the canonical JSON text is the parameter \<open>H\<close>, and no theorem below
  assumes anything of it, so they hold for SHA-256 as for any other digest.
\<close>

datatype lineage_field =
    Research_id
  | Experiment_id
  | Strategy_id
  | Strategy_version_id
  | Model_version_id
  | Run_id
  | Signal_id
  | Order_intent_id
  | Order_id
  | Parent_order_id
  | Broker_order_id
  | Execution_id
  | Position_lot_id
  | Risk_decision_id

definition LINEAGE_FIELDS :: "lineage_field list" where
  "LINEAGE_FIELDS =
     [Research_id, Experiment_id, Strategy_id, Strategy_version_id, Model_version_id, Run_id,
      Signal_id, Order_intent_id, Order_id, Parent_order_id, Broker_order_id, Execution_id,
      Position_lot_id, Risk_decision_id]"

fun field_name :: "lineage_field \<Rightarrow> string" where
  "field_name Research_id = ''research_id''"
| "field_name Experiment_id = ''experiment_id''"
| "field_name Strategy_id = ''strategy_id''"
| "field_name Strategy_version_id = ''strategy_version_id''"
| "field_name Model_version_id = ''model_version_id''"
| "field_name Run_id = ''run_id''"
| "field_name Signal_id = ''signal_id''"
| "field_name Order_intent_id = ''order_intent_id''"
| "field_name Order_id = ''order_id''"
| "field_name Parent_order_id = ''parent_order_id''"
| "field_name Broker_order_id = ''broker_order_id''"
| "field_name Execution_id = ''execution_id''"
| "field_name Position_lot_id = ''position_lot_id''"
| "field_name Risk_decision_id = ''risk_decision_id''"

lemma set_LINEAGE_FIELDS: "set LINEAGE_FIELDS = UNIV"
proof -
  have "x \<in> set LINEAGE_FIELDS" for x by (cases x) (simp_all add: LINEAGE_FIELDS_def)
  then show ?thesis by auto
qed

lemma in_LINEAGE_FIELDS [simp]: "x \<in> set LINEAGE_FIELDS"
  by (simp add: set_LINEAGE_FIELDS)

lemma distinct_LINEAGE_FIELDS [simp]: "distinct LINEAGE_FIELDS"
  by (simp add: LINEAGE_FIELDS_def)

lemma field_name_inj: "field_name x = field_name y \<longleftrightarrow> x = y"
  by (cases x; cases y) simp_all

lemma inj_field_name [simp]: "inj_on field_name A"
  by (simp add: inj_on_def field_name_inj)

text \<open>The field type is finite, so lineages compare and evaluate like any record.\<close>

instantiation lineage_field :: enum
begin

definition enum_lineage_field :: "lineage_field list" where
  "enum_lineage_field = LINEAGE_FIELDS"

definition enum_all_lineage_field :: "(lineage_field \<Rightarrow> bool) \<Rightarrow> bool" where
  "enum_all_lineage_field P = list_all P LINEAGE_FIELDS"

definition enum_ex_lineage_field :: "(lineage_field \<Rightarrow> bool) \<Rightarrow> bool" where
  "enum_ex_lineage_field P = list_ex P LINEAGE_FIELDS"

instance
  by intro_classes
    (simp_all add: enum_lineage_field_def enum_all_lineage_field_def enum_ex_lineage_field_def
      set_LINEAGE_FIELDS list_all_iff list_ex_iff)

end

type_synonym lineage = "lineage_field \<Rightarrow> string option"

definition no_lineage :: lineage where
  "no_lineage = (\<lambda>_. None)"

text \<open>The digest of a JSON value, a parameter: \<open>sha256(json.dumps(v, sort_keys=True))\<close>.\<close>

type_synonym digest = "json \<Rightarrow> string"

definition content_id :: "digest \<Rightarrow> string \<Rightarrow> (string \<times> json) list \<Rightarrow> string" where
  "content_id H prefix parts = prefix @ ''_'' @ take 16 (H (JObj (sort_key fst parts)))"

text \<open>\<open>derive\<close> refuses a name that is not a field and overwrites the fields it is given.\<close>

definition field_of_name :: "string \<Rightarrow> lineage_field option" where
  "field_of_name name = List.find (\<lambda>f. field_name f = name) LINEAGE_FIELDS"

fun replace_fields :: "lineage \<Rightarrow> (string \<times> string option) list \<Rightarrow> lineage" where
  "replace_fields L [] = L"
| "replace_fields L ((name, v) # us) =
     (case field_of_name name of
        None \<Rightarrow> replace_fields L us
      | Some f \<Rightarrow> replace_fields (L(f := v)) us)"

definition derive :: "lineage \<Rightarrow> (string \<times> string option) list \<Rightarrow> lineage res" where
  "derive L updates =
     (if \<exists>u \<in> set updates. field_of_name (fst u) = None then Inl ValueError
      else Inr (replace_fields L updates))"

definition as_dict :: "lineage \<Rightarrow> (string, string) dict" where
  "as_dict L = concat (map (\<lambda>f. case L f of None \<Rightarrow> [] | Some v \<Rightarrow> [(field_name f, v)])
     LINEAGE_FIELDS)"

text \<open>\<open>sep.join(parts)\<close>.\<close>

fun str_join :: "string \<Rightarrow> string list \<Rightarrow> string" where
  "str_join sep [] = []"
| "str_join sep [s] = s"
| "str_join sep (s # t # ts) = s @ sep @ str_join sep (t # ts)"

definition describe :: "lineage \<Rightarrow> string" where
  "describe L = str_join '' -> '' (map (\<lambda>(name, value). name @ ''='' @ value) (as_dict L))"

definition depth :: "lineage \<Rightarrow> nat" where
  "depth L = length (as_dict L)"

definition is_ancestor_of :: "lineage \<Rightarrow> lineage \<Rightarrow> bool" where
  "is_ancestor_of L M \<longleftrightarrow>
     (let theirs = as_dict M
      in list_all (\<lambda>(name, value). map_of theirs name = Some value) (as_dict L))"

text \<open>
  \<open>from_mapping\<close> reads a decoded JSON payload and keeps the truthy entries of the known names
  only: a field that holds the empty string does not survive it.
\<close>

definition from_mapping :: "json \<Rightarrow> lineage res" where
  "from_mapping payload =
     (if \<not> truthy payload then Inr no_lineage
      else res_bind
        (map_res (\<lambda>f. res_bind (jget payload (field_name f)) (\<lambda>v.
             if truthy v then res_bind (json_str v) (\<lambda>s. Inr [(f, s)]) else Inr []))
           LINEAGE_FIELDS)
        (\<lambda>known. Inr (map_of (concat known))))"

definition lineage_json :: "lineage \<Rightarrow> json" where
  "lineage_json L = JObj (map (\<lambda>(n, v). (n, JStr v)) (as_dict L))"

section \<open>Deriving a lineage\<close>

lemma field_of_name_field_name [simp]: "field_of_name (field_name f) = Some f"
  by (cases f) (simp_all add: field_of_name_def LINEAGE_FIELDS_def)

lemma derive_known:
  "derive L [(field_name f, v)] = Inr (L(f := v))"
  "derive L [(field_name f, v), (field_name g, w)] = Inr (L(f := v, g := w))"
  by (simp_all add: derive_def)

lemma map_of_as_dict: "map_of (as_dict L) (field_name f) = L f"
proof -
  have "map_of (concat (map (\<lambda>f. case L f of None \<Rightarrow> [] | Some v \<Rightarrow> [(field_name f, v)]) fs))
      (field_name f) = (if f \<in> set fs then L f else None)" for fs
    by (induction fs) (auto simp: field_name_inj map_add_def split: option.splits)
  then show ?thesis by (simp add: as_dict_def)
qed

lemma as_dict_keys: "(n, v) \<in> set (as_dict L) \<longleftrightarrow> (\<exists>f. n = field_name f \<and> L f = Some v)"
  by (auto simp: as_dict_def set_LINEAGE_FIELDS field_name_inj split: option.splits)

lemma is_ancestor_of_iff: "is_ancestor_of L M \<longleftrightarrow> (\<forall>f v. L f = Some v \<longrightarrow> M f = Some v)"
proof -
  have "is_ancestor_of L M \<longleftrightarrow>
      (\<forall>n v. (n, v) \<in> set (as_dict L) \<longrightarrow> map_of (as_dict M) n = Some v)"
    by (auto simp: is_ancestor_of_def list_all_iff)
  also have "\<dots> \<longleftrightarrow> (\<forall>f v. L f = Some v \<longrightarrow> M f = Some v)"
    by (metis as_dict_keys map_of_as_dict)
  finally show ?thesis .
qed

lemma is_ancestor_of_refl: "is_ancestor_of L L"
  by (simp add: is_ancestor_of_iff)

lemma is_ancestor_of_trans: "is_ancestor_of L M \<Longrightarrow> is_ancestor_of M N \<Longrightarrow> is_ancestor_of L N"
  by (simp add: is_ancestor_of_iff)

lemma is_ancestor_of_update: "L f = None \<or> L f = v \<Longrightarrow> is_ancestor_of L (L(f := v))"
  by (auto simp: is_ancestor_of_iff)

section \<open>Round trip through a JSON mapping\<close>

text \<open>The lineages a JSON round trip keeps: no field holds the empty string.\<close>

definition no_empty_field :: "lineage \<Rightarrow> bool" where
  "no_empty_field L \<longleftrightarrow> (\<forall>f. L f \<noteq> Some [])"

text \<open>What comes back from any lineage: the fields that hold the empty string are gone.\<close>

definition drop_empty :: "lineage \<Rightarrow> lineage" where
  "drop_empty L = (\<lambda>f. if L f = Some [] then None else L f)"

lemma drop_empty_id: "no_empty_field L \<Longrightarrow> drop_empty L = L"
  by (auto simp: no_empty_field_def drop_empty_def)

lemma as_dict_empty_iff: "as_dict L = [] \<longleftrightarrow> L = no_lineage"
proof
  assume e: "as_dict L = []"
  show "L = no_lineage"
  proof
    fix f
    have "L f = map_of (as_dict L) (field_name f)" by (simp add: map_of_as_dict)
    with e show "L f = no_lineage f" by (simp add: no_lineage_def)
  qed
qed (simp add: as_dict_def no_lineage_def)

lemma map_of_map_JStr: "map_of (map (\<lambda>(n, v). (n, JStr v)) d) k = map_option JStr (map_of d k)"
  by (induction d) auto

lemma map_of_picks:
  "map_of (concat (map (\<lambda>f. case g f of None \<Rightarrow> [] | Some v \<Rightarrow> [(f, v)]) fs)) f =
     (if f \<in> set fs then g f else None)"
  by (induction fs) (auto simp: map_add_def split: option.splits)

lemma from_mapping_lineage_json: "from_mapping (lineage_json L) = Inr (drop_empty L)"
proof (cases "L = no_lineage")
  case True
  then have "as_dict L = []" by (simp add: as_dict_empty_iff)
  then show ?thesis
    using True by (simp add: from_mapping_def lineage_json_def drop_empty_def no_lineage_def)
next
  case False
  then have t: "truthy (lineage_json L)"
    by (simp add: lineage_json_def as_dict_empty_iff)
  let ?g = "\<lambda>f. drop_empty L f"
  let ?pick = "\<lambda>f. case ?g f of None \<Rightarrow> [] | Some v \<Rightarrow> [(f, v)]"
  have "map_res (\<lambda>f. res_bind (jget (lineage_json L) (field_name f)) (\<lambda>v.
             if truthy v then res_bind (json_str v) (\<lambda>s. Inr [(f, s)]) else Inr []))
           LINEAGE_FIELDS = Inr (map ?pick LINEAGE_FIELDS)"
    by (rule map_res_Inr)
      (auto simp: lineage_json_def map_of_map_JStr map_of_as_dict drop_empty_def
        split: option.splits)
  with t show ?thesis
    by (auto simp: from_mapping_def map_of_picks)
qed

lemma lineage_roundtrip: "no_empty_field L \<Longrightarrow> from_mapping (lineage_json L) = Inr L"
  by (simp add: from_mapping_lineage_json drop_empty_id)

lemma no_empty_field_update:
  "no_empty_field L \<Longrightarrow> v \<noteq> Some [] \<Longrightarrow> no_empty_field (L(f := v))"
  by (simp add: no_empty_field_def)

lemma content_id_nonempty [simp]: "content_id H p parts \<noteq> []"
  by (simp add: content_id_def)

end
