(* ===== verification/Orders.thy ===== *)
theory Orders
  imports Lineage
begin

text \<open>
  The order entities and the order state machine of \<open>src/src/quantagent/domain/orders.py\<close>.
  Fields are prefixed by the entity (\<open>fill_quantity\<close>, \<open>ord_quantity\<close>), as HOL record fields
  share one name space.  \<open>_now()\<close> is an argument wherever the code reads the clock.
\<close>

datatype side = BUY | SELL

fun side_value :: "side \<Rightarrow> string" where
  "side_value BUY = ''BUY''"
| "side_value SELL = ''SELL''"

fun side_sign :: "side \<Rightarrow> int" where
  "side_sign BUY = 1"
| "side_sign SELL = -1"

datatype order_status =
    PENDING_RISK
  | APPROVED
  | SUBMITTED
  | ACCEPTED
  | PARTIALLY_FILLED
  | FILLED
  | CANCEL_REQUESTED
  | CANCELLED
  | REJECTED
  | EXPIRED

definition TERMINAL_STATUSES :: "order_status list" where
  "TERMINAL_STATUSES = [FILLED, CANCELLED, REJECTED, EXPIRED]"

fun ALLOWED_TRANSITIONS :: "order_status \<Rightarrow> order_status list" where
  "ALLOWED_TRANSITIONS PENDING_RISK = [APPROVED, REJECTED]"
| "ALLOWED_TRANSITIONS APPROVED = [SUBMITTED, CANCELLED, REJECTED]"
| "ALLOWED_TRANSITIONS SUBMITTED = [ACCEPTED, REJECTED, CANCEL_REQUESTED, EXPIRED]"
| "ALLOWED_TRANSITIONS ACCEPTED =
     [PARTIALLY_FILLED, FILLED, CANCEL_REQUESTED, CANCELLED, EXPIRED, REJECTED]"
| "ALLOWED_TRANSITIONS PARTIALLY_FILLED =
     [PARTIALLY_FILLED, FILLED, CANCEL_REQUESTED, CANCELLED, EXPIRED]"
| "ALLOWED_TRANSITIONS CANCEL_REQUESTED = [CANCELLED, PARTIALLY_FILLED, FILLED]"
| "ALLOWED_TRANSITIONS FILLED = []"
| "ALLOWED_TRANSITIONS CANCELLED = []"
| "ALLOWED_TRANSITIONS REJECTED = []"
| "ALLOWED_TRANSITIONS EXPIRED = []"

datatype order_event_type =
    Ev_CREATED
  | Ev_RISK_APPROVED
  | Ev_RISK_REJECTED
  | Ev_SUBMITTED
  | Ev_ACCEPTED
  | Ev_PARTIAL_FILL
  | Ev_FILL
  | Ev_CANCEL_REQUESTED
  | Ev_CANCELLED
  | Ev_REJECTED
  | Ev_EXPIRED

fun TARGET_STATUS :: "order_event_type \<Rightarrow> order_status" where
  "TARGET_STATUS Ev_CREATED = PENDING_RISK"
| "TARGET_STATUS Ev_RISK_APPROVED = APPROVED"
| "TARGET_STATUS Ev_RISK_REJECTED = REJECTED"
| "TARGET_STATUS Ev_SUBMITTED = SUBMITTED"
| "TARGET_STATUS Ev_ACCEPTED = ACCEPTED"
| "TARGET_STATUS Ev_PARTIAL_FILL = PARTIALLY_FILLED"
| "TARGET_STATUS Ev_FILL = FILLED"
| "TARGET_STATUS Ev_CANCEL_REQUESTED = CANCEL_REQUESTED"
| "TARGET_STATUS Ev_CANCELLED = CANCELLED"
| "TARGET_STATUS Ev_REJECTED = REJECTED"
| "TARGET_STATUS Ev_EXPIRED = EXPIRED"

section \<open>Upstream entities\<close>

record signal =
  sig_signal_id :: string
  sig_symbol :: string
  sig_trade_date :: string
  sig_score :: rat
  sig_lineage :: lineage
  sig_created_at :: string

definition Signal_create ::
    "digest \<Rightarrow> string \<Rightarrow> string \<Rightarrow> string \<Rightarrow> rat \<Rightarrow> lineage \<Rightarrow> signal" where
  "Signal_create H now symbol trade_date score lineage =
     (let sid = content_id H ''sig''
            [(''run_id'', of_opt JStr (lineage Run_id)),
             (''strategy_version_id'', of_opt JStr (lineage Strategy_version_id)),
             (''symbol'', JStr symbol),
             (''trade_date'', JStr trade_date)]
      in \<lparr>sig_signal_id = sid, sig_symbol = symbol, sig_trade_date = trade_date,
          sig_score = score, sig_lineage = lineage(Signal_id := Some sid),
          sig_created_at = now\<rparr>)"

record target_position =
  tp_symbol :: string
  tp_trade_date :: string
  tp_target_weight :: rat
  tp_target_shares :: int
  tp_lineage :: lineage

record order_intent =
  oi_order_intent_id :: string
  oi_symbol :: string
  oi_side :: side
  oi_quantity :: int
  oi_trade_date :: string
  oi_limit_price :: "rat option"
  oi_reference_price :: "rat option"
  oi_lineage :: lineage
  oi_created_at :: string

definition OrderIntent_create ::
    "digest \<Rightarrow> string \<Rightarrow> string \<Rightarrow> side \<Rightarrow> int \<Rightarrow> string \<Rightarrow> lineage \<Rightarrow> rat option \<Rightarrow> rat option
     \<Rightarrow> order_intent res" where
  "OrderIntent_create H now symbol side quantity trade_date lineage limit_price reference_price =
     (if quantity \<le> 0 then Inl ValueError
      else let iid = content_id H ''oi''
            [(''run_id'', of_opt JStr (lineage Run_id)),
             (''signal_id'', of_opt JStr (lineage Signal_id)),
             (''symbol'', JStr symbol),
             (''side'', JStr (side_value side)),
             (''quantity'', JInt quantity),
             (''trade_date'', JStr trade_date)]
      in Inr \<lparr>oi_order_intent_id = iid, oi_symbol = symbol, oi_side = side,
              oi_quantity = quantity, oi_trade_date = trade_date,
              oi_limit_price = limit_price, oi_reference_price = reference_price,
              oi_lineage = lineage(Order_intent_id := Some iid), oi_created_at = now\<rparr>)"

text \<open>\<open>threshold\<close> and \<open>measured\<close> are untyped in the source: any JSON value here.\<close>

record risk_decision =
  rd_risk_decision_id :: string
  rd_approved :: bool
  rd_rule :: string
  rd_threshold :: json
  rd_measured :: json
  rd_reason :: string
  rd_decided_by :: string
  rd_decided_at :: string
  rd_lineage :: lineage

definition RiskDecision_create ::
    "digest \<Rightarrow> string \<Rightarrow> bool \<Rightarrow> string \<Rightarrow> json \<Rightarrow> json \<Rightarrow> string \<Rightarrow> lineage \<Rightarrow> string
     \<Rightarrow> risk_decision" where
  "RiskDecision_create H now approved rule threshold measured reason lineage decided_by =
     (let did = content_id H ''rd''
            [(''order_intent_id'', of_opt JStr (lineage Order_intent_id)),
             (''rule'', JStr rule), (''approved'', JBool approved), (''measured'', measured)]
      in \<lparr>rd_risk_decision_id = did, rd_approved = approved, rd_rule = rule,
          rd_threshold = threshold, rd_measured = measured, rd_reason = reason,
          rd_decided_by = decided_by, rd_decided_at = now,
          rd_lineage = lineage(Risk_decision_id := Some did)\<rparr>)"

section \<open>Execution entities\<close>

record fill =
  fill_execution_id :: string
  fill_order_id :: string
  fill_symbol :: string
  fill_side :: side
  fill_quantity :: int
  fill_price :: rat
  fill_reference_price :: "rat option"
  fill_commission :: rat
  fill_stamp_duty :: rat
  fill_transfer_fee :: rat
  fill_filled_at :: string
  fill_lineage :: lineage

definition fill_gross :: "fill \<Rightarrow> rat" where
  "fill_gross f = of_int (fill_quantity f) * fill_price f"

definition fill_fees :: "fill \<Rightarrow> rat" where
  "fill_fees f = fill_commission f + fill_stamp_duty f + fill_transfer_fee f"

definition fill_slippage :: "fill \<Rightarrow> rat" where
  "fill_slippage f = (case fill_reference_price f of
       None \<Rightarrow> 0
     | Some r \<Rightarrow> \<bar>fill_price f - r\<bar> * of_int (fill_quantity f))"

definition fill_cash_delta :: "fill \<Rightarrow> rat" where
  "fill_cash_delta f =
     (if fill_side f = BUY then - (fill_gross f + fill_fees f) else fill_gross f - fill_fees f)"

definition same_execution :: "fill \<Rightarrow> fill \<Rightarrow> bool" where
  "same_execution left right \<longleftrightarrow>
     fill_side left = fill_side right
     \<and> fill_quantity left = fill_quantity right
     \<and> \<bar>fill_price left - fill_price right\<bar> < 1 / 10 ^ 9
     \<and> \<bar>fill_fees left - fill_fees right\<bar> < 1 / 10 ^ 9"

record order_event =
  ev_event_type :: order_event_type
  ev_order_id :: string
  ev_sequence :: int
  ev_event_time :: string
  ev_fill :: "fill option"
  ev_reason :: "string option"
  ev_risk_decision :: "risk_decision option"
  ev_lineage :: lineage

record order =
  ord_order_id :: string
  ord_symbol :: string
  ord_side :: side
  ord_quantity :: int
  ord_status :: order_status
  ord_trade_date :: string
  ord_limit_price :: "rat option"
  ord_reference_price :: "rat option"
  ord_filled_quantity :: int
  ord_parent_order_id :: "string option"
  ord_broker_order_id :: "string option"
  ord_lineage :: lineage
  ord_fills :: "fill list"
  ord_reason :: "string option"

definition ord_remaining :: "order \<Rightarrow> int" where
  "ord_remaining od = max 0 (ord_quantity od - ord_filled_quantity od)"

definition is_terminal :: "order \<Rightarrow> bool" where
  "is_terminal od \<longleftrightarrow> ord_status od \<in> set TERMINAL_STATUSES"

definition average_fill_price :: "order \<Rightarrow> rat option" where
  "average_fill_price od =
     (if ord_fills od = [] then None
      else let volume = (\<Sum>f\<leftarrow>ord_fills od. fill_quantity f)
           in if volume \<noteq> 0
              then Some ((\<Sum>f\<leftarrow>ord_fills od. of_int (fill_quantity f) * fill_price f) / of_int volume)
              else None)"

definition ord_total_fees :: "order \<Rightarrow> rat" where
  "ord_total_fees od = (\<Sum>f\<leftarrow>ord_fills od. fill_fees f)"

definition leaves_quantity :: "order \<Rightarrow> int" where
  "leaves_quantity od = (if is_terminal od then 0 else ord_remaining od)"

definition last_quantity :: "order \<Rightarrow> int" where
  "last_quantity od = (if ord_fills od = [] then 0 else fill_quantity (last (ord_fills od)))"

definition cumulative_quantity :: "order \<Rightarrow> int" where
  "cumulative_quantity od = ord_filled_quantity od"

definition Order_from_intent :: "digest \<Rightarrow> order_intent \<Rightarrow> string option \<Rightarrow> order" where
  "Order_from_intent H intent parent =
     (let oid = content_id H ''ord''
            [(''order_intent_id'', JStr (oi_order_intent_id intent)),
             (''parent'', of_opt JStr parent)]
      in \<lparr>ord_order_id = oid, ord_symbol = oi_symbol intent, ord_side = oi_side intent,
          ord_quantity = oi_quantity intent, ord_status = PENDING_RISK,
          ord_trade_date = oi_trade_date intent, ord_limit_price = oi_limit_price intent,
          ord_reference_price = oi_reference_price intent, ord_filled_quantity = 0,
          ord_parent_order_id = parent, ord_broker_order_id = None,
          ord_lineage = (oi_lineage intent)(Order_id := Some oid, Parent_order_id := parent),
          ord_fills = [], ord_reason = None\<rparr>)"

section \<open>Applying an event\<close>

definition assert_transition :: "order \<Rightarrow> order_status \<Rightarrow> unit res" where
  "assert_transition od target =
     (if target \<in> set (ALLOWED_TRANSITIONS (ord_status od)) then Inr () else Inl IllegalTransition)"

definition assert_rejectable :: "order \<Rightarrow> order_event \<Rightarrow> unit res" where
  "assert_rejectable od event =
     (if ord_filled_quantity od \<noteq> 0 \<or> ord_fills od \<noteq> [] then Inl IllegalTransition
      else if strip (case ev_reason event of None \<Rightarrow> [] | Some r \<Rightarrow> r) = [] then Inl ValueError
      else Inr ())"

text \<open>
  \<open>event.reason or self.reason\<close>: the empty string is falsy.
\<close>

definition or_reason :: "string option \<Rightarrow> string option \<Rightarrow> string option" where
  "or_reason a b = (case a of None \<Rightarrow> b | Some r \<Rightarrow> if r = [] then b else Some r)"

text \<open>
  \<open>Order.apply\<close> returns \<open>self\<close> for a re-delivered execution and \<open>OrderBook.apply\<close> tells that
  case by identity, so the result keeps the two cases apart.
\<close>

datatype applied = Same | Updated order

definition is_fill_event :: "order_event_type \<Rightarrow> bool" where
  "is_fill_event t \<longleftrightarrow> t = Ev_PARTIAL_FILL \<or> t = Ev_FILL"

definition apply_new_fill :: "order \<Rightarrow> order_status \<Rightarrow> fill \<Rightarrow> applied res" where
  "apply_new_fill od target f =
     res_bind (if is_terminal od then assert_transition od target else Inr ()) (\<lambda>_.
       let filled = ord_filled_quantity od + fill_quantity f in
       if ord_quantity od < filled then Inl ValueError
       else let target' = (if filled = ord_quantity od then FILLED else PARTIALLY_FILLED) in
         res_bind (assert_transition od target') (\<lambda>_.
           Inr (Updated (od\<lparr>ord_status := target', ord_filled_quantity := filled,
                           ord_fills := ord_fills od @ [f]\<rparr>))))"

definition Order_apply :: "order \<Rightarrow> order_event \<Rightarrow> applied res" where
  "Order_apply od event =
     (let target = TARGET_STATUS (ev_event_type event) in
      if is_fill_event (ev_event_type event) then
        (case ev_fill event of
           None \<Rightarrow> Inl ValueError
         | Some f \<Rightarrow>
             (case List.find (\<lambda>g. fill_execution_id g = fill_execution_id f) (ord_fills od) of
                Some existing \<Rightarrow>
                  (if same_execution existing f then Inr Same else Inl DuplicateExecution)
              | None \<Rightarrow> apply_new_fill od target f))
      else
        res_bind (assert_transition od target) (\<lambda>_.
          res_bind (if target = REJECTED then assert_rejectable od event else Inr ()) (\<lambda>_.
            Inr (Updated (od\<lparr>ord_status := target,
                            ord_reason := or_reason (ev_reason event) (ord_reason od)\<rparr>)))))"

text \<open>The snapshot after an event: \<open>self\<close> when nothing happened.\<close>

definition Order_step :: "order \<Rightarrow> order_event \<Rightarrow> order res" where
  "Order_step od event =
     res_bind (Order_apply od event) (\<lambda>r. Inr (case r of Same \<Rightarrow> od | Updated od' \<Rightarrow> od'))"

section \<open>Position lots, corporate actions and cash movements\<close>

record position_lot =
  lot_position_lot_id :: string
  lot_symbol :: string
  lot_quantity :: int
  lot_cost_price :: rat
  lot_acquired_on :: string
  lot_lineage :: lineage

definition sellable_on :: "position_lot \<Rightarrow> string \<Rightarrow> bool" where
  "sellable_on lot trade_date \<longleftrightarrow> lot_acquired_on lot < trade_date"

definition PositionLot_from_fill :: "digest \<Rightarrow> fill \<Rightarrow> string \<Rightarrow> position_lot" where
  "PositionLot_from_fill H f trade_date =
     (let lid = content_id H ''lot'' [(''execution_id'', JStr (fill_execution_id f))];
          all_in = (if fill_quantity f \<noteq> 0
                    then (fill_gross f + fill_fees f) / of_int (fill_quantity f)
                    else fill_price f)
      in \<lparr>lot_position_lot_id = lid, lot_symbol = fill_symbol f,
          lot_quantity = fill_quantity f, lot_cost_price = all_in,
          lot_acquired_on = trade_date,
          lot_lineage = (fill_lineage f)(Position_lot_id := Some lid)\<rparr>)"

record corporate_action =
  ca_corporate_action_id :: string
  ca_symbol :: string
  ca_ex_date :: string
  ca_share_ratio :: rat
  ca_cash_per_share :: rat
  ca_lineage :: lineage

definition CorporateAction_make ::
    "string \<Rightarrow> string \<Rightarrow> string \<Rightarrow> rat \<Rightarrow> rat \<Rightarrow> lineage \<Rightarrow> corporate_action res" where
  "CorporateAction_make aid symbol ex_date share_ratio cash_per_share lineage =
     (if share_ratio \<le> 0 then Inl ValueError
      else if cash_per_share < 0 then Inl ValueError
      else Inr \<lparr>ca_corporate_action_id = aid, ca_symbol = symbol, ca_ex_date = ex_date,
                ca_share_ratio = share_ratio, ca_cash_per_share = cash_per_share,
                ca_lineage = lineage\<rparr>)"

definition CorporateAction_create ::
    "digest \<Rightarrow> string \<Rightarrow> string \<Rightarrow> lineage \<Rightarrow> rat \<Rightarrow> rat \<Rightarrow> corporate_action res" where
  "CorporateAction_create H symbol ex_date lineage share_ratio cash_per_share =
     CorporateAction_make
       (content_id H ''ca''
          [(''symbol'', JStr symbol), (''ex_date'', JStr ex_date),
           (''share_ratio'', JNum (round_dec 9 share_ratio)),
           (''cash_per_share'', JNum (round_dec 9 cash_per_share)),
           (''run_id'', of_opt JStr (lineage Run_id))])
       symbol ex_date share_ratio cash_per_share lineage"

definition moves_money :: "corporate_action \<Rightarrow> bool" where
  "moves_money a \<longleftrightarrow> ca_share_ratio a \<noteq> 1 \<or> ca_cash_per_share a \<noteq> 0"

record cash_movement =
  cm_amount :: rat
  cm_reason :: string
  cm_occurred_at :: string
  cm_lineage :: lineage

definition sellable_quantity :: "position_lot list \<Rightarrow> string \<Rightarrow> int" where
  "sellable_quantity lots trade_date =
     (\<Sum>lot\<leftarrow>filter (\<lambda>lot. sellable_on lot trade_date) lots. lot_quantity lot)"

definition total_quantity :: "position_lot list \<Rightarrow> int" where
  "total_quantity lots = (\<Sum>lot\<leftarrow>lots. lot_quantity lot)"

section \<open>The transition table\<close>

fun status_rank :: "order_status \<Rightarrow> nat" where
  "status_rank PENDING_RISK = 0"
| "status_rank APPROVED = 1"
| "status_rank SUBMITTED = 2"
| "status_rank ACCEPTED = 3"
| "status_rank PARTIALLY_FILLED = 4"
| "status_rank CANCEL_REQUESTED = 4"
| "status_rank FILLED = 5"
| "status_rank CANCELLED = 5"
| "status_rank REJECTED = 5"
| "status_rank EXPIRED = 5"

definition allowed_transition :: "order_status \<Rightarrow> order_status \<Rightarrow> bool" where
  "allowed_transition s t \<longleftrightarrow> t \<in> set (ALLOWED_TRANSITIONS s)"

definition terminal_status :: "order_status \<Rightarrow> bool" where
  "terminal_status s \<longleftrightarrow> s \<in> set TERMINAL_STATUSES"

lemma terminal_status_iff:
  "terminal_status s \<longleftrightarrow> s = FILLED \<or> s = CANCELLED \<or> s = REJECTED \<or> s = EXPIRED"
  by (simp add: terminal_status_def TERMINAL_STATUSES_def)

lemma terminal_no_transitions: "terminal_status s \<longleftrightarrow> ALLOWED_TRANSITIONS s = []"
  by (cases s) (simp_all add: terminal_status_iff)

interpretation order_table: status_table allowed_transition terminal_status status_rank
proof unfold_locales
  fix s t
  show "terminal_status s \<Longrightarrow> \<not> allowed_transition s t"
    by (simp add: terminal_no_transitions allowed_transition_def)
  show "allowed_transition s t \<Longrightarrow> status_rank s \<le> status_rank t"
    by (cases s) (auto simp: allowed_transition_def)
qed

lemma is_terminal_status: "is_terminal od \<longleftrightarrow> terminal_status (ord_status od)"
  by (simp add: is_terminal_def terminal_status_def)

lemma assert_transition_Inr [simp]:
  "assert_transition od t = Inr u \<longleftrightarrow> allowed_transition (ord_status od) t"
  by (simp add: assert_transition_def allowed_transition_def)

section \<open>What one event does to an order\<close>

lemma same_execution_refl [simp]: "same_execution f f"
  by (simp add: same_execution_def)

lemma same_execution_sym: "same_execution f g \<longleftrightarrow> same_execution g f"
  by (auto simp: same_execution_def abs_minus_commute)

lemma apply_new_fill_Inr:
  "apply_new_fill od t f = Inr r \<longleftrightarrow>
     \<not> is_terminal od \<and> ord_filled_quantity od + fill_quantity f \<le> ord_quantity od \<and>
     (let t' = (if ord_filled_quantity od + fill_quantity f = ord_quantity od
                then FILLED else PARTIALLY_FILLED)
      in allowed_transition (ord_status od) t' \<and>
         r = Updated (od\<lparr>ord_status := t',
               ord_filled_quantity := ord_filled_quantity od + fill_quantity f,
               ord_fills := ord_fills od @ [f]\<rparr>))"
  using order_table.terminal_final [of "ord_status od"]
  by (auto simp: apply_new_fill_def res_bind_Inr_iff Let_def is_terminal_status)

lemma Order_apply_fill:
  assumes "is_fill_event (ev_event_type e)"
  shows "Order_apply od e = Inr (Updated od') \<longleftrightarrow>
    (\<exists>f. ev_fill e = Some f \<and>
         (\<forall>g \<in> set (ord_fills od). fill_execution_id g \<noteq> fill_execution_id f) \<and>
         apply_new_fill od (TARGET_STATUS (ev_event_type e)) f = Inr (Updated od'))"
  using assms by (auto simp: Order_apply_def find_None_iff find_Some_iff split: option.splits)

lemma Order_apply_other:
  assumes "\<not> is_fill_event (ev_event_type e)"
  shows "Order_apply od e = Inr r \<longleftrightarrow>
    allowed_transition (ord_status od) (TARGET_STATUS (ev_event_type e)) \<and>
    (TARGET_STATUS (ev_event_type e) = REJECTED \<longrightarrow> assert_rejectable od e = Inr ()) \<and>
    r = Updated (od\<lparr>ord_status := TARGET_STATUS (ev_event_type e),
                   ord_reason := or_reason (ev_reason e) (ord_reason od)\<rparr>)"
  using assms by (auto simp: Order_apply_def Let_def res_bind_Inr_iff)

text \<open>The two ways an event can change an order.\<close>

lemma Order_apply_UpdatedE:
  assumes "Order_apply od e = Inr (Updated od')"
  obtains (fill) f where "is_fill_event (ev_event_type e)" "ev_fill e = Some f"
      "\<forall>g \<in> set (ord_fills od). fill_execution_id g \<noteq> fill_execution_id f"
      "\<not> is_terminal od"
      "ord_filled_quantity od + fill_quantity f \<le> ord_quantity od"
      "allowed_transition (ord_status od) (ord_status od')"
      "od' = od\<lparr>ord_status := if ord_filled_quantity od + fill_quantity f = ord_quantity od
                             then FILLED else PARTIALLY_FILLED,
               ord_filled_quantity := ord_filled_quantity od + fill_quantity f,
               ord_fills := ord_fills od @ [f]\<rparr>"
    | (other) "\<not> is_fill_event (ev_event_type e)"
      "allowed_transition (ord_status od) (TARGET_STATUS (ev_event_type e))"
      "TARGET_STATUS (ev_event_type e) = REJECTED \<Longrightarrow> assert_rejectable od e = Inr ()"
      "od' = od\<lparr>ord_status := TARGET_STATUS (ev_event_type e),
               ord_reason := or_reason (ev_reason e) (ord_reason od)\<rparr>"
proof (cases "is_fill_event (ev_event_type e)")
  case True
  with assms obtain f where f: "ev_fill e = Some f"
      "\<forall>g \<in> set (ord_fills od). fill_execution_id g \<noteq> fill_execution_id f"
      and app: "apply_new_fill od (TARGET_STATUS (ev_event_type e)) f = Inr (Updated od')"
    by (auto simp: Order_apply_fill)
  from app show ?thesis
    by (intro fill [OF True f]) (simp_all add: apply_new_fill_Inr Let_def)
next
  case False
  then show ?thesis using assms by (intro other) (simp_all add: Order_apply_other)
qed

lemma non_fill_target: "\<not> is_fill_event t \<Longrightarrow> TARGET_STATUS t \<noteq> FILLED \<and> TARGET_STATUS t \<noteq> PARTIALLY_FILLED"
  by (cases t) (simp_all add: is_fill_event_def)

lemma Order_apply_Updated_status:
  "Order_apply od e = Inr (Updated od') \<Longrightarrow> allowed_transition (ord_status od) (ord_status od')"
  by (erule Order_apply_UpdatedE) simp_all

text \<open>Identity and economics of the order are never rewritten.\<close>

lemma Order_apply_frame:
  "Order_apply od e = Inr (Updated od') \<Longrightarrow>
     ord_order_id od' = ord_order_id od \<and> ord_symbol od' = ord_symbol od \<and>
     ord_side od' = ord_side od \<and> ord_quantity od' = ord_quantity od \<and>
     ord_lineage od' = ord_lineage od \<and> ord_limit_price od' = ord_limit_price od \<and>
     ord_reference_price od' = ord_reference_price od \<and>
     ord_parent_order_id od' = ord_parent_order_id od \<and> ord_trade_date od' = ord_trade_date od"
  by (erule Order_apply_UpdatedE) simp_all

lemma Order_step_cases:
  assumes "Order_step od e = Inr od'"
  obtains (same) "Order_apply od e = Inr Same" "od' = od"
    | (updated) "Order_apply od e = Inr (Updated od')"
proof -
  from assms obtain r where "Order_apply od e = Inr r"
      "od' = (case r of Same \<Rightarrow> od | Updated od1 \<Rightarrow> od1)"
    by (auto simp: Order_step_def res_bind_Inr_iff)
  then show ?thesis using same updated by (cases r) auto
qed

section \<open>The order invariant\<close>

definition filled_sum :: "fill list \<Rightarrow> int" where
  "filled_sum fs = (\<Sum>f\<leftarrow>fs. fill_quantity f)"

lemma filled_sum_simps [simp]:
  "filled_sum [] = 0"
  "filled_sum (f # fs) = fill_quantity f + filled_sum fs"
  "filled_sum (fs @ gs) = filled_sum fs + filled_sum gs"
  by (simp_all add: filled_sum_def)

definition order_ok :: "order \<Rightarrow> bool" where
  "order_ok od \<longleftrightarrow>
     ord_filled_quantity od = filled_sum (ord_fills od)
     \<and> ord_filled_quantity od \<le> ord_quantity od
     \<and> distinct (map fill_execution_id (ord_fills od))
     \<and> (ord_status od = FILLED \<longrightarrow> ord_filled_quantity od = ord_quantity od)
     \<and> (ord_status od \<in> {PENDING_RISK, APPROVED, SUBMITTED, ACCEPTED, REJECTED} \<longrightarrow> ord_fills od = [])
     \<and> (ord_status od = PARTIALLY_FILLED \<longrightarrow>
          ord_fills od \<noteq> [] \<and> ord_filled_quantity od < ord_quantity od)"

lemma Order_from_intent_simps [simp]:
  "ord_quantity (Order_from_intent H i p) = oi_quantity i"
  "ord_side (Order_from_intent H i p) = oi_side i"
  "ord_symbol (Order_from_intent H i p) = oi_symbol i"
  "ord_status (Order_from_intent H i p) = PENDING_RISK"
  "ord_filled_quantity (Order_from_intent H i p) = 0"
  "ord_fills (Order_from_intent H i p) = []"
  "ord_reason (Order_from_intent H i p) = None"
  "ord_lineage (Order_from_intent H i p) =
     (oi_lineage i)(Order_id := Some (ord_order_id (Order_from_intent H i p)),
                    Parent_order_id := p)"
  by (simp_all add: Order_from_intent_def Let_def)

lemma order_ok_from_intent: "0 \<le> oi_quantity i \<Longrightarrow> order_ok (Order_from_intent H i p)"
  by (simp add: order_ok_def)

lemma order_ok_apply:
  assumes ok: "order_ok od" and app: "Order_apply od e = Inr (Updated od')"
  shows "order_ok od'"
  using app
proof (cases rule: Order_apply_UpdatedE)
  case (fill f)
  then have "fill_execution_id f \<notin> fill_execution_id ` set (ord_fills od)" by auto
  with fill ok show ?thesis by (auto simp: order_ok_def)
next
  case other
  let ?t = "TARGET_STATUS (ev_event_type e)"
  have early: "ord_status od \<in> {PENDING_RISK, APPROVED, SUBMITTED}"
    if "?t \<in> {PENDING_RISK, APPROVED, SUBMITTED, ACCEPTED}"
    using other(2) that by (cases "ord_status od") (auto simp: allowed_transition_def)
  have "?t = REJECTED \<Longrightarrow> ord_fills od = []"
    using other(3) by (auto simp: assert_rejectable_def split: if_splits)
  with early non_fill_target [OF other(1)] ok show ?thesis
    unfolding other(4) by (auto simp: order_ok_def)
qed

lemma order_ok_step: "order_ok od \<Longrightarrow> Order_step od e = Inr od' \<Longrightarrow> order_ok od'"
  by (erule Order_step_cases) (auto intro: order_ok_apply)

interpretation order_machine: guarded_machine Order_step order_ok
  by unfold_locales (rule order_ok_step)

lemma run_frame:
  "run_steps Order_step od es = Inr od' \<Longrightarrow>
     ord_order_id od' = ord_order_id od \<and> ord_quantity od' = ord_quantity od \<and>
     ord_side od' = ord_side od \<and> ord_symbol od' = ord_symbol od \<and> ord_lineage od' = ord_lineage od"
proof (induction es arbitrary: od)
  case Nil
  then show ?case by simp
next
  case (Cons e es)
  then obtain od1 where s: "Order_step od e = Inr od1" and r: "run_steps Order_step od1 es = Inr od'"
    by (auto simp: res_bind_Inr_iff)
  from s have "ord_order_id od1 = ord_order_id od \<and> ord_quantity od1 = ord_quantity od \<and>
      ord_side od1 = ord_side od \<and> ord_symbol od1 = ord_symbol od \<and> ord_lineage od1 = ord_lineage od"
    by (cases rule: Order_step_cases) (auto dest: Order_apply_frame)
  with Cons.IH [OF r] show ?case by simp
qed

lemma terminal_step: "is_terminal od \<Longrightarrow> Order_step od e = Inr od' \<Longrightarrow> od' = od"
proof (erule Order_step_cases)
  assume t: "is_terminal od" and u: "Order_apply od e = Inr (Updated od')"
  from t Order_apply_Updated_status [OF u] show "od' = od"
    using order_table.terminal_final by (auto simp: is_terminal_status)
qed

end
