(* ===== verification/Order_Book.thy ===== *)
theory Order_Book
  imports Orders
begin

text \<open>
  The append-only order book of \<open>src/src/quantagent/domain/orders.py\<close> (class \<open>OrderBook\<close>):
  the current snapshot of every order and the log of every event ever applied.
\<close>

record order_book =
  bk_orders :: "(string, order) dict"
  bk_events :: "order_event list"

definition empty_book :: order_book where
  "empty_book = \<lparr>bk_orders = [], bk_events = []\<rparr>"

definition OrderBook_open ::
    "digest \<Rightarrow> string \<Rightarrow> order_intent \<Rightarrow> string option \<Rightarrow> order_book \<Rightarrow> order \<times> order_book" where
  "OrderBook_open H now intent parent book =
     (let od = Order_from_intent H intent parent in
      case map_of (bk_orders book) (ord_order_id od) of
        Some existing \<Rightarrow> (existing, book)
      | None \<Rightarrow>
          (od, \<lparr>bk_orders = AList.update (ord_order_id od) od (bk_orders book),
                bk_events = bk_events book @
                  [\<lparr>ev_event_type = Ev_CREATED, ev_order_id = ord_order_id od,
                    ev_sequence = int (length (bk_events book)), ev_event_time = now,
                    ev_fill = None, ev_reason = None, ev_risk_decision = None,
                    ev_lineage = ord_lineage od\<rparr>]\<rparr>))"

definition OrderBook_apply ::
    "string \<Rightarrow> string \<Rightarrow> order_event_type \<Rightarrow> fill option \<Rightarrow> string option
     \<Rightarrow> risk_decision option \<Rightarrow> order_book \<Rightarrow> (order \<times> order_book) res" where
  "OrderBook_apply now oid event_type f reason rd book =
     (case map_of (bk_orders book) oid of
        None \<Rightarrow> Inl KeyError
      | Some od \<Rightarrow>
          (let event = \<lparr>ev_event_type = event_type, ev_order_id = oid,
                        ev_sequence = int (length (bk_events book)), ev_event_time = now,
                        ev_fill = f, ev_reason = reason, ev_risk_decision = rd,
                        ev_lineage = ord_lineage od\<rparr>
           in case Order_apply od event of
                Inl e \<Rightarrow> Inl e
              | Inr Same \<Rightarrow> Inr (od, book)
              | Inr (Updated od') \<Rightarrow>
                  Inr (od', \<lparr>bk_orders = AList.update oid od' (bk_orders book),
                             bk_events = bk_events book @ [event]\<rparr>)))"

definition state_of :: "order_book \<Rightarrow> string \<Rightarrow> order res" where
  "state_of book oid = (case map_of (bk_orders book) oid of None \<Rightarrow> Inl KeyError | Some od \<Rightarrow> Inr od)"

definition history_of :: "order_book \<Rightarrow> string \<Rightarrow> order_event list" where
  "history_of book oid = filter (\<lambda>e. ev_order_id e = oid) (bk_events book)"

definition book_orders :: "order_book \<Rightarrow> order list" where
  "book_orders book = map snd (bk_orders book)"

definition event_fills :: "order_event list \<Rightarrow> fill list" where
  "event_fills es = concat (map (\<lambda>e. case ev_fill e of None \<Rightarrow> [] | Some f \<Rightarrow> [f]) es)"

definition book_fills :: "order_book \<Rightarrow> fill list" where
  "book_fills book = event_fills (bk_events book)"

definition children_of :: "order_book \<Rightarrow> string \<Rightarrow> order list" where
  "children_of book parent = filter (\<lambda>od. ord_parent_order_id od = Some parent) (book_orders book)"

section \<open>Commands and runs\<close>

text \<open>
  A client's call with the clock reading it happens at.  A call that raises leaves the book as
  it was, since \<open>Order.apply\<close> raises before anything is recorded; a run goes on after it.
\<close>

datatype book_call =
    Open string order_intent "string option"
  | Apply string string order_event_type "fill option" "string option" "risk_decision option"

fun do_call :: "digest \<Rightarrow> order_book \<Rightarrow> book_call \<Rightarrow> order_book res" where
  "do_call H book (Open now intent parent) = Inr (snd (OrderBook_open H now intent parent book))"
| "do_call H book (Apply now oid t f reason rd) =
     res_bind (OrderBook_apply now oid t f reason rd book) (\<lambda>(_, book'). Inr book')"

definition book_try :: "digest \<Rightarrow> order_book \<Rightarrow> book_call \<Rightarrow> order_book" where
  "book_try H book c = (case do_call H book c of Inl _ \<Rightarrow> book | Inr book' \<Rightarrow> book')"

definition book_run :: "digest \<Rightarrow> order_book \<Rightarrow> book_call list \<Rightarrow> order_book" where
  "book_run H = foldl (book_try H)"

lemma book_run_simps [simp]:
  "book_run H b [] = b"
  "book_run H b (c # cs) = book_run H (book_try H b c) cs"
  by (simp_all add: book_run_def)

text \<open>What a call can do to the book: nothing, open a new order, or apply one event.\<close>

definition created_event :: "string \<Rightarrow> order \<Rightarrow> nat \<Rightarrow> order_event" where
  "created_event now od n =
     \<lparr>ev_event_type = Ev_CREATED, ev_order_id = ord_order_id od, ev_sequence = int n,
      ev_event_time = now, ev_fill = None, ev_reason = None, ev_risk_decision = None,
      ev_lineage = ord_lineage od\<rparr>"

definition applied_event ::
    "string \<Rightarrow> string \<Rightarrow> order_event_type \<Rightarrow> fill option \<Rightarrow> string option
     \<Rightarrow> risk_decision option \<Rightarrow> lineage \<Rightarrow> nat \<Rightarrow> order_event" where
  "applied_event now oid t f reason rd L n =
     \<lparr>ev_event_type = t, ev_order_id = oid, ev_sequence = int n, ev_event_time = now,
      ev_fill = f, ev_reason = reason, ev_risk_decision = rd, ev_lineage = L\<rparr>"

lemma created_event_simps [simp]:
  "ev_event_type (created_event now od n) = Ev_CREATED"
  "ev_order_id (created_event now od n) = ord_order_id od"
  "ev_sequence (created_event now od n) = int n"
  "ev_fill (created_event now od n) = None"
  by (simp_all add: created_event_def)

lemma applied_event_simps [simp]:
  "ev_event_type (applied_event now oid t f reason rd L n) = t"
  "ev_order_id (applied_event now oid t f reason rd L n) = oid"
  "ev_sequence (applied_event now oid t f reason rd L n) = int n"
  "ev_fill (applied_event now oid t f reason rd L n) = f"
  "ev_reason (applied_event now oid t f reason rd L n) = reason"
  by (simp_all add: applied_event_def)

lemma OrderBook_open_known:
  "map_of (bk_orders b) (ord_order_id (Order_from_intent H i p)) = Some od \<Longrightarrow>
     OrderBook_open H now i p b = (od, b)"
  by (simp add: OrderBook_open_def Let_def)

lemma OrderBook_open_new:
  "map_of (bk_orders b) (ord_order_id (Order_from_intent H i p)) = None \<Longrightarrow>
     OrderBook_open H now i p b =
       (let od = Order_from_intent H i p in
        (od, \<lparr>bk_orders = AList.update (ord_order_id od) od (bk_orders b),
              bk_events = bk_events b @ [created_event now od (length (bk_events b))]\<rparr>))"
  by (simp add: OrderBook_open_def Let_def created_event_def)

lemma OrderBook_apply_Inr:
  "OrderBook_apply now oid t f reason rd b = Inr (od', b') \<longleftrightarrow>
     (\<exists>od. map_of (bk_orders b) oid = Some od \<and>
        (let e = applied_event now oid t f reason rd (ord_lineage od) (length (bk_events b)) in
         (Order_apply od e = Inr Same \<and> od' = od \<and> b' = b) \<or>
         (Order_apply od e = Inr (Updated od') \<and>
          b' = \<lparr>bk_orders = AList.update oid od' (bk_orders b), bk_events = bk_events b @ [e]\<rparr>)))"
  by (auto simp: OrderBook_apply_def Let_def applied_event_def
      split: option.splits sum.splits applied.splits)

lemma book_tryE:
  obtains (same) "book_try H b c = b"
    | (opened) now i p od where "c = Open now i p" "od = Order_from_intent H i p"
        "map_of (bk_orders b) (ord_order_id od) = None"
        "book_try H b c =
          \<lparr>bk_orders = AList.update (ord_order_id od) od (bk_orders b),
           bk_events = bk_events b @ [created_event now od (length (bk_events b))]\<rparr>"
    | (updated) now oid t f reason rd od e od' where "c = Apply now oid t f reason rd"
        "map_of (bk_orders b) oid = Some od"
        "e = applied_event now oid t f reason rd (ord_lineage od) (length (bk_events b))"
        "Order_apply od e = Inr (Updated od')"
        "book_try H b c =
          \<lparr>bk_orders = AList.update oid od' (bk_orders b), bk_events = bk_events b @ [e]\<rparr>"
proof (cases c)
  case (Open now i p)
  show ?thesis
  proof (cases "map_of (bk_orders b) (ord_order_id (Order_from_intent H i p))")
    case None
    then show ?thesis
      by (intro opened [OF Open refl None]) (simp add: book_try_def Open OrderBook_open_new Let_def)
  next
    case (Some od)
    then show ?thesis by (intro same) (simp add: book_try_def Open OrderBook_open_known)
  qed
next
  case (Apply now oid t f reason rd)
  show ?thesis
  proof (cases "OrderBook_apply now oid t f reason rd b")
    case (Inl x)
    then show ?thesis by (intro same) (simp add: book_try_def Apply)
  next
    case (Inr r)
    obtain od' b' where r: "r = (od', b')" by (cases r)
    with Inr have "OrderBook_apply now oid t f reason rd b = Inr (od', b')" by simp
    then obtain od where od: "map_of (bk_orders b) oid = Some od"
      and cases: "(Order_apply od (applied_event now oid t f reason rd (ord_lineage od)
            (length (bk_events b))) = Inr Same \<and> b' = b) \<or>
          (Order_apply od (applied_event now oid t f reason rd (ord_lineage od)
            (length (bk_events b))) = Inr (Updated od') \<and>
           b' = \<lparr>bk_orders = AList.update oid od' (bk_orders b),
                 bk_events = bk_events b @ [applied_event now oid t f reason rd (ord_lineage od)
                   (length (bk_events b))]\<rparr>)"
      by (auto simp: OrderBook_apply_Inr Let_def)
    have "book_try H b c = b'" by (simp add: book_try_def Apply Inr r)
    with cases show ?thesis
      using same updated [OF Apply od refl] by blast
  qed
qed

section \<open>The book invariant\<close>

text \<open>
  Every order is the fold of its own events, from the snapshot its intent opened; the log is
  numbered from 0; nothing in the log belongs to an unknown order.
\<close>

definition order_history_ok :: "digest \<Rightarrow> order \<Rightarrow> order_event list \<Rightarrow> bool" where
  "order_history_ok H od hist \<longleftrightarrow>
     (\<exists>i p c es. hist = c # es \<and> ev_event_type c = Ev_CREATED \<and> ev_fill c = None \<and>
        (\<forall>e \<in> set es. ev_event_type e \<noteq> Ev_CREATED) \<and>
        run_steps Order_step (Order_from_intent H i p) es = Inr od \<and>
        ord_fills od = event_fills (filter (\<lambda>e. is_fill_event (ev_event_type e)) es))"

definition book_ok :: "digest \<Rightarrow> order_book \<Rightarrow> bool" where
  "book_ok H b \<longleftrightarrow>
     dict_wf (bk_orders b)
     \<and> (\<forall>(oid, od) \<in> set (bk_orders b).
          ord_order_id od = oid \<and> order_history_ok H od (history_of b oid))
     \<and> map ev_sequence (bk_events b) = map int [0..<length (bk_events b)]
     \<and> (\<forall>e \<in> set (bk_events b). ev_order_id e \<in> fst ` set (bk_orders b))"

lemma event_fills_simps [simp]:
  "event_fills [] = []"
  "event_fills (e # es) = (case ev_fill e of None \<Rightarrow> [] | Some f \<Rightarrow> [f]) @ event_fills es"
  "event_fills (es @ es') = event_fills es @ event_fills es'"
  by (simp_all add: event_fills_def)

lemma book_ok_empty: "book_ok H empty_book"
  by (simp add: book_ok_def empty_book_def)

lemma order_history_ok_created:
  "order_history_ok H (Order_from_intent H i p) [created_event now (Order_from_intent H i p) n]"
  unfolding order_history_ok_def by (rule exI [of _ i], rule exI [of _ p]) simp

lemma Order_apply_Updated_not_created:
  "Order_apply od e = Inr (Updated od') \<Longrightarrow> ev_event_type e \<noteq> Ev_CREATED"
proof
  assume u: "Order_apply od e = Inr (Updated od')" and c: "ev_event_type e = Ev_CREATED"
  from u c have "allowed_transition (ord_status od) PENDING_RISK"
    by (cases rule: Order_apply_UpdatedE) (simp_all add: is_fill_event_def)
  then show False by (cases "ord_status od") (auto simp: allowed_transition_def)
qed

lemma order_history_ok_snoc:
  assumes "order_history_ok H od hist" "Order_apply od e = Inr (Updated od')"
  shows "order_history_ok H od' (hist @ [e])"
proof -
  from assms(1) obtain i p c es where h: "hist = c # es" "ev_event_type c = Ev_CREATED"
      "ev_fill c = None" "\<forall>e \<in> set es. ev_event_type e \<noteq> Ev_CREATED"
      "run_steps Order_step (Order_from_intent H i p) es = Inr od"
      "ord_fills od = event_fills (filter (\<lambda>e. is_fill_event (ev_event_type e)) es)"
    by (auto simp: order_history_ok_def)
  have "run_steps Order_step (Order_from_intent H i p) (es @ [e]) = Inr od'"
    using h(5) assms(2) by (simp add: run_steps_append Order_step_def)
  moreover have "ord_fills od' = event_fills (filter (\<lambda>e. is_fill_event (ev_event_type e)) (es @ [e]))"
    using assms(2) h(6) by (cases rule: Order_apply_UpdatedE) simp_all
  moreover have "ev_event_type e \<noteq> Ev_CREATED"
    by (rule Order_apply_Updated_not_created [OF assms(2)])
  ultimately show ?thesis
    using h(1-4) unfolding order_history_ok_def by (intro exI [of _ i] exI [of _ p]) auto
qed

text \<open>
  Both ways the book changes put one order under its key and one event, about that order, at
  the end of the log; the other orders keep their history.
\<close>

lemma book_ok_snoc:
  assumes ok: "book_ok H b" and oid: "ord_order_id od = oid"
    and e: "ev_order_id e = oid" "ev_sequence e = int (length (bk_events b))"
    and hist: "order_history_ok H od (history_of b oid @ [e])"
  shows "book_ok H \<lparr>bk_orders = AList.update oid od (bk_orders b), bk_events = bk_events b @ [e]\<rparr>"
    (is "book_ok H ?b")
proof -
  have each: "ord_order_id o' = x \<and> order_history_ok H o' (history_of ?b x)"
    if "map_of (bk_orders ?b) x = Some o'" for x o'
  proof (cases "x = oid")
    case True
    with that have o': "o' = od" by simp
    have "history_of ?b x = history_of b oid @ [e]"
      using True e(1) by (simp add: history_of_def)
    with hist oid show ?thesis unfolding o' True by simp
  next
    case False
    with that have "(x, o') \<in> set (bk_orders b)" by (auto dest: map_of_SomeD)
    with ok have "ord_order_id o' = x" "order_history_ok H o' (history_of b x)"
      by (auto simp: book_ok_def)
    moreover have "history_of ?b x = history_of b x"
      using False e(1) by (simp add: history_of_def)
    ultimately show ?thesis by simp
  qed
  have wf: "dict_wf (bk_orders ?b)"
    using ok by (simp add: book_ok_def)
  have "\<forall>(x, o') \<in> set (bk_orders ?b).
      ord_order_id o' = x \<and> order_history_ok H o' (history_of ?b x)"
  proof clarify
    fix x o'
    assume "(x, o') \<in> set (bk_orders ?b)"
    then show "ord_order_id o' = x \<and> order_history_ok H o' (history_of ?b x)"
      using each wf by (simp only: in_set_dict)
  qed
  moreover have "fst ` set (bk_orders ?b) = insert oid (fst ` set (bk_orders b))"
    by (simp add: dom_update)
  then have "\<forall>e' \<in> set (bk_events ?b). ev_order_id e' \<in> fst ` set (bk_orders ?b)"
    using ok e(1) by (simp add: book_ok_def)
  moreover have "map ev_sequence (bk_events ?b) = map int [0..<length (bk_events ?b)]"
    using ok e(2) by (simp add: book_ok_def)
  ultimately show ?thesis
    using wf unfolding book_ok_def by blast
qed

lemma book_ok_try: "book_ok H b \<Longrightarrow> book_ok H (book_try H b c)"
proof (cases rule: book_tryE [of H b c])
  case same
  then show "book_ok H b \<Longrightarrow> ?thesis" by simp
next
  case (opened now i p od)
  assume ok: "book_ok H b"
  from opened(3) have "ord_order_id od \<notin> fst ` set (bk_orders b)"
    by (simp add: map_of_eq_None_iff)
  with ok have "\<forall>e \<in> set (bk_events b). ev_order_id e \<noteq> ord_order_id od"
    unfolding book_ok_def by metis
  then have "history_of b (ord_order_id od) = []"
    by (simp add: history_of_def filter_empty_conv)
  then have "order_history_ok H od
      (history_of b (ord_order_id od) @ [created_event now od (length (bk_events b))])"
    using opened(2) order_history_ok_created by simp
  with ok show ?thesis
    unfolding opened(4) by (intro book_ok_snoc) simp_all
next
  case (updated now oid t f reason rd od e od')
  assume ok: "book_ok H b"
  from updated(2) have "(oid, od) \<in> set (bk_orders b)" by (rule map_of_SomeD)
  with ok have od: "ord_order_id od = oid" "order_history_ok H od (history_of b oid)"
    by (auto simp: book_ok_def)
  have "ord_order_id od' = oid"
    using od(1) Order_apply_frame [OF updated(4)] by simp
  moreover have "order_history_ok H od' (history_of b oid @ [e])"
    by (rule order_history_ok_snoc [OF od(2) updated(4)])
  ultimately show ?thesis
    using ok updated(3) unfolding updated(5) by (intro book_ok_snoc) simp_all
qed

lemma book_ok_run: "book_ok H b \<Longrightarrow> book_ok H (book_run H b cs)"
  by (induction cs arbitrary: b) (simp_all add: book_ok_try)

text \<open>The log only grows.\<close>

lemma book_try_events: "\<exists>es. bk_events (book_try H b c) = bk_events b @ es"
  by (cases rule: book_tryE [of H b c]) simp_all

lemma book_run_events: "\<exists>es. bk_events (book_run H b cs) = bk_events b @ es"
proof (induction cs arbitrary: b)
  case Nil
  then show ?case by simp
next
  case (Cons c cs)
  obtain es where "bk_events (book_try H b c) = bk_events b @ es"
    using book_try_events by blast
  moreover obtain es' where "bk_events (book_run H (book_try H b c) cs) =
      bk_events (book_try H b c) @ es'"
    using Cons.IH by blast
  ultimately show ?case by simp
qed

text \<open>A known order keeps a state for ever, and the state it has is one its events lead to.\<close>

lemma state_of_Inr: "state_of b oid = Inr od \<longleftrightarrow> map_of (bk_orders b) oid = Some od"
  by (simp add: state_of_def split: option.splits)

lemma book_order_history:
  "book_ok H b \<Longrightarrow> state_of b oid = Inr od \<Longrightarrow>
     ord_order_id od = oid \<and> order_history_ok H od (history_of b oid)"
  by (auto simp: book_ok_def state_of_Inr dest: map_of_SomeD)

text \<open>The intents the book accepts are the ones the client builds, with a positive quantity.\<close>

fun call_ok :: "book_call \<Rightarrow> bool" where
  "call_ok (Open now i p) \<longleftrightarrow> 0 < oi_quantity i"
| "call_ok (Apply now oid t f reason rd) \<longleftrightarrow> True"

definition all_orders_ok :: "order_book \<Rightarrow> bool" where
  "all_orders_ok b \<longleftrightarrow> (\<forall>oid od. map_of (bk_orders b) oid = Some od \<longrightarrow> order_ok od)"

lemma all_orders_ok_try: "call_ok c \<Longrightarrow> all_orders_ok b \<Longrightarrow> all_orders_ok (book_try H b c)"
proof (cases rule: book_tryE [of H b c])
  case same
  then show "all_orders_ok b \<Longrightarrow> ?thesis" by simp
next
  case (opened now i p od)
  assume "call_ok c" "all_orders_ok b"
  with opened(1,2) show ?thesis
    unfolding opened(4) by (auto simp: all_orders_ok_def order_ok_from_intent)
next
  case (updated now oid t f reason rd od e od')
  assume "all_orders_ok b"
  with updated(2,4) have "order_ok od'" by (auto simp: all_orders_ok_def intro: order_ok_apply)
  with \<open>all_orders_ok b\<close> show ?thesis
    unfolding updated(5) by (auto simp: all_orders_ok_def)
qed

lemma all_orders_ok_run:
  "list_all call_ok cs \<Longrightarrow> all_orders_ok b \<Longrightarrow> all_orders_ok (book_run H b cs)"
  by (induction cs arbitrary: b) (simp_all add: all_orders_ok_try)

end
