(* ===== verification/Order_Props.thy ===== *)
theory Order_Props
  imports Order_Book
begin

text \<open>
  The promises of the order state machine and of the order book, each with a concrete run it
  applies to.
\<close>

section \<open>Samples\<close>

definition sample_intent :: order_intent where
  "sample_intent = \<lparr>oi_order_intent_id = ''oi_1'', oi_symbol = ''600000.SH'', oi_side = BUY,
     oi_quantity = 300, oi_trade_date = ''2024-01-02'', oi_limit_price = Some 10,
     oi_reference_price = None, oi_lineage = no_lineage, oi_created_at = ''t''\<rparr>"

definition sample_fill :: "string \<Rightarrow> side \<Rightarrow> int \<Rightarrow> rat \<Rightarrow> fill" where
  "sample_fill x sd q p = \<lparr>fill_execution_id = x, fill_order_id = ''ord_x'', fill_symbol = ''600000.SH'',
     fill_side = sd, fill_quantity = q, fill_price = p, fill_reference_price = None,
     fill_commission = 5, fill_stamp_duty = 0, fill_transfer_fee = 0,
     fill_filled_at = ''2024-01-02T10:00:00'', fill_lineage = no_lineage\<rparr>"

definition sample_event :: "order_event_type \<Rightarrow> fill option \<Rightarrow> string option \<Rightarrow> order_event" where
  "sample_event t f r = \<lparr>ev_event_type = t, ev_order_id = ''ord_x'', ev_sequence = 1,
     ev_event_time = ''t'', ev_fill = f, ev_reason = r, ev_risk_decision = None,
     ev_lineage = no_lineage\<rparr>"

definition sample_digest :: digest where
  "sample_digest j = ''x''"

definition sample_events :: "order_event list" where
  "sample_events = [sample_event Ev_RISK_APPROVED None None, sample_event Ev_SUBMITTED None None,
     sample_event Ev_ACCEPTED None None,
     sample_event Ev_PARTIAL_FILL (Some (sample_fill ''x1'' BUY 100 10)) None,
     sample_event Ev_FILL (Some (sample_fill ''x2'' BUY 200 10)) None]"

definition sample_order :: order where
  "sample_order = Order_from_intent sample_digest sample_intent None"

definition sample_filled :: order where
  "sample_filled = sample_order\<lparr>ord_status := FILLED, ord_filled_quantity := 300,
     ord_fills := [sample_fill ''x1'' BUY 100 10, sample_fill ''x2'' BUY 200 10]\<rparr>"

lemmas sample_defs = sample_order_def sample_event_def sample_fill_def sample_intent_def

lemma step_plain:
  "\<not> is_fill_event (ev_event_type e) \<Longrightarrow> TARGET_STATUS (ev_event_type e) \<noteq> REJECTED \<Longrightarrow>
   TARGET_STATUS (ev_event_type e) \<in> set (ALLOWED_TRANSITIONS (ord_status od)) \<Longrightarrow>
   Order_step od e = Inr (od\<lparr>ord_status := TARGET_STATUS (ev_event_type e),
     ord_reason := or_reason (ev_reason e) (ord_reason od)\<rparr>)"
  by (simp add: Order_step_def Order_apply_def assert_transition_def)

lemma sample_run: "run_steps Order_step sample_order sample_events = Inr sample_filled"
  by (simp add: sample_events_def sample_defs sample_filled_def Order_step_def Order_apply_def
      is_fill_event_def assert_transition_def apply_new_fill_def is_terminal_def TERMINAL_STATUSES_def
      or_reason_def Let_def)

section \<open>One order\<close>

text \<open>C1. Along any run of events an order's filled quantity is the sum of its fills and never
  exceeds the ordered quantity, no execution is counted twice, a filled order is filled in full, an
  order that is not yet filled in part holds no fill, and the identity of the order is unchanged.\<close>

theorem order_run_consistent:
  assumes "0 \<le> oi_quantity i"
    and "run_steps Order_step (Order_from_intent H i p) es = Inr od"
  shows "ord_filled_quantity od = (\<Sum>f\<leftarrow>ord_fills od. fill_quantity f)
    \<and> ord_filled_quantity od \<le> oi_quantity i
    \<and> ord_quantity od = oi_quantity i \<and> ord_side od = oi_side i \<and> ord_symbol od = oi_symbol i
    \<and> ord_order_id od = ord_order_id (Order_from_intent H i p)
    \<and> distinct (map fill_execution_id (ord_fills od))
    \<and> (ord_status od = FILLED \<longrightarrow> ord_filled_quantity od = oi_quantity i)
    \<and> (ord_status od \<in> {PENDING_RISK, APPROVED, SUBMITTED, ACCEPTED, REJECTED} \<longrightarrow> ord_fills od = [])"
proof -
  have "order_ok od"
    by (rule order_machine.run_inv [OF order_ok_from_intent [OF assms(1)] assms(2)])
  with run_frame [OF assms(2)] show ?thesis by (auto simp: order_ok_def filled_sum_def)
qed

theorem order_run_consistent_witness:
  "ord_filled_quantity sample_filled = 300
    \<and> distinct (map fill_execution_id (ord_fills sample_filled))"
proof -
  have "ord_filled_quantity sample_filled = (\<Sum>f\<leftarrow>ord_fills sample_filled. fill_quantity f)"
    "distinct (map fill_execution_id (ord_fills sample_filled))"
    using order_run_consistent [OF _ sample_run [unfolded sample_order_def]]
    by (simp_all add: sample_intent_def)
  then show ?thesis by (simp add: sample_filled_def sample_defs)
qed

text \<open>C11. Progress is one way: along any run of events the rank of the status never falls, and an
  order whose status is final is returned unchanged by every run that does not raise.\<close>

theorem order_status_one_way:
  assumes "run_steps Order_step od es = Inr od'"
  shows "status_rank (ord_status od) \<le> status_rank (ord_status od')
    \<and> (is_terminal od \<longrightarrow> od' = od)"
  using assms
proof (induction es arbitrary: od)
  case Nil
  then show ?case by simp
next
  case (Cons e es)
  then obtain od1 where s: "Order_step od e = Inr od1" and r: "run_steps Order_step od1 es = Inr od'"
    by (auto simp: res_bind_Inr_iff)
  from s have "status_rank (ord_status od) \<le> status_rank (ord_status od1)"
    by (cases rule: Order_step_cases)
      (auto dest: Order_apply_Updated_status order_table.rank_mono)
  with Cons.IH [OF r] terminal_step [OF _ s] show ?case by auto
qed

theorem order_status_one_way_witness:
  "run_steps Order_step sample_filled [sample_event Ev_FILL (Some (sample_fill ''x2'' BUY 200 10)) None]
     = Inr sample_filled \<and> is_terminal sample_filled
   \<and> status_rank (ord_status sample_order) \<le> status_rank (ord_status sample_filled)"
proof -
  have t: "is_terminal sample_filled"
    by (simp add: is_terminal_def sample_filled_def TERMINAL_STATUSES_def)
  have r: "run_steps Order_step sample_filled
      [sample_event Ev_FILL (Some (sample_fill ''x2'' BUY 200 10)) None] = Inr sample_filled"
    by (simp add: Order_step_def Order_apply_def is_fill_event_def sample_filled_def sample_defs
        same_execution_def)
  with t order_status_one_way [OF sample_run] order_status_one_way [OF r] show ?thesis by simp
qed

text \<open>C12. A re-delivered execution is absorbed at any later time, after a cancel or a final status
  too, and the same execution id with other economics is refused; neither changes the order.\<close>

theorem redelivery_absorbed:
  assumes "Order_apply od e = Inr (Updated od1)" "is_fill_event (ev_event_type e)" "ev_fill e = Some f"
    and "run_steps Order_step od1 es = Inr od2"
    and "is_fill_event (ev_event_type e')" "ev_fill e' = Some g" "fill_execution_id g = fill_execution_id f"
    and "order_ok od"
  shows "Order_apply od2 e' = (if same_execution f g then Inr Same else Inl DuplicateExecution)"
proof -
  have keeps: "f \<in> set (ord_fills o2)" if "run_steps Order_step o1 es = Inr o2" "f \<in> set (ord_fills o1)" for o1 o2 es
    using that
  proof (induction es arbitrary: o1)
    case (Cons e es)
    then obtain o' where s: "Order_step o1 e = Inr o'" and r: "run_steps Order_step o' es = Inr o2"
      by (auto simp: res_bind_Inr_iff)
    from s Cons.prems(2) have "f \<in> set (ord_fills o')"
      by (cases rule: Order_step_cases) (auto elim: Order_apply_UpdatedE)
    with r show ?case by (rule Cons.IH)
  qed simp
  have "f \<in> set (ord_fills od1)"
    using assms(1) by (cases rule: Order_apply_UpdatedE) (use assms(2,3) in auto)
  then have mem: "f \<in> set (ord_fills od2)" by (rule keeps [OF assms(4)])
  have "order_ok od2"
    using order_machine.run_inv [OF order_ok_apply [OF assms(8,1)] assms(4)] .
  then have "distinct (map fill_execution_id (ord_fills od2))" by (simp add: order_ok_def)
  then have "List.find (\<lambda>h. fill_execution_id h = fill_execution_id g) (ord_fills od2) = Some f"
    using mem assms(7) by (intro find_by_key) simp_all
  with assms(5,6) show ?thesis by (simp add: Order_apply_def)
qed

theorem redelivery_absorbed_witness:
  "Order_apply sample_filled (sample_event Ev_PARTIAL_FILL (Some (sample_fill ''x2'' BUY 200 10)) None) = Inr Same
   \<and> Order_apply sample_filled (sample_event Ev_FILL (Some (sample_fill ''x2'' BUY 200 11)) None) = Inl DuplicateExecution"
proof -
  let ?od = "sample_order\<lparr>ord_status := PARTIALLY_FILLED, ord_filled_quantity := 100,
     ord_fills := [sample_fill ''x1'' BUY 100 10]\<rparr>"
  let ?e = "sample_event Ev_FILL (Some (sample_fill ''x2'' BUY 200 10)) None"
  have app: "Order_apply ?od ?e = Inr (Updated sample_filled)"
    by (simp add: sample_defs sample_filled_def Order_apply_def
      is_fill_event_def assert_transition_def apply_new_fill_def is_terminal_def TERMINAL_STATUSES_def Let_def)
  have ok: "order_ok ?od" by (simp add: order_ok_def sample_defs)
  have e: "is_fill_event (ev_event_type ?e)" "ev_fill ?e = Some (sample_fill ''x2'' BUY 200 10)"
    by (simp_all add: sample_event_def is_fill_event_def)
  have "Order_apply sample_filled (sample_event t (Some (sample_fill ''x2'' BUY 200 p)) None) =
      (if same_execution (sample_fill ''x2'' BUY 200 10) (sample_fill ''x2'' BUY 200 p)
       then Inr Same else Inl DuplicateExecution)" if "is_fill_event t" for t p
    using that by (intro redelivery_absorbed [OF app e, of "[]"] ok)
      (simp_all add: sample_event_def sample_fill_def)
  then show ?thesis
    by (simp add: is_fill_event_def same_execution_def sample_fill_def fill_fees_def)
qed

text \<open>A rejection erases nothing: an event that rejects an order needs a reason that is not blank
  and an order without fills, and what it leaves differs from the order in status and reason only.\<close>

lemma rejection_erases_nothing:
  assumes "Order_apply od e = Inr (Updated od')" "ord_status od' = REJECTED"
  shows "ord_fills od = [] \<and> ord_filled_quantity od = 0
    \<and> strip (case ev_reason e of None \<Rightarrow> [] | Some r \<Rightarrow> r) \<noteq> []
    \<and> od' = od\<lparr>ord_status := REJECTED, ord_reason := ev_reason e\<rparr>"
  using assms(1)
proof (cases rule: Order_apply_UpdatedE)
  case (fill f)
  with assms(2) show ?thesis by (simp split: if_splits)
next
  case other
  with assms(2) have "assert_rejectable od e = Inr ()" by simp
  then have r: "ord_filled_quantity od = 0" "ord_fills od = []"
    "strip (case ev_reason e of None \<Rightarrow> [] | Some r \<Rightarrow> r) \<noteq> []"
    by (auto simp: assert_rejectable_def split: if_splits)
  then have "or_reason (ev_reason e) (ord_reason od) = ev_reason e"
    by (cases "ev_reason e") (auto simp: or_reason_def strip_def)
  with other(4) r assms(2) show ?thesis by simp
qed

lemma strip_cash: "strip ''cash'' = ''cash''"
  by code_simp

section \<open>The book\<close>

definition sample_calls :: "book_call list" where
  "sample_calls =
     [Open ''t0'' sample_intent None,
      Apply ''t1'' (ord_order_id sample_order) Ev_RISK_APPROVED None None None,
      Apply ''t2'' (ord_order_id sample_order) Ev_CANCELLED None None None,
      Apply ''t3'' (ord_order_id sample_order) Ev_SUBMITTED None None None]"

lemma sample_oid [simp]: "ord_order_id (Order_from_intent sample_digest i p) = ''ord_x''"
  by (simp add: Order_from_intent_def content_id_def sample_digest_def Let_def)

lemma no_reason_yet [simp]:
  "(Order_from_intent H i p)\<lparr>ord_status := s, ord_reason := None\<rparr> = (Order_from_intent H i p)\<lparr>ord_status := s\<rparr>"
  by (simp add: Order_from_intent_def Let_def)

lemma sample_book:
  "state_of (book_run sample_digest empty_book sample_calls) (ord_order_id sample_order) =
     Inr (sample_order\<lparr>ord_status := CANCELLED\<rparr>)"
  by (simp add: sample_calls_def book_try_def OrderBook_open_def OrderBook_apply_def empty_book_def
      Let_def state_of_def Order_apply_def is_fill_event_def assert_transition_def or_reason_def
      sample_order_def)

text \<open>C13. The book is the fold of its log: after any sequence of calls, raising ones included, each
  order the book knows is what its own events make of the snapshot its intent opened, its fills are
  those of its events, and it is consistent.\<close>

theorem book_is_fold_of_log:
  assumes "list_all call_ok cs" "state_of (book_run H empty_book cs) oid = Inr od"
  shows "\<exists>i p c es. history_of (book_run H empty_book cs) oid = c # es
    \<and> ev_event_type c = Ev_CREATED \<and> (\<forall>e \<in> set es. ev_event_type e \<noteq> Ev_CREATED)
    \<and> run_steps Order_step (Order_from_intent H i p) es = Inr od
    \<and> ord_order_id od = oid
    \<and> ord_fills od = event_fills (filter (\<lambda>e. is_fill_event (ev_event_type e)) es)
    \<and> order_ok od"
proof -
  have "book_ok H (book_run H empty_book cs)"
    by (rule book_ok_run [OF book_ok_empty])
  then have "ord_order_id od = oid" "order_history_ok H od (history_of (book_run H empty_book cs) oid)"
    using book_order_history assms(2) by blast+
  moreover have "all_orders_ok (book_run H empty_book cs)"
    by (rule all_orders_ok_run [OF assms(1)]) (simp add: all_orders_ok_def empty_book_def)
  then have "order_ok od" using assms(2) by (simp add: all_orders_ok_def state_of_Inr)
  ultimately show ?thesis unfolding order_history_ok_def by blast
qed

theorem book_is_fold_of_log_witness:
  "order_ok (sample_order\<lparr>ord_status := CANCELLED\<rparr>)
   \<and> (\<exists>c es. history_of (book_run sample_digest empty_book sample_calls) (ord_order_id sample_order) = c # es)"
proof -
  have "list_all call_ok sample_calls" by (simp add: sample_calls_def sample_intent_def)
  from book_is_fold_of_log [OF this sample_book] show ?thesis by blast
qed

text \<open>The log is append-only and numbered: whatever a client calls next, the events recorded so
  far stay in place, and the sequence numbers are the positions.\<close>

lemma book_log_append_only:
  "\<exists>es. bk_events (book_run H empty_book (cs @ cs')) = bk_events (book_run H empty_book cs) @ es
    \<and> map ev_sequence (bk_events (book_run H empty_book (cs @ cs'))) =
        map int [0..<length (bk_events (book_run H empty_book cs)) + length es]"
proof -
  obtain es where es: "bk_events (book_run H (book_run H empty_book cs) cs') =
      bk_events (book_run H empty_book cs) @ es"
    using book_run_events by blast
  have "book_run H empty_book (cs @ cs') = book_run H (book_run H empty_book cs) cs'"
    by (simp add: book_run_def)
  moreover have "book_ok H (book_run H empty_book (cs @ cs'))"
    by (rule book_ok_run [OF book_ok_empty])
  ultimately show ?thesis using es unfolding book_ok_def by (metis length_append)
qed

end
