(* ===== verification/Accounting.thy ===== *)
theory Accounting
  imports Orders "HOL-Library.Product_Lexorder"
begin

text \<open>
  The account of \<open>src/src/quantagent/domain/accounting.py\<close>: cash, lots and realised profit as
  a fold of fills and corporate actions, its valuation and its replay from an event log.
\<close>

record account_state =
  acc_cash :: rat
  acc_initial_cash :: rat
  acc_lots :: "(string, position_lot list) dict"
  acc_realised_pnl :: rat
  acc_total_fees :: rat
  acc_total_slippage :: rat
  acc_cost_basis :: "(string, rat) dict"
  acc_duplicate_executions :: "string list"

definition opening_account :: "rat \<Rightarrow> account_state" where
  "opening_account initial_cash =
     \<lparr>acc_cash = initial_cash, acc_initial_cash = initial_cash, acc_lots = [],
      acc_realised_pnl = 0, acc_total_fees = 0, acc_total_slippage = 0, acc_cost_basis = [],
      acc_duplicate_executions = []\<rparr>"

section \<open>Queries\<close>

definition position :: "account_state \<Rightarrow> string \<Rightarrow> int" where
  "position acc symbol = total_quantity (dict_get (acc_lots acc) symbol [])"

definition sellable :: "account_state \<Rightarrow> string \<Rightarrow> string \<Rightarrow> int" where
  "sellable acc symbol trade_date = sellable_quantity (dict_get (acc_lots acc) symbol []) trade_date"

definition unpriceable :: "account_state \<Rightarrow> (string \<rightharpoonup> rat) \<Rightarrow> string list" where
  "unpriceable acc prices =
     sort (filter (\<lambda>symbol. position acc symbol \<noteq> 0 \<and> prices symbol = None)
       (map fst (acc_lots acc)))"

definition price_of :: "(string \<rightharpoonup> rat) \<Rightarrow> string \<Rightarrow> rat res" where
  "price_of prices symbol = (case prices symbol of None \<Rightarrow> Inl KeyError | Some p \<Rightarrow> Inr p)"

definition market_value :: "account_state \<Rightarrow> (string \<rightharpoonup> rat) \<Rightarrow> rat res" where
  "market_value acc prices =
     (let missing = unpriceable acc prices in
      if missing \<noteq> [] then Inl (UnpriceablePosition missing)
      else res_bind
        (map_res (\<lambda>symbol. res_bind (price_of prices symbol) (\<lambda>p.
            Inr (of_int (position acc symbol) * p))) (map fst (acc_lots acc)))
        (\<lambda>values. Inr (sum_list values)))"

definition nav :: "account_state \<Rightarrow> (string \<rightharpoonup> rat) \<Rightarrow> rat res" where
  "nav acc prices = res_bind (market_value acc prices) (\<lambda>mv. Inr (acc_cash acc + mv))"

fun unrealised_loop ::
    "(string, rat) dict \<Rightarrow> (string \<rightharpoonup> rat) \<Rightarrow> (string \<times> position_lot list) list \<Rightarrow> rat \<Rightarrow> rat res"
where
  "unrealised_loop basis prices [] acc = Inr acc"
| "unrealised_loop basis prices ((symbol, lots) # rest) acc =
     (let held = total_quantity lots in
      if held = 0 then unrealised_loop basis prices rest acc
      else res_bind (price_of prices symbol) (\<lambda>p.
        unrealised_loop basis prices rest
          (acc + (p - dict_get basis symbol 0) * of_int held)))"

definition unrealised_pnl :: "account_state \<Rightarrow> (string \<rightharpoonup> rat) \<Rightarrow> rat res" where
  "unrealised_pnl acc prices =
     (let missing = unpriceable acc prices in
      if missing \<noteq> [] then Inl (UnpriceablePosition missing)
      else unrealised_loop (acc_cost_basis acc) prices (acc_lots acc) 0)"

definition identity_residual :: "account_state \<Rightarrow> (string \<rightharpoonup> rat) \<Rightarrow> rat res" where
  "identity_residual acc prices =
     res_bind (unrealised_pnl acc prices) (\<lambda>u.
       res_bind (nav acc prices) (\<lambda>n.
         Inr ((acc_realised_pnl acc + u) - (n - acc_initial_cash acc))))"

section \<open>Folding a fill\<close>

definition apply_buy :: "digest \<Rightarrow> fill \<Rightarrow> string \<Rightarrow> account_state \<Rightarrow> account_state" where
  "apply_buy H f trade_date acc =
     (let lot = PositionLot_from_fill H f trade_date;
          existing = dict_get (acc_lots acc) (fill_symbol f) [];
          held = total_quantity existing;
          prior_cost = dict_get (acc_cost_basis acc) (fill_symbol f) 0;
          new_held = held + fill_quantity f;
          blended = (if new_held \<noteq> 0
                     then (prior_cost * of_int held + fill_gross f + fill_fees f) / of_int new_held
                     else 0)
      in acc\<lparr>acc_cash := acc_cash acc + fill_cash_delta f,
             acc_lots := AList.update (fill_symbol f) (existing @ [lot]) (acc_lots acc),
             acc_cost_basis := AList.update (fill_symbol f) blended (acc_cost_basis acc),
             acc_total_fees := acc_total_fees acc + fill_fees f,
             acc_total_slippage := acc_total_slippage acc + fill_slippage f\<rparr>)"

text \<open>First in, first out across settled lots; a lot that is not settled is kept whole.\<close>

fun consume_lots :: "int \<Rightarrow> string \<Rightarrow> position_lot list \<Rightarrow> position_lot list" where
  "consume_lots remaining trade_date [] = []"
| "consume_lots remaining trade_date (lot # rest) =
     (if remaining \<le> 0 \<or> \<not> sellable_on lot trade_date
      then lot # consume_lots remaining trade_date rest
      else let take = min remaining (lot_quantity lot) in
        (if take < lot_quantity lot
         then [lot\<lparr>lot_quantity := lot_quantity lot - take\<rparr>] else [])
        @ consume_lots (remaining - take) trade_date rest)"

definition apply_sell :: "fill \<Rightarrow> string \<Rightarrow> account_state \<Rightarrow> account_state res" where
  "apply_sell f trade_date acc =
     (let existing = dict_get (acc_lots acc) (fill_symbol f) [];
          available = sellable_quantity existing trade_date in
      if available < fill_quantity f then Inl InvariantViolation
      else
        let kept = consume_lots (fill_quantity f) trade_date existing;
            basis = dict_get (acc_cost_basis acc) (fill_symbol f) (fill_price f);
            realised = (fill_price f - basis) * of_int (fill_quantity f) - fill_fees f;
            lots = (if kept \<noteq> [] then AList.update (fill_symbol f) kept (acc_lots acc)
                    else AList.delete (fill_symbol f) (acc_lots acc))
        in Inr (acc\<lparr>acc_cash := acc_cash acc + fill_cash_delta f,
                    acc_lots := lots,
                    acc_realised_pnl := acc_realised_pnl acc + realised,
                    acc_total_fees := acc_total_fees acc + fill_fees f,
                    acc_total_slippage := acc_total_slippage acc + fill_slippage f\<rparr>))"

definition apply_fill :: "digest \<Rightarrow> fill \<Rightarrow> string \<Rightarrow> account_state \<Rightarrow> account_state res" where
  "apply_fill H f trade_date acc =
     (if fill_side f = BUY then Inr (apply_buy H f trade_date acc)
      else apply_sell f trade_date acc)"

section \<open>Folding a corporate action\<close>

text \<open>
  The ratio is positive for every action the constructor accepts
  (\<open>CorporateAction_make\<close>), so the divisions by it are defined.
\<close>

definition scale_lot :: "corporate_action \<Rightarrow> position_lot \<Rightarrow> position_lot res" where
  "scale_lot a lot =
     (let scaled = of_int (lot_quantity lot) * ca_share_ratio a in
      if 1 / 10 ^ 9 < \<bar>scaled - of_int (round_half_even scaled)\<bar> then Inl InvariantViolation
      else Inr (lot\<lparr>lot_quantity := round_half_even scaled,
                    lot_cost_price := lot_cost_price lot / ca_share_ratio a\<rparr>))"

definition apply_corporate_action ::
    "corporate_action \<Rightarrow> account_state \<Rightarrow> account_state res" where
  "apply_corporate_action a acc =
     (let lots = dict_get (acc_lots acc) (ca_symbol a) [] in
      if lots = [] then Inr acc
      else
        let held = total_quantity lots;
            cash_received = of_int held * ca_cash_per_share a in
        res_bind (map_res (scale_lot a) lots) (\<lambda>adjusted.
          let cost_basis = (case map_of (acc_cost_basis acc) (ca_symbol a) of
                None \<Rightarrow> acc_cost_basis acc
              | Some basis \<Rightarrow>
                  AList.update (ca_symbol a) (basis / ca_share_ratio a) (acc_cost_basis acc))
          in Inr (acc\<lparr>acc_cash := acc_cash acc + cash_received,
                      acc_realised_pnl := acc_realised_pnl acc + cash_received,
                      acc_lots := AList.update (ca_symbol a) adjusted (acc_lots acc),
                      acc_cost_basis := cost_basis\<rparr>)))"

definition check_account :: "account_state \<Rightarrow> unit res" where
  "check_account acc =
     (if \<exists>(symbol, lots) \<in> set (acc_lots acc). \<exists>lot \<in> set lots. lot_quantity lot \<le> 0
      then Inl InvariantViolation else Inr ())"

definition then_check :: "account_state res \<Rightarrow> account_state res" where
  "then_check r = res_bind r (\<lambda>acc. res_bind (check_account acc) (\<lambda>_. Inr acc))"

section \<open>Digest and valuation\<close>

definition hash_payload :: "account_state \<Rightarrow> json" where
  "hash_payload acc = JObj
     [(''cash'', JNum (round_dec 6 (acc_cash acc))),
      (''realisedPnl'', JNum (round_dec 6 (acc_realised_pnl acc))),
      (''totalFees'', JNum (round_dec 6 (acc_total_fees acc))),
      (''totalSlippage'', JNum (round_dec 6 (acc_total_slippage acc))),
      (''lots'', JObj (map (\<lambda>(symbol, lots). (symbol, JList (map
          (\<lambda>(i, q, c, d). JList [JStr i, JInt q, JNum c, JStr d])
          (sort (map (\<lambda>lot. (lot_position_lot_id lot, lot_quantity lot,
             round_dec 6 (lot_cost_price lot), lot_acquired_on lot)) lots)))))
        (sort_key fst (acc_lots acc))))]"

definition content_hash :: "digest \<Rightarrow> account_state \<Rightarrow> string" where
  "content_hash H acc = H (hash_payload acc)"

definition AccountState_to_dict :: "digest \<Rightarrow> account_state \<Rightarrow> json" where
  "AccountState_to_dict H acc = JObj
     [(''cash'', JNum (acc_cash acc)),
      (''realisedPnl'', JNum (acc_realised_pnl acc)),
      (''totalFees'', JNum (acc_total_fees acc)),
      (''totalSlippage'', JNum (acc_total_slippage acc)),
      (''positions'', JObj (map (\<lambda>symbol. (symbol, JInt (position acc symbol)))
         (sort (map fst (acc_lots acc))))),
      (''duplicateExecutions'', JList (map JStr (acc_duplicate_executions acc))),
      (''contentHash'', JStr (content_hash H acc))]"

record valuation_report =
  val_nav :: "rat option"
  val_market_value :: "rat option"
  val_unrealised_pnl :: "rat option"
  val_identity_residual :: "rat option"
  val_unpriceable_symbols :: "string list"

definition valuation :: "account_state \<Rightarrow> (string \<rightharpoonup> rat) \<Rightarrow> valuation_report res" where
  "valuation acc prices =
     (let missing = unpriceable acc prices in
      if missing \<noteq> [] then
        Inr \<lparr>val_nav = None, val_market_value = None, val_unrealised_pnl = None,
             val_identity_residual = None, val_unpriceable_symbols = missing\<rparr>
      else res_bind (nav acc prices) (\<lambda>n. res_bind (market_value acc prices) (\<lambda>mv.
        res_bind (unrealised_pnl acc prices) (\<lambda>u.
          res_bind (identity_residual acc prices) (\<lambda>r.
            Inr \<lparr>val_nav = Some n, val_market_value = Some mv, val_unrealised_pnl = Some u,
                 val_identity_residual = Some r, val_unpriceable_symbols = []\<rparr>)))))"

section \<open>Replaying an event log\<close>

type_synonym pending = "(int, corporate_action list) dict"

fun group_actions :: "(int \<times> corporate_action) list \<Rightarrow> pending \<Rightarrow> pending" where
  "group_actions [] pending = pending"
| "group_actions ((index, action) # rest) pending =
     group_actions rest (AList.update index (dict_get pending index [] @ [action]) pending)"

fun apply_actions :: "corporate_action list \<Rightarrow> account_state \<Rightarrow> account_state res" where
  "apply_actions [] acc = Inr acc"
| "apply_actions (a # rest) acc =
     res_bind (then_check (apply_corporate_action a acc)) (apply_actions rest)"

text \<open>\<open>known.get(execution) or known.get(order) or filled_at[:10]\<close>: an empty date is falsy.\<close>

definition settlement_date :: "(string, string) dict \<Rightarrow> order_event \<Rightarrow> fill \<Rightarrow> string" where
  "settlement_date known event f =
     (let d = dict_get known (fill_execution_id f) [] in
      if d \<noteq> [] then d
      else let d = dict_get known (ev_order_id event) [] in
        if d \<noteq> [] then d else take 10 (fill_filled_at f))"

record replay_state =
  rp_account :: account_state
  rp_pending :: pending
  rp_applied :: "(string, fill) dict"
  rp_duplicates :: "string list"

definition replay_fill ::
    "digest \<Rightarrow> (string, string) dict \<Rightarrow> order_event \<Rightarrow> replay_state \<Rightarrow> replay_state res" where
  "replay_fill H known event st =
     (if \<not> is_fill_event (ev_event_type event) then Inr st
      else case ev_fill event of
        None \<Rightarrow> Inl InvariantViolation
      | Some f \<Rightarrow>
          (case map_of (rp_applied st) (fill_execution_id f) of
             Some seen \<Rightarrow>
               (if \<not> same_execution seen f then Inl InvariantViolation
                else Inr (st\<lparr>rp_duplicates := rp_duplicates st @ [fill_execution_id f]\<rparr>))
           | None \<Rightarrow>
               res_bind
                 (then_check (apply_fill H f (settlement_date known event f) (rp_account st)))
                 (\<lambda>acc. Inr (st\<lparr>rp_account := acc,
                    rp_applied := AList.update (fill_execution_id f) f (rp_applied st)\<rparr>))))"

definition replay_event ::
    "digest \<Rightarrow> (string, string) dict \<Rightarrow> int \<Rightarrow> order_event \<Rightarrow> replay_state \<Rightarrow> replay_state res"
where
  "replay_event H known index event st =
     res_bind (apply_actions (dict_get (rp_pending st) index []) (rp_account st)) (\<lambda>acc.
       replay_fill H known event
         (st\<lparr>rp_account := acc, rp_pending := AList.delete index (rp_pending st)\<rparr>))"

fun replay_events ::
    "digest \<Rightarrow> (string, string) dict \<Rightarrow> int \<Rightarrow> order_event list \<Rightarrow> replay_state \<Rightarrow> replay_state res"
where
  "replay_events H known index [] st = Inr st"
| "replay_events H known index (event # rest) st =
     res_bind (replay_event H known index event st) (replay_events H known (index + 1) rest)"

definition replay_account ::
    "digest \<Rightarrow> order_event list \<Rightarrow> rat \<Rightarrow> (string, string) dict \<Rightarrow> (int \<times> corporate_action) list
     \<Rightarrow> account_state res" where
  "replay_account H events initial_cash trade_date_of corporate_actions =
     res_bind
       (replay_events H trade_date_of 0 events
          \<lparr>rp_account = opening_account initial_cash, rp_pending = group_actions corporate_actions [],
           rp_applied = [], rp_duplicates = []\<rparr>)
       (\<lambda>st. res_bind
          (apply_actions (concat (map snd (sort_key fst (rp_pending st)))) (rp_account st))
          (\<lambda>acc. Inr (acc\<lparr>acc_duplicate_executions := rp_duplicates st\<rparr>)))"

end
