(* ===== verification/Account_Facts.thy ===== *)
theory Account_Facts
  imports Accounting
begin

text \<open>
  What the account keeps: every lot is positive, every held symbol has a cost basis, and the
  profit split agrees with the money.  The last is the identity the source calls
  \<open>identity_residual\<close>; here it is an invariant of every fold, from which the residual is zero
  under any marks.
\<close>

section \<open>Lots\<close>

lemma total_quantity_simps [simp]:
  "total_quantity [] = 0"
  "total_quantity (l # ls) = lot_quantity l + total_quantity ls"
  "total_quantity (ls @ ms) = total_quantity ls + total_quantity ms"
  by (simp_all add: total_quantity_def)

lemma sellable_quantity_simps [simp]:
  "sellable_quantity [] d = 0"
  "sellable_quantity (l # ls) d = (if sellable_on l d then lot_quantity l else 0) + sellable_quantity ls d"
  by (simp_all add: sellable_quantity_def)

definition lots_positive :: "position_lot list \<Rightarrow> bool" where
  "lots_positive ls \<longleftrightarrow> (\<forall>l \<in> set ls. 0 < lot_quantity l)"

lemma lots_positive_simps [simp]:
  "lots_positive []"
  "lots_positive (l # ls) \<longleftrightarrow> 0 < lot_quantity l \<and> lots_positive ls"
  "lots_positive (ls @ ms) \<longleftrightarrow> lots_positive ls \<and> lots_positive ms"
  by (auto simp: lots_positive_def)

lemma total_quantity_pos: "lots_positive ls \<Longrightarrow> ls \<noteq> [] \<Longrightarrow> 0 < total_quantity ls"
proof (induction ls)
  case (Cons l ls)
  then show ?case by (cases ls) auto
qed simp

lemma sellable_le_total: "lots_positive ls \<Longrightarrow> sellable_quantity ls d \<le> total_quantity ls"
  by (induction ls) auto

lemma sellable_nonneg: "lots_positive ls \<Longrightarrow> 0 \<le> sellable_quantity ls d"
  by (induction ls) auto

lemma consume_lots_idle: "r \<le> 0 \<Longrightarrow> consume_lots r d ls = ls"
  by (induction ls) auto

lemma consume_lots_positive: "lots_positive ls \<Longrightarrow> lots_positive (consume_lots r d ls)"
  by (induction ls arbitrary: r) (auto simp: Let_def min_def)

lemma consume_lots_total:
  "lots_positive ls \<Longrightarrow> 0 \<le> r \<Longrightarrow> r \<le> sellable_quantity ls d \<Longrightarrow>
     total_quantity (consume_lots r d ls) = total_quantity ls - r"
proof (induction ls arbitrary: r)
  case Nil
  then show ?case by simp
next
  case (Cons l ls)
  show ?case
  proof (cases "r \<le> 0 \<or> \<not> sellable_on l d")
    case True
    with Cons show ?thesis by (auto simp: consume_lots_idle)
  next
    case False
    let ?t = "min r (lot_quantity l)"
    have "total_quantity (consume_lots (r - ?t) d ls) = total_quantity ls - (r - ?t)"
      using Cons False by (intro Cons.IH) (auto simp: min_def sellable_nonneg)
    with False show ?thesis by (auto simp: Let_def min_def)
  qed
qed

text \<open>Unsettled lots come through untouched and in order.\<close>

lemma consume_lots_unsettled:
  "filter (\<lambda>l. \<not> sellable_on l d) (consume_lots r d ls) = filter (\<lambda>l. \<not> sellable_on l d) ls"
  by (induction ls arbitrary: r) (auto simp: Let_def sellable_on_def)

section \<open>The account invariant\<close>

definition invested :: "account_state \<Rightarrow> rat" where
  "invested acc = dict_sum (\<lambda>symbol lots.
     dict_get (acc_cost_basis acc) symbol 0 * of_int (total_quantity lots)) (acc_lots acc)"

definition inventory_ok :: "account_state \<Rightarrow> bool" where
  "inventory_ok acc \<longleftrightarrow>
     dict_wf (acc_lots acc) \<and> dict_wf (acc_cost_basis acc)
     \<and> (\<forall>symbol lots. map_of (acc_lots acc) symbol = Some lots \<longrightarrow>
          lots \<noteq> [] \<and> map_of (acc_cost_basis acc) symbol \<noteq> None)"

definition balanced :: "account_state \<Rightarrow> bool" where
  "balanced acc \<longleftrightarrow>
     acc_cash acc = acc_initial_cash acc + acc_realised_pnl acc - invested acc"

definition all_lots_positive :: "account_state \<Rightarrow> bool" where
  "all_lots_positive acc \<longleftrightarrow> (\<forall>(symbol, lots) \<in> set (acc_lots acc). lots_positive lots)"

definition account_ok :: "account_state \<Rightarrow> bool" where
  "account_ok acc \<longleftrightarrow> inventory_ok acc \<and> balanced acc \<and> all_lots_positive acc"

lemma account_ok_opening: "account_ok (opening_account c)"
  by (simp add: account_ok_def inventory_ok_def balanced_def all_lots_positive_def invested_def
      opening_account_def)

lemma check_account_Inr: "check_account acc = Inr u \<longleftrightarrow> all_lots_positive acc"
  by (force simp: check_account_def all_lots_positive_def lots_positive_def)

lemma then_check_Inr: "then_check r = Inr acc \<longleftrightarrow> r = Inr acc \<and> all_lots_positive acc"
  by (auto simp: then_check_def res_bind_Inr_iff check_account_Inr)

lemma invested_split:
  "dict_wf (acc_lots acc) \<Longrightarrow> invested acc =
     dict_get (acc_cost_basis acc) k 0 * of_int (total_quantity (dict_get (acc_lots acc) k []))
     + dict_sum (\<lambda>symbol lots.
         dict_get (acc_cost_basis acc) symbol 0 * of_int (total_quantity lots))
       (AList.delete k (acc_lots acc))"
  unfolding invested_def
  by (subst dict_sum_split [where k = k]) (auto simp: dict_get_def split: option.splits)

text \<open>
  An operation on one symbol: its lots and its cost basis change, and the invested sum changes
  by what that symbol contributes.
\<close>

lemma invested_change:
  assumes wf: "dict_wf (acc_lots acc)"
    and lots: "acc_lots acc' = AList.update k ls (acc_lots acc)"
    and basis: "\<And>s. s \<noteq> k \<Longrightarrow> dict_get (acc_cost_basis acc') s 0 = dict_get (acc_cost_basis acc) s 0"
  shows "invested acc' - dict_get (acc_cost_basis acc') k 0 * of_int (total_quantity ls) =
    invested acc -
      dict_get (acc_cost_basis acc) k 0 * of_int (total_quantity (dict_get (acc_lots acc) k []))"
proof -
  have "invested acc' = dict_get (acc_cost_basis acc') k 0 * of_int (total_quantity ls)
      + dict_sum (\<lambda>s l. dict_get (acc_cost_basis acc') s 0 * of_int (total_quantity l))
          (AList.delete k (acc_lots acc))"
    unfolding invested_def lots by (rule dict_sum_update [OF wf])
  also have "dict_sum (\<lambda>s l. dict_get (acc_cost_basis acc') s 0 * of_int (total_quantity l))
        (AList.delete k (acc_lots acc)) =
      dict_sum (\<lambda>s l. dict_get (acc_cost_basis acc) s 0 * of_int (total_quantity l))
        (AList.delete k (acc_lots acc))"
    by (rule dict_sum_delete_cong) (simp add: basis)
  finally show ?thesis
    using invested_split [OF wf, of k] by simp
qed

lemma positive_at: "all_lots_positive acc \<Longrightarrow> map_of (acc_lots acc) k = Some ls \<Longrightarrow> lots_positive ls"
  by (auto simp: all_lots_positive_def dest: map_of_SomeD)

lemma held_positive:
  assumes "account_ok acc"
  shows "lots_positive (dict_get (acc_lots acc) k [])"
    and "dict_get (acc_lots acc) k [] \<noteq> [] \<Longrightarrow> map_of (acc_cost_basis acc) k \<noteq> None"
  using assms
  by (auto simp: account_ok_def all_lots_positive_def inventory_ok_def dict_get_def
      dest: map_of_SomeD split: option.splits)

section \<open>A buy\<close>

lemma apply_buy_fields [simp]:
  "acc_lots (apply_buy H f d acc) = AList.update (fill_symbol f)
     (dict_get (acc_lots acc) (fill_symbol f) [] @ [PositionLot_from_fill H f d]) (acc_lots acc)"
  "acc_cash (apply_buy H f d acc) = acc_cash acc + fill_cash_delta f"
  "acc_realised_pnl (apply_buy H f d acc) = acc_realised_pnl acc"
  "acc_initial_cash (apply_buy H f d acc) = acc_initial_cash acc"
  by (simp_all add: apply_buy_def Let_def)

lemma lot_from_fill [simp]:
  "lot_quantity (PositionLot_from_fill H f d) = fill_quantity f"
  "lot_acquired_on (PositionLot_from_fill H f d) = d"
  by (simp_all add: PositionLot_from_fill_def Let_def)

lemma apply_buy_ok:
  assumes ok: "account_ok acc" and side: "fill_side f = BUY"
    and pos: "all_lots_positive (apply_buy H f d acc)"
  shows "account_ok (apply_buy H f d acc)"
proof -
  let ?k = "fill_symbol f" and ?a = "apply_buy H f d acc"
  let ?old = "dict_get (acc_lots acc) ?k []"
  let ?held = "total_quantity ?old"
  have wf: "dict_wf (acc_lots acc)" "dict_wf (acc_cost_basis acc)"
    using ok by (simp_all add: account_ok_def inventory_ok_def)
  have new: "lots_positive (?old @ [PositionLot_from_fill H f d])"
    by (rule positive_at [OF pos, of ?k]) simp
  then have "0 < total_quantity (?old @ [PositionLot_from_fill H f d])"
    by (intro total_quantity_pos) simp_all
  then have held: "0 < ?held + fill_quantity f" by simp
  have basis: "acc_cost_basis ?a = AList.update ?k
      ((dict_get (acc_cost_basis acc) ?k 0 * of_int ?held + fill_gross f + fill_fees f)
        / of_int (?held + fill_quantity f)) (acc_cost_basis acc)"
    using held by (simp add: apply_buy_def Let_def)
  have "dict_get (acc_cost_basis ?a) ?k 0 * of_int (?held + fill_quantity f) =
      dict_get (acc_cost_basis acc) ?k 0 * of_int ?held + fill_gross f + fill_fees f"
    using held by (simp add: basis)
  then have "invested ?a = invested acc + (fill_gross f + fill_fees f)"
    using invested_change [OF wf(1), of ?a ?k "?old @ [PositionLot_from_fill H f d]"]
    by (simp add: basis)
  then have "balanced ?a"
    using ok side by (simp add: balanced_def account_ok_def fill_cash_delta_def)
  moreover have "inventory_ok ?a"
    using ok wf by (auto simp: account_ok_def inventory_ok_def basis)
  ultimately show ?thesis using pos by (simp add: account_ok_def)
qed

section \<open>A sell\<close>

lemma apply_sell_Inr:
  "apply_sell f d acc = Inr acc' \<longleftrightarrow>
     fill_quantity f \<le> sellable acc (fill_symbol f) d \<and>
     (let kept = consume_lots (fill_quantity f) d (dict_get (acc_lots acc) (fill_symbol f) []);
          basis = dict_get (acc_cost_basis acc) (fill_symbol f) (fill_price f)
      in acc' = acc\<lparr>acc_cash := acc_cash acc + fill_cash_delta f,
           acc_lots := (if kept \<noteq> [] then AList.update (fill_symbol f) kept (acc_lots acc)
                        else AList.delete (fill_symbol f) (acc_lots acc)),
           acc_realised_pnl := acc_realised_pnl acc +
             ((fill_price f - basis) * of_int (fill_quantity f) - fill_fees f),
           acc_total_fees := acc_total_fees acc + fill_fees f,
           acc_total_slippage := acc_total_slippage acc + fill_slippage f\<rparr>)"
  by (auto simp: apply_sell_def sellable_def Let_def)

lemma map_of_put:
  "map_of (if ls \<noteq> [] then AList.update k ls d else AList.delete k d) k' =
     (if k' = k then if ls \<noteq> [] then Some ls else None else map_of d k')"
  by simp

lemma apply_sell_ok:
  assumes ok: "account_ok acc" and side: "fill_side f = SELL" and q: "0 \<le> fill_quantity f"
    and sell: "apply_sell f d acc = Inr acc'"
  shows "account_ok acc'"
proof -
  let ?k = "fill_symbol f" and ?q = "fill_quantity f"
  let ?old = "dict_get (acc_lots acc) ?k []"
  let ?kept = "consume_lots ?q d ?old"
  let ?b = "dict_get (acc_cost_basis acc) ?k 0"
  have wf: "dict_wf (acc_lots acc)" "dict_wf (acc_cost_basis acc)"
    using ok by (simp_all add: account_ok_def inventory_ok_def)
  have old: "lots_positive ?old" by (rule held_positive [OF ok])
  from sell have le: "?q \<le> sellable_quantity ?old d"
    by (simp add: apply_sell_Inr sellable_def)
  have lots: "acc_lots acc' =
      (if ?kept \<noteq> [] then AList.update ?k ?kept (acc_lots acc) else AList.delete ?k (acc_lots acc))"
    and cash: "acc_cash acc' = acc_cash acc + (of_int ?q * fill_price f - fill_fees f)"
    and basis: "acc_cost_basis acc' = acc_cost_basis acc"
    and init: "acc_initial_cash acc' = acc_initial_cash acc"
    and realised: "acc_realised_pnl acc' = acc_realised_pnl acc +
      ((fill_price f - dict_get (acc_cost_basis acc) ?k (fill_price f)) * of_int ?q - fill_fees f)"
    using sell side by (simp_all add: apply_sell_Inr Let_def fill_cash_delta_def fill_gross_def)
  have b: "dict_get (acc_cost_basis acc) ?k (fill_price f) * of_int ?q = ?b * of_int ?q"
  proof (cases "?old = []")
    case True
    with q le show ?thesis by simp
  next
    case False
    with held_positive(2) [OF ok] obtain c where "map_of (acc_cost_basis acc) ?k = Some c"
      by blast
    then show ?thesis by (simp add: dict_get_def)
  qed
  have "invested acc' = ?b * of_int (total_quantity ?kept)
      + dict_sum (\<lambda>s l. dict_get (acc_cost_basis acc) s 0 * of_int (total_quantity l))
          (AList.delete ?k (acc_lots acc))"
    using wf by (simp add: invested_def lots basis dict_sum_update)
  also have "total_quantity ?kept = total_quantity ?old - ?q"
    by (rule consume_lots_total [OF old q le])
  finally have "invested acc' = invested acc - ?b * of_int ?q"
    using invested_split [OF wf(1), of ?k] by (simp add: algebra_simps)
  then have "balanced acc'"
    using ok realised [unfolded left_diff_distrib] b cash init mult.commute [of "of_int ?q" "fill_price f"]
    unfolding balanced_def account_ok_def by linarith
  moreover have entry: "s = ?k \<and> l = ?kept \<and> ?kept \<noteq> [] \<or> map_of (acc_lots acc) s = Some l"
    if "map_of (acc_lots acc') s = Some l" for s l
    using that unfolding lots map_of_put by (auto split: if_splits)
  moreover have wf': "dict_wf (acc_lots acc')" using wf by (simp add: lots)
  moreover have "all_lots_positive acc'"
  proof -
    have "lots_positive l" if "map_of (acc_lots acc') s = Some l" for s l
      using entry [OF that] consume_lots_positive [OF old, of ?q d] ok
      by (auto simp: account_ok_def dest: positive_at)
    then show ?thesis
      unfolding all_lots_positive_def using wf' by (auto simp only: in_set_dict)
  qed
  moreover have "inventory_ok acc'"
  proof -
    have kept: "?kept \<noteq> [] \<Longrightarrow> map_of (acc_cost_basis acc) ?k \<noteq> None"
      using held_positive(2) [OF ok, of ?k] by (cases "?old = []") simp_all
    have "l \<noteq> [] \<and> map_of (acc_cost_basis acc) s \<noteq> None"
      if "map_of (acc_lots acc') s = Some l" for s l
      using entry [OF that]
    proof
      assume "s = ?k \<and> l = ?kept \<and> ?kept \<noteq> []"
      with kept show ?thesis by simp
    next
      assume "map_of (acc_lots acc) s = Some l"
      with ok show ?thesis unfolding account_ok_def inventory_ok_def by blast
    qed
    then show ?thesis using wf wf' unfolding inventory_ok_def basis by blast
  qed
  ultimately show ?thesis unfolding account_ok_def by blast
qed

section \<open>A corporate action\<close>

text \<open>
  An action whose ratio the constructor accepts and whose denominator is below \<open>10 ^ 9\<close>: every
  decimal of at most eight places.  For these the tolerance of \<open>1e-9\<close> admits exact results only.
\<close>

definition exact_action :: "corporate_action \<Rightarrow> bool" where
  "exact_action a \<longleftrightarrow> 0 < ca_share_ratio a \<and> snd (quotient_of (ca_share_ratio a)) < 10 ^ 9"

lemma scale_lot_exact:
  assumes a: "exact_action a" and s: "scale_lot a l = Inr l'"
  shows "of_int (lot_quantity l') = of_int (lot_quantity l) * ca_share_ratio a"
proof -
  let ?x = "of_int (lot_quantity l) * ca_share_ratio a"
  have near: "\<bar>?x - of_int (round_half_even ?x)\<bar> \<le> 1 / 10 ^ 9"
    and l': "lot_quantity l' = round_half_even ?x"
    using s by (auto simp: scale_lot_def Let_def split: if_splits)
  have "?x = of_int (round_half_even ?x)"
    using a near by (intro near_int_exact) (simp_all add: exact_action_def)
  with l' show ?thesis by simp
qed

lemma scale_lots_total:
  "exact_action a \<Longrightarrow> map_res (scale_lot a) ls = Inr ls' \<Longrightarrow>
     of_int (total_quantity ls') = of_int (total_quantity ls) * ca_share_ratio a"
proof (induction ls arbitrary: ls')
  case (Cons l ls)
  then show ?case
    by (auto simp: res_bind_Inr_iff algebra_simps dest: scale_lot_exact)
qed simp

lemma map_res_nonempty: "map_res f xs = Inr ys \<Longrightarrow> ys \<noteq> [] \<longleftrightarrow> xs \<noteq> []"
  by (cases xs) (auto simp: res_bind_Inr_iff)

lemma apply_corporate_action_ok:
  assumes ok: "account_ok acc" and a: "exact_action a"
    and app: "apply_corporate_action a acc = Inr acc'" and pos: "all_lots_positive acc'"
  shows "account_ok acc'"
proof (cases "dict_get (acc_lots acc) (ca_symbol a) [] = []")
  case True
  with app ok show ?thesis by (simp add: apply_corporate_action_def)
next
  case False
  let ?k = "ca_symbol a"
  let ?old = "dict_get (acc_lots acc) ?k []"
  have wf: "dict_wf (acc_lots acc)" "dict_wf (acc_cost_basis acc)"
    using ok by (simp_all add: account_ok_def inventory_ok_def)
  from held_positive(2) [OF ok False] obtain b where b: "map_of (acc_cost_basis acc) ?k = Some b"
    by auto
  from app False obtain new where new: "map_res (scale_lot a) ?old = Inr new"
    and acc': "acc' = acc\<lparr>acc_cash := acc_cash acc + of_int (total_quantity ?old) * ca_cash_per_share a,
      acc_realised_pnl := acc_realised_pnl acc + of_int (total_quantity ?old) * ca_cash_per_share a,
      acc_lots := AList.update ?k new (acc_lots acc),
      acc_cost_basis := AList.update ?k (b / ca_share_ratio a) (acc_cost_basis acc)\<rparr>"
    by (auto simp: apply_corporate_action_def Let_def res_bind_Inr_iff b)
  have "(b / ca_share_ratio a) * of_int (total_quantity new) = b * of_int (total_quantity ?old)"
    using scale_lots_total [OF a new] a by (simp add: exact_action_def)
  then have "invested acc' = invested acc"
    using invested_change [OF wf(1), of acc' ?k new] b by (simp add: acc' dict_get_def)
  then have "balanced acc'"
    using ok by (simp add: balanced_def account_ok_def acc')
  moreover have "inventory_ok acc'"
    using ok wf map_res_nonempty [OF new] False by (auto simp: account_ok_def inventory_ok_def acc')
  ultimately show ?thesis using pos by (simp add: account_ok_def)
qed

section \<open>Replay\<close>

definition fill_ok :: "order_event \<Rightarrow> bool" where
  "fill_ok e \<longleftrightarrow> (case ev_fill e of None \<Rightarrow> True | Some f \<Rightarrow> fill_side f = SELL \<longrightarrow> 0 \<le> fill_quantity f)"

lemma apply_fill_ok:
  assumes "account_ok acc" "then_check (apply_fill H f d acc) = Inr acc'"
    "fill_side f = SELL \<longrightarrow> 0 \<le> fill_quantity f"
  shows "account_ok acc'"
proof (cases "fill_side f")
  case BUY
  with assms show ?thesis by (auto simp: then_check_Inr apply_fill_def intro: apply_buy_ok)
next
  case SELL
  with assms show ?thesis by (auto simp: then_check_Inr apply_fill_def intro: apply_sell_ok)
qed

lemma apply_actions_ok:
  "account_ok acc \<Longrightarrow> \<forall>a \<in> set actions. exact_action a \<Longrightarrow>
     apply_actions actions acc = Inr acc' \<Longrightarrow> account_ok acc'"
proof (induction actions arbitrary: acc)
  case (Cons a as)
  then show ?case
    by (auto simp: res_bind_Inr_iff then_check_Inr intro: apply_corporate_action_ok)
qed simp

definition pending_exact :: "pending \<Rightarrow> bool" where
  "pending_exact pending \<longleftrightarrow> (\<forall>(index, actions) \<in> set pending. \<forall>a \<in> set actions. exact_action a)"

lemma pending_exact_get: "pending_exact p \<Longrightarrow> a \<in> set (dict_get p i []) \<Longrightarrow> exact_action a"
  by (cases "map_of p i") (auto simp: pending_exact_def dict_get_def dest!: map_of_SomeD)

lemma pending_exact_delete: "pending_exact p \<Longrightarrow> pending_exact (AList.delete i p)"
  using set_delete_subset [of i p] by (auto simp: pending_exact_def)

lemma pending_exact_group:
  "pending_exact p \<Longrightarrow> \<forall>(i, a) \<in> set actions. exact_action a \<Longrightarrow> pending_exact (group_actions actions p)"
proof (induction actions p rule: group_actions.induct)
  case (2 i a rest p)
  let ?as = "dict_get p i [] @ [a]"
  have "\<forall>x \<in> set ?as. exact_action x"
    using 2 pending_exact_get by auto
  then have "pending_exact (AList.update i ?as p)"
    using 2 set_update_subset [of i ?as p] by (fastforce simp: pending_exact_def)
  with 2 show ?case by simp
qed simp

definition replay_ok :: "replay_state \<Rightarrow> bool" where
  "replay_ok st \<longleftrightarrow> account_ok (rp_account st) \<and> pending_exact (rp_pending st)"

lemma replay_fill_ok:
  "replay_ok st \<Longrightarrow> fill_ok e \<Longrightarrow> replay_fill H known e st = Inr st' \<Longrightarrow> replay_ok st'"
  by (auto simp: replay_fill_def replay_ok_def fill_ok_def res_bind_Inr_iff
      intro: apply_fill_ok split: if_splits option.splits)

lemma replay_event_ok:
  assumes "replay_ok st" "fill_ok e" "replay_event H known i e st = Inr st'"
  shows "replay_ok st'"
proof -
  from assms(3) obtain acc where acc: "apply_actions (dict_get (rp_pending st) i []) (rp_account st) = Inr acc"
    and fill: "replay_fill H known e
      (st\<lparr>rp_account := acc, rp_pending := AList.delete i (rp_pending st)\<rparr>) = Inr st'"
    by (auto simp: replay_event_def res_bind_Inr_iff)
  have "account_ok acc"
    using assms(1) pending_exact_get by (intro apply_actions_ok [OF _ _ acc]) (auto simp: replay_ok_def)
  with assms(1) have "replay_ok (st\<lparr>rp_account := acc, rp_pending := AList.delete i (rp_pending st)\<rparr>)"
    by (simp add: replay_ok_def pending_exact_delete)
  then show ?thesis using assms(2) fill by (rule replay_fill_ok)
qed

lemma replay_events_ok:
  "replay_ok st \<Longrightarrow> \<forall>e \<in> set es. fill_ok e \<Longrightarrow> replay_events H known i es st = Inr st' \<Longrightarrow> replay_ok st'"
  by (induction es arbitrary: i st) (auto simp: res_bind_Inr_iff dest: replay_event_ok)

lemma account_ok_duplicates [simp]: "account_ok (acc\<lparr>acc_duplicate_executions := ds\<rparr>) = account_ok acc"
  by (simp add: account_ok_def inventory_ok_def balanced_def all_lots_positive_def invested_def)

lemma replay_account_ok:
  assumes "\<forall>e \<in> set events. fill_ok e" "\<forall>(i, a) \<in> set actions. exact_action a"
    "replay_account H events cash known actions = Inr acc"
  shows "account_ok acc"
proof -
  from assms(3) obtain st acc' where st: "replay_events H known 0 events
        \<lparr>rp_account = opening_account cash, rp_pending = group_actions actions [],
         rp_applied = [], rp_duplicates = []\<rparr> = Inr st"
    and acc': "apply_actions (concat (map snd (sort_key fst (rp_pending st)))) (rp_account st) = Inr acc'"
    and acc: "acc = acc'\<lparr>acc_duplicate_executions := rp_duplicates st\<rparr>"
    by (auto simp: replay_account_def res_bind_Inr_iff)
  have "pending_exact (group_actions actions [])"
    using assms(2) by (intro pending_exact_group) (simp_all add: pending_exact_def)
  then have "replay_ok st"
    using assms(1) by (intro replay_events_ok [OF _ _ st]) (simp_all add: replay_ok_def account_ok_opening)
  then have "account_ok acc'"
    by (intro apply_actions_ok [OF _ _ acc']) (auto simp: replay_ok_def pending_exact_def)
  then show ?thesis by (simp add: acc)
qed

section \<open>The identity\<close>

lemma held_priced:
  assumes ok: "account_ok acc" and priced: "unpriceable acc prices = []"
    and mem: "(k, ls) \<in> set (acc_lots acc)"
  shows "total_quantity ls \<noteq> 0" and "position acc k = total_quantity ls" and "prices k \<noteq> None"
proof -
  have "dict_wf (acc_lots acc)" using ok by (simp add: account_ok_def inventory_ok_def)
  with mem have m: "map_of (acc_lots acc) k = Some ls" by simp
  have "lots_positive ls" "ls \<noteq> []"
    using ok m mem by (auto simp: account_ok_def all_lots_positive_def inventory_ok_def)
  then show t: "total_quantity ls \<noteq> 0" using total_quantity_pos by fastforce
  show p: "position acc k = total_quantity ls"
    using m by (simp add: position_def dict_get_def)
  have k: "k \<in> set (map fst (acc_lots acc))" using mem by force
  have "set (unpriceable acc prices) = {}" using priced by simp
  then have "{s \<in> set (map fst (acc_lots acc)). position acc s \<noteq> 0 \<and> prices s = None} = {}"
    unfolding unpriceable_def set_sort set_filter .
  then have "k \<notin> {s \<in> set (map fst (acc_lots acc)). position acc s \<noteq> 0 \<and> prices s = None}"
    by (simp only: empty_iff not_False_eq_True)
  moreover have "position acc k \<noteq> 0" unfolding p by (rule t)
  ultimately show "prices k \<noteq> None" using k by (simp only: mem_Collect_eq simp_thms)
qed

lemma unrealised_loop_value:
  "\<forall>(k, ls) \<in> set d. total_quantity ls \<noteq> 0 \<and> prices k \<noteq> None \<Longrightarrow>
   unrealised_loop basis prices d u =
     Inr (u + dict_sum (\<lambda>k ls. (the (prices k) - dict_get basis k 0) * of_int (total_quantity ls)) d)"
proof (induction d arbitrary: u)
  case (Cons e d)
  then show ?case
    by (cases e) (auto simp: price_of_def Let_def algebra_simps)
qed simp

lemma market_value_loop:
  "\<forall>(k, ls) \<in> set d. q k = total_quantity ls \<and> prices k \<noteq> None \<Longrightarrow>
   map_res (\<lambda>s. res_bind (price_of prices s) (\<lambda>p. Inr (of_int (q s) * p))) (map fst d) =
     Inr (map (\<lambda>(k, ls). the (prices k) * of_int (total_quantity ls)) d)"
  by (induction d) (auto simp: price_of_def)

lemma dict_sum_minus:
  "dict_sum (\<lambda>k v. (f k - g k) * (h v :: rat)) d =
     sum_list (map (\<lambda>(k, v). f k * h v) d) - dict_sum (\<lambda>k v. g k * h v) d"
  by (induction d) (auto simp: algebra_simps)

lemma identity_of_ok:
  assumes ok: "account_ok acc" and priced: "unpriceable acc prices = []"
  shows "identity_residual acc prices = Inr 0"
proof -
  let ?h = "\<lambda>ls. of_int (total_quantity ls) :: rat" and ?d = "acc_lots acc"
  have loop: "unrealised_loop (acc_cost_basis acc) prices ?d 0 =
      Inr (dict_sum (\<lambda>k ls. (the (prices k) - dict_get (acc_cost_basis acc) k 0) * ?h ls) ?d)"
    using held_priced [OF ok priced] by (subst unrealised_loop_value) auto
  have mv: "market_value acc prices =
      Inr (sum_list (map (\<lambda>(k, ls). the (prices k) * ?h ls) ?d))"
    using held_priced [OF ok priced]
    by (simp add: market_value_def priced) (subst market_value_loop, auto)
  have "balanced acc" using ok by (simp add: account_ok_def)
  then show ?thesis
    by (simp add: identity_residual_def unrealised_pnl_def nav_def priced loop mv balanced_def
        invested_def dict_sum_minus)
qed

end
