(* ===== verification/Account_Props.thy ===== *)
theory Account_Props
  imports Account_Facts Order_Props
begin

text \<open>
  The promises of the account: the profit identity after any replay, next-day settlement, and the
  replay's indifference to re-delivered fills.
\<close>

section \<open>Samples\<close>

definition account_log :: "order_event list" where
  "account_log = [sample_event Ev_FILL (Some (sample_fill ''x1'' BUY 100 10)) None,
     sample_event Ev_FILL (Some (sample_fill ''x1'' BUY 100 10)) None,
     sample_event Ev_FILL (Some ((sample_fill ''x2'' SELL 150 6)\<lparr>fill_filled_at := ''2024-01-05''\<rparr>)) None]"

definition split_action :: corporate_action where
  "split_action = \<lparr>ca_corporate_action_id = ''ca'', ca_symbol = ''600000.SH'', ca_ex_date = ''2024-01-04'',
     ca_share_ratio = 2, ca_cash_per_share = 1 / 2, ca_lineage = no_lineage\<rparr>"

definition sample_account :: account_state where
  "sample_account = opening_account 10000\<lparr>acc_cash := 9940, acc_lots :=
     [(''600000.SH'', [(PositionLot_from_fill sample_digest (sample_fill ''x1'' BUY 100 10) ''2024-01-02'')
        \<lparr>lot_quantity := 50, lot_cost_price := 201 / 40\<rparr>])],
     acc_realised_pnl := 765 / 4, acc_total_fees := 10, acc_cost_basis := [(''600000.SH'', 201 / 40)],
     acc_duplicate_executions := [''x1'']\<rparr>"

lemma sample_replay:
  "replay_account sample_digest account_log 10000 [] [(2, split_action)] = Inr sample_account"
  by code_simp

section \<open>The identity\<close>

text \<open>C9. Whatever fills and corporate actions are folded, realised plus unrealised profit equals the
  change of net asset value, exactly and under any marks that price what is held: provided a sell
  does not carry a negative quantity and a share ratio has a denominator below 10^9.\<close>

theorem replay_identity:
  assumes "replay_account H events initial_cash known actions = Inr acc"
    and "\<forall>e \<in> set events. fill_ok e" "\<forall>(i, a) \<in> set actions. exact_action a"
    and "unpriceable acc prices = []"
  shows "identity_residual acc prices = Inr 0"
  by (rule identity_of_ok [OF replay_account_ok [OF assms(2,3,1)] assms(4)])

lemma sample_log_ok:
  "\<forall>e \<in> set account_log. fill_ok e" "\<forall>(i, a) \<in> set [(2, split_action)]. exact_action a"
  by (simp_all add: account_log_def sample_event_def sample_fill_def fill_ok_def exact_action_def
      split_action_def)

theorem replay_identity_witness:
  "identity_residual sample_account (\<lambda>s. if s = ''600000.SH'' then Some 7 else None) = Inr 0"
  by (rule replay_identity [OF sample_replay sample_log_ok]) code_simp

text \<open>C14. Every account a replay returns is sound: all lots are positive, every held symbol has a
  cost basis, and cash is the opening cash plus realised profit less what is invested at cost.\<close>

theorem replay_account_sound:
  assumes "replay_account H events initial_cash known actions = Inr acc"
    and "\<forall>e \<in> set events. fill_ok e" "\<forall>(i, a) \<in> set actions. exact_action a"
  shows "(\<forall>(symbol, lots) \<in> set (acc_lots acc). \<forall>l \<in> set lots. 0 < lot_quantity l)
    \<and> (\<forall>symbol. map_of (acc_lots acc) symbol \<noteq> None \<longrightarrow> map_of (acc_cost_basis acc) symbol \<noteq> None)
    \<and> acc_cash acc = acc_initial_cash acc + acc_realised_pnl acc
        - (\<Sum>(symbol, lots)\<leftarrow>acc_lots acc.
            dict_get (acc_cost_basis acc) symbol 0 * of_int (total_quantity lots))"
proof -
  have "account_ok acc" by (rule replay_account_ok [OF assms(2,3,1)])
  then show ?thesis
    by (auto simp: account_ok_def inventory_ok_def balanced_def all_lots_positive_def
        lots_positive_def invested_def dict_sum_def)
qed

theorem replay_account_sound_witness:
  "acc_cash sample_account = acc_initial_cash sample_account + acc_realised_pnl sample_account
     - (\<Sum>(symbol, lots)\<leftarrow>acc_lots sample_account.
          dict_get (acc_cost_basis sample_account) symbol 0 * of_int (total_quantity lots))"
  using replay_account_sound [OF sample_replay sample_log_ok] by blast

section \<open>Next-day settlement\<close>

lemma lots_after_sell:
  assumes "apply_sell f d acc = Inr acc'"
  shows "dict_get (acc_lots acc') (fill_symbol f) [] =
      consume_lots (fill_quantity f) d (dict_get (acc_lots acc) (fill_symbol f) [])"
    and "s \<noteq> fill_symbol f \<Longrightarrow> dict_get (acc_lots acc') s [] = dict_get (acc_lots acc) s []"
  using assms by (auto simp: apply_sell_Inr Let_def dict_get_def)

text \<open>C15. Selling is settled stock only: on a sound account a sell is accepted exactly when the shares
  acquired before the trade date cover it; it then takes exactly the sold quantity from the
  position, leaves the shares of the day untouched and in order, and no other symbol moves.\<close>

theorem sell_takes_settled_shares:
  assumes ok: "account_ok acc" and "fill_side f = SELL" and q: "0 \<le> fill_quantity f"
  shows "(\<exists>acc'. apply_fill H f d acc = Inr acc') = (fill_quantity f \<le> sellable acc (fill_symbol f) d)
    \<and> (\<forall>acc'. apply_fill H f d acc = Inr acc' \<longrightarrow>
         position acc' (fill_symbol f) = position acc (fill_symbol f) - fill_quantity f
       \<and> filter (\<lambda>l. \<not> sellable_on l d) (dict_get (acc_lots acc') (fill_symbol f) []) =
           filter (\<lambda>l. \<not> sellable_on l d) (dict_get (acc_lots acc) (fill_symbol f) [])
       \<and> (\<forall>s. s \<noteq> fill_symbol f \<longrightarrow> dict_get (acc_lots acc') s [] = dict_get (acc_lots acc) s []))"
proof (intro conjI allI impI)
  have f: "apply_fill H f d acc = apply_sell f d acc" using assms(2) by (simp add: apply_fill_def)
  show "(\<exists>acc'. apply_fill H f d acc = Inr acc') = (fill_quantity f \<le> sellable acc (fill_symbol f) d)"
    by (simp add: f apply_sell_Inr Let_def)
  fix acc' assume "apply_fill H f d acc = Inr acc'"
  then have s: "apply_sell f d acc = Inr acc'" by (simp add: f)
  then have "fill_quantity f \<le> sellable_quantity (dict_get (acc_lots acc) (fill_symbol f) []) d"
    by (simp add: apply_sell_Inr sellable_def)
  then show "position acc' (fill_symbol f) = position acc (fill_symbol f) - fill_quantity f"
    using consume_lots_total [OF held_positive(1) [OF ok] q] by (simp add: position_def lots_after_sell [OF s])
  show "filter (\<lambda>l. \<not> sellable_on l d) (dict_get (acc_lots acc') (fill_symbol f) []) =
      filter (\<lambda>l. \<not> sellable_on l d) (dict_get (acc_lots acc) (fill_symbol f) [])"
    by (simp add: lots_after_sell [OF s] consume_lots_unsettled)
  fix t assume "t \<noteq> fill_symbol f"
  then show "dict_get (acc_lots acc') t [] = dict_get (acc_lots acc) t []" by (rule lots_after_sell(2) [OF s])
qed

lemma sample_account_ok: "account_ok sample_account"
  by (rule replay_account_ok [OF sample_log_ok sample_replay])

theorem sell_takes_settled_shares_witness:
  "\<not> (\<exists>acc'. apply_fill sample_digest (sample_fill ''x3'' SELL 50 7) ''2024-01-02'' sample_account = Inr acc')
   \<and> (\<exists>acc'. apply_fill sample_digest (sample_fill ''x3'' SELL 50 7) ''2024-01-03'' sample_account = Inr acc')"
proof -
  have s: "sellable sample_account ''600000.SH'' ''2024-01-02'' = 0"
    "sellable sample_account ''600000.SH'' ''2024-01-03'' = 50" by code_simp+
  show ?thesis
    using sell_takes_settled_shares [OF sample_account_ok, of "sample_fill ''x3'' SELL 50 7" sample_digest]
      s by (simp add: sample_fill_def)
qed

text \<open>A buy cannot be sold the same day: it raises the position by its quantity and leaves what is
  sellable on its trade date, for every symbol, as it was.\<close>

lemma buy_is_locked_for_the_day:
  assumes "fill_side f = BUY"
  shows "\<exists>acc'. apply_fill H f d acc = Inr acc'
    \<and> position acc' (fill_symbol f) = position acc (fill_symbol f) + fill_quantity f
    \<and> (\<forall>s. sellable acc' s d = sellable acc s d)
    \<and> acc_cash acc' = acc_cash acc - (fill_gross f + fill_fees f)"
  using assms
  by (simp add: apply_fill_def position_def sellable_def fill_cash_delta_def sellable_quantity_def
      sellable_on_def)

section \<open>Re-delivered fills\<close>

lemma replay_events_append:
  "replay_events H known i (es @ fs) st =
     res_bind (replay_events H known i es st) (replay_events H known (i + int (length es)) fs)"
  by (induction es arbitrary: i st) (auto simp: res_bind_def algebra_simps split: sum.splits)

definition applied_has :: "replay_state \<Rightarrow> fill \<Rightarrow> bool" where
  "applied_has st f \<longleftrightarrow>
     (\<exists>g. map_of (rp_applied st) (fill_execution_id f) = Some g \<and> same_execution g f)"

lemma replay_event_applied:
  assumes "replay_event H known i e st = Inr st'"
  shows "applied_has st f \<Longrightarrow> applied_has st' f"
    and "is_fill_event (ev_event_type e) \<Longrightarrow> \<exists>f. ev_fill e = Some f \<and> applied_has st' f"
    and "rp_pending st = [] \<Longrightarrow> rp_pending st' = []"
proof -
  from assms obtain acc where fill: "replay_fill H known e
      (st\<lparr>rp_account := acc, rp_pending := AList.delete i (rp_pending st)\<rparr>) = Inr st'"
    by (auto simp: replay_event_def res_bind_Inr_iff)
  then show "applied_has st f \<Longrightarrow> applied_has st' f"
    by (auto simp: applied_has_def replay_fill_def res_bind_Inr_iff split: if_splits option.splits)
  from fill show "is_fill_event (ev_event_type e) \<Longrightarrow> \<exists>f. ev_fill e = Some f \<and> applied_has st' f"
    by (auto simp: applied_has_def replay_fill_def res_bind_Inr_iff split: if_splits option.splits)
  from fill show "rp_pending st = [] \<Longrightarrow> rp_pending st' = []"
    by (auto simp: replay_fill_def res_bind_Inr_iff split: if_splits option.splits)
qed

lemma replay_events_keep:
  "replay_events H known i es st = Inr st' \<Longrightarrow> applied_has st f \<Longrightarrow> applied_has st' f"
proof (induction es arbitrary: i st)
  case (Cons e es)
  then obtain st1 where "replay_event H known i e st = Inr st1"
    and r: "replay_events H known (i + 1) es st1 = Inr st'"
    by (auto simp: res_bind_Inr_iff)
  with Cons.prems have "applied_has st1 f" by (auto dest: replay_event_applied(1))
  with r show ?case by (rule Cons.IH)
qed simp

lemma replay_events_applied:
  assumes "replay_events H known i es st = Inr st'"
  shows "applied_has st f \<Longrightarrow> applied_has st' f"
    and "e \<in> set es \<Longrightarrow> is_fill_event (ev_event_type e) \<Longrightarrow> \<exists>f. ev_fill e = Some f \<and> applied_has st' f"
    and "rp_pending st = [] \<Longrightarrow> rp_pending st' = []"
proof -
  have "(applied_has st f \<longrightarrow> applied_has st' f) \<and>
      (e \<in> set es \<longrightarrow> is_fill_event (ev_event_type e) \<longrightarrow> (\<exists>f. ev_fill e = Some f \<and> applied_has st' f)) \<and>
      (rp_pending st = [] \<longrightarrow> rp_pending st' = [])" for f
    using assms
  proof (induction es arbitrary: i st)
    case (Cons a es)
    then obtain st1 where a: "replay_event H known i a st = Inr st1"
      and r: "replay_events H known (i + 1) es st1 = Inr st'"
      by (auto simp: res_bind_Inr_iff)
    show ?case
      using Cons.IH [OF r] replay_event_applied [OF a] replay_events_keep [OF r] by auto
  qed simp
  then show "applied_has st f \<Longrightarrow> applied_has st' f"
    "e \<in> set es \<Longrightarrow> is_fill_event (ev_event_type e) \<Longrightarrow> \<exists>f. ev_fill e = Some f \<and> applied_has st' f"
    "rp_pending st = [] \<Longrightarrow> rp_pending st' = []" by blast+
qed

text \<open>Replaying is idempotent in the fills: a fill event that is already in the log, delivered
  again at its end, changes nothing of the account but the record of the duplicate.\<close>

lemma redelivered_fill_inert:
  assumes "replay_account H events initial_cash known [] = Inr acc"
    and "e \<in> set events" "is_fill_event (ev_event_type e)"
  shows "\<exists>f. ev_fill e = Some f \<and> replay_account H (events @ [e]) initial_cash known [] =
    Inr (acc\<lparr>acc_duplicate_executions := acc_duplicate_executions acc @ [fill_execution_id f]\<rparr>)"
proof -
  let ?st0 = "\<lparr>rp_account = opening_account initial_cash, rp_pending = [], rp_applied = [], rp_duplicates = []\<rparr>"
  from assms(1) obtain st where st: "replay_events H known 0 events ?st0 = Inr st"
    by (auto simp: replay_account_def res_bind_Inr_iff)
  have p: "rp_pending st = []" using replay_events_applied(3) [OF st] by simp
  with assms(1) st have acc: "acc = rp_account st\<lparr>acc_duplicate_executions := rp_duplicates st\<rparr>"
    by (simp add: replay_account_def)
  from replay_events_applied(2) [OF st assms(2,3)] obtain f g where f: "ev_fill e = Some f"
    and g: "map_of (rp_applied st) (fill_execution_id f) = Some g" "same_execution g f"
    by (auto simp: applied_has_def)
  have "replay_event H known (int (length events)) e st =
      Inr (st\<lparr>rp_duplicates := rp_duplicates st @ [fill_execution_id f]\<rparr>)"
    using p f g assms(3) by (simp add: replay_event_def dict_get_def replay_fill_def)
  then have "replay_account H (events @ [e]) initial_cash known [] =
      Inr (acc\<lparr>acc_duplicate_executions := acc_duplicate_executions acc @ [fill_execution_id f]\<rparr>)"
    by (simp add: replay_account_def replay_events_append st p acc)
  with f show ?thesis by blast
qed

section \<open>A negative sell\<close>

text \<open>Without the proviso on sells the identity fails: a sell of minus 100 shares passes the
  account's checks, adds nothing to the lots, and leaves a residual of 502.5.\<close>

lemma negative_sell_breaks_identity:
  "(case then_check (apply_fill sample_digest (sample_fill ''x5'' SELL (-100) 10) ''2024-01-05'' sample_account) of
      Inl e \<Rightarrow> None
    | Inr acc \<Rightarrow> Some (identity_residual acc (\<lambda>s. if s = ''600000.SH'' then Some 7 else None)))
   = Some (Inr (1005 / 2))"
  by code_simp

end
