(* ===== verification/Ledger_Codec.thy ===== *)
theory Ledger_Codec
  imports Orders
begin

text \<open>
  The JSON form of the domain records: \<open>_fill_to_dict\<close> and its siblings of
  \<open>src/src/quantagent/domain/ledger.py\<close>, \<open>OrderEvent.to_dict\<close> and the pair
  \<open>CorporateAction.to_dict\<close> / \<open>from_dict\<close> of \<open>src/src/quantagent/domain/orders.py\<close>.  The
  decoders are modelled on payloads whose fields have the JSON types the encoders write: a field
  of another type is a \<open>TypeError\<close>.
\<close>

section \<open>Enumerations by value\<close>

fun side_of_value :: "string \<Rightarrow> side res" where
  "side_of_value v = (if v = ''BUY'' then Inr BUY else if v = ''SELL'' then Inr SELL
     else Inl ValueError)"

lemma side_of_side_value [simp]: "side_of_value (side_value s) = Inr s"
  by (cases s) simp_all

fun event_type_value :: "order_event_type \<Rightarrow> string" where
  "event_type_value Ev_CREATED = ''CREATED''"
| "event_type_value Ev_RISK_APPROVED = ''RISK_APPROVED''"
| "event_type_value Ev_RISK_REJECTED = ''RISK_REJECTED''"
| "event_type_value Ev_SUBMITTED = ''SUBMITTED''"
| "event_type_value Ev_ACCEPTED = ''ACCEPTED''"
| "event_type_value Ev_PARTIAL_FILL = ''PARTIAL_FILL''"
| "event_type_value Ev_FILL = ''FILL''"
| "event_type_value Ev_CANCEL_REQUESTED = ''CANCEL_REQUESTED''"
| "event_type_value Ev_CANCELLED = ''CANCELLED''"
| "event_type_value Ev_REJECTED = ''REJECTED''"
| "event_type_value Ev_EXPIRED = ''EXPIRED''"

definition event_types :: "order_event_type list" where
  "event_types = [Ev_CREATED, Ev_RISK_APPROVED, Ev_RISK_REJECTED, Ev_SUBMITTED, Ev_ACCEPTED,
     Ev_PARTIAL_FILL, Ev_FILL, Ev_CANCEL_REQUESTED, Ev_CANCELLED, Ev_REJECTED, Ev_EXPIRED]"

definition event_type_of_value :: "string \<Rightarrow> order_event_type res" where
  "event_type_of_value v = (case List.find (\<lambda>t. event_type_value t = v) event_types of
       None \<Rightarrow> Inl ValueError
     | Some t \<Rightarrow> Inr t)"

lemma event_type_of_event_type_value [simp]: "event_type_of_value (event_type_value t) = Inr t"
  by (cases t) (simp_all add: event_type_of_value_def event_types_def)

section \<open>Fills\<close>

definition fill_to_dict :: "fill \<Rightarrow> json" where
  "fill_to_dict f = JObj
     [(''executionId'', JStr (fill_execution_id f)),
      (''orderId'', JStr (fill_order_id f)),
      (''symbol'', JStr (fill_symbol f)),
      (''side'', JStr (side_value (fill_side f))),
      (''quantity'', JInt (fill_quantity f)),
      (''price'', JNum (fill_price f)),
      (''referencePrice'', of_opt JNum (fill_reference_price f)),
      (''commission'', JNum (fill_commission f)),
      (''stampDuty'', JNum (fill_stamp_duty f)),
      (''transferFee'', JNum (fill_transfer_fee f)),
      (''filledAt'', JStr (fill_filled_at f)),
      (''lineage'', lineage_json (fill_lineage f))]"

text \<open>\<open>float(payload.get(k) or 0.0)\<close> and \<open>payload.get(k) or d\<close> for a string.\<close>

definition get_float0 :: "json \<Rightarrow> string \<Rightarrow> rat res" where
  "get_float0 payload k = res_bind (jget payload k) (\<lambda>v. if truthy v then json_float v else Inr 0)"

definition get_str_or :: "json \<Rightarrow> string \<Rightarrow> string \<Rightarrow> string res" where
  "get_str_or payload k d = res_bind (jget payload k) (\<lambda>v. if truthy v then json_str v else Inr d)"

definition index_str :: "json \<Rightarrow> string \<Rightarrow> string res" where
  "index_str payload k = res_bind (jindex payload k) json_str"

definition fill_from_dict :: "json \<Rightarrow> fill option res" where
  "fill_from_dict payload =
     (if \<not> truthy payload then Inr None
      else
        res_bind (index_str payload ''executionId'') (\<lambda>execution_id.
        res_bind (index_str payload ''orderId'') (\<lambda>order_id.
        res_bind (index_str payload ''symbol'') (\<lambda>symbol.
        res_bind (res_bind (index_str payload ''side'') side_of_value) (\<lambda>sd.
        res_bind (res_bind (jindex payload ''quantity'') json_int) (\<lambda>quantity.
        res_bind (res_bind (jindex payload ''price'') json_float) (\<lambda>price.
        res_bind (res_bind (jget payload ''referencePrice'') json_opt_float) (\<lambda>reference_price.
        res_bind (get_float0 payload ''commission'') (\<lambda>commission.
        res_bind (get_float0 payload ''stampDuty'') (\<lambda>stamp_duty.
        res_bind (get_float0 payload ''transferFee'') (\<lambda>transfer_fee.
        res_bind (get_str_or payload ''filledAt'' []) (\<lambda>filled_at.
        res_bind (res_bind (jget payload ''lineage'') from_mapping) (\<lambda>L.
        Inr (Some
          \<lparr>fill_execution_id = execution_id, fill_order_id = order_id, fill_symbol = symbol,
           fill_side = sd, fill_quantity = quantity, fill_price = price,
           fill_reference_price = reference_price, fill_commission = commission,
           fill_stamp_duty = stamp_duty, fill_transfer_fee = transfer_fee,
           fill_filled_at = filled_at, fill_lineage = L\<rparr>))))))))))))))"

section \<open>Risk decisions\<close>

definition risk_to_dict :: "risk_decision \<Rightarrow> json" where
  "risk_to_dict d = JObj
     [(''riskDecisionId'', JStr (rd_risk_decision_id d)),
      (''approved'', JBool (rd_approved d)),
      (''rule'', JStr (rd_rule d)),
      (''threshold'', rd_threshold d),
      (''measured'', rd_measured d),
      (''reason'', JStr (rd_reason d)),
      (''decidedBy'', JStr (rd_decided_by d)),
      (''decidedAt'', JStr (rd_decided_at d)),
      (''lineage'', lineage_json (rd_lineage d))]"

definition risk_from_dict :: "json \<Rightarrow> risk_decision option res" where
  "risk_from_dict payload =
     (if \<not> truthy payload then Inr None
      else
        res_bind (index_str payload ''riskDecisionId'') (\<lambda>did.
        res_bind (jindex payload ''approved'') (\<lambda>approved.
        res_bind (index_str payload ''rule'') (\<lambda>rule.
        res_bind (jget payload ''threshold'') (\<lambda>threshold.
        res_bind (jget payload ''measured'') (\<lambda>measured.
        res_bind (get_str_or payload ''reason'' []) (\<lambda>reason.
        res_bind (get_str_or payload ''decidedBy'' ''risk_engine'') (\<lambda>decided_by.
        res_bind (get_str_or payload ''decidedAt'' []) (\<lambda>decided_at.
        res_bind (res_bind (jget payload ''lineage'') from_mapping) (\<lambda>L.
        Inr (Some
          \<lparr>rd_risk_decision_id = did, rd_approved = truthy approved, rd_rule = rule,
           rd_threshold = threshold, rd_measured = measured, rd_reason = reason,
           rd_decided_by = decided_by, rd_decided_at = decided_at, rd_lineage = L\<rparr>)))))))))))"

section \<open>Order events\<close>

definition event_to_dict :: "order_event option \<Rightarrow> json" where
  "event_to_dict event = (case event of
       None \<Rightarrow> JNull
     | Some e \<Rightarrow> JObj
         [(''eventType'', JStr (event_type_value (ev_event_type e))),
          (''orderId'', JStr (ev_order_id e)),
          (''sequence'', JInt (ev_sequence e)),
          (''eventTime'', JStr (ev_event_time e)),
          (''reason'', of_opt JStr (ev_reason e)),
          (''fill'', of_opt fill_to_dict (ev_fill e)),
          (''riskDecision'', of_opt risk_to_dict (ev_risk_decision e)),
          (''lineage'', lineage_json (ev_lineage e))])"

definition event_from_dict :: "json \<Rightarrow> order_event option res" where
  "event_from_dict payload =
     (if \<not> truthy payload then Inr None
      else
        res_bind (res_bind (index_str payload ''eventType'') event_type_of_value) (\<lambda>t.
        res_bind (index_str payload ''orderId'') (\<lambda>order_id.
        res_bind (res_bind (jindex payload ''sequence'') json_int) (\<lambda>sequence.
        res_bind (index_str payload ''eventTime'') (\<lambda>event_time.
        res_bind (res_bind (jget payload ''fill'') fill_from_dict) (\<lambda>f.
        res_bind (res_bind (jget payload ''reason'') json_opt_str) (\<lambda>reason.
        res_bind (res_bind (jget payload ''riskDecision'') risk_from_dict) (\<lambda>rd.
        res_bind (res_bind (jget payload ''lineage'') from_mapping) (\<lambda>L.
        Inr (Some
          \<lparr>ev_event_type = t, ev_order_id = order_id, ev_sequence = sequence,
           ev_event_time = event_time, ev_fill = f, ev_reason = reason,
           ev_risk_decision = rd, ev_lineage = L\<rparr>))))))))))"

text \<open>\<open>OrderEvent.to_dict\<close>: the flat view of an event, which is not read back.\<close>

definition OrderEvent_to_dict :: "order_event \<Rightarrow> json" where
  "OrderEvent_to_dict e = JObj
     [(''eventType'', JStr (event_type_value (ev_event_type e))),
      (''orderId'', JStr (ev_order_id e)),
      (''sequence'', JInt (ev_sequence e)),
      (''eventTime'', JStr (ev_event_time e)),
      (''reason'', of_opt JStr (ev_reason e)),
      (''executionId'', of_opt JStr (map_option fill_execution_id (ev_fill e))),
      (''quantity'', of_opt JInt (map_option fill_quantity (ev_fill e))),
      (''price'', of_opt JNum (map_option fill_price (ev_fill e))),
      (''riskDecisionId'', of_opt JStr (map_option rd_risk_decision_id (ev_risk_decision e))),
      (''lineage'', lineage_json (ev_lineage e))]"

section \<open>Corporate actions\<close>

definition CorporateAction_to_dict :: "corporate_action \<Rightarrow> json" where
  "CorporateAction_to_dict a = JObj
     [(''corporateActionId'', JStr (ca_corporate_action_id a)),
      (''symbol'', JStr (ca_symbol a)),
      (''exDate'', JStr (ca_ex_date a)),
      (''shareRatio'', JNum (ca_share_ratio a)),
      (''cashPerShare'', JNum (ca_cash_per_share a)),
      (''lineage'', lineage_json (ca_lineage a))]"

text \<open>\<open>float(payload.get(k, d))\<close>: the default is for a missing key only.\<close>

definition get_float_default :: "json \<Rightarrow> string \<Rightarrow> rat \<Rightarrow> rat res" where
  "get_float_default payload k d = (case payload of
       JObj m \<Rightarrow> (case map_of m k of None \<Rightarrow> Inr d | Some v \<Rightarrow> json_float v)
     | _ \<Rightarrow> Inl TypeError)"

definition CorporateAction_from_dict :: "json \<Rightarrow> corporate_action res" where
  "CorporateAction_from_dict payload =
     res_bind (index_str payload ''corporateActionId'') (\<lambda>aid.
     res_bind (index_str payload ''symbol'') (\<lambda>symbol.
     res_bind (index_str payload ''exDate'') (\<lambda>ex_date.
     res_bind (get_float_default payload ''shareRatio'' 1) (\<lambda>ratio.
     res_bind (get_float_default payload ''cashPerShare'' 0) (\<lambda>cash.
     res_bind (res_bind (jget payload ''lineage'') from_mapping) (\<lambda>L.
     CorporateAction_make aid symbol ex_date ratio cash L))))))"

section \<open>Round trips\<close>

text \<open>What a record is after a trip through JSON: only empty strings in optional places change.\<close>

definition normal_fill :: "fill \<Rightarrow> fill" where
  "normal_fill f = f\<lparr>fill_lineage := drop_empty (fill_lineage f)\<rparr>"

definition normal_risk :: "risk_decision \<Rightarrow> risk_decision" where
  "normal_risk d = d\<lparr>rd_decided_by := if rd_decided_by d = [] then ''risk_engine'' else rd_decided_by d,
     rd_lineage := drop_empty (rd_lineage d)\<rparr>"

definition normal_event :: "order_event \<Rightarrow> order_event" where
  "normal_event e = e\<lparr>ev_fill := map_option normal_fill (ev_fill e),
     ev_risk_decision := map_option normal_risk (ev_risk_decision e),
     ev_lineage := drop_empty (ev_lineage e)\<rparr>"

lemma fill_roundtrip: "fill_from_dict (fill_to_dict f) = Inr (Some (normal_fill f))"
  by (cases "fill_reference_price f")
    (simp_all add: fill_from_dict_def fill_to_dict_def index_str_def get_float0_def get_str_or_def
      from_mapping_lineage_json normal_fill_def del: side_of_value.simps)

lemma risk_roundtrip: "risk_from_dict (risk_to_dict d) = Inr (Some (normal_risk d))"
  by (simp add: risk_from_dict_def risk_to_dict_def index_str_def get_str_or_def
      from_mapping_lineage_json normal_risk_def)

lemma from_dict_null [simp]:
  "fill_from_dict JNull = Inr None" "risk_from_dict JNull = Inr None" "event_from_dict JNull = Inr None"
  by (simp_all add: fill_from_dict_def risk_from_dict_def event_from_dict_def)

lemma json_opt_str_of_opt [simp]: "json_opt_str (of_opt JStr v) = Inr v"
  by (cases v) simp_all

lemma event_roundtrip: "event_from_dict (event_to_dict e) = Inr (map_option normal_event e)"
proof (cases e)
  case None
  then show ?thesis by (simp add: event_to_dict_def)
next
  case (Some e')
  have "fill_from_dict (of_opt fill_to_dict (ev_fill e')) = Inr (map_option normal_fill (ev_fill e'))"
    by (cases "ev_fill e'") (simp_all add: fill_roundtrip)
  moreover have "risk_from_dict (of_opt risk_to_dict (ev_risk_decision e')) =
      Inr (map_option normal_risk (ev_risk_decision e'))"
    by (cases "ev_risk_decision e'") (simp_all add: risk_roundtrip)
  ultimately show ?thesis
    by (simp add: Some event_from_dict_def event_to_dict_def index_str_def
        from_mapping_lineage_json normal_event_def)
qed

text \<open>The events a round trip keeps.\<close>

definition storable_fill :: "fill \<Rightarrow> bool" where
  "storable_fill f \<longleftrightarrow> no_empty_field (fill_lineage f)"

definition storable_risk :: "risk_decision \<Rightarrow> bool" where
  "storable_risk d \<longleftrightarrow> no_empty_field (rd_lineage d) \<and> rd_decided_by d \<noteq> []"

definition storable_event :: "order_event \<Rightarrow> bool" where
  "storable_event e \<longleftrightarrow> no_empty_field (ev_lineage e) \<and> pred_option storable_fill (ev_fill e)
     \<and> pred_option storable_risk (ev_risk_decision e)"

lemma normal_fill_id: "storable_fill f \<Longrightarrow> normal_fill f = f"
  by (simp add: storable_fill_def normal_fill_def drop_empty_id)

lemma normal_risk_id: "storable_risk d \<Longrightarrow> normal_risk d = d"
  by (simp add: storable_risk_def normal_risk_def drop_empty_id)

lemma normal_event_id: "storable_event e \<Longrightarrow> normal_event e = e"
  by (cases "ev_fill e"; cases "ev_risk_decision e")
    (simp_all add: storable_event_def normal_event_def drop_empty_id normal_fill_id normal_risk_id)

lemma event_to_dict_inj:
  assumes "storable_event e" "storable_event e'" "event_to_dict (Some e) = event_to_dict (Some e')"
  shows "e = e'"
proof -
  have "Inr (Some e) = event_from_dict (event_to_dict (Some e))"
    using assms(1) by (simp add: event_roundtrip normal_event_id)
  also have "\<dots> = Inr (Some e')"
    using assms(2,3) by (simp add: event_roundtrip normal_event_id)
  finally show ?thesis by simp
qed

lemma corporate_action_roundtrip:
  assumes "CorporateAction_make aid symbol ex_date ratio cash L = Inr a" "no_empty_field L"
  shows "CorporateAction_from_dict (CorporateAction_to_dict a) = Inr a"
  using assms by (auto simp: CorporateAction_make_def CorporateAction_from_dict_def
      CorporateAction_to_dict_def index_str_def get_float_default_def lineage_roundtrip split: if_splits)

end
