(* ===== verification/Ledger.thy ===== *)
theory Ledger
  imports Ledger_Codec Order_Book Account_Facts
begin

text \<open>
  The hash-chained event ledger of \<open>src/src/quantagent/domain/ledger.py\<close>: its records, the
  append with its write latch, the verification, the load of a file, the replay and the two
  functions through which book and ledger are written together.

  \<open>D\<close> stands for \<open>_digest\<close>: the SHA-256 of the predecessor's hash followed by the canonical JSON
  text.  \<open>write_ok\<close> says whether the durable write of this append succeeded: the mode bits allow
  it and \<open>open\<close>, \<open>write\<close> and \<open>fsync\<close> raise no \<open>OSError\<close>.
\<close>

type_synonym chain_digest = "string \<Rightarrow> json \<Rightarrow> string"

definition SCHEMA_VERSION :: string where
  "SCHEMA_VERSION = ''quantagent.canonical_ledger.v1''"

definition GENESIS_HASH :: string where
  "GENESIS_HASH = replicate 64 (CHR ''0'')"

record ledger_record =
  lr_sequence :: int
  lr_recorded_at :: string
  lr_previous_hash :: string
  lr_record_hash :: string
  lr_event :: "order_event option"
  lr_trade_date :: "string option"
  lr_corporate_action :: json
  lr_intent :: json

text \<open>\<open>led_durable\<close>: a path was given.  \<open>led_write_failure\<close>: the latch.\<close>

record ledger =
  led_durable :: bool
  led_records :: "ledger_record list"
  led_head :: string
  led_torn_tail :: bool
  led_write_failure :: bool

definition new_ledger :: "bool \<Rightarrow> ledger" where
  "new_ledger durable = \<lparr>led_durable = durable, led_records = [], led_head = GENESIS_HASH,
     led_torn_tail = False, led_write_failure = False\<rparr>"

section \<open>Records as JSON\<close>

definition record_from_dict :: "json \<Rightarrow> ledger_record res" where
  "record_from_dict payload =
     res_bind (res_bind (jget payload ''event'') event_from_dict) (\<lambda>event.
     res_bind (res_bind (jindex payload ''sequence'') json_int) (\<lambda>sequence.
     res_bind (index_str payload ''recordedAt'') (\<lambda>recorded_at.
     res_bind (index_str payload ''previousHash'') (\<lambda>previous_hash.
     res_bind (index_str payload ''recordHash'') (\<lambda>record_hash.
     res_bind (res_bind (jget payload ''tradeDate'') json_opt_str) (\<lambda>trade_date.
     res_bind (jget payload ''intent'') (\<lambda>intent.
     res_bind (jget payload ''corporateAction'') (\<lambda>corporate_action.
     Inr \<lparr>lr_sequence = sequence, lr_recorded_at = recorded_at,
          lr_previous_hash = previous_hash, lr_record_hash = record_hash, lr_event = event,
          lr_trade_date = trade_date, lr_corporate_action = corporate_action,
          lr_intent = intent\<rparr>))))))))"

definition intent_to_dict :: "order_intent \<Rightarrow> json" where
  "intent_to_dict i = JObj
     [(''orderIntentId'', JStr (oi_order_intent_id i)),
      (''symbol'', JStr (oi_symbol i)),
      (''side'', JStr (side_value (oi_side i))),
      (''quantity'', JInt (oi_quantity i)),
      (''tradeDate'', JStr (oi_trade_date i)),
      (''lineage'', lineage_json (oi_lineage i))]"

text \<open>The body both \<open>append\<close> and \<open>verify\<close> digest.\<close>

definition body_fields ::
    "int \<Rightarrow> string \<Rightarrow> json \<Rightarrow> string option \<Rightarrow> json \<Rightarrow> json \<Rightarrow> (string \<times> json) list" where
  "body_fields sequence recorded_at event trade_date corporate_action intent =
     [(''schemaVersion'', JStr SCHEMA_VERSION),
      (''sequence'', JInt sequence),
      (''recordedAt'', JStr recorded_at),
      (''event'', event),
      (''tradeDate'', of_opt JStr trade_date),
      (''corporateAction'', corporate_action),
      (''intent'', intent)]"

section \<open>Writing\<close>

definition append ::
    "chain_digest \<Rightarrow> bool \<Rightarrow> string \<Rightarrow> order_event option \<Rightarrow> string option \<Rightarrow> order_intent option
     \<Rightarrow> corporate_action option \<Rightarrow> ledger \<Rightarrow> ledger_record res \<times> ledger" where
  "append D write_ok now event trade_date intent corporate_action led =
     (if led_write_failure led then (Inl LedgerWriteUnavailable, led)
      else
        let body = body_fields (int (length (led_records led))) now (event_to_dict event) trade_date
              (of_opt CorporateAction_to_dict corporate_action) (of_opt intent_to_dict intent);
            record_hash = D (led_head led) (JObj body);
            payload = JObj (body @ [(''previousHash'', JStr (led_head led)),
                                    (''recordHash'', JStr record_hash)])
        in case record_from_dict payload of
             Inl e \<Rightarrow> (Inl e, led)
           | Inr record \<Rightarrow>
               (if led_durable led \<and> \<not> write_ok
                then (Inl OSError, led\<lparr>led_write_failure := True\<rparr>)
                else (Inr record, led\<lparr>led_records := led_records led @ [record],
                                      led_head := record_hash\<rparr>)))"

definition append_corporate_action ::
    "chain_digest \<Rightarrow> bool \<Rightarrow> string \<Rightarrow> corporate_action \<Rightarrow> string option \<Rightarrow> ledger
     \<Rightarrow> ledger_record res \<times> ledger" where
  "append_corporate_action D write_ok now action trade_date led =
     append D write_ok now None trade_date None (Some action) led"

section \<open>Loading a file\<close>

text \<open>
  \<open>loads\<close> stands for \<open>json.loads\<close>, with \<open>None\<close> for a \<open>JSONDecodeError\<close>.  A line that does not
  decode ends the load as a torn tail.
\<close>

fun load_lines :: "(string \<Rightarrow> json option) \<Rightarrow> string list \<Rightarrow> ledger \<Rightarrow> ledger res" where
  "load_lines loads [] led = Inr led"
| "load_lines loads (raw # rest) led =
     (let line = strip raw in
      if line = [] then load_lines loads rest led
      else case loads line of
        None \<Rightarrow> Inr (led\<lparr>led_torn_tail := True\<rparr>)
      | Some payload \<Rightarrow>
          res_bind (record_from_dict payload) (\<lambda>record.
            load_lines loads rest
              (led\<lparr>led_records := led_records led @ [record],
                   led_head := lr_record_hash record\<rparr>)))"

section \<open>Reading\<close>

definition ledger_events :: "ledger \<Rightarrow> order_event list" where
  "ledger_events led = concat (map (\<lambda>r. case lr_event r of None \<Rightarrow> [] | Some e \<Rightarrow> [e]) (led_records led))"

fun corporate_actions_from :: "int \<Rightarrow> ledger_record list \<Rightarrow> (int \<times> corporate_action) list res" where
  "corporate_actions_from seen [] = Inr []"
| "corporate_actions_from seen (r # rest) =
     (if lr_event r \<noteq> None then corporate_actions_from (seen + 1) rest
      else if truthy (lr_corporate_action r) then
        res_bind (CorporateAction_from_dict (lr_corporate_action r)) (\<lambda>a.
          res_bind (corporate_actions_from seen rest) (\<lambda>as. Inr ((seen, a) # as)))
      else corporate_actions_from seen rest)"

definition corporate_actions :: "ledger \<Rightarrow> (int \<times> corporate_action) list res" where
  "corporate_actions led = corporate_actions_from 0 (led_records led)"

section \<open>Verification\<close>

definition record_body :: "ledger_record \<Rightarrow> json" where
  "record_body r = JObj (body_fields (lr_sequence r) (lr_recorded_at r)
     (event_to_dict (lr_event r)) (lr_trade_date r)
     (if truthy (lr_corporate_action r) then lr_corporate_action r else JNull)
     (if truthy (lr_intent r) then lr_intent r else JNull))"

record verification =
  ver_valid :: bool
  ver_broken_at :: "nat option"
  ver_sequence :: "int option"
  ver_records :: nat
  ver_head_hash :: "string option"
  ver_torn_tail :: bool
  ver_write_failure :: bool

fun verify_from ::
    "chain_digest \<Rightarrow> string \<Rightarrow> nat \<Rightarrow> ledger_record list \<Rightarrow> (nat \<times> int) + string" where
  "verify_from D previous index [] = Inr previous"
| "verify_from D previous index (r # rest) =
     (if lr_previous_hash r \<noteq> previous \<or> lr_record_hash r \<noteq> D previous (record_body r)
      then Inl (index, lr_sequence r)
      else verify_from D (lr_record_hash r) (index + 1) rest)"

definition verify :: "chain_digest \<Rightarrow> ledger \<Rightarrow> verification" where
  "verify D led = (case verify_from D GENESIS_HASH 0 (led_records led) of
       Inl (index, sequence) \<Rightarrow>
         \<lparr>ver_valid = False, ver_broken_at = Some index, ver_sequence = Some sequence,
          ver_records = length (led_records led), ver_head_hash = None,
          ver_torn_tail = led_torn_tail led, ver_write_failure = led_write_failure led\<rparr>
     | Inr previous \<Rightarrow>
         \<lparr>ver_valid = True, ver_broken_at = None, ver_sequence = None,
          ver_records = length (led_records led), ver_head_hash = Some previous,
          ver_torn_tail = led_torn_tail led, ver_write_failure = led_write_failure led\<rparr>)"

section \<open>Reconstruction\<close>

text \<open>
  \<open>clock n\<close> is what the clock reads when the replay makes its \<open>n\<close>-th event.  The constructor of
  the intent is called without prices, as the source does.
\<close>

definition intent_from_dict :: "string \<Rightarrow> json \<Rightarrow> order_intent res" where
  "intent_from_dict now payload =
     res_bind (index_str payload ''orderIntentId'') (\<lambda>iid.
     res_bind (index_str payload ''symbol'') (\<lambda>symbol.
     res_bind (res_bind (index_str payload ''side'') side_of_value) (\<lambda>sd.
     res_bind (res_bind (jindex payload ''quantity'') json_int) (\<lambda>quantity.
     res_bind (index_str payload ''tradeDate'') (\<lambda>trade_date.
     res_bind (res_bind (jget payload ''lineage'') from_mapping) (\<lambda>L.
     Inr \<lparr>oi_order_intent_id = iid, oi_symbol = symbol, oi_side = sd, oi_quantity = quantity,
          oi_trade_date = trade_date, oi_limit_price = None, oi_reference_price = None,
          oi_lineage = L, oi_created_at = now\<rparr>))))))"

definition note_trade_date ::
    "ledger_record \<Rightarrow> order_event \<Rightarrow> (string, string) dict \<Rightarrow> (string, string) dict" where
  "note_trade_date r event dates = (case lr_trade_date r of
       None \<Rightarrow> dates
     | Some d \<Rightarrow>
         if d = [] then dates
         else case ev_fill event of
             Some f \<Rightarrow> AList.update (fill_execution_id f) d dates
           | None \<Rightarrow>
               (if map_of dates (ev_order_id event) = None
                then AList.update (ev_order_id event) d dates else dates))"

definition replay_record ::
    "digest \<Rightarrow> (nat \<Rightarrow> string) \<Rightarrow> ledger_record \<Rightarrow> order_book \<Rightarrow> order_book res" where
  "replay_record H clock r book = (case lr_event r of
       None \<Rightarrow> Inr book
     | Some event \<Rightarrow>
         (let now = clock (length (bk_events book)) in
          if ev_event_type event = Ev_CREATED then
            (if \<not> truthy (lr_intent r) then Inl LedgerCorruption
             else res_bind (intent_from_dict now (lr_intent r)) (\<lambda>intent.
               Inr (snd (OrderBook_open H now intent (ev_lineage event Parent_order_id) book))))
          else res_bind
            (OrderBook_apply now (ev_order_id event) (ev_event_type event) (ev_fill event)
               (ev_reason event) (ev_risk_decision event) book)
            (\<lambda>(_, book'). Inr book')))"

fun replay_records ::
    "digest \<Rightarrow> (nat \<Rightarrow> string) \<Rightarrow> ledger_record list \<Rightarrow> order_book \<times> (string, string) dict
     \<Rightarrow> (order_book \<times> (string, string) dict) res" where
  "replay_records H clock [] st = Inr st"
| "replay_records H clock (r # rest) (book, dates) =
     res_bind (replay_record H clock r book) (\<lambda>book'.
       replay_records H clock rest (book', case lr_event r of
           None \<Rightarrow> dates
         | Some event \<Rightarrow> note_trade_date r event dates))"

definition replay_book_dates ::
    "chain_digest \<Rightarrow> digest \<Rightarrow> (nat \<Rightarrow> string) \<Rightarrow> ledger \<Rightarrow> (order_book \<times> (string, string) dict) res"
where
  "replay_book_dates D H clock led =
     (if \<not> ver_valid (verify D led) then Inl LedgerCorruption
      else replay_records H clock (led_records led) (empty_book, []))"

definition replay_book :: "chain_digest \<Rightarrow> digest \<Rightarrow> (nat \<Rightarrow> string) \<Rightarrow> ledger \<Rightarrow> order_book res" where
  "replay_book D H clock led = res_bind (replay_book_dates D H clock led) (\<lambda>r. Inr (fst r))"

definition replay ::
    "chain_digest \<Rightarrow> digest \<Rightarrow> (nat \<Rightarrow> string) \<Rightarrow> rat \<Rightarrow> ledger \<Rightarrow> (order_book \<times> account_state) res" where
  "replay D H clock initial_cash led =
     res_bind (replay_book_dates D H clock led) (\<lambda>(book, trade_dates).
       res_bind (corporate_actions led) (\<lambda>actions.
         res_bind (replay_account H (ledger_events led) initial_cash trade_dates actions) (\<lambda>account.
           Inr (book, account))))"

section \<open>Writing book and ledger together\<close>

text \<open>
  \<open>now\<close> is the clock the book reads, \<open>now'\<close> the one of the ledger record.  The book is changed
  before the append, so a failed append leaves the changed book: both are in the result.
\<close>

definition mirror_open ::
    "chain_digest \<Rightarrow> digest \<Rightarrow> bool \<Rightarrow> string \<Rightarrow> string \<Rightarrow> order_intent \<Rightarrow> string option \<Rightarrow> string option
     \<Rightarrow> order_book \<times> ledger \<Rightarrow> order res \<times> order_book \<times> ledger" where
  "mirror_open D H write_ok now now' intent trade_date parent st =
     (let (book, led) = st;
          (od, book') = OrderBook_open H now intent parent book in
      if length (bk_events book') = length (bk_events book)
      then (Inl LineageCollision, book', led)
      else case append D write_ok now' (Some (last (history_of book' (ord_order_id od)))) trade_date
             (Some intent) None led of
          (Inl e, led') \<Rightarrow> (Inl e, book', led')
        | (Inr _, led') \<Rightarrow> (Inr od, book', led'))"

definition mirror_event ::
    "chain_digest \<Rightarrow> bool \<Rightarrow> string \<Rightarrow> string \<Rightarrow> string \<Rightarrow> order_event_type \<Rightarrow> string option
     \<Rightarrow> fill option \<Rightarrow> string option \<Rightarrow> risk_decision option
     \<Rightarrow> order_book \<times> ledger \<Rightarrow> order res \<times> order_book \<times> ledger" where
  "mirror_event D write_ok now now' oid event_type trade_date f reason rd st =
     (let (book, led) = st in
      case OrderBook_apply now oid event_type f reason rd book of
        Inl e \<Rightarrow> (Inl e, book, led)
      | Inr (od, book') \<Rightarrow>
          (if length (bk_events book) < length (bk_events book')
           then case append D write_ok now' (Some (last (history_of book' oid))) trade_date
                  None None led of
               (Inl e, led') \<Rightarrow> (Inl e, book', led')
             | (Inr _, led') \<Rightarrow> (Inr od, book', led')
           else (Inr od, book', led)))"

end
