(* ===== verification/Hash_Chain.thy ===== *)
theory Hash_Chain
  imports Prelude
begin

text \<open>
  What a hash chain promises, whatever its records are: two chains that verify with one head digest the
  same bodies under the same predecessors, or a collision of the digest is exhibited.  The digest is
  never assumed to be injective.  The canonical ledger and the ledger of the paper broker are instances.
\<close>

definition chain_links :: "('r \<Rightarrow> 'h) \<Rightarrow> ('r \<Rightarrow> 'b) \<Rightarrow> 'r list \<Rightarrow> ('h \<times> 'b) list" where
  "chain_links prev body rs = map (\<lambda>r. (prev r, body r)) rs"

definition links_collide :: "('h \<Rightarrow> 'b \<Rightarrow> 'h) \<Rightarrow> ('h \<times> 'b) list \<Rightarrow> ('h \<times> 'b) list \<Rightarrow> bool" where
  "links_collide D ls ls' \<longleftrightarrow> (\<exists>(p, b) \<in> set ls. \<exists>(p', b') \<in> set ls'. (p, b) \<noteq> (p', b') \<and> D p b = D p' b')"

definition links_hit :: "('h \<Rightarrow> 'b \<Rightarrow> 'h) \<Rightarrow> 'h \<Rightarrow> ('h \<times> 'b) list \<Rightarrow> bool" where
  "links_hit D genesis ls \<longleftrightarrow> (\<exists>(p, b) \<in> set ls. D p b = genesis)"

lemma chain_links_simps [simp]:
  "chain_links prev body [] = []"
  "chain_links prev body (rs @ [r]) = chain_links prev body rs @ [(prev r, body r)]"
  by (simp_all add: chain_links_def)

lemma links_collide_snoc: "links_collide D ls ls' \<Longrightarrow> links_collide D (ls @ [l]) (ls' @ [l'])"
  unfolding links_collide_def by simp blast

lemma links_hit_snoc: "links_hit D g ls \<Longrightarrow> links_hit D g (ls @ [l])"
  unfolding links_hit_def by simp

text \<open>\<open>verifies rs h\<close>: the records verify from the genesis value and \<open>h\<close> is the head.\<close>

locale hash_chain =
  fixes verifies :: "'r list \<Rightarrow> 'h \<Rightarrow> bool"
    and prev :: "'r \<Rightarrow> 'h"
    and body :: "'r \<Rightarrow> 'b"
    and D :: "'h \<Rightarrow> 'b \<Rightarrow> 'h"
    and genesis :: 'h
  assumes verifies_Nil: "verifies [] h \<Longrightarrow> h = genesis"
    and verifies_snoc: "verifies (rs @ [r]) h \<Longrightarrow> verifies rs (prev r) \<and> h = D (prev r) (body r)"
begin

lemma same_head_same_links:
  assumes "verifies rs h" "verifies rs' h"
    and "\<not> links_collide D (chain_links prev body rs) (chain_links prev body rs')"
    and "\<not> links_hit D genesis (chain_links prev body rs)" "\<not> links_hit D genesis (chain_links prev body rs')"
  shows "chain_links prev body rs = chain_links prev body rs'"
  using assms
proof (induction rs arbitrary: rs' h rule: rev_induct)
  case Nil
  then show ?case
    by (cases rs' rule: rev_cases) (auto simp: links_hit_def dest: verifies_Nil verifies_snoc)
next
  case (snoc r rs)
  from verifies_snoc [OF snoc.prems(1)] have r: "verifies rs (prev r)" "h = D (prev r) (body r)" by auto
  show ?case
  proof (cases rs' rule: rev_cases)
    case Nil
    with snoc.prems r show ?thesis by (auto simp: links_hit_def dest: verifies_Nil)
  next
    case (snoc rs1 r1)
    with snoc.prems(2) have r1: "verifies rs1 (prev r1)" "h = D (prev r1) (body r1)"
      by (auto dest: verifies_snoc)
    have "\<not> links_collide D [(prev r, body r)] [(prev r1, body r1)]"
      using snoc.prems(3) by (auto simp: snoc links_collide_def)
    with r(2) r1(2) have same: "prev r1 = prev r" "body r1 = body r"
      by (auto simp: links_collide_def)
    have "chain_links prev body rs = chain_links prev body rs1"
    proof (rule snoc.IH [OF r(1)])
      show "verifies rs1 (prev r)" using r1(1) same(1) by simp
    qed (use snoc.prems(3-5) in \<open>auto simp: snoc dest: links_collide_snoc links_hit_snoc\<close>)
    with same show ?thesis by (simp add: snoc)
  qed
qed

end

end
