(* ===== verification/Ledger_Facts.thy ===== *)
theory Ledger_Facts
  imports Ledger Hash_Chain
begin

text \<open>
  What the ledger promises: every successful append extends a verifying chain; after a failed
  durable write nothing more is accepted; two verifying chains with one head carry the same
  bodies, or a collision of the digest is exhibited; and a replay of a mirrored ledger rebuilds
  the book, up to what the records do not carry.
\<close>

section \<open>Appending\<close>

definition appended_record ::
    "chain_digest \<Rightarrow> string \<Rightarrow> order_event option \<Rightarrow> string option \<Rightarrow> order_intent option
     \<Rightarrow> corporate_action option \<Rightarrow> ledger \<Rightarrow> ledger_record" where
  "appended_record D now event td intent ca led =
     \<lparr>lr_sequence = int (length (led_records led)), lr_recorded_at = now,
      lr_previous_hash = led_head led,
      lr_record_hash = D (led_head led) (JObj (body_fields (int (length (led_records led))) now
        (event_to_dict event) td (of_opt CorporateAction_to_dict ca) (of_opt intent_to_dict intent))),
      lr_event = map_option normal_event event, lr_trade_date = td,
      lr_corporate_action = of_opt CorporateAction_to_dict ca,
      lr_intent = of_opt intent_to_dict intent\<rparr>"

lemma record_of_payload:
  "record_from_dict (JObj (body_fields s now (event_to_dict event) td ca intent @
     [(''previousHash'', JStr p), (''recordHash'', JStr h)])) =
   Inr \<lparr>lr_sequence = s, lr_recorded_at = now, lr_previous_hash = p, lr_record_hash = h,
        lr_event = map_option normal_event event, lr_trade_date = td,
        lr_corporate_action = ca, lr_intent = intent\<rparr>"
  by (simp add: record_from_dict_def body_fields_def index_str_def event_roundtrip)

lemma append_cases:
  "append D ok now event td intent ca led =
     (if led_write_failure led then (Inl LedgerWriteUnavailable, led)
      else if led_durable led \<and> \<not> ok then (Inl OSError, led\<lparr>led_write_failure := True\<rparr>)
      else let r = appended_record D now event td intent ca led in
        (Inr r, led\<lparr>led_records := led_records led @ [r], led_head := lr_record_hash r\<rparr>))"
  by (simp add: append_def record_of_payload Let_def appended_record_def)

text \<open>The bodies \<open>append\<close> and \<open>verify\<close> digest are the same for what survives the round trip.\<close>

lemma truthy_written [simp]:
  "truthy (of_opt CorporateAction_to_dict ca) \<longleftrightarrow> ca \<noteq> None"
  "truthy (of_opt intent_to_dict i) \<longleftrightarrow> i \<noteq> None"
  by (cases ca; simp add: CorporateAction_to_dict_def) (cases i; simp add: intent_to_dict_def)

lemma appended_body:
  assumes "pred_option storable_event event"
  shows "record_body (appended_record D now event td intent ca led) =
    JObj (body_fields (int (length (led_records led))) now (event_to_dict event) td
      (of_opt CorporateAction_to_dict ca) (of_opt intent_to_dict intent))"
proof -
  have "map_option normal_event event = event"
    using assms by (cases event) (simp_all add: normal_event_id)
  then show ?thesis
    by (cases ca; cases intent) (simp_all add: record_body_def appended_record_def
        CorporateAction_to_dict_def intent_to_dict_def)
qed

section \<open>The chain\<close>

definition chained :: "chain_digest \<Rightarrow> ledger \<Rightarrow> bool" where
  "chained D led \<longleftrightarrow> verify_from D GENESIS_HASH 0 (led_records led) = Inr (led_head led)"

lemma verify_from_append:
  "verify_from D p i (rs @ rs') = (case verify_from D p i rs of
     Inl b \<Rightarrow> Inl b | Inr h \<Rightarrow> verify_from D h (i + length rs) rs')"
  by (induction rs arbitrary: p i) (auto split: sum.splits)

lemma chained_new: "chained D (new_ledger durable)"
  by (simp add: chained_def new_ledger_def)

lemma chained_append:
  assumes "chained D led" "pred_option storable_event event"
  shows "chained D (snd (append D ok now event td intent ca led))"
proof -
  let ?r = "appended_record D now event td intent ca led"
  have "lr_previous_hash ?r = led_head led" "lr_record_hash ?r = D (led_head led) (record_body ?r)"
    unfolding appended_body [OF assms(2)] by (simp_all add: appended_record_def)
  with assms(1) show ?thesis
    by (simp add: append_cases Let_def chained_def verify_from_append)
qed

lemma chained_verify:
  "chained D led \<Longrightarrow> verify D led =
     \<lparr>ver_valid = True, ver_broken_at = None, ver_sequence = None,
      ver_records = length (led_records led), ver_head_hash = Some (led_head led),
      ver_torn_tail = led_torn_tail led, ver_write_failure = led_write_failure led\<rparr>"
  by (simp add: chained_def verify_def)

lemma verify_valid_iff: "ver_valid (verify D led) \<longleftrightarrow> (\<exists>h. verify_from D GENESIS_HASH 0 (led_records led) = Inr h)"
  by (auto simp: verify_def split: sum.splits prod.splits)

lemma verify_from_snoc:
  "verify_from D p i (rs @ [r]) = Inr h \<longleftrightarrow>
     verify_from D p i rs = Inr (lr_previous_hash r) \<and> lr_record_hash r = h
     \<and> h = D (lr_previous_hash r) (record_body r)"
  by (auto simp: verify_from_append split: sum.splits)

text \<open>
  What a chain digests, and what it takes to fool it: two different arguments of the digest, one
  of each chain, with one value; or an argument whose digest is the genesis constant.
\<close>

definition links :: "ledger_record list \<Rightarrow> (string \<times> json) list" where
  "links rs = chain_links lr_previous_hash record_body rs"

definition digest_collision :: "chain_digest \<Rightarrow> ledger_record list \<Rightarrow> ledger_record list \<Rightarrow> bool" where
  "digest_collision D rs rs' \<longleftrightarrow> links_collide D (links rs) (links rs')"

definition genesis_hit :: "chain_digest \<Rightarrow> ledger_record list \<Rightarrow> bool" where
  "genesis_hit D rs \<longleftrightarrow> links_hit D GENESIS_HASH (links rs)"

interpretation canonical_chain: hash_chain "\<lambda>rs h. verify_from D GENESIS_HASH 0 rs = Inr h"
  lr_previous_hash record_body D GENESIS_HASH for D
  by unfold_locales (auto simp: verify_from_snoc)

lemma equal_heads_equal_links:
  assumes "verify_from D GENESIS_HASH 0 rs = Inr h" "verify_from D GENESIS_HASH 0 rs' = Inr h"
    and "\<not> digest_collision D rs rs'" "\<not> genesis_hit D rs" "\<not> genesis_hit D rs'"
  shows "links rs = links rs'"
  using canonical_chain.same_head_same_links [OF assms(1,2)] assms(3-5)
  by (simp add: digest_collision_def genesis_hit_def links_def)

section \<open>The latch\<close>

lemma append_latched:
  "led_write_failure led \<Longrightarrow> append D ok now event td intent ca led = (Inl LedgerWriteUnavailable, led)"
  by (simp add: append_cases)

lemma append_grows:
  "\<exists>rs. led_records (snd (append D ok now event td intent ca led)) = led_records led @ rs
     \<and> (rs = [] \<longleftrightarrow> (\<exists>e. fst (append D ok now event td intent ca led) = Inl e))"
  by (simp add: append_cases Let_def)

section \<open>What the records do not carry\<close>

text \<open>
  The intent on a record has no prices and the times of a replayed book are those of the replay;
  everything else of the book comes back.
\<close>

definition erase_order :: "order \<Rightarrow> order" where
  "erase_order od = od\<lparr>ord_limit_price := None, ord_reference_price := None\<rparr>"

definition erase_event :: "order_event \<Rightarrow> order_event" where
  "erase_event e = e\<lparr>ev_event_time := []\<rparr>"

definition erase_book :: "order_book \<Rightarrow> order_book" where
  "erase_book b = \<lparr>bk_orders = map (\<lambda>(k, od). (k, erase_order od)) (bk_orders b),
     bk_events = map erase_event (bk_events b)\<rparr>"

fun erase_applied :: "applied \<Rightarrow> applied" where
  "erase_applied Same = Same"
| "erase_applied (Updated od) = Updated (erase_order od)"

lemma erase_order_simps [simp]:
  "ord_order_id (erase_order od) = ord_order_id od"
  "ord_status (erase_order od) = ord_status od"
  "ord_quantity (erase_order od) = ord_quantity od"
  "ord_filled_quantity (erase_order od) = ord_filled_quantity od"
  "ord_fills (erase_order od) = ord_fills od"
  "ord_reason (erase_order od) = ord_reason od"
  "ord_lineage (erase_order od) = ord_lineage od"
  by (simp_all add: erase_order_def)

definition erase_result :: "applied res \<Rightarrow> applied res" where
  "erase_result r = res_bind r (\<lambda>a. Inr (erase_applied a))"

lemma erase_result_simps [simp]:
  "erase_result (Inl e) = Inl e" "erase_result (Inr a) = Inr (erase_applied a)"
  by (simp_all add: erase_result_def)

lemma erase_checks [simp]:
  "is_terminal (erase_order od) = is_terminal od"
  "assert_transition (erase_order od) t = assert_transition od t"
  "assert_rejectable (erase_order od) e = assert_rejectable od e"
  by (simp_all add: is_terminal_def assert_transition_def assert_rejectable_def)

lemma erase_updates:
  "(erase_order od)\<lparr>ord_status := t\<rparr> = erase_order (od\<lparr>ord_status := t\<rparr>)"
  "(erase_order od)\<lparr>ord_filled_quantity := q\<rparr> = erase_order (od\<lparr>ord_filled_quantity := q\<rparr>)"
  "(erase_order od)\<lparr>ord_fills := fs\<rparr> = erase_order (od\<lparr>ord_fills := fs\<rparr>)"
  "(erase_order od)\<lparr>ord_reason := r\<rparr> = erase_order (od\<lparr>ord_reason := r\<rparr>)"
  by (simp_all add: erase_order_def)

lemma erase_result_bind: "erase_result (res_bind m f) = res_bind m (\<lambda>x. erase_result (f x))"
  by (cases m) simp_all

lemma apply_new_fill_erase: "apply_new_fill (erase_order od) t f = erase_result (apply_new_fill od t f)"
  by (simp add: apply_new_fill_def Let_def erase_updates erase_result_bind if_distrib [of erase_result])

lemma Order_apply_erase: "Order_apply (erase_order od) e = erase_result (Order_apply od e)"
proof (cases "is_fill_event (ev_event_type e)")
  case True
  then show ?thesis
    by (simp add: Order_apply_def apply_new_fill_erase split: option.splits)
next
  case False
  then show ?thesis
    by (simp add: Order_apply_def Let_def erase_updates erase_result_bind if_distrib [of erase_result])
qed

lemma erase_event_simps [simp]:
  "ev_event_type (erase_event e) = ev_event_type e"
  "ev_order_id (erase_event e) = ev_order_id e"
  "ev_fill (erase_event e) = ev_fill e"
  "ev_reason (erase_event e) = ev_reason e"
  "assert_rejectable od (erase_event e) = assert_rejectable od e"
  by (simp_all add: erase_event_def assert_rejectable_def)

lemma Order_apply_time: "Order_apply od (erase_event e) = Order_apply od e"
  unfolding Order_apply_def erase_event_simps ..

lemma Order_apply_similar:
  assumes "erase_order od' = erase_order od" "erase_event e' = erase_event e"
    "Order_apply od e = Inr (Updated new)"
  obtains new' where "Order_apply od' e' = Inr (Updated new')" "erase_order new' = erase_order new"
proof -
  have "erase_result (Order_apply od' e') = Order_apply (erase_order od') (erase_event e')"
    by (simp add: Order_apply_time Order_apply_erase)
  also have "\<dots> = erase_result (Order_apply od e)"
    by (simp add: assms(1,2) Order_apply_time Order_apply_erase)
  finally have r: "erase_result (Order_apply od' e') = Inr (Updated (erase_order new))"
    by (simp add: assms(3))
  then obtain a where a: "Order_apply od' e' = Inr a"
    by (cases "Order_apply od' e'") simp_all
  with r obtain new' where "a = Updated new'" by (cases a) simp_all
  with r a that show ?thesis by simp
qed

lemma erase_book_lookup:
  assumes "erase_book b' = erase_book b"
  shows "map_option erase_order (map_of (bk_orders b') k) = map_option erase_order (map_of (bk_orders b) k)"
proof -
  have "map_option erase_order (map_of d k) = map_of (map (\<lambda>(k, od). (k, erase_order od)) d) k" for d
    by (simp add: map_of_map)
  with assms show ?thesis by (simp add: erase_book_def)
qed

lemma erase_update:
  "map (\<lambda>(k, od). (k, erase_order od)) (AList.update k od d) =
     AList.update k (erase_order od) (map (\<lambda>(k, od). (k, erase_order od)) d)"
  by (induction d) auto

lemma erase_book_snoc:
  assumes "erase_book b' = erase_book b" "erase_order od' = erase_order od" "erase_event e' = erase_event e"
  shows "erase_book \<lparr>bk_orders = AList.update k od' (bk_orders b'), bk_events = bk_events b' @ [e']\<rparr> =
    erase_book \<lparr>bk_orders = AList.update k od (bk_orders b), bk_events = bk_events b @ [e]\<rparr>"
  using assms by (simp add: erase_book_def erase_update)

lemma erase_book_length:
  "erase_book b' = erase_book b \<Longrightarrow> length (bk_events b') = length (bk_events b)"
  unfolding erase_book_def by (metis length_map order_book.select_convs(2))

section \<open>Mirrored runs\<close>

text \<open>
  A client that writes through \<open>mirror_open\<close> and \<open>mirror_event\<close> only; a call that raises is
  dropped and the session goes on.
\<close>

datatype mirror_call =
    M_open string string order_intent "string option" "string option"
  | M_event string string string order_event_type "string option" "fill option" "string option"
      "risk_decision option"

fun mirror_do ::
    "chain_digest \<Rightarrow> digest \<Rightarrow> order_book \<times> ledger \<Rightarrow> mirror_call \<Rightarrow> order_book \<times> ledger" where
  "mirror_do D H st (M_open now now' i td p) = snd (mirror_open D H True now now' i td p st)"
| "mirror_do D H st (M_event now now' oid t td f reason rd) =
     snd (mirror_event D True now now' oid t td f reason rd st)"

definition mirror_run ::
    "chain_digest \<Rightarrow> digest \<Rightarrow> mirror_call list \<Rightarrow> order_book \<times> ledger \<Rightarrow> order_book \<times> ledger" where
  "mirror_run D H calls st = foldl (mirror_do D H) st calls"

fun storable_call :: "mirror_call \<Rightarrow> bool" where
  "storable_call (M_open now now' i td p) \<longleftrightarrow> no_empty_field (oi_lineage i) \<and> p \<noteq> Some []"
| "storable_call (M_event now now' oid t td f reason rd) \<longleftrightarrow>
     pred_option storable_fill f \<and> pred_option storable_risk rd"

lemma mirror_open_cases:
  assumes "\<not> led_write_failure led"
  shows "snd (mirror_open D H True now now' i td p (b, led)) =
    (let od = Order_from_intent H i p; e = created_event now od (length (bk_events b));
         r = appended_record D now' (Some e) td (Some i) None led in
     if map_of (bk_orders b) (ord_order_id od) \<noteq> None then (b, led)
     else (\<lparr>bk_orders = AList.update (ord_order_id od) od (bk_orders b), bk_events = bk_events b @ [e]\<rparr>,
           led\<lparr>led_records := led_records led @ [r], led_head := lr_record_hash r\<rparr>))"
proof (cases "map_of (bk_orders b) (ord_order_id (Order_from_intent H i p))")
  case None
  then show ?thesis
    using assms by (simp add: mirror_open_def OrderBook_open_new Let_def history_of_def append_cases)
next
  case (Some od)
  then show ?thesis by (simp add: mirror_open_def OrderBook_open_known Let_def)
qed

lemma mirror_event_cases:
  assumes "\<not> led_write_failure led"
  obtains (none) "snd (mirror_event D True now now' oid t td f reason rd (b, led)) = (b, led)"
    | (some) od e od' r where "map_of (bk_orders b) oid = Some od"
        "e = applied_event now oid t f reason rd (ord_lineage od) (length (bk_events b))"
        "Order_apply od e = Inr (Updated od')"
        "r = appended_record D now' (Some e) td None None led"
        "snd (mirror_event D True now now' oid t td f reason rd (b, led)) =
          (\<lparr>bk_orders = AList.update oid od' (bk_orders b), bk_events = bk_events b @ [e]\<rparr>,
           led\<lparr>led_records := led_records led @ [r], led_head := lr_record_hash r\<rparr>)"
proof (cases "OrderBook_apply now oid t f reason rd b")
  case (Inl x)
  then show ?thesis by (intro none) (simp add: mirror_event_def)
next
  case (Inr y)
  obtain od' b' where y: "y = (od', b')" by (cases y)
  from Inr [unfolded y] obtain od where od: "map_of (bk_orders b) oid = Some od"
    and c: "let e = applied_event now oid t f reason rd (ord_lineage od) (length (bk_events b)) in
         (Order_apply od e = Inr Same \<and> od' = od \<and> b' = b) \<or>
         (Order_apply od e = Inr (Updated od') \<and>
          b' = \<lparr>bk_orders = AList.update oid od' (bk_orders b), bk_events = bk_events b @ [e]\<rparr>)"
    by (auto simp: OrderBook_apply_Inr)
  from c [unfolded Let_def] show ?thesis
  proof
    assume "Order_apply od (applied_event now oid t f reason rd (ord_lineage od) (length (bk_events b))) = Inr Same
      \<and> od' = od \<and> b' = b"
    with Inr y show ?thesis by (intro none) (simp add: mirror_event_def)
  next
    assume "Order_apply od (applied_event now oid t f reason rd (ord_lineage od) (length (bk_events b))) =
        Inr (Updated od') \<and> b' = \<lparr>bk_orders = AList.update oid od' (bk_orders b),
          bk_events = bk_events b @ [applied_event now oid t f reason rd (ord_lineage od) (length (bk_events b))]\<rparr>"
    with Inr y assms show ?thesis
      by (intro some [OF od refl _ refl])
        (simp_all add: mirror_event_def history_of_def append_cases Let_def)
  qed
qed

section \<open>Replaying a mirrored ledger\<close>

lemma replay_records_snoc:
  "replay_records H clock (rs @ [r]) st =
     res_bind (replay_records H clock rs st) (\<lambda>(b, dates).
       res_bind (replay_record H clock r b) (\<lambda>b'.
         Inr (b', case lr_event r of None \<Rightarrow> dates | Some e \<Rightarrow> note_trade_date r e dates)))"
proof (induction rs arbitrary: st)
  case Nil
  then show ?case by (cases st) simp
next
  case (Cons a rs)
  then show ?case by (cases st) (simp add: res_bind_def split: sum.splits)
qed

definition mirrored ::
    "chain_digest \<Rightarrow> digest \<Rightarrow> (nat \<Rightarrow> string) \<Rightarrow> order_book \<times> ledger \<Rightarrow> bool" where
  "mirrored D H clock st \<longleftrightarrow> (case st of (b, led) \<Rightarrow>
     \<not> led_write_failure led \<and> chained D led \<and> ledger_events led = bk_events b
     \<and> (\<forall>oid od. map_of (bk_orders b) oid = Some od \<longrightarrow> no_empty_field (ord_lineage od))
     \<and> (\<exists>b' dates. replay_records H clock (led_records led) (empty_book, []) = Inr (b', dates)
          \<and> erase_book b' = erase_book b))"

lemma mirrored_new: "mirrored D H clock (empty_book, new_ledger durable)"
  by (simp add: mirrored_def chained_new) (simp add: new_ledger_def ledger_events_def empty_book_def)

text \<open>One step of either kind: the book grows by one event, the ledger by its record.\<close>

lemma mirrored_snoc:
  assumes m: "mirrored D H clock (b, led)"
    and e: "storable_event e" and L: "no_empty_field (ord_lineage od)"
    and r: "r = appended_record D now' (Some e) td intent None led"
    and step: "\<And>b'. erase_book b' = erase_book b \<Longrightarrow> \<exists>b''. replay_record H clock r b' = Inr b'' \<and>
      erase_book b'' = erase_book \<lparr>bk_orders = AList.update k od (bk_orders b), bk_events = bk_events b @ [e]\<rparr>"
  shows "mirrored D H clock (\<lparr>bk_orders = AList.update k od (bk_orders b), bk_events = bk_events b @ [e]\<rparr>,
    led\<lparr>led_records := led_records led @ [r], led_head := lr_record_hash r\<rparr>)"
proof -
  let ?led = "led\<lparr>led_records := led_records led @ [r], led_head := lr_record_hash r\<rparr>"
  from m obtain b' dates where nf: "\<not> led_write_failure led" and ch: "chained D led"
    and ev: "ledger_events led = bk_events b"
    and Ls: "\<forall>oid od. map_of (bk_orders b) oid = Some od \<longrightarrow> no_empty_field (ord_lineage od)"
    and rep: "replay_records H clock (led_records led) (empty_book, []) = Inr (b', dates)"
    and sim: "erase_book b' = erase_book b"
    unfolding mirrored_def by auto
  have led: "?led = snd (append D True now' (Some e) td intent None led)"
    using nf by (simp add: append_cases Let_def r)
  have "chained D ?led"
    unfolding led using chained_append [OF ch] e by simp
  moreover have "ledger_events ?led = bk_events b @ [e]"
    using ev e by (simp add: ledger_events_def r appended_record_def normal_event_id)
  moreover obtain b'' where b'': "replay_record H clock r b' = Inr b''"
      "erase_book b'' = erase_book \<lparr>bk_orders = AList.update k od (bk_orders b), bk_events = bk_events b @ [e]\<rparr>"
    using step [OF sim] by blast
  then have "replay_records H clock (led_records ?led) (empty_book, []) =
      Inr (b'', case lr_event r of None \<Rightarrow> dates | Some e \<Rightarrow> note_trade_date r e dates)"
    by (simp add: replay_records_snoc rep)
  ultimately show ?thesis
    unfolding mirrored_def using nf Ls L b''(2) by auto
qed

lemma truthy_intent: "truthy (intent_to_dict i)"
  by (simp add: intent_to_dict_def)

lemma intent_roundtrip:
  "no_empty_field (oi_lineage i) \<Longrightarrow> intent_from_dict now (intent_to_dict i) =
     Inr (i\<lparr>oi_limit_price := None, oi_reference_price := None, oi_created_at := now\<rparr>)"
  by (simp add: intent_from_dict_def intent_to_dict_def index_str_def lineage_roundtrip
      del: side_of_value.simps)

lemma created_similar:
  "erase_order (Order_from_intent H (i\<lparr>oi_limit_price := a, oi_reference_price := r, oi_created_at := c\<rparr>) p) =
     erase_order (Order_from_intent H i p)"
  by (simp add: Order_from_intent_def erase_order_def Let_def)

lemma order_id_similar:
  "ord_order_id (Order_from_intent H (i\<lparr>oi_limit_price := a, oi_reference_price := r, oi_created_at := c\<rparr>) p) =
     ord_order_id (Order_from_intent H i p)"
  by (simp add: Order_from_intent_def Let_def)

lemma lineage_from_intent:
  "no_empty_field (oi_lineage i) \<Longrightarrow> p \<noteq> Some [] \<Longrightarrow>
     no_empty_field (ord_lineage (Order_from_intent H i p))"
  "ord_lineage (Order_from_intent H i p) Parent_order_id = p"
  by (simp_all add: Order_from_intent_def Let_def no_empty_field_update)

lemma erase_created: "ord_order_id od' = ord_order_id od \<Longrightarrow> ord_lineage od' = ord_lineage od \<Longrightarrow>
    erase_event (created_event now od' n) = erase_event (created_event now' od n)"
  by (simp add: created_event_def erase_event_def)

lemma erase_order_lineage: "erase_order od' = erase_order od \<Longrightarrow> ord_lineage od' = ord_lineage od"
  by (metis erase_order_simps(7))

lemma mirrored_open:
  assumes m: "mirrored D H clock (b, led)" and ok: "no_empty_field (oi_lineage i)" "p \<noteq> Some []"
  shows "mirrored D H clock (snd (mirror_open D H True now now' i td p (b, led)))"
proof -
  let ?od = "Order_from_intent H i p" and ?n = "length (bk_events b)"
  let ?e = "created_event now ?od ?n"
  let ?r = "appended_record D now' (Some ?e) td (Some i) None led"
  have nf: "\<not> led_write_failure led" using m by (simp add: mirrored_def)
  show ?thesis
  proof (cases "map_of (bk_orders b) (ord_order_id ?od)")
    case (Some od)
    then show ?thesis using m by (simp add: mirror_open_cases [OF nf] Let_def)
  next
    case None
    have se: "storable_event ?e"
      using lineage_from_intent(1) [OF ok, of H] by (simp add: storable_event_def created_event_def)
    have "\<exists>b''. replay_record H clock ?r b' = Inr b'' \<and> erase_book b'' = erase_book
        \<lparr>bk_orders = AList.update (ord_order_id ?od) ?od (bk_orders b), bk_events = bk_events b @ [?e]\<rparr>"
      if sim: "erase_book b' = erase_book b" for b'
    proof -
      let ?now = "clock (length (bk_events b'))"
      let ?i = "i\<lparr>oi_limit_price := None, oi_reference_price := None, oi_created_at := ?now\<rparr>"
      let ?od' = "Order_from_intent H ?i p"
      let ?e' = "created_event ?now ?od' (length (bk_events b'))"
      let ?b = "\<lparr>bk_orders = AList.update (ord_order_id ?od) ?od' (bk_orders b'), bk_events = bk_events b' @ [?e']\<rparr>"
      have fresh: "map_of (bk_orders b') (ord_order_id ?od') = None"
        using erase_book_lookup [OF sim, of "ord_order_id ?od"] None
        by (simp add: order_id_similar)
      have "replay_record H clock ?r b' =
          Inr (snd (OrderBook_open H ?now ?i (ev_lineage ?e Parent_order_id) b'))"
        using ok se by (simp add: replay_record_def appended_record_def normal_event_id intent_roundtrip
            truthy_intent Let_def)
      also have "ev_lineage ?e Parent_order_id = p"
        by (simp add: created_event_def lineage_from_intent)
      also have "snd (OrderBook_open H ?now ?i p b') = ?b"
        using OrderBook_open_new [OF fresh] by (simp add: Let_def order_id_similar)
      finally have "replay_record H clock ?r b' = Inr ?b" .
      moreover have "erase_event ?e' = erase_event ?e"
        unfolding erase_book_length [OF sim]
        by (rule erase_created) (simp_all add: order_id_similar erase_order_lineage [OF created_similar])
      with sim have "erase_book ?b = erase_book
          \<lparr>bk_orders = AList.update (ord_order_id ?od) ?od (bk_orders b), bk_events = bk_events b @ [?e]\<rparr>"
        by (intro erase_book_snoc) (simp_all add: created_similar)
      ultimately show ?thesis by blast
    qed
    then have "mirrored D H clock
        (\<lparr>bk_orders = AList.update (ord_order_id ?od) ?od (bk_orders b), bk_events = bk_events b @ [?e]\<rparr>,
         led\<lparr>led_records := led_records led @ [?r], led_head := lr_record_hash ?r\<rparr>)"
      by (intro mirrored_snoc [OF m se _ refl] lineage_from_intent(1) ok)
    with None show ?thesis by (simp add: mirror_open_cases [OF nf] Let_def)
  qed
qed

lemma mirrored_event:
  assumes m: "mirrored D H clock (b, led)" and ok: "pred_option storable_fill f" "pred_option storable_risk rd"
  shows "mirrored D H clock (snd (mirror_event D True now now' oid t td f reason rd (b, led)))"
proof -
  have nf: "\<not> led_write_failure led" using m by (simp add: mirrored_def)
  then show ?thesis
  proof (cases rule: mirror_event_cases [of led D now now' oid t td f reason rd b])
    case none
    with m show ?thesis by simp
  next
    case (some od e od' r)
    have L: "no_empty_field (ord_lineage od)"
      using m some(1) by (auto simp: mirrored_def)
    have se: "storable_event e"
      using L ok by (simp add: some(2) storable_event_def applied_event_def)
    have nc: "t \<noteq> Ev_CREATED"
      using Order_apply_Updated_not_created [OF some(3)] by (simp add: some(2))
    have "\<exists>b''. replay_record H clock r b' = Inr b'' \<and> erase_book b'' = erase_book
        \<lparr>bk_orders = AList.update oid od' (bk_orders b), bk_events = bk_events b @ [e]\<rparr>"
      if sim: "erase_book b' = erase_book b" for b'
    proof -
      let ?now = "clock (length (bk_events b'))"
      from erase_book_lookup [OF sim, of oid] some(1) obtain o1 where o1: "map_of (bk_orders b') oid = Some o1"
          "erase_order o1 = erase_order od" by auto
      let ?e = "applied_event ?now oid t f reason rd (ord_lineage o1) (length (bk_events b'))"
      have ee: "erase_event ?e = erase_event e"
        using erase_order_lineage [OF o1(2)] erase_book_length [OF sim]
        by (simp add: some(2) applied_event_def erase_event_def)
      obtain o2 where o2: "Order_apply o1 ?e = Inr (Updated o2)" "erase_order o2 = erase_order od'"
        by (rule Order_apply_similar [OF o1(2) ee some(3)])
      let ?b = "\<lparr>bk_orders = AList.update oid o2 (bk_orders b'), bk_events = bk_events b' @ [?e]\<rparr>"
      have "OrderBook_apply ?now oid t f reason rd b' = Inr (o2, ?b)"
        using o1 o2 by (simp add: OrderBook_apply_Inr Let_def)
      then have "replay_record H clock r b' = Inr ?b"
        using nc se by (simp add: replay_record_def some(4) appended_record_def normal_event_id Let_def)
          (simp add: some(2) applied_event_def)
      with erase_book_snoc [OF sim o2(2) ee] show ?thesis by blast
    qed
    moreover have "no_empty_field (ord_lineage od')"
      using L Order_apply_frame [OF some(3)] by simp
    ultimately show ?thesis
      unfolding some(5) by (intro mirrored_snoc [OF m se _ some(4)])
  qed
qed

lemma mirrored_do: "mirrored D H clock st \<Longrightarrow> storable_call c \<Longrightarrow> mirrored D H clock (mirror_do D H st c)"
  by (cases st; cases c) (simp_all add: mirrored_open mirrored_event)

lemma mirrored_run:
  "mirrored D H clock st \<Longrightarrow> list_all storable_call cs \<Longrightarrow> mirrored D H clock (mirror_run D H cs st)"
  by (induction cs arbitrary: st) (simp_all add: mirror_run_def mirrored_do)

lemma mirrored_replay:
  assumes "mirrored D H clock (b, led)"
  obtains b' where "replay_book D H clock led = Inr b'" "erase_book b' = erase_book b"
  using assms by (auto simp: mirrored_def replay_book_def replay_book_dates_def chained_verify)

section \<open>Steps that return\<close>

text \<open>A step that returns wrote what a durable write would have written.\<close>

lemma kept_durable:
  "append D ok now e td i ca led = (Inr r, led') \<Longrightarrow> append D True now e td i ca led = (Inr r, led')"
  by (auto simp: append_cases Let_def split: if_splits)

lemma mirror_event_durable:
  "mirror_event D ok now now' cid t td f reason rd st = (Inr od, st') \<Longrightarrow>
     mirror_event D True now now' cid t td f reason rd st = (Inr od, st')"
  by (auto simp: mirror_event_def dest: kept_durable split: prod.splits sum.splits if_splits)

lemma mirror_open_durable:
  "mirror_open D H ok now now' i td p st = (Inr od, st') \<Longrightarrow> mirror_open D H True now now' i td p st = (Inr od, st')"
  by (auto simp: mirror_open_def Let_def dest: kept_durable split: prod.splits sum.splits if_splits)

text \<open>What the record of an append keeps.\<close>

lemma record_event: "storable_event e \<Longrightarrow> lr_event (appended_record D now (Some e) td i ca led) = Some e"
  by (simp add: appended_record_def normal_event_id)

lemma record_date: "lr_trade_date (appended_record D now e td i ca led) = td"
  by (simp add: appended_record_def)

end
