(* ===== verification/Ledger_Props.thy ===== *)
theory Ledger_Props
  imports Ledger_Facts Account_Props
begin

text \<open>
  The promises of the ledger: verification after any appends, the write latch, tamper evidence,
  the JSON round trip and the refinement between a mirrored ledger and the book it mirrors.
\<close>

section \<open>Appending\<close>

datatype append_call =
  Append_call bool string "order_event option" "string option" "order_intent option"
    "corporate_action option"

fun append_do :: "chain_digest \<Rightarrow> ledger \<Rightarrow> append_call \<Rightarrow> ledger" where
  "append_do D led (Append_call ok now event td intent ca) = snd (append D ok now event td intent ca led)"

definition append_run :: "chain_digest \<Rightarrow> ledger \<Rightarrow> append_call list \<Rightarrow> ledger" where
  "append_run D = foldl (append_do D)"

fun storable_append :: "append_call \<Rightarrow> bool" where
  "storable_append (Append_call ok now event td intent ca) = pred_option storable_event event"

lemma append_run_simps [simp]:
  "append_run D led [] = led" "append_run D led (c # cs) = append_run D (append_do D led c) cs"
  by (simp_all add: append_run_def)

lemma chained_run: "chained D led \<Longrightarrow> list_all storable_append cs \<Longrightarrow> chained D (append_run D led cs)"
proof (induction cs arbitrary: led)
  case (Cons c cs)
  then show ?case by (cases c) (simp add: chained_append)
qed simp

text \<open>C16. The chain verifies at every moment: after any appends of events whose lineage and decider
  fields are not the empty string, corporate actions and failed writes among them, \<open>verify\<close> reports a
  valid chain whose head is the ledger's and which counts every record.\<close>

theorem appended_ledger_verifies:
  assumes "list_all storable_append cs"
  shows "let led = append_run D (new_ledger durable) cs in
    ver_valid (verify D led) \<and> ver_head_hash (verify D led) = Some (led_head led)
    \<and> ver_records (verify D led) = length (led_records led) \<and> ver_broken_at (verify D led) = None"
  using chained_verify [OF chained_run [OF chained_new assms]] by (simp add: Let_def)

definition sample_chain :: chain_digest where
  "sample_chain p b = p @ ''0''"

definition sample_appends :: "append_call list" where
  "sample_appends =
     [Append_call True ''t0'' (Some (sample_event Ev_CREATED None None)) None (Some sample_intent) None,
      Append_call True ''t1'' None None None (Some split_action),
      Append_call False ''t2'' (Some (sample_event Ev_RISK_APPROVED None None)) None None None,
      Append_call True ''t3'' (Some (sample_event Ev_SUBMITTED None None)) None None None]"

theorem appended_ledger_verifies_witness:
  "ver_valid (verify sample_chain (append_run sample_chain (new_ledger True) sample_appends))
   \<and> length (led_records (append_run sample_chain (new_ledger True) sample_appends)) = 2"
proof -
  have ok: "list_all storable_append sample_appends"
    by (simp add: sample_appends_def storable_event_def sample_event_def no_empty_field_def no_lineage_def)
  have "length (led_records (append_run sample_chain (new_ledger True) sample_appends)) = 2"
    by (simp add: sample_appends_def append_cases new_ledger_def Let_def)
  with appended_ledger_verifies [OF ok, of sample_chain True] show ?thesis by (simp add: Let_def)
qed

text \<open>A failed durable write latches: the append raises and records nothing, and from then on every
  append of any kind raises \<open>LedgerWriteUnavailable\<close> and leaves the ledger as it is, while what was
  recorded before still verifies as it did.\<close>

lemma write_failure_latches:
  assumes "led_durable led" "\<not> led_write_failure led"
  shows "let (result, led') = append D False now event td intent ca led in
    result = Inl OSError \<and> led_records led' = led_records led \<and> led_head led' = led_head led
    \<and> (\<forall>cs. append_run D led' cs = led')
    \<and> (\<forall>ok now event td intent ca. append D ok now event td intent ca led' = (Inl LedgerWriteUnavailable, led'))
    \<and> ver_valid (verify D led') = ver_valid (verify D led)"
proof -
  have inert: "append_run D l cs = l" if "led_write_failure l" for l cs
  proof (induction cs)
    case (Cons c cs)
    with that show ?case by (cases c) (simp add: append_latched)
  qed simp
  show ?thesis
    using assms by (simp add: append_cases inert verify_valid_iff)
qed

section \<open>Tamper evidence\<close>

text \<open>C6. An altered, reordered or truncated ledger is detected: two ledgers that verify with one head
  hash hold the same bodies under the same predecessors, record by record, unless two different inputs
  of the digest that occur in them collide or one of them digests to the genesis constant.\<close>

theorem tamper_evident:
  assumes "ver_valid (verify D led)" "ver_valid (verify D led')"
    and "ver_head_hash (verify D led) = ver_head_hash (verify D led')"
  shows "links (led_records led) = links (led_records led')
    \<or> digest_collision D (led_records led) (led_records led')
    \<or> genesis_hit D (led_records led) \<or> genesis_hit D (led_records led')"
proof -
  from assms obtain h where "verify_from D GENESIS_HASH 0 (led_records led) = Inr h"
      "verify_from D GENESIS_HASH 0 (led_records led') = Inr h"
    by (auto simp: verify_def split: sum.splits)
  then show ?thesis using equal_heads_equal_links by blast
qed

theorem tamper_evident_witness:
  "links (led_records (append_run sample_chain (new_ledger True) (take 1 sample_appends)))
     = links (led_records (append_run sample_chain (new_ledger False) (take 1 sample_appends)))
   \<or> digest_collision sample_chain
      (led_records (append_run sample_chain (new_ledger True) (take 1 sample_appends)))
      (led_records (append_run sample_chain (new_ledger False) (take 1 sample_appends)))
   \<or> genesis_hit sample_chain (led_records (append_run sample_chain (new_ledger True) (take 1 sample_appends)))
   \<or> genesis_hit sample_chain (led_records (append_run sample_chain (new_ledger False) (take 1 sample_appends)))"
proof -
  have ok: "list_all storable_append (take 1 sample_appends)"
    by (simp add: sample_appends_def storable_event_def sample_event_def no_empty_field_def no_lineage_def)
  have v: "ver_valid (verify sample_chain (append_run sample_chain (new_ledger b) (take 1 sample_appends)))"
    "ver_head_hash (verify sample_chain (append_run sample_chain (new_ledger b) (take 1 sample_appends))) =
       Some (GENESIS_HASH @ ''0'')" for b
    using chained_verify [OF chained_run [OF chained_new ok], of sample_chain b]
    by (simp_all add: sample_appends_def append_cases new_ledger_def Let_def appended_record_def sample_chain_def)
  show ?thesis by (rule tamper_evident [OF v(1) v(1)]) (simp only: v(2))
qed

section \<open>Round trips\<close>

text \<open>C17. What the ledger writes it reads back: decoding an encoded event gives the event up to the
  two defaults of the decoder (an empty lineage field is dropped, an empty decider becomes
  \<open>risk_engine\<close>), and an event without such fields comes back exactly.\<close>

theorem event_json_roundtrip:
  "event_from_dict (event_to_dict (Some e)) = Inr (Some (normal_event e))
   \<and> (storable_event e \<longrightarrow> normal_event e = e)"
  by (simp add: event_roundtrip normal_event_id)

theorem event_json_roundtrip_witness:
  "event_from_dict (event_to_dict (Some (sample_event Ev_FILL (Some (sample_fill ''x1'' BUY 100 10)) None)))
     = Inr (Some (sample_event Ev_FILL (Some (sample_fill ''x1'' BUY 100 10)) None))"
proof -
  let ?e = "sample_event Ev_FILL (Some (sample_fill ''x1'' BUY 100 10)) None"
  have "storable_event ?e"
    by (simp add: storable_event_def sample_event_def sample_fill_def storable_fill_def no_empty_field_def
        no_lineage_def)
  with event_json_roundtrip [of ?e] show ?thesis by simp
qed

text \<open>The chain cannot hold an event whose risk decision names an empty decider: right after the
  append of such an event to a valid ledger \<open>verify\<close> reports a broken chain, unless the digests of
  the written and of the re-encoded body collide.\<close>

lemma empty_decider_breaks_chain:
  assumes "chained D led" "\<not> led_write_failure led" "led_durable led \<longrightarrow> ok"
    and "ev_risk_decision e = Some rd" "rd_decided_by rd = []"
  shows "let led' = snd (append D ok now (Some e) td intent ca led); r = last (led_records led') in
    ver_valid (verify D led') \<longrightarrow>
      (\<exists>written. written \<noteq> record_body r \<and> D (led_head led) written = D (led_head led) (record_body r))"
proof -
  let ?r = "appended_record D now (Some e) td intent ca led"
  let ?w = "JObj (body_fields (int (length (led_records led))) now (event_to_dict (Some e)) td
        (of_opt CorporateAction_to_dict ca) (of_opt intent_to_dict intent))"
  have "event_to_dict (Some (normal_event e)) \<noteq> event_to_dict (Some e)"
    using assms(4,5) by (simp add: event_to_dict_def normal_event_def risk_to_dict_def normal_risk_def)
  then have ne: "?w \<noteq> record_body ?r"
    by (simp add: record_body_def appended_record_def body_fields_def)
  have open_: "\<not> (led_durable led \<and> \<not> ok)" using assms(3) by blast
  have v: "ver_valid (verify D (snd (append D ok now (Some e) td intent ca led))) \<longrightarrow>
      D (led_head led) ?w = D (led_head led) (record_body ?r)"
    using assms(1,2) open_
    by (auto simp: append_cases Let_def verify_valid_iff verify_from_append chained_def appended_record_def)
  have "last (led_records (snd (append D ok now (Some e) td intent ca led))) = ?r"
    using assms(2,3) by (cases "led_durable led") (simp_all add: append_cases Let_def)
  with ne v show ?thesis unfolding Let_def by metis
qed

definition sample_decision :: risk_decision where
  "sample_decision = \<lparr>rd_risk_decision_id = ''rd_1'', rd_approved = True, rd_rule = ''r'', rd_threshold = JNull,
     rd_measured = JNull, rd_reason = [], rd_decided_by = [], rd_decided_at = ''t'', rd_lineage = no_lineage\<rparr>"

theorem empty_decider_breaks_chain_witness:
  "\<exists>written. written \<noteq> record_body (last (led_records (snd (append sample_chain True ''t''
       (Some ((sample_event Ev_RISK_APPROVED None None)\<lparr>ev_risk_decision := Some sample_decision\<rparr>)) None None None
       (new_ledger True)))))
     \<and> sample_chain GENESIS_HASH written = GENESIS_HASH @ ''0''"
proof -
  let ?e = "(sample_event Ev_RISK_APPROVED None None)\<lparr>ev_risk_decision := Some sample_decision\<rparr>"
  have led: "chained sample_chain (new_ledger True)" "\<not> led_write_failure (new_ledger True)"
    "led_durable (new_ledger True) \<longrightarrow> True"
    by (simp_all add: chained_new) (simp add: new_ledger_def)
  have rd: "ev_risk_decision ?e = Some sample_decision" "rd_decided_by sample_decision = []"
    by (simp_all add: sample_decision_def)
  have "ver_valid (verify sample_chain (snd (append sample_chain True ''t'' (Some ?e) None None None (new_ledger True))))"
    by (simp add: append_cases new_ledger_def verify_def appended_record_def sample_chain_def Let_def)
  with empty_decider_breaks_chain [OF led rd, of "''t''" None None None] show ?thesis
    by (auto simp: Let_def sample_chain_def new_ledger_def)
qed

section \<open>Book and ledger\<close>


definition sample_mirror :: "mirror_call list" where
  "sample_mirror =
     [M_open ''t0'' ''t0'' sample_intent None None,
      M_event ''t1'' ''t1'' (ord_order_id sample_order) Ev_RISK_APPROVED None None None None,
      M_event ''t2'' ''t2'' (ord_order_id sample_order) Ev_FILL None None None None,
      M_open ''t3'' ''t3'' sample_intent None None,
      M_event ''t4'' ''t4'' (ord_order_id sample_order) Ev_SUBMITTED None None None None]"

lemma sample_mirror_events:
  "length (ledger_events (snd (mirror_run sample_chain sample_digest sample_mirror (empty_book, new_ledger True)))) = 3"
  by code_simp


text \<open>The replayed book is not the live book: an order opened with a limit price comes back without
  it, since the intent on the record has no prices.\<close>

lemma replay_loses_limit_price:
  "(case mirror_open sample_chain sample_digest True ''t0'' ''t0'' sample_intent None None (empty_book, new_ledger True) of
      (_, b, led) \<Rightarrow>
        (map ord_limit_price (book_orders b),
         case replay_book sample_chain sample_digest (\<lambda>n. ''r'') led of
           Inl e \<Rightarrow> None | Inr b' \<Rightarrow> Some (map ord_limit_price (book_orders b'))))
   = ([Some 10], Some [None])"
  by code_simp

end
