(* ===== verification/Timeline.thy ===== *)
theory Timeline
  imports Prelude "HOL-Library.Product_Lexorder"
begin

text \<open>
  The time model of \<open>src/src/quantagent/domain/timeline.py\<close>: event and availability instants, the
  session arithmetic, the look-ahead guard and the canonical order of events.

  A \<open>datetime\<close> is its instant in microseconds with its UTC offset in seconds, \<open>None\<close> for a naive
  one, whose instant is then its wall clock; aware values compare by instant.  A \<open>date\<close> is its
  number of days since 1970-01-01.  The exchange zone is UTC+8, which it has been since 1992.
  Arguments that the source also accepts as strings are taken after their parse.
\<close>

section \<open>Instants\<close>

record moment =
  mo_instant :: int
  mo_offset :: "int option"

definition is_aware :: "moment \<Rightarrow> bool" where
  "is_aware m \<longleftrightarrow> mo_offset m \<noteq> None"

definition ensure_aware :: "moment \<Rightarrow> moment res" where
  "ensure_aware m = (if is_aware m then Inr m else Inl NaiveTimestamp)"

definition ensure_optional :: "moment option \<Rightarrow> moment option res" where
  "ensure_optional m = (case m of None \<Rightarrow> Inr None | Some x \<Rightarrow> res_bind (ensure_aware x) (\<lambda>y. Inr (Some y)))"

definition microseconds :: "int \<Rightarrow> int" where
  "microseconds seconds = seconds * 10 ^ 6"

definition days :: "int \<Rightarrow> int" where
  "days n = microseconds (n * 86400)"

definition minutes_of :: "int \<Rightarrow> int" where
  "minutes_of n = microseconds (n * 60)"

definition shift :: "int \<Rightarrow> moment \<Rightarrow> moment" where
  "shift delta m = m\<lparr>mo_instant := mo_instant m + delta\<rparr>"

section \<open>Event times\<close>

record event_times =
  et_event_time :: moment
  et_available_time :: moment
  et_source_time :: "moment option"
  et_ingestion_time :: "moment option"
  et_processing_time :: "moment option"
  et_decision_time :: "moment option"
  et_submission_time :: "moment option"
  et_venue_receive_time :: "moment option"
  et_fill_time :: "moment option"

text \<open>\<open>__post_init__\<close>: every stamp must be aware, in the order of the fields, and nothing may be
  available before it happened.\<close>

definition EventTime_check :: "event_times \<Rightarrow> event_times res" where
  "EventTime_check t =
     res_bind (map_res ensure_optional
       [Some (et_event_time t), Some (et_available_time t), et_source_time t, et_ingestion_time t,
        et_processing_time t, et_decision_time t, et_submission_time t, et_venue_receive_time t,
        et_fill_time t])
       (\<lambda>_. if mo_instant (et_available_time t) < mo_instant (et_event_time t)
            then Inl ImpossibleAvailability else Inr t)"

definition plain_times :: "moment \<Rightarrow> moment \<Rightarrow> event_times" where
  "plain_times event available =
     \<lparr>et_event_time = event, et_available_time = available, et_source_time = None,
      et_ingestion_time = None, et_processing_time = None, et_decision_time = None,
      et_submission_time = None, et_venue_receive_time = None, et_fill_time = None\<rparr>"

definition EventTime_immediate :: "moment \<Rightarrow> event_times res" where
  "EventTime_immediate m = res_bind (ensure_aware m) (\<lambda>aware. EventTime_check (plain_times aware aware))"

definition with_decision :: "moment \<Rightarrow> event_times \<Rightarrow> event_times res" where
  "with_decision m t = res_bind (ensure_aware m) (\<lambda>d. EventTime_check (t\<lparr>et_decision_time := Some d\<rparr>))"

definition with_submission :: "moment \<Rightarrow> event_times \<Rightarrow> event_times res" where
  "with_submission m t = res_bind (ensure_aware m) (\<lambda>d. EventTime_check (t\<lparr>et_submission_time := Some d\<rparr>))"

definition with_fill :: "moment \<Rightarrow> moment option \<Rightarrow> event_times \<Rightarrow> event_times res" where
  "with_fill m venue t =
     res_bind (ensure_aware m) (\<lambda>f. res_bind (ensure_optional venue) (\<lambda>v.
       EventTime_check (t\<lparr>et_fill_time := Some f, et_venue_receive_time := v\<rparr>)))"

definition availability_lag :: "event_times \<Rightarrow> int" where
  "availability_lag t = mo_instant (et_available_time t) - mo_instant (et_event_time t)"

definition available_at :: "event_times \<Rightarrow> moment \<Rightarrow> bool res" where
  "available_at t m = res_bind (ensure_aware m) (\<lambda>a. Inr (mo_instant (et_available_time t) \<le> mo_instant a))"

section \<open>Session arithmetic\<close>

text \<open>A clock time is its seconds since local midnight.\<close>

definition EXCHANGE_OFFSET :: int where "EXCHANGE_OFFSET = 8 * 3600"

definition hhmm :: "int \<Rightarrow> int \<Rightarrow> int" where "hhmm h m = h * 3600 + m * 60"

definition MORNING_OPEN :: int where "MORNING_OPEN = hhmm 9 30"

definition MORNING_CLOSE :: int where "MORNING_CLOSE = hhmm 11 30"

definition AFTERNOON_OPEN :: int where "AFTERNOON_OPEN = hhmm 13 0"

definition SESSION_CLOSE_CLOCK :: int where "SESSION_CLOSE_CLOCK = hhmm 15 0"

definition OPENING_AUCTION_PRINT :: int where "OPENING_AUCTION_PRINT = hhmm 9 25"

definition exchange_moment :: "int \<Rightarrow> int \<Rightarrow> moment" where
  "exchange_moment session time =
     \<lparr>mo_instant = microseconds (session * 86400 + time - EXCHANGE_OFFSET), mo_offset = Some EXCHANGE_OFFSET\<rparr>"

definition session_close :: "int \<Rightarrow> moment" where
  "session_close session = exchange_moment session SESSION_CLOSE_CLOCK"

definition session_open :: "int \<Rightarrow> moment" where
  "session_open session = exchange_moment session MORNING_OPEN"

definition bar_close :: "int \<Rightarrow> string \<Rightarrow> moment res" where
  "bar_close session interval =
     (if interval \<in> {''1d'', ''d'', ''day'', ''daily''} then Inr (session_close session) else Inl ValueError)"

definition EventTime_bar :: "int \<Rightarrow> string \<Rightarrow> moment option \<Rightarrow> event_times res" where
  "EventTime_bar session interval source =
     res_bind (bar_close session interval) (\<lambda>closes_at.
       res_bind (ensure_optional source) (\<lambda>s.
         EventTime_check ((plain_times closes_at closes_at)\<lparr>et_source_time := s\<rparr>)))"

definition intraday_bar :: "moment \<Rightarrow> int \<Rightarrow> event_times res" where
  "intraday_bar start minutes =
     res_bind (ensure_aware start) (\<lambda>begins.
       let ends = shift (minutes_of minutes) begins in EventTime_check (plain_times ends ends))"

text \<open>The columns of a daily bar, each with the clock at which it becomes knowable.\<close>

definition BAR_FIELD_CLOCK :: "(string, int) dict" where
  "BAR_FIELD_CLOCK =
     [(''open'', OPENING_AUCTION_PRINT), (''high'', SESSION_CLOSE_CLOCK), (''low'', SESSION_CLOSE_CLOCK),
      (''close'', SESSION_CLOSE_CLOCK), (''volume'', SESSION_CLOSE_CLOCK),
      (''amount'', SESSION_CLOSE_CLOCK), (''vwap'', SESSION_CLOSE_CLOCK)]"

definition PRIOR_SESSION_FIELDS :: "string list" where
  "PRIOR_SESSION_FIELDS = [''pre_close'', ''previous_close'']"

definition bar_field_availability :: "string \<Rightarrow> int \<Rightarrow> event_times res" where
  "bar_field_availability field session =
     (let normalised = lower (strip field) in
      if normalised \<in> set PRIOR_SESSION_FIELDS then
        let opens_at = session_open session in
          EventTime_check (plain_times (shift (- days 1) opens_at) opens_at)
      else case map_of BAR_FIELD_CLOCK normalised of
        None \<Rightarrow> Inl ValueError
      | Some time \<Rightarrow>
          (let m = exchange_moment session time in EventTime_check (plain_times m m)))"

section \<open>ISO texts\<close>

text \<open>Year, month and day of a day number, in the proleptic Gregorian calendar.\<close>

definition civil :: "int \<Rightarrow> int \<times> int \<times> int" where
  "civil day =
     (let z = day + 719468; era = z div 146097; doe = z mod 146097;
          yoe = (doe - doe div 1460 + doe div 36524 - doe div 146096) div 365;
          doy = doe - (365 * yoe + yoe div 4 - yoe div 100);
          mp = (5 * doy + 2) div 153;
          d = doy - (153 * mp + 2) div 5 + 1;
          m = (if mp < 10 then mp + 3 else mp - 9)
      in (yoe + era * 400 + (if m \<le> 2 then 1 else 0), m, d))"

text \<open>The day number of \<open>date(y, m, d)\<close>.\<close>

definition date_of :: "int \<Rightarrow> int \<Rightarrow> int \<Rightarrow> int" where
  "date_of y m d =
     (let y' = (if m \<le> 2 then y - 1 else y); era = y' div 400; yoe = y' - era * 400;
          doy = (153 * (if 2 < m then m - 3 else m + 9) + 2) div 5 + d - 1;
          doe = yoe * 365 + yoe div 4 - yoe div 100 + doy
      in era * 146097 + doe - 719468)"

definition date_isoformat :: "int \<Rightarrow> string" where
  "date_isoformat day = (case civil day of (y, m, d) \<Rightarrow>
     zero_pad 4 (nat y) @ ''-'' @ zero_pad 2 (nat m) @ ''-'' @ zero_pad 2 (nat d))"

text \<open>\<open>m.date()\<close>: the local day.\<close>

definition local_seconds :: "moment \<Rightarrow> int" where
  "local_seconds m = mo_instant m div 10 ^ 6 + (case mo_offset m of None \<Rightarrow> 0 | Some off \<Rightarrow> off)"

definition local_date :: "moment \<Rightarrow> int" where
  "local_date m = local_seconds m div 86400"

definition clock_text :: "int \<Rightarrow> string" where
  "clock_text s = zero_pad 2 (nat (s div 3600)) @ '':'' @ zero_pad 2 (nat (s div 60 mod 60))"

definition offset_text :: "int \<Rightarrow> string" where
  "offset_text off = (if off < 0 then ''-'' else ''+'') @ clock_text \<bar>off\<bar>
     @ (if \<bar>off\<bar> mod 60 = 0 then [] else '':'' @ zero_pad 2 (nat (\<bar>off\<bar> mod 60)))"

definition moment_isoformat :: "moment \<Rightarrow> string" where
  "moment_isoformat m =
     (let s = local_seconds m mod 86400; u = mo_instant m mod 10 ^ 6 in
      date_isoformat (local_date m) @ ''T'' @ clock_text s @ '':'' @ zero_pad 2 (nat (s mod 60))
      @ (if u = 0 then [] else ''.'' @ zero_pad 6 (nat u))
      @ (case mo_offset m of None \<Rightarrow> [] | Some off \<Rightarrow> offset_text off))"

definition EventTime_to_dict :: "event_times \<Rightarrow> json" where
  "EventTime_to_dict t =
     (let iso = (\<lambda>m. JStr (moment_isoformat m)) in JObj
     [(''eventTime'', iso (et_event_time t)),
      (''availableTime'', iso (et_available_time t)),
      (''sourceTime'', of_opt iso (et_source_time t)),
      (''ingestionTime'', of_opt iso (et_ingestion_time t)),
      (''processingTime'', of_opt iso (et_processing_time t)),
      (''decisionTime'', of_opt iso (et_decision_time t)),
      (''submissionTime'', of_opt iso (et_submission_time t)),
      (''venueReceiveTime'', of_opt iso (et_venue_receive_time t)),
      (''fillTime'', of_opt iso (et_fill_time t)),
      (''availabilityLagSeconds'', JNum (of_int (availability_lag t) / 10 ^ 6))])"

section \<open>The decision frontier\<close>

record decision_frontier =
  df_decision_time :: moment

definition frontier_at :: "moment \<Rightarrow> decision_frontier res" where
  "frontier_at m = res_bind (ensure_aware m) (\<lambda>d. Inr \<lparr>df_decision_time = d\<rparr>)"

definition at_session_open :: "int \<Rightarrow> decision_frontier" where
  "at_session_open session = \<lparr>df_decision_time = session_open session\<rparr>"

definition at_session_close :: "int \<Rightarrow> decision_frontier" where
  "at_session_close session = \<lparr>df_decision_time = session_close session\<rparr>"

definition admit :: "decision_frontier \<Rightarrow> event_times \<Rightarrow> event_times res" where
  "admit frontier t =
     (if mo_instant (df_decision_time frontier) < mo_instant (et_available_time t)
      then Inl LookAheadViolation else Inr t)"

definition available :: "decision_frontier \<Rightarrow> ('a \<times> event_times) list \<Rightarrow> ('a \<times> event_times) list" where
  "available frontier facts =
     filter (\<lambda>(_, t). mo_instant (et_available_time t) \<le> mo_instant (df_decision_time frontier)) facts"

definition advanced_to :: "moment \<Rightarrow> decision_frontier \<Rightarrow> decision_frontier res" where
  "advanced_to m frontier =
     res_bind (ensure_aware m) (\<lambda>target.
       if mo_instant target < mo_instant (df_decision_time frontier) then Inl ValueError
       else Inr \<lparr>df_decision_time = target\<rparr>)"

section \<open>Deterministic ordering\<close>

definition EVENT_PRIORITY :: "(string, int) dict" where
  "EVENT_PRIORITY =
     [(''CALENDAR'', 0), (''SESSION_OPEN'', 1), (''CORPORATE_ACTION'', 2), (''SECURITY_STATE'', 3),
      (''SUSPENSION'', 4), (''PRICE_LIMIT'', 5), (''QUOTE'', 6), (''TRADE'', 7), (''BAR'', 8),
      (''SIGNAL'', 9), (''TARGET'', 10), (''RISK_DECISION'', 11), (''ORDER'', 12), (''CANCEL'', 13),
      (''VENUE_CALLBACK'', 14), (''FILL'', 15), (''EXPIRY'', 16), (''MARK_TO_MARKET'', 17),
      (''SETTLEMENT'', 18), (''SESSION_CLOSE'', 19), (''END_OF_DAY'', 20)]"

definition UNKNOWN_PRIORITY :: int where
  "UNKNOWN_PRIORITY = Max (set (map snd EVENT_PRIORITY)) + 1"

type_synonym order_key = "int \<times> int \<times> int \<times> string"

definition ordering_key :: "event_times \<Rightarrow> string \<Rightarrow> int \<Rightarrow> string \<Rightarrow> order_key" where
  "ordering_key t kind sequence ident =
     (mo_instant (et_event_time t), dict_get EVENT_PRIORITY (upper kind) UNKNOWN_PRIORITY, sequence, ident)"

definition in_order :: "(event_times \<times> string \<times> int \<times> string) list \<Rightarrow> (event_times \<times> string \<times> int \<times> string) list" where
  "in_order = sort_key (\<lambda>(t, kind, sequence, ident). ordering_key t kind sequence ident)"

section \<open>Facts\<close>

lemma ensure_aware_Inr [simp]: "ensure_aware m = Inr a \<longleftrightarrow> a = m \<and> is_aware m"
  by (auto simp: ensure_aware_def)

lemma ensure_optional_Inr: "ensure_optional m = Inr a \<longleftrightarrow> a = m \<and> pred_option is_aware m"
  by (cases m) (auto simp: ensure_optional_def res_bind_Inr_iff)

definition well_timed :: "event_times \<Rightarrow> bool" where
  "well_timed t \<longleftrightarrow> is_aware (et_event_time t) \<and> is_aware (et_available_time t)
     \<and> (\<forall>m \<in> {et_source_time t, et_ingestion_time t, et_processing_time t, et_decision_time t,
          et_submission_time t, et_venue_receive_time t, et_fill_time t}. pred_option is_aware m)
     \<and> mo_instant (et_event_time t) \<le> mo_instant (et_available_time t)"

lemma EventTime_check_Inr: "EventTime_check t = Inr t' \<longleftrightarrow> t' = t \<and> well_timed t"
  by (auto simp: EventTime_check_def well_timed_def res_bind_Inr_iff ensure_optional_Inr)

lemma is_aware_exchange [simp]: "is_aware (exchange_moment s c)" "is_aware (session_open s)" "is_aware (session_close s)"
  by (simp_all add: is_aware_def exchange_moment_def session_open_def session_close_def)

lemma is_aware_shift [simp]: "is_aware (shift d m) = is_aware m"
  by (simp add: is_aware_def shift_def)

lemma well_timed_plain [simp]:
  "well_timed (plain_times a b) \<longleftrightarrow> is_aware a \<and> is_aware b \<and> mo_instant a \<le> mo_instant b"
  by (simp add: well_timed_def plain_times_def)

lemma admit_Inr: "admit f t = Inr t' \<longleftrightarrow> t' = t \<and> mo_instant (et_available_time t) \<le> mo_instant (df_decision_time f)"
  by (auto simp: admit_def)

lemma advanced_to_Inr:
  "advanced_to m f = Inr f' \<longleftrightarrow>
     is_aware m \<and> mo_instant (df_decision_time f) \<le> mo_instant m \<and> f' = \<lparr>df_decision_time = m\<rparr>"
  by (auto simp: advanced_to_def res_bind_Inr_iff)

lemmas session_clock_defs = exchange_moment_def microseconds_def hhmm_def EXCHANGE_OFFSET_def
  MORNING_OPEN_def OPENING_AUCTION_PRINT_def SESSION_CLOSE_CLOCK_def

end
