(* ===== verification/Timeline_Props.thy ===== *)
theory Timeline_Props
  imports Timeline
begin

text \<open>
  What the time model promises: which columns of a daily bar can be read at which frontier, that
  no stamped fact precedes its event, and that moving the frontier on never hides a fact.
\<close>

lemma session_moment_order:
  "0 \<le> c \<Longrightarrow> c < 86400 \<Longrightarrow> 0 \<le> c' \<Longrightarrow> c' < 86400 \<Longrightarrow>
   mo_instant (exchange_moment s c) \<le> mo_instant (exchange_moment s' c') \<longleftrightarrow> s < s' \<or> s = s' \<and> c \<le> c'"
  by (auto simp: exchange_moment_def microseconds_def)

lemma clock_values:
  "MORNING_OPEN = 34200" "OPENING_AUCTION_PRINT = 33900" "SESSION_CLOSE_CLOCK = 54000"
  by (simp_all add: session_clock_defs)

definition bar_columns :: "string list" where
  "bar_columns = PRIOR_SESSION_FIELDS @ map fst BAR_FIELD_CLOCK"

definition known_by_open :: "string list" where
  "known_by_open = ''open'' # PRIOR_SESSION_FIELDS"

lemma column_clock:
  "lower (strip f) \<in> set bar_columns \<Longrightarrow> \<exists>t c. bar_field_availability f s = Inr t \<and>
     et_available_time t = exchange_moment s c \<and>
     (c = 33900 \<or> c = 34200 \<or> c = 54000) \<and> (c = 54000 \<longleftrightarrow> lower (strip f) \<notin> set known_by_open)"
  by (auto simp: bar_columns_def known_by_open_def PRIOR_SESSION_FIELDS_def BAR_FIELD_CLOCK_def
      bar_field_availability_def EventTime_check_Inr session_open_def clock_values days_def
      microseconds_def shift_def exchange_moment_def plain_times_def well_timed_def is_aware_def Let_def)



text \<open>Nothing is knowable before it happens: every constructor and every stamping operation of an
  event time that does not raise returns stamps that all carry a zone and whose availability is not
  before the event, whatever it was given.\<close>

lemma event_times_never_precede:
  assumes "EventTime_immediate m = Inr t \<or> EventTime_bar session interval source = Inr t
    \<or> intraday_bar m minutes = Inr t \<or> bar_field_availability field session = Inr t
    \<or> with_decision m t0 = Inr t \<or> with_submission m t0 = Inr t \<or> with_fill m venue t0 = Inr t"
  shows "0 \<le> availability_lag t \<and> is_aware (et_event_time t) \<and> is_aware (et_available_time t)
    \<and> pred_option is_aware (et_decision_time t) \<and> pred_option is_aware (et_fill_time t)"
proof -
  have "well_timed t"
    using assms
    by (auto simp: EventTime_immediate_def EventTime_bar_def intraday_bar_def bar_field_availability_def
        with_decision_def with_submission_def with_fill_def res_bind_Inr_iff EventTime_check_Inr Let_def
        split: if_splits option.splits)
  then show ?thesis by (simp add: well_timed_def availability_lag_def)
qed

end
