(* ===== verification/Stream_Bus.thy ===== *)
theory Stream_Bus
  imports Timeline Lineage "HOL-Library.Multiset"
begin

text \<open>
  The event taxonomy and the event bus: \<open>src/src/quantagent/streaming/events.py\<close> and
  \<open>src/src/quantagent/streaming/bus.py\<close>.  The heap is the list of its entries in pop order;
  \<open>D\<close> stands for the SHA-256 of the running digest followed by an event id and \<open>S\<close> for \<open>str\<close> on the
  payload values that are not strings.
\<close>

section \<open>Events\<close>

datatype event_kind =
    K_CALENDAR | K_SESSION_OPEN | K_CORPORATE_ACTION | K_SECURITY_STATE | K_SUSPENSION
  | K_PRICE_LIMIT | K_QUOTE | K_TRADE | K_BAR | K_SIGNAL | K_TARGET | K_RISK_DECISION | K_ORDER
  | K_CANCEL | K_VENUE_CALLBACK | K_FILL | K_EXPIRY | K_MARK_TO_MARKET | K_SETTLEMENT
  | K_SESSION_CLOSE | K_END_OF_DAY

fun kind_value :: "event_kind \<Rightarrow> string" where
  "kind_value K_CALENDAR = ''CALENDAR''"
| "kind_value K_SESSION_OPEN = ''SESSION_OPEN''"
| "kind_value K_CORPORATE_ACTION = ''CORPORATE_ACTION''"
| "kind_value K_SECURITY_STATE = ''SECURITY_STATE''"
| "kind_value K_SUSPENSION = ''SUSPENSION''"
| "kind_value K_PRICE_LIMIT = ''PRICE_LIMIT''"
| "kind_value K_QUOTE = ''QUOTE''"
| "kind_value K_TRADE = ''TRADE''"
| "kind_value K_BAR = ''BAR''"
| "kind_value K_SIGNAL = ''SIGNAL''"
| "kind_value K_TARGET = ''TARGET''"
| "kind_value K_RISK_DECISION = ''RISK_DECISION''"
| "kind_value K_ORDER = ''ORDER''"
| "kind_value K_CANCEL = ''CANCEL''"
| "kind_value K_VENUE_CALLBACK = ''VENUE_CALLBACK''"
| "kind_value K_FILL = ''FILL''"
| "kind_value K_EXPIRY = ''EXPIRY''"
| "kind_value K_MARK_TO_MARKET = ''MARK_TO_MARKET''"
| "kind_value K_SETTLEMENT = ''SETTLEMENT''"
| "kind_value K_SESSION_CLOSE = ''SESSION_CLOSE''"
| "kind_value K_END_OF_DAY = ''END_OF_DAY''"

definition all_kinds :: "event_kind list" where
  "all_kinds = [K_CALENDAR, K_SESSION_OPEN, K_CORPORATE_ACTION, K_SECURITY_STATE, K_SUSPENSION,
     K_PRICE_LIMIT, K_QUOTE, K_TRADE, K_BAR, K_SIGNAL, K_TARGET, K_RISK_DECISION, K_ORDER, K_CANCEL,
     K_VENUE_CALLBACK, K_FILL, K_EXPIRY, K_MARK_TO_MARKET, K_SETTLEMENT, K_SESSION_CLOSE, K_END_OF_DAY]"

definition MARKET_KINDS :: "event_kind list" where
  "MARKET_KINDS = [K_CALENDAR, K_SESSION_OPEN, K_CORPORATE_ACTION, K_SECURITY_STATE, K_SUSPENSION,
     K_PRICE_LIMIT, K_QUOTE, K_TRADE, K_BAR, K_SESSION_CLOSE]"

definition REACTION_KINDS :: "event_kind list" where
  "REACTION_KINDS = filter (\<lambda>k. k \<notin> set MARKET_KINDS) all_kinds"

text \<open>The check at import: every kind has a place in the causal order.\<close>

definition priorities_cover_every_kind :: bool where
  "priorities_cover_every_kind \<longleftrightarrow>
     filter (\<lambda>k. map_of EVENT_PRIORITY (kind_value k) = None) all_kinds = []"

record market_event =
  me_kind :: event_kind
  me_times :: event_times
  me_symbol :: "string option"
  me_sequence :: int
  me_payload :: "(string, json) dict"
  me_lineage :: lineage
  me_event_id :: string

definition event_derive_id :: "digest \<Rightarrow> (json \<Rightarrow> string) \<Rightarrow> market_event \<Rightarrow> string" where
  "event_derive_id H S e = content_id H ''evt''
     [(''kind'', JStr (kind_value (me_kind e))),
      (''event_time'', JStr (moment_isoformat (et_event_time (me_times e)))),
      (''available_time'', JStr (moment_isoformat (et_available_time (me_times e)))),
      (''symbol'', JStr (case me_symbol e of None \<Rightarrow> [] | Some s \<Rightarrow> s)),
      (''sequence'', JInt (me_sequence e)),
      (''payload'', JList (map (\<lambda>(k, v). JList [JStr k, JStr v])
         (sort (map (\<lambda>(k, v). (k, py_str S v)) (me_payload e)))))]"

definition MarketEvent_make :: "digest \<Rightarrow> (json \<Rightarrow> string) \<Rightarrow> market_event \<Rightarrow> market_event" where
  "MarketEvent_make H S e =
     (if me_event_id e = [] then e\<lparr>me_event_id := event_derive_id H S e\<rparr> else e)"

definition is_market_data :: "market_event \<Rightarrow> bool" where
  "is_market_data e \<longleftrightarrow> me_kind e \<in> set MARKET_KINDS"

definition event_key :: "market_event \<Rightarrow> order_key" where
  "event_key e = ordering_key (me_times e) (kind_value (me_kind e)) (me_sequence e) (me_event_id e)"

definition MarketEvent_to_dict :: "market_event \<Rightarrow> json" where
  "MarketEvent_to_dict e = JObj
     [(''eventId'', JStr (me_event_id e)),
      (''kind'', JStr (kind_value (me_kind e))),
      (''symbol'', of_opt JStr (me_symbol e)),
      (''sequence'', JInt (me_sequence e)),
      (''times'', EventTime_to_dict (me_times e)),
      (''payload'', JObj (me_payload e)),
      (''lineage'', lineage_json (me_lineage e))]"

section \<open>The bus\<close>

definition GENESIS_DIGEST :: string where
  "GENESIS_DIGEST = replicate 64 (CHR ''0'')"

type_synonym heap_entry = "order_key \<times> nat \<times> market_event"

record event_bus =
  bus_heap :: "heap_entry list"
  bus_counter :: nat
  bus_emitted :: nat
  bus_digest :: string
  bus_last :: "market_event option"
  bus_seen :: "string list"
  bus_allow_duplicates :: bool
  bus_draining :: bool
  bus_frontier :: "decision_frontier option"

definition new_bus :: "bool \<Rightarrow> event_bus" where
  "new_bus allow_duplicates =
     \<lparr>bus_heap = [], bus_counter = 0, bus_emitted = 0, bus_digest = GENESIS_DIGEST, bus_last = None,
      bus_seen = [], bus_allow_duplicates = allow_duplicates, bus_draining = False, bus_frontier = None\<rparr>"

definition heap_rank :: "heap_entry \<Rightarrow> order_key \<times> nat" where
  "heap_rank entry = (case entry of (key, c, e) \<Rightarrow> (key, c))"

definition publish :: "market_event \<Rightarrow> event_bus \<Rightarrow> event_bus res" where
  "publish e bus =
     (if \<not> bus_allow_duplicates bus \<and> me_event_id e \<in> set (bus_seen bus) then Inl DuplicateEvent
      else if bus_draining bus \<and> me_kind e \<in> set MARKET_KINDS then Inl MarketDataFromConsumer
      else if (case bus_last bus of None \<Rightarrow> False | Some l \<Rightarrow> event_key e < event_key l) then Inl LateArrival
      else Inr (bus\<lparr>bus_seen := me_event_id e # bus_seen bus,
                    bus_heap := insort_key heap_rank (event_key e, bus_counter bus, e) (bus_heap bus),
                    bus_counter := bus_counter bus + 1\<rparr>))"

fun publish_all :: "market_event list \<Rightarrow> event_bus \<Rightarrow> event_bus res" where
  "publish_all [] bus = Inr bus"
| "publish_all (e # es) bus = res_bind (publish e bus) (publish_all es)"

definition emit :: "(string \<Rightarrow> string \<Rightarrow> string) \<Rightarrow> market_event \<Rightarrow> event_bus \<Rightarrow> event_bus res" where
  "emit D e bus =
     (let time = et_event_time (me_times e) in
      res_bind (case bus_frontier bus of
          None \<Rightarrow> Inr \<lparr>df_decision_time = time\<rparr>
        | Some f \<Rightarrow> advanced_to time f)
        (\<lambda>frontier. Inr (bus\<lparr>bus_last := Some e, bus_emitted := bus_emitted bus + 1,
           bus_digest := D (bus_digest bus) (me_event_id e), bus_frontier := Some frontier\<rparr>)))"

text \<open>The head of the loop in \<open>drain\<close>: pop and emit the next event within the limit.\<close>

definition drain_next ::
    "(string \<Rightarrow> string \<Rightarrow> string) \<Rightarrow> moment option \<Rightarrow> event_bus \<Rightarrow> (market_event \<times> event_bus) option res" where
  "drain_next D limit bus = (case bus_heap bus of
       [] \<Rightarrow> Inr None
     | (key, c, e) # rest \<Rightarrow>
         (if (case limit of None \<Rightarrow> False | Some l \<Rightarrow> mo_instant l < mo_instant (et_event_time (me_times e)))
          then Inr None
          else res_bind (emit D e (bus\<lparr>bus_heap := rest\<rparr>)) (\<lambda>b. Inr (Some (e, b)))))"

text \<open>
  A drain with a consumer.  \<open>react e f\<close> are the events the consumer publishes on \<open>e\<close> at the
  frontier \<open>f\<close>.  A consumer may react for ever, so the loop takes fuel and says whether it came to
  its end.
\<close>

type_synonym consumer = "market_event \<Rightarrow> decision_frontier option \<Rightarrow> market_event list"

fun drain_run ::
    "(string \<Rightarrow> string \<Rightarrow> string) \<Rightarrow> consumer \<Rightarrow> moment option \<Rightarrow> nat \<Rightarrow> event_bus
     \<Rightarrow> (market_event list \<times> event_bus \<times> bool) res" where
  "drain_run D react limit 0 bus = Inr ([], bus, False)"
| "drain_run D react limit (Suc n) bus =
     res_bind (drain_next D limit bus) (\<lambda>next. case next of
         None \<Rightarrow> Inr ([], bus, True)
       | Some (e, b) \<Rightarrow>
           res_bind (publish_all (react e (bus_frontier b)) (b\<lparr>bus_draining := True\<rparr>)) (\<lambda>b'.
             res_bind (drain_run D react limit n (b'\<lparr>bus_draining := False\<rparr>)) (\<lambda>(es, b'', finished).
               Inr (e # es, b'', finished))))"

definition drain ::
    "(string \<Rightarrow> string \<Rightarrow> string) \<Rightarrow> consumer \<Rightarrow> moment option \<Rightarrow> nat \<Rightarrow> event_bus
     \<Rightarrow> (market_event list \<times> event_bus \<times> bool) res" where
  "drain D react limit fuel bus =
     res_bind (ensure_optional limit) (\<lambda>l. drain_run D react l fuel (bus\<lparr>bus_draining := False\<rparr>))"

definition frontier :: "event_bus \<Rightarrow> decision_frontier res" where
  "frontier bus = (case bus_frontier bus of None \<Rightarrow> Inl RuntimeError | Some f \<Rightarrow> Inr f)"

definition bus_pending :: "event_bus \<Rightarrow> nat" where
  "bus_pending bus = length (bus_heap bus)"

definition bus_peek :: "event_bus \<Rightarrow> market_event option" where
  "bus_peek bus = (case bus_heap bus of [] \<Rightarrow> None | (key, c, e) # rest \<Rightarrow> Some e)"

text \<open>The checkpoint keeps the frontier's instant where the source keeps its text.\<close>

record bus_checkpoint =
  cp_emitted :: nat
  cp_digest :: string
  cp_frontier :: "moment option"
  cp_last_event_id :: "string option"

definition checkpoint :: "event_bus \<Rightarrow> bus_checkpoint" where
  "checkpoint bus = \<lparr>cp_emitted = bus_emitted bus, cp_digest = bus_digest bus,
     cp_frontier = map_option df_decision_time (bus_frontier bus),
     cp_last_event_id = map_option me_event_id (bus_last bus)\<rparr>"

definition resume_from :: "bus_checkpoint \<Rightarrow> event_bus \<Rightarrow> event_bus res" where
  "resume_from cp bus =
     (if bus_emitted bus \<noteq> 0 then Inl RuntimeError
      else res_bind (case cp_frontier cp of
          None \<Rightarrow> Inr (bus_frontier bus)
        | Some m \<Rightarrow> res_bind (frontier_at m) (\<lambda>f. Inr (Some f)))
        (\<lambda>f. Inr (bus\<lparr>bus_emitted := cp_emitted cp, bus_digest := cp_digest cp, bus_frontier := f\<rparr>)))"

definition no_reaction :: consumer where
  "no_reaction e f = []"

definition replay_events_on_bus ::
    "(string \<Rightarrow> string \<Rightarrow> string) \<Rightarrow> market_event list \<Rightarrow> (market_event list \<times> string) res" where
  "replay_events_on_bus D events =
     res_bind (publish_all events (new_bus False)) (\<lambda>b.
       res_bind (drain D no_reaction None (Suc (length events)) b) (\<lambda>(es, b', finished).
         Inr (es, bus_digest b')))"

end
