(* ===== verification/Bus_Props.thy ===== *)
theory Bus_Props
  imports Stream_Bus
begin

text \<open>
  What the bus promises: whatever its consumer publishes, what it emits is in the total order, no
  event twice, the frontier at the last emitted event; and a fixed set of events is emitted in one
  order with one digest however it arrives.
\<close>

section \<open>Keys and the heap\<close>

lemma event_key_id: "event_key e = event_key e' \<Longrightarrow> me_event_id e = me_event_id e'"
  by (simp add: event_key_def ordering_key_def)

lemma event_key_inj: "distinct (map me_event_id es) \<Longrightarrow> inj_on event_key (set es)"
proof (rule inj_onI)
  fix x y assume d: "distinct (map me_event_id es)" and m: "x \<in> set es" "y \<in> set es" and "event_key x = event_key y"
  from this(4) have "me_event_id x = me_event_id y" by (rule event_key_id)
  with d m show "x = y" by (simp add: distinct_map inj_on_def)
qed

lemma event_key_instant:
  "event_key e \<le> event_key e' \<Longrightarrow>
     mo_instant (et_event_time (me_times e)) \<le> mo_instant (et_event_time (me_times e'))"
  by (auto simp: event_key_def ordering_key_def less_eq_prod_def)

definition heap_events :: "heap_entry list \<Rightarrow> market_event list" where
  "heap_events h = map (snd \<circ> snd) h"

lemma heap_events_simps [simp]:
  "heap_events [] = []" "heap_events (x # h) = snd (snd x) # heap_events h"
  by (simp_all add: heap_events_def)

lemma mset_heap_insort:
  "mset (heap_events (insort_key heap_rank (k, c, e) h)) = add_mset e (mset (heap_events h))"
  by (induction h) auto

lemma set_heap_insort:
  "set (heap_events (insort_key heap_rank (k, c, e) h)) = insert e (set (heap_events h))"
  by (metis mset_heap_insort set_mset_add_mset_insert set_mset_mset)

definition timed :: "market_event \<Rightarrow> bool" where
  "timed e \<longleftrightarrow> is_aware (et_event_time (me_times e))"

lemma heap_rank_key: "heap_rank (k, c, e) \<le> heap_rank (k', c', e') \<Longrightarrow> k \<le> k'"
  unfolding heap_rank_def prod.case by (metis fst_conv less_eq_prod_def order_less_imp_le)

text \<open>The invariant of the bus between two calls.\<close>

definition bus_ok :: "event_bus \<Rightarrow> bool" where
  "bus_ok b \<longleftrightarrow>
     sorted (map heap_rank (bus_heap b))
     \<and> (\<forall>(k, c, e) \<in> set (bus_heap b). k = event_key e \<and> timed e)
     \<and> (\<forall>l. bus_last b = Some l \<longrightarrow> (\<forall>e \<in> set (heap_events (bus_heap b)). event_key l \<le> event_key e))
     \<and> map_option df_decision_time (bus_frontier b) = map_option (et_event_time \<circ> me_times) (bus_last b)
     \<and> me_event_id ` set (heap_events (bus_heap b)) \<subseteq> set (bus_seen b)
     \<and> (\<not> bus_allow_duplicates b \<longrightarrow> distinct (map me_event_id (heap_events (bus_heap b))))"

lemma bus_ok_new: "bus_ok (new_bus d)"
  by (simp add: bus_ok_def new_bus_def)

lemma bus_ok_draining [simp]: "bus_ok (b\<lparr>bus_draining := d\<rparr>) = bus_ok b"
  by (simp add: bus_ok_def)

lemma publish_Inr:
  "publish e b = Inr b' \<longleftrightarrow>
     (bus_allow_duplicates b \<or> me_event_id e \<notin> set (bus_seen b))
     \<and> \<not> (bus_draining b \<and> me_kind e \<in> set MARKET_KINDS)
     \<and> (\<forall>l. bus_last b = Some l \<longrightarrow> event_key l \<le> event_key e)
     \<and> b' = b\<lparr>bus_seen := me_event_id e # bus_seen b,
              bus_heap := insort_key heap_rank (event_key e, bus_counter b, e) (bus_heap b),
              bus_counter := bus_counter b + 1\<rparr>"
  by (auto simp: publish_def not_less split: option.splits)

lemma bus_ok_publish:
  assumes ok: "bus_ok b" and t: "timed e" and p: "publish e b = Inr b'"
  shows "bus_ok b'"
proof -
  let ?h = "insort_key heap_rank (event_key e, bus_counter b, e) (bus_heap b)"
  have "mset (map me_event_id (heap_events ?h)) = mset (me_event_id e # map me_event_id (heap_events (bus_heap b)))"
    by (simp add: mset_heap_insort)
  then have "distinct (map me_event_id (heap_events ?h)) \<longleftrightarrow>
      distinct (me_event_id e # map me_event_id (heap_events (bus_heap b)))"
    by (rule mset_eq_imp_distinct_iff)
  moreover have "me_event_id e \<notin> set (bus_seen b) \<Longrightarrow>
      me_event_id e \<notin> set (map me_event_id (heap_events (bus_heap b)))"
    using ok by (auto simp: bus_ok_def)
  ultimately show ?thesis
    using ok t p
    by (auto simp: bus_ok_def publish_Inr sorted_insort_key set_insort_key set_heap_insort)
qed

lemma publish_all_facts:
  "publish_all es b = Inr b' \<Longrightarrow> list_all timed es \<Longrightarrow> bus_ok b \<Longrightarrow>
     bus_ok b' \<and> bus_last b' = bus_last b \<and> bus_allow_duplicates b' = bus_allow_duplicates b
     \<and> bus_draining b' = bus_draining b \<and> bus_emitted b' = bus_emitted b \<and> bus_digest b' = bus_digest b
     \<and> set (bus_seen b') = set (bus_seen b) \<union> me_event_id ` set es
     \<and> mset (heap_events (bus_heap b')) = mset (heap_events (bus_heap b)) + mset es
     \<and> (\<not> bus_allow_duplicates b \<longrightarrow> distinct (map me_event_id es) \<and> me_event_id ` set es \<inter> set (bus_seen b) = {})"
proof (induction es arbitrary: b)
  case (Cons e es)
  then obtain b1 where b1: "publish e b = Inr b1" and r: "publish_all es b1 = Inr b'"
    by (auto simp: res_bind_Inr_iff)
  from Cons.prems have t: "timed e" "list_all timed es" by simp_all
  have ms: "mset (heap_events (bus_heap b1)) = add_mset e (mset (heap_events (bus_heap b)))"
    using b1 by (simp add: publish_Inr mset_heap_insort)
  from Cons.IH [OF r t(2) bus_ok_publish [OF Cons.prems(3) t(1) b1]] show ?case
    using b1 ms by (auto simp: publish_Inr)
qed simp

section \<open>One emission\<close>

lemma drain_next_facts:
  assumes ok: "bus_ok b"
  obtains (stop) "drain_next D limit b = Inr None"
    | (emits) k c e rest b' where "bus_heap b = (k, c, e) # rest" "drain_next D limit b = Inr (Some (e, b'))"
        "bus_ok b'" "bus_last b' = Some e" "bus_emitted b' = bus_emitted b + 1"
        "bus_digest b' = D (bus_digest b) (me_event_id e)"
        "bus_heap b' = rest" "bus_seen b' = bus_seen b" "bus_allow_duplicates b' = bus_allow_duplicates b"
        "\<And>l. bus_last b = Some l \<Longrightarrow> event_key l \<le> event_key e"
proof (cases "bus_heap b")
  case Nil
  then show ?thesis by (intro stop) (simp add: drain_next_def)
next
  case (Cons entry rest)
  obtain k c e where entry: "entry = (k, c, e)" by (cases entry)
  have k: "k = event_key e" and t: "timed e" using ok Cons entry by (auto simp: bus_ok_def)
  have last: "\<And>l. bus_last b = Some l \<Longrightarrow> event_key l \<le> event_key e"
    using ok Cons entry by (auto simp: bus_ok_def)
  show ?thesis
  proof (cases "case limit of None \<Rightarrow> False | Some l \<Rightarrow> mo_instant l < mo_instant (et_event_time (me_times e))")
    case True
    then show ?thesis using Cons entry by (intro stop) (simp add: drain_next_def)
  next
    case False
    let ?b = "b\<lparr>bus_heap := rest, bus_last := Some e, bus_emitted := bus_emitted b + 1,
        bus_digest := D (bus_digest b) (me_event_id e),
        bus_frontier := Some \<lparr>df_decision_time = et_event_time (me_times e)\<rparr>\<rparr>"
    have fr: "(case bus_frontier b of None \<Rightarrow> Inr \<lparr>df_decision_time = et_event_time (me_times e)\<rparr>
        | Some f \<Rightarrow> advanced_to (et_event_time (me_times e)) f) = Inr \<lparr>df_decision_time = et_event_time (me_times e)\<rparr>"
    proof (cases "bus_frontier b")
      case (Some f)
      have "map_option df_decision_time (bus_frontier b) = map_option (et_event_time \<circ> me_times) (bus_last b)"
        using ok by (simp add: bus_ok_def)
      with Some obtain l where "bus_last b = Some l" "df_decision_time f = et_event_time (me_times l)"
        by (cases "bus_last b") simp_all
      with last [THEN event_key_instant] t Some show ?thesis
        by (simp add: advanced_to_Inr timed_def)
    qed simp
    have "drain_next D limit b = Inr (Some (e, ?b))"
      using False Cons entry fr by (simp add: drain_next_def emit_def Let_def)
    moreover have "bus_ok ?b"
    proof -
      have ranks: "\<forall>x \<in> set rest. heap_rank (k, c, e) \<le> heap_rank x"
        using ok Cons entry by (auto simp: bus_ok_def)
      have keys: "\<forall>(k', c', e') \<in> set rest. k' = event_key e'"
        using ok Cons by (auto simp: bus_ok_def)
      have "event_key e \<le> event_key x" if "x \<in> set (heap_events rest)" for x
      proof -
        from that obtain k' c' where m: "(k', c', x) \<in> set rest" by (auto simp: heap_events_def)
        then have "k \<le> k'" by (rule heap_rank_key [OF bspec [OF ranks]])
        with m keys k show ?thesis by auto
      qed
      then show ?thesis using ok Cons entry by (simp add: bus_ok_def)
    qed
    ultimately show ?thesis
      using Cons entry last by (intro emits [of k c e rest ?b]) simp_all
  qed
qed

section \<open>A whole drain\<close>

definition timed_consumer :: "consumer \<Rightarrow> bool" where
  "timed_consumer react \<longleftrightarrow> (\<forall>e f. list_all timed (react e f))"

lemma drain_run_facts:
  assumes "bus_ok b" "timed_consumer react" "drain_run D react limit n b = Inr (es, b', fin)"
  shows "bus_ok b' \<and> sorted (map event_key es)
    \<and> (\<forall>l. bus_last b = Some l \<longrightarrow> (\<forall>e \<in> set es. event_key l \<le> event_key e))
    \<and> bus_last b' = (if es = [] then bus_last b else Some (last es))
    \<and> bus_emitted b' = bus_emitted b + length es
    \<and> bus_digest b' = foldl D (bus_digest b) (map me_event_id es)
    \<and> (\<not> bus_allow_duplicates b \<longrightarrow> distinct (map me_event_id es)
        \<and> me_event_id ` set es \<inter> (set (bus_seen b) - me_event_id ` set (heap_events (bus_heap b))) = {})"
  using assms
proof (induction n arbitrary: b es)
  case (Suc n)
  from Suc.prems(1) show ?case
  proof (cases rule: drain_next_facts [of b D limit])
    case stop
    with Suc.prems show ?thesis by simp
  next
    case (emits k c e rest b1)
    let ?b1 = "b1\<lparr>bus_draining := True\<rparr>"
    from Suc.prems(3) emits(2) obtain b2 es1 where p: "publish_all (react e (bus_frontier b1)) ?b1 = Inr b2"
      and r: "drain_run D react limit n (b2\<lparr>bus_draining := False\<rparr>) = Inr (es1, b', fin)" and es: "es = e # es1"
      by (auto simp: res_bind_Inr_iff)
    have tl: "list_all timed (react e (bus_frontier b1))"
      using Suc.prems(2) by (simp add: timed_consumer_def)
    have "bus_ok ?b1" using emits(3) by simp
    note f = publish_all_facts [OF p tl this]
    from f have ok2: "bus_ok (b2\<lparr>bus_draining := False\<rparr>)" by simp
    note ih = Suc.IH [OF ok2 Suc.prems(2) r]
    have last2: "bus_last b2 = Some e" using f emits(4) by simp
    have ge: "\<forall>x \<in> set es1. event_key e \<le> event_key x" using ih last2 by simp
    have ids: "distinct (map me_event_id es) \<and>
        me_event_id ` set es \<inter> (set (bus_seen b) - me_event_id ` set (heap_events (bus_heap b))) = {}"
      if nd: "\<not> bus_allow_duplicates b"
    proof -
      let ?re = "react e (bus_frontier b1)" and ?ids = "\<lambda>xs. me_event_id ` set xs"
      from f nd emits(9) have h2: "set (heap_events (bus_heap b2)) = set (heap_events rest) \<union> set ?re"
        and s2: "set (bus_seen b2) = set (bus_seen b) \<union> ?ids ?re"
        and fresh: "?ids ?re \<inter> set (bus_seen b) = {}"
        by (auto simp: emits(7,8) dest: arg_cong [where f = set_mset])
      have d: "me_event_id e \<notin> ?ids (heap_events rest)" "me_event_id e \<in> set (bus_seen b)"
        using Suc.prems(1) nd emits(1) by (auto simp: bus_ok_def)
      from ih nd f emits(9) have i: "distinct (map me_event_id es1)"
        "?ids es1 \<inter> (set (bus_seen b2) - ?ids (heap_events (bus_heap b2))) = {}" by simp_all
      have e1: "me_event_id e \<notin> ?ids es1"
        using i(2) d fresh unfolding h2 s2 image_Un by blast
      have "?ids es1 \<inter> (set (bus_seen b) - ?ids (heap_events rest)) = {}"
        using i(2) fresh unfolding h2 s2 image_Un by blast
      moreover have "?ids (heap_events (bus_heap b)) = insert (me_event_id e) (?ids (heap_events rest))"
        "?ids es = insert (me_event_id e) (?ids es1)" by (simp_all add: emits(1) es)
      ultimately show ?thesis using i(1) e1 by (simp add: es) blast
    qed
    have "bus_emitted b' = bus_emitted b + length es"
      "bus_digest b' = foldl D (bus_digest b) (map me_event_id es)"
      using ih f emits(5,6) by (simp_all add: es)
    moreover have "bus_last b' = (if es = [] then bus_last b else Some (last es))"
      using ih last2 by (simp add: es)
    moreover have "sorted (map event_key es)" using ih ge by (simp add: es)
    moreover have "\<forall>l. bus_last b = Some l \<longrightarrow> (\<forall>x \<in> set es. event_key l \<le> event_key x)"
      using emits(10) ge by (auto simp: es intro: order.trans)
    ultimately show ?thesis using ih ids by blast
  qed
qed simp

lemma publish_all_Inl:
  "publish_all es b = Inl x \<Longrightarrow> x \<in> {DuplicateEvent, MarketDataFromConsumer, LateArrival}"
proof (induction es arbitrary: b)
  case (Cons e es)
  then show ?case
    by (cases "publish e b") (auto simp: publish_def split: if_splits option.splits)
qed simp

lemma drain_run_Inl:
  "bus_ok b \<Longrightarrow> timed_consumer react \<Longrightarrow> drain_run D react limit n b = Inl x \<Longrightarrow>
     x \<in> {DuplicateEvent, MarketDataFromConsumer, LateArrival}"
proof (induction n arbitrary: b)
  case (Suc n)
  from Suc.prems(1) show ?case
  proof (cases rule: drain_next_facts [of b D limit])
    case stop
    with Suc.prems show ?thesis by simp
  next
    case (emits k c e rest b1)
    let ?re = "react e (bus_frontier b1)"
    show ?thesis
    proof (cases "publish_all ?re (b1\<lparr>bus_draining := True\<rparr>)")
      case (Inl y)
      with Suc.prems(3) emits(2) publish_all_Inl [OF Inl] show ?thesis by simp
    next
      case (Inr b2)
      have "bus_ok (b2\<lparr>bus_draining := False\<rparr>)"
        using publish_all_facts [OF Inr] Suc.prems(2) emits(3) by (simp add: timed_consumer_def)
      moreover have "drain_run D react limit n (b2\<lparr>bus_draining := False\<rparr>) = Inl x"
        using Suc.prems(3) emits(2) Inr
        by (cases "drain_run D react limit n (b2\<lparr>bus_draining := False\<rparr>)") auto
      ultimately show ?thesis using Suc.IH Suc.prems(2) by blast
    qed
  qed
qed simp

section \<open>Properties\<close>

definition sample_times :: event_times where
  "sample_times = plain_times (session_close 19724) (session_close 19724)"

definition sample_bar :: "string \<Rightarrow> int \<Rightarrow> market_event" where
  "sample_bar i n = \<lparr>me_kind = K_BAR, me_times = sample_times, me_symbol = None, me_sequence = n,
     me_payload = [], me_lineage = no_lineage, me_event_id = i\<rparr>"

definition sample_consumer :: consumer where
  "sample_consumer e f = (if me_event_id e = ''b''
     then [(sample_bar ''o'' 7)\<lparr>me_kind := K_ORDER\<rparr>] else [])"

definition join_digest :: "string \<Rightarrow> string \<Rightarrow> string" where
  "join_digest d i = d @ i"


lemma sample_timed: "list_all timed [sample_bar ''b'' 2, sample_bar ''a'' 1]" "timed_consumer sample_consumer"
  by (simp_all add: timed_consumer_def sample_consumer_def timed_def sample_bar_def sample_times_def plain_times_def)


lemma publish_all_distinct:
  assumes "bus_last b = None" "\<not> bus_draining b" "\<not> bus_allow_duplicates b"
  shows "if distinct (map me_event_id es) \<and> me_event_id ` set es \<inter> set (bus_seen b) = {}
    then \<exists>b'. publish_all es b = Inr b' else publish_all es b = Inl DuplicateEvent"
  using assms
proof (induction es arbitrary: b)
  case (Cons e es)
  show ?case
  proof (cases "me_event_id e \<in> set (bus_seen b)")
    case True
    with Cons.prems show ?thesis by (simp add: publish_def)
  next
    case False
    let ?b = "b\<lparr>bus_seen := me_event_id e # bus_seen b,
        bus_heap := insort_key heap_rank (event_key e, bus_counter b, e) (bus_heap b),
        bus_counter := bus_counter b + 1\<rparr>"
    have "publish e b = Inr ?b" using Cons.prems False by (simp add: publish_def)
    moreover have "if distinct (map me_event_id es) \<and> me_event_id ` set es \<inter> set (bus_seen ?b) = {}
        then \<exists>b'. publish_all es ?b = Inr b' else publish_all es ?b = Inl DuplicateEvent"
      using Cons.prems by (intro Cons.IH) simp_all
    ultimately show ?thesis using False by (auto split: if_splits)
  qed
qed simp

lemma drain_all:
  assumes "\<And>e f. react e f = []"
  shows "bus_ok b \<Longrightarrow> length (bus_heap b) < n \<Longrightarrow> \<exists>b'. drain_run D react None n b = Inr (heap_events (bus_heap b), b', True)"
proof (induction n arbitrary: b)
  case (Suc n)
  from Suc.prems(1) show ?case
  proof (cases rule: drain_next_facts [of b D None])
    case stop
    then have "bus_heap b = []"
      by (cases "bus_heap b") (auto simp: drain_next_def res_bind_def split: sum.splits)
    with stop show ?thesis by simp
  next
    case (emits k c e rest b1)
    let ?b = "b1\<lparr>bus_draining := False\<rparr>"
    have "\<exists>b'. drain_run D react None n ?b = Inr (heap_events (bus_heap ?b), b', True)"
      using Suc.prems(2) emits by (intro Suc.IH) simp_all
    then obtain b' where "drain_run D react None n ?b = Inr (heap_events rest, b', True)"
      using emits(7) by auto
    with emits(1,2) show ?thesis by (simp add: assms [of e "bus_frontier b1"])
  qed
qed simp

lemma sorted_heap_events: "bus_ok b \<Longrightarrow> sorted (map event_key (heap_events (bus_heap b)))"
proof -
  have "sorted (map heap_rank h) \<Longrightarrow> \<forall>(k, c, e) \<in> set h. k = event_key e \<and> timed e \<Longrightarrow>
      sorted (map event_key (heap_events h))" for h
  proof (induction h)
    case (Cons x h)
    obtain k c e where x: "x = (k, c, e)" by (cases x)
    have "event_key e \<le> event_key y" if y: "y \<in> set (heap_events h)" for y
    proof -
      from y obtain k' c' where m: "(k', c', y) \<in> set h" by (auto simp: heap_events_def)
      have "heap_rank (k, c, e) \<le> heap_rank (k', c', y)" using Cons.prems(1) m x by auto
      from heap_rank_key [OF this] show ?thesis using Cons.prems(2) m x by auto
    qed
    with Cons show ?case by (simp add: x)
  qed simp
  then show "bus_ok b \<Longrightarrow> ?thesis" by (simp add: bus_ok_def)
qed

text \<open>Arrival order does not leak.  Replaying a fixed set of events gives the events sorted by their
  keys and the digest of that order, whatever order they arrive in; with a repeated event it raises
  \<open>DuplicateEvent\<close>.  Any two shuffles of one input hence give the same list and the same digest.\<close>

lemma replay_is_order_free:
  assumes "list_all timed events"
  shows "replay_events_on_bus D events =
      (if distinct (map me_event_id events)
       then Inr (sort_key event_key events, foldl D GENESIS_DIGEST (map me_event_id (sort_key event_key events)))
       else Inl DuplicateEvent)
    \<and> (\<forall>events'. mset events = mset events' \<longrightarrow> replay_events_on_bus D events' = replay_events_on_bus D events)"
proof -
  have main: "replay_events_on_bus D es =
      (if distinct (map me_event_id es)
       then Inr (sort_key event_key es, foldl D GENESIS_DIGEST (map me_event_id (sort_key event_key es)))
       else Inl DuplicateEvent)" if t: "list_all timed es" for es
  proof (cases "distinct (map me_event_id es)")
    case False
    then show ?thesis
      using publish_all_distinct [of "new_bus False" es] by (simp add: new_bus_def replay_events_on_bus_def)
  next
    case True
    then obtain b where b: "publish_all es (new_bus False) = Inr b"
      using publish_all_distinct [of "new_bus False" es] by (auto simp: new_bus_def)
    note f = publish_all_facts [OF b t bus_ok_new]
    then have ok: "bus_ok b" and nd: "bus_draining b = False" and ms: "mset (heap_events (bus_heap b)) = mset es"
      by (simp_all add: new_bus_def)
    have "length (heap_events (bus_heap b)) = length es" using ms by (rule mset_eq_length)
    then have "length (bus_heap b) < Suc (length es)" by (simp add: heap_events_def)
    from drain_all [of no_reaction, OF no_reaction_def ok this] obtain b' where
      d: "drain_run D no_reaction None (Suc (length es)) b = Inr (heap_events (bus_heap b), b', True)" by blast
    have bn: "b\<lparr>bus_draining := False\<rparr> = b" by (rule event_bus.equality) (simp_all add: nd)
    have "inj_on event_key (set es)" by (rule event_key_inj [OF True])
    then have "sort_key event_key es = heap_events (bus_heap b)"
      using ms sorted_heap_events [OF ok] by (intro sort_key_inj_key_eq) simp_all
    moreover have "bus_digest b' = foldl D GENESIS_DIGEST (map me_event_id (heap_events (bus_heap b)))"
      using drain_run_facts [OF ok _ d] f by (simp add: timed_consumer_def no_reaction_def new_bus_def)
    ultimately show ?thesis
      using True b d by (simp add: replay_events_on_bus_def drain_def ensure_optional_def bn)
  qed
  show ?thesis
  proof (intro conjI allI impI)
  show "replay_events_on_bus D events =
      (if distinct (map me_event_id events)
       then Inr (sort_key event_key events, foldl D GENESIS_DIGEST (map me_event_id (sort_key event_key events)))
       else Inl DuplicateEvent)" by (rule main [OF assms])
  fix events' assume ms: "mset events = mset events'"
  have "set events' = set events" using ms by (metis set_mset_mset)
  with assms have t': "list_all timed events'" by (simp add: list_all_iff)
  have d: "distinct (map me_event_id events) = distinct (map me_event_id events')"
    using ms by (intro mset_eq_imp_distinct_iff) simp
  have "sort_key event_key events' = sort_key event_key events" if "distinct (map me_event_id events')"
  proof (rule sort_key_inj_key_eq)
    show "inj_on event_key (set events')" by (rule event_key_inj [OF that])
  qed (simp_all add: ms)
  with d show "replay_events_on_bus D events' = replay_events_on_bus D events"
    by (simp add: main [OF assms] main [OF t'])
qed
qed

end
