(* ===== verification/Lifecycle.thy ===== *)
theory Lifecycle
  imports Stream_Bus Ledger_Facts
begin

text \<open>
  The streaming engine's order lifecycle: \<open>src/src/quantagent/streaming/lifecycle.py\<close>.  It holds a
  translation table and folds every order event through the two mirror functions.  A handler returns
  its outcome together with the state, since what it did before it raised stays done.

  \<open>env n\<close> is what the surroundings answer to the \<open>n\<close>-th mirror call of a handler: whether the durable
  write succeeds, the clock of the book and the clock of the ledger.
\<close>

type_synonym env = "nat \<Rightarrow> bool \<times> string \<times> string"

record lifecycle =
  lc_book :: order_book
  lc_ledger :: ledger
  lc_lineage :: lineage
  lc_initial_cash :: rat
  lc_canonical_ids :: "(string, string) dict"
  lc_sessions :: "(string, string) dict"
  lc_handled :: nat

definition required :: "market_event \<Rightarrow> string \<Rightarrow> json res" where
  "required e field = (case map_of (me_payload e) field of None \<Rightarrow> Inl MissingEventField | Some v \<Rightarrow> Inr v)"

definition required_str :: "(json \<Rightarrow> string) \<Rightarrow> market_event \<Rightarrow> string \<Rightarrow> string res" where
  "required_str S e field = res_bind (required e field) (\<lambda>v. Inr (py_str S v))"

definition event_session :: "market_event \<Rightarrow> string" where
  "event_session e = date_isoformat (local_date (et_event_time (me_times e)))"

definition CALLBACK_EVENTS :: "(string, order_event_type) dict" where
  "CALLBACK_EVENTS = [(''ACCEPTED'', Ev_ACCEPTED), (''REJECTED'', Ev_REJECTED)]"

definition call_open ::
    "chain_digest \<Rightarrow> digest \<Rightarrow> bool \<times> string \<times> string \<Rightarrow> order_intent \<Rightarrow> string \<Rightarrow> lifecycle \<Rightarrow> order res \<times> lifecycle"
where
  "call_open D H answer intent session lc = (case answer of (ok, now, now') \<Rightarrow>
     (case mirror_open D H ok now now' intent (Some session) None (lc_book lc, lc_ledger lc) of
        (r, book, led) \<Rightarrow> (r, lc\<lparr>lc_book := book, lc_ledger := led\<rparr>)))"

definition call_event ::
    "chain_digest \<Rightarrow> bool \<times> string \<times> string \<Rightarrow> string \<Rightarrow> order_event_type \<Rightarrow> string \<Rightarrow> fill option
     \<Rightarrow> string option \<Rightarrow> lifecycle \<Rightarrow> order res \<times> lifecycle"
where
  "call_event D answer oid t session f reason lc = (case answer of (ok, now, now') \<Rightarrow>
     (case mirror_event D ok now now' oid t (Some session) f reason None (lc_book lc, lc_ledger lc) of
        (r, book, led) \<Rightarrow> (r, lc\<lparr>lc_book := book, lc_ledger := led\<rparr>)))"

section \<open>Handlers\<close>

definition order_intent_of :: "digest \<Rightarrow> (json \<Rightarrow> string) \<Rightarrow> string \<Rightarrow> market_event \<Rightarrow> lifecycle \<Rightarrow> (string \<times> order_intent) res"
where
  "order_intent_of H S now e lc =
     res_bind (required_str S e ''clientOrderId'') (\<lambda>client.
     let session = event_session e; symbol = (case me_symbol e of None \<Rightarrow> ''None'' | Some s \<Rightarrow> s) in
     res_bind (get_float_default (JObj (me_payload e)) ''score'' 0) (\<lambda>score.
     let signal = Signal_create H now symbol (session @ ''-'' @ client) score (lc_lineage lc) in
     res_bind (res_bind (required_str S e ''side'') (\<lambda>v. side_of_value (upper v))) (\<lambda>sd.
     res_bind (res_bind (required e ''quantity'') json_int) (\<lambda>quantity.
     res_bind (res_bind (jget (JObj (me_payload e)) ''limitPrice'') json_opt_float) (\<lambda>limit_price.
     res_bind (res_bind (jget (JObj (me_payload e)) ''referencePrice'') json_opt_float) (\<lambda>reference_price.
     res_bind (OrderIntent_create H now symbol sd quantity session (sig_lineage signal) limit_price reference_price)
       (\<lambda>intent. Inr (client, intent))))))))"

definition on_order ::
    "chain_digest \<Rightarrow> digest \<Rightarrow> (json \<Rightarrow> string) \<Rightarrow> env \<Rightarrow> string \<Rightarrow> market_event \<Rightarrow> lifecycle \<Rightarrow> unit res \<times> lifecycle"
where
  "on_order D H S env now e lc =
     (let session = event_session e in
      pure_then (order_intent_of H S now e lc) (\<lambda>(client, intent).
        and_then (call_open D H (env 0) intent session lc) (\<lambda>od lc.
        let lc = lc\<lparr>lc_canonical_ids := AList.update client (ord_order_id od) (lc_canonical_ids lc),
                    lc_sessions := AList.update client session (lc_sessions lc)\<rparr> in
        and_then (call_event D (env 1) (ord_order_id od) Ev_RISK_APPROVED session None None lc) (\<lambda>_ lc.
        and_then (call_event D (env 2) (ord_order_id od) Ev_SUBMITTED session None None lc) (\<lambda>_ lc.
          (Inr (), lc))))) lc)"

definition resolve :: "(json \<Rightarrow> string) \<Rightarrow> market_event \<Rightarrow> lifecycle \<Rightarrow> (string \<times> string \<times> string) res" where
  "resolve S e lc =
     res_bind (required_str S e ''clientOrderId'') (\<lambda>client.
       case map_of (lc_canonical_ids lc) client of
         None \<Rightarrow> Inl UnroutableEvent
       | Some oid \<Rightarrow>
           (case map_of (lc_sessions lc) client of None \<Rightarrow> Inl KeyError | Some session \<Rightarrow> Inr (client, oid, session)))"

definition on_callback ::
    "chain_digest \<Rightarrow> (json \<Rightarrow> string) \<Rightarrow> env \<Rightarrow> market_event \<Rightarrow> lifecycle \<Rightarrow> unit res \<times> lifecycle" where
  "on_callback D S env e lc =
     pure_then (res_bind (resolve S e lc) (\<lambda>(client, oid, session).
         res_bind (required_str S e ''status'') (\<lambda>status.
         case map_of CALLBACK_EVENTS (upper status) of
           None \<Rightarrow> Inl MissingEventField
         | Some t \<Rightarrow>
             res_bind (res_bind (jget (JObj (me_payload e)) ''reason'') json_opt_str) (\<lambda>reason.
               Inr (oid, session, t, reason)))))
       (\<lambda>(oid, session, t, reason).
         and_then (call_event D (env 0) oid t session None reason lc) (\<lambda>_ lc. (Inr (), lc))) lc"

text \<open>\<open>a or b\<close> on optional prices: a price of zero is falsy.\<close>

definition or_price :: "rat option \<Rightarrow> rat option \<Rightarrow> rat option" where
  "or_price a b = (case a of None \<Rightarrow> b | Some x \<Rightarrow> if x = 0 then b else Some x)"

definition lifecycle_fill ::
    "(json \<Rightarrow> string) \<Rightarrow> market_event \<Rightarrow> lifecycle \<Rightarrow> (string \<times> string \<times> order_event_type \<times> fill) res" where
  "lifecycle_fill S e lc =
     res_bind (resolve S e lc) (\<lambda>(client, oid, session).
     res_bind (state_of (lc_book lc) oid) (\<lambda>od.
     res_bind (required_str S e ''executionId'') (\<lambda>execution_id.
     res_bind (res_bind (required e ''quantity'') json_int) (\<lambda>quantity.
     res_bind (res_bind (required e ''price'') json_float) (\<lambda>price.
     res_bind (get_float_default (JObj (me_payload e)) ''commission'' 0) (\<lambda>commission.
     res_bind (get_float_default (JObj (me_payload e)) ''stampDuty'' 0) (\<lambda>stamp_duty.
     res_bind (get_float_default (JObj (me_payload e)) ''transferFee'' 0) (\<lambda>transfer_fee.
     let f = \<lparr>fill_execution_id = execution_id, fill_order_id = oid, fill_symbol = ord_symbol od,
              fill_side = ord_side od, fill_quantity = quantity, fill_price = price,
              fill_reference_price = or_price (ord_limit_price od) (ord_reference_price od),
              fill_commission = commission, fill_stamp_duty = stamp_duty, fill_transfer_fee = transfer_fee,
              fill_filled_at = moment_isoformat (et_event_time (me_times e)),
              fill_lineage = (ord_lineage od)(Execution_id := Some execution_id)\<rparr>;
         total_quantity = cumulative_quantity od + quantity
     in Inr (oid, session, if ord_quantity od \<le> total_quantity then Ev_FILL else Ev_PARTIAL_FILL, f)))))))))"

definition on_fill ::
    "chain_digest \<Rightarrow> (json \<Rightarrow> string) \<Rightarrow> env \<Rightarrow> market_event \<Rightarrow> lifecycle \<Rightarrow> unit res \<times> lifecycle" where
  "on_fill D S env e lc =
     pure_then (lifecycle_fill S e lc) (\<lambda>(oid, session, t, f).
       and_then (call_event D (env 0) oid t session (Some f) None lc) (\<lambda>_ lc. (Inr (), lc))) lc"

text \<open>\<open>str(event.payload.get("reason") or default)\<close>.\<close>

definition reason_or :: "(json \<Rightarrow> string) \<Rightarrow> market_event \<Rightarrow> string \<Rightarrow> string" where
  "reason_or S e fallback = (case map_of (me_payload e) ''reason'' of
       None \<Rightarrow> fallback
     | Some v \<Rightarrow> if truthy v then py_str S v else fallback)"

definition on_cancel ::
    "chain_digest \<Rightarrow> (json \<Rightarrow> string) \<Rightarrow> env \<Rightarrow> market_event \<Rightarrow> lifecycle \<Rightarrow> unit res \<times> lifecycle" where
  "on_cancel D S env e lc =
     pure_then (res_bind (resolve S e lc) (\<lambda>(client, oid, session).
         res_bind (state_of (lc_book lc) oid) (\<lambda>od. Inr (oid, session, od))))
       (\<lambda>(oid, session, od).
         if is_terminal od then (Inr (), lc)
         else
           and_then (call_event D (env 0) oid Ev_CANCEL_REQUESTED session None None lc) (\<lambda>_ lc.
           and_then (call_event D (env 1) oid Ev_CANCELLED session None (Some (reason_or S e ''operator_cancel'')) lc)
             (\<lambda>_ lc. (Inr (), lc)))) lc"

definition on_expiry ::
    "chain_digest \<Rightarrow> (json \<Rightarrow> string) \<Rightarrow> env \<Rightarrow> market_event \<Rightarrow> lifecycle \<Rightarrow> unit res \<times> lifecycle" where
  "on_expiry D S env e lc =
     pure_then (res_bind (resolve S e lc) (\<lambda>(client, oid, session).
         res_bind (state_of (lc_book lc) oid) (\<lambda>od. Inr (oid, session, od))))
       (\<lambda>(oid, session, od).
         if is_terminal od then (Inr (), lc)
         else and_then (call_event D (env 0) oid Ev_EXPIRED session None (Some (reason_or S e ''end_of_session'')) lc)
           (\<lambda>_ lc. (Inr (), lc))) lc"

definition lc_handle ::
    "chain_digest \<Rightarrow> digest \<Rightarrow> (json \<Rightarrow> string) \<Rightarrow> env \<Rightarrow> string \<Rightarrow> market_event \<Rightarrow> lifecycle \<Rightarrow> unit res \<times> lifecycle"
where
  "lc_handle D H S env now e lc =
     (let counted = (\<lambda>r. and_then r (\<lambda>_ lc. (Inr (), lc\<lparr>lc_handled := lc_handled lc + 1\<rparr>))) in
      case me_kind e of
        K_ORDER \<Rightarrow> counted (on_order D H S env now e lc)
      | K_VENUE_CALLBACK \<Rightarrow> counted (on_callback D S env e lc)
      | K_FILL \<Rightarrow> counted (on_fill D S env e lc)
      | K_CANCEL \<Rightarrow> counted (on_cancel D S env e lc)
      | K_EXPIRY \<Rightarrow> counted (on_expiry D S env e lc)
      | _ \<Rightarrow> (Inr (), lc))"

section \<open>Projections\<close>

text \<open>A durable ledger is read again from its file, whose lines are \<open>file\<close>.\<close>

definition lc_source :: "(string \<Rightarrow> json option) \<Rightarrow> string list \<Rightarrow> lifecycle \<Rightarrow> ledger res" where
  "lc_source loads file lc =
     (if led_durable (lc_ledger lc) then load_lines loads file (new_ledger True) else Inr (lc_ledger lc))"

definition lc_account ::
    "chain_digest \<Rightarrow> digest \<Rightarrow> (nat \<Rightarrow> string) \<Rightarrow> (string \<Rightarrow> json option) \<Rightarrow> string list \<Rightarrow> lifecycle \<Rightarrow> account_state res"
where
  "lc_account D H clock loads file lc =
     res_bind (lc_source loads file lc) (\<lambda>source.
       res_bind (replay D H clock (lc_initial_cash lc) source) (\<lambda>r. Inr (snd r)))"

definition lc_order_book ::
    "chain_digest \<Rightarrow> digest \<Rightarrow> (nat \<Rightarrow> string) \<Rightarrow> (string \<Rightarrow> json option) \<Rightarrow> string list \<Rightarrow> lifecycle \<Rightarrow> order_book res"
where
  "lc_order_book D H clock loads file lc = res_bind (lc_source loads file lc) (replay_book D H clock)"

definition status_of :: "lifecycle \<Rightarrow> string \<Rightarrow> order_status res" where
  "status_of lc client = (case map_of (lc_canonical_ids lc) client of
       None \<Rightarrow> Inl KeyError
     | Some oid \<Rightarrow> res_bind (state_of (lc_book lc) oid) (\<lambda>od. Inr (ord_status od)))"

definition new_lifecycle :: "ledger \<Rightarrow> lineage \<Rightarrow> rat \<Rightarrow> lifecycle" where
  "new_lifecycle led L cash = \<lparr>lc_book = empty_book, lc_ledger = led, lc_lineage = L,
     lc_initial_cash = cash, lc_canonical_ids = [], lc_sessions = [], lc_handled = 0\<rparr>"

end
