(* ===== verification/Lifecycle_Props.thy ===== *)
theory Lifecycle_Props
  imports Lifecycle Ledger_Props
begin

text \<open>
  The lifecycle consumer keeps no state of its own: after any events, raising ones included, its
  ledger replays its book.
\<close>

definition env_ok :: "env \<Rightarrow> bool" where
  "env_ok env \<longleftrightarrow> (\<forall>n. fst (env n))"

definition lc_mirrored ::
    "chain_digest \<Rightarrow> digest \<Rightarrow> (nat \<Rightarrow> string) \<Rightarrow> lifecycle \<Rightarrow> bool" where
  "lc_mirrored D H clock lc \<longleftrightarrow> mirrored D H clock (lc_book lc, lc_ledger lc) \<and> no_empty_field (lc_lineage lc)
     \<and> \<not> led_durable (lc_ledger lc)"

lemma append_durable: "led_durable (snd (append D ok now event td intent ca led)) = led_durable led"
  by (simp add: append_cases Let_def)

lemma mirror_durable:
  "led_durable (snd (snd (mirror_open D H ok now now' i td p (b, led)))) = led_durable led"
  "led_durable (snd (snd (mirror_event D ok now now' oid t td f reason rd (b, led)))) = led_durable led"
proof -
  have "append D ok now event td intent ca led = (r, led') \<Longrightarrow> led_durable led' = led_durable led"
    for event td intent ca r led' and now :: string
    using append_durable [of D ok now event td intent ca led] by simp
  then show "led_durable (snd (snd (mirror_open D H ok now now' i td p (b, led)))) = led_durable led"
    "led_durable (snd (snd (mirror_event D ok now now' oid t td f reason rd (b, led)))) = led_durable led"
    by (auto simp: mirror_open_def mirror_event_def Let_def split: prod.split sum.split)
qed

lemma call_open_mirrored:
  assumes "lc_mirrored D H clock lc" "fst a" "no_empty_field (oi_lineage i)"
  shows "lc_mirrored D H clock (snd (call_open D H a i session lc))"
proof -
  obtain ok now now' where a: "a = (ok, now, now')" by (cases a)
  have "mirrored D H clock (snd (mirror_open D H True now now' i (Some session) None (lc_book lc, lc_ledger lc)))"
    using assms by (intro mirrored_open) (simp_all add: lc_mirrored_def)
  with assms mirror_durable(1) [of D H True now now' i "Some session" None "lc_book lc" "lc_ledger lc"] show ?thesis
    by (auto simp: call_open_def a lc_mirrored_def split: prod.splits)
qed

lemma call_event_mirrored:
  assumes "lc_mirrored D H clock lc" "fst a" "pred_option storable_fill f"
  shows "lc_mirrored D H clock (snd (call_event D a oid t session f reason lc))"
proof -
  obtain ok now now' where a: "a = (ok, now, now')" by (cases a)
  have "mirrored D H clock (snd (mirror_event D True now now' oid t (Some session) f reason None (lc_book lc, lc_ledger lc)))"
    using assms by (intro mirrored_event) (simp_all add: lc_mirrored_def)
  with assms mirror_durable(2) [of D True now now' oid t "Some session" f reason None "lc_book lc" "lc_ledger lc"] show ?thesis
    by (auto simp: call_event_def a lc_mirrored_def split: prod.splits)
qed

lemma intent_lineage:
  assumes "order_intent_of H S now e lc = Inr (client, i)" "no_empty_field (lc_lineage lc)"
  shows "no_empty_field (oi_lineage i)"
  using assms
  by (auto simp: order_intent_of_def OrderIntent_create_def Signal_create_def res_bind_Inr_iff Let_def
      no_empty_field_update split: if_splits)

lemma fill_lineage_ok:
  assumes "lifecycle_fill S e lc = Inr (oid, session, t, f)" "lc_mirrored D H clock lc"
    and "required_str S e ''executionId'' \<noteq> Inr []"
  shows "storable_fill f"
proof -
  from assms(1) obtain od x where od: "state_of (lc_book lc) oid = Inr od"
    and x: "required_str S e ''executionId'' = Inr x"
    and f: "fill_lineage f = (ord_lineage od)(Execution_id := Some x)"
    by (auto simp: lifecycle_fill_def res_bind_Inr_iff Let_def)
  have "no_empty_field (ord_lineage od)"
    using assms(2) od by (auto simp: lc_mirrored_def mirrored_def state_of_Inr)
  with f x assms(3) show ?thesis by (simp add: storable_fill_def no_empty_field_update)
qed

definition identified :: "(json \<Rightarrow> string) \<Rightarrow> market_event \<Rightarrow> bool" where
  "identified S e \<longleftrightarrow> (me_kind e = K_FILL \<longrightarrow> required_str S e ''executionId'' \<noteq> Inr [])"

lemma lc_mirrored_table [simp]:
  "lc_mirrored D H clock (lc\<lparr>lc_canonical_ids := a, lc_sessions := b\<rparr>) = lc_mirrored D H clock lc"
  "lc_mirrored D H clock (lc\<lparr>lc_handled := n\<rparr>) = lc_mirrored D H clock lc"
  by (simp_all add: lc_mirrored_def)

lemma handle_mirrored:
  assumes m: "lc_mirrored D H clock lc" and env: "env_ok env" and e: "identified S e"
  shows "lc_mirrored D H clock (snd (lc_handle D H S env now e lc))"
proof -
  let ?P = "lc_mirrored D H clock"
  have env': "fst (env n)" for n using env by (simp add: env_ok_def)
  have count: "?P (snd r) \<Longrightarrow> ?P (snd (and_then r (\<lambda>_ lc. (Inr (), lc\<lparr>lc_handled := Suc (lc_handled lc)\<rparr>))))" for r
    by (rule and_then_cases) simp_all
  have order: "?P (snd (on_order D H S env now e lc))"
    unfolding on_order_def Let_def
    by (rule pure_then_cases [of ?P, OF m])
      (auto intro!: and_then_cases [of ?P] call_open_mirrored call_event_mirrored intro: intent_lineage
        simp: m env' lc_mirrored_def [THEN iffD1, OF m, THEN conjunct2] split: prod.split)
  have callback: "?P (snd (on_callback D S env e lc))"
    unfolding on_callback_def
    by (rule pure_then_cases [of ?P, OF m])
      (auto intro!: and_then_cases [of ?P] call_event_mirrored simp: m env' split: prod.split)
  have cancel: "?P (snd (on_cancel D S env e lc))"
    unfolding on_cancel_def
    by (rule pure_then_cases [of ?P, OF m])
      (auto intro!: and_then_cases [of ?P] call_event_mirrored simp: m env' split: prod.split)
  have expiry: "?P (snd (on_expiry D S env e lc))"
    unfolding on_expiry_def
    by (rule pure_then_cases [of ?P, OF m])
      (auto intro!: and_then_cases [of ?P] call_event_mirrored simp: m env' split: prod.split)
  have fill: "?P (snd (on_fill D S env e lc))" if "me_kind e = K_FILL"
    unfolding on_fill_def
    by (rule pure_then_cases [of ?P, OF m])
      (use that e in \<open>auto intro!: and_then_cases [of ?P] call_event_mirrored intro: fill_lineage_ok [OF _ m]
        simp: m env' identified_def split: prod.split\<close>)
  show ?thesis
    by (cases "me_kind e") (simp_all add: lc_handle_def Let_def m count order callback cancel expiry fill)
qed

definition lc_run ::
    "chain_digest \<Rightarrow> digest \<Rightarrow> (json \<Rightarrow> string) \<Rightarrow> lifecycle \<Rightarrow> (env \<times> string \<times> market_event) list \<Rightarrow> lifecycle" where
  "lc_run D H S = foldl (\<lambda>lc (env, now, e). snd (lc_handle D H S env now e lc))"

lemma run_mirrored:
  "lc_mirrored D H clock lc \<Longrightarrow> \<forall>(env, now, e) \<in> set events. env_ok env \<and> identified S e \<Longrightarrow>
     lc_mirrored D H clock (lc_run D H S lc events)"
proof (induction events arbitrary: lc)
  case Nil
  then show ?case by (simp add: lc_run_def)
next
  case (Cons x events)
  obtain env now e where x: "x = (env, now, e)" by (cases x)
  have "lc_mirrored D H clock (snd (lc_handle D H S env now e lc))"
    using Cons.prems x by (intro handle_mirrored) auto
  from Cons.IH [OF this] Cons.prems x show ?case by (simp add: lc_run_def)
qed

text \<open>C21. The lifecycle holds no second record: after any market events in any order, raising ones
  included, with an in-memory ledger whose writes succeed and fills that carry an execution id, the order
  book read back from the ledger is the live book up to order prices and event times, and the ledger's
  events are the book's.\<close>

theorem lifecycle_replays_book:
  assumes "\<forall>(env, now, e) \<in> set events. env_ok env \<and> identified S e" "no_empty_field L"
  shows "let lc = lc_run D H S (new_lifecycle (new_ledger False) L cash) events in
    ledger_events (lc_ledger lc) = bk_events (lc_book lc)
    \<and> (\<exists>b. lc_order_book D H clock loads file lc = Inr b \<and> erase_book b = erase_book (lc_book lc))"
proof -
  let ?lc = "lc_run D H S (new_lifecycle (new_ledger False) L cash) events"
  have "lc_mirrored D H clock (new_lifecycle (new_ledger False) L cash)"
    by (simp add: lc_mirrored_def new_lifecycle_def mirrored_new assms(2)) (simp add: new_ledger_def)
  from run_mirrored [OF this assms(1)] have m: "mirrored D H clock (lc_book ?lc, lc_ledger ?lc)"
      and nd: "\<not> led_durable (lc_ledger ?lc)"
    by (simp_all add: lc_mirrored_def)
  from mirrored_replay [OF m] obtain b where "replay_book D H clock (lc_ledger ?lc) = Inr b"
      "erase_book b = erase_book (lc_book ?lc)" .
  with m nd show ?thesis by (auto simp: mirrored_def lc_order_book_def lc_source_def Let_def)
qed

section \<open>A run\<close>

definition lc_event :: "event_kind \<Rightarrow> (string, json) dict \<Rightarrow> market_event" where
  "lc_event k payload = \<lparr>me_kind = k, me_times = plain_times (session_open 19724) (session_open 19724),
     me_symbol = Some ''600000.SH'', me_sequence = 0, me_payload = payload, me_lineage = no_lineage,
     me_event_id = ''e''\<rparr>"

definition good_env :: env where
  "good_env n = (True, ''t'', ''t'')"

definition lc_events :: "(env \<times> string \<times> market_event) list" where
  "lc_events = map (\<lambda>e. (good_env, ''t'', e))
     [lc_event K_ORDER [(''clientOrderId'', JStr ''c1''), (''side'', JStr ''buy''), (''quantity'', JInt 100)],
      lc_event K_FILL [(''clientOrderId'', JStr ''c2''), (''executionId'', JStr ''x'')],
      lc_event K_VENUE_CALLBACK [(''clientOrderId'', JStr ''c1''), (''status'', JStr ''accepted'')],
      lc_event K_FILL [(''clientOrderId'', JStr ''c1''), (''executionId'', JStr ''x''),
        (''quantity'', JInt 100), (''price'', JNum 10)],
      lc_event K_CANCEL [(''clientOrderId'', JStr ''c1'')]]"

theorem lifecycle_replays_book_witness:
  "\<exists>b. lc_order_book sample_chain sample_digest (\<lambda>n. ''r'') (\<lambda>_. None) []
      (lc_run sample_chain sample_digest (\<lambda>_. []) (new_lifecycle (new_ledger False) no_lineage 10000) lc_events) = Inr b"
proof -
  have "\<forall>(env, now, e) \<in> set lc_events. env_ok env \<and> identified (\<lambda>_. []) e"
    by (simp add: lc_events_def env_ok_def good_env_def identified_def lc_event_def required_str_def
        required_def py_str_def)
  from lifecycle_replays_book [OF this, of no_lineage] show ?thesis
    by (simp add: no_empty_field_def no_lineage_def Let_def) blast
qed

end
