(* ===== verification/Market_Rules.thy ===== *)
theory Market_Rules
  imports Timeline
begin

text \<open>
  The A-share trading rules of \<open>src/src/quantagent/market_rules/ashare.py\<close>: boards, dated price
  bands, costs, lot rounding, the execution price and tradability.  A date argument is the day number
  after \<open>_as_date\<close>, \<open>None\<close> for a value that is no date.
\<close>

section \<open>Boards\<close>

definition SH_MAIN :: string where "SH_MAIN = ''SH_Main''"
definition SZ_MAIN :: string where "SZ_MAIN = ''SZ_Main''"
definition CHINEXT :: string where "CHINEXT = ''ChiNext''"
definition STAR :: string where "STAR = ''STAR''"
definition BSE :: string where "BSE = ''BSE''"

lemmas board_defs = SH_MAIN_def SZ_MAIN_def CHINEXT_def STAR_def BSE_def

definition BOARDS :: "string list" where
  "BOARDS = [SH_MAIN, SZ_MAIN, CHINEXT, STAR, BSE]"

definition starts_with :: "string list \<Rightarrow> string \<Rightarrow> bool" where
  "starts_with ps s \<longleftrightarrow> list_ex (\<lambda>p. take (length p) s = p) ps"

definition ends_with :: "string \<Rightarrow> string \<Rightarrow> bool" where
  "ends_with p s \<longleftrightarrow> length p \<le> length s \<and> drop (length s - length p) s = p"

definition exchange_board_for_symbol :: "string \<Rightarrow> string" where
  "exchange_board_for_symbol symbol =
     (let text = upper (strip symbol); code = takeWhile (\<lambda>c. c \<noteq> CHR ''.'') text in
      if ends_with ''.BJ'' text \<or> starts_with [''8'', ''4'', ''920''] code then BSE
      else if starts_with [''688'', ''689''] code then STAR
      else if starts_with [''300'', ''301'', ''302''] code then CHINEXT
      else if ends_with ''.SZ'' text \<or> starts_with [''000'', ''001'', ''002'', ''003''] code then SZ_MAIN
      else SH_MAIN)"

section \<open>Price bands\<close>

definition ORDINARY_LIMIT :: "(string, rat) dict" where
  "ORDINARY_LIMIT = [(SH_MAIN, 1/10), (SZ_MAIN, 1/10), (CHINEXT, 1/5), (STAR, 1/5), (BSE, 3/10)]"

definition CHINEXT_REGISTRATION_REFORM :: int where
  "CHINEXT_REGISTRATION_REFORM = date_of 2020 8 24"

definition CHINEXT_LEGACY_LIMIT :: rat where "CHINEXT_LEGACY_LIMIT = 1/10"
definition CHINEXT_LEGACY_ST_LIMIT :: rat where "CHINEXT_LEGACY_ST_LIMIT = 1/20"

definition MAIN_BOARD_ST_LIMIT_REFORM :: int where
  "MAIN_BOARD_ST_LIMIT_REFORM = date_of 2026 7 6"

definition ST_LIMIT_LEGACY :: "(string, rat) dict" where
  "ST_LIMIT_LEGACY = [(SH_MAIN, 1/20), (SZ_MAIN, 1/20), (CHINEXT, 1/5), (STAR, 1/5), (BSE, 3/10)]"

definition ST_LIMIT_CURRENT :: "(string, rat) dict" where
  "ST_LIMIT_CURRENT = [(SH_MAIN, 1/10), (SZ_MAIN, 1/10), (CHINEXT, 1/5), (STAR, 1/5), (BSE, 3/10)]"

definition IPO_UNLIMITED_DAYS :: "(string, int) dict" where
  "IPO_UNLIMITED_DAYS = [(SH_MAIN, 5), (SZ_MAIN, 5), (CHINEXT, 5), (STAR, 5), (BSE, 1)]"

definition REGISTRATION_SYSTEM_MAIN_BOARD :: int where
  "REGISTRATION_SYSTEM_MAIN_BOARD = date_of 2023 4 10"

definition LEGACY_IPO_UP :: rat where "LEGACY_IPO_UP = 44/100"
definition LEGACY_IPO_DOWN :: rat where "LEGACY_IPO_DOWN = -36/100"

record price_band =
  pb_limit_up :: "rat option"
  pb_limit_down :: "rat option"
  pb_ratio :: "rat option"
  pb_regime :: string
  pb_reference_close :: rat

definition unlimited :: "price_band \<Rightarrow> bool" where
  "unlimited p \<longleftrightarrow> pb_limit_up p = None"

definition round_tick :: "rat \<Rightarrow> rat" where
  "round_tick value = round_dec 2 (value + 1 / 10 ^ 12)"

definition chinext_pre_reform :: "string \<Rightarrow> int option \<Rightarrow> bool" where
  "chinext_pre_reform board day \<longleftrightarrow> board = CHINEXT \<and>
     (case day of None \<Rightarrow> False | Some d \<Rightarrow> d < CHINEXT_REGISTRATION_REFORM)"

definition ordinary_limit_ratio :: "string \<Rightarrow> int option \<Rightarrow> rat option" where
  "ordinary_limit_ratio board day =
     (if chinext_pre_reform board day then Some CHINEXT_LEGACY_LIMIT else map_of ORDINARY_LIMIT board)"

definition st_limit_ratio :: "string \<Rightarrow> int option \<Rightarrow> rat option res" where
  "st_limit_ratio board day =
     (if chinext_pre_reform board day then Inr (Some CHINEXT_LEGACY_ST_LIMIT)
      else if board = SH_MAIN \<or> board = SZ_MAIN then
        (case day of
           None \<Rightarrow> Inl ValueError
         | Some d \<Rightarrow> Inr (map_of (if MAIN_BOARD_ST_LIMIT_REFORM \<le> d then ST_LIMIT_CURRENT else ST_LIMIT_LEGACY) board))
      else Inr (map_of ST_LIMIT_CURRENT board))"

definition no_band :: "string \<Rightarrow> rat \<Rightarrow> price_band" where
  "no_band regime close = \<lparr>pb_limit_up = None, pb_limit_down = None, pb_ratio = None,
     pb_regime = regime, pb_reference_close = close\<rparr>"

text \<open>The part after the listing window: the band of the ratio.\<close>

definition ratio_band :: "string \<Rightarrow> rat \<Rightarrow> int option \<Rightarrow> bool \<Rightarrow> price_band res" where
  "ratio_band board previous_close day is_st =
     res_bind (if is_st then st_limit_ratio board day else Inr (ordinary_limit_ratio board day)) (\<lambda>ratio.
       case ratio of
         None \<Rightarrow> Inr (no_band ''UNKNOWN_BOARD'' previous_close)
       | Some r \<Rightarrow> Inr
           \<lparr>pb_limit_up = Some (round_tick (previous_close * (1 + r))),
            pb_limit_down = Some (round_tick (previous_close * (1 - r))),
            pb_ratio = Some r, pb_regime = (if is_st then ''ST_BAND'' else ''ORDINARY''),
            pb_reference_close = previous_close\<rparr>)"

definition price_limits :: "string \<Rightarrow> rat \<Rightarrow> int option \<Rightarrow> int option \<Rightarrow> bool \<Rightarrow> price_band res" where
  "price_limits board previous_close day sessions_since_listing is_st =
     (case sessions_since_listing of
        Some n \<Rightarrow>
          (if n < dict_get IPO_UNLIMITED_DAYS board 0 then
             let main_board = (board = SH_MAIN \<or> board = SZ_MAIN);
                 approval_system = (main_board \<and>
                     (case day of None \<Rightarrow> False | Some d \<Rightarrow> d < REGISTRATION_SYSTEM_MAIN_BOARD))
                   \<or> chinext_pre_reform board day
             in if \<not> approval_system then Inr (no_band ''IPO_NO_LIMIT_WINDOW'' previous_close)
                else if n = 0 then Inr
                  \<lparr>pb_limit_up = Some (round_tick (previous_close * (1 + LEGACY_IPO_UP))),
                   pb_limit_down = Some (round_tick (previous_close * (1 + LEGACY_IPO_DOWN))),
                   pb_ratio = Some LEGACY_IPO_UP, pb_regime = ''IPO_LEGACY_APPROVAL_SYSTEM'',
                   pb_reference_close = previous_close\<rparr>
                else ratio_band board previous_close day is_st
           else ratio_band board previous_close day is_st)
      | None \<Rightarrow> ratio_band board previous_close day is_st)"

section \<open>Costs\<close>

definition STAMP_DUTY_CURRENT :: rat where "STAMP_DUTY_CURRENT = 5 / 10000"
definition STAMP_DUTY_LEGACY :: rat where "STAMP_DUTY_LEGACY = 1 / 1000"
definition STAMP_DUTY_HALVED_FROM :: int where "STAMP_DUTY_HALVED_FROM = date_of 2023 8 28"
definition TRANSFER_FEE :: rat where "TRANSFER_FEE = 1 / 100000"
definition DEFAULT_COMMISSION_RATE :: rat where "DEFAULT_COMMISSION_RATE = 25 / 100000"
definition COMMISSION_MINIMUM_CNY :: rat where "COMMISSION_MINIMUM_CNY = 5"

definition stamp_duty_rate :: "int option \<Rightarrow> rat" where
  "stamp_duty_rate day = (case day of
       None \<Rightarrow> STAMP_DUTY_CURRENT
     | Some d \<Rightarrow> if STAMP_DUTY_HALVED_FROM \<le> d then STAMP_DUTY_CURRENT else STAMP_DUTY_LEGACY)"

record trading_cost =
  tc_commission :: rat
  tc_stamp_duty :: rat
  tc_transfer_fee :: rat

definition tc_total :: "trading_cost \<Rightarrow> rat" where
  "tc_total c = tc_commission c + tc_stamp_duty c + tc_transfer_fee c"

definition trading_costs :: "rat \<Rightarrow> string \<Rightarrow> int option \<Rightarrow> rat \<Rightarrow> rat \<Rightarrow> trading_cost" where
  "trading_costs notional_cny sd day commission_rate commission_minimum =
     (let notional = \<bar>notional_cny\<bar> in
      \<lparr>tc_commission = (if notional \<noteq> 0 then max (notional * commission_rate) commission_minimum else 0),
       tc_stamp_duty = (if upper sd = ''SELL'' then notional * stamp_duty_rate day else 0),
       tc_transfer_fee = notional * TRANSFER_FEE\<rparr>)"

section \<open>Quantities\<close>

definition LOT_RULES :: "(string, int \<times> int) dict" where
  "LOT_RULES = [(SH_MAIN, (100, 100)), (SZ_MAIN, (100, 100)), (CHINEXT, (100, 100)), (STAR, (200, 1)),
     (BSE, (100, 1))]"

definition MAX_ORDER_QUANTITY :: "(string, (string, int) dict) dict" where
  "MAX_ORDER_QUANTITY = [(STAR, [(''LIMIT'', 100000), (''MARKET'', 50000)]),
     (BSE, [(''LIMIT'', 1000000), (''MARKET'', 1000000)])]"

definition max_order_quantity :: "string \<Rightarrow> string \<Rightarrow> int option" where
  "max_order_quantity board order_type = map_of (dict_get MAX_ORDER_QUANTITY board []) (upper order_type)"

definition round_to_lot :: "rat \<Rightarrow> string \<Rightarrow> string \<Rightarrow> bool \<Rightarrow> int" where
  "round_to_lot shares board sd is_full_liquidation =
     (let (minimum, increment) = dict_get LOT_RULES board (100, 100) in
      if shares \<le> 0 then 0
      else let nearest = round_half_even shares;
               whole_shares = (if \<bar>shares - of_int nearest\<bar> \<le> 1 / 10 ^ 9 then nearest else py_int shares)
           in if whole_shares \<le> 0 then 0
              else if upper sd = ''SELL'' \<and> is_full_liquidation then whole_shares
              else if whole_shares < minimum then 0
              else minimum + ((whole_shares - minimum) div increment) * increment)"

section \<open>Execution price\<close>

text \<open>\<open>power_half\<close> stands for the floating-point power \<open>x ** 0.5\<close>.\<close>

definition execution_price ::
    "(rat \<Rightarrow> rat) \<Rightarrow> rat \<Rightarrow> string \<Rightarrow> rat \<Rightarrow> rat \<Rightarrow> rat \<Rightarrow> rat \<Rightarrow> price_band option \<Rightarrow> rat option \<Rightarrow> rat" where
  "execution_price power_half last_price sd quantity session_volume slippage_bps impact_coefficient limits limit_price =
     (let slippage = last_price * (slippage_bps / 10000);
          participation = (if 0 < session_volume then quantity / session_volume else 0);
          impact = last_price * impact_coefficient * power_half participation;
          adjustment = slippage + impact;
          buying = (upper sd = ''BUY'');
          price = (if buying then last_price + adjustment else last_price - adjustment);
          price = (case limits of
              None \<Rightarrow> price
            | Some p \<Rightarrow>
                if unlimited p then price
                else let price = (case pb_limit_up p of None \<Rightarrow> price | Some u \<Rightarrow> min price u)
                     in (case pb_limit_down p of None \<Rightarrow> price | Some d \<Rightarrow> max price d));
          price = (case limit_price of
              None \<Rightarrow> price
            | Some l \<Rightarrow> if buying then min price l else max price l)
      in round_dec 2 price)"

section \<open>Tradability\<close>

datatype block_reason = Suspended | Locked_limit_up | Locked_limit_down | Delisting | T_plus_1

record tradability_verdict =
  tv_can_buy :: bool
  tv_can_sell :: bool
  tv_reasons :: "block_reason list"

definition tradability :: "bool \<Rightarrow> bool \<Rightarrow> bool \<Rightarrow> bool \<Rightarrow> bool \<Rightarrow> tradability_verdict" where
  "tradability is_suspended at_limit_up at_limit_down is_delisting_period holding_acquired_today =
     \<lparr>tv_can_buy = \<not> is_suspended \<and> \<not> at_limit_up \<and> \<not> is_delisting_period,
      tv_can_sell = \<not> is_suspended \<and> \<not> at_limit_down \<and> \<not> holding_acquired_today,
      tv_reasons = (if is_suspended then [Suspended] else [])
        @ (if at_limit_up then [Locked_limit_up] else [])
        @ (if at_limit_down then [Locked_limit_down] else [])
        @ (if is_delisting_period then [Delisting] else [])
        @ (if holding_acquired_today then [T_plus_1] else [])\<rparr>"

end
