(* ===== verification/Market_Props.thy ===== *)
theory Market_Props
  imports Market_Rules
begin

text \<open>
  What the market rules promise: the band contains the reference close, lot rounding gives the
  largest legal quantity, one order is never dearer than two, and an execution price stays in the
  band and at the limit.
\<close>

section \<open>Bands\<close>

definition on_tick :: "rat \<Rightarrow> bool" where
  "on_tick x \<longleftrightarrow> of_int \<lfloor>x * 100\<rfloor> = x * 100"

lemma on_tickE:
  assumes "on_tick x" obtains k where "x = of_int k / 100"
proof -
  from assms have "x = of_int \<lfloor>x * 100\<rfloor> / 100" unfolding on_tick_def by linarith
  then show thesis by (rule that)
qed

lemma on_tickI [simp]: "on_tick (of_int k / 100)"
  by (simp add: on_tick_def)

lemma on_tick_round: "on_tick x \<Longrightarrow> round_dec 2 x = x"
proof (erule on_tickE)
  fix k assume x: "x = of_int k / 100"
  show "round_dec 2 x = x" unfolding x using round_dec_exact [of 2 k] by (simp only: power2_eq_square) simp
qed

lemma on_tick_round_dec: "on_tick (round_dec 2 x)"
  using on_tickI [of "round_half_even (x * 10 ^ 2)"] by (simp add: round_dec_def)

lemma round_tick_on_tick: "on_tick x \<Longrightarrow> round_tick x = x"
proof (erule on_tickE)
  fix k assume x: "x = of_int k / 100"
  have "\<lfloor>of_int k + 1 / 10 ^ 10 :: rat\<rfloor> = k" by (rule floor_unique) simp_all
  then have "round_half_even (of_int k + 1 / 10 ^ 10 :: rat) = k"
    by (simp add: round_half_even_def Let_def)
  moreover have "(x + 1 / 10 ^ 12) * 10 ^ 2 = of_int k + 1 / 10 ^ 10"
    by (simp add: x algebra_simps)
  ultimately have "round_tick x = of_int k / 10 ^ 2"
    by (simp only: round_tick_def round_dec_def)
  with x show "round_tick x = x" by simp
qed

lemma round_tick_mono: "x \<le> y \<Longrightarrow> round_tick x \<le> round_tick y"
  by (simp add: round_tick_def round_dec_mono)

lemma ratio_range:
  assumes "st_limit_ratio board day = Inr (Some r) \<or> ordinary_limit_ratio board day = Some r"
  shows "0 \<le> r \<and> r < 1"
  using assms
  by (auto simp: st_limit_ratio_def ordinary_limit_ratio_def ORDINARY_LIMIT_def ST_LIMIT_CURRENT_def
      ST_LIMIT_LEGACY_def CHINEXT_LEGACY_LIMIT_def CHINEXT_LEGACY_ST_LIMIT_def board_defs
      split: if_splits option.splits)

lemma price_limits_cases:
  assumes "price_limits board close day n st = Inr p" "pb_limit_up p = Some u" "pb_limit_down p = Some d"
  obtains a b where "u = round_tick (close * (1 + a))" "d = round_tick (close * (1 - b))"
    "0 \<le> a" "a < 1" "0 \<le> b" "b < 1"
proof -
  note * = that
  have ratio: thesis if "ratio_band board close day st = Inr p"
  proof -
    from that obtain x where x: "(if st then st_limit_ratio board day else Inr (ordinary_limit_ratio board day)) = Inr x"
      and p: "(case x of None \<Rightarrow> Inr (no_band ''UNKNOWN_BOARD'' close)
       | Some r \<Rightarrow> Inr \<lparr>pb_limit_up = Some (round_tick (close * (1 + r))),
            pb_limit_down = Some (round_tick (close * (1 - r))), pb_ratio = Some r,
            pb_regime = (if st then ''ST_BAND'' else ''ORDINARY''), pb_reference_close = close\<rparr>) = (Inr p :: price_band res)"
      by (auto simp: ratio_band_def res_bind_Inr_iff)
    from p assms(2) obtain r where r: "x = Some r" "u = round_tick (close * (1 + r))" "d = round_tick (close * (1 - r))"
      using assms(3) by (cases x) (auto simp: no_band_def)
    have "(0 :: rat) \<le> r \<and> r < 1"
      by (rule ratio_range [of board day]) (use x r(1) in \<open>auto split: if_splits\<close>)
    then have "0 \<le> r" "r < 1" by (rule conjunct1, rule conjunct2)
    then show thesis by (intro * [OF r(2,3)])
  qed
  have legacy: thesis if "p = \<lparr>pb_limit_up = Some (round_tick (close * (1 + LEGACY_IPO_UP))),
      pb_limit_down = Some (round_tick (close * (1 + LEGACY_IPO_DOWN))), pb_ratio = Some LEGACY_IPO_UP,
      pb_regime = ''IPO_LEGACY_APPROVAL_SYSTEM'', pb_reference_close = close\<rparr>"
    using assms(2,3) that by (intro * [of "44/100" "36/100"]) (auto simp: LEGACY_IPO_UP_def LEGACY_IPO_DOWN_def)
  from assms(1) show thesis
    using assms(2) by (auto simp: price_limits_def Let_def no_band_def split: option.splits if_splits intro: ratio legacy)
qed

text \<open>The price band is a band: for a non-negative previous close on the tick, whatever the board,
  the dates, the listing window and the risk-warning flag, a session with limits has both on the tick
  and the previous close between them, the ceiling below twice the close and the floor not negative.\<close>

lemma price_band_contains_reference:
  assumes "price_limits board previous_close day sessions is_st = Inr p"
    and "pb_limit_up p = Some u" "pb_limit_down p = Some d"
    and "0 \<le> previous_close" "on_tick previous_close"
  shows "0 \<le> d \<and> d \<le> previous_close \<and> previous_close \<le> u \<and> u \<le> 2 * previous_close
    \<and> on_tick u \<and> on_tick d"
proof -
  from assms(1-3) obtain a b where u: "u = round_tick (previous_close * (1 + a))"
    and d: "d = round_tick (previous_close * (1 - b))" and r: "0 \<le> a" "a < 1" "0 \<le> b" "b < 1"
    by (rule price_limits_cases)
  have close: "round_tick previous_close = previous_close" by (rule round_tick_on_tick [OF assms(5)])
  have "previous_close * 1 \<le> previous_close * (1 + a)" "previous_close * (1 - b) \<le> previous_close * 1"
    "previous_close * (1 + a) \<le> previous_close * 2" "previous_close * 0 \<le> previous_close * (1 - b)"
    using assms(4) r by (intro mult_left_mono; simp)+
  then have c: "previous_close \<le> previous_close * (1 + a)" "previous_close * (1 - b) \<le> previous_close"
    "previous_close * (1 + a) \<le> 2 * previous_close" "0 \<le> previous_close * (1 - b)" by simp_all
  have t: "on_tick (0 :: rat)" "on_tick (2 * previous_close)"
  proof -
    show "on_tick (0 :: rat)" by (simp add: on_tick_def)
    from assms(5) obtain k where "previous_close = of_int k / 100" by (rule on_tickE)
    then have "2 * previous_close = of_int (2 * k) / 100" by simp
    then show "on_tick (2 * previous_close)" by (simp only: on_tickI)
  qed
  show ?thesis
    using round_tick_mono [OF c(1)] round_tick_mono [OF c(2)] round_tick_mono [OF c(3)] round_tick_mono [OF c(4)]
      close round_tick_on_tick [OF t(1)] round_tick_on_tick [OF t(2)]
    by (simp add: u d) (simp add: round_tick_def on_tick_round_dec)
qed

section \<open>Lots\<close>

lemma lot_rule:
  "case dict_get LOT_RULES board (100, 100) of (minimum, increment) \<Rightarrow> 0 < minimum \<and> 0 < increment"
  by (auto simp: LOT_RULES_def dict_get_def split: option.splits if_splits)

lemma whole_shares:
  assumes "0 < shares"
  shows "of_int (if \<bar>shares - of_int (round_half_even shares)\<bar> \<le> 1 / 10 ^ 9 then round_half_even shares else py_int shares)
      \<le> shares + 1 / 10 ^ 9"
    and "shares < of_int (if \<bar>shares - of_int (round_half_even shares)\<bar> \<le> 1 / 10 ^ 9 then round_half_even shares else py_int shares) + 1"
proof -
  let ?near = "\<bar>shares - of_int (round_half_even shares)\<bar> \<le> 1 / 10 ^ 9"
  have t: "of_int (py_int shares) \<le> shares + 1 / 10 ^ 9" "shares < of_int (py_int shares) + 1"
    using py_int_le [of shares] py_int_gt [of shares] assms by simp_all
  have small: "1 / 10 ^ 9 < (1 :: rat)" by simp
  have n: "of_int (round_half_even shares) \<le> shares + 1 / 10 ^ 9" "shares < of_int (round_half_even shares) + 1"
    if "?near"
    using abs_le_D1 [OF that] abs_le_D2 [OF that] small by linarith+
  show "of_int (if ?near then round_half_even shares else py_int shares) \<le> shares + 1 / 10 ^ 9"
    "shares < of_int (if ?near then round_half_even shares else py_int shares) + 1"
    using t n by presburger+
qed

text \<open>C22. Lot rounding gives the largest legal quantity: the result never exceeds the shares asked for
  beyond the 1e-9 snap and is not negative; it is zero, a whole full liquidation, or the board's minimum
  plus whole increments; one more increment would exceed what was asked, and where it is zero the asked
  whole shares are below the minimum.\<close>

theorem round_to_lot_largest_legal:
  assumes "dict_get LOT_RULES board (100, 100) = (minimum, increment)"
  shows "let r = round_to_lot shares board sd full in
    0 \<le> r \<and> of_int r \<le> max 0 shares + 1 / 10 ^ 9
    \<and> (if upper sd = ''SELL'' \<and> full then shares \<le> 0 \<or> shares < of_int r + 1
       else if r = 0 then shares < of_int minimum
       else minimum \<le> r \<and> (r - minimum) mod increment = 0 \<and> shares < of_int (r + increment))"
proof -
  have rule: "0 < minimum" "0 < increment" using lot_rule [of board] assms by auto
  show ?thesis
  proof (cases "shares \<le> 0")
    case True
    have "shares < of_int minimum" using True rule(1) by (meson le_less_trans of_int_0_less_iff)
    then show ?thesis using True by (simp add: round_to_lot_def assms)
  next
    case False
    define w where "w = (if \<bar>shares - of_int (round_half_even shares)\<bar> \<le> 1 / 10 ^ 9
        then round_half_even shares else py_int shares)"
    have le: "of_int w \<le> shares + 1 / 10 ^ 9" and gt: "shares < of_int w + 1"
      using whole_shares [of shares] False by (simp_all add: w_def)
    have r: "round_to_lot shares board sd full =
        (if w \<le> 0 then 0 else if upper sd = ''SELL'' \<and> full then w else if w < minimum then 0
         else minimum + ((w - minimum) div increment) * increment)"
      using False by (simp add: round_to_lot_def assms w_def Let_def)
    let ?q = "(w - minimum) div increment * increment"
    have q: "?q \<le> w - minimum" "w - minimum < ?q + increment" "0 \<le> w - minimum \<Longrightarrow> 0 \<le> ?q"
      using rule(2) div_mult_mod_eq [of "w - minimum" increment] pos_mod_bound [of increment "w - minimum"]
        pos_mod_sign [of increment "w - minimum"]
      by (linarith, linarith, simp add: pos_imp_zdiv_nonneg_iff)
    have small: "shares < of_int minimum" if "w < minimum"
    proof -
      from that have "w + 1 \<le> minimum" by simp
      then have "(of_int w + 1 :: rat) \<le> of_int minimum" by (metis of_int_1 of_int_add of_int_le_iff)
      with gt show ?thesis by linarith
    qed
    consider "w \<le> 0" | "0 < w" "upper sd = ''SELL'' \<and> full" | "0 < w" "\<not> (upper sd = ''SELL'' \<and> full)" "w < minimum"
      | "0 < w" "\<not> (upper sd = ''SELL'' \<and> full)" "minimum \<le> w" by linarith
    then show ?thesis
    proof cases
      case 1
      then have "shares < 1" using gt by (simp add: order_less_le_trans)
      with 1 False rule(1) small show ?thesis by (auto simp: r)
    next
      case 2
      then show ?thesis using le gt False unfolding r Let_def by simp
    next
      case 3
      then show ?thesis using small False by (auto simp: r)
    next
      case 4
      let ?r = "minimum + ?q"
      have "?r \<le> w" "w + 1 \<le> ?r + increment" "0 < ?r" "minimum \<le> ?r"
        using q 4 rule(1) by linarith+
      moreover have "(of_int ?r :: rat) \<le> of_int w" "(of_int w + 1 :: rat) \<le> of_int (?r + increment)"
        using calculation(1,2) by (simp only: of_int_le_iff, metis of_int_1 of_int_add of_int_le_iff)
      ultimately show ?thesis using 4 le gt False by (auto simp: r)
    qed
  qed
qed

theorem round_to_lot_largest_legal_witness:
  "round_to_lot (25999 / 100) STAR ''buy'' False = 259 \<and> round_to_lot 250 SH_MAIN ''SELL'' True = 250
   \<and> round_to_lot 250 SH_MAIN ''BUY'' False = 200 \<and> (259 - 200) mod 1 = (0 :: int)"
proof -
  have v: "round_to_lot (25999 / 100) STAR ''buy'' False = 259" "round_to_lot 250 SH_MAIN ''SELL'' True = 250"
    "round_to_lot 250 SH_MAIN ''BUY'' False = 200" by code_simp+
  have l: "dict_get LOT_RULES STAR (100, 100) = (200, 1)" by code_simp
  have "upper ''buy'' \<noteq> ''SELL''" by code_simp
  with round_to_lot_largest_legal [OF l, of "25999 / 100" "''buy''" False] v show ?thesis
    by (simp add: Let_def)
qed

section \<open>Costs\<close>

text \<open>One order is never dearer than two: with non-negative commission terms the total cost of a
  notional is not negative and at most the total cost of its parts, on either side and any date; a buy
  pays no stamp duty.\<close>

lemma costs_subadditive:
  assumes "0 \<le> a" "0 \<le> b" "0 \<le> rate" "0 \<le> minimum"
  shows "0 \<le> tc_total (trading_costs (a + b) sd day rate minimum)
    \<and> tc_total (trading_costs (a + b) sd day rate minimum) \<le>
        tc_total (trading_costs a sd day rate minimum) + tc_total (trading_costs b sd day rate minimum)
    \<and> (upper sd = ''BUY'' \<longrightarrow> tc_stamp_duty (trading_costs a sd day rate minimum) = 0)"
proof -
  have duty: "0 \<le> stamp_duty_rate day"
    by (simp add: stamp_duty_rate_def STAMP_DUTY_CURRENT_def STAMP_DUTY_LEGACY_def split: option.split)
  let ?c = "\<lambda>x :: rat. if x \<noteq> 0 then max (x * rate) minimum else 0"
  have c: "?c (a + b) \<le> ?c a + ?c b" "0 \<le> ?c (a + b)"
  proof -
    have "max ((a + b) * rate) minimum \<le> max (a * rate) minimum + max (b * rate) minimum"
      using assms by (simp add: max_def algebra_simps add_increasing add_increasing2)
    then show "?c (a + b) \<le> ?c a + ?c b" by (auto simp: add_nonneg_eq_0_iff assms)
    show "0 \<le> ?c (a + b)" using assms by (simp add: le_max_iff_disj)
  qed
  let ?d = "\<lambda>x :: rat. if upper sd = ''SELL'' then x * stamp_duty_rate day else 0"
  have total: "tc_total (trading_costs x sd day rate minimum) = ?c x + ?d x + x * TRANSFER_FEE" if "0 \<le> x" for x
    using that by (simp add: tc_total_def trading_costs_def Let_def)
  have "0 \<le> (a + b) * TRANSFER_FEE" "0 \<le> ?d (a + b)"
    using assms duty by (simp_all add: TRANSFER_FEE_def)
  moreover have "?d (a + b) = ?d a + ?d b" "(a + b) * TRANSFER_FEE = a * TRANSFER_FEE + b * TRANSFER_FEE"
    by (simp_all add: distrib_right)
  moreover have "0 \<le> a + b" using assms by simp
  moreover have "upper sd = ''BUY'' \<longrightarrow> tc_stamp_duty (trading_costs a sd day rate minimum) = 0"
    by (simp add: trading_costs_def Let_def)
  ultimately show ?thesis
    unfolding total [OF \<open>0 \<le> a + b\<close>] total [OF assms(1)] total [OF assms(2)] using c by linarith
qed

section \<open>Execution\<close>

text \<open>An execution price keeps the law and the limit: under a band with floor at most ceiling, both on
  the tick, and a limit price on the tick that is not beyond the far side of the band, the price lies in
  the band and is no worse than the limit, whatever the slippage, the impact and the power function.\<close>

lemma execution_price_in_band:
  assumes "pb_limit_up p = Some u" "pb_limit_down p = Some d" "d \<le> u" "on_tick u" "on_tick d"
    and "on_tick l" "if upper sd = ''BUY'' then d \<le> l else l \<le> u"
  shows "let x = execution_price pow_half last_price sd q volume bps impact (Some p) (Some l) in
    d \<le> x \<and> x \<le> u \<and> (if upper sd = ''BUY'' then x \<le> l else l \<le> x) \<and> on_tick x"
proof -
  let ?x = "execution_price pow_half last_price sd q volume bps impact (Some p) (Some l)"
  obtain raw where x: "?x = round_dec 2 (if upper sd = ''BUY'' then min (max (min raw u) d) l
      else max (max (min raw u) d) l)"
    using assms(1,2) by (auto simp: execution_price_def Let_def unlimited_def)
  let ?y = "if upper sd = ''BUY'' then min (max (min raw u) d) l else max (max (min raw u) d) l"
  have y: "d \<le> ?y" "?y \<le> u" "if upper sd = ''BUY'' then ?y \<le> l else l \<le> ?y"
    using assms(3,7) by (auto split: if_splits)
  have "d \<le> ?x" "?x \<le> u" unfolding x
    using round_dec_mono [OF y(1), of 2] round_dec_mono [OF y(2), of 2] on_tick_round assms(4,5) by simp_all
  moreover have "if upper sd = ''BUY'' then ?x \<le> l else l \<le> ?x"
    using y(3) round_dec_mono [of ?y l 2] round_dec_mono [of l ?y 2] on_tick_round [OF assms(6)]
    by (simp add: x split: if_splits)
  moreover have "on_tick ?x" unfolding x by (rule on_tick_round_dec)
  ultimately show ?thesis by (simp add: Let_def)
qed

text \<open>Off the tick the limit is not kept: a buy limited at 10.009 executes at 10.01.\<close>

lemma execution_price_exceeds_off_tick_limit:
  "execution_price (\<lambda>x. x) 20 ''BUY'' 100 1000 0 0 None (Some (10009 / 1000)) = 1001 / 100"
  by code_simp

end
