(* ===== verification/Idempotency.thy ===== *)
theory Idempotency
  imports Lineage "HOL-Library.Product_Lexorder"
begin

text \<open>
  The durable claim-once store of \<open>src/src/quantagent/domain/idempotency.py\<close>, shared by processes
  through one append-only file.  The file is the list of its complete, non-blank lines, each with the
  value \<open>json.loads\<close> gives for it (\<open>None\<close> where it raises or meets a duplicate key), and whether an
  unfinished line follows.  A read offset counts lines.  The lock makes each operation one step.
\<close>

definition IDEM_SCHEMA_VERSION :: string where
  "IDEM_SCHEMA_VERSION = ''quantagent.idempotency.v1''"

record claim_record =
  cr_key :: string
  cr_claimed_at :: string
  cr_outcome :: "string option"
  cr_payload :: "(string, json) dict"

definition claim_to_dict :: "claim_record \<Rightarrow> json" where
  "claim_to_dict r = JObj
     [(''schemaVersion'', JStr IDEM_SCHEMA_VERSION),
      (''key'', JStr (cr_key r)),
      (''claimedAt'', JStr (cr_claimed_at r)),
      (''outcome'', of_opt JStr (cr_outcome r)),
      (''payload'', JObj (cr_payload r))]"

definition claim_from_dict :: "json \<Rightarrow> claim_record res" where
  "claim_from_dict payload =
     res_bind (res_bind (jindex payload ''key'') json_str) (\<lambda>key.
     res_bind (jget payload ''claimedAt'') (\<lambda>stamp.
     res_bind (if truthy stamp then json_str stamp else Inr []) (\<lambda>claimed_at.
     res_bind (res_bind (jget payload ''outcome'') json_opt_str) (\<lambda>outcome.
     res_bind (jget payload ''payload'') (\<lambda>p.
     res_bind (if truthy p then (case p of JObj d \<Rightarrow> Inr d | _ \<Rightarrow> Inl TypeError) else Inr []) (\<lambda>d.
     Inr \<lparr>cr_key = key, cr_claimed_at = claimed_at, cr_outcome = outcome, cr_payload = d\<rparr>))))))"

text \<open>A keyword that occurs in \<open>extra\<close> too is a \<open>TypeError\<close> of the call.\<close>

definition order_intent_key ::
    "digest \<Rightarrow> string \<Rightarrow> string \<Rightarrow> string \<Rightarrow> string \<Rightarrow> int \<Rightarrow> string \<Rightarrow> (string, json) dict \<Rightarrow> string res" where
  "order_intent_key H run_id signal_id symbol sd quantity trade_date extra =
     (let parts = [(''run_id'', JStr run_id), (''signal_id'', JStr signal_id), (''symbol'', JStr symbol),
            (''side'', JStr (upper sd)), (''quantity'', JInt quantity), (''trade_date'', JStr trade_date)]
      in if set (map fst extra) \<inter> set (''prefix'' # map fst parts) \<noteq> {} then Inl TypeError
         else Inr (content_id H ''idem'' (parts @ extra)))"

definition broker_callback_key :: "digest \<Rightarrow> string \<Rightarrow> string \<Rightarrow> string \<Rightarrow> string" where
  "broker_callback_key H broker_order_id execution_id event_type = content_id H ''cb''
     [(''broker_order_id'', JStr broker_order_id), (''execution_id'', JStr execution_id),
      (''event_type'', JStr (upper event_type))]"

section \<open>The store and its file\<close>

record idem_file =
  if_lines :: "json option list"
  if_torn :: bool

record idem_store =
  is_durable :: bool
  is_claims :: "(string, claim_record) dict"
  is_offset :: nat

definition fresh_store :: "bool \<Rightarrow> idem_store" where
  "fresh_store durable = \<lparr>is_durable = durable, is_claims = [], is_offset = 0\<rparr>"

text \<open>One complete line: its schema is checked, then its record, then that key and time are given.\<close>

definition decode_line :: "json option \<Rightarrow> claim_record res" where
  "decode_line line = (case line of
       None \<Rightarrow> Inl IdempotencyStoreCorruption
     | Some payload \<Rightarrow>
         (case res_bind (jget payload ''schemaVersion'') (\<lambda>v.
              if v \<noteq> JStr IDEM_SCHEMA_VERSION then Inl IdempotencyStoreCorruption
              else res_bind (claim_from_dict payload) (\<lambda>r.
                if cr_key r = [] \<or> cr_claimed_at r = [] then Inl IdempotencyStoreCorruption else Inr r)) of
            Inl e \<Rightarrow> Inl IdempotencyStoreCorruption
          | Inr r \<Rightarrow> Inr r))"

text \<open>The offset moves before the line is decoded, so a line that raises is not read again.\<close>

fun load_claims :: "json option list \<Rightarrow> idem_store \<Rightarrow> unit res \<times> idem_store" where
  "load_claims [] st = (Inr (), st)"
| "load_claims (line # rest) st =
     (let st = st\<lparr>is_offset := is_offset st + 1\<rparr> in
      case decode_line line of
        Inl e \<Rightarrow> (Inl e, st)
      | Inr r \<Rightarrow> load_claims rest (st\<lparr>is_claims := AList.update (cr_key r) r (is_claims st)\<rparr>))"

definition load_store :: "idem_file \<Rightarrow> idem_store \<Rightarrow> unit res \<times> idem_store" where
  "load_store file st =
     (if \<not> is_durable st then (Inr (), st)
      else if length (if_lines file) < is_offset st then (Inl IdempotencyStoreCorruption, st)
      else if if_torn file then (Inl IdempotencyStoreCorruption, st)
      else load_claims (drop (is_offset st) (if_lines file)) st)"

definition append_claim :: "write_outcome \<Rightarrow> claim_record \<Rightarrow> idem_store \<Rightarrow> idem_file \<Rightarrow> unit res \<times> idem_file" where
  "append_claim w r st file =
     (if \<not> is_durable st then (Inr (), file)
      else case w of
        W_ok \<Rightarrow> (Inr (), file\<lparr>if_lines := if_lines file @ [Some (claim_to_dict r)]\<rparr>)
      | W_lost \<Rightarrow> (Inl OSError, file)
      | W_torn \<Rightarrow> (Inl OSError, file\<lparr>if_torn := True\<rparr>)
      | W_landed \<Rightarrow> (Inl OSError, file\<lparr>if_lines := if_lines file @ [Some (claim_to_dict r)]\<rparr>))"

record claim_result =
  cl_granted :: bool
  cl_record :: claim_record

definition duplicate :: "claim_result \<Rightarrow> bool" where
  "duplicate r \<longleftrightarrow> \<not> cl_granted r"

definition claim ::
    "write_outcome \<Rightarrow> string \<Rightarrow> string \<Rightarrow> string option \<Rightarrow> (string, json) dict \<Rightarrow> bool
     \<Rightarrow> idem_store \<times> idem_file \<Rightarrow> claim_result res \<times> idem_store \<times> idem_file" where
  "claim w now key outcome payload strict s =
     (let (st, file) = s in
      case load_store file st of
        (Inl e, st) \<Rightarrow> (Inl e, st, file)
      | (Inr _, st) \<Rightarrow>
          (case map_of (is_claims st) key of
             Some existing \<Rightarrow>
               (if strict then Inl DuplicateAction else Inr \<lparr>cl_granted = False, cl_record = existing\<rparr>, st, file)
           | None \<Rightarrow>
               (let r = \<lparr>cr_key = key, cr_claimed_at = now, cr_outcome = outcome, cr_payload = payload\<rparr>;
                    st = st\<lparr>is_claims := AList.update key r (is_claims st)\<rparr>
                in case append_claim w r st file of
                     (Inl e, file) \<Rightarrow> (Inl e, st, file)
                   | (Inr _, file) \<Rightarrow> (Inr \<lparr>cl_granted = True, cl_record = r\<rparr>, st, file))))"

definition merge_payload :: "(string, json) dict \<Rightarrow> (string, json) dict \<Rightarrow> (string, json) dict" where
  "merge_payload old new = foldl (\<lambda>d (k, v). AList.update k v d) old new"

definition resolve_claim ::
    "write_outcome \<Rightarrow> string \<Rightarrow> string \<Rightarrow> (string, json) dict
     \<Rightarrow> idem_store \<times> idem_file \<Rightarrow> claim_record res \<times> idem_store \<times> idem_file" where
  "resolve_claim w key outcome payload s =
     (let (st, file) = s in
      case load_store file st of
        (Inl e, st) \<Rightarrow> (Inl e, st, file)
      | (Inr _, st) \<Rightarrow>
          (case map_of (is_claims st) key of
             None \<Rightarrow> (Inl KeyError, st, file)
           | Some existing \<Rightarrow>
               (let r = \<lparr>cr_key = key, cr_claimed_at = cr_claimed_at existing, cr_outcome = Some outcome,
                         cr_payload = merge_payload (cr_payload existing) payload\<rparr>;
                    st = st\<lparr>is_claims := AList.update key r (is_claims st)\<rparr>
                in case append_claim w r st file of
                     (Inl e, file) \<Rightarrow> (Inl e, st, file)
                   | (Inr _, file) \<Rightarrow> (Inr r, st, file))))"

definition idem_get :: "idem_store \<Rightarrow> string \<Rightarrow> claim_record option" where
  "idem_get st key = map_of (is_claims st) key"

definition idem_seen :: "idem_store \<Rightarrow> string \<Rightarrow> bool" where
  "idem_seen st key \<longleftrightarrow> map_of (is_claims st) key \<noteq> None"

definition idem_length :: "idem_store \<Rightarrow> nat" where
  "idem_length st = length (is_claims st)"

section \<open>Processes that share a file\<close>

text \<open>
  A world is the file and the store of each process.  A process may die and start again at any time;
  then its store is built anew from the file.
\<close>

datatype idem_call =
    Claim nat write_outcome string string "string option" "(string, json) dict" bool
  | Resolve nat write_outcome string string "(string, json) dict"
  | Restart nat

type_synonym world = "(nat \<Rightarrow> idem_store) \<times> idem_file"

fun idem_do :: "world \<Rightarrow> idem_call \<Rightarrow> string list \<times> world" where
  "idem_do (stores, file) (Claim p w now key outcome payload strict) =
     (case claim w now key outcome payload strict (stores p, file) of
        (r, st, file) \<Rightarrow>
          (case r of Inl _ \<Rightarrow> [] | Inr c \<Rightarrow> if cl_granted c then [key] else [], stores(p := st), file))"
| "idem_do (stores, file) (Resolve p w key outcome payload) =
     (case resolve_claim w key outcome payload (stores p, file) of
        (r, st, file) \<Rightarrow> ([], stores(p := st), file))"
| "idem_do (stores, file) (Restart p) = ([], stores(p := snd (load_store file (fresh_store True))), file)"

text \<open>The keys granted along a run, in order.\<close>

fun idem_run :: "world \<Rightarrow> idem_call list \<Rightarrow> string list \<times> world" where
  "idem_run wd [] = ([], wd)"
| "idem_run wd (c # cs) =
     (case idem_do wd c of (g, wd1) \<Rightarrow> (case idem_run wd1 cs of (gs, wd2) \<Rightarrow> (g @ gs, wd2)))"

definition fresh_world :: world where
  "fresh_world = (\<lambda>_. fresh_store True, \<lparr>if_lines = [], if_torn = False\<rparr>)"

section \<open>Claim once\<close>

definition line_keys :: "json option list \<Rightarrow> string set" where
  "line_keys ls = {cr_key r | l r. l \<in> set ls \<and> decode_line l = Inr r}"

lemma line_keys_simps [simp]:
  "line_keys [] = {}" "line_keys (ls @ ms) = line_keys ls \<union> line_keys ms"
  "line_keys (l # ls) = (case decode_line l of Inl _ \<Rightarrow> {} | Inr r \<Rightarrow> {cr_key r}) \<union> line_keys ls"
  by (auto simp: line_keys_def split: sum.splits)

lemma json_opt_str_written [simp]: "json_opt_str (of_opt JStr v) = Inr v"
  by (cases v) simp_all

lemma decode_written:
  "cr_key r \<noteq> [] \<Longrightarrow> cr_claimed_at r \<noteq> [] \<Longrightarrow> decode_line (Some (claim_to_dict r)) = Inr r"
  by (simp add: decode_line_def claim_to_dict_def claim_from_dict_def)

text \<open>A store knows every key of the lines it has read.\<close>

definition synced :: "idem_file \<Rightarrow> idem_store \<Rightarrow> bool" where
  "synced file st \<longleftrightarrow> is_durable st \<and> is_offset st \<le> length (if_lines file)
     \<and> line_keys (take (is_offset st) (if_lines file)) \<subseteq> fst ` set (is_claims st)"

lemma load_claims_facts:
  "load_claims ls st = (r, st') \<Longrightarrow>
     fst ` set (is_claims st) \<union> line_keys (take (is_offset st' - is_offset st) ls) \<subseteq> fst ` set (is_claims st')
     \<and> is_offset st \<le> is_offset st' \<and> is_offset st' \<le> is_offset st + length ls \<and> is_durable st' = is_durable st
     \<and> (r = Inr () \<longrightarrow> is_offset st' = is_offset st + length ls)"
proof (induction ls arbitrary: st)
  case (Cons l ls)
  show ?case
  proof (cases "decode_line l")
    case (Inl e)
    with Cons.prems show ?thesis by (auto simp: Let_def)
  next
    case (Inr c)
    let ?st = "st\<lparr>is_offset := is_offset st + 1, is_claims := AList.update (cr_key c) c (is_claims st)\<rparr>"
    from Cons.prems Inr have "load_claims ls ?st = (r, st')" by (simp add: Let_def)
    from Cons.IH [OF this] have ih: "fst ` set (AList.update (cr_key c) c (is_claims st)) \<union>
          line_keys (take (is_offset st' - (is_offset st + 1)) ls) \<subseteq> fst ` set (is_claims st')"
        "is_offset st + 1 \<le> is_offset st'" "is_offset st' \<le> is_offset st + 1 + length ls" "is_durable st' = is_durable st"
        "r = Inr () \<longrightarrow> is_offset st' = is_offset st + 1 + length ls" by simp_all
    moreover have "is_offset st' - is_offset st = Suc (is_offset st' - (is_offset st + 1))"
      using ih(2) by simp
    ultimately show ?thesis using Inr by (simp add: dom_update)
  qed
qed simp

lemma load_store_facts:
  assumes "load_store file st = (r, st')" "synced file st"
  shows "synced file st'"
    and "r = Inr () \<Longrightarrow> line_keys (if_lines file) \<subseteq> fst ` set (is_claims st')"
proof -
  have both: "synced file st' \<and> (r = Inr () \<longrightarrow> line_keys (if_lines file) \<subseteq> fst ` set (is_claims st'))"
  proof (cases "length (if_lines file) < is_offset st \<or> if_torn file")
    case True
    with assms show ?thesis by (auto simp: load_store_def synced_def split: if_splits)
  next
    case False
    let ?n = "is_offset st" and ?L = "if_lines file"
    from assms False have l: "load_claims (drop ?n ?L) st = (r, st')"
      by (auto simp: load_store_def synced_def)
    note f = load_claims_facts [OF l]
    have "take (is_offset st') ?L = take ?n ?L @ take (is_offset st' - ?n) (drop ?n ?L)"
      using f by (metis le_add_diff_inverse take_add)
    with f assms(2) have "synced file st'" by (auto simp: synced_def)
    moreover have "r = Inr () \<longrightarrow> take (is_offset st') ?L = ?L" using f False by simp
    ultimately show ?thesis by (auto simp: synced_def)
  qed
  then show "synced file st'" "r = Inr () \<Longrightarrow> line_keys (if_lines file) \<subseteq> fst ` set (is_claims st')" by blast+
qed

end
