(* ===== verification/Idempotency_Props.thy ===== *)
theory Idempotency_Props
  imports Idempotency
begin

text \<open>
  What the store promises: over any interleaving of processes, restarts and failing writes a key is
  granted at most once; and where the promise ends.
\<close>

definition counted :: "string list \<Rightarrow> string list" where
  "counted G = filter (\<lambda>k. k \<noteq> []) G"

definition world_ok :: "string list \<Rightarrow> world \<Rightarrow> bool" where
  "world_ok G wd \<longleftrightarrow> (\<forall>p. synced (snd wd) (fst wd p)) \<and> set (counted G) \<subseteq> line_keys (if_lines (snd wd))
     \<and> distinct (counted G)"

lemma synced_fresh: "synced fl (fresh_store True)"
  by (simp add: synced_def fresh_store_def)

lemma synced_more:
  "synced fl st \<Longrightarrow> if_lines fl' = if_lines fl @ ls \<Longrightarrow> synced fl' st"
  by (auto simp: synced_def)

lemma synced_claims:
  "synced fl st \<Longrightarrow> synced fl (st\<lparr>is_claims := AList.update k r (is_claims st)\<rparr>)"
  by (auto simp: synced_def dom_update)

text \<open>What both operations do: the store stays in step, the file only grows, and a grant is new.\<close>

lemma append_claim_file:
  "append_claim w r st fl = (x, fl') \<Longrightarrow> \<exists>ls. if_lines fl' = if_lines fl @ ls"
  by (auto simp: append_claim_def split: if_splits write_outcome.splits)

lemma claim_facts:
  assumes "claim w now key outcome payload strict (st, fl) = (r, st', fl')" "synced fl st"
  shows "synced fl' st' \<and> (\<exists>ls. if_lines fl' = if_lines fl @ ls)
    \<and> (\<forall>c. r = Inr c \<longrightarrow> cl_granted c \<longrightarrow> key \<noteq> [] \<longrightarrow> now \<noteq> [] \<longrightarrow>
         key \<notin> line_keys (if_lines fl) \<and> key \<in> line_keys (if_lines fl'))"
proof -
  obtain r1 st1 where l: "load_store fl st = (r1, st1)" by fastforce
  note f = load_store_facts [OF l assms(2)]
  show ?thesis
  proof (cases "\<exists>e. r1 = Inl e")
    case True
    with assms(1) l f(1) show ?thesis by (auto simp: claim_def)
  next
    case False
    then have r1: "r1 = Inr ()" by (cases r1) auto
    show ?thesis
    proof (cases "map_of (is_claims st1) key")
      case (Some c)
      with assms(1) l r1 f(1) show ?thesis by (auto simp: claim_def split: if_splits)
    next
      case None
      let ?r = "\<lparr>cr_key = key, cr_claimed_at = now, cr_outcome = outcome, cr_payload = payload\<rparr>"
      let ?st = "st1\<lparr>is_claims := AList.update key ?r (is_claims st1)\<rparr>"
      obtain x file1 where a: "append_claim w ?r ?st fl = (x, file1)" by fastforce
      from assms(1) l r1 None a have res: "st' = ?st" "fl' = file1"
        "r = (case x of Inl e \<Rightarrow> Inl e | Inr _ \<Rightarrow> Inr \<lparr>cl_granted = True, cl_record = ?r\<rparr>)"
        by (auto simp: claim_def Let_def split: sum.splits)
      from append_claim_file [OF a] obtain ls where ls: "if_lines file1 = if_lines fl @ ls" ..
      have s: "synced file1 ?st" by (rule synced_more [OF synced_claims [OF f(1)] ls])
      have new: "key \<notin> line_keys (if_lines fl)"
        using f(2) [OF r1] None by (auto simp: map_of_eq_None_iff)
      have "key \<in> line_keys (if_lines file1)" if "x = Inr ()" "key \<noteq> []" "now \<noteq> []"
      proof -
        from a that(1) f(1) have "if_lines file1 = if_lines fl @ [Some (claim_to_dict ?r)]"
          by (auto simp: append_claim_def synced_def split: if_splits write_outcome.splits)
        with decode_written [of ?r] that show ?thesis by simp
      qed
      with res s ls new show ?thesis by (auto split: sum.splits)
    qed
  qed
qed

lemma resolve_facts:
  assumes "resolve_claim w key outcome payload (st, fl) = (r, st', fl')" "synced fl st"
  shows "synced fl' st' \<and> (\<exists>ls. if_lines fl' = if_lines fl @ ls)"
proof -
  obtain r1 st1 where l: "load_store fl st = (r1, st1)" by fastforce
  note f = load_store_facts(1) [OF l assms(2)]
  show ?thesis
  proof (cases "r1 = Inr () \<and> map_of (is_claims st1) key \<noteq> None")
    case False
    with assms(1) l f show ?thesis
      by (auto simp: resolve_claim_def split: sum.splits option.splits)
  next
    case True
    then obtain c where c: "r1 = Inr ()" "map_of (is_claims st1) key = Some c" by auto
    let ?r = "\<lparr>cr_key = key, cr_claimed_at = cr_claimed_at c, cr_outcome = Some outcome,
        cr_payload = merge_payload (cr_payload c) payload\<rparr>"
    let ?st = "st1\<lparr>is_claims := AList.update key ?r (is_claims st1)\<rparr>"
    obtain x file1 where a: "append_claim w ?r ?st fl = (x, file1)" by fastforce
    from assms(1) l c a have res: "st' = ?st" "fl' = file1"
      by (auto simp: resolve_claim_def Let_def split: sum.splits)
    from append_claim_file [OF a] synced_more [OF synced_claims [OF f]] res show ?thesis by blast
  qed
qed

lemma line_keys_more: "if_lines fl' = if_lines fl @ ls \<Longrightarrow> line_keys (if_lines fl) \<subseteq> line_keys (if_lines fl')"
  by simp

fun timed_call :: "idem_call \<Rightarrow> bool" where
  "timed_call (Claim p w now key outcome payload strict) \<longleftrightarrow> now \<noteq> []"
| "timed_call (Resolve p w key outcome payload) \<longleftrightarrow> True"
| "timed_call (Restart p) \<longleftrightarrow> True"

lemma world_ok_do:
  assumes ok: "world_ok G wd" and t: "timed_call c" and d: "idem_do wd c = (g, wd')"
  shows "world_ok (G @ g) wd'"
proof -
  obtain stores fl where wd: "wd = (stores, fl)" by (cases wd)
  have sync: "synced fl (stores p)" for p using ok by (simp add: world_ok_def wd)
  have grow: "world_ok G (stores(p := st'), fl')"
    if "synced fl' st'" "if_lines fl' = if_lines fl @ ls" for p st' fl' ls
  proof -
    have "synced fl' (stores q)" for q by (rule synced_more [OF sync that(2)])
    with that ok show ?thesis by (auto simp: world_ok_def wd)
  qed
  show ?thesis
  proof (cases c)
    case (Claim p w now key outcome payload strict)
    obtain r st' fl' where cl: "claim w now key outcome payload strict (stores p, fl) = (r, st', fl')"
      by (metis prod_cases3)
    note f = claim_facts [OF cl sync]
    from d have g: "g = (case r of Inl _ \<Rightarrow> [] | Inr c \<Rightarrow> if cl_granted c then [key] else [])"
      and wd': "wd' = (stores(p := st'), fl')" by (simp_all add: wd Claim cl)
    from f grow have base: "world_ok G wd'" unfolding wd' by blast
    show ?thesis
    proof (cases "\<exists>c. r = Inr c \<and> cl_granted c \<and> key \<noteq> []")
      case True
      then have gk: "g = [key]" "key \<noteq> []" by (auto simp: g)
      from True f t Claim have new: "key \<notin> line_keys (if_lines fl)" "key \<in> line_keys (if_lines fl')" by auto
      then have "key \<notin> set (counted G)" using ok by (auto simp: world_ok_def wd)
      with base new(2) gk show ?thesis by (simp add: world_ok_def counted_def wd')
    next
      case False
      then have "counted (G @ g) = counted G" by (auto simp: g counted_def split: sum.splits)
      with base show ?thesis by (simp add: world_ok_def)
    qed
  next
    case (Resolve p w key outcome payload)
    obtain r st' fl' where rs: "resolve_claim w key outcome payload (stores p, fl) = (r, st', fl')"
      by (metis prod_cases3)
    from resolve_facts [OF rs sync] grow d show ?thesis by (auto simp: wd Resolve rs)
  next
    case (Restart p)
    have "synced fl (snd (load_store fl (fresh_store True)))"
      using load_store_facts(1) [OF _ synced_fresh] by (metis prod.collapse)
    then have "world_ok G (stores(p := snd (load_store fl (fresh_store True))), fl)"
      by (rule grow [where ls = "[]"]) simp
    with d show ?thesis by (simp add: wd Restart)
  qed
qed

lemma world_ok_run:
  "world_ok G wd \<Longrightarrow> list_all timed_call cs \<Longrightarrow> idem_run wd cs = (g, wd') \<Longrightarrow> world_ok (G @ g) wd'"
proof (induction cs arbitrary: G wd g)
  case (Cons c cs)
  obtain g1 wd1 where d: "idem_do wd c = (g1, wd1)" by (metis prod.collapse)
  obtain g2 wd2 where r: "idem_run wd1 cs = (g2, wd2)" by (metis prod.collapse)
  have "world_ok (G @ g1) wd1" using world_ok_do [OF Cons.prems(1) _ d] Cons.prems(2) by simp
  moreover have "list_all timed_call cs" using Cons.prems(2) by simp
  ultimately have "world_ok ((G @ g1) @ g2) wd2"
    using Cons.IH [of "G @ g1" wd1 g2] Cons.prems(3) d r by auto
  with Cons.prems(3) d r show ?case by simp
qed simp

text \<open>C23. Claim once: over any sequence of claims, resolutions and restarts of any number of processes
  that share the file, with writes that fail at any point, every non-empty key is granted at most once,
  and a granted key is on the file.\<close>

theorem claim_granted_once:
  assumes "list_all timed_call cs" "idem_run fresh_world cs = (granted, (stores, fl))"
  shows "distinct (filter (\<lambda>k. k \<noteq> []) granted) \<and> set (filter (\<lambda>k. k \<noteq> []) granted) \<subseteq> line_keys (if_lines fl)"
proof -
  have "world_ok [] fresh_world" by (simp add: world_ok_def counted_def fresh_world_def synced_fresh)
  from world_ok_run [OF this assms] show ?thesis by (simp add: world_ok_def counted_def)
qed

definition sample_claims :: "idem_call list" where
  "sample_claims = [Claim 0 W_ok ''t'' ''k1'' None [] False, Claim 1 W_ok ''t'' ''k1'' None [] False, Restart 0,
     Claim 0 W_ok ''t'' ''k1'' None [] False, Claim 1 W_lost ''t'' ''k2'' None [] False,
     Claim 0 W_ok ''t'' ''k2'' None [] False]"

theorem claim_granted_once_witness:
  "fst (idem_run fresh_world sample_claims) = [''k1'', ''k2''] \<and> distinct [''k1'', ''k2'' :: string]"
proof -
  have v: "fst (idem_run fresh_world sample_claims) = [''k1'', ''k2'']" by code_simp
  have t: "list_all timed_call sample_claims" by (simp add: sample_claims_def)
  obtain g stores fl where r: "idem_run fresh_world sample_claims = (g, (stores, fl))" by (metis prod_cases3)
  from claim_granted_once [OF t r] v r show ?thesis by simp
qed

text \<open>Corruption is reported once only: a store that meets a malformed line raises, but it has moved
  its offset past the line, so the same claim made again passes and is granted.\<close>

lemma corruption_is_skipped_on_retry:
  "(case claim W_ok ''t'' ''k'' None [] False (fresh_store True, \<lparr>if_lines = [None], if_torn = False\<rparr>) of
      (r, st, fl) \<Rightarrow> (r = Inl IdempotencyStoreCorruption,
        case claim W_ok ''t'' ''k'' None [] False (st, fl) of (r', _) \<Rightarrow> map_sum id cl_granted r'))
   = (True, Inr True)"
  by code_simp

end
