(* ===== verification/Position_Machine.thy ===== *)
theory Position_Machine
  imports Prelude
begin

text \<open>
  The per-symbol position state machine of \<open>src/src/quantagent/portfolio/state_machine/machine.py\<close>.
  The rationale of a decision is a message and is left out.  A return of \<open>None\<close> by a helper, which
  neither helper makes, would fall through to the final hold.
\<close>

datatype position_state =
    BAN | WATCH | LOW_BUY_READY | OPEN_POSITION | HOLD_SHORT | HOLD_MID | HOLD_LONG | DO_T | REDUCE
  | TAKE_PROFIT | STOP_LOSS | EXIT

datatype weight_action = Buy | Hold | Reduce | Exit | Do_t | Skip

record machine_config =
  mc_short_hold_max_days :: int
  mc_mid_hold_max_days :: int
  mc_long_hold_max_days :: int
  mc_low_buy_pred_quantile :: rat
  mc_take_profit_pred_drop :: rat
  mc_stop_loss_unrealized_dd :: rat
  mc_reduce_pred_drop :: rat
  mc_do_t_pred_threshold :: rat

definition default_config :: machine_config where
  "default_config = \<lparr>mc_short_hold_max_days = 5, mc_mid_hold_max_days = 30, mc_long_hold_max_days = 120,
     mc_low_buy_pred_quantile = 1/10, mc_take_profit_pred_drop = 2/5, mc_stop_loss_unrealized_dd = 2/25,
     mc_reduce_pred_drop = 1/5, mc_do_t_pred_threshold = 19/20\<rparr>"

record position_context =
  pc_symbol :: string
  pc_trade_date :: string
  pc_current_state :: position_state
  pc_current_weight :: rat
  pc_entry_weight :: rat
  pc_entry_prediction :: "rat option"
  pc_current_prediction :: "rat option"
  pc_pred_quantile :: "rat option"
  pc_days_held :: int
  pc_unrealized_return :: "rat option"
  pc_unrealized_drawdown :: "rat option"
  pc_is_suspended :: bool
  pc_is_st :: bool
  pc_is_limit_up_at_close :: bool
  pc_is_high_chase :: bool
  pc_market_regime :: "string option"

record position_decision =
  pd_target_state :: position_state
  pd_weight_action :: weight_action
  pd_target_weight_multiplier :: rat

definition decision :: "position_state \<Rightarrow> weight_action \<Rightarrow> rat \<Rightarrow> position_decision" where
  "decision s a m = \<lparr>pd_target_state = s, pd_weight_action = a, pd_target_weight_multiplier = m\<rparr>"

definition hold_tier_for_age :: "machine_config \<Rightarrow> int \<Rightarrow> position_state" where
  "hold_tier_for_age cfg days_held =
     (if days_held \<le> mc_short_hold_max_days cfg then HOLD_SHORT
      else if days_held \<le> mc_mid_hold_max_days cfg then HOLD_MID
      else HOLD_LONG)"

text \<open>The drop of the prediction relative to its entry, where both are known and the entry is not tiny.\<close>

definition prediction_drop :: "position_context \<Rightarrow> rat option" where
  "prediction_drop ctx = (case (pc_entry_prediction ctx, pc_current_prediction ctx) of
       (Some entry, Some now) \<Rightarrow> if 1 / 10 ^ 6 < \<bar>entry\<bar> then Some ((entry - now) / \<bar>entry\<bar>) else None
     | _ \<Rightarrow> None)"

definition at_least :: "rat option \<Rightarrow> rat \<Rightarrow> bool" where
  "at_least v bound = (case v of None \<Rightarrow> False | Some x \<Rightarrow> bound \<le> x)"

definition decide_for_holder :: "machine_config \<Rightarrow> position_context \<Rightarrow> position_decision" where
  "decide_for_holder cfg ctx =
     (if mc_long_hold_max_days cfg < pc_days_held ctx then decision TAKE_PROFIT Exit 0
      else let natural_state = hold_tier_for_age cfg (pc_days_held ctx); drop = prediction_drop ctx in
        if at_least drop (mc_take_profit_pred_drop cfg)
           \<and> (case pc_unrealized_return ctx of None \<Rightarrow> False | Some r \<Rightarrow> 0 < r)
        then decision TAKE_PROFIT Exit 0
        else if at_least drop (mc_reduce_pred_drop cfg) then decision REDUCE Reduce (1/2)
        else if at_least (pc_pred_quantile ctx) (mc_do_t_pred_threshold cfg) then decision natural_state Do_t 1
        else decision natural_state Hold 1)"

definition decide_for_non_holder :: "machine_config \<Rightarrow> position_context \<Rightarrow> position_decision" where
  "decide_for_non_holder cfg ctx =
     (if pc_is_high_chase ctx then decision WATCH Skip 0
      else if pc_is_limit_up_at_close ctx then decision WATCH Skip 0
      else if pc_market_regime ctx = Some ''crisis'' then decision WATCH Skip 0
      else if at_least (pc_pred_quantile ctx) (1 - mc_low_buy_pred_quantile cfg) then decision LOW_BUY_READY Buy 1
      else decision WATCH Skip 0)"

definition transition :: "machine_config \<Rightarrow> position_context \<Rightarrow> position_decision" where
  "transition cfg ctx =
     (if pc_current_state ctx = BAN then
        (if pc_is_st ctx \<or> pc_is_suspended ctx then decision BAN Skip 0 else decision WATCH Skip 0)
      else if pc_is_suspended ctx \<and> 0 < pc_current_weight ctx then
        decision (if pc_days_held ctx \<le> mc_short_hold_max_days cfg then HOLD_SHORT else HOLD_MID) Hold 1
      else if pc_is_suspended ctx \<and> pc_current_weight ctx = 0 then decision WATCH Skip 0
      else if pc_is_st ctx \<and> pc_current_state ctx \<noteq> HOLD_LONG then
        (if 0 < pc_current_weight ctx then decision EXIT Exit 0 else decision BAN Skip 0)
      else if 0 < pc_current_weight ctx
          \<and> (case pc_unrealized_drawdown ctx of None \<Rightarrow> False | Some d \<Rightarrow> mc_stop_loss_unrealized_dd cfg \<le> \<bar>d\<bar>)
      then decision STOP_LOSS Exit 0
      else if 0 < pc_current_weight ctx then decide_for_holder cfg ctx
      else if pc_current_weight ctx = 0 then decide_for_non_holder cfg ctx
      else decision (pc_current_state ctx) Hold 1)"

section \<open>Cases\<close>

lemma decision_simps [simp]:
  "pd_target_state (decision s a m) = s" "pd_weight_action (decision s a m) = a"
  "pd_target_weight_multiplier (decision s a m) = m"
  by (simp_all add: decision_def)

lemma holder_never_buys: "pd_weight_action (decide_for_holder cfg ctx) \<notin> {Buy, Skip}"
  by (simp add: decide_for_holder_def Let_def)

lemma non_holder_action:
  "pd_weight_action (decide_for_non_holder cfg ctx) = Buy \<longleftrightarrow>
     \<not> pc_is_high_chase ctx \<and> \<not> pc_is_limit_up_at_close ctx \<and> pc_market_regime ctx \<noteq> Some ''crisis''
     \<and> at_least (pc_pred_quantile ctx) (1 - mc_low_buy_pred_quantile cfg)"
  "pd_weight_action (decide_for_non_holder cfg ctx) \<in> {Buy, Skip}"
  by (simp_all add: decide_for_non_holder_def)

text \<open>A buy opens a position and nothing else: the machine says buy only for a symbol with no
  weight, not suspended, not banned, not risk-flagged unless its state is the long hold, neither chased
  nor locked at the limit, outside a crisis, with a prediction in the top quantile.\<close>

lemma buy_only_clean_entry:
  assumes "pd_weight_action (transition cfg ctx) = Buy"
  shows "pc_current_weight ctx = 0 \<and> \<not> pc_is_suspended ctx \<and> pc_current_state ctx \<noteq> BAN
    \<and> (pc_is_st ctx \<longrightarrow> pc_current_state ctx = HOLD_LONG)
    \<and> \<not> pc_is_high_chase ctx \<and> \<not> pc_is_limit_up_at_close ctx \<and> pc_market_regime ctx \<noteq> Some ''crisis''
    \<and> at_least (pc_pred_quantile ctx) (1 - mc_low_buy_pred_quantile cfg)
    \<and> pd_target_state (transition cfg ctx) = LOW_BUY_READY"
  using assms holder_never_buys [of cfg ctx] non_holder_action [of cfg ctx]
  by (auto simp: transition_def decide_for_non_holder_def split: if_splits)

definition flat_context :: position_context where
  "flat_context = \<lparr>pc_symbol = ''s'', pc_trade_date = ''d'', pc_current_state = WATCH, pc_current_weight = 0,
     pc_entry_weight = 0, pc_entry_prediction = None, pc_current_prediction = None,
     pc_pred_quantile = Some (95/100), pc_days_held = 0, pc_unrealized_return = None,
     pc_unrealized_drawdown = None, pc_is_suspended = False, pc_is_st = False,
     pc_is_limit_up_at_close = False, pc_is_high_chase = False, pc_market_regime = None\<rparr>"

lemma flat_buys: "pd_weight_action (transition default_config flat_context) = Buy"
  by code_simp

text \<open>The stop is hard: a held symbol that can trade and whose drawdown reaches the stop is exited in
  full with state STOP_LOSS, or as a risk-flagged exit, whatever its predictions, age and regime; and a
  held symbol whose age is past the long window is exited.\<close>

lemma stop_loss_exits:
  assumes "0 < pc_current_weight ctx" "\<not> pc_is_suspended ctx" "pc_current_state ctx \<noteq> BAN"
    and "at_least (map_option abs (pc_unrealized_drawdown ctx)) (mc_stop_loss_unrealized_dd cfg)
       \<or> mc_long_hold_max_days cfg < pc_days_held ctx"
  shows "pd_weight_action (transition cfg ctx) = Exit \<and> pd_target_weight_multiplier (transition cfg ctx) = 0
    \<and> pd_target_state (transition cfg ctx) \<in> {STOP_LOSS, EXIT, TAKE_PROFIT}"
  using assms
  by (auto simp: transition_def decide_for_holder_def at_least_def split: option.splits)

text \<open>A suspended symbol is never traded and a banned one stays out: the action is hold or skip, with
  hold exactly for a position that is there.\<close>

lemma suspended_never_trades:
  assumes "pc_is_suspended ctx" "0 \<le> pc_current_weight ctx"
  shows "pd_weight_action (transition cfg ctx) =
    (if pc_current_state ctx \<noteq> BAN \<and> 0 < pc_current_weight ctx then Hold else Skip)"
  using assms by (simp add: transition_def)

text \<open>The risk flag is not a full ban on entries: a flagged symbol whose state is still the long hold
  but whose weight is zero can be bought.\<close>

lemma risk_flagged_can_be_bought:
  "pd_weight_action (transition default_config (flat_context\<lparr>pc_is_st := True, pc_current_state := HOLD_LONG\<rparr>)) = Buy"
  by code_simp

end
