(* ===== verification/Kill_Switch.thy ===== *)
theory Kill_Switch
  imports Prelude
begin

text \<open>
  The operational kill switch of \<open>src/src/quantagent/risk/kill_switch.py\<close> with its durable state.  An
  operation maps the switch and the content of its state file to a result and both of them again,
  since an exception leaves what was done before it.  The content of the file is \<open>None\<close> when it does not
  exist, \<open>Some None\<close> when reading or decoding it raises, and the decoded JSON value otherwise.
  The outcome of a durable write is an argument; a failed one leaves the old file, as
  \<open>os.replace\<close> is atomic.  \<open>S\<close> is \<open>str\<close> of a JSON value that is not a string.
\<close>

type_synonym state_file = "json option option"

record kill_switch =
  ks_manual :: bool
  ks_reasons :: "string list"
  ks_path :: "string option"
  ks_version :: int

type_synonym switch_world = "kill_switch \<times> state_file"

definition ks_triggered :: "kill_switch \<Rightarrow> bool" where
  "ks_triggered k \<longleftrightarrow> ks_manual k \<or> ks_reasons k \<noteq> []"

definition ks_persistent :: "kill_switch \<Rightarrow> bool" where
  "ks_persistent k \<longleftrightarrow> ks_path k \<noteq> None"

definition ks_payload :: "kill_switch \<Rightarrow> json" where
  "ks_payload k = JObj
     [(''manual_triggered'', JBool (ks_manual k)),
      (''reasons'', JList (map JStr (ks_reasons k))),
      (''version'', JInt (ks_version k))]"

definition ks_persist :: "bool \<Rightarrow> switch_world \<Rightarrow> unit res \<times> switch_world" where
  "ks_persist w kf =
     (if \<not> ks_persistent (fst kf) then (Inr (), kf)
      else if w then (Inr (), fst kf, Some (Some (ks_payload (fst kf))))
      else (Inl OSError, kf))"

definition add_reason :: "string \<Rightarrow> kill_switch \<Rightarrow> kill_switch" where
  "add_reason r k = (if r \<in> set (ks_reasons k) then k else k\<lparr>ks_reasons := ks_reasons k @ [r]\<rparr>)"

definition ks_trigger :: "bool \<Rightarrow> string \<Rightarrow> switch_world \<Rightarrow> unit res \<times> switch_world" where
  "ks_trigger w reason kf =
     (if strip reason = [] then (Inl ValueError, kf)
      else ks_persist w (add_reason (strip reason) (fst kf), snd kf))"

definition MANUAL_REASON :: string where
  "MANUAL_REASON = ''manual_operator_trigger''"

definition ks_manual_trigger :: "bool \<Rightarrow> string \<Rightarrow> switch_world \<Rightarrow> unit res \<times> switch_world" where
  "ks_manual_trigger w reason kf =
     (let k = (fst kf)\<lparr>ks_manual := True\<rparr>
      in ks_persist w (if reason \<noteq> [] then add_reason reason k else k, snd kf))"

definition ks_release :: "bool \<Rightarrow> string option \<Rightarrow> switch_world \<Rightarrow> unit res \<times> switch_world" where
  "ks_release w reason kf =
     (case reason of
        None \<Rightarrow>
          if ks_persistent (fst kf) then (Inl ValueError, kf)
          else (Inr (), (fst kf)\<lparr>ks_manual := False, ks_reasons := []\<rparr>, snd kf)
      | Some text \<Rightarrow>
          let target = strip text
          in if target = [] then (Inl ValueError, kf)
             else let k = (fst kf)\<lparr>ks_reasons := filter (\<lambda>r. r \<noteq> target) (ks_reasons (fst kf))\<rparr>
                  in ks_persist w (if target = MANUAL_REASON then k\<lparr>ks_manual := False\<rparr> else k, snd kf))"

definition ks_release_all :: "bool \<Rightarrow> bool \<Rightarrow> switch_world \<Rightarrow> unit res \<times> switch_world" where
  "ks_release_all w confirm kf =
     (if \<not> confirm then (Inl ValueError, kf)
      else ks_persist w ((fst kf)\<lparr>ks_manual := False, ks_reasons := []\<rparr>, snd kf))"

section \<open>Evaluating the readings\<close>

record readings =
  rd_daily_loss :: rat
  rd_drawdown :: rat
  rd_reconciliation_mismatch :: bool
  rd_provider_failure :: bool
  rd_audit_write_failure :: bool
  rd_rejection_rate :: rat
  rd_turnover :: rat

record switch_limits =
  lm_daily_loss :: rat
  lm_drawdown :: rat
  lm_rejection_rate :: rat
  lm_turnover :: rat

definition quiet_readings :: readings where
  "quiet_readings = \<lparr>rd_daily_loss = 0, rd_drawdown = 0, rd_reconciliation_mismatch = False,
     rd_provider_failure = False, rd_audit_write_failure = False, rd_rejection_rate = 0, rd_turnover = 0\<rparr>"

definition default_limits :: switch_limits where
  "default_limits = \<lparr>lm_daily_loss = 3/100, lm_drawdown = 15/100, lm_rejection_rate = 1/2, lm_turnover = 1/2\<rparr>"

text \<open>The reasons \<open>evaluate\<close> triggers, in its order; no condition looks at the switch.\<close>

definition trips :: "readings \<Rightarrow> switch_limits \<Rightarrow> string list" where
  "trips x l =
     (if rd_daily_loss x \<le> - lm_daily_loss l then [''severe_daily_loss''] else []) @
     (if rd_drawdown x \<le> - lm_drawdown l then [''severe_drawdown''] else []) @
     (if rd_reconciliation_mismatch x then [''severe_reconciliation_mismatch''] else []) @
     (if rd_provider_failure x then [''data_provider_failure''] else []) @
     (if rd_audit_write_failure x then [''audit_write_failure''] else []) @
     (if rd_rejection_rate x > lm_rejection_rate l then [''excessive_rejection''] else []) @
     (if rd_turnover x > lm_turnover l then [''abnormal_turnover''] else [])"

fun trigger_each :: "(nat \<Rightarrow> bool) \<Rightarrow> nat \<Rightarrow> string list \<Rightarrow> switch_world \<Rightarrow> unit res \<times> switch_world" where
  "trigger_each w i [] kf = (Inr (), kf)"
| "trigger_each w i (r # rs) kf =
     (case ks_trigger (w i) r kf of
        (Inl e, kf') \<Rightarrow> (Inl e, kf')
      | (Inr u, kf') \<Rightarrow> trigger_each w (Suc i) rs kf')"

definition ks_evaluate ::
    "(nat \<Rightarrow> bool) \<Rightarrow> readings \<Rightarrow> switch_limits \<Rightarrow> switch_world \<Rightarrow> bool res \<times> switch_world" where
  "ks_evaluate w x l kf =
     (case trigger_each w 0 (trips x l) kf of
        (Inl e, kf') \<Rightarrow> (Inl e, kf')
      | (Inr u, kf') \<Rightarrow> (Inr (ks_triggered (fst kf')), kf'))"

definition ks_status :: "kill_switch \<Rightarrow> json" where
  "ks_status k = JObj
     [(''triggered'', JBool (ks_triggered k)),
      (''reasons'', JList (map JStr (ks_reasons k))),
      (''manual'', JBool (ks_manual k)),
      (''persistent'', JBool (ks_persistent k)),
      (''state_path'', of_opt JStr (ks_path k)),
      (''state_version'', JInt (ks_version k))]"

section \<open>Restoring the state\<close>

text \<open>\<open>int(text)\<close>: white space around, one sign, digits with single underscores between them.\<close>

fun digits_val :: "bool \<Rightarrow> nat \<Rightarrow> string \<Rightarrow> nat option" where
  "digits_val seen acc [] = (if seen then Some acc else None)"
| "digits_val seen acc (c # cs) =
     (let n = (of_char c :: nat)
      in if 48 \<le> n \<and> n \<le> 57 then digits_val True (10 * acc + (n - 48)) cs
         else if c = CHR ''_'' \<and> seen \<and> cs \<noteq> [] then digits_val False acc cs
         else None)"

definition int_of_text :: "string \<Rightarrow> int option" where
  "int_of_text s =
     (case strip s of
        [] \<Rightarrow> None
      | c # cs \<Rightarrow>
          if c = CHR ''-'' then map_option (\<lambda>n. - int n) (digits_val False 0 cs)
          else if c = CHR ''+'' then map_option int (digits_val False 0 cs)
          else map_option int (digits_val False 0 (c # cs)))"

fun int_of_json :: "json \<Rightarrow> int option" where
  "int_of_json (JInt n) = Some n"
| "int_of_json (JBool b) = Some (if b then 1 else 0)"
| "int_of_json (JNum x) = Some (py_int x)"
| "int_of_json (JStr s) = int_of_text s"
| "int_of_json _ = None"

fun str_of_json :: "(json \<Rightarrow> string) \<Rightarrow> json \<Rightarrow> string" where
  "str_of_json S (JStr s) = s"
| "str_of_json S j = S j"

text \<open>\<open>list(dict.fromkeys(xs))\<close> keeps the first occurrence of every element.\<close>

definition fromkeys :: "'a list \<Rightarrow> 'a list" where
  "fromkeys xs = rev (remdups (rev xs))"

text \<open>The body of the \<open>try\<close>; \<open>None\<close> stands for whatever exception it raises.\<close>

definition decode_state :: "(json \<Rightarrow> string) \<Rightarrow> int \<Rightarrow> json option \<Rightarrow> (bool \<times> string list) option" where
  "decode_state S version content =
     (case content of
        Some (JObj d) \<Rightarrow>
          if int_of_json (dict_get d ''version'' (JInt (- 1))) \<noteq> Some version then None
          else (case dict_get d ''reasons'' JNull of
                  JList items \<Rightarrow>
                    Some (truthy (dict_get d ''manual_triggered'' (JBool False)),
                          fromkeys (filter (\<lambda>s. strip s \<noteq> []) (map (str_of_json S) items)))
                | _ \<Rightarrow> None)
      | _ \<Rightarrow> None)"

definition UNREADABLE :: string where
  "UNREADABLE = ''kill_switch_state_unreadable''"

definition ks_restore :: "(json \<Rightarrow> string) \<Rightarrow> bool \<Rightarrow> switch_world \<Rightarrow> unit res \<times> switch_world" where
  "ks_restore S w kf =
     (case snd kf of
        None \<Rightarrow> ks_persist w kf
      | Some content \<Rightarrow>
          (case decode_state S (ks_version (fst kf)) content of
             Some (m, rs) \<Rightarrow> (Inr (), (fst kf)\<lparr>ks_reasons := rs, ks_manual := m\<rparr>, snd kf)
           | None \<Rightarrow> ks_persist w ((fst kf)\<lparr>ks_manual := True, ks_reasons := [UNREADABLE]\<rparr>, snd kf)))"

definition KillSwitch_make ::
    "(json \<Rightarrow> string) \<Rightarrow> bool \<Rightarrow> kill_switch \<Rightarrow> state_file \<Rightarrow> unit res \<times> switch_world" where
  "KillSwitch_make S w k f = (if ks_path k = None then (Inr (), k, f) else ks_restore S w (k, f))"

definition blank_switch :: "string option \<Rightarrow> kill_switch" where
  "blank_switch path = \<lparr>ks_manual = False, ks_reasons = [], ks_path = path, ks_version = 1\<rparr>"

section \<open>Runs\<close>

datatype switch_op =
    Op_trigger string
  | Op_manual string
  | Op_release "string option"
  | Op_release_all bool
  | Op_evaluate readings switch_limits

text \<open>A call of one operation; \<open>w i\<close> is the outcome of its i-th durable write.\<close>

fun switch_call :: "(nat \<Rightarrow> bool) \<Rightarrow> switch_op \<Rightarrow> switch_world \<Rightarrow> unit res \<times> switch_world" where
  "switch_call w (Op_trigger r) kf = ks_trigger (w 0) r kf"
| "switch_call w (Op_manual r) kf = ks_manual_trigger (w 0) r kf"
| "switch_call w (Op_release r) kf = ks_release (w 0) r kf"
| "switch_call w (Op_release_all c) kf = ks_release_all (w 0) c kf"
| "switch_call w (Op_evaluate x l) kf =
     (let (r, kf') = ks_evaluate w x l kf in (map_sum id (\<lambda>b. ()) r, kf'))"

text \<open>A process that goes on after any exception of an operation.\<close>

fun switch_run :: "switch_world \<Rightarrow> ((nat \<Rightarrow> bool) \<times> switch_op) list \<Rightarrow> switch_world" where
  "switch_run kf [] = kf"
| "switch_run kf ((w, c) # cs) = switch_run (snd (switch_call w c kf)) cs"

text \<open>A process that stops at a failed durable write, and refuses what an operation refuses.\<close>

definition switch_step :: "switch_world \<Rightarrow> (nat \<Rightarrow> bool) \<times> switch_op \<Rightarrow> switch_world res" where
  "switch_step kf wc =
     (case switch_call (fst wc) (snd wc) kf of
        (r, kf') \<Rightarrow> if r = Inl OSError then Inl OSError else Inr kf')"

end
