(* ===== verification/Kill_Switch_Props.thy ===== *)
theory Kill_Switch_Props
  imports Kill_Switch
begin

text \<open>
  The kill switch: a restart restores the block that was in force, no operation clears a reason it
  does not name, and an evaluation trips exactly at its thresholds.
\<close>

section \<open>The state file follows the switch\<close>

lemma fromkeys_distinct: "distinct xs \<Longrightarrow> fromkeys xs = xs"
  by (simp add: fromkeys_def distinct_remdups_id)

lemma distinct_fromkeys: "distinct (fromkeys xs)"
  by (simp add: fromkeys_def)

lemma filter_fromkeys: "(\<And>x. x \<in> set xs \<Longrightarrow> P x) \<Longrightarrow> filter P (fromkeys xs) = fromkeys xs"
  by (simp add: fromkeys_def filter_id_conv)

lemma decode_payload:
  "distinct (ks_reasons k) \<Longrightarrow> decode_state S (ks_version k) (Some (ks_payload k)) =
     Some (ks_manual k, filter (\<lambda>s. strip s \<noteq> []) (ks_reasons k))"
  by (simp add: decode_state_def ks_payload_def dict_get_def fromkeys_distinct comp_def)

text \<open>What the file decodes to is the switch in memory, but for blank reasons.\<close>

definition synced :: "(json \<Rightarrow> string) \<Rightarrow> switch_world \<Rightarrow> bool" where
  "synced S kf \<longleftrightarrow> ks_persistent (fst kf) \<and> distinct (ks_reasons (fst kf)) \<and>
     (\<exists>c. snd kf = Some c \<and> decode_state S (ks_version (fst kf)) c =
        Some (ks_manual (fst kf), filter (\<lambda>s. strip s \<noteq> []) (ks_reasons (fst kf))))"

lemma persist_synced:
  "ks_persist w kf = (r, kf') \<Longrightarrow> r \<noteq> Inl OSError \<Longrightarrow> ks_persistent (fst kf) \<Longrightarrow>
   distinct (ks_reasons (fst kf)) \<Longrightarrow> synced S kf'"
  by (auto simp: ks_persist_def synced_def decode_payload split: if_splits)

lemma synced_facts: "synced S kf \<Longrightarrow> ks_path (fst kf) \<noteq> None \<and> distinct (ks_reasons (fst kf))"
  by (simp add: synced_def ks_persistent_def)

lemma persist_same: "fst (snd (ks_persist w kf)) = fst kf"
  by (simp add: ks_persist_def)

lemma add_reason_facts [simp]:
  "ks_path (add_reason r k) = ks_path k"
  "ks_manual (add_reason r k) = ks_manual k"
  "ks_version (add_reason r k) = ks_version k"
  "set (ks_reasons (add_reason r k)) = insert r (set (ks_reasons k))"
  "distinct (ks_reasons (add_reason r k)) = distinct (ks_reasons k)"
  by (auto simp: add_reason_def)

lemma trigger_synced:
  "ks_trigger w t kf = (r, kf') \<Longrightarrow> r \<noteq> Inl OSError \<Longrightarrow> synced S kf \<Longrightarrow> synced S kf'"
  by (frule synced_facts)
    (auto simp: ks_trigger_def ks_persistent_def split: if_splits elim!: persist_synced)

lemma trigger_each_synced:
  "trigger_each w i rs kf = (r, kf') \<Longrightarrow> r \<noteq> Inl OSError \<Longrightarrow> synced S kf \<Longrightarrow> synced S kf'"
proof (induction rs arbitrary: i kf)
  case Nil
  then show ?case by simp
next
  case (Cons t rs)
  obtain r1 kf1 where t: "ks_trigger (w i) t kf = (r1, kf1)" by (metis prod.collapse)
  show ?case
  proof (cases r1)
    case (Inl e)
    with Cons.prems t show ?thesis by (auto dest: trigger_synced)
  next
    case (Inr u)
    with t Cons.prems(3) have "synced S kf1" by (auto dest: trigger_synced)
    with Cons t Inr show ?thesis by auto
  qed
qed

lemma manual_synced:
  "ks_manual_trigger w t kf = (r, kf') \<Longrightarrow> r \<noteq> Inl OSError \<Longrightarrow> synced S kf \<Longrightarrow> synced S kf'"
  by (frule synced_facts)
    (auto simp: ks_manual_trigger_def Let_def ks_persistent_def split: if_splits elim!: persist_synced)

lemma release_synced:
  "ks_release w t kf = (r, kf') \<Longrightarrow> r \<noteq> Inl OSError \<Longrightarrow> synced S kf \<Longrightarrow> synced S kf'"
  by (frule synced_facts)
    (auto simp: ks_release_def Let_def ks_persistent_def
      split: if_splits option.splits elim!: persist_synced)

lemma release_all_synced:
  "ks_release_all w c kf = (r, kf') \<Longrightarrow> r \<noteq> Inl OSError \<Longrightarrow> synced S kf \<Longrightarrow> synced S kf'"
  by (frule synced_facts)
    (auto simp: ks_release_all_def ks_persistent_def split: if_splits elim!: persist_synced)

lemma evaluate_synced:
  assumes "ks_evaluate w x l kf = (r, kf')" "r \<noteq> Inl OSError" "synced S kf"
  shows "synced S kf'"
proof -
  obtain r1 kf1 where t: "trigger_each w 0 (trips x l) kf = (r1, kf1)" by (metis prod.collapse)
  with assms have "r1 \<noteq> Inl OSError" "kf' = kf1"
    by (auto simp: ks_evaluate_def split: sum.splits)
  with t assms(3) show ?thesis by (auto dest: trigger_each_synced)
qed

lemma switch_call_synced:
  assumes "switch_call w c kf = (r, kf')" "r \<noteq> Inl OSError" "synced S kf"
  shows "synced S kf'"
proof (cases c)
  case (Op_evaluate x l)
  obtain r1 kf1 where e: "ks_evaluate w x l kf = (r1, kf1)" by (metis prod.collapse)
  with Op_evaluate assms have "r1 \<noteq> Inl OSError" "kf' = kf1" by auto
  with e assms(3) show ?thesis by (auto dest: evaluate_synced)
qed (use assms trigger_synced manual_synced release_synced release_all_synced in auto)

interpretation switch_file: guarded_machine switch_step "synced S" for S
  by unfold_locales (auto simp: switch_step_def dest: switch_call_synced split: if_splits prod.splits)

lemma boot_synced:
  assumes "KillSwitch_make S w k f = (Inr (), kf)" "ks_path k = Some p" "distinct (ks_reasons k)"
  shows "synced S kf"
proof -
  have r: "ks_restore S w (k, f) = (Inr (), kf)" and p: "ks_persistent k"
    using assms by (simp_all add: KillSwitch_make_def ks_persistent_def)
  show ?thesis
  proof (cases f)
    case None
    with r p assms(3) show ?thesis by (auto simp: ks_restore_def elim!: persist_synced)
  next
    case (Some c)
    show ?thesis
    proof (cases "decode_state S (ks_version k) c")
      case None
      with r p Some show ?thesis
        by (auto simp: ks_restore_def ks_persistent_def elim!: persist_synced)
    next
      case (Some mr)
      then have "\<exists>xs. snd mr = fromkeys (filter (\<lambda>s. strip s \<noteq> []) xs)"
        by (auto simp: decode_state_def split: option.splits json.splits if_splits)
      then have "distinct (snd mr)" "filter (\<lambda>s. strip s \<noteq> []) (snd mr) = snd mr"
        by (auto simp: distinct_fromkeys intro!: filter_fromkeys)
      with r p Some \<open>f = Some c\<close> show ?thesis
        by (cases mr) (auto simp: ks_restore_def synced_def ks_persistent_def)
    qed
  qed
qed

lemma evaluate_world: "snd (ks_evaluate w x l kf) = snd (trigger_each w 0 (trips x l) kf)"
  by (simp add: ks_evaluate_def split: prod.splits sum.splits)

lemma call_evaluate_world:
  "snd (switch_call w (Op_evaluate x l) kf) = snd (trigger_each w 0 (trips x l) kf)"
  by (simp add: case_prod_unfold Let_def evaluate_world)

lemma trigger_each_keeps:
  assumes "\<And>w t kf. t \<in> set ts \<Longrightarrow> P kf \<Longrightarrow> P (snd (ks_trigger w t kf))" and "P kf"
  shows "P (snd (trigger_each w i ts kf))"
  using assms
proof (induction ts arbitrary: i kf)
  case Nil
  then show ?case by simp
next
  case (Cons t ts)
  obtain r kf1 where t: "ks_trigger (w i) t kf = (r, kf1)" by (metis prod.collapse)
  have "P kf1" using Cons.prems(1) [of t kf "w i"] Cons.prems(2) t by simp
  then have "P (snd (trigger_each w (Suc i) ts kf1))" using Cons by simp
  with t \<open>P kf1\<close> show ?case by (cases r) auto
qed

text \<open>Path and schema version are fixed at construction.\<close>

lemma call_identity:
  "ks_path (fst (snd (switch_call w c kf))) = ks_path (fst kf) \<and>
   ks_version (fst (snd (switch_call w c kf))) = ks_version (fst kf)"
proof (cases c)
  case (Op_evaluate x l)
  let ?P = "\<lambda>kf'. ks_path (fst kf') = ks_path (fst kf) \<and> ks_version (fst kf') = ks_version (fst kf)"
  have "?P (snd (trigger_each w 0 (trips x l) kf))"
    by (rule trigger_each_keeps) (auto simp: ks_trigger_def persist_same)
  with Op_evaluate show ?thesis by (simp only: call_evaluate_world)
qed (auto simp: ks_trigger_def ks_manual_trigger_def ks_release_def ks_release_all_def Let_def
      persist_same split: option.splits)

lemma run_identity:
  "run_steps switch_step kf cs = Inr kf' \<Longrightarrow>
   ks_path (fst kf') = ks_path (fst kf) \<and> ks_version (fst kf') = ks_version (fst kf)"
proof (induction cs arbitrary: kf)
  case Nil
  then show ?case by simp
next
  case (Cons wc cs)
  then obtain kf1 where 1: "switch_step kf wc = Inr kf1" "run_steps switch_step kf1 cs = Inr kf'"
    by (auto simp: res_bind_Inr_iff)
  then have "kf1 = snd (switch_call (fst wc) (snd wc) kf)"
    by (auto simp: switch_step_def split: prod.splits if_splits)
  with call_identity [of "fst wc" "snd wc" kf] Cons.IH [OF 1(2)] show ?case by simp
qed

section \<open>Properties\<close>

text \<open>
  C24. Restart.  A persistent switch is started on whatever the file holds, runs any operations, those
  it refuses among them, and no durable write fails.  A process that then starts on the file, with
  blank fields, restores the manual flag and exactly the non-blank reasons in force, without
  a write; so a switch that has only non-blank reasons is triggered after the restart if
  and only if it was before.
\<close>

theorem restart_keeps_the_block:
  assumes boot: "KillSwitch_make S w (blank_switch (Some p)) f = (Inr (), kf)"
    and run: "run_steps switch_step kf cs = Inr kf'"
  shows "\<exists>k. KillSwitch_make S w' (blank_switch (Some p)) (snd kf') = (Inr (), k, snd kf') \<and>
      ks_manual k = ks_manual (fst kf') \<and>
      ks_reasons k = filter (\<lambda>s. strip s \<noteq> []) (ks_reasons (fst kf')) \<and>
      ((\<forall>s\<in>set (ks_reasons (fst kf')). strip s \<noteq> []) \<longrightarrow> ks_triggered k = ks_triggered (fst kf'))"
proof -
  have start: "synced S kf"
    using boot by (rule boot_synced) (simp_all add: blank_switch_def)
  then have "synced S kf'" using run by (rule switch_file.run_inv)
  then obtain c where c: "snd kf' = Some c"
    "decode_state S (ks_version (fst kf')) c =
        Some (ks_manual (fst kf'), filter (\<lambda>s. strip s \<noteq> []) (ks_reasons (fst kf')))"
    by (auto simp: synced_def)
  have "ks_version (fst kf) = 1"
    using boot by (auto simp: KillSwitch_make_def blank_switch_def ks_restore_def ks_persist_def
        split: option.splits if_splits)
  with run_identity [OF run] have "ks_version (fst kf') = 1" by simp
  with c show ?thesis
    by (simp add: KillSwitch_make_def ks_restore_def blank_switch_def ks_triggered_def)
qed

lemma restart_keeps_the_block_witness:
  "\<exists>k. KillSwitch_make (\<lambda>j. ''x'') True (blank_switch (Some ''ks.json''))
        (snd (blank_switch (Some ''ks.json'')\<lparr>ks_manual := True, ks_reasons := [''drift'', ''desk'']\<rparr>,
          Some (Some (ks_payload (blank_switch (Some ''ks.json'')
             \<lparr>ks_manual := True, ks_reasons := [''drift'', ''desk'']\<rparr>))))) =
        (Inr (), k, Some (Some (ks_payload (blank_switch (Some ''ks.json'')
             \<lparr>ks_manual := True, ks_reasons := [''drift'', ''desk'']\<rparr>)))) \<and> ks_triggered k"
proof -
  let ?b = "blank_switch (Some ''ks.json'')"
  let ?k = "?b\<lparr>ks_manual := True, ks_reasons := [''drift'', ''desk'']\<rparr>"
  have boot: "KillSwitch_make (\<lambda>j. ''x'') True ?b None = (Inr (), ?b, Some (Some (ks_payload ?b)))"
    by code_simp
  have run: "run_steps switch_step (?b, Some (Some (ks_payload ?b)))
      [(\<lambda>i. True, Op_trigger '' drift ''), (\<lambda>i. True, Op_release None), (\<lambda>i. True, Op_manual ''desk'')] =
      Inr (?k, Some (Some (ks_payload ?k)))"
    by code_simp
  have "(\<forall>s\<in>set (ks_reasons ?k). strip s \<noteq> []) \<and> ks_triggered ?k" by code_simp
  with restart_keeps_the_block [OF boot run, of True] show ?thesis
    unfolding fst_conv snd_conv by blast
qed

section \<open>Reasons only leave by name\<close>

text \<open>The operations that may take the reason \<open>r\<close> out of a persistent switch.\<close>

fun clears :: "string \<Rightarrow> switch_op \<Rightarrow> bool" where
  "clears r (Op_release (Some t)) = (strip t = r)"
| "clears r (Op_release_all c) = c"
| "clears r _ = False"

lemma trigger_keeps: "r \<in> set (ks_reasons (fst kf)) \<Longrightarrow>
    r \<in> set (ks_reasons (fst (snd (ks_trigger w t kf))))"
  by (simp add: ks_trigger_def persist_same)

lemma call_keeps:
  assumes "r \<in> set (ks_reasons (fst kf))" "ks_path (fst kf) \<noteq> None" "\<not> clears r c"
  shows "r \<in> set (ks_reasons (fst (snd (switch_call w c kf))))"
proof (cases c)
  case (Op_trigger t)
  with assms show ?thesis by (simp add: trigger_keeps)
next
  case (Op_manual t)
  with assms show ?thesis by (simp add: ks_manual_trigger_def Let_def persist_same)
next
  case (Op_release t)
  with assms show ?thesis
    by (cases t) (auto simp: ks_release_def Let_def persist_same ks_persistent_def)
next
  case (Op_release_all b)
  with assms show ?thesis by (simp add: ks_release_all_def)
next
  case (Op_evaluate x l)
  have "r \<in> set (ks_reasons (fst (snd (trigger_each w 0 (trips x l) kf))))"
    by (rule trigger_each_keeps [where P = "\<lambda>kf. r \<in> set (ks_reasons (fst kf))"])
      (simp_all add: trigger_keeps assms(1))
  with Op_evaluate show ?thesis by (simp only: call_evaluate_world)
qed

lemma run_keeps:
  "r \<in> set (ks_reasons (fst kf)) \<Longrightarrow> ks_path (fst kf) \<noteq> None \<Longrightarrow>
   \<forall>wc\<in>set cs. \<not> clears r (snd wc) \<Longrightarrow> r \<in> set (ks_reasons (fst (switch_run kf cs)))"
proof (induction cs arbitrary: kf)
  case Nil
  then show ?case by simp
next
  case (Cons wc cs)
  obtain w c where wc: "wc = (w, c)" by (cases wc)
  with Cons.prems call_keeps [of r kf c w] call_identity [of w c kf] Cons.IH show ?case by simp
qed

section \<open>Evaluation\<close>

text \<open>One of the thresholds is reached, or one of the failures is reported.\<close>

definition breached :: "readings \<Rightarrow> switch_limits \<Rightarrow> bool" where
  "breached x l \<longleftrightarrow> rd_daily_loss x \<le> - lm_daily_loss l \<or> rd_drawdown x \<le> - lm_drawdown l \<or>
     rd_reconciliation_mismatch x \<or> rd_provider_failure x \<or> rd_audit_write_failure x \<or>
     lm_rejection_rate l < rd_rejection_rate x \<or> lm_turnover l < rd_turnover x"

lemma trips_breached: "trips x l \<noteq> [] \<longleftrightarrow> breached x l"
  by (auto simp: trips_def breached_def)

lemma trips_stripped: "t \<in> set (trips x l) \<Longrightarrow> strip t = t \<and> t \<noteq> []"
proof -
  have "strip ''severe_daily_loss'' = ''severe_daily_loss''" "strip ''severe_drawdown'' = ''severe_drawdown''"
    "strip ''severe_reconciliation_mismatch'' = ''severe_reconciliation_mismatch''"
    "strip ''data_provider_failure'' = ''data_provider_failure''"
    "strip ''audit_write_failure'' = ''audit_write_failure''"
    "strip ''excessive_rejection'' = ''excessive_rejection''"
    "strip ''abnormal_turnover'' = ''abnormal_turnover''" by code_simp+
  then have "list_all (\<lambda>t. strip t = t \<and> t \<noteq> []) (trips x l)" by (simp add: trips_def)
  then show "t \<in> set (trips x l) \<Longrightarrow> strip t = t \<and> t \<noteq> []" by (simp add: list_all_iff)
qed

lemma persist_result: "fst (ks_persist w kf) = Inr () \<or> \<not> w \<and> fst (ks_persist w kf) = Inl OSError"
  by (simp add: ks_persist_def)

lemma trigger_each_world:
  assumes "\<And>t. t \<in> set ts \<Longrightarrow> strip t = t \<and> t \<noteq> []"
  shows "(fst (trigger_each w i ts kf) = Inr () \<or> fst (trigger_each w i ts kf) = Inl OSError \<and> \<not> (\<forall>i. w i)) \<and>
    (ks_triggered (fst (snd (trigger_each w i ts kf))) \<longleftrightarrow> ks_triggered (fst kf) \<or> ts \<noteq> []) \<and>
    (fst (trigger_each w i ts kf) = Inr () \<longrightarrow>
       set (ks_reasons (fst (snd (trigger_each w i ts kf)))) = set (ks_reasons (fst kf)) \<union> set ts)"
  using assms
proof (induction ts arbitrary: i kf)
  case Nil
  then show ?case by simp
next
  case (Cons t ts)
  let ?kf = "(add_reason t (fst kf), snd kf)"
  have t: "ks_trigger (w i) t kf = ks_persist (w i) ?kf"
    using Cons.prems [of t] by (simp add: ks_trigger_def)
  obtain r kf1 where p: "ks_persist (w i) ?kf = (r, kf1)" by (metis prod.collapse)
  have kf1: "fst kf1 = add_reason t (fst kf)" using persist_same [of "w i" ?kf] p by simp
  then have on: "ks_triggered (fst kf1)" by (auto simp: ks_triggered_def add_reason_def)
  show ?case
  proof (cases r)
    case (Inl e)
    with persist_result [of "w i" ?kf] p have "e = OSError \<and> \<not> w i" by simp
    with Inl t p on show ?thesis by auto
  next
    case (Inr u)
    with Cons.IH [of "Suc i" kf1] Cons.prems t p on kf1 show ?thesis by auto
  qed
qed

lemma trips_world:
  "(fst (trigger_each w 0 (trips x l) kf) = Inr () \<or>
      fst (trigger_each w 0 (trips x l) kf) = Inl OSError \<and> \<not> (\<forall>i. w i)) \<and>
    (ks_triggered (fst (snd (trigger_each w 0 (trips x l) kf))) \<longleftrightarrow> ks_triggered (fst kf) \<or> breached x l) \<and>
    (fst (trigger_each w 0 (trips x l) kf) = Inr () \<longrightarrow>
       set (ks_reasons (fst (snd (trigger_each w 0 (trips x l) kf)))) = set (ks_reasons (fst kf)) \<union> set (trips x l))"
  unfolding trips_breached [symmetric] by (rule trigger_each_world) (erule trips_stripped)

text \<open>
  A reason of a persistent switch leaves only when a release names it or a full release is
  confirmed.  Whatever else is called, with writes that fail among it, and whatever is refused, the
  reason is in force afterwards, the switch is triggered, and no evaluation answers that trading may
  go on.
\<close>

lemma no_silent_release:
  assumes "r \<in> set (ks_reasons (fst kf))" and "ks_path (fst kf) \<noteq> None"
    and "\<forall>wc\<in>set cs. \<not> clears r (snd wc)"
  shows "r \<in> set (ks_reasons (fst (switch_run kf cs))) \<and> ks_triggered (fst (switch_run kf cs)) \<and>
    fst (ks_evaluate w x l (switch_run kf cs)) \<noteq> Inr False"
proof -
  let ?kf = "switch_run kf cs"
  have r: "r \<in> set (ks_reasons (fst ?kf))" using assms by (rule run_keeps)
  then have on: "ks_triggered (fst ?kf)" by (auto simp: ks_triggered_def)
  with trips_world [of w x l ?kf]
  have "ks_triggered (fst (snd (trigger_each w 0 (trips x l) ?kf)))" by blast
  then have "fst (ks_evaluate w x l ?kf) \<noteq> Inr False"
    by (auto simp: ks_evaluate_def split: prod.splits sum.splits)
  with r on show ?thesis by blast
qed

text \<open>
  An evaluation trips the switch exactly when a threshold is reached or a failure reported,
  and answers whether it is triggered; the only exception is that of a durable write, and then too the
  switch is triggered in memory.  With writes that succeed, the reasons are the old ones
  and one for every breach.
\<close>

lemma evaluate_trips_exactly:
  "(ks_triggered (fst (snd (ks_evaluate w x l kf))) = (ks_triggered (fst kf) \<or> breached x l)) \<and>
   fst (ks_evaluate w x l kf) \<in> {Inl OSError, Inr (ks_triggered (fst kf) \<or> breached x l)} \<and>
   fst (ks_evaluate (\<lambda>i. True) x l kf) = Inr (ks_triggered (fst kf) \<or> breached x l) \<and>
   set (ks_reasons (fst (snd (ks_evaluate (\<lambda>i. True) x l kf)))) =
     set (ks_reasons (fst kf)) \<union> set (trips x l)"
proof -
  note each = trips_world [of _ x l kf]
  have res: "fst (ks_evaluate w x l kf) = (case fst (trigger_each w 0 (trips x l) kf) of
      Inl e \<Rightarrow> Inl e | Inr u \<Rightarrow> Inr (ks_triggered (fst (snd (ks_evaluate w x l kf)))))" for w
    by (simp add: ks_evaluate_def split: prod.splits sum.splits)
  have on: "ks_triggered (fst (snd (ks_evaluate w x l kf))) = (ks_triggered (fst kf) \<or> breached x l)" for w
    using each [of w] by (simp add: evaluate_world)
  have "fst (trigger_each (\<lambda>i. True) 0 (trips x l) kf) = Inr ()"
    using each [of "\<lambda>i. True"] by auto
  moreover have "fst (trigger_each w 0 (trips x l) kf) \<in> {Inl OSError, Inr ()}"
    using each [of w] by auto
  moreover have "set (ks_reasons (fst (snd (ks_evaluate (\<lambda>i. True) x l kf)))) =
      set (ks_reasons (fst kf)) \<union> set (trips x l)"
    using each [of "\<lambda>i. True"] by (simp add: evaluate_world)
  ultimately show ?thesis unfolding res on by auto
qed

section \<open>Two reasons the switch cannot handle\<close>

text \<open>
  \<open>manual_trigger\<close> stores its reason as it is given, and \<open>release\<close> compares with the stripped
  text: a reason with white space around it can only be removed with all the others.
\<close>

lemma padded_reason_sticks:
  "(let kf = snd (ks_manual_trigger True '' desk '' (blank_switch (Some ''ks.json''), None));
        kf' = snd (ks_release True (Some '' desk '') kf);
        kf'' = snd (ks_release True (Some MANUAL_REASON) kf')
    in ks_reasons (fst kf'') = ['' desk ''] \<and> \<not> ks_manual (fst kf''))"
  by code_simp

text \<open>
  A blank reason blocks the running process after its manual flag is released, but not the next
  one: the restored reasons leave it out.
\<close>

lemma blank_reason_lost_on_restart:
  "(let kf = snd (ks_manual_trigger True '' '' (blank_switch (Some ''ks.json''), None));
        kf' = snd (ks_release True (Some MANUAL_REASON) kf);
        kf'' = snd (KillSwitch_make (\<lambda>j. []) True (blank_switch (Some ''ks.json'')) (snd kf'))
    in ks_triggered (fst kf') \<and> \<not> ks_triggered (fst kf''))"
  by code_simp

end
