(* ===== verification/Operating_Mode.thy ===== *)
theory Operating_Mode
  imports Prelude
begin

text \<open>
  The operating modes and the live-order rejection boundary of
  \<open>src/src/quantagent/safety/operating_mode.py\<close>.  Text is a list of bytes, with the characters above
  127 in UTF-8; a substring search on it finds what the search on characters finds.  White space and
  case are those of ASCII.  The payload is a JSON value; a tuple is a list, a set the list of its elements in
  iteration order.  The iteration order of the frozenset of exemptions is the parameter \<open>ex\<close>.
\<close>

section \<open>Modes\<close>

definition RESEARCH :: string where "RESEARCH = ''RESEARCH''"
definition HISTORICAL_REPLAY :: string where "HISTORICAL_REPLAY = ''HISTORICAL_REPLAY''"
definition BACKTEST :: string where "BACKTEST = ''BACKTEST''"
definition PAPER :: string where "PAPER = ''PAPER''"
definition SHADOW :: string where "SHADOW = ''SHADOW''"
definition LIVE_DISABLED :: string where "LIVE_DISABLED = ''LIVE_DISABLED''"

definition OPERATING_MODES :: "string list" where
  "OPERATING_MODES = [RESEARCH, HISTORICAL_REPLAY, BACKTEST, PAPER, SHADOW, LIVE_DISABLED]"

definition EXECUTABLE_MODES :: "string list" where
  "EXECUTABLE_MODES = [RESEARCH, HISTORICAL_REPLAY, BACKTEST, PAPER, SHADOW]"

definition ORDER_SIMULATING_MODES :: "string list" where
  "ORDER_SIMULATING_MODES = [HISTORICAL_REPLAY, PAPER, SHADOW]"

definition POLICY_BANNER :: string where
  "POLICY_BANNER = ''LIVE TRADING: DISABLED BY POLICY''"

definition PAPER_BANNER_LINES :: "string list" where
  "PAPER_BANNER_LINES = [''LOCAL PAPER ONLY'', ''NO ARMED BROKER ROUTE'', ''NO REAL ORDERS FROM PRODUCT SURFACES'']"

section \<open>Live-intent markers\<close>

definition CHINESE_LIVE_MARKERS :: "string list" where
  "CHINESE_LIVE_MARKERS =
    [[CHR 0xE5, CHR 0xAE, CHR 0x9E, CHR 0xE7, CHR 0x9B, CHR 0x98],
      [CHR 0xE7, CHR 0x9C, CHR 0x9F, CHR 0xE5, CHR 0xAE, CHR 0x9E,
         CHR 0xE4, CHR 0xB8, CHR 0x8B, CHR 0xE5, CHR 0x8D, CHR 0x95],
      [CHR 0xE8, CHR 0xBF, CHR 0x9E, CHR 0xE6, CHR 0x8E, CHR 0xA5, CHR 0xE8, CHR 0xB5, CHR 0x84,
         CHR 0xE9, CHR 0x87, CHR 0x91, CHR 0xE8, CHR 0xB4, CHR 0xA6, CHR 0xE6, CHR 0x88, CHR 0xB7],
      [CHR 0xE8, CHR 0x87, CHR 0xAA, CHR 0xE5, CHR 0x8A, CHR 0xA8,
         CHR 0xE4, CHR 0xB9, CHR 0xB0, CHR 0xE5, CHR 0x85, CHR 0xA5],
      [CHR 0xE8, CHR 0x87, CHR 0xAA, CHR 0xE5, CHR 0x8A, CHR 0xA8,
         CHR 0xE5, CHR 0x8D, CHR 0x96, CHR 0xE5, CHR 0x87, CHR 0xBA],
      [CHR 0xE7, CHR 0x9C, CHR 0x9F, CHR 0xE5, CHR 0xAE, CHR 0x9E,
         CHR 0xE5, CHR 0xA7, CHR 0x94, CHR 0xE6, CHR 0x89, CHR 0x98],
      [CHR 0xE7, CHR 0x9C, CHR 0x9F, CHR 0xE5, CHR 0xAE, CHR 0x9E,
         CHR 0xE4, CHR 0xBA, CHR 0xA4, CHR 0xE6, CHR 0x98, CHR 0x93],
      [CHR 0xE8, CHR 0xB5, CHR 0x84, CHR 0xE9, CHR 0x87, CHR 0x91,
         CHR 0xE8, CHR 0xB4, CHR 0xA6, CHR 0xE6, CHR 0x88, CHR 0xB7],
      [CHR 0xE5, CHR 0xAE, CHR 0x9E, CHR 0xE7, CHR 0x9B, CHR 0x98,
         CHR 0xE4, CHR 0xBA, CHR 0xA4, CHR 0xE6, CHR 0x98, CHR 0x93],
      [CHR 0xE7, CHR 0x9C, CHR 0x9F, CHR 0xE5, CHR 0xAE, CHR 0x9E,
         CHR 0xE8, CHR 0xB4, CHR 0xA6, CHR 0xE6, CHR 0x88, CHR 0xB7],
      [CHR 0xE4, CHR 0xB8, CHR 0x8B, CHR 0xE7, CHR 0x9C, CHR 0x9F, CHR 0xE5, CHR 0x8D, CHR 0x95]]"

definition ENGLISH_LIVE_MARKERS :: "string list" where
  "ENGLISH_LIVE_MARKERS =
    [''live trading'', ''live_trading'', ''real order'', ''real_order'',
     ''real money'', ''real-money'', ''real account'', ''real_account'',
     ''broker login'', ''broker_login'', ''account login'', ''place real'',
     ''enable_live'', ''enable live'', ''go live'', ''production trading'']"

definition FORBIDDEN_API_MARKERS :: "string list" where
  "FORBIDDEN_API_MARKERS =
    [''order_stock_async'', ''order_stock'', ''xtquanttrader'', ''xt_trader'',
     ''order_send'', ''ordersendasync'', ''cancel_order_stock'', ''connect_broker'',
     ''brokerapi'', ''tradeapi.buy'', ''tradeapi.sell'']"

definition ALL_LIVE_MARKERS :: "string list" where
  "ALL_LIVE_MARKERS = CHINESE_LIVE_MARKERS @ ENGLISH_LIVE_MARKERS @ FORBIDDEN_API_MARKERS"

definition EXEMPT_CONTEXTS :: "string list" where
  "EXEMPT_CONTEXTS =
    [''l2order'', ''l2orderqueue'', ''order_event'', ''order_book'',
     ''orderbook'', ''order_flow'', ''orders.parquet'', ''order_ledger'',
     ''simulated_order'', ''paper_order'', ''order_intent'']"

section \<open>Scanning\<close>

fun has_prefix :: "string \<Rightarrow> string \<Rightarrow> bool" where
  "has_prefix [] s = True"
| "has_prefix (p # ps) [] = False"
| "has_prefix (p # ps) (c # s) = (p = c \<and> has_prefix ps s)"

text \<open>\<open>needle in text\<close>\<close>

fun occurs_in :: "string \<Rightarrow> string \<Rightarrow> bool" where
  "occurs_in p [] = (p = [])"
| "occurs_in p (c # s) = (has_prefix p (c # s) \<or> occurs_in p s)"

text \<open>\<open>text.replace(old, "")\<close>, from the left and without overlaps; no \<open>old\<close> below is empty.\<close>

fun erase_from :: "string \<Rightarrow> nat \<Rightarrow> string \<Rightarrow> string" where
  "erase_from old skip [] = []"
| "erase_from old (Suc skip) (c # s) = erase_from old skip s"
| "erase_from old 0 (c # s) =
     (if old \<noteq> [] \<and> has_prefix old (c # s) then erase_from old (length old - 1) s
      else c # erase_from old 0 s)"

definition erase_all :: "string \<Rightarrow> string \<Rightarrow> string" where
  "erase_all old s = erase_from old 0 s"

text \<open>\<open>re.sub(r"[...]+", " ", text)\<close>: every maximal run of characters of the class becomes one space.\<close>

fun squeeze :: "(char \<Rightarrow> bool) \<Rightarrow> bool \<Rightarrow> string \<Rightarrow> string" where
  "squeeze P inside [] = []"
| "squeeze P inside (c # s) =
     (if P c then (if inside then squeeze P True s else CHR '' '' # squeeze P True s)
      else c # squeeze P False s)"

definition separator :: "char \<Rightarrow> bool" where
  "separator c \<longleftrightarrow> c \<in> {CHR ''-'', CHR ''_'', CHR ''.'', CHR ''/''}"

definition haystacks :: "string \<Rightarrow> string list" where
  "haystacks text =
     (let lowered = lower (strip (squeeze py_space False text));
          flattened = strip (squeeze py_space False (squeeze separator False lowered))
      in if flattened \<noteq> lowered then [lowered, flattened] else [lowered])"

definition with_spaces :: "string \<Rightarrow> string" where
  "with_spaces s = map (\<lambda>c. if c = CHR ''_'' then CHR '' '' else c) s"

definition erase_exempt :: "string list \<Rightarrow> string \<Rightarrow> string" where
  "erase_exempt ex h = fold (\<lambda>e h. erase_all (with_spaces e) (erase_all e h)) ex h"

definition marker_in :: "string \<Rightarrow> string option" where
  "marker_in h = List.find (\<lambda>m. occurs_in (lower m) h) ALL_LIVE_MARKERS"

fun first_hit :: "string option list \<Rightarrow> string option" where
  "first_hit [] = None"
| "first_hit (None # hs) = first_hit hs"
| "first_hit (Some m # hs) = Some m"

definition scan_text :: "string list \<Rightarrow> string \<Rightarrow> string option" where
  "scan_text ex text = first_hit (map (\<lambda>h. marker_in (erase_exempt ex h)) (haystacks text))"

fun scan_for_live_intent :: "string list \<Rightarrow> json \<Rightarrow> string option" where
  "scan_for_live_intent ex (JStr s) = scan_text ex s"
| "scan_for_live_intent ex (JObj d) =
     first_hit (map (\<lambda>p. first_hit [scan_text ex (fst p), scan_for_live_intent ex (snd p)]) d)"
| "scan_for_live_intent ex (JList xs) = first_hit (map (scan_for_live_intent ex) xs)"
| "scan_for_live_intent ex JNull = None"
| "scan_for_live_intent ex (JBool b) = None"
| "scan_for_live_intent ex (JInt n) = None"
| "scan_for_live_intent ex (JNum x) = None"

definition reject_live_intent :: "string list \<Rightarrow> json \<Rightarrow> unit res" where
  "reject_live_intent ex payload =
     (case scan_for_live_intent ex payload of None \<Rightarrow> Inr () | Some m \<Rightarrow> Inl LiveTradingRejected)"

section \<open>The state of the mode\<close>

record mode_state =
  ms_mode :: string
  ms_declared_at :: string
  ms_live_trading_available :: bool
  ms_banner :: string

definition OperatingModeState_make :: "string \<Rightarrow> string \<Rightarrow> bool \<Rightarrow> string \<Rightarrow> mode_state res" where
  "OperatingModeState_make mode declared_at live banner =
     (if mode \<notin> set OPERATING_MODES then Inl ValueError
      else if live then Inl ValueError
      else Inr \<lparr>ms_mode = mode, ms_declared_at = declared_at, ms_live_trading_available = live, ms_banner = banner\<rparr>)"

definition executable :: "mode_state \<Rightarrow> bool" where
  "executable m \<longleftrightarrow> ms_mode m \<in> set EXECUTABLE_MODES"

definition simulates_orders :: "mode_state \<Rightarrow> bool" where
  "simulates_orders m \<longleftrightarrow> ms_mode m \<in> set ORDER_SIMULATING_MODES"

definition require_executable :: "mode_state \<Rightarrow> unit res" where
  "require_executable m = (if \<not> executable m then Inl ModeViolation else Inr ())"

definition require_order_simulation :: "mode_state \<Rightarrow> unit res" where
  "require_order_simulation m =
     res_bind (require_executable m) (\<lambda>u. if \<not> simulates_orders m then Inl ModeViolation else Inr ())"

definition mode_to_dict :: "mode_state \<Rightarrow> json" where
  "mode_to_dict m = JObj
     [(''mode'', JStr (ms_mode m)),
      (''declared_at'', JStr (ms_declared_at m)),
      (''live_trading_available'', JBool (ms_live_trading_available m)),
      (''banner'', JStr (ms_banner m)),
      (''executable'', JBool (executable m)),
      (''simulatesOrders'', JBool (simulates_orders m)),
      (''paperBannerLines'', JList (map JStr PAPER_BANNER_LINES))]"

definition policy_state :: "string \<Rightarrow> mode_state res" where
  "policy_state now = OperatingModeState_make LIVE_DISABLED now False POLICY_BANNER"

end
