(* ===== verification/Mode_Props.thy ===== *)
theory Mode_Props
  imports Operating_Mode
begin

text \<open>
  The live-order boundary: wherever a marker stands in a payload, in whatever case and with whatever
  white space, the payload is refused, unless an exempt context is in the same text; and the modes that
  may run.
\<close>

section \<open>Texts of a payload\<close>

text \<open>Every string of a payload: values and keys, at any depth.\<close>

fun texts :: "json \<Rightarrow> string set" where
  "texts (JStr s) = {s}"
| "texts (JObj d) = (\<Union>p\<in>set d. insert (fst p) (texts (snd p)))"
| "texts (JList xs) = (\<Union>x\<in>set xs. texts x)"
| "texts _ = {}"

lemma first_hit_None: "first_hit hs = None \<longleftrightarrow> (\<forall>h\<in>set hs. h = None)"
  by (induction hs rule: first_hit.induct) auto

lemma scan_None_iff:
  "scan_for_live_intent ex payload = None \<longleftrightarrow> (\<forall>s\<in>texts payload. scan_text ex s = None)"
  by (induction ex payload rule: scan_for_live_intent.induct) (auto simp: first_hit_None)

lemma reject_iff:
  "reject_live_intent ex payload = Inr () \<longleftrightarrow> (\<forall>s\<in>texts payload. scan_text ex s = None)"
  "reject_live_intent ex payload = Inl LiveTradingRejected \<longleftrightarrow> (\<exists>s\<in>texts payload. scan_text ex s \<noteq> None)"
  using scan_None_iff [of ex payload] by (auto simp: reject_live_intent_def split: option.splits)

section \<open>Markers survive the normalisation\<close>

lemma has_prefix_append: "has_prefix p (p @ s)"
  by (induction p) auto

lemma occurs_in_prefix: "has_prefix p s \<Longrightarrow> occurs_in p s"
  by (cases s; cases p) auto

lemma occurs_in_append: "occurs_in p (a @ p @ b)"
  by (induction a) (auto intro: occurs_in_prefix has_prefix_append)

lemma erase_from_absent: "\<not> occurs_in old s \<Longrightarrow> erase_from old 0 s = s"
  by (induction s) auto

lemma erase_exempt_absent:
  "\<forall>e\<in>set ex. \<not> occurs_in e h \<and> \<not> occurs_in (with_spaces e) h \<Longrightarrow> erase_exempt ex h = h"
  unfolding erase_exempt_def by (induction ex) (auto simp: erase_all_def erase_from_absent)

lemma squeeze_append:
  "squeeze P i (a @ b) = squeeze P i a @ squeeze P (if a = [] then i else P (last a)) b"
  by (induction a arbitrary: i) auto

lemma squeeze_start: "s \<noteq> [] \<Longrightarrow> \<not> P (hd s) \<Longrightarrow> squeeze P i s = squeeze P False s"
  by (cases s) auto

lemma squeeze_hd: "s \<noteq> [] \<Longrightarrow> squeeze P False s \<noteq> [] \<and> hd (squeeze P False s) = (if P (hd s) then CHR '' '' else hd s)"
  by (cases s) auto

lemma squeeze_last:
  "s \<noteq> [] \<Longrightarrow> \<not> i \<Longrightarrow> P (last s) \<Longrightarrow> P (CHR '' '') \<Longrightarrow> P (last (squeeze P i s))"
proof (induction s rule: rev_induct)
  case Nil
  then show ?case by simp
next
  case (snoc c s)
  show ?case
  proof (cases "s = []")
    case False
    with snoc show ?thesis by (cases "P (last s)") (simp_all add: squeeze_append)
  qed (use snoc in simp)
qed

lemma dropWhile_infix:
  assumes "n \<noteq> []" "\<not> P (hd n)"
  shows "\<exists>a'. dropWhile P (a @ n @ b) = a' @ n @ b"
proof (induction a)
  case Nil
  from assms have "dropWhile P (n @ b) = n @ b" by (cases n) auto
  then show ?case by auto
next
  case (Cons x a)
  then show ?case by (cases "P x") auto
qed

lemma strip_infix:
  assumes "n \<noteq> []" "\<not> py_space (hd n)" "\<not> py_space (last n)"
  shows "\<exists>a' b'. strip (a @ n @ b) = a' @ n @ b'"
proof -
  obtain a' where a: "dropWhile py_space (a @ n @ b) = a' @ n @ b"
    using dropWhile_infix [of n py_space a b] assms by blast
  obtain b' where "dropWhile py_space (rev b @ rev n @ rev a') = b' @ rev n @ rev a'"
    using dropWhile_infix [of "rev n" py_space "rev b" "rev a'"] assms by (auto simp: hd_rev)
  with a have "strip (a @ n @ b) = a' @ n @ rev b'" by (simp add: strip_def)
  then show ?thesis by blast
qed

lemma py_space_blank: "py_space (CHR '' '')"
  by (simp add: py_space_def)

text \<open>\<open>t\<close> spells the marker \<open>m\<close>: up to case, and with any white space for its blanks.\<close>

definition spells :: "string \<Rightarrow> string \<Rightarrow> bool" where
  "spells t m \<longleftrightarrow> lower (squeeze py_space False t) = lower m"

lemma marker_survives:
  assumes "spells t m" "m \<noteq> []" "\<not> py_space (hd m)" "\<not> py_space (last m)"
  shows "occurs_in (lower m) (lower (strip (squeeze py_space False (a @ t @ b))))"
proof -
  let ?n = "squeeze py_space False t"
  have n: "lower ?n = lower m" using assms(1) by (simp add: spells_def)
  then have "?n \<noteq> []" using assms(2) by (auto simp: lower_def)
  then have ends: "\<not> py_space (hd ?n)" "\<not> py_space (last ?n)"
    using arg_cong [OF n, of "\<lambda>s. py_space (hd s)"] arg_cong [OF n, of "\<lambda>s. py_space (last s)"] assms
    by (simp_all add: lower_def hd_map last_map lower_space)
  have t: "t \<noteq> []" using \<open>?n \<noteq> []\<close> by auto
  then have start: "\<not> py_space (hd t)" using squeeze_hd [of t py_space] ends py_space_blank by auto
  obtain x y where "squeeze py_space False (a @ t @ b) = x @ ?n @ y"
    using squeeze_append [of py_space False a "t @ b"] squeeze_append [of py_space _ t b]
      squeeze_start [of t py_space, OF t start] by metis
  then obtain x' y' where "strip (squeeze py_space False (a @ t @ b)) = x' @ ?n @ y'"
    using strip_infix [OF \<open>?n \<noteq> []\<close> ends] by metis
  then have "lower (strip (squeeze py_space False (a @ t @ b))) = lower x' @ lower m @ lower y'"
    using n by (simp add: lower_def)
  then show ?thesis by (simp add: occurs_in_append)
qed

lemma markers_solid: "m \<in> set ALL_LIVE_MARKERS \<Longrightarrow> m \<noteq> [] \<and> \<not> py_space (hd m) \<and> \<not> py_space (last m)"
proof -
  have "list_all (\<lambda>m. m \<noteq> [] \<and> \<not> py_space (hd m) \<and> \<not> py_space (last m)) ALL_LIVE_MARKERS"
    by code_simp
  then show "m \<in> set ALL_LIVE_MARKERS \<Longrightarrow> m \<noteq> [] \<and> \<not> py_space (hd m) \<and> \<not> py_space (last m)"
    by (simp add: list_all_iff)
qed

lemma scan_text_hit:
  assumes "m \<in> set ALL_LIVE_MARKERS" "h \<in> set (haystacks s)" "occurs_in (lower m) (erase_exempt ex h)"
  shows "scan_text ex s \<noteq> None"
proof -
  have "marker_in (erase_exempt ex h) \<noteq> None"
    using assms by (auto simp: marker_in_def find_None_iff)
  with assms(2) show ?thesis by (auto simp: scan_text_def first_hit_None)
qed

section \<open>Properties\<close>

text \<open>
  Live intent is refused.  A payload is refused when any of its texts, at any depth and as a key
  too, spells a marker, in whatever case and with whatever white space, and the normalised text holds no
  exempt context; whatever the order in which the exemptions are tried.
\<close>

lemma live_intent_refused:
  assumes "s \<in> texts payload" and "s = a @ t @ b" and "m \<in> set ALL_LIVE_MARKERS" and "spells t m"
    and "\<forall>e\<in>set ex. \<not> occurs_in e (hd (haystacks s)) \<and> \<not> occurs_in (with_spaces e) (hd (haystacks s))"
  shows "reject_live_intent ex payload = Inl LiveTradingRejected"
proof -
  let ?h = "lower (strip (squeeze py_space False s))"
  have h: "hd (haystacks s) = ?h" "?h \<in> set (haystacks s)" by (simp_all add: haystacks_def Let_def)
  have "occurs_in (lower m) ?h"
    using marker_survives [OF assms(4), of a b] markers_solid [OF assms(3)] assms(2) by simp
  moreover have "erase_exempt ex ?h = ?h"
    using assms(5) by (intro erase_exempt_absent) (simp add: h)
  ultimately have "scan_text ex s \<noteq> None"
    using scan_text_hit [OF assms(3) h(2)] by simp
  with assms(1) show ?thesis by (auto simp: reject_iff)
qed

text \<open>
  The exemptions are erased before the search, so an exempt word next to a marker takes part of the marker
  with it.
\<close>

lemma exemption_hides_marker:
  "reject_live_intent EXEMPT_CONTEXTS (JStr ''submit a real order_intent now'') = Inr () \<and>
   reject_live_intent EXEMPT_CONTEXTS (JStr ''submit a real order now'') = Inl LiveTradingRejected"
  by code_simp

text \<open>
  No state can be made with live trading available; the terminal state is not executable, and
  a state that may simulate orders is executable.
\<close>

lemma mode_state_facts:
  "OperatingModeState_make mode at_time live banner = Inr m \<Longrightarrow>
     \<not> ms_live_trading_available m \<and> (executable m \<longleftrightarrow> mode \<noteq> LIVE_DISABLED) \<and>
     (require_order_simulation m = Inr () \<longleftrightarrow> simulates_orders m)"
  by (auto simp: OperatingModeState_make_def executable_def simulates_orders_def OPERATING_MODES_def
      EXECUTABLE_MODES_def ORDER_SIMULATING_MODES_def require_order_simulation_def
      require_executable_def RESEARCH_def HISTORICAL_REPLAY_def BACKTEST_def PAPER_def SHADOW_def
      LIVE_DISABLED_def split: if_splits)

end
