(* ===== verification/Parent_Child.thy ===== *)
theory Parent_Child
  imports Timeline
begin

text \<open>
  Parent and child execution planning of \<open>src/src/quantagent/execution/parent_child.py\<close>: the parent
  order and its canonical form, the durable snapshot with its verification, the allocation of static
  schedules, and the releases and acknowledgements of the engine.

  Timestamps and the session date are taken after their parse (\<open>moment\<close> and day number).  The digests
  are parameters: \<open>D\<close> of a snapshot without its own digest, \<open>K\<close> of the material of a child id.
  The file is \<open>None\<close> when absent, \<open>Some None\<close> when its text does not parse or a field has the wrong type, and
  otherwise the snapshot the text describes.  A snapshot write may be lost, or land and raise
  at the final directory sync.  The lock makes a store operation one step.
\<close>

definition PARENT_EXECUTION_SCHEMA :: string where
  "PARENT_EXECUTION_SCHEMA = ''quantagent.execution.parent_child.v3''"

datatype execution_algorithm = TWAP | VWAP | POV | ICEBERG

datatype child_status = Planned | Released | Partial | Filled | Cancelled | Rejected

definition ACTIVE_CHILD_STATUSES :: "child_status list" where
  "ACTIVE_CHILD_STATUSES = [Released, Partial]"

definition TERMINAL_CHILD_STATUSES :: "child_status list" where
  "TERMINAL_CHILD_STATUSES = [Filled, Cancelled, Rejected]"

definition parse_time :: "moment \<Rightarrow> moment res" where
  "parse_time m = (if mo_offset m = None then Inl ParentExecutionError else Inr m)"

fun strictly_increasing :: "moment list \<Rightarrow> bool" where
  "strictly_increasing (l # r # rest) = (mo_instant l < mo_instant r \<and> strictly_increasing (r # rest))"
| "strictly_increasing _ = True"

definition canonical_times :: "moment list \<Rightarrow> int \<Rightarrow> moment list res" where
  "canonical_times values session_date =
     res_bind (map_res parse_time values) (\<lambda>parsed.
       if parsed = [] then Inl ParentExecutionError
       else if \<exists>item\<in>set parsed. local_date item \<noteq> session_date then Inl ParentExecutionError
       else if \<not> strictly_increasing parsed then Inl ParentExecutionError
       else Inr parsed)"

definition normalise_profile :: "rat list \<Rightarrow> nat \<Rightarrow> rat list res" where
  "normalise_profile values n =
     (if length values \<noteq> n then Inl ParentExecutionError
      else if \<exists>v\<in>set values. v < 0 then Inl ParentExecutionError
      else if sum_list values \<le> 0 then Inl ParentExecutionError
      else Inr (map (\<lambda>v. v / sum_list values) values))"

definition child_lineage_id :: "string \<Rightarrow> string \<Rightarrow> string res" where
  "child_lineage_id parent_id child_id =
     (if strip parent_id = [] \<or> strip child_id = [] then Inl ParentExecutionError
      else Inr (''parent:'' @ strip parent_id @ '':child:'' @ strip child_id))"

section \<open>The parent order\<close>

record parent_spec =
  po_parent_id :: string
  po_session_date :: int
  po_symbol :: string
  po_side :: string
  po_total_quantity :: int
  po_algorithm :: execution_algorithm
  po_schedule_times :: "moment list"
  po_volume_profile :: "rat list"
  po_participation_rate :: "rat option"
  po_display_quantity :: "int option"
  po_max_child_quantity :: "int option"
  po_lot_size :: int
  po_signal_id :: string
  po_strategy_version :: string

definition is_static :: "execution_algorithm \<Rightarrow> bool" where
  "is_static a \<longleftrightarrow> a = TWAP \<or> a = VWAP"

definition canonical_schedule :: "parent_spec \<Rightarrow> (moment list \<times> rat list) res" where
  "canonical_schedule p =
     (if is_static (po_algorithm p) then
        res_bind (canonical_times (po_schedule_times p) (po_session_date p)) (\<lambda>schedule.
          if po_algorithm p = VWAP then
            res_bind (normalise_profile (po_volume_profile p) (length schedule)) (\<lambda>profile.
              Inr (schedule, profile))
          else if po_volume_profile p \<noteq> [] then Inl ParentExecutionError
          else Inr (schedule, []))
      else if po_schedule_times p \<noteq> [] \<or> po_volume_profile p \<noteq> [] then Inl ParentExecutionError
      else Inr ([], []))"

definition canonical_participation :: "parent_spec \<Rightarrow> rat option res" where
  "canonical_participation p =
     (if po_algorithm p = POV then
        (case po_participation_rate p of
           None \<Rightarrow> Inl ParentExecutionError
         | Some r \<Rightarrow> if 0 < r \<and> r \<le> 1 then Inr (Some r) else Inl ParentExecutionError)
      else if po_participation_rate p \<noteq> None then Inl ParentExecutionError
      else Inr None)"

definition lot_multiple :: "int \<Rightarrow> int \<Rightarrow> bool" where
  "lot_multiple lot n \<longleftrightarrow> 0 < n \<and> n mod lot = 0"

definition canonical_display :: "parent_spec \<Rightarrow> int option res" where
  "canonical_display p =
     (if po_algorithm p = ICEBERG then
        (case po_display_quantity p of
           None \<Rightarrow> Inl ParentExecutionError
         | Some d \<Rightarrow> if lot_multiple (po_lot_size p) d then Inr (Some d) else Inl ParentExecutionError)
      else if po_display_quantity p \<noteq> None then Inl ParentExecutionError
      else Inr None)"

definition canonical_max_child :: "parent_spec \<Rightarrow> int option res" where
  "canonical_max_child p =
     (case po_max_child_quantity p of
        None \<Rightarrow> Inr None
      | Some m \<Rightarrow> if lot_multiple (po_lot_size p) m then Inr (Some m) else Inl ParentExecutionError)"

definition canonical :: "parent_spec \<Rightarrow> parent_spec res" where
  "canonical p =
     (let parent_id = strip (po_parent_id p); symbol = strip (po_symbol p); sd = lower (strip (po_side p)) in
      if parent_id = [] \<or> symbol = [] then Inl ParentExecutionError
      else if sd \<noteq> ''buy'' \<and> sd \<noteq> ''sell'' then Inl ParentExecutionError
      else if po_total_quantity p \<le> 0 \<or> po_lot_size p \<le> 0 then Inl ParentExecutionError
      else if po_total_quantity p mod po_lot_size p \<noteq> 0 then Inl ParentExecutionError
      else res_bind (canonical_schedule p) (\<lambda>(schedule, profile).
           res_bind (canonical_participation p) (\<lambda>participation.
           res_bind (canonical_display p) (\<lambda>display.
           res_bind (canonical_max_child p) (\<lambda>max_child.
             Inr (p\<lparr>po_parent_id := parent_id, po_symbol := symbol, po_side := sd,
                    po_schedule_times := schedule, po_volume_profile := profile,
                    po_participation_rate := participation, po_display_quantity := display,
                    po_max_child_quantity := max_child\<rparr>))))))"

section \<open>Children and the snapshot\<close>

record child_execution =
  ch_child_id :: string
  ch_sequence :: int
  ch_quantity :: int
  ch_scheduled_at :: moment
  ch_status :: child_status
  ch_filled_quantity :: int
  ch_last_updated_at :: "moment option"

definition ch_outstanding :: "child_execution \<Rightarrow> int" where
  "ch_outstanding c =
     (if ch_status c \<in> set TERMINAL_CHILD_STATUSES \<or> ch_status c = Planned then 0
      else max 0 (ch_quantity c - ch_filled_quantity c))"

record parent_state =
  ps_schema_version :: string
  ps_parent :: parent_spec
  ps_children :: "child_execution list"
  ps_last_volume :: int
  ps_revision :: int
  ps_created_at :: "moment option"
  ps_updated_at :: "moment option"
  ps_sha256 :: string

definition ps_filled :: "parent_state \<Rightarrow> int" where
  "ps_filled st = sum_list (map ch_filled_quantity (ps_children st))"

definition ps_outstanding :: "parent_state \<Rightarrow> int" where
  "ps_outstanding st = sum_list (map ch_outstanding (ps_children st))"

definition ps_remaining :: "parent_state \<Rightarrow> int" where
  "ps_remaining st = max 0 (po_total_quantity (ps_parent st) - ps_filled st)"

definition ps_committed :: "parent_state \<Rightarrow> int" where
  "ps_committed st = ps_filled st + ps_outstanding st"

definition ps_complete :: "parent_state \<Rightarrow> bool" where
  "ps_complete st \<longleftrightarrow> po_total_quantity (ps_parent st) \<le> ps_filled st"

type_synonym state_digest = "parent_state \<Rightarrow> string"
type_synonym child_digest = "string \<Rightarrow> int \<Rightarrow> int \<Rightarrow> int \<Rightarrow> moment \<Rightarrow> string"

definition payload_digest :: "state_digest \<Rightarrow> parent_state \<Rightarrow> string" where
  "payload_digest D st = D (st\<lparr>ps_sha256 := []\<rparr>)"

definition with_digest :: "state_digest \<Rightarrow> parent_state \<Rightarrow> parent_state" where
  "with_digest D st = st\<lparr>ps_sha256 := payload_digest D st\<rparr>"

fun verify_children :: "parent_spec \<Rightarrow> nat \<Rightarrow> string list \<Rightarrow> child_execution list \<Rightarrow> unit res" where
  "verify_children p expected seen [] = Inr ()"
| "verify_children p expected seen (c # rest) =
     (if ch_child_id c \<in> set seen then Inl ParentExecutionCorruption
      else if ch_sequence c \<noteq> int expected then Inl ParentExecutionCorruption
      else if \<not> lot_multiple (po_lot_size p) (ch_quantity c) then Inl ParentExecutionCorruption
      else if ch_filled_quantity c < 0 \<or> ch_quantity c < ch_filled_quantity c then Inl ParentExecutionCorruption
      else res_bind (parse_time (ch_scheduled_at c)) (\<lambda>scheduled.
        if local_date scheduled \<noteq> po_session_date p then Inl ParentExecutionCorruption
        else verify_children p (Suc expected) (ch_child_id c # seen) rest))"

definition verify_state :: "state_digest \<Rightarrow> parent_state \<Rightarrow> unit res" where
  "verify_state D st =
     (if ps_schema_version st \<noteq> PARENT_EXECUTION_SCHEMA then Inl ParentExecutionCorruption
      else if payload_digest D st \<noteq> ps_sha256 st then Inl ParentExecutionCorruption
      else if po_total_quantity (ps_parent st) < ps_filled st then Inl ParentExecutionCorruption
      else if po_total_quantity (ps_parent st) < ps_committed st then Inl ParentExecutionCorruption
      else if ps_last_volume st < 0 then Inl ParentExecutionCorruption
      else res_bind (verify_children (ps_parent st) 0 [] (ps_children st)) (\<lambda>_.
        if is_static (po_algorithm (ps_parent st))
           \<and> \<not> (ps_children st = [] \<and> ps_revision st = 0)
           \<and> sum_list (map ch_quantity (ps_children st)) \<noteq> po_total_quantity (ps_parent st)
        then Inl ParentExecutionCorruption else Inr ()))"

end
