(* ===== verification/Parent_Engine.thy ===== *)
theory Parent_Engine
  imports Parent_Child
begin

text \<open>
  The durable store and the engine of \<open>src/src/quantagent/execution/parent_child.py\<close>.
\<close>

section \<open>The store\<close>

datatype snapshot_write = Write_ok | Write_lost | Write_landed

type_synonym parent_file = "parent_state option option"

definition parent_state_from_dict :: "parent_state \<Rightarrow> parent_state res" where
  "parent_state_from_dict st = res_bind (canonical (ps_parent st)) (\<lambda>p. Inr (st\<lparr>ps_parent := p\<rparr>))"

definition read_unlocked :: "state_digest \<Rightarrow> parent_file \<Rightarrow> parent_state option res" where
  "read_unlocked D file =
     (case file of
        None \<Rightarrow> Inr None
      | Some None \<Rightarrow> Inl ParentExecutionCorruption
      | Some (Some raw) \<Rightarrow>
          res_bind (parent_state_from_dict raw) (\<lambda>st.
          res_bind (verify_state D st) (\<lambda>_. Inr (Some st))))"

definition write_unlocked :: "snapshot_write \<Rightarrow> parent_state \<Rightarrow> parent_file \<Rightarrow> unit res \<times> parent_file" where
  "write_unlocked w st file =
     (case w of
        Write_ok \<Rightarrow> (Inr (), Some (Some st))
      | Write_lost \<Rightarrow> (Inl OSError, file)
      | Write_landed \<Rightarrow> (Inl OSError, Some (Some st)))"

definition fresh_state :: "state_digest \<Rightarrow> moment \<Rightarrow> parent_spec \<Rightarrow> parent_state" where
  "fresh_state D now p = with_digest D
     \<lparr>ps_schema_version = PARENT_EXECUTION_SCHEMA, ps_parent = p, ps_children = [],
      ps_last_volume = 0, ps_revision = 0, ps_created_at = Some now, ps_updated_at = Some now,
      ps_sha256 = []\<rparr>"

definition ensure ::
    "state_digest \<Rightarrow> snapshot_write \<Rightarrow> moment \<Rightarrow> parent_spec \<Rightarrow> parent_file \<Rightarrow> parent_state res \<times> parent_file" where
  "ensure D w now parent file =
     (case canonical parent of
        Inl e \<Rightarrow> (Inl e, file)
      | Inr p \<Rightarrow>
          (case read_unlocked D file of
             Inl e \<Rightarrow> (Inl e, file)
           | Inr (Some existing) \<Rightarrow>
               (if ps_parent existing \<noteq> p then Inl ParentExecutionConflict else Inr existing, file)
           | Inr None \<Rightarrow>
               (let st = fresh_state D now p
                in case write_unlocked w st file of
                     (Inl e, file') \<Rightarrow> (Inl e, file')
                   | (Inr u, file') \<Rightarrow> (Inr st, file'))))"

text \<open>\<open>transact\<close> before its write: the state the mutator starts from, and the state to be written.\<close>

definition transact_base :: "state_digest \<Rightarrow> moment \<Rightarrow> parent_spec \<Rightarrow> parent_file \<Rightarrow> parent_state res" where
  "transact_base D now p file =
     res_bind (read_unlocked D file) (\<lambda>st.
       case st of
         None \<Rightarrow> Inr (fresh_state D now p)
       | Some existing \<Rightarrow> if ps_parent existing \<noteq> p then Inl ParentExecutionConflict else Inr existing)"

definition transact_update ::
    "state_digest \<Rightarrow> moment \<Rightarrow> parent_spec \<Rightarrow> (parent_state \<Rightarrow> parent_state res) \<Rightarrow> parent_state \<Rightarrow> parent_state res" where
  "transact_update D now p mutator st =
     res_bind (mutator st) (\<lambda>updated.
       if ps_parent updated \<noteq> p then Inl ParentExecutionConflict
       else let new = with_digest D (updated\<lparr>ps_schema_version := PARENT_EXECUTION_SCHEMA,
                  ps_revision := ps_revision st + 1, ps_created_at := ps_created_at st,
                  ps_updated_at := Some now\<rparr>)
            in res_bind (verify_state D new) (\<lambda>_. Inr new))"

definition transact ::
    "state_digest \<Rightarrow> snapshot_write \<Rightarrow> moment \<Rightarrow> parent_spec \<Rightarrow> (parent_state \<Rightarrow> parent_state res)
     \<Rightarrow> parent_file \<Rightarrow> parent_state res \<times> parent_file" where
  "transact D w now parent mutator file =
     (case res_bind (canonical parent) (\<lambda>p.
           res_bind (transact_base D now p file) (transact_update D now p mutator)) of
        Inl e \<Rightarrow> (Inl e, file)
      | Inr new \<Rightarrow>
          (case write_unlocked w new file of
             (Inl e, file') \<Rightarrow> (Inl e, file')
           | (Inr u, file') \<Rightarrow> (Inr new, file')))"

section \<open>Static schedules\<close>

text \<open>\<open>order[:n]\<close>, with Python's reading of a negative bound.\<close>

definition slice_to :: "int \<Rightarrow> 'a list \<Rightarrow> 'a list" where
  "slice_to n xs = (if 0 \<le> n then take (nat n) xs else take (length xs - nat (- n)) xs)"

definition allocate_lot_quantities :: "int \<Rightarrow> rat list \<Rightarrow> int \<Rightarrow> int list res" where
  "allocate_lot_quantities total_quantity weights lot_size =
     (if weights = [] then Inl ParentExecutionError
      else let total_lots = total_quantity div lot_size;
               raw = map (\<lambda>w. w * of_int total_lots) weights;
               base = map py_int raw;
               remainder = total_lots - sum_list base;
               order = sort_key (\<lambda>i. (- (raw ! i - of_int (base ! i)), i)) [0..<length raw];
               lots = fold (\<lambda>i b. b[i := b ! i + 1]) (slice_to remainder order) base
           in Inr (map (\<lambda>l. l * lot_size) lots))"

definition planned_child :: "child_digest \<Rightarrow> moment \<Rightarrow> parent_spec \<Rightarrow> nat \<Rightarrow> int \<Rightarrow> int \<Rightarrow> moment \<Rightarrow> child_execution" where
  "planned_child K now p schedule_index sequence quantity scheduled =
     \<lparr>ch_child_id = K (po_parent_id p) (po_session_date p) (int schedule_index) quantity scheduled,
      ch_sequence = sequence, ch_quantity = quantity, ch_scheduled_at = scheduled,
      ch_status = Planned, ch_filled_quantity = 0, ch_last_updated_at = Some now\<rparr>"

fun plan_children ::
    "child_digest \<Rightarrow> moment \<Rightarrow> parent_spec \<Rightarrow> nat \<Rightarrow> int \<Rightarrow> (int \<times> moment) list \<Rightarrow> child_execution list" where
  "plan_children K now p schedule_index sequence [] = []"
| "plan_children K now p schedule_index sequence ((quantity, scheduled) # rest) =
     (if quantity \<le> 0 then plan_children K now p (Suc schedule_index) sequence rest
      else planned_child K now p schedule_index sequence quantity scheduled
           # plan_children K now p (Suc schedule_index) (sequence + 1) rest)"

definition static_children :: "child_digest \<Rightarrow> moment \<Rightarrow> parent_spec \<Rightarrow> child_execution list res" where
  "static_children K now p =
     res_bind (case po_algorithm p of
         TWAP \<Rightarrow>
           (if po_schedule_times p = [] then Inl ZeroDivisionError
            else Inr (replicate (length (po_schedule_times p)) (1 / of_nat (length (po_schedule_times p)))))
       | VWAP \<Rightarrow> Inr (po_volume_profile p)
       | _ \<Rightarrow> Inl ParentExecutionError) (\<lambda>weights.
     res_bind (allocate_lot_quantities (po_total_quantity p) weights (po_lot_size p)) (\<lambda>quantities.
       let children = plan_children K now p 0 0 (zip quantities (po_schedule_times p))
       in if sum_list (map ch_quantity children) \<noteq> po_total_quantity p then Inl ParentExecutionError
          else Inr children))"

section \<open>The engine\<close>

definition static_mutator ::
    "child_digest \<Rightarrow> moment \<Rightarrow> parent_spec \<Rightarrow> parent_state \<Rightarrow> parent_state res" where
  "static_mutator K now p st =
     (if ps_children st \<noteq> [] then Inr st
      else res_bind (static_children K now p) (\<lambda>cs. Inr (st\<lparr>ps_children := cs\<rparr>)))"

text \<open>The constructor; the result is the canonical parent the engine keeps.\<close>

definition engine_make ::
    "state_digest \<Rightarrow> child_digest \<Rightarrow> (nat \<Rightarrow> snapshot_write) \<Rightarrow> moment \<Rightarrow> parent_spec \<Rightarrow> parent_file
     \<Rightarrow> parent_spec res \<times> parent_file" where
  "engine_make D K w now parent file =
     (case canonical parent of
        Inl e \<Rightarrow> (Inl e, file)
      | Inr p \<Rightarrow>
          (case ensure D (w 0) now p file of
             (Inl e, file1) \<Rightarrow> (Inl e, file1)
           | (Inr st, file1) \<Rightarrow>
               (if is_static (po_algorithm p) then
                  (case transact D (w 1) now p (static_mutator K now p) file1 of
                     (Inl e, file2) \<Rightarrow> (Inl e, file2)
                   | (Inr st2, file2) \<Rightarrow> (Inr p, file2))
                else (Inr p, file1))))"

definition engine_state :: "state_digest \<Rightarrow> parent_spec \<Rightarrow> parent_file \<Rightarrow> parent_state res" where
  "engine_state D p file =
     res_bind (read_unlocked D file) (\<lambda>st.
       case st of
         None \<Rightarrow> Inl ParentExecutionCorruption
       | Some s \<Rightarrow> if ps_parent s \<noteq> p then Inl ParentExecutionConflict else Inr s)"

definition released_children :: "state_digest \<Rightarrow> parent_spec \<Rightarrow> parent_file \<Rightarrow> child_execution list res" where
  "released_children D p file =
     res_bind (engine_state D p file) (\<lambda>st. Inr (filter (\<lambda>c. ch_status c = Released) (ps_children st)))"

definition release_static :: "moment \<Rightarrow> parent_state \<Rightarrow> parent_state res" where
  "release_static timestamp st =
     Inr (st\<lparr>ps_children := map (\<lambda>c.
       if ch_status c = Planned \<and> mo_instant (ch_scheduled_at c) \<le> mo_instant timestamp
       then c\<lparr>ch_status := Released, ch_last_updated_at := Some timestamp\<rparr> else c) (ps_children st)\<rparr>)"

definition new_child :: "child_digest \<Rightarrow> parent_spec \<Rightarrow> parent_state \<Rightarrow> int \<Rightarrow> moment \<Rightarrow> child_execution" where
  "new_child K p st quantity timestamp =
     \<lparr>ch_child_id = K (po_parent_id p) (po_session_date p) (int (length (ps_children st))) quantity timestamp,
      ch_sequence = int (length (ps_children st)), ch_quantity = quantity, ch_scheduled_at = timestamp,
      ch_status = Released, ch_filled_quantity = 0, ch_last_updated_at = Some timestamp\<rparr>"

definition has_active :: "parent_state \<Rightarrow> bool" where
  "has_active st \<longleftrightarrow> (\<exists>c\<in>set (ps_children st). ch_status c \<in> set ACTIVE_CHILD_STATUSES)"

definition cap_child :: "parent_spec \<Rightarrow> int \<Rightarrow> int" where
  "cap_child p q = (case po_max_child_quantity p of None \<Rightarrow> q | Some m \<Rightarrow> min q m)"

definition floor_lot :: "parent_spec \<Rightarrow> int \<Rightarrow> int" where
  "floor_lot p q = (q div po_lot_size p) * po_lot_size p"

definition release_pov ::
    "child_digest \<Rightarrow> parent_spec \<Rightarrow> moment \<Rightarrow> int option \<Rightarrow> parent_state \<Rightarrow> parent_state res" where
  "release_pov K p timestamp cumulative_market_volume st =
     (case cumulative_market_volume of
        None \<Rightarrow> Inl ParentExecutionError
      | Some observed \<Rightarrow>
          if observed < 0 then Inl ParentExecutionError
          else if observed < ps_last_volume st then Inl ParentExecutionError
          else if has_active st then Inr (st\<lparr>ps_last_volume := observed\<rparr>)
          else
            let rate = (case po_participation_rate p of None \<Rightarrow> 0 | Some r \<Rightarrow> r);
                target = floor_lot p (min (po_total_quantity p) (py_int (of_int observed * rate)));
                required = floor_lot p (cap_child p (max 0 (target - ps_filled st)))
            in Inr (st\<lparr>ps_children := ps_children st @
                        (if 0 < required then [new_child K p st required timestamp] else []),
                      ps_last_volume := observed\<rparr>))"

definition release_iceberg ::
    "child_digest \<Rightarrow> parent_spec \<Rightarrow> moment \<Rightarrow> parent_state \<Rightarrow> parent_state res" where
  "release_iceberg K p timestamp st =
     (if has_active st then Inr st
      else if ps_remaining st \<le> 0 then Inr st
      else let display = (case po_display_quantity p of None \<Rightarrow> 0 | Some d \<Rightarrow> d);
               quantity = floor_lot p (cap_child p (min (ps_remaining st) display))
           in if quantity \<le> 0 then Inl ParentExecutionError
              else Inr (st\<lparr>ps_children := ps_children st @ [new_child K p st quantity timestamp]\<rparr>))"

definition release_mutator ::
    "child_digest \<Rightarrow> parent_spec \<Rightarrow> moment \<Rightarrow> int option \<Rightarrow> parent_state \<Rightarrow> parent_state res" where
  "release_mutator K p timestamp volume st =
     (if ps_complete st then Inr st
      else case po_algorithm p of
        TWAP \<Rightarrow> release_static timestamp st
      | VWAP \<Rightarrow> release_static timestamp st
      | POV \<Rightarrow> release_pov K p timestamp volume st
      | ICEBERG \<Rightarrow> release_iceberg K p timestamp st)"

definition release_due ::
    "state_digest \<Rightarrow> child_digest \<Rightarrow> snapshot_write \<Rightarrow> moment \<Rightarrow> parent_spec \<Rightarrow> moment \<Rightarrow> int option
     \<Rightarrow> parent_file \<Rightarrow> child_execution list res \<times> parent_file" where
  "release_due D K w clock_now p now volume file =
     (case parse_time now of
        Inl e \<Rightarrow> (Inl e, file)
      | Inr timestamp \<Rightarrow>
          if local_date timestamp \<noteq> po_session_date p then (Inl ParentExecutionError, file)
          else (case transact D w clock_now p (release_mutator K p timestamp volume) file of
                  (Inl e, file') \<Rightarrow> (Inl e, file')
                | (Inr st, file') \<Rightarrow> (released_children D p file', file')))"

section \<open>Acknowledgements\<close>

text \<open>The checks on a non-terminal child, in the order of the code.\<close>

definition ack_allowed :: "child_status \<Rightarrow> int \<Rightarrow> child_execution \<Rightarrow> bool" where
  "ack_allowed status filled c \<longleftrightarrow>
     ch_filled_quantity c \<le> filled \<and> 0 \<le> filled \<and> filled \<le> ch_quantity c \<and>
     (status = Released \<longrightarrow> filled = 0) \<and>
     (status = Partial \<longrightarrow> 0 < filled \<and> filled < ch_quantity c) \<and>
     (status = Filled \<longrightarrow> filled = ch_quantity c) \<and>
     (status = Rejected \<longrightarrow> filled = 0) \<and>
     (status = Cancelled \<longrightarrow> filled < ch_quantity c)"

definition ack_mutator ::
    "moment \<Rightarrow> parent_spec \<Rightarrow> string \<Rightarrow> child_status \<Rightarrow> int \<Rightarrow> parent_state \<Rightarrow> parent_state res" where
  "ack_mutator now p child_id status filled st =
     (case filter (\<lambda>i. ch_child_id (ps_children st ! i) = child_id) [0..<length (ps_children st)] of
        [i] \<Rightarrow>
          (let c = ps_children st ! i in
           if ch_status c = Planned then Inl ParentExecutionError
           else if ch_status c \<in> set TERMINAL_CHILD_STATUSES then
             (if status = ch_status c \<and> filled = ch_filled_quantity c then Inr st
              else Inl ParentExecutionError)
           else if \<not> ack_allowed status filled c then Inl ParentExecutionError
           else let new = st\<lparr>ps_children := (ps_children st)[i := c\<lparr>ch_status := status,
                        ch_filled_quantity := filled, ch_last_updated_at := Some now\<rparr>]\<rparr>
                in if po_total_quantity p < ps_filled new then Inl ParentExecutionError
                   else if po_total_quantity p < ps_committed new then Inl ParentExecutionError
                   else Inr new)
      | _ \<Rightarrow> Inl ParentExecutionError)"

definition acknowledge ::
    "state_digest \<Rightarrow> snapshot_write \<Rightarrow> moment \<Rightarrow> parent_spec \<Rightarrow> string \<Rightarrow> child_status \<Rightarrow> int
     \<Rightarrow> parent_file \<Rightarrow> parent_state res \<times> parent_file" where
  "acknowledge D w now p child_id status filled file =
     (if status = Planned then (Inl ParentExecutionError, file)
      else transact D w now p (ack_mutator now p child_id status filled) file)"

section \<open>Calls\<close>

datatype parent_call =
    Start_engine "nat \<Rightarrow> snapshot_write" moment
  | Release_due snapshot_write moment moment "int option"
  | Acknowledge snapshot_write moment string child_status int

text \<open>What one call, of any process that runs an engine for the parent \<open>p\<close>, leaves in the file.\<close>

fun parent_do :: "state_digest \<Rightarrow> child_digest \<Rightarrow> parent_spec \<Rightarrow> parent_file \<Rightarrow> parent_call \<Rightarrow> parent_file" where
  "parent_do D K p file (Start_engine w now) = snd (engine_make D K w now p file)"
| "parent_do D K p file (Release_due w now timestamp volume) =
     snd (release_due D K w now p timestamp volume file)"
| "parent_do D K p file (Acknowledge w now cid status filled) =
     snd (acknowledge D w now p cid status filled file)"

end
