(* ===== verification/Parent_Facts.thy ===== *)
theory Parent_Facts
  imports Parent_Engine
begin

text \<open>
  Facts shared by the properties of parent and child execution: the canonical form is a fixed point,
  what a transaction may leave in the file, and the invariant that every operation of the engine keeps.
\<close>

section \<open>The canonical parent\<close>

lemma map_res_parse_time: "map_res parse_time ms = Inr ms' \<longleftrightarrow> (\<forall>m\<in>set ms. is_aware m) \<and> ms' = ms"
  by (induction ms arbitrary: ms') (auto simp: parse_time_def is_aware_def res_bind_Inr_iff)

lemma canonical_times_Inr:
  "canonical_times ms d = Inr ms' \<longleftrightarrow>
     ms' = ms \<and> ms \<noteq> [] \<and> (\<forall>m\<in>set ms. is_aware m \<and> local_date m = d) \<and> strictly_increasing ms"
  by (auto simp: canonical_times_def res_bind_Inr_iff map_res_parse_time)

lemma normalise_profile_Inr:
  "normalise_profile vs n = Inr vs' \<longleftrightarrow>
     length vs = n \<and> (\<forall>v\<in>set vs. 0 \<le> v) \<and> 0 < sum_list vs \<and> vs' = map (\<lambda>v. v / sum_list vs) vs"
proof -
  have "(\<exists>v\<in>set vs. v < 0) \<longleftrightarrow> \<not> (\<forall>v\<in>set vs. 0 \<le> v)" by (simp add: not_le)
  then show ?thesis by (auto simp: normalise_profile_def)
qed

lemma sum_list_divide: "(\<Sum>v\<leftarrow>vs. v / c) = sum_list vs / (c :: rat)"
  by (induction vs) (simp_all add: add_divide_distrib)

lemma normalised:
  assumes "normalise_profile vs n = Inr vs'"
  shows "sum_list vs' = 1" "length vs' = n" "\<forall>v\<in>set vs'. 0 \<le> v"
  using assms by (auto simp: normalise_profile_Inr sum_list_divide)

lemma normalise_idem: "normalise_profile vs n = Inr vs' \<Longrightarrow> normalise_profile vs' n = Inr vs'"
  by (frule normalised(1), frule normalised(2), frule normalised(3)) (simp add: normalise_profile_Inr)

lemma canonical_schedule_idem:
  assumes "canonical_schedule p = Inr (ms, vs)"
    and "po_algorithm q = po_algorithm p" "po_session_date q = po_session_date p"
    and "po_schedule_times q = ms" "po_volume_profile q = vs"
  shows "canonical_schedule q = Inr (ms, vs)"
  using assms
  by (auto simp: canonical_schedule_def res_bind_Inr_iff canonical_times_Inr normalise_idem split: if_splits)

lemma canonical_Inr:
  assumes "canonical q = Inr p"
  obtains ms vs r d m where
    "strip (po_parent_id q) \<noteq> []" "strip (po_symbol q) \<noteq> []"
    "lower (strip (po_side q)) = ''buy'' \<or> lower (strip (po_side q)) = ''sell''"
    "0 < po_total_quantity q" "0 < po_lot_size q" "po_total_quantity q mod po_lot_size q = 0"
    "canonical_schedule q = Inr (ms, vs)" "canonical_participation q = Inr r"
    "canonical_display q = Inr d" "canonical_max_child q = Inr m"
    "p = q\<lparr>po_parent_id := strip (po_parent_id q), po_symbol := strip (po_symbol q),
           po_side := lower (strip (po_side q)), po_schedule_times := ms, po_volume_profile := vs,
           po_participation_rate := r, po_display_quantity := d, po_max_child_quantity := m\<rparr>"
proof -
  have g: "strip (po_parent_id q) \<noteq> []" "strip (po_symbol q) \<noteq> []"
    "lower (strip (po_side q)) = ''buy'' \<or> lower (strip (po_side q)) = ''sell''"
    "0 < po_total_quantity q" "0 < po_lot_size q" "po_total_quantity q mod po_lot_size q = 0"
    using assms unfolding canonical_def Let_def by (simp_all split: if_splits)
  from assms g obtain ms vs r d m where v: "canonical_schedule q = Inr (ms, vs)"
      "canonical_participation q = Inr r" "canonical_display q = Inr d" "canonical_max_child q = Inr m"
    "q\<lparr>po_parent_id := strip (po_parent_id q), po_symbol := strip (po_symbol q),
           po_side := lower (strip (po_side q)), po_schedule_times := ms, po_volume_profile := vs,
           po_participation_rate := r, po_display_quantity := d, po_max_child_quantity := m\<rparr> = p"
    unfolding canonical_def Let_def
    by (simp add: res_bind_Inr_iff split del: if_split split: if_splits) blast
  show ?thesis by (rule that [of ms vs r d m]) (use g v in simp_all)
qed

lemma canonical_idem:
  assumes "canonical q = Inr p"
  shows "canonical p = Inr p"
proof -
  from assms obtain ms vs r d m where
    g: "strip (po_parent_id q) \<noteq> []" "strip (po_symbol q) \<noteq> []"
    "lower (strip (po_side q)) = ''buy'' \<or> lower (strip (po_side q)) = ''sell''"
    "0 < po_total_quantity q" "0 < po_lot_size q" "po_total_quantity q mod po_lot_size q = 0"
    and v: "canonical_schedule q = Inr (ms, vs)" "canonical_participation q = Inr r"
    "canonical_display q = Inr d" "canonical_max_child q = Inr m"
    and p: "p = q\<lparr>po_parent_id := strip (po_parent_id q), po_symbol := strip (po_symbol q),
           po_side := lower (strip (po_side q)), po_schedule_times := ms, po_volume_profile := vs,
           po_participation_rate := r, po_display_quantity := d, po_max_child_quantity := m\<rparr>"
    by (rule canonical_Inr)
  have "canonical_schedule p = Inr (ms, vs)"
    using v(1) by (rule canonical_schedule_idem) (simp_all add: p)
  moreover have "canonical_participation p = Inr r"
    using v(2) by (auto simp: canonical_participation_def p split: if_splits option.splits) metis
  moreover have "canonical_display p = Inr d"
    using v(3) by (auto simp: canonical_display_def p split: if_splits option.splits) metis
  moreover have "canonical_max_child p = Inr m"
    using v(4) by (auto simp: canonical_max_child_def p split: if_splits option.splits)
  moreover have "strip (po_parent_id p) = po_parent_id p" "strip (po_symbol p) = po_symbol p"
    "lower (strip (po_side p)) = po_side p" by (simp_all add: p)
  ultimately show ?thesis using g unfolding canonical_def Let_def by (simp add: p)
qed

text \<open>A canonical parent, and what its fields then satisfy.\<close>

definition canon :: "parent_spec \<Rightarrow> bool" where
  "canon p \<longleftrightarrow> canonical p = Inr p"

lemma canon_parts:
  assumes "canon p"
  shows "0 < po_total_quantity p" "0 < po_lot_size p" "po_lot_size p dvd po_total_quantity p"
    "canonical_schedule p = Inr (po_schedule_times p, po_volume_profile p)"
    "canonical_participation p = Inr (po_participation_rate p)"
    "canonical_display p = Inr (po_display_quantity p)"
    "canonical_max_child p = Inr (po_max_child_quantity p)"
proof -
  have "canonical p = Inr p" using assms by (simp add: canon_def)
  then obtain ms vs r d m where
    g: "0 < po_total_quantity p" "0 < po_lot_size p" "po_total_quantity p mod po_lot_size p = 0"
    and v: "canonical_schedule p = Inr (ms, vs)" "canonical_participation p = Inr r"
    "canonical_display p = Inr d" "canonical_max_child p = Inr m"
    and p: "p = p\<lparr>po_parent_id := strip (po_parent_id p), po_symbol := strip (po_symbol p),
           po_side := lower (strip (po_side p)), po_schedule_times := ms, po_volume_profile := vs,
           po_participation_rate := r, po_display_quantity := d, po_max_child_quantity := m\<rparr>"
    by (rule canonical_Inr)
  show "0 < po_total_quantity p" "0 < po_lot_size p" "po_lot_size p dvd po_total_quantity p"
    using g by auto
  show "canonical_schedule p = Inr (po_schedule_times p, po_volume_profile p)"
    using v(1) arg_cong [OF p, of po_schedule_times] arg_cong [OF p, of po_volume_profile] by simp
  show "canonical_participation p = Inr (po_participation_rate p)"
    using v(2) arg_cong [OF p, of po_participation_rate] by simp
  show "canonical_display p = Inr (po_display_quantity p)"
    using v(3) arg_cong [OF p, of po_display_quantity] by simp
  show "canonical_max_child p = Inr (po_max_child_quantity p)"
    using v(4) arg_cong [OF p, of po_max_child_quantity] by simp
qed

lemma canon_participation:
  "canon p \<Longrightarrow> po_algorithm p = POV \<Longrightarrow> \<exists>r. po_participation_rate p = Some r \<and> 0 < r \<and> r \<le> 1"
  using canon_parts(5) [of p] by (auto simp: canonical_participation_def split: option.splits if_splits)

lemma canon_display:
  "canon p \<Longrightarrow> po_algorithm p = ICEBERG \<Longrightarrow>
     \<exists>d. po_display_quantity p = Some d \<and> 0 < d \<and> po_lot_size p dvd d"
  using canon_parts(6) [of p]
  by (auto simp: canonical_display_def lot_multiple_def split: option.splits if_splits)

lemma canon_max_child:
  "canon p \<Longrightarrow> po_max_child_quantity p = Some m \<Longrightarrow> 0 < m \<and> po_lot_size p dvd m"
  using canon_parts(7) [of p]
  by (auto simp: canonical_max_child_def lot_multiple_def split: option.splits if_splits)

lemma canon_static:
  assumes "canon p" "is_static (po_algorithm p)"
  shows "po_schedule_times p \<noteq> []" "\<forall>m\<in>set (po_schedule_times p). is_aware m \<and> local_date m = po_session_date p"
    "po_algorithm p = VWAP \<Longrightarrow> normalise_profile (po_volume_profile p) (length (po_schedule_times p)) = Inr (po_volume_profile p)"
  using canon_parts(4) [OF assms(1)] assms(2)
  by (auto simp: canonical_schedule_def res_bind_Inr_iff canonical_times_Inr split: if_splits)

section \<open>Quantities of a snapshot\<close>

text \<open>What a child has taken or may still take from its parent.\<close>

definition claim_of :: "child_execution \<Rightarrow> int" where
  "claim_of c = ch_filled_quantity c + ch_outstanding c"

lemma committed_claims: "ps_committed st = sum_list (map claim_of (ps_children st))"
  unfolding ps_committed_def ps_filled_def ps_outstanding_def claim_of_def by (rule sum_list_addf [symmetric])

text \<open>Status and fills of a child agree.\<close>

definition fits :: "child_execution \<Rightarrow> bool" where
  "fits c \<longleftrightarrow> 0 \<le> ch_filled_quantity c \<and> ch_filled_quantity c \<le> ch_quantity c \<and>
     (case ch_status c of
        Planned \<Rightarrow> ch_filled_quantity c = 0
      | Released \<Rightarrow> ch_filled_quantity c = 0
      | Partial \<Rightarrow> 0 < ch_filled_quantity c \<and> ch_filled_quantity c < ch_quantity c
      | Filled \<Rightarrow> ch_filled_quantity c = ch_quantity c
      | Cancelled \<Rightarrow> ch_filled_quantity c < ch_quantity c
      | Rejected \<Rightarrow> ch_filled_quantity c = 0)"

definition active :: "child_execution \<Rightarrow> bool" where
  "active c \<longleftrightarrow> ch_status c \<in> set ACTIVE_CHILD_STATUSES"

lemma claim_cases:
  "ch_filled_quantity c \<le> ch_quantity c \<Longrightarrow>
     claim_of c = (if active c then ch_quantity c else ch_filled_quantity c)"
  by (cases "ch_status c")
    (auto simp: claim_of_def ch_outstanding_def active_def ACTIVE_CHILD_STATUSES_def TERMINAL_CHILD_STATUSES_def)

lemma status_kinds:
  "ch_status c = Planned \<or> ch_status c \<in> set TERMINAL_CHILD_STATUSES \<or> active c"
  "active c \<Longrightarrow> ch_status c \<noteq> Planned \<and> ch_status c \<notin> set TERMINAL_CHILD_STATUSES"
  by (cases "ch_status c"; simp add: active_def ACTIVE_CHILD_STATUSES_def TERMINAL_CHILD_STATUSES_def)+

section \<open>The invariant\<close>

definition rate_of :: "parent_spec \<Rightarrow> rat" where
  "rate_of p = (case po_participation_rate p of None \<Rightarrow> 0 | Some r \<Rightarrow> r)"

text \<open>What the engine keeps beyond the checks of \<open>verify_state\<close>.\<close>

definition stage :: "parent_spec \<Rightarrow> parent_state \<Rightarrow> bool" where
  "stage p st \<longleftrightarrow> ps_parent st = p \<and> (\<forall>c\<in>set (ps_children st). fits c) \<and>
     (\<not> is_static (po_algorithm p) \<longrightarrow>
        (\<forall>c\<in>set (ps_children st). ch_status c \<noteq> Planned) \<and> length (filter active (ps_children st)) \<le> 1) \<and>
     (po_algorithm p = POV \<longrightarrow> of_int (ps_committed st) \<le> of_int (ps_last_volume st) * rate_of p)"

definition state_ok :: "state_digest \<Rightarrow> parent_spec \<Rightarrow> parent_state \<Rightarrow> bool" where
  "state_ok D p st \<longleftrightarrow> stage p st \<and> verify_state D st = Inr ()"

definition file_ok :: "state_digest \<Rightarrow> parent_spec \<Rightarrow> parent_file \<Rightarrow> bool" where
  "file_ok D p file \<longleftrightarrow>
     (case file of None \<Rightarrow> True | Some None \<Rightarrow> False | Some (Some st) \<Rightarrow> state_ok D p st)"

lemma stage_fields: "stage p (with_digest D (st\<lparr>ps_schema_version := v, ps_revision := n,
    ps_created_at := t, ps_updated_at := u\<rparr>)) = stage p st"
  by (simp add: stage_def with_digest_def ps_committed_def ps_filled_def ps_outstanding_def)

lemma fresh_ok: "canon p \<Longrightarrow> state_ok D p (fresh_state D now p)"
  using canon_parts(1) [of p]
  by (simp add: state_ok_def stage_def fresh_state_def with_digest_def payload_digest_def verify_state_def
      ps_committed_def ps_filled_def ps_outstanding_def)

lemma verified_bounds:
  assumes "verify_state D st = Inr ()"
  shows "ps_filled st \<le> po_total_quantity (ps_parent st)" "ps_committed st \<le> po_total_quantity (ps_parent st)"
    "0 \<le> ps_last_volume st" "verify_children (ps_parent st) 0 [] (ps_children st) = Inr ()"
  using assms by (auto simp: verify_state_def res_bind_Inr_iff split: if_splits)

lemma read_ok:
  assumes "file_ok D p file" "canon p"
  shows "read_unlocked D file = Inr (case file of None \<Rightarrow> None | Some st \<Rightarrow> st)"
  using assms
  by (auto simp: file_ok_def state_ok_def stage_def read_unlocked_def parent_state_from_dict_def canon_def
      split: option.splits)

lemma base_ok:
  assumes "file_ok D p file" "canon p"
  shows "\<exists>st. transact_base D now p file = Inr st \<and> state_ok D p st \<and>
    (file = None \<and> st = fresh_state D now p \<or> file = Some (Some st))"
proof (cases "file")
  case None
  with read_ok [OF assms] show ?thesis by (simp add: transact_base_def fresh_ok assms(2))
next
  case (Some content)
  with assms(1) obtain st where "content = Some st" "state_ok D p st"
    by (auto simp: file_ok_def split: option.splits)
  with read_ok [OF assms] Some show ?thesis by (simp add: transact_base_def state_ok_def stage_def)
qed

lemma update_Inr:
  "transact_update D now p m st = Inr new \<longleftrightarrow>
     (\<exists>u. m st = Inr u \<and> ps_parent u = p \<and>
        new = with_digest D (u\<lparr>ps_schema_version := PARENT_EXECUTION_SCHEMA, ps_revision := ps_revision st + 1,
                ps_created_at := ps_created_at st, ps_updated_at := Some now\<rparr>) \<and>
        verify_state D new = Inr ())"
  by (auto simp: transact_update_def res_bind_Inr_iff Let_def)

text \<open>A transaction leaves the file alone or writes a verified update of what it read.\<close>

lemma transact_file:
  assumes "transact D w now p m file = (r, file')" "file_ok D p file" "canon p"
    and keep: "\<And>st u. state_ok D p st \<Longrightarrow> m st = Inr u \<Longrightarrow> stage p u"
  shows "file' = file \<or> (\<exists>st u new. transact_base D now p file = Inr st \<and> state_ok D p st \<and> m st = Inr u \<and>
     ps_children new = ps_children u \<and> ps_last_volume new = ps_last_volume u \<and>
     state_ok D p new \<and> file' = Some (Some new))"
proof -
  obtain st where st: "transact_base D now p file = Inr st" "state_ok D p st"
    using base_ok [OF assms(2,3)] by blast
  show ?thesis
  proof (cases "transact_update D now p m st")
    case (Inl e)
    with assms(1,3) st show ?thesis by (simp add: transact_def canon_def)
  next
    case (Inr new)
    then obtain u where u: "m st = Inr u" "ps_parent u = p"
      "new = with_digest D (u\<lparr>ps_schema_version := PARENT_EXECUTION_SCHEMA, ps_revision := ps_revision st + 1,
                ps_created_at := ps_created_at st, ps_updated_at := Some now\<rparr>)"
      "verify_state D new = Inr ()"
      by (auto simp: update_Inr)
    from keep [OF st(2) u(1)] have "stage p new" unfolding u(3) by (simp add: stage_fields)
    with u(4) have "state_ok D p new" by (simp add: state_ok_def)
    moreover have "ps_children new = ps_children u" "ps_last_volume new = ps_last_volume u"
      unfolding u(3) by (simp_all add: with_digest_def)
    moreover have "file' = file \<or> file' = Some (Some new)"
      using assms(1,3) st Inr by (cases w) (auto simp: transact_def canon_def write_unlocked_def)
    ultimately show ?thesis using st u(1) by blast
  qed
qed

end
