(* ===== verification/Parent_Invariant.thy ===== *)
theory Parent_Invariant
  imports Parent_Facts
begin

text \<open>
  Every mutator of the engine keeps the invariant \<open>stage\<close> and only moves the history of the children
  forward; hence so does every run of calls.
\<close>

section \<open>The history of the children\<close>

definition child_le :: "child_execution \<Rightarrow> child_execution \<Rightarrow> bool" where
  "child_le c c' \<longleftrightarrow> ch_child_id c' = ch_child_id c \<and> ch_sequence c' = ch_sequence c \<and>
     ch_quantity c' = ch_quantity c \<and> ch_scheduled_at c' = ch_scheduled_at c \<and>
     ch_filled_quantity c \<le> ch_filled_quantity c' \<and>
     (ch_status c \<in> set TERMINAL_CHILD_STATUSES \<longrightarrow> c' = c)"

definition history_le :: "child_execution list \<Rightarrow> child_execution list \<Rightarrow> bool" where
  "history_le cs cs' \<longleftrightarrow> length cs \<le> length cs' \<and> (\<forall>i<length cs. child_le (cs ! i) (cs' ! i))"

lemma child_le_refl [simp]: "child_le c c"
  by (simp add: child_le_def)

lemma child_le_trans: "child_le a b \<Longrightarrow> child_le b c \<Longrightarrow> child_le a c"
  unfolding child_le_def by (elim conjE, intro conjI) auto

lemma history_le_refl [simp]: "history_le cs cs"
  by (simp add: history_le_def)

lemma history_le_trans: "history_le a b \<Longrightarrow> history_le b c \<Longrightarrow> history_le a c"
  unfolding history_le_def by (metis child_le_trans le_trans less_le_trans)

lemma history_le_Nil [simp]: "history_le [] cs"
  by (simp add: history_le_def)

lemma history_le_append [simp]: "history_le cs (cs @ ds)"
  by (simp add: history_le_def nth_append)

lemma history_le_map: "(\<And>c. c \<in> set cs \<Longrightarrow> child_le c (f c)) \<Longrightarrow> history_le cs (map f cs)"
  by (simp add: history_le_def)

lemma history_le_update: "child_le (cs ! i) c \<Longrightarrow> history_le cs (cs[i := c])"
proof -
  assume "child_le (cs ! i) c"
  then have "j < length cs \<Longrightarrow> child_le (cs ! j) (cs[i := c] ! j)" for j
    by (cases "j = i") simp_all
  then show ?thesis by (simp add: history_le_def)
qed

text \<open>What a mutator must do to a good snapshot.\<close>

definition advances :: "parent_spec \<Rightarrow> parent_state \<Rightarrow> parent_state \<Rightarrow> bool" where
  "advances p st u \<longleftrightarrow> stage p u \<and> history_le (ps_children st) (ps_children u) \<and>
     ps_last_volume st \<le> ps_last_volume u"

section \<open>Static plans\<close>

lemma plan_children_planned:
  "c \<in> set (plan_children K now p i n qs) \<Longrightarrow>
     ch_status c = Planned \<and> ch_filled_quantity c = 0 \<and> 0 < ch_quantity c"
  by (induction K now p i n qs rule: plan_children.induct)
    (auto simp: planned_child_def split: if_splits)

lemma static_children_planned:
  "static_children K now p = Inr cs \<Longrightarrow> c \<in> set cs \<Longrightarrow> fits c"
  by (auto simp: static_children_def res_bind_Inr_iff Let_def fits_def dest!: plan_children_planned
      split: if_splits)

lemma static_mutator_advances:
  assumes "state_ok D p st" "is_static (po_algorithm p)" "static_mutator K now p st = Inr u"
  shows "advances p st u"
proof (cases "ps_children st = []")
  case False
  with assms show ?thesis by (simp add: static_mutator_def advances_def state_ok_def)
next
  case True
  with assms(3) obtain cs where "static_children K now p = Inr cs" "u = st\<lparr>ps_children := cs\<rparr>"
    by (auto simp: static_mutator_def res_bind_Inr_iff)
  with assms(1,2) True static_children_planned [of K now p cs] show ?thesis
    by (auto simp: advances_def stage_def state_ok_def is_static_def)
qed

section \<open>Releases\<close>

lemma release_static_advances:
  assumes "state_ok D p st" "is_static (po_algorithm p)" "release_static now st = Inr u"
  shows "advances p st u"
proof -
  define f where "f = (\<lambda>c :: child_execution. if ch_status c = Planned \<and> mo_instant (ch_scheduled_at c) \<le> mo_instant now
       then c\<lparr>ch_status := Released, ch_last_updated_at := Some now\<rparr> else c)"
  have u: "u = st\<lparr>ps_children := map f (ps_children st)\<rparr>"
    using assms(3) by (simp add: release_static_def f_def)
  have le: "child_le c (f c)" for c
    by (simp add: f_def child_le_def TERMINAL_CHILD_STATUSES_def)
  have fit: "fits c \<Longrightarrow> fits (f c)" for c by (auto simp: f_def fits_def)
  from assms(1) have st: "stage p st" by (simp add: state_ok_def)
  from assms(2) have "po_algorithm p \<noteq> POV" by (auto simp: is_static_def)
  with st fit assms(2) have "stage p u" unfolding stage_def u by simp
  moreover have "history_le (ps_children st) (ps_children u)"
    unfolding u by (simp add: history_le_map le)
  ultimately show ?thesis by (simp add: advances_def u)
qed

lemma idle_committed:
  assumes "stage p st" "\<not> is_static (po_algorithm p)" "\<not> has_active st"
  shows "ps_committed st = ps_filled st"
proof -
  have "claim_of c = ch_filled_quantity c" if "c \<in> set (ps_children st)" for c
    using assms that claim_cases [of c] by (auto simp: stage_def fits_def has_active_def active_def)
  then have "map claim_of (ps_children st) = map ch_filled_quantity (ps_children st)" by simp
  then show ?thesis unfolding committed_claims ps_filled_def by (rule arg_cong)
qed

lemma idle_filter: "\<not> has_active st \<Longrightarrow> filter active (ps_children st) = []"
  by (simp add: has_active_def active_def filter_empty_conv)

lemma new_child_facts:
  "0 < q \<Longrightarrow> fits (new_child K p st q now)" "active (new_child K p st q now)"
  "ch_status (new_child K p st q now) \<noteq> Planned" "0 \<le> q \<Longrightarrow> claim_of (new_child K p st q now) = q"
  by (simp_all add: fits_def new_child_def active_def ACTIVE_CHILD_STATUSES_def claim_of_def ch_outstanding_def
      TERMINAL_CHILD_STATUSES_def)

lemma committed_append:
  "ps_committed (st\<lparr>ps_children := ps_children st @ cs, ps_last_volume := v\<rparr>) =
     ps_committed st + sum_list (map claim_of cs)"
  "ps_committed (st\<lparr>ps_children := ps_children st @ cs\<rparr>) = ps_committed st + sum_list (map claim_of cs)"
  by (simp_all add: committed_claims)

lemma floor_lot_le: "0 < po_lot_size p \<Longrightarrow> floor_lot p q \<le> q"
  unfolding floor_lot_def by (metis add.commute le_add_same_cancel1 mod_div_mult_eq pos_mod_sign)

lemma floor_lot_dvd: "po_lot_size p dvd floor_lot p q"
  by (simp add: floor_lot_def)

lemma floor_lot_exact: "po_lot_size p dvd q \<Longrightarrow> floor_lot p q = q"
  by (simp add: floor_lot_def)

lemma cap_child_le: "cap_child p q \<le> q"
  by (simp add: cap_child_def split: option.split)

lemma release_pov_advances:
  assumes ok: "state_ok D p st" and p: "canon p" "po_algorithm p = POV"
    and u: "release_pov K p now vol st = Inr u"
  shows "advances p st u"
proof -
  from ok have st: "stage p st" "0 \<le> ps_last_volume st"
    by (auto simp: state_ok_def dest: verified_bounds)
  have lot: "0 < po_lot_size p" using p(1) by (rule canon_parts)
  from canon_participation [OF p] have rate: "0 \<le> rate_of p" by (auto simp: rate_of_def)
  from p(2) have dyn: "\<not> is_static (po_algorithm p)" by (simp add: is_static_def)
  obtain obs where obs: "vol = Some obs" "ps_last_volume st \<le> obs"
    using u by (auto simp: release_pov_def split: option.splits if_splits)
  have old: "of_int (ps_committed st) \<le> of_int (ps_last_volume st) * rate_of p"
    using st(1) p(2) by (simp add: stage_def)
  also have "\<dots> \<le> of_int obs * rate_of p" using obs(2) rate by (simp add: mult_right_mono)
  finally have bound: "of_int (ps_committed st) \<le> of_int obs * rate_of p" .
  show ?thesis
  proof (cases "has_active st")
    case True
    with u obs have "u = st\<lparr>ps_last_volume := obs\<rparr>" by (auto simp: release_pov_def split: if_splits)
    with st(1) obs(2) bound show ?thesis by (auto simp: advances_def stage_def committed_claims)
  next
    case False
    define target where "target = floor_lot p (min (po_total_quantity p) (py_int (of_int obs * rate_of p)))"
    define required where "required = floor_lot p (cap_child p (max 0 (target - ps_filled st)))"
    let ?cs = "if 0 < required then [new_child K p st required now] else []"
    have u': "u = st\<lparr>ps_children := ps_children st @ ?cs, ps_last_volume := obs\<rparr>"
      using u obs False
      by (auto simp: release_pov_def Let_def target_def required_def rate_of_def split: if_splits)
    have nonneg: "0 \<le> of_int obs * rate_of p" using rate obs(2) st(2) by simp
    have "target \<le> py_int (of_int obs * rate_of p)"
      unfolding target_def using floor_lot_le [OF lot] by (rule order_trans) simp
    then have "of_int target \<le> of_int obs * rate_of p"
      using py_int_le [OF nonneg] by (meson of_int_le_iff order_trans)
    moreover have "required \<le> max 0 (target - ps_filled st)"
      unfolding required_def using floor_lot_le [OF lot] cap_child_le by (rule order_trans)
    then have "0 < required \<Longrightarrow> ps_committed st + required \<le> target"
      unfolding idle_committed [OF st(1) dyn False] by linarith
    ultimately have "0 < required \<Longrightarrow> of_int (ps_committed st + required) \<le> of_int obs * rate_of p"
      by (meson of_int_le_iff order_trans)
    with bound have "of_int (ps_committed u) \<le> of_int (ps_last_volume u) * rate_of p"
      unfolding u' committed_append by (auto simp: new_child_facts)
    with st(1) obs(2) show ?thesis
      unfolding advances_def stage_def u' by (auto simp: new_child_facts idle_filter [OF False])
  qed
qed

lemma release_iceberg_advances:
  assumes ok: "state_ok D p st" and p: "canon p" "po_algorithm p = ICEBERG"
    and u: "release_iceberg K p now st = Inr u"
  shows "advances p st u"
proof (cases "has_active st \<or> ps_remaining st \<le> 0")
  case True
  with u ok show ?thesis by (auto simp: release_iceberg_def advances_def state_ok_def split: if_splits)
next
  case False
  with u obtain q where "0 < q" "u = st\<lparr>ps_children := ps_children st @ [new_child K p st q now]\<rparr>"
    by (auto simp: release_iceberg_def Let_def not_le split: if_splits)
  with False ok p(2) show ?thesis
    by (auto simp: advances_def stage_def state_ok_def new_child_facts idle_filter)
qed

lemma release_mutator_advances:
  assumes "state_ok D p st" "canon p" "release_mutator K p now vol st = Inr u"
  shows "advances p st u"
proof (cases "ps_complete st")
  case True
  with assms show ?thesis by (simp add: release_mutator_def advances_def state_ok_def)
next
  case False
  with assms release_static_advances [of D p st now u] release_pov_advances [of D p st K now vol u]
    release_iceberg_advances [of D p st K now u]
  show ?thesis by (auto simp: release_mutator_def is_static_def split: execution_algorithm.splits)
qed

section \<open>Acknowledgements\<close>

lemma filter_update_le:
  "P (xs ! i) \<Longrightarrow> length (filter P (xs[i := y])) \<le> length (filter P xs)"
proof (induction xs arbitrary: i)
  case Nil
  then show ?case by simp
next
  case (Cons x xs)
  then show ?case by (cases i) (auto intro: le_SucI)
qed

lemma ack_mutator_Inr:
  assumes "ack_mutator now p cid status filled st = Inr u"
  shows "u = st \<or> (\<exists>i c. i < length (ps_children st) \<and> c = ps_children st ! i \<and> active c \<and>
    ack_allowed status filled c \<and>
    u = st\<lparr>ps_children := (ps_children st)[i := c\<lparr>ch_status := status, ch_filled_quantity := filled,
             ch_last_updated_at := Some now\<rparr>]\<rparr>)"
proof -
  obtain i where i: "filter (\<lambda>i. ch_child_id (ps_children st ! i) = cid) [0..<length (ps_children st)] = [i]"
    using assms by (auto simp: ack_mutator_def split: list.splits)
  then have "i \<in> set (filter (\<lambda>i. ch_child_id (ps_children st ! i) = cid) [0..<length (ps_children st)])"
    by simp
  then have "i < length (ps_children st)" by simp
  with i assms status_kinds(1) [of "ps_children st ! i"] show ?thesis
    by (auto simp: ack_mutator_def Let_def split: if_splits)
qed

lemma sum_list_put: "i < length xs \<Longrightarrow> sum_list (xs[i := y]) = sum_list xs - xs ! i + (y :: int)"
  by (induction xs arbitrary: i) (auto simp: nth_Cons split: nat.splits)

lemma ack_mutator_advances:
  assumes ok: "state_ok D p st" and s: "status \<noteq> Planned"
    and u: "ack_mutator now p cid status filled st = Inr u"
  shows "advances p st u"
  using ack_mutator_Inr [OF u]
proof (elim disjE exE conjE)
  assume "u = st"
  with ok show ?thesis by (simp add: advances_def state_ok_def)
next
  fix i c
  assume i: "i < length (ps_children st)" and c: "c = ps_children st ! i" "active c"
    and a: "ack_allowed status filled c"
    and u': "u = st\<lparr>ps_children := (ps_children st)[i := c\<lparr>ch_status := status, ch_filled_quantity := filled,
             ch_last_updated_at := Some now\<rparr>]\<rparr>"
  let ?c = "c\<lparr>ch_status := status, ch_filled_quantity := filled, ch_last_updated_at := Some now\<rparr>"
  from ok have st: "stage p st" by (simp add: state_ok_def)
  from st i c have fc: "fits c" by (auto simp: stage_def)
  have fits: "fits ?c" using a s by (cases status) (auto simp: fits_def ack_allowed_def)
  have "child_le c ?c"
    using a status_kinds(2) [OF c(2)] by (auto simp: child_le_def ack_allowed_def)
  then have hist: "history_le (ps_children st) (ps_children u)"
    by (simp add: u' c(1) history_le_update)
  have "claim_of ?c \<le> ch_quantity c" "claim_of c = ch_quantity c"
    using claim_cases [of ?c] claim_cases [of c] fits fc c(2) by (auto simp: fits_def)
  then have com: "ps_committed u \<le> ps_committed st"
    using i by (simp add: u' committed_claims map_update sum_list_put c(1))
  have len: "length (filter active (ps_children u)) \<le> length (filter active (ps_children st))"
    using filter_update_le [of active "ps_children st" i] c by (simp add: u')
  have el: "x = ?c \<or> x \<in> set (ps_children st)" if "x \<in> set (ps_children u)" for x
    using set_update_subset_insert [of "ps_children st" i ?c] that by (auto simp: u')
  have same: "ps_parent u = ps_parent st" "ps_last_volume u = ps_last_volume st" by (simp_all add: u')
  have "stage p u"
    unfolding stage_def
  proof (intro conjI impI ballI)
    show "ps_parent u = p" using st same by (simp add: stage_def)
    show "fits x" if "x \<in> set (ps_children u)" for x
      using el [OF that] fits st by (auto simp: stage_def)
    show "ch_status x \<noteq> Planned" if "\<not> is_static (po_algorithm p)" "x \<in> set (ps_children u)" for x
      using el [OF that(2)] that(1) s st by (auto simp: stage_def)
    show "length (filter active (ps_children u)) \<le> 1" if "\<not> is_static (po_algorithm p)"
      using len st that by (auto simp: stage_def)
    show "of_int (ps_committed u) \<le> of_int (ps_last_volume u) * rate_of p" if "po_algorithm p = POV"
    proof -
      have "of_int (ps_committed u) \<le> (of_int (ps_committed st) :: rat)" using com by simp
      also have "\<dots> \<le> of_int (ps_last_volume u) * rate_of p"
        using st that by (simp add: stage_def same)
      finally show ?thesis .
    qed
  qed
  with hist show ?thesis by (simp add: advances_def same)
qed

section \<open>Calls and runs\<close>

text \<open>A file that continues another one.\<close>

definition extends :: "parent_file \<Rightarrow> parent_file \<Rightarrow> bool" where
  "extends file file' \<longleftrightarrow> (\<forall>st. file = Some (Some st) \<longrightarrow> (\<exists>st'. file' = Some (Some st') \<and>
     history_le (ps_children st) (ps_children st') \<and> ps_last_volume st \<le> ps_last_volume st'))"

lemma extends_refl [simp]: "extends file file"
  by (simp add: extends_def)

lemma extends_trans:
  assumes "extends a b" "extends b c"
  shows "extends a c"
  unfolding extends_def
proof (intro allI impI)
  fix st assume "a = Some (Some st)"
  with assms(1) obtain st1 where 1: "b = Some (Some st1)" "history_le (ps_children st) (ps_children st1)"
      "ps_last_volume st \<le> ps_last_volume st1" by (auto simp: extends_def)
  with assms(2) obtain st2 where 2: "c = Some (Some st2)" "history_le (ps_children st1) (ps_children st2)"
      "ps_last_volume st1 \<le> ps_last_volume st2" by (auto simp: extends_def)
  from 1 2 show "\<exists>st'. c = Some (Some st') \<and>
       history_le (ps_children st) (ps_children st') \<and> ps_last_volume st \<le> ps_last_volume st'"
    using history_le_trans by (intro exI [of _ st2]) auto
qed

lemma transact_extends:
  assumes "file_ok D p file" "canon p"
    and adv: "\<And>st u. state_ok D p st \<Longrightarrow> m st = Inr u \<Longrightarrow> advances p st u"
  shows "file_ok D p (snd (transact D w now p m file)) \<and> extends file (snd (transact D w now p m file))"
proof -
  obtain r file' where t: "transact D w now p m file = (r, file')" by (metis prod.collapse)
  have keep: "\<And>st u. state_ok D p st \<Longrightarrow> m st = Inr u \<Longrightarrow> stage p u"
    using adv by (auto simp: advances_def)
  have "file' = file \<or> (\<exists>st u new. transact_base D now p file = Inr st \<and> state_ok D p st \<and> m st = Inr u \<and>
     ps_children new = ps_children u \<and> ps_last_volume new = ps_last_volume u \<and>
     state_ok D p new \<and> file' = Some (Some new))"
    using t assms(1,2) by (rule transact_file) (rule keep)
  then show ?thesis
  proof (elim disjE exE conjE)
    assume "file' = file"
    with t assms(1) show ?thesis by simp
  next
    fix st u new
    assume st: "transact_base D now p file = Inr st" "state_ok D p st" "m st = Inr u"
      and new: "ps_children new = ps_children u" "ps_last_volume new = ps_last_volume u"
      "state_ok D p new" "file' = Some (Some new)"
    from adv [OF st(2,3)] have "history_le (ps_children st) (ps_children new)"
        "ps_last_volume st \<le> ps_last_volume new"
      by (simp_all add: advances_def new)
    with base_ok [OF assms(1,2), of now] st(1) t new show ?thesis
      by (auto simp: file_ok_def extends_def)
  qed
qed

lemma ensure_extends:
  assumes "file_ok D p file" "canon p"
  shows "file_ok D p (snd (ensure D w now p file)) \<and> extends file (snd (ensure D w now p file))"
  using assms read_ok [OF assms] fresh_ok [OF assms(2), of D now]
  by (cases w; cases "file")
    (auto simp: ensure_def canon_def write_unlocked_def Let_def file_ok_def extends_def split: option.splits)

lemma parent_do_extends:
  assumes "file_ok D p file" "canon p"
  shows "file_ok D p (parent_do D K p file c) \<and> extends file (parent_do D K p file c)"
proof (cases c)
  case (Start_engine w now)
  obtain r1 f1 where e: "ensure D (w 0) now p file = (r1, f1)" by (metis prod.collapse)
  with ensure_extends [OF assms, of "w 0" now] have 1: "file_ok D p f1" "extends file f1" by simp_all
  have "file_ok D p (snd (transact D (w 1) now p (static_mutator K now p) f1)) \<and>
      extends f1 (snd (transact D (w 1) now p (static_mutator K now p) f1))"
    if "is_static (po_algorithm p)"
    by (rule transact_extends [OF 1(1) assms(2)]) (rule static_mutator_advances [OF _ that])
  with 1 e Start_engine assms(2) show ?thesis
    by (auto simp: engine_make_def canon_def split: sum.splits prod.splits dest: extends_trans)
next
  case (Release_due w now timestamp vol)
  have "file_ok D p (snd (transact D w now p (release_mutator K p timestamp vol) file)) \<and>
      extends file (snd (transact D w now p (release_mutator K p timestamp vol) file))"
    by (rule transact_extends [OF assms]) (rule release_mutator_advances [OF _ assms(2)])
  with Release_due assms(1) show ?thesis
    by (auto simp: release_due_def parse_time_def split: sum.splits prod.splits)
next
  case (Acknowledge w now cid status filled)
  have "file_ok D p (snd (transact D w now p (ack_mutator now p cid status filled) file)) \<and>
      extends file (snd (transact D w now p (ack_mutator now p cid status filled) file))"
    if "status \<noteq> Planned"
    by (rule transact_extends [OF assms]) (rule ack_mutator_advances [OF _ that])
  with Acknowledge assms(1) show ?thesis by (auto simp: acknowledge_def)
qed

definition parent_step ::
    "state_digest \<Rightarrow> child_digest \<Rightarrow> parent_spec \<Rightarrow> parent_file \<Rightarrow> parent_call \<Rightarrow> parent_file res" where
  "parent_step D K p file c = Inr (parent_do D K p file c)"

interpretation parent_file: guarded_machine "parent_step D K p"
    "\<lambda>file. canon p \<longrightarrow> file_ok D p file \<and> extends file0 file" for D K p file0
  by unfold_locales (auto simp: parent_step_def dest: parent_do_extends intro: extends_trans)

text \<open>The file after a run of calls.\<close>

definition parent_run ::
    "state_digest \<Rightarrow> child_digest \<Rightarrow> parent_spec \<Rightarrow> parent_file \<Rightarrow> parent_call list \<Rightarrow> parent_file" where
  "parent_run D K p file cs = foldl (parent_do D K p) file cs"

lemma parent_run_steps: "run_steps (parent_step D K p) file cs = Inr (parent_run D K p file cs)"
  by (induction cs arbitrary: "file") (simp_all add: parent_run_def parent_step_def)

lemma parent_run_ok:
  assumes "canon p" "file_ok D p file"
  shows "file_ok D p (parent_run D K p file cs)" "extends file (parent_run D K p file cs)"
  using parent_file.run_inv [OF _ parent_run_steps, of p D "file" "file" K cs] assms by auto

end
