(* ===== verification/Parent_Allocation.thy ===== *)
theory Parent_Allocation
  imports Parent_Facts
begin

text \<open>
  The largest-remainder allocation of lots to the slices of a static schedule.
\<close>

section \<open>Adding one at chosen places\<close>

lemma fold_bump:
  assumes "distinct is" "\<forall>i\<in>set is. i < length b"
  shows "length (fold (\<lambda>i b. b[i := b ! i + 1]) is b) = length b \<and>
    (\<forall>j<length b. fold (\<lambda>i b. b[i := b ! i + 1]) is b ! j = b ! j + (if j \<in> set is then 1 else (0 :: int)))"
  using assms
proof (induction "is" arbitrary: b)
  case Nil
  then show ?case by simp
next
  case (Cons i "is")
  then show ?case by (auto simp: nth_list_update)
qed

lemma sum_nth: "(\<Sum>j<length xs. xs ! j) = sum_list (xs :: int list)"
  by (simp add: sum_list_sum_nth atLeast0LessThan)

lemma sum_fold_bump:
  assumes "distinct is" "\<forall>i\<in>set is. i < length b"
  shows "sum_list (fold (\<lambda>i b. b[i := b ! i + 1]) is b) = sum_list b + int (length is)"
proof -
  let ?r = "fold (\<lambda>i b. b[i := b ! i + 1]) is b"
  have "sum_list ?r = (\<Sum>j<length b. b ! j + (if j \<in> set is then 1 else 0))"
    using fold_bump [OF assms] by (simp add: sum_nth [symmetric])
  also have "\<dots> = sum_list b + int (card ({..<length b} \<inter> set is))"
    by (simp add: sum.distrib sum_nth sum.If_cases)
  also have "{..<length b} \<inter> set is = set is" using assms(2) by auto
  finally show ?thesis using assms(1) by (simp add: distinct_card)
qed

section \<open>The chosen slices\<close>

text \<open>Of the keys in sorted order, those that are taken come before those that are left.\<close>

lemma take_sorted:
  assumes "i \<in> set (take n (sort_key k xs))" "j \<in> set xs" "j \<notin> set (take n (sort_key k xs))"
  shows "k i \<le> k j"
proof -
  have "set (take n (sort_key k xs)) \<union> set (drop n (sort_key k xs)) = set xs"
    by (metis append_take_drop_id set_append set_sort)
  with assms(2,3) have "j \<in> set (drop n (sort_key k xs))" by blast
  moreover have "sorted (map k (take n (sort_key k xs)) @ map k (drop n (sort_key k xs)))"
    by (metis append_take_drop_id map_append sorted_sort_key)
  ultimately show ?thesis using assms(1) by (auto simp: sorted_append)
qed

lemma insort_key_agree:
  "(\<And>x. x \<in> insert a (set ys) \<Longrightarrow> f x = g x) \<Longrightarrow> insort_key f a ys = insort_key g a ys"
  by (induction ys) auto

lemma sort_key_agree: "(\<And>x. x \<in> set xs \<Longrightarrow> f x = g x) \<Longrightarrow> sort_key f xs = sort_key g xs"
proof (induction xs)
  case Nil
  then show ?case by simp
next
  case (Cons a xs)
  have "sort_key f xs = sort_key g xs" by (rule Cons.IH) (simp add: Cons.prems)
  moreover have "insort_key f a (sort_key g xs) = insort_key g a (sort_key g xs)"
    by (rule insort_key_agree) (simp add: Cons.prems)
  ultimately show ?case by simp
qed

definition frac_of :: "rat list \<Rightarrow> nat \<Rightarrow> rat" where
  "frac_of raw i = raw ! i - of_int \<lfloor>raw ! i\<rfloor>"

lemma frac_range: "0 \<le> frac_of raw i" "frac_of raw i < 1"
  using floor_correct [of "raw ! i"] by (simp_all add: frac_of_def)

lemma sum_frac:
  assumes "sum_list raw = of_int L"
  shows "(\<Sum>i<length raw. frac_of raw i) = of_int (L - sum_list (map floor raw))"
proof -
  have "(\<Sum>i<length raw. frac_of raw i) =
      (\<Sum>i<length raw. raw ! i) - of_int (\<Sum>i<length raw. map floor raw ! i)"
    by (simp add: frac_of_def sum_subtractf)
  also have "(\<Sum>i<length raw. raw ! i) = of_int L"
    using assms by (simp add: sum_list_sum_nth atLeast0LessThan)
  also have "(\<Sum>i<length raw. map floor raw ! i) = sum_list (map floor raw)"
    using sum_nth [of "map floor raw"] by simp
  finally show ?thesis by simp
qed

text \<open>
  With shares that add up to the lots to give, the remainder is the sum of the fractional parts:
  it lies between zero and the number of slices, and every chosen slice has a positive fractional part.
\<close>

lemma chosen_facts:
  assumes sum: "sum_list raw = of_int L"
    and chosen: "chosen = take (nat (L - sum_list (map floor raw)))
      (sort_key (\<lambda>i. (- frac_of raw i, i)) [0..<length raw])"
  shows "0 \<le> L - sum_list (map floor raw)" "int (length chosen) = L - sum_list (map floor raw)"
    "distinct chosen" "\<forall>i\<in>set chosen. i < length raw"
    "\<forall>i\<in>set chosen. 0 < frac_of raw i"
    "\<forall>i\<in>set chosen. \<forall>j<length raw. j \<notin> set chosen \<longrightarrow> frac_of raw j \<le> frac_of raw i"
proof -
  let ?rem = "L - sum_list (map floor raw)" and ?k = "\<lambda>i. (- frac_of raw i, i)"
  have s: "(\<Sum>i<length raw. frac_of raw i) = of_int ?rem" using sum by (rule sum_frac)
  have "0 \<le> (\<Sum>i<length raw. frac_of raw i)" by (simp add: sum_nonneg frac_range)
  then show rem: "0 \<le> ?rem" unfolding s by (simp del: of_int_diff)
  have "(\<Sum>i<length raw. frac_of raw i) \<le> (\<Sum>i<length raw. 1)"
    using frac_range by (intro sum_mono) (simp add: less_imp_le)
  then have "of_int ?rem \<le> (of_int (int (length raw)) :: rat)" unfolding s by simp
  then have "?rem \<le> int (length raw)" by (simp only: of_int_le_iff)
  with rem show len: "int (length chosen) = ?rem" by (simp add: chosen)
  show "distinct chosen" by (simp add: chosen distinct_take)
  have sub: "set chosen \<subseteq> {..<length raw}"
    unfolding chosen using set_take_subset by (fastforce dest: in_set_takeD)
  then show "\<forall>i\<in>set chosen. i < length raw" by auto
  have le: "frac_of raw j \<le> frac_of raw i" if "i \<in> set chosen" "j < length raw" "j \<notin> set chosen" for i j
    using take_sorted [of i "nat ?rem" ?k "[0..<length raw]" j] that
    by (auto simp: chosen less_eq_prod_def)
  then show "\<forall>i\<in>set chosen. \<forall>j<length raw. j \<notin> set chosen \<longrightarrow> frac_of raw j \<le> frac_of raw i" by blast
  show "\<forall>i\<in>set chosen. 0 < frac_of raw i"
  proof (rule ccontr)
    assume "\<not> (\<forall>i\<in>set chosen. 0 < frac_of raw i)"
    then obtain i where i: "i \<in> set chosen" "frac_of raw i = 0"
      using frac_range(1) by (metis less_eq_rat_def)
    have zero: "frac_of raw j = 0" if "j \<in> {..<length raw} - set chosen" for j
      using le [OF i(1), of j] i(2) that frac_range(1) [of raw j] by auto
    have "(\<Sum>j<length raw. frac_of raw j) = (\<Sum>j\<in>set chosen. frac_of raw j)"
      using sub zero by (intro sum.mono_neutral_right) auto
    also have "\<dots> = (\<Sum>j\<in>set chosen - {i}. frac_of raw j)"
      using i by (simp add: sum.remove [of "set chosen" i])
    also have "\<dots> \<le> (\<Sum>j\<in>set chosen - {i}. 1)"
      using frac_range by (intro sum_mono) (simp add: less_imp_le)
    also have "\<dots> = of_int (int (card (set chosen - {i})))" by simp
    also have "card (set chosen - {i}) = card (set chosen) - 1" using i(1) by simp
    finally have "of_int ?rem \<le> (of_int (int (card (set chosen) - 1)) :: rat)" unfolding s .
    then have "?rem \<le> int (card (set chosen) - 1)" by (simp only: of_int_le_iff)
    moreover have "card (set chosen) = length chosen"
      using \<open>distinct chosen\<close> by (rule distinct_card)
    moreover have "0 < length chosen" using i(1) by (cases chosen) auto
    ultimately show False using len by linarith
  qed
qed

section \<open>The allocation\<close>

lemma allocate_spec:
  assumes "weights \<noteq> []" "\<forall>w\<in>set weights. 0 \<le> w" "sum_list weights = 1"
    and "0 \<le> total_quantity" "0 < lot_size" "lot_size dvd total_quantity"
  shows "\<exists>qs. allocate_lot_quantities total_quantity weights lot_size = Inr qs \<and>
    length qs = length weights \<and> sum_list qs = total_quantity \<and>
    (\<forall>i<length weights. 0 \<le> qs ! i \<and> lot_size dvd qs ! i \<and>
       \<bar>of_int (qs ! i) - weights ! i * of_int total_quantity\<bar> < of_int lot_size)"
proof -
  define L where "L = total_quantity div lot_size"
  define raw where "raw = map (\<lambda>w. w * of_int L) weights"
  define chosen where "chosen = take (nat (L - sum_list (map floor raw)))
      (sort_key (\<lambda>i. (- frac_of raw i, i)) [0..<length raw])"
  define lots where "lots = fold (\<lambda>i b. b[i := b ! i + 1]) chosen (map floor raw)"
  have L: "0 \<le> L" "L * lot_size = total_quantity" using assms(4-6) by (simp_all add: L_def pos_imp_zdiv_nonneg_iff)
  have nonneg: "\<forall>r\<in>set raw. 0 \<le> r" using assms(2) L(1) by (simp add: raw_def)
  have "py_int r = \<lfloor>r\<rfloor>" if "0 \<le> r" for r using that by (simp add: py_int_def)
  with nonneg have base: "map py_int raw = map floor raw" by simp
  have "sum_list raw = of_int L"
    using assms(3) by (simp add: raw_def sum_list_mult_const)
  note c = chosen_facts [OF this chosen_def]
  have key: "sort_key (\<lambda>i. (- (raw ! i - of_int (map floor raw ! i)), i)) [0..<length raw] =
      sort_key (\<lambda>i. (- frac_of raw i, i)) [0..<length raw]"
    by (rule sort_key_agree) (auto simp: frac_of_def)
  have alloc: "allocate_lot_quantities total_quantity weights lot_size = Inr (map (\<lambda>l. l * lot_size) lots)"
    using assms(1) c(1)
    unfolding allocate_lot_quantities_def Let_def L_def [symmetric] raw_def [symmetric] base key
    by (simp add: slice_to_def lots_def chosen_def)
  have bump: "length lots = length raw"
      "i < length raw \<Longrightarrow> lots ! i = \<lfloor>raw ! i\<rfloor> + (if i \<in> set chosen then 1 else 0)" for i
    using fold_bump [OF c(3), of "map floor raw"] c(4) by (simp_all add: lots_def)
  have "sum_list lots = L"
    using sum_fold_bump [OF c(3), of "map floor raw"] c(2,4) by (simp add: lots_def)
  then have total: "sum_list (map (\<lambda>l. l * lot_size) lots) = total_quantity"
    using L(2) by (simp add: sum_list_mult_const)
  have each: "0 \<le> lots ! i * lot_size \<and> \<bar>of_int (lots ! i * lot_size) - weights ! i * of_int total_quantity\<bar> < of_int lot_size"
    if "i < length weights" for i
  proof -
    have i: "i < length raw" using that by (simp add: raw_def)
    have share: "weights ! i * of_int total_quantity = raw ! i * of_int lot_size"
      using that L(2) by (simp add: raw_def flip: L(2))
    have "\<bar>of_int (lots ! i) - raw ! i\<bar> < 1"
      using bump(2) [OF i] frac_range [of raw i] c(5) by (cases "i \<in> set chosen") (auto simp: frac_of_def)
    then have "\<bar>of_int (lots ! i) - raw ! i\<bar> * of_int lot_size < 1 * of_int lot_size"
      using assms(5) by (intro mult_strict_right_mono) simp_all
    moreover have "\<bar>of_int (lots ! i) - raw ! i\<bar> * of_int lot_size =
        \<bar>of_int (lots ! i * lot_size) - weights ! i * of_int total_quantity\<bar>"
      using assms(5) unfolding share by (simp add: abs_mult flip: left_diff_distrib)
    moreover have "0 \<le> lots ! i" using bump(2) [OF i] nonneg i by (simp add: floor_le_iff)
    ultimately show ?thesis using assms(5) by simp
  qed
  show ?thesis
    using alloc bump(1) total each by (intro exI [of _ "map (\<lambda>l. l * lot_size) lots"]) (simp add: raw_def)
qed

end
