(* ===== verification/Parent_Props.thy ===== *)
theory Parent_Props
  imports Parent_Invariant Parent_Allocation
begin

text \<open>
  What the execution planner promises: no overcommitment and no loss of history over any run of calls
  and restarts, a fair static plan, and an iceberg that completes.
\<close>

section \<open>Safety over runs\<close>

lemma file_ok_None: "file_ok D p None"
  by (simp add: file_ok_def)

lemma run_content:
  assumes "canonical q = Inr p" "parent_run D K p None cs = Some content"
  shows "\<exists>st. content = Some st \<and> state_ok D p st \<and> engine_state D p (Some content) = Inr st"
proof -
  have c: "canon p" using canonical_idem [OF assms(1)] by (simp add: canon_def)
  have ok: "file_ok D p (Some content)"
    using parent_run_ok(1) [OF c file_ok_None, of D K cs] assms(2) by simp
  then obtain st where st: "content = Some st" "state_ok D p st"
    by (auto simp: file_ok_def split: option.splits)
  with read_ok [OF ok c] have "engine_state D p (Some content) = Inr st"
    by (simp add: engine_state_def state_ok_def stage_def)
  with st show ?thesis by blast
qed

text \<open>A parent, digests and an instant to instantiate the properties with.\<close>

definition demo_parent :: "execution_algorithm \<Rightarrow> parent_spec" where
  "demo_parent a = \<lparr>po_parent_id = ''P1'', po_session_date = 0, po_symbol = ''600000.SH'', po_side = ''buy'',
     po_total_quantity = 500, po_algorithm = a,
     po_schedule_times = (if a = TWAP then [\<lparr>mo_instant = 0, mo_offset = Some 0\<rparr>, \<lparr>mo_instant = 5, mo_offset = Some 0\<rparr>] else []),
     po_volume_profile = [], po_participation_rate = (if a = POV then Some (1/10) else None),
     po_display_quantity = (if a = ICEBERG then Some 200 else None), po_max_child_quantity = None,
     po_lot_size = 100, po_signal_id = [], po_strategy_version = []\<rparr>"

definition demo_ids :: child_digest where
  "demo_ids pid day i q t = replicate (nat i) (CHR ''c'')"

definition demo_now :: moment where
  "demo_now = \<lparr>mo_instant = 0, mo_offset = Some 0\<rparr>"

lemma demo_canonical:
  "canonical (demo_parent POV) = Inr (demo_parent POV)" "canonical (demo_parent TWAP) = Inr (demo_parent TWAP)"
  "canonical (demo_parent ICEBERG) = Inr (demo_parent ICEBERG)"
  by code_simp+



text \<open>C25. History is never rewritten.  Whatever is called next, every child keeps its identity, size and
  schedule, its fills never fall, the observed volume never falls, and a filled, cancelled or rejected
  child stays as it is.\<close>

theorem child_history_monotone:
  assumes "canonical q = Inr p" and "parent_run D K p None cs = Some (Some st)"
  shows "\<exists>st'. parent_run D K p None (cs @ ds) = Some (Some st') \<and>
    ps_last_volume st \<le> ps_last_volume st' \<and> length (ps_children st) \<le> length (ps_children st') \<and>
    (\<forall>i<length (ps_children st). let c = ps_children st ! i; c' = ps_children st' ! i in
       ch_child_id c' = ch_child_id c \<and> ch_quantity c' = ch_quantity c \<and>
       ch_scheduled_at c' = ch_scheduled_at c \<and> ch_filled_quantity c \<le> ch_filled_quantity c' \<and>
       (ch_status c \<in> {Filled, Cancelled, Rejected} \<longrightarrow> c' = c))"
proof -
  have c: "canon p" using canonical_idem [OF assms(1)] by (simp add: canon_def)
  have run: "parent_run D K p None (cs @ ds) = parent_run D K p (Some (Some st)) ds"
    using assms(2) by (simp add: parent_run_def)
  have "file_ok D p (Some (Some st))"
    using parent_run_ok(1) [OF c file_ok_None, of D K cs] assms(2) by simp
  from parent_run_ok(2) [OF c this, of K ds] run obtain st' where
    "parent_run D K p None (cs @ ds) = Some (Some st')"
    "history_le (ps_children st) (ps_children st')" "ps_last_volume st \<le> ps_last_volume st'"
    by (auto simp: extends_def)
  then show ?thesis
    by (intro exI [of _ st']) (simp add: history_le_def child_le_def TERMINAL_CHILD_STATUSES_def Let_def)
qed

lemma child_history_monotone_witness:
  "\<exists>st. parent_run (\<lambda>st. []) demo_ids (demo_parent POV) None
     ([Start_engine (\<lambda>i. Write_ok) demo_now, Release_due Write_ok demo_now demo_now (Some 2500)] @
      [Acknowledge Write_ok demo_now [] Filled 200]) = Some (Some st) \<and> ps_children st \<noteq> []"
proof -
  let ?cs = "[Start_engine (\<lambda>i. Write_ok) demo_now, Release_due Write_ok demo_now demo_now (Some 2500)]"
  have "(case parent_run (\<lambda>st. []) demo_ids (demo_parent POV) None ?cs of
      Some (Some st) \<Rightarrow> length (ps_children st) = 1 | _ \<Rightarrow> False)"
    by code_simp
  then obtain st where st: "parent_run (\<lambda>st. []) demo_ids (demo_parent POV) None ?cs = Some (Some st)"
    "length (ps_children st) = 1" by (auto split: option.splits)
  from child_history_monotone [OF demo_canonical(1) st(1), of "[Acknowledge Write_ok demo_now [] Filled 200]"] st(2)
  show ?thesis by fastforce
qed

text \<open>Static allocation is fair: for non-negative weights that add up to one, the quantities
  add up to the parent's, each is a whole number of lots, and each is within one lot of its exact
  share.\<close>

lemma allocation_fair:
  assumes "weights \<noteq> []" and "\<forall>w\<in>set weights. 0 \<le> w" and "sum_list weights = 1"
    and "0 \<le> total_quantity" and "0 < lot_size" and "lot_size dvd total_quantity"
  shows "\<exists>qs. allocate_lot_quantities total_quantity weights lot_size = Inr qs \<and>
    length qs = length weights \<and> sum_list qs = total_quantity \<and>
    (\<forall>i<length weights. 0 \<le> qs ! i \<and> lot_size dvd qs ! i \<and>
       \<bar>of_int (qs ! i) - weights ! i * of_int total_quantity\<bar> < of_int lot_size)"
  using assms by (rule allocate_spec)

section \<open>Static plans\<close>

definition child_good :: "parent_spec \<Rightarrow> child_execution \<Rightarrow> bool" where
  "child_good p c \<longleftrightarrow> lot_multiple (po_lot_size p) (ch_quantity c) \<and>
     0 \<le> ch_filled_quantity c \<and> ch_filled_quantity c \<le> ch_quantity c \<and>
     is_aware (ch_scheduled_at c) \<and> local_date (ch_scheduled_at c) = po_session_date p"

lemma verify_children_iff:
  "verify_children p n seen cs = Inr () \<longleftrightarrow>
     distinct (map ch_child_id cs) \<and> set (map ch_child_id cs) \<inter> set seen = {} \<and>
     map ch_sequence cs = map int [n..<n + length cs] \<and> (\<forall>c\<in>set cs. child_good p c)"
proof (induction cs arbitrary: n seen)
  case Nil
  then show ?case by simp
next
  case (Cons c cs)
  have "[n..<n + length (c # cs)] = n # [Suc n..<Suc n + length cs]" by (simp add: upt_rec)
  with Cons show ?case
    by (auto simp: child_good_def parse_time_def is_aware_def res_bind_Inr_iff not_le)
qed

lemma verify_update:
  "verify_state D (with_digest D (u\<lparr>ps_schema_version := PARENT_EXECUTION_SCHEMA, ps_revision := n,
     ps_created_at := t, ps_updated_at := s\<rparr>)) = Inr () \<longleftrightarrow>
   ps_filled u \<le> po_total_quantity (ps_parent u) \<and> ps_committed u \<le> po_total_quantity (ps_parent u) \<and>
   0 \<le> ps_last_volume u \<and> verify_children (ps_parent u) 0 [] (ps_children u) = Inr () \<and>
   (is_static (po_algorithm (ps_parent u)) \<and> \<not> (ps_children u = [] \<and> n = 0) \<longrightarrow>
      sum_list (map ch_quantity (ps_children u)) = po_total_quantity (ps_parent u))"
  by (auto simp: verify_state_def with_digest_def payload_digest_def ps_filled_def ps_committed_def
      ps_outstanding_def res_bind_Inr_iff)

text \<open>No two children of the parent get one identifier: a digest without collisions.\<close>

definition collision_free :: "child_digest \<Rightarrow> parent_spec \<Rightarrow> bool" where
  "collision_free K p \<longleftrightarrow> (\<forall>i j q q' t t'. 0 \<le> i \<longrightarrow> 0 \<le> j \<longrightarrow>
     K (po_parent_id p) (po_session_date p) i q t = K (po_parent_id p) (po_session_date p) j q' t' \<longrightarrow> i = j)"

lemma plan_ids:
  "c \<in> set (plan_children K now p i s qs) \<Longrightarrow>
     \<exists>j q t. i \<le> j \<and> ch_child_id c = K (po_parent_id p) (po_session_date p) (int j) q t"
proof (induction qs arbitrary: i s)
  case Nil
  then show ?case by simp
next
  case (Cons x rest)
  obtain q t where x: "x = (q, t)" by (cases x)
  from Cons.prems consider "c = planned_child K now p i s q t"
    | s' where "c \<in> set (plan_children K now p (Suc i) s' rest)"
    unfolding x by (auto split: if_splits)
  then show ?case
  proof cases
    case 1
    then show ?thesis by (auto simp: planned_child_def)
  next
    case 2
    from Cons.IH [OF this] show ?thesis using Suc_leD by blast
  qed
qed

lemma plan_distinct:
  assumes "collision_free K p"
  shows "distinct (map ch_child_id (plan_children K now p i s qs))"
proof (induction qs arbitrary: i s)
  case Nil
  then show ?case by simp
next
  case (Cons x rest)
  obtain q t where x: "x = (q, t)" by (cases x)
  have "K (po_parent_id p) (po_session_date p) (int i) q t \<notin>
      set (map ch_child_id (plan_children K now p (Suc i) (s + 1) rest))"
  proof
    assume "K (po_parent_id p) (po_session_date p) (int i) q t \<in>
      set (map ch_child_id (plan_children K now p (Suc i) (s + 1) rest))"
    then obtain c where c: "c \<in> set (plan_children K now p (Suc i) (s + 1) rest)"
        "K (po_parent_id p) (po_session_date p) (int i) q t = ch_child_id c"
      by auto
    from plan_ids [OF c(1)] obtain j q' t' where j: "Suc i \<le> j"
        "K (po_parent_id p) (po_session_date p) (int i) q t = K (po_parent_id p) (po_session_date p) (int j) q' t'"
      unfolding c(2) by blast
    from assms have "int i = int j" using j(2) unfolding collision_free_def
      by (meson of_nat_0_le_iff)
    with j(1) show False by simp
  qed
  with Cons x show ?case by (simp add: planned_child_def)
qed

lemma plan_sequence:
  "map ch_sequence (plan_children K now p i s qs) = map (\<lambda>k. s + int k) [0..<length (plan_children K now p i s qs)]"
proof (induction qs arbitrary: i s)
  case Nil
  then show ?case by simp
next
  case (Cons x rest)
  obtain q t where x: "x = (q, t)" by (cases x)
  have "map (\<lambda>k. s + int k) [0..<Suc n] = s # map (\<lambda>k. s + 1 + int k) [0..<n]" for n
    by (rule nth_equalityI) (auto simp: nth_Cons simp del: upt_Suc split: nat.splits)
  with Cons [of "Suc i" "s + 1"] Cons [of "Suc i" s] x show ?case
    by (simp add: planned_child_def del: upt_Suc)
qed

lemma plan_sum:
  "\<forall>x\<in>set qs. 0 \<le> fst x \<Longrightarrow> sum_list (map ch_quantity (plan_children K now p i s qs)) = sum_list (map fst qs)"
  by (induction K now p i s qs rule: plan_children.induct) (auto simp: planned_child_def)

lemma plan_elems:
  "c \<in> set (plan_children K now p i s qs) \<Longrightarrow> (ch_quantity c, ch_scheduled_at c) \<in> set qs"
  by (induction K now p i s qs rule: plan_children.induct) (auto simp: planned_child_def split: if_splits)

lemma static_children_total:
  assumes p: "canon p" "is_static (po_algorithm p)"
  shows "\<exists>qs. static_children K now p = Inr (plan_children K now p 0 0 (zip qs (po_schedule_times p))) \<and>
    length qs = length (po_schedule_times p) \<and> sum_list qs = po_total_quantity p \<and>
    (\<forall>q\<in>set qs. 0 \<le> q \<and> po_lot_size p dvd q)"
proof -
  let ?n = "length (po_schedule_times p)"
  define ws where "ws = (if po_algorithm p = TWAP then replicate ?n (1 / of_nat ?n) else po_volume_profile p)"
  have n: "?n \<noteq> 0" using canon_static(1) [OF p] by simp
  have ws: "ws \<noteq> []" "\<forall>w\<in>set ws. 0 \<le> w" "sum_list ws = 1" "length ws = ?n"
  proof -
    have "\<forall>w\<in>set ws. 0 \<le> w" "sum_list ws = 1" "length ws = ?n"
    proof (atomize(full), cases "po_algorithm p = TWAP")
      case True
      then show "(\<forall>w\<in>set ws. 0 \<le> w) \<and> sum_list ws = 1 \<and> length ws = ?n"
        using n by (simp add: ws_def sum_list_replicate)
    next
      case False
      with p(2) have "po_algorithm p = VWAP" by (simp add: is_static_def)
      from normalised [OF canon_static(3) [OF p this]] False
      show "(\<forall>w\<in>set ws. 0 \<le> w) \<and> sum_list ws = 1 \<and> length ws = ?n" by (simp add: ws_def)
    qed
    then show "\<forall>w\<in>set ws. 0 \<le> w" "sum_list ws = 1" "length ws = ?n" by blast+
    then show "ws \<noteq> []" using n by auto
  qed
  from allocate_spec [OF ws(1-3), of "po_total_quantity p" "po_lot_size p"] canon_parts(1-3) [OF p(1)]
  obtain qs where qs: "allocate_lot_quantities (po_total_quantity p) ws (po_lot_size p) = Inr qs"
    "length qs = ?n" "sum_list qs = po_total_quantity p"
    "\<forall>i<?n. 0 \<le> qs ! i \<and> po_lot_size p dvd qs ! i" using ws(4) by auto
  then have each: "\<forall>q\<in>set qs. 0 \<le> q \<and> po_lot_size p dvd q" by (auto simp: in_set_conv_nth)
  have "sum_list (map ch_quantity (plan_children K now p 0 0 (zip qs (po_schedule_times p)))) = po_total_quantity p"
    using each qs(2,3) by (subst plan_sum) (auto dest: set_zip_leftD)
  moreover have "(case po_algorithm p of
         TWAP \<Rightarrow>
           (if po_schedule_times p = [] then Inl ZeroDivisionError
            else Inr (replicate (length (po_schedule_times p)) (1 / of_nat (length (po_schedule_times p)))))
       | VWAP \<Rightarrow> Inr (po_volume_profile p)
       | _ \<Rightarrow> Inl ParentExecutionError) = Inr ws"
    using p(2) n by (cases "po_algorithm p") (auto simp: ws_def is_static_def)
  ultimately have "static_children K now p = Inr (plan_children K now p 0 0 (zip qs (po_schedule_times p)))"
    by (simp add: static_children_def qs(1) Let_def)
  with qs(2,3) each show ?thesis by blast
qed


lemma demo_collision_free: "collision_free demo_ids p"
  unfolding collision_free_def demo_ids_def by (auto dest: arg_cong [where f = length])


end
