(* ===== verification/Parent_Liveness.thy ===== *)
theory Parent_Liveness
  imports Parent_Props
begin

text \<open>
  An iceberg parent completes: as long as every displayed child is filled, each round of a release and
  an acknowledgement adds one display quantity, and the parent is complete after as many rounds as
  the quantity needs.
\<close>

section \<open>Transactions that succeed\<close>

definition committed_update :: "state_digest \<Rightarrow> moment \<Rightarrow> parent_state \<Rightarrow> parent_state \<Rightarrow> parent_state" where
  "committed_update D now st u = with_digest D (u\<lparr>ps_schema_version := PARENT_EXECUTION_SCHEMA,
     ps_revision := ps_revision st + 1, ps_created_at := ps_created_at st, ps_updated_at := Some now\<rparr>)"

lemma committed_update_fields [simp]:
  "ps_children (committed_update D now st u) = ps_children u"
  "ps_parent (committed_update D now st u) = ps_parent u"
  "ps_filled (committed_update D now st u) = ps_filled u"
  "ps_last_volume (committed_update D now st u) = ps_last_volume u"
  by (simp_all add: committed_update_def with_digest_def ps_filled_def)

lemma transact_commit:
  assumes "state_ok D p st" "canon p" "\<not> is_static (po_algorithm p)"
    and "m st = Inr u" "ps_parent u = p" "ps_committed u \<le> po_total_quantity p" "ps_filled u \<le> po_total_quantity p"
    and "0 \<le> ps_last_volume u" "verify_children p 0 [] (ps_children u) = Inr ()"
  shows "transact D Write_ok now p m (Some (Some st)) =
    (Inr (committed_update D now st u), Some (Some (committed_update D now st u)))"
proof -
  have ok: "file_ok D p (Some (Some st))" using assms(1) by (simp add: file_ok_def)
  have "transact_base D now p (Some (Some st)) = Inr st" using base_ok [OF ok assms(2), of now] by auto
  moreover have "verify_state D (committed_update D now st u) = Inr ()"
    unfolding committed_update_def verify_update using assms by simp
  then have "transact_update D now p m st = Inr (committed_update D now st u)"
    unfolding update_Inr using assms(4,5) by (auto simp: committed_update_def)
  ultimately show ?thesis
    using assms(2) by (simp add: transact_def canon_def write_unlocked_def)
qed

lemma committed_state_ok:
  assumes "file_ok D p file" "canon p" "parent_do D K p file c = Some (Some st)"
  shows "state_ok D p st"
  using parent_do_extends [OF assms(1,2), of K c] assms(3) by (simp add: file_ok_def)

lemma distinct_singleton: "distinct xs \<Longrightarrow> set xs = {x} \<Longrightarrow> xs = [x]"
proof (cases xs)
  case (Cons y ys)
  assume "distinct xs" "set xs = {x}"
  with Cons have "y = x" "set ys \<subseteq> {x}" "x \<notin> set ys" by auto
  then have "set ys = {}" by (metis subset_singletonD insertI1)
  with Cons \<open>y = x\<close> show ?thesis by simp
qed simp

lemma filter_index:
  "distinct (map f xs) \<Longrightarrow> i < length xs \<Longrightarrow> filter (\<lambda>j. f (xs ! j) = f (xs ! i)) [0..<length xs] = [i]"
  by (rule distinct_singleton [OF distinct_filter [OF distinct_upt]]) (auto simp: distinct_conv_nth)

lemma sum_list_dvd: "\<forall>x\<in>set xs. d dvd f x \<Longrightarrow> (d :: int) dvd sum_list (map f xs)"
  by (induction xs) auto

section \<open>Rounds of an iceberg\<close>

text \<open>What one child shows.\<close>

definition display_slice :: "parent_spec \<Rightarrow> int" where
  "display_slice p = cap_child p (case po_display_quantity p of None \<Rightarrow> 0 | Some d \<Rightarrow> d)"

definition fill_last :: "state_digest \<Rightarrow> moment \<Rightarrow> parent_spec \<Rightarrow> parent_file \<Rightarrow> parent_file" where
  "fill_last D now p file =
     (case file of
        Some (Some st) \<Rightarrow>
          if ps_children st = [] then file
          else snd (acknowledge D Write_ok now p (ch_child_id (last (ps_children st))) Filled
                 (ch_quantity (last (ps_children st))) file)
      | _ \<Rightarrow> file)"

definition iceberg_round :: "state_digest \<Rightarrow> child_digest \<Rightarrow> parent_spec \<Rightarrow> moment \<Rightarrow> parent_file \<Rightarrow> parent_file" where
  "iceberg_round D K p now file = fill_last D now p (snd (release_due D K Write_ok now p now None file))"

text \<open>After some rounds: every child is filled and has the identifier of its place.\<close>

definition ice_state :: "state_digest \<Rightarrow> child_digest \<Rightarrow> parent_spec \<Rightarrow> int \<Rightarrow> parent_state \<Rightarrow> bool" where
  "ice_state D K p n st \<longleftrightarrow> state_ok D p st \<and> (\<forall>c\<in>set (ps_children st). ch_status c = Filled) \<and>
     (\<forall>i<length (ps_children st). \<exists>q t. ch_child_id (ps_children st ! i) =
        K (po_parent_id p) (po_session_date p) (int i) q t) \<and>
     ps_filled st = min (po_total_quantity p) (n * display_slice p)"

text \<open>The setting: an iceberg, a release time in its session, and no collisions of identifiers.\<close>

definition ice_setting :: "child_digest \<Rightarrow> parent_spec \<Rightarrow> moment \<Rightarrow> bool" where
  "ice_setting K p now \<longleftrightarrow> canon p \<and> po_algorithm p = ICEBERG \<and> collision_free K p \<and>
     is_aware now \<and> local_date now = po_session_date p"

lemma ice_dynamic: "ice_setting K p now \<Longrightarrow> \<not> is_static (po_algorithm p)"
  by (simp add: ice_setting_def is_static_def)

lemma ice_slice:
  assumes "ice_setting K p now"
  shows "0 < display_slice p" "po_lot_size p dvd display_slice p"
  using assms canon_display [of p] canon_max_child [of p]
  by (auto simp: ice_setting_def display_slice_def cap_child_def min_def split: option.splits)

lemma all_filled:
  assumes "state_ok D p st" "ice_setting K p now" "\<forall>c\<in>set (ps_children st). ch_status c = Filled"
  shows "\<not> has_active st" "po_lot_size p dvd ps_filled st" "ps_committed st = ps_filled st"
proof -
  show idle: "\<not> has_active st" using assms(3) by (auto simp: has_active_def ACTIVE_CHILD_STATUSES_def)
  have good: "\<forall>c\<in>set (ps_children st). child_good p c"
    using assms(1) verified_bounds(4) [of D st] by (auto simp: state_ok_def stage_def verify_children_iff)
  have "po_lot_size p dvd ch_filled_quantity c" if "c \<in> set (ps_children st)" for c
  proof -
    have "fits c" using assms(1) that by (simp add: state_ok_def stage_def)
    then have "ch_filled_quantity c = ch_quantity c" using assms(3) that by (auto simp: fits_def)
    with good that show ?thesis by (auto simp: child_good_def lot_multiple_def)
  qed
  then show "po_lot_size p dvd ps_filled st" unfolding ps_filled_def by (simp add: sum_list_dvd)
  show "ps_committed st = ps_filled st"
    using assms(1) ice_dynamic [OF assms(2)] idle by (intro idle_committed) (simp_all add: state_ok_def)
qed

lemma release_call:
  assumes "ice_setting K p now"
  shows "snd (release_due D K Write_ok now p now None file) =
    snd (transact D Write_ok now p (release_mutator K p now None) file)"
  using assms by (cases "mo_offset now")
    (auto simp: release_due_def parse_time_def is_aware_def ice_setting_def split: prod.splits sum.splits)

lemma release_file_ok:
  assumes "ice_setting K p now" "state_ok D p st"
    "snd (release_due D K Write_ok now p now None (Some (Some st))) = Some (Some st')"
  shows "state_ok D p st'"
  using committed_state_ok [of D p "Some (Some st)" K "Release_due Write_ok now now None" st'] assms
  by (simp add: file_ok_def ice_setting_def)

lemma fill_file_ok:
  assumes "ice_setting K p now" "state_ok D p st" "fill_last D now p (Some (Some st)) = Some (Some st')"
  shows "state_ok D p st'"
  using committed_state_ok [of D p "Some (Some st)" K
      "Acknowledge Write_ok now (ch_child_id (last (ps_children st))) Filled (ch_quantity (last (ps_children st)))" st'] assms
  by (auto simp: file_ok_def ice_setting_def fill_last_def split: if_splits)

lemma verified_parts:
  assumes "state_ok D p st"
  shows "ps_parent st = p" "verify_children p 0 [] (ps_children st) = Inr ()" "0 \<le> ps_last_volume st"
    "ps_filled st \<le> po_total_quantity p" "ps_committed st \<le> po_total_quantity p"
  using assms verified_bounds [of D st] by (auto simp: state_ok_def stage_def)

text \<open>Once complete, a round changes no child.\<close>

lemma round_complete:
  assumes set: "ice_setting K p now" and st: "ice_state D K p n st" and fin: "ps_complete st"
  shows "\<exists>st'. iceberg_round D K p now (Some (Some st)) = Some (Some st') \<and> state_ok D p st' \<and>
    ps_children st' = ps_children st \<and> ps_filled st' = ps_filled st"
proof -
  from st have ok: "state_ok D p st" and filled: "\<forall>c\<in>set (ps_children st). ch_status c = Filled"
    by (simp_all add: ice_state_def)
  note v = verified_parts [OF ok]
  have c: "canon p" using set by (simp add: ice_setting_def)
  have "release_mutator K p now None st = Inr st" using fin by (simp add: release_mutator_def)
  from transact_commit [of D p st "release_mutator K p now None", OF ok c ice_dynamic [OF set] this v(1,5,4,3,2)]
  obtain st1 where 1: "snd (release_due D K Write_ok now p now None (Some (Some st))) = Some (Some st1)"
    "ps_children st1 = ps_children st" "ps_filled st1 = ps_filled st"
    by (auto simp: release_call [OF set])
  have ok1: "state_ok D p st1" using release_file_ok [OF set ok 1(1)] .
  note v1 = verified_parts [OF ok1]
  have "ps_children st \<noteq> []"
    using fin canon_parts(1) [OF c] v(1) by (auto simp: ps_complete_def ps_filled_def)
  define k where "k = length (ps_children st) - 1"
  have k: "k < length (ps_children st1)" "last (ps_children st1) = ps_children st1 ! k"
    using \<open>ps_children st \<noteq> []\<close> by (simp_all add: k_def 1(2) last_conv_nth)
  let ?c = "last (ps_children st1)"
  have "?c \<in> set (ps_children st1)" using \<open>ps_children st \<noteq> []\<close> by (simp add: 1(2))
  then have cf: "ch_status ?c = Filled" "fits ?c"
    using filled 1(2) ok1 by (auto simp: state_ok_def stage_def)
  have "distinct (map ch_child_id (ps_children st1))" using v1(2) by (simp add: verify_children_iff)
  from filter_index [OF this k(1)] have
    "ack_mutator now p (ch_child_id ?c) Filled (ch_quantity ?c) st1 = Inr st1"
    using cf by (simp add: ack_mutator_def k(2) [symmetric] fits_def TERMINAL_CHILD_STATUSES_def)
  from transact_commit [of D p st1 "ack_mutator now p (ch_child_id ?c) Filled (ch_quantity ?c)" st1 now,
      OF ok1 c ice_dynamic [OF set] this v1(1,5,4,3,2)]
  have "fill_last D now p (Some (Some st1)) =
      Some (Some (committed_update D now st1 st1))"
    using \<open>ps_children st \<noteq> []\<close> by (simp add: fill_last_def acknowledge_def 1(2))
  with fill_file_ok [OF set ok1 this] 1 show ?thesis by (simp add: iceberg_round_def)
qed

text \<open>What the release of an idle, incomplete iceberg appends.\<close>

lemma iceberg_release:
  assumes set: "ice_setting K p now" and st: "ice_state D K p n st" and not_yet: "\<not> ps_complete st"
  shows "\<exists>st1. snd (release_due D K Write_ok now p now None (Some (Some st))) = Some (Some st1) \<and>
    state_ok D p st1 \<and>
    ps_children st1 = ps_children st @
      [new_child K p st (min (po_total_quantity p - ps_filled st) (display_slice p)) now]"
proof -
  from st have ok: "state_ok D p st" and filled: "\<forall>c\<in>set (ps_children st). ch_status c = Filled"
    and ids: "\<forall>i<length (ps_children st). \<exists>q t. ch_child_id (ps_children st ! i) =
        K (po_parent_id p) (po_session_date p) (int i) q t"
    by (simp_all add: ice_state_def)
  note v = verified_parts [OF ok] and a = all_filled [OF ok set filled] and sl = ice_slice [OF set]
  have c: "canon p" and ice: "po_algorithm p = ICEBERG" and free: "collision_free K p"
    and now: "is_aware now" "local_date now = po_session_date p"
    using set by (simp_all add: ice_setting_def)
  have rem: "ps_remaining st = po_total_quantity p - ps_filled st" "0 < ps_remaining st"
    using not_yet v(1) by (auto simp: ps_remaining_def ps_complete_def)
  define q where "q = min (po_total_quantity p - ps_filled st) (display_slice p)"
  define new where "new = new_child K p st q now"
  have q: "0 < q" "po_lot_size p dvd q" "q \<le> po_total_quantity p - ps_filled st"
    using rem sl a(2) canon_parts(3) [OF c] by (auto simp: q_def min_def)
  have "cap_child p (min (ps_remaining st) (case po_display_quantity p of None \<Rightarrow> 0 | Some d \<Rightarrow> d)) = q"
    by (auto simp: q_def rem(1) display_slice_def cap_child_def min_def split: option.splits)
  then have m: "release_mutator K p now None st = Inr (st\<lparr>ps_children := ps_children st @ [new]\<rparr>)"
    using not_yet ice a(1) rem(2) q by (simp add: release_mutator_def release_iceberg_def floor_lot_exact new_def)
  let ?u = "st\<lparr>ps_children := ps_children st @ [new]\<rparr>"
  have com: "ps_committed ?u = ps_filled st + q"
    using a(3) q(1) by (simp add: committed_append new_def new_child_facts)
  have fil: "ps_filled ?u = ps_filled st" by (simp add: ps_filled_def new_def new_child_def)
  have old: "distinct (map ch_child_id (ps_children st))"
      "map ch_sequence (ps_children st) = map int [0..<length (ps_children st)]"
      "\<forall>x\<in>set (ps_children st). child_good p x"
    using v(2) by (simp_all add: verify_children_iff)
  have "ch_child_id new \<noteq> ch_child_id x" if "x \<in> set (ps_children st)" for x
  proof
    assume eq: "ch_child_id new = ch_child_id x"
    from that obtain i where i: "i < length (ps_children st)" "x = ps_children st ! i"
      by (auto simp: in_set_conv_nth)
    with ids obtain q' t' where "ch_child_id x = K (po_parent_id p) (po_session_date p) (int i) q' t'" by blast
    with eq have "K (po_parent_id p) (po_session_date p) (int (length (ps_children st))) q now =
        K (po_parent_id p) (po_session_date p) (int i) q' t'" by (simp add: new_def new_child_def)
    with free have "int (length (ps_children st)) = int i"
      unfolding collision_free_def by (meson of_nat_0_le_iff)
    with i(1) show False by simp
  qed
  moreover have "child_good p new"
    using q now by (auto simp: child_good_def new_def new_child_def lot_multiple_def)
  ultimately have ver: "verify_children p 0 [] (ps_children ?u) = Inr ()"
    using old unfolding verify_children_iff by (auto simp: new_def new_child_def)
  have t: "transact D Write_ok now p (release_mutator K p now None) (Some (Some st)) =
      (Inr (committed_update D now st ?u), Some (Some (committed_update D now st ?u)))"
    by (rule transact_commit [of D p st "release_mutator K p now None" ?u, OF ok c ice_dynamic [OF set] m])
      (use v q com fil ver in simp_all)
  then have "snd (release_due D K Write_ok now p now None (Some (Some st))) =
      Some (Some (committed_update D now st ?u))"
    by (simp add: release_call [OF set])
  moreover from release_file_ok [OF set ok this] have "state_ok D p (committed_update D now st ?u)" .
  ultimately show ?thesis by (intro exI conjI) (auto simp: new_def q_def)
qed

text \<open>The acknowledgement of the released child.\<close>

lemma iceberg_fill:
  assumes set: "ice_setting K p now" and st: "ice_state D K p n st" and ok1: "state_ok D p st1"
    and cs: "ps_children st1 = ps_children st @ [new_child K p st q now]"
    and q: "0 < q" "ps_filled st + q \<le> po_total_quantity p"
  shows "\<exists>st2. fill_last D now p (Some (Some st1)) = Some (Some st2) \<and> state_ok D p st2 \<and>
    (\<exists>c. ps_children st2 = ps_children st @ [c] \<and> ch_status c = Filled \<and> ch_filled_quantity c = q \<and>
       ch_child_id c = ch_child_id (new_child K p st q now))"
proof -
  let ?new = "new_child K p st q now" and ?n = "length (ps_children st)"
  define fin where "fin = ?new\<lparr>ch_status := Filled, ch_filled_quantity := q, ch_last_updated_at := Some now\<rparr>"
  have c: "canon p" using set by (simp add: ice_setting_def)
  note v = verified_parts [OF ok1]
  let ?u = "st1\<lparr>ps_children := ps_children st @ [fin]\<rparr>"
  have committed: "ps_committed st = ps_filled st"
    using all_filled(3) [OF _ set, of D st] st by (simp add: ice_state_def)
  have com: "ps_committed ?u = ps_filled st + q"
  proof -
    have "claim_of fin = q" by (simp add: claim_of_def fin_def ch_outstanding_def TERMINAL_CHILD_STATUSES_def)
    then show ?thesis using committed by (simp add: committed_claims)
  qed
  have fil: "ps_filled ?u = ps_filled st + q" by (simp add: ps_filled_def fin_def)
  have good: "distinct (map ch_child_id (ps_children st1))"
      "map ch_sequence (ps_children st1) = map int [0..<length (ps_children st1)]"
      "\<forall>x\<in>set (ps_children st1). child_good p x"
    using v(2) by (simp_all add: verify_children_iff)
  have "child_good p fin"
    using good(3) q(1) by (auto simp: cs child_good_def fin_def new_child_def)
  then have ver: "verify_children p 0 [] (ps_children ?u) = Inr ()"
    using good unfolding verify_children_iff by (simp add: cs fin_def)
  have idx: "filter (\<lambda>i. ch_child_id (ps_children st1 ! i) = ch_child_id ?new) [0..<length (ps_children st1)] = [?n]"
    using filter_index [OF good(1), of ?n] by (simp add: cs)
  have m: "ack_mutator now p (ch_child_id ?new) Filled q st1 = Inr ?u"
  proof -
    have new: "ch_status ?new = Released" "ch_filled_quantity ?new = 0" "ch_quantity ?new = q"
      by (simp_all add: new_child_def)
    have "ps_children st1 ! ?n = ?new" "(ps_children st1)[?n := fin] = ps_children st @ [fin]"
      by (simp_all add: cs)
    then show ?thesis
      unfolding ack_mutator_def idx using q com fil new
      by (simp add: fin_def [symmetric] Let_def ack_allowed_def TERMINAL_CHILD_STATUSES_def)
  qed
  have "transact D Write_ok now p (ack_mutator now p (ch_child_id ?new) Filled q) (Some (Some st1)) =
      (Inr (committed_update D now st1 ?u), Some (Some (committed_update D now st1 ?u)))"
    by (rule transact_commit [of D p st1 "ack_mutator now p (ch_child_id ?new) Filled q" ?u, OF ok1 c ice_dynamic [OF set] m])
      (use v q com fil ver in simp_all)
  moreover have "ch_quantity ?new = q" by (simp add: new_child_def)
  ultimately have f: "fill_last D now p (Some (Some st1)) = Some (Some (committed_update D now st1 ?u))"
    by (simp add: fill_last_def acknowledge_def cs)
  moreover from fill_file_ok [OF set ok1 f] have "state_ok D p (committed_update D now st1 ?u)" .
  ultimately show ?thesis
    by (intro exI [of _ "committed_update D now st1 ?u"] conjI exI [of _ fin]) (auto simp: fin_def)
qed

lemma round_progress:
  assumes set: "ice_setting K p now" and st: "ice_state D K p (int n) st"
  shows "\<exists>st'. iceberg_round D K p now (Some (Some st)) = Some (Some st') \<and> ice_state D K p (int (Suc n)) st'"
proof (cases "ps_complete st")
  case True
  from round_complete [OF set st True] obtain st' where
    1: "iceberg_round D K p now (Some (Some st)) = Some (Some st')" "state_ok D p st'"
    "ps_children st' = ps_children st" "ps_filled st' = ps_filled st" by blast
  have "ps_parent st = p" using st by (auto simp: ice_state_def dest: verified_parts)
  with True st have "po_total_quantity p \<le> int n * display_slice p"
    by (simp add: ps_complete_def ice_state_def)
  also have "\<dots> \<le> int (Suc n) * display_slice p" using ice_slice(1) [OF set] by simp
  finally have "ice_state D K p (int (Suc n)) st'"
    using st 1 \<open>po_total_quantity p \<le> int n * display_slice p\<close> by (simp add: ice_state_def)
  with 1(1) show ?thesis by blast
next
  case False
  define q where "q = min (po_total_quantity p - ps_filled st) (display_slice p)"
  have par: "ps_parent st = p" using st by (auto simp: ice_state_def dest: verified_parts)
  with False have less: "ps_filled st < po_total_quantity p" by (simp add: ps_complete_def)
  have q: "0 < q" "ps_filled st + q \<le> po_total_quantity p"
    using less ice_slice(1) [OF set] by (auto simp: q_def)
  from iceberg_release [OF set st False, folded q_def] obtain st1 where
    1: "snd (release_due D K Write_ok now p now None (Some (Some st))) = Some (Some st1)"
      "state_ok D p st1" "ps_children st1 = ps_children st @ [new_child K p st q now]" by blast
  from iceberg_fill [OF set st 1(2,3) q] obtain st2 c where
    2: "fill_last D now p (Some (Some st1)) = Some (Some st2)" "state_ok D p st2"
      "ps_children st2 = ps_children st @ [c]" "ch_status c = Filled" "ch_filled_quantity c = q"
      "ch_child_id c = ch_child_id (new_child K p st q now)" by blast
  have "ps_filled st = int n * display_slice p" using st less by (simp add: ice_state_def)
  then have "ps_filled st2 = min (po_total_quantity p) (int (Suc n) * display_slice p)"
    using 2(3,5) by (simp add: ps_filled_def q_def algebra_simps min_def)
  moreover have "\<exists>q t. ch_child_id (ps_children st2 ! i) = K (po_parent_id p) (po_session_date p) (int i) q t"
    if "i < length (ps_children st2)" for i
    using that st 2(3,6) by (cases "i < length (ps_children st)")
      (auto simp: ice_state_def nth_append less_Suc_eq new_child_def)
  ultimately have "ice_state D K p (int (Suc n)) st2"
    using st 2 by (auto simp: ice_state_def)
  with 1(1) 2(1) show ?thesis by (auto simp: iceberg_round_def)
qed

lemma rounds_progress:
  assumes "ice_setting K p now"
  shows "\<exists>st. (iceberg_round D K p now ^^ n) (Some (Some (fresh_state D now p))) = Some (Some st) \<and>
    ice_state D K p (int n) st"
proof (induction n)
  case 0
  have "canon p" using assms by (simp add: ice_setting_def)
  then have "ice_state D K p 0 (fresh_state D now p)"
    using fresh_ok [of p D now] canon_parts(1) [of p]
    by (simp add: ice_state_def fresh_state_def with_digest_def ps_filled_def)
  then show ?case by simp
next
  case (Suc n)
  then show ?case using round_progress [OF assms] by auto
qed



end
