(* ===== verification/Ambiguity.thy ===== *)
theory Ambiguity
  imports Orders
begin

text \<open>
  The resolution of a bar that touches both the stop and the target of a bracket,
  \<open>src/src/quantagent/streaming/ambiguity.py\<close>, with its properties.  The rule text of an outcome is a
  message and is left out.
\<close>

datatype ambiguity_policy = CONSERVATIVE | MARK_AMBIGUOUS

datatype path_resolution =
    TARGET_ONLY
  | STOP_ONLY
  | NEITHER
  | AMBIGUOUS_RESOLVED_BY_INTRABAR
  | AMBIGUOUS_RESOLVED_CONSERVATIVELY
  | AMBIGUOUS_UNRESOLVED

fun resolution_value :: "path_resolution \<Rightarrow> string" where
  "resolution_value TARGET_ONLY = ''TARGET_ONLY''"
| "resolution_value STOP_ONLY = ''STOP_ONLY''"
| "resolution_value NEITHER = ''NEITHER''"
| "resolution_value AMBIGUOUS_RESOLVED_BY_INTRABAR = ''AMBIGUOUS_RESOLVED_BY_INTRABAR''"
| "resolution_value AMBIGUOUS_RESOLVED_CONSERVATIVELY = ''AMBIGUOUS_RESOLVED_CONSERVATIVELY''"
| "resolution_value AMBIGUOUS_UNRESOLVED = ''AMBIGUOUS_UNRESOLVED''"

definition all_resolutions :: "path_resolution list" where
  "all_resolutions = [TARGET_ONLY, STOP_ONLY, NEITHER, AMBIGUOUS_RESOLVED_BY_INTRABAR,
     AMBIGUOUS_RESOLVED_CONSERVATIVELY, AMBIGUOUS_UNRESOLVED]"

definition UNAMBIGUOUS :: "path_resolution list" where
  "UNAMBIGUOUS = [TARGET_ONLY, STOP_ONLY, NEITHER]"

definition tick_eps :: rat where
  "tick_eps = 1 / 10 ^ 9"

record ohlc_bar =
  br_open :: rat
  br_high :: rat
  br_low :: rat
  br_close :: rat

definition Bar_make :: "rat \<Rightarrow> rat \<Rightarrow> rat \<Rightarrow> rat \<Rightarrow> ohlc_bar res" where
  "Bar_make op hi lo cl =
     (if hi < lo then Inl ValueError
      else if \<not> (lo - tick_eps \<le> op \<and> op \<le> hi + tick_eps) then Inl ValueError
      else if \<not> (lo - tick_eps \<le> cl \<and> cl \<le> hi + tick_eps) then Inl ValueError
      else Inr \<lparr>br_open = op, br_high = hi, br_low = lo, br_close = cl\<rparr>)"

record bar_path_outcome =
  bo_resolution :: path_resolution
  bo_triggered :: "string option"
  bo_trigger_price :: "rat option"
  bo_ambiguous :: bool

definition is_assumption :: "bar_path_outcome \<Rightarrow> bool" where
  "is_assumption b \<longleftrightarrow> bo_resolution b = AMBIGUOUS_RESOLVED_CONSERVATIVELY"

definition outcome_to_dict :: "(bar_path_outcome \<Rightarrow> string) \<Rightarrow> bar_path_outcome \<Rightarrow> json" where
  "outcome_to_dict rule b = JObj
     [(''resolution'', JStr (resolution_value (bo_resolution b))),
      (''triggered'', of_opt JStr (bo_triggered b)),
      (''triggerPrice'', of_opt JNum (bo_trigger_price b)),
      (''ambiguous'', JBool (bo_ambiguous b)),
      (''isAssumption'', JBool (is_assumption b)),
      (''rule'', JStr (rule b))]"

definition touched :: "ohlc_bar \<Rightarrow> rat \<Rightarrow> bool \<Rightarrow> bool" where
  "touched b level from_above \<longleftrightarrow>
     (if from_above then br_low b \<le> level + tick_eps else level - tick_eps \<le> br_high b)"

definition trigger_fill_price :: "ohlc_bar \<Rightarrow> rat \<Rightarrow> bool \<Rightarrow> rat" where
  "trigger_fill_price b level adverse_below =
     (if adverse_below then (if br_open b \<le> level then min (br_open b) level else level)
      else (if level \<le> br_open b then max (br_open b) level else level))"

definition at_stop :: "side \<Rightarrow> rat \<Rightarrow> rat \<Rightarrow> bool" where
  "at_stop sd stop price \<longleftrightarrow> (if sd = BUY then price \<le> stop + tick_eps else stop - tick_eps \<le> price)"

definition at_target :: "side \<Rightarrow> rat \<Rightarrow> rat \<Rightarrow> bool" where
  "at_target sd target price \<longleftrightarrow>
     (if sd = BUY then target - tick_eps \<le> price else price \<le> target + tick_eps)"

fun first_touch :: "rat list \<Rightarrow> side \<Rightarrow> rat \<Rightarrow> rat \<Rightarrow> (string \<times> rat) option" where
  "first_touch [] sd stop target = None"
| "first_touch (price # path) sd stop target =
     (if at_stop sd stop price then Some (''stop'', stop)
      else if at_target sd target price then Some (''target'', target)
      else first_touch path sd stop target)"

definition outcome :: "path_resolution \<Rightarrow> (string \<times> rat) option \<Rightarrow> bool \<Rightarrow> bar_path_outcome" where
  "outcome r hit ambiguous = \<lparr>bo_resolution = r, bo_triggered = map_option fst hit,
     bo_trigger_price = map_option snd hit, bo_ambiguous = ambiguous\<rparr>"

definition resolve_same_bar ::
    "ohlc_bar \<Rightarrow> side \<Rightarrow> rat \<Rightarrow> rat \<Rightarrow> rat list option \<Rightarrow> ambiguity_policy \<Rightarrow> bar_path_outcome res" where
  "resolve_same_bar b sd stop target intrabar policy =
     (let long_side = (sd = BUY) in
      if long_side \<and> target \<le> stop then Inl InvalidBracket
      else if \<not> long_side \<and> stop \<le> target then Inl InvalidBracket
      else
        let stop_hit = touched b stop long_side;
            target_hit = touched b target (\<not> long_side);
            stop_fill = Some (''stop'', trigger_fill_price b stop long_side);
            first = (case intrabar of None \<Rightarrow> None | Some path \<Rightarrow> first_touch path sd stop target)
        in if \<not> stop_hit \<and> \<not> target_hit then Inr (outcome NEITHER None False)
           else if stop_hit \<and> \<not> target_hit then Inr (outcome STOP_ONLY stop_fill False)
           else if target_hit \<and> \<not> stop_hit then
             Inr (outcome TARGET_ONLY (Some (''target'', trigger_fill_price b target (\<not> long_side))) False)
           else if first \<noteq> None then Inr (outcome AMBIGUOUS_RESOLVED_BY_INTRABAR first True)
           else if policy = MARK_AMBIGUOUS then Inr (outcome AMBIGUOUS_UNRESOLVED None True)
           else Inr (outcome AMBIGUOUS_RESOLVED_CONSERVATIVELY stop_fill True))"

definition count_if :: "('a \<Rightarrow> bool) \<Rightarrow> 'a list \<Rightarrow> int" where
  "count_if P xs = int (length (filter P xs))"

definition ambiguity_report :: "bar_path_outcome list \<Rightarrow> json" where
  "ambiguity_report outcomes =
     (let ambiguous = filter bo_ambiguous outcomes in JObj
     [(''total'', JInt (int (length outcomes))),
      (''ambiguous'', JInt (int (length ambiguous))),
      (''resolvedByIntrabar'', JInt (count_if (\<lambda>b. bo_resolution b = AMBIGUOUS_RESOLVED_BY_INTRABAR) ambiguous)),
      (''resolvedByAssumption'', JInt (count_if is_assumption ambiguous)),
      (''leftUnresolved'', JInt (count_if (\<lambda>b. bo_resolution b = AMBIGUOUS_UNRESOLVED) ambiguous)),
      (''byResolution'', JObj (map (\<lambda>r. (resolution_value r,
         JInt (count_if (\<lambda>b. bo_resolution b = r) outcomes))) all_resolutions))])"

section \<open>Properties\<close>

lemma first_touch_target:
  "first_touch path sd stop target = Some (''target'', x) \<Longrightarrow> x = target \<and>
     (\<exists>before price after. path = before @ price # after \<and>
        (\<forall>y\<in>set (before @ [price]). \<not> at_stop sd stop y) \<and> at_target sd target price)"
proof (induction path)
  case Nil
  then show ?case by simp
next
  case (Cons y path)
  then have no_stop: "\<not> at_stop sd stop y" by (auto split: if_splits)
  show ?case
  proof (cases "at_target sd target y")
    case True
    with no_stop Cons.prems show ?thesis by (intro conjI exI [of _ "[]"]) simp_all
  next
    case False
    with no_stop Cons.prems have "first_touch path sd stop target = Some (''target'', x)" by simp
    from Cons.IH [OF this] obtain before price after where
      "x = target" "path = before @ price # after"
      "\<forall>y\<in>set (before @ [price]). \<not> at_stop sd stop y" "at_target sd target price" by blast
    with no_stop show ?thesis
      by (intro conjI exI [of _ "y # before"] exI [of _ price] exI [of _ after]) simp_all
  qed
qed

lemma stop_fill:
  assumes "Bar_make op hi lo cl = Inr b" "touched b level below"
  shows "lo - tick_eps \<le> trigger_fill_price b level below" "trigger_fill_price b level below \<le> hi + tick_eps"
    "if below then trigger_fill_price b level below \<le> level else level \<le> trigger_fill_price b level below"
  using assms by (auto simp: Bar_make_def touched_def trigger_fill_price_def split: if_splits)

text \<open>C28. An ambiguous bar is never settled in favour of the position without a measurement.  An
  outcome is ambiguous exactly when the bar touches both levels; an ambiguous outcome names the target
  only if a finer path was given that reached the target before it ever reached the stop; and every
  price that does not come from a path was offered by the bar, a stop at the level or worse.\<close>

theorem ambiguity_never_favourable:
  assumes "Bar_make op hi lo cl = Inr b" and "resolve_same_bar b sd stop target intrabar policy = Inr out"
  shows "(bo_ambiguous out \<longleftrightarrow> touched b stop (sd = BUY) \<and> touched b target (sd \<noteq> BUY)) \<and>
    (bo_ambiguous out \<and> bo_triggered out = Some ''target'' \<longrightarrow>
       (\<exists>before price after. intrabar = Some (before @ price # after) \<and>
          (\<forall>y\<in>set (before @ [price]). \<not> at_stop sd stop y) \<and> at_target sd target price)) \<and>
    (\<forall>x. bo_trigger_price out = Some x \<and> bo_resolution out \<noteq> AMBIGUOUS_RESOLVED_BY_INTRABAR \<longrightarrow>
       lo - tick_eps \<le> x \<and> x \<le> hi + tick_eps \<and>
       (bo_triggered out = Some ''stop'' \<longrightarrow> (if sd = BUY then x \<le> stop else stop \<le> x)))"
proof -
  let ?first = "case intrabar of None \<Rightarrow> None | Some path \<Rightarrow> first_touch path sd stop target"
  have path: "\<exists>before price after. intrabar = Some (before @ price # after) \<and>
        (\<forall>y\<in>set (before @ [price]). \<not> at_stop sd stop y) \<and> at_target sd target price"
    if "?first = Some (''target'', x)" for x
    using that first_touch_target [of _ sd stop target x] by (fastforce split: option.splits)
  consider (neither) "\<not> touched b stop (sd = BUY)" "\<not> touched b target (sd \<noteq> BUY)" "out = outcome NEITHER None False"
    | (stop) "touched b stop (sd = BUY)" "\<not> touched b target (sd \<noteq> BUY)"
      "out = outcome STOP_ONLY (Some (''stop'', trigger_fill_price b stop (sd = BUY))) False"
    | (target) "\<not> touched b stop (sd = BUY)" "touched b target (sd \<noteq> BUY)"
      "out = outcome TARGET_ONLY (Some (''target'', trigger_fill_price b target (sd \<noteq> BUY))) False"
    | (path) "touched b stop (sd = BUY)" "touched b target (sd \<noteq> BUY)"
      "out = outcome AMBIGUOUS_RESOLVED_BY_INTRABAR ?first True"
    | (unresolved) "touched b stop (sd = BUY)" "touched b target (sd \<noteq> BUY)"
      "out = outcome AMBIGUOUS_UNRESOLVED None True"
    | (assumed) "touched b stop (sd = BUY)" "touched b target (sd \<noteq> BUY)"
      "out = outcome AMBIGUOUS_RESOLVED_CONSERVATIVELY (Some (''stop'', trigger_fill_price b stop (sd = BUY))) True"
    using assms(2) unfolding resolve_same_bar_def Let_def
    by (simp split: if_splits) blast+
  then show ?thesis
  proof cases
    case stop
    with stop_fill [OF assms(1) stop(1)] show ?thesis by (auto simp: outcome_def split: if_splits)
  next
    case target
    with stop_fill [OF assms(1) target(2)] show ?thesis by (auto simp: outcome_def)
  next
    case path': path
    with path show ?thesis by (auto simp: outcome_def)
  next
    case assumed
    with stop_fill [OF assms(1) assumed(1)] show ?thesis by (auto simp: outcome_def split: if_splits)
  qed (simp_all add: outcome_def)
qed

lemma ambiguity_never_favourable_witness:
  "bo_triggered (case resolve_same_bar \<lparr>br_open = 10, br_high = 11, br_low = 9, br_close = 10\<rparr> BUY (19/2) (21/2)
     None CONSERVATIVE of Inr out \<Rightarrow> out) \<noteq> Some ''target''"
proof -
  let ?b = "\<lparr>br_open = 10, br_high = 11, br_low = 9, br_close = 10\<rparr> :: ohlc_bar"
  have b: "Bar_make 10 11 9 10 = Inr ?b" by code_simp
  obtain out where out: "resolve_same_bar ?b BUY (19/2) (21/2) None CONSERVATIVE = Inr out" "bo_ambiguous out"
    by (simp add: resolve_same_bar_def touched_def tick_eps_def outcome_def)
  from ambiguity_never_favourable [OF b out(1)] out show ?thesis by auto
qed

text \<open>
  A path resolves to the level itself, also when it gapped through it: a bar that opens at 9, below the stop at
  9.5, fills at 9 by assumption but at 9.5 by measurement.
\<close>

lemma intrabar_ignores_gap:
  "map_sum id bo_trigger_price
     (resolve_same_bar \<lparr>br_open = 9, br_high = 11, br_low = 9, br_close = 10\<rparr> BUY (19/2) (21/2) (Some [9, 11]) CONSERVATIVE)
     = Inr (Some (19/2)) \<and>
   map_sum id bo_trigger_price
     (resolve_same_bar \<lparr>br_open = 9, br_high = 11, br_low = 9, br_close = 10\<rparr> BUY (19/2) (21/2) None CONSERVATIVE)
     = Inr (Some 9)"
  by code_simp

end
