(* ===== verification/Matching.thy ===== *)
theory Matching
  imports Lifecycle Market_Rules
begin

text \<open>
  The streaming matcher of \<open>src/src/quantagent/streaming/matching.py\<close>: it answers order events and bars by
  publishing callbacks and fills.  Its only state is the number of its executions; what it did before an
  exception stays done, so a handler returns its outcome with the counter and the bus.

  Parameters: \<open>account\<close> is what \<open>lifecycle.account()\<close> gives during the call (\<open>lc_account\<close> of the
  lifecycle), \<open>T\<close> renders the reason of a refusal (a formatted, non-empty text), \<open>S\<close> is \<open>str\<close> of a payload
  value that is not a string, \<open>power_half\<close> the floating-point square root of the impact model.
\<close>

record matcher_config =
  mc_participation_cap :: rat
  mc_commission_rate :: rat
  mc_slippage_bps :: rat
  mc_impact_coefficient :: rat
  mc_allow_st_buy :: bool

definition default_matcher_config :: matcher_config where
  "default_matcher_config = \<lparr>mc_participation_cap = 1/10, mc_commission_rate = DEFAULT_COMMISSION_RATE,
     mc_slippage_bps = 5, mc_impact_coefficient = 1/10, mc_allow_st_buy = False\<rparr>"

datatype refusal =
    Below_minimum_lot
  | Above_ceiling rat rat
  | Below_floor rat rat
  | Unsettled int int
  | Unfunded int rat rat

type_synonym venue_state = "nat \<times> event_bus"

text \<open>What surrounds a call of the venue.\<close>

record venue =
  vn_config :: matcher_config
  vn_digest :: digest
  vn_str :: "json \<Rightarrow> string"
  vn_text :: "refusal \<Rightarrow> string"
  vn_power_half :: "rat \<Rightarrow> rat"

section \<open>Reading an event\<close>

definition payload_of :: "market_event \<Rightarrow> json" where
  "payload_of e = JObj (me_payload e)"

definition payload_str :: "venue \<Rightarrow> market_event \<Rightarrow> string \<Rightarrow> string res" where
  "payload_str v e k = res_bind (jindex (payload_of e) k) (\<lambda>x. Inr (py_str (vn_str v) x))"

definition payload_str_default :: "venue \<Rightarrow> market_event \<Rightarrow> string \<Rightarrow> string \<Rightarrow> string" where
  "payload_str_default v e k d = (case map_of (me_payload e) k of None \<Rightarrow> d | Some x \<Rightarrow> py_str (vn_str v) x)"

definition payload_bool :: "market_event \<Rightarrow> string \<Rightarrow> bool" where
  "payload_bool e k = (case map_of (me_payload e) k of None \<Rightarrow> False | Some x \<Rightarrow> truthy x)"

definition payload_board :: "venue \<Rightarrow> market_event \<Rightarrow> string" where
  "payload_board v e = payload_str_default v e ''board'' ''SH_Main''"

definition event_day :: "market_event \<Rightarrow> int" where
  "event_day e = local_date (et_event_time (me_times e))"

definition symbol_text :: "market_event \<Rightarrow> string" where
  "symbol_text e = (case me_symbol e of None \<Rightarrow> ''None'' | Some s \<Rightarrow> s)"

definition band_of :: "venue \<Rightarrow> market_event \<Rightarrow> price_band option res" where
  "band_of v e =
     res_bind (jget (payload_of e) ''previousClose'') (\<lambda>previous_close.
       if previous_close = JNull then Inr None
       else res_bind (json_float previous_close) (\<lambda>close.
            res_bind (price_limits (payload_board v e) close (Some (event_day e)) None (payload_bool e ''isSt''))
              (\<lambda>band. Inr (Some band))))"

definition at_limit :: "venue \<Rightarrow> market_event \<Rightarrow> rat \<Rightarrow> bool \<Rightarrow> bool res" where
  "at_limit v bar last_price upper_edge =
     res_bind (band_of v bar) (\<lambda>band. case band of
         None \<Rightarrow> Inr False
       | Some b \<Rightarrow>
           if unlimited b then Inr False
           else (case (if upper_edge then pb_limit_up b else pb_limit_down b) of
                   None \<Rightarrow> Inr False
                 | Some edge \<Rightarrow>
                     Inr (if upper_edge then edge - 1 / 10 ^ 9 \<le> last_price else last_price \<le> edge + 1 / 10 ^ 9)))"

section \<open>Publishing\<close>

definition venue_publish :: "venue \<Rightarrow> market_event \<Rightarrow> venue_state \<Rightarrow> unit res \<times> venue_state" where
  "venue_publish v e s =
     (case publish (MarketEvent_make (vn_digest v) (vn_str v) e) (snd s) of
        Inl x \<Rightarrow> (Inl x, s)
      | Inr bus \<Rightarrow> (Inr (), fst s, bus))"

definition reply :: "venue \<Rightarrow> market_event \<Rightarrow> string \<Rightarrow> string \<Rightarrow> string option \<Rightarrow> venue_state \<Rightarrow> unit res \<times> venue_state" where
  "reply v e client status reason s =
     pure_then (EventTime_immediate (et_event_time (me_times e))) (\<lambda>times.
       venue_publish v
         \<lparr>me_kind = K_VENUE_CALLBACK, me_times = times, me_symbol = me_symbol e, me_sequence = me_sequence e,
          me_payload = [(''clientOrderId'', JStr client), (''status'', JStr status)]
            @ (case reason of None \<Rightarrow> [] | Some r \<Rightarrow> [(''reason'', JStr r)]),
          me_lineage = no_lineage, me_event_id = []\<rparr> s) s"

section \<open>Acknowledging an order\<close>

definition limit_refusal :: "price_band option \<Rightarrow> rat option \<Rightarrow> refusal option" where
  "limit_refusal band limit_price =
     (case (limit_price, band) of
        (Some l, Some b) \<Rightarrow>
          (if unlimited b then None
           else if (case pb_limit_up b of None \<Rightarrow> False | Some u \<Rightarrow> u + 1 / 10 ^ 9 < l)
           then Some (Above_ceiling l (the (pb_limit_up b)))
           else (case pb_limit_down b of
                   None \<Rightarrow> None
                 | Some d \<Rightarrow> if l < d - 1 / 10 ^ 9 then Some (Below_floor l d) else None))
      | _ \<Rightarrow> None)"

definition acknowledge_order ::
    "venue \<Rightarrow> account_state res \<Rightarrow> market_event \<Rightarrow> venue_state \<Rightarrow> unit res \<times> venue_state" where
  "acknowledge_order v account e s =
     pure_then
       (res_bind (payload_str v e ''clientOrderId'') (\<lambda>client.
        res_bind (payload_str v e ''side'') (\<lambda>side_text.
        let sd = upper side_text in
        res_bind (band_of v e) (\<lambda>band.
        res_bind (jget (payload_of e) ''limitPrice'') (\<lambda>limit_json.
        res_bind (res_bind (jindex (payload_of e) ''quantity'') json_float) (\<lambda>shares.
        let quantity = round_to_lot shares (payload_board v e) sd (payload_bool e ''isFullLiquidation'') in
        res_bind (if quantity \<le> 0 then Inr (Some Below_minimum_lot)
                  else if limit_json = JNull \<or> (case band of None \<Rightarrow> True | Some b \<Rightarrow> unlimited b) then Inr None
                  else res_bind (json_float limit_json) (\<lambda>l. Inr (limit_refusal band (Some l)))) (\<lambda>reason.
        res_bind (if reason = None \<and> sd = ''SELL'' then
                    res_bind account (\<lambda>acc.
                      let available = sellable acc (symbol_text e) (date_isoformat (event_day e)) in
                      Inr (if (1 / 10 ^ 9 :: rat) < of_int (quantity - available)
                           then Some (Unsettled quantity available) else None))
                  else Inr reason) (\<lambda>reason.
          Inr (client, reason)))))))))
       (\<lambda>(client, reason).
          reply v e client (if reason = None then ''ACCEPTED'' else ''REJECTED'') (map_option (vn_text v) reason) s) s"

section \<open>Matching against a bar\<close>

definition working :: "lifecycle \<Rightarrow> string \<Rightarrow> order list" where
  "working lc symbol =
     filter (\<lambda>od. ord_symbol od = symbol \<and> ord_status od \<in> {ACCEPTED, PARTIALLY_FILLED}) (book_orders (lc_book lc))"

definition client_order_id :: "lifecycle \<Rightarrow> order \<Rightarrow> string res" where
  "client_order_id lc od =
     (case List.find (\<lambda>(client, oid). oid = ord_order_id od) (lc_canonical_ids lc) of
        None \<Rightarrow> Inl KeyError
      | Some (client, oid) \<Rightarrow> Inr client)"

definition funding_shortfall ::
    "account_state res \<Rightarrow> order \<Rightarrow> int \<Rightarrow> rat \<Rightarrow> trading_cost \<Rightarrow> string \<Rightarrow> refusal option res" where
  "funding_shortfall account od quantity price costs session =
     res_bind account (\<lambda>acc.
       if ord_side od = BUY then
         let needed = of_int quantity * price + tc_total costs in
         Inr (if 1 / 10 ^ 9 < needed - acc_cash acc then Some (Unfunded quantity needed (acc_cash acc)) else None)
       else
         let available = sellable acc (ord_symbol od) session in
         Inr (if (1 / 10 ^ 9 :: rat) < of_int (quantity - available) then Some (Unsettled quantity available) else None))"

text \<open>
  What \<open>_try_fill\<close> decides before it answers: nothing to do, a refusal, or a fill with its quantity, price
  and costs.
\<close>

datatype fill_decision = No_fill | Refuse refusal | Fill_at int rat trading_cost

definition decide_fill ::
    "venue \<Rightarrow> account_state res \<Rightarrow> order \<Rightarrow> market_event \<Rightarrow> fill_decision res" where
  "decide_fill v account od bar =
     res_bind (res_bind (jindex (payload_of bar) ''close'') json_float) (\<lambda>last_price.
     res_bind (get_float_default (payload_of bar) ''volume'' 0) (\<lambda>volume.
     res_bind (at_limit v bar last_price True) (\<lambda>up.
     res_bind (at_limit v bar last_price False) (\<lambda>down.
     let board = payload_board v bar;
         day = event_day bar;
         verdict = tradability (payload_bool bar ''isSuspended'') up down False False in
     if ord_side od = BUY \<and> \<not> tv_can_buy verdict then Inr No_fill
     else if ord_side od = SELL \<and> \<not> tv_can_sell verdict then Inr No_fill
     else
       let available = volume * mc_participation_cap (vn_config v);
           quantity = round_to_lot (min (of_int (leaves_quantity od)) available) board (side_value (ord_side od)) False in
       if quantity \<le> 0 then Inr No_fill
       else if (case ord_limit_price od of None \<Rightarrow> False
                | Some l \<Rightarrow> if ord_side od = BUY then l < last_price else last_price < l) then Inr No_fill
       else
         res_bind (band_of v bar) (\<lambda>band.
         let price = execution_price (vn_power_half v) last_price (side_value (ord_side od)) (of_int quantity) volume
               (mc_slippage_bps (vn_config v)) (mc_impact_coefficient (vn_config v)) band (ord_limit_price od);
             costs = trading_costs (of_int quantity * price) (side_value (ord_side od)) (Some day)
               (mc_commission_rate (vn_config v)) COMMISSION_MINIMUM_CNY in
         res_bind (funding_shortfall account od quantity price costs (date_isoformat day)) (\<lambda>shortfall.
           Inr (case shortfall of Some r \<Rightarrow> Refuse r | None \<Rightarrow> Fill_at quantity price costs)))))))"

definition fill_event :: "market_event \<Rightarrow> order \<Rightarrow> event_times \<Rightarrow> string \<Rightarrow> nat \<Rightarrow> int \<Rightarrow> rat \<Rightarrow> trading_cost \<Rightarrow> market_event" where
  "fill_event bar od tm client n quantity price costs =
     \<lparr>me_kind = K_FILL, me_times = tm, me_symbol = Some (ord_symbol od), me_sequence = int n,
      me_payload =
        [(''clientOrderId'', JStr client), (''executionId'', JStr (''strm-'' @ zero_pad 6 n)),
         (''quantity'', JInt quantity), (''price'', JNum price), (''commission'', JNum (tc_commission costs)),
         (''stampDuty'', JNum (tc_stamp_duty costs)), (''transferFee'', JNum (tc_transfer_fee costs))],
      me_lineage = no_lineage, me_event_id = []\<rparr>"

definition try_fill ::
    "venue \<Rightarrow> account_state res \<Rightarrow> lifecycle \<Rightarrow> market_event \<Rightarrow> order \<Rightarrow> venue_state \<Rightarrow> unit res \<times> venue_state" where
  "try_fill v account lc bar od s =
     pure_then (decide_fill v account od bar) (\<lambda>d. case d of
         No_fill \<Rightarrow> (Inr (), s)
       | Refuse r \<Rightarrow>
           pure_then (client_order_id lc od) (\<lambda>client.
             reply v bar client ''REJECTED'' (Some (vn_text v r)) s) s
       | Fill_at quantity price costs \<Rightarrow>
           let s' = (Suc (fst s), snd s) in
           pure_then (client_order_id lc od) (\<lambda>client.
           pure_then (EventTime_immediate (et_event_time (me_times bar))) (\<lambda>tm.
             venue_publish v (fill_event bar od tm client (fst s') quantity price costs) s') s') s') s"

fun match_orders ::
    "venue \<Rightarrow> account_state res \<Rightarrow> lifecycle \<Rightarrow> market_event \<Rightarrow> order list \<Rightarrow> venue_state \<Rightarrow> unit res \<times> venue_state" where
  "match_orders v account lc bar [] s = (Inr (), s)"
| "match_orders v account lc bar (od # ods) s =
     and_then (try_fill v account lc bar od s) (\<lambda>u s'. match_orders v account lc bar ods s')"

definition venue_handle ::
    "venue \<Rightarrow> account_state res \<Rightarrow> lifecycle \<Rightarrow> market_event \<Rightarrow> venue_state \<Rightarrow> unit res \<times> venue_state" where
  "venue_handle v account lc e s =
     (case me_kind e of
        K_ORDER \<Rightarrow> acknowledge_order v account e s
      | K_BAR \<Rightarrow> match_orders v account lc e (working lc (symbol_text e)) s
      | _ \<Rightarrow> (Inr (), s))"

end
