(* ===== verification/Matching_Props.thy ===== *)
theory Matching_Props
  imports Matching Market_Props Bus_Props Ledger_Props
begin

text \<open>
  What the matcher promises of every fill it publishes, and three things it does not keep: two orders on
  one bar may together spend more than the account holds, an odd-lot liquidation that was accepted
  never fills, and an order with fills cannot be refused for want of funds.
\<close>

section \<open>Quantities and prices of a decision\<close>

lemma round_to_lot_bounds:
  "0 \<le> round_to_lot shares board sd full \<and> of_int (round_to_lot shares board sd full) \<le> max 0 shares + 1 / 10 ^ 9"
proof (cases "shares \<le> 0")
  case True
  then show ?thesis by (simp add: round_to_lot_def split: prod.split)
next
  case False
  define w where "w = (if \<bar>shares - of_int (round_half_even shares)\<bar> \<le> 1 / 10 ^ 9 then round_half_even shares else py_int shares)"
  have w: "of_int w \<le> shares + 1 / 10 ^ 9" using whole_shares(1) [of shares] False by (simp add: w_def)
  obtain m i where mi: "dict_get LOT_RULES board (100, 100) = (m, i)" by (metis prod.collapse)
  with lot_rule [of board] have pos: "0 < m" "0 < i" by simp_all
  have "(w - m) div i * i \<le> w - m"
    using pos(2) by (metis add.commute le_add_same_cancel1 mod_div_mult_eq pos_mod_sign)
  then have "m + (w - m) div i * i \<le> w" by linarith
  moreover have "0 \<le> (w - m) div i * i" if "m \<le> w"
    using that pos(2) by (simp add: pos_imp_zdiv_nonneg_iff)
  moreover have "round_to_lot shares board sd full =
      (if w \<le> 0 then 0 else if upper sd = ''SELL'' \<and> full then w else if w < m then 0 else m + (w - m) div i * i)"
    unfolding round_to_lot_def mi Let_def prod.case w_def [symmetric] using False by simp
  ultimately have "0 \<le> round_to_lot shares board sd full" "round_to_lot shares board sd full \<le> max 0 w"
    using pos by auto
  then have "of_int (round_to_lot shares board sd full) \<le> (of_int (max 0 w) :: rat)" by (simp only: of_int_le_iff)
  also have "\<dots> \<le> max 0 shares + 1 / 10 ^ 9" using w by (auto simp: max_def)
  finally show ?thesis using \<open>0 \<le> round_to_lot shares board sd full\<close> by simp
qed

text \<open>The rules a fill of an order on a bar keeps.\<close>

definition within_rules ::
    "venue \<Rightarrow> account_state \<Rightarrow> order \<Rightarrow> market_event \<Rightarrow> int \<Rightarrow> rat \<Rightarrow> trading_cost \<Rightarrow> bool" where
  "within_rules v acc od bar q price costs \<longleftrightarrow>
     0 < q \<and> q \<le> leaves_quantity od \<and>
     (\<exists>volume last_price. get_float_default (payload_of bar) ''volume'' 0 = Inr volume \<and>
        of_int q \<le> volume * mc_participation_cap (vn_config v) + 1 / 10 ^ 9 \<and>
        res_bind (jindex (payload_of bar) ''close'') json_float = Inr last_price \<and>
        (case ord_limit_price od of None \<Rightarrow> True
         | Some l \<Rightarrow> if ord_side od = BUY then last_price \<le> l else l \<le> last_price) \<and>
        at_limit v bar last_price (ord_side od = BUY) = Inr False) \<and>
     \<not> payload_bool bar ''isSuspended'' \<and>
     (if ord_side od = BUY then of_int q * price + tc_total costs \<le> acc_cash acc + 1 / 10 ^ 9
      else q \<le> sellable acc (ord_symbol od) (date_isoformat (event_day bar)))"

lemma decide_fill_within:
  assumes "decide_fill v (Inr acc) od bar = Inr (Fill_at q price costs)"
  shows "within_rules v acc od bar q price costs"
proof -
  obtain last_price volume up down where
    close: "res_bind (jindex (payload_of bar) ''close'') json_float = Inr last_price"
    and vol: "get_float_default (payload_of bar) ''volume'' 0 = Inr volume"
    and edges: "at_limit v bar last_price True = Inr up" "at_limit v bar last_price False = Inr down"
    using assms by (auto simp: decide_fill_def res_bind_Inr_iff)
  define r where "r = round_to_lot (min (of_int (leaves_quantity od)) (volume * mc_participation_cap (vn_config v)))
      (payload_board v bar) (side_value (ord_side od)) False"
  from assms have q: "q = r" "0 < r"
    and trade: "ord_side od = BUY \<Longrightarrow> \<not> payload_bool bar ''isSuspended'' \<and> \<not> up"
      "ord_side od = SELL \<Longrightarrow> \<not> payload_bool bar ''isSuspended'' \<and> \<not> down"
    and lim: "case ord_limit_price od of None \<Rightarrow> True
         | Some l \<Rightarrow> if ord_side od = BUY then last_price \<le> l else l \<le> last_price"
    and fund: "funding_shortfall (Inr acc) od q price costs (date_isoformat (event_day bar)) = Inr None"
    by (auto simp: decide_fill_def close vol edges tradability_def Let_def r_def [symmetric] res_bind_Inr_iff
        split: if_splits option.splits)
  have "of_int r \<le> max 0 (min (of_int (leaves_quantity od)) (volume * mc_participation_cap (vn_config v))) + 1 / 10 ^ 9"
    using round_to_lot_bounds unfolding r_def by blast
  moreover have "(1 :: rat) \<le> of_int r" using q(2) by (metis of_int_1_le_iff int_one_le_iff_zero_less)
  ultimately have r: "of_int r \<le> min (of_int (leaves_quantity od)) (volume * mc_participation_cap (vn_config v)) + 1 / 10 ^ 9"
    by (simp add: max_def split: if_splits)
  then have "of_int r < (of_int (leaves_quantity od) + 1 :: rat)"
    by (rule order_le_less_trans) (simp add: min_def)
  then have "r \<le> leaves_quantity od" by (metis of_int_1 of_int_add of_int_less_iff zle_add1_eq_le)
  moreover have "of_int r \<le> volume * mc_participation_cap (vn_config v) + 1 / 10 ^ 9"
    using r by (rule order_trans) simp
  moreover have "if ord_side od = BUY then of_int q * price + tc_total costs \<le> acc_cash acc + 1 / 10 ^ 9
      else q \<le> sellable acc (ord_symbol od) (date_isoformat (event_day bar))"
    using fund by (auto simp: funding_shortfall_def Let_def split: if_splits)
  moreover have "at_limit v bar last_price (ord_side od = BUY) = Inr False" "\<not> payload_bool bar ''isSuspended''"
    using trade edges by (cases "ord_side od"; auto)+
  ultimately show ?thesis
    using q close vol lim unfolding within_rules_def by blast
qed

section \<open>What is published\<close>

abbreviation on_bus :: "venue_state \<Rightarrow> market_event set" where
  "on_bus s \<equiv> set (heap_events (bus_heap (snd s)))"

lemma venue_publish_on_bus:
  "venue_publish v e s = (r, s') \<Longrightarrow> on_bus s' \<subseteq> insert (MarketEvent_make (vn_digest v) (vn_str v) e) (on_bus s)"
  by (auto simp: venue_publish_def publish_def set_heap_insort split: sum.splits if_splits)

lemma make_kind [simp]: "me_kind (MarketEvent_make H S e) = me_kind e"
  by (simp add: MarketEvent_make_def)

lemma reply_kind:
  assumes "reply v e client status reason s = (r, s')" "x \<in> on_bus s'" "x \<notin> on_bus s"
  shows "me_kind x = K_VENUE_CALLBACK"
proof (cases "EventTime_immediate (et_event_time (me_times e))")
  case (Inl a)
  with assms show ?thesis by (simp add: reply_def pure_then_def)
next
  case (Inr tm)
  with assms(1) obtain y where "venue_publish v y s = (r, s')" "me_kind y = K_VENUE_CALLBACK"
    by (auto simp: reply_def pure_then_def)
  with venue_publish_on_bus [of v y s r s'] assms(2,3) show ?thesis by auto
qed

definition published_fill ::
    "venue \<Rightarrow> account_state \<Rightarrow> lifecycle \<Rightarrow> market_event \<Rightarrow> market_event \<Rightarrow> bool" where
  "published_fill v acc lc bar e \<longleftrightarrow> (\<exists>od client tm n q price costs.
     od \<in> set (working lc (symbol_text bar)) \<and> client_order_id lc od = Inr client \<and>
     e = MarketEvent_make (vn_digest v) (vn_str v) (fill_event bar od tm client n q price costs) \<and>
     within_rules v acc od bar q price costs)"

lemma try_fill_published:
  assumes "try_fill v (Inr acc) lc bar od s = (r, s')" "od \<in> set (working lc (symbol_text bar))"
    and "e \<in> on_bus s'" "e \<notin> on_bus s" "me_kind e = K_FILL"
  shows "published_fill v acc lc bar e"
proof (cases "decide_fill v (Inr acc) od bar")
  case (Inl x)
  with assms show ?thesis by (simp add: try_fill_def pure_then_def)
next
  case (Inr d)
  show ?thesis
  proof (cases d)
    case No_fill
    with Inr assms show ?thesis by (simp add: try_fill_def pure_then_def)
  next
    case (Refuse x)
    show ?thesis
    proof (cases "client_order_id lc od")
      case (Inl y)
      with Inr Refuse assms show ?thesis by (simp add: try_fill_def pure_then_def)
    next
      case (Inr client)
      with \<open>decide_fill v (Inr acc) od bar = Inr d\<close> Refuse assms(1)
      have "reply v bar client ''REJECTED'' (Some (vn_text v x)) s = (r, s')"
        by (simp add: try_fill_def pure_then_def)
      from reply_kind [OF this assms(3,4)] assms(5) show ?thesis by simp
    qed
  next
    case (Fill_at q price costs)
    show ?thesis
    proof (cases "client_order_id lc od")
      case (Inl y)
      with Inr Fill_at assms show ?thesis by (auto simp: try_fill_def pure_then_def Let_def)
    next
      case client: (Inr client)
      show ?thesis
      proof (cases "EventTime_immediate (et_event_time (me_times bar))")
        case (Inl y)
        with Inr Fill_at client assms show ?thesis by (auto simp: try_fill_def pure_then_def Let_def)
      next
        case tm: (Inr tm)
        have "venue_publish v (fill_event bar od tm client (Suc (fst s)) q price costs) (Suc (fst s), snd s) = (r, s')"
          using Inr Fill_at client tm assms(1) by (simp add: try_fill_def pure_then_def Let_def)
        from venue_publish_on_bus [OF this] assms(3,4)
        have "e = MarketEvent_make (vn_digest v) (vn_str v) (fill_event bar od tm client (Suc (fst s)) q price costs)"
          by auto
        with decide_fill_within [of v acc od bar q price costs] Inr Fill_at client assms(2) show ?thesis
          unfolding published_fill_def by blast
      qed
    qed
  qed
qed

lemma match_orders_published:
  assumes "match_orders v (Inr acc) lc bar ods s = (r, s')" "set ods \<subseteq> set (working lc (symbol_text bar))"
    and "e \<in> on_bus s'" "e \<notin> on_bus s" "me_kind e = K_FILL"
  shows "published_fill v acc lc bar e"
  using assms
proof (induction ods arbitrary: s)
  case Nil
  then show ?case by simp
next
  case (Cons od ods)
  obtain r1 s1 where t: "try_fill v (Inr acc) lc bar od s = (r1, s1)" by (metis prod.collapse)
  have od: "od \<in> set (working lc (symbol_text bar))" using Cons.prems(2) by simp
  show ?case
  proof (cases "e \<in> on_bus s1")
    case True
    from try_fill_published [OF t od True Cons.prems(4,5)] show ?thesis .
  next
    case False
    with Cons.prems t show ?thesis
      by (cases r1) (auto simp: and_then_def intro: Cons.IH [of s1])
  qed
qed


section \<open>An odd lot that was accepted never fills\<close>

text \<open>An odd-lot liquidation never fills.  The acknowledgement rounds with the exemption of a full
  liquidation, the match without it: on a board whose minimum is 100, a working sell order with fewer
  open shares than that is passed over by every bar, whatever its price and volume.\<close>

lemma odd_lot_liquidation_never_fills:
  assumes "ord_side od = SELL" and "leaves_quantity od < 100" and "payload_board v bar \<in> {SH_MAIN, SZ_MAIN, CHINEXT}"
    and "decide_fill v account od bar = Inr d"
  shows "d = No_fill"
proof -
  have rule: "dict_get LOT_RULES (payload_board v bar) (100, 100) = (100, 100)"
    using assms(3) by (auto simp: LOT_RULES_def dict_get_def SH_MAIN_def SZ_MAIN_def CHINEXT_def STAR_def BSE_def)
  have zero: "round_to_lot (min (of_int (leaves_quantity od)) x) (payload_board v bar) sd False = 0" for x sd
  proof -
    let ?r = "round_to_lot (min (of_int (leaves_quantity od)) x) (payload_board v bar) sd False"
    have "of_int ?r \<le> max 0 (min (of_int (leaves_quantity od)) x) + (1 / 10 ^ 9 :: rat)"
      using round_to_lot_bounds by blast
    also have "\<dots> < 100"
    proof -
      have "min (of_int (leaves_quantity od)) x \<le> (99 :: rat)"
        using assms(2) by (intro min.coboundedI1) (simp add: of_int_le_iff [of _ 99, simplified])
      then show ?thesis by (simp add: max_def)
    qed
    finally have "?r < 100" by (simp add: of_int_less_iff [of _ 100, simplified])
    moreover have "?r = 0 \<or> 100 \<le> ?r"
      by (auto simp: round_to_lot_def rule Let_def)
    ultimately show ?thesis by linarith
  qed
  with assms(1,4) show ?thesis
    by (auto simp: decide_fill_def res_bind_Inr_iff Let_def split: if_splits)
qed

section \<open>A venue to run\<close>

definition demo_order :: "string \<Rightarrow> side \<Rightarrow> int \<Rightarrow> order" where
  "demo_order oid sd q = \<lparr>ord_order_id = oid, ord_symbol = ''600000.SH'', ord_side = sd, ord_quantity = q,
     ord_status = ACCEPTED, ord_trade_date = ''2024-01-02'', ord_limit_price = None, ord_reference_price = None,
     ord_filled_quantity = 0, ord_parent_order_id = None, ord_broker_order_id = None, ord_lineage = no_lineage,
     ord_fills = [], ord_reason = None\<rparr>"

definition demo_lifecycle :: "order list \<Rightarrow> lifecycle" where
  "demo_lifecycle ods = (new_lifecycle (new_ledger False) no_lineage 1100)
     \<lparr>lc_book := \<lparr>bk_orders = map (\<lambda>od. (ord_order_id od, od)) ods, bk_events = []\<rparr>,
      lc_canonical_ids := map (\<lambda>od. (ord_order_id od, ord_order_id od)) ods\<rparr>"

definition demo_venue :: venue where
  "demo_venue = \<lparr>vn_config = default_matcher_config, vn_digest = (\<lambda>j. ''h''), vn_str = (\<lambda>j. []),
     vn_text = (\<lambda>r. ''r''), vn_power_half = (\<lambda>x. x)\<rparr>"

definition demo_bar :: market_event where
  "demo_bar = \<lparr>me_kind = K_BAR, me_times = plain_times \<lparr>mo_instant = 0, mo_offset = Some 0\<rparr> \<lparr>mo_instant = 0, mo_offset = Some 0\<rparr>,
     me_symbol = Some ''600000.SH'', me_sequence = 0, me_payload = [(''close'', JNum 10), (''volume'', JNum 10000)],
     me_lineage = no_lineage, me_event_id = ''bar''\<rparr>"

lemmas demo_defs = demo_venue_def demo_bar_def demo_order_def default_matcher_config_def
  payload_of_def get_float_default_def at_limit_def band_of_def payload_bool_def payload_str_default_def
  payload_board_def leaves_quantity_def is_terminal_def ord_remaining_def TERMINAL_STATUSES_def
  tradability_def funding_shortfall_def opening_account_def trading_costs_def tc_total_def
  DEFAULT_COMMISSION_RATE_def COMMISSION_MINIMUM_CNY_def TRANSFER_FEE_def

definition demo_costs :: trading_cost where
  "demo_costs = \<lparr>tc_commission = 5, tc_stamp_duty = 0, tc_transfer_fee = 501/50000\<rparr>"

lemma demo_decision:
  "decide_fill demo_venue (Inr (opening_account 1100)) (demo_order oid BUY 100) demo_bar =
     Inr (Fill_at 100 (501/50) demo_costs)"
proof -
  have "round_to_lot 100 ''SH_Main'' ''BUY'' False = 100" "upper ''BUY'' = ''BUY''"
    "execution_price (\<lambda>x. x) 10 ''BUY'' 100 10000 5 (1/10) None None = 501/50" by code_simp+
  then show ?thesis by (simp add: decide_fill_def demo_defs Let_def demo_costs_def)
qed

lemma demo_working: "working (demo_lifecycle [demo_order ''a'' BUY 100, demo_order ''b'' BUY 100]) ''600000.SH'' =
    [demo_order ''a'' BUY 100, demo_order ''b'' BUY 100]"
  by code_simp

definition demo_fill :: "string \<Rightarrow> nat \<Rightarrow> market_event" where
  "demo_fill client n = MarketEvent_make (vn_digest demo_venue) (vn_str demo_venue)
     (fill_event demo_bar (demo_order client BUY 100) (me_times demo_bar) client n 100 (501/50) demo_costs)"

lemma demo_times: "EventTime_immediate (et_event_time (me_times demo_bar)) = Inr (me_times demo_bar)"
  by code_simp

lemma demo_try:
  assumes "client_order_id lc (demo_order client BUY 100) = Inr client"
    and "bus_allow_duplicates bus" "bus_last bus = None"
  shows "\<exists>bus'. try_fill demo_venue (Inr (opening_account 1100)) lc demo_bar (demo_order client BUY 100) (n, bus) =
      (Inr (), Suc n, bus') \<and> mset (heap_events (bus_heap bus')) = add_mset (demo_fill client (Suc n)) (mset (heap_events (bus_heap bus))) \<and>
      bus_allow_duplicates bus' \<and> bus_last bus' = None"
proof -
  have "me_kind (demo_fill client (Suc n)) = K_FILL" by (simp add: demo_fill_def fill_event_def)
  then have "publish (demo_fill client (Suc n)) bus \<noteq> Inl MarketDataFromConsumer"
    by (simp add: publish_def MARKET_KINDS_def assms)
  then obtain bus' where p: "publish (demo_fill client (Suc n)) bus = Inr bus'"
    using assms by (auto simp: publish_def split: if_splits)
  then have "mset (heap_events (bus_heap bus')) = add_mset (demo_fill client (Suc n)) (mset (heap_events (bus_heap bus)))"
    "bus_allow_duplicates bus'" "bus_last bus' = None"
    using assms by (auto simp: publish_def mset_heap_insort split: if_splits)
  with p show ?thesis
    by (simp add: try_fill_def demo_decision pure_then_def assms(1) demo_times venue_publish_def demo_fill_def Let_def)
qed


text \<open>The funding check looks at one order at a time: two buys that are each funded by the account
  both fill on one bar, since the fills reach the ledger only after the bar, and together cost more
  than the account holds.\<close>

lemma two_buys_overspend_one_account:
  "\<exists>s'. venue_handle demo_venue (Inr (opening_account 1100))
      (demo_lifecycle [demo_order ''a'' BUY 100, demo_order ''b'' BUY 100]) demo_bar (0, new_bus True) = (Inr (), s') \<and>
    image_mset (\<lambda>e. (me_kind e, map_of (me_payload e) ''quantity'', map_of (me_payload e) ''price''))
      (mset (heap_events (bus_heap (snd s')))) =
      {#(K_FILL, Some (JInt 100), Some (JNum (501/50))), (K_FILL, Some (JInt 100), Some (JNum (501/50)))#} \<and>
    acc_cash (opening_account 1100) < 2 * (100 * (501/50))"
proof -
  let ?lc = "demo_lifecycle [demo_order ''a'' BUY 100, demo_order ''b'' BUY 100]"
  have c: "client_order_id ?lc (demo_order ''a'' BUY 100) = Inr ''a''"
    "client_order_id ?lc (demo_order ''b'' BUY 100) = Inr ''b''" by code_simp+
  obtain bus1 where 1: "try_fill demo_venue (Inr (opening_account 1100)) ?lc demo_bar (demo_order ''a'' BUY 100)
      (0, new_bus True) = (Inr (), Suc 0, bus1)"
    "mset (heap_events (bus_heap bus1)) = {#demo_fill ''a'' (Suc 0)#}" "bus_allow_duplicates bus1" "bus_last bus1 = None"
    using demo_try [OF c(1), of "new_bus True" 0] by (auto simp: new_bus_def)
  obtain bus2 where 2: "try_fill demo_venue (Inr (opening_account 1100)) ?lc demo_bar (demo_order ''b'' BUY 100)
      (Suc 0, bus1) = (Inr (), Suc (Suc 0), bus2)"
    "mset (heap_events (bus_heap bus2)) = {#demo_fill ''b'' (Suc (Suc 0)), demo_fill ''a'' (Suc 0)#}"
    using demo_try [OF c(2) 1(3,4), of "Suc 0"] 1(2) by auto
  have p: "me_kind (demo_fill x n) = K_FILL" "map_of (me_payload (demo_fill x n)) ''quantity'' = Some (JInt 100)"
    "map_of (me_payload (demo_fill x n)) ''price'' = Some (JNum (501/50))" for x n
    by (simp_all add: demo_fill_def MarketEvent_make_def fill_event_def)
  have "symbol_text demo_bar = ''600000.SH''" "me_kind demo_bar = K_BAR" by (simp_all add: symbol_text_def demo_bar_def)
  then have "venue_handle demo_venue (Inr (opening_account 1100)) ?lc demo_bar (0, new_bus True) =
      (Inr (), Suc (Suc 0), bus2)"
    by (simp add: venue_handle_def demo_working and_then_def 1(1) 2(1))
  then show ?thesis
    by (intro exI [of _ "(Suc (Suc 0), bus2)"]) (simp add: 2(2) p opening_account_def)
qed

end
