(* ===== verification/Paper_Ledger.thy ===== *)
theory Paper_Ledger
  imports Hash_Chain
begin

text \<open>
  The operational event ledger of the paper broker, \<open>src/src/quantagent/paper/ledger.py\<close>: an append-only
  file of hashed events and an instance that remembers the next sequence and the head.  \<open>D\<close> is the digest of
  the previous hash and the event without its two hashes.

  A file is its lines, \<open>None\<close> for one that does not parse, and whether its last line lacks the
  newline: what is appended then joins that line.
\<close>

definition PAPER_GENESIS :: string where
  "PAPER_GENESIS = replicate 64 (CHR ''0'')"

datatype paper_event_type =
    SIGNAL_CREATED | TARGET_GENERATED | RISK_APPROVED | RISK_REJECTED | ORDER_CREATED | ORDER_ACCEPTED
  | ORDER_REJECTED | ORDER_PARTIALLY_FILLED | ORDER_FILLED | ORDER_CANCEL_REQUESTED | ORDER_CANCELLED
  | CASH_CHANGED | POSITION_CHANGED | CORPORATE_ACTION_APPLIED | MARK_TO_MARKET | KILL_SWITCH_ARMED
  | KILL_SWITCH_TRIGGERED | KILL_SWITCH_CLEARED | RISK_STATE_UPDATED | SESSION_CLOSED
  | RECONCILIATION_PASSED | RECONCILIATION_FAILED

record paper_event =
  pe_event_id :: string
  pe_sequence :: int
  pe_event_time :: string
  pe_market_time :: "string option"
  pe_event_type :: paper_event_type
  pe_run_id :: string
  pe_strategy_id :: "string option"
  pe_portfolio_id :: string
  pe_symbol :: "string option"
  pe_payload :: json
  pe_previous_hash :: string
  pe_event_hash :: string

type_synonym event_digest = "string \<Rightarrow> paper_event \<Rightarrow> string"

definition event_body :: "paper_event \<Rightarrow> paper_event" where
  "event_body e = e\<lparr>pe_previous_hash := [], pe_event_hash := []\<rparr>"

definition compute_hash :: "event_digest \<Rightarrow> paper_event \<Rightarrow> string" where
  "compute_hash D e = D (pe_previous_hash e) (event_body e)"

record event_file =
  ef_lines :: "paper_event option list"
  ef_unfinished :: bool

record event_ledger =
  el_sequence :: int
  el_head :: string

definition empty_event_file :: event_file where
  "empty_event_file = \<lparr>ef_lines = [], ef_unfinished = False\<rparr>"

section \<open>Reading\<close>

text \<open>A reader sees the events in order until a line that does not parse raises.\<close>

fun read_lines :: "paper_event option list \<Rightarrow> paper_event list res" where
  "read_lines [] = Inr []"
| "read_lines (None # rest) = Inl JSONDecodeError"
| "read_lines (Some e # rest) = res_bind (read_lines rest) (\<lambda>es. Inr (e # es))"

definition el_read :: "event_file \<Rightarrow> paper_event list res" where
  "el_read f = read_lines (ef_lines f)"

definition el_resume :: "paper_event list \<Rightarrow> event_ledger" where
  "el_resume es = foldl (\<lambda>l e. \<lparr>el_sequence = pe_sequence e + 1, el_head = pe_event_hash e\<rparr>)
     \<lparr>el_sequence = 0, el_head = PAPER_GENESIS\<rparr> es"

definition EventLedger_open :: "event_file \<Rightarrow> event_ledger res" where
  "EventLedger_open f = res_bind (el_read f) (\<lambda>es. Inr (el_resume es))"

definition el_length :: "event_file \<Rightarrow> nat res" where
  "el_length f = res_bind (el_read f) (\<lambda>es. Inr (length es))"

definition events_of :: "paper_event_type list \<Rightarrow> event_file \<Rightarrow> paper_event list res" where
  "events_of types f = res_bind (el_read f) (\<lambda>es. Inr (filter (\<lambda>e. pe_event_type e \<in> set types) es))"

section \<open>Writing\<close>

definition put_line :: "paper_event option \<Rightarrow> event_file \<Rightarrow> event_file" where
  "put_line line f =
     (if ef_unfinished f then f\<lparr>ef_unfinished := False\<rparr> else f\<lparr>ef_lines := ef_lines f @ [line]\<rparr>)"

definition put_part :: "event_file \<Rightarrow> event_file" where
  "put_part f =
     (if ef_unfinished f then f else \<lparr>ef_lines = ef_lines f @ [None], ef_unfinished = True\<rparr>)"

text \<open>What a caller passes; \<open>uid\<close> and \<open>now\<close> are the identifier drawn and the clock.\<close>

record append_request =
  ar_uid :: string
  ar_now :: string
  ar_type :: paper_event_type
  ar_run_id :: string
  ar_portfolio_id :: string
  ar_payload :: json
  ar_symbol :: "string option"
  ar_strategy_id :: "string option"
  ar_market_time :: "string option"

definition new_event :: "event_digest \<Rightarrow> append_request \<Rightarrow> event_ledger \<Rightarrow> paper_event" where
  "new_event D q l =
     (let e = \<lparr>pe_event_id = ar_uid q, pe_sequence = el_sequence l, pe_event_time = ar_now q,
               pe_market_time = ar_market_time q, pe_event_type = ar_type q, pe_run_id = ar_run_id q,
               pe_strategy_id = ar_strategy_id q, pe_portfolio_id = ar_portfolio_id q, pe_symbol = ar_symbol q,
               pe_payload = ar_payload q, pe_previous_hash = el_head l, pe_event_hash = []\<rparr>
      in e\<lparr>pe_event_hash := compute_hash D e\<rparr>)"

definition el_append ::
    "event_digest \<Rightarrow> write_outcome \<Rightarrow> append_request \<Rightarrow> event_ledger \<times> event_file
     \<Rightarrow> paper_event res \<times> event_ledger \<times> event_file" where
  "el_append D w q s =
     (let (l, f) = s; e = new_event D q l in
      case w of
        W_ok \<Rightarrow> (Inr e, \<lparr>el_sequence = el_sequence l + 1, el_head = pe_event_hash e\<rparr>, put_line (Some e) f)
      | W_lost \<Rightarrow> (Inl OSError, l, f)
      | W_torn \<Rightarrow> (Inl OSError, l, put_part f)
      | W_landed \<Rightarrow> (Inl OSError, l, put_line (Some e) f))"

section \<open>Verification\<close>

text \<open>The number of records checked with the first break, or with the head.\<close>

datatype chain_report = Broken nat | Chain_valid nat string

fun verify_lines ::
    "event_digest \<Rightarrow> string \<Rightarrow> int \<Rightarrow> nat \<Rightarrow> paper_event option list \<Rightarrow> chain_report res" where
  "verify_lines D expected_previous expected_sequence checked [] = Inr (Chain_valid checked expected_previous)"
| "verify_lines D expected_previous expected_sequence checked (None # rest) = Inl JSONDecodeError"
| "verify_lines D expected_previous expected_sequence checked (Some e # rest) =
     (if pe_sequence e \<noteq> expected_sequence then Inr (Broken checked)
      else if pe_previous_hash e \<noteq> expected_previous then Inr (Broken checked)
      else if pe_event_hash e \<noteq> compute_hash D e then Inr (Broken checked)
      else verify_lines D (pe_event_hash e) (expected_sequence + 1) (checked + 1) rest)"

definition verify_file :: "event_digest \<Rightarrow> event_file \<Rightarrow> chain_report res" where
  "verify_file D f = verify_lines D PAPER_GENESIS 0 0 (ef_lines f)"

section \<open>Facts\<close>

text \<open>The chain that a list of events forms, with its head.\<close>

fun event_chain :: "event_digest \<Rightarrow> string \<Rightarrow> int \<Rightarrow> paper_event list \<Rightarrow> string \<Rightarrow> bool" where
  "event_chain D p n [] h \<longleftrightarrow> h = p"
| "event_chain D p n (e # es) h \<longleftrightarrow> pe_sequence e = n \<and> pe_previous_hash e = p
     \<and> pe_event_hash e = compute_hash D e \<and> event_chain D (pe_event_hash e) (n + 1) es h"

lemma event_chain_snoc:
  "event_chain D p n (es @ [e]) h \<longleftrightarrow> event_chain D p n es (pe_previous_hash e)
     \<and> pe_sequence e = n + int (length es) \<and> pe_event_hash e = compute_hash D e \<and> h = pe_event_hash e"
  by (induction es arbitrary: p n) auto

interpretation paper_chain: hash_chain "event_chain D PAPER_GENESIS 0" pe_previous_hash event_body D PAPER_GENESIS
  for D
  by unfold_locales (auto simp: event_chain_snoc compute_hash_def)

lemma read_lines_Some [simp]: "read_lines (map Some es) = Inr es"
  by (induction es) auto

lemma read_lines_Inr: "read_lines ls = Inr es \<Longrightarrow> ls = map Some es"
proof (induction ls arbitrary: es)
  case Nil
  then show ?case by simp
next
  case (Cons l ls)
  then show ?case by (cases l) (auto simp: res_bind_Inr_iff)
qed

lemma verify_lines_valid:
  "verify_lines D p n k ls = Inr (Chain_valid c h) \<longleftrightarrow>
     (\<exists>es. ls = map Some es \<and> event_chain D p n es h \<and> c = k + length es)"
proof (induction ls arbitrary: p n k)
  case Nil
  then show ?case by auto
next
  case (Cons l ls)
  show ?case
  proof (cases l)
    case None
    then show ?thesis by (auto simp: Cons_eq_map_conv)
  next
    case (Some e)
    show ?thesis
    proof (cases "pe_sequence e = n \<and> pe_previous_hash e = p \<and> pe_event_hash e = compute_hash D e")
      case True
      then show ?thesis using Some Cons.IH by (auto simp: Cons_eq_map_conv)
    next
      case False
      then show ?thesis using Some by (auto simp: Cons_eq_map_conv)
    qed
  qed
qed

lemma resume_snoc [simp]:
  "el_resume (es @ [e]) = \<lparr>el_sequence = pe_sequence e + 1, el_head = pe_event_hash e\<rparr>"
  "el_resume [] = \<lparr>el_sequence = 0, el_head = PAPER_GENESIS\<rparr>"
  by (simp_all add: el_resume_def)

text \<open>The instance and the file agree: what one writer keeps as long as no write half-lands.\<close>

definition in_step :: "event_digest \<Rightarrow> event_ledger \<times> event_file \<Rightarrow> bool" where
  "in_step D s \<longleftrightarrow> (\<exists>es. snd s = \<lparr>ef_lines = map Some es, ef_unfinished = False\<rparr> \<and> fst s = el_resume es
     \<and> el_sequence (fst s) = int (length es) \<and> event_chain D PAPER_GENESIS 0 es (el_head (fst s)))"

lemma in_step_new: "in_step D (el_resume [], empty_event_file)"
  by (auto simp: in_step_def empty_event_file_def)

lemma new_event_fields [simp]:
  "pe_sequence (new_event D q l) = el_sequence l" "pe_previous_hash (new_event D q l) = el_head l"
  "pe_event_type (new_event D q l) = ar_type q" "pe_payload (new_event D q l) = ar_payload q"
  "pe_event_time (new_event D q l) = ar_now q" "pe_market_time (new_event D q l) = ar_market_time q"
  by (simp_all add: new_event_def Let_def)

lemma new_event_hash [simp]: "compute_hash D (new_event D q l) = pe_event_hash (new_event D q l)"
  by (simp add: new_event_def Let_def compute_hash_def event_body_def)

lemma in_step_append:
  assumes "in_step D s" "w = W_ok \<or> w = W_lost"
  shows "in_step D (snd (el_append D w q s))"
proof -
  obtain l f where s: "s = (l, f)" by (cases s)
  from assms(1) s obtain es where es: "f = \<lparr>ef_lines = map Some es, ef_unfinished = False\<rparr>" "l = el_resume es"
    "el_sequence l = int (length es)" "event_chain D PAPER_GENESIS 0 es (el_head l)"
    by (auto simp: in_step_def)
  show ?thesis
  proof (cases "w = W_ok")
    case True
    with s es show ?thesis
      by (auto simp: in_step_def el_append_def put_line_def event_chain_snoc Let_def
          intro!: exI [of _ "es @ [new_event D q l]"])
  next
    case False
    with assms s show ?thesis by (simp add: el_append_def Let_def)
  qed
qed

end
