(* ===== verification/Paper_Switch.thy ===== *)
theory Paper_Switch
  imports Paper_Ledger
begin

text \<open>
  The scoped, latching kill switch of the paper desk, class \<open>KillSwitch\<close> of
  \<open>src/src/quantagent/paper/risk.py\<close>, with the event ledger its journal appends to.

  The surroundings are explicit: \<open>dk_env n\<close> is what the \<open>n\<close>-th append meets (its outcome, the identifier
  drawn and the clock), so the store counts the appends.  An operation that journals returns its outcome
  with the state it leaves, as the switch is changed before the append.
\<close>

record desk =
  dk_digest :: event_digest
  dk_env :: "nat \<Rightarrow> write_outcome \<times> string \<times> string"
  dk_str :: "json \<Rightarrow> string"
  dk_drawdown_text :: "rat \<Rightarrow> rat \<Rightarrow> string"

record event_store =
  st_ledger :: event_ledger
  st_file :: event_file
  st_calls :: nat

text \<open>Who writes: the run and the portfolio that go on every event.\<close>

type_synonym writer = "string \<times> string"

definition store_append ::
    "desk \<Rightarrow> writer \<Rightarrow> paper_event_type \<Rightarrow> json \<Rightarrow> string option \<Rightarrow> string option \<Rightarrow> event_store
     \<Rightarrow> unit res \<times> event_store" where
  "store_append dk who t payload symbol market_time s =
     (case dk_env dk (st_calls s) of (w, uid, now) \<Rightarrow>
        (let q = \<lparr>ar_uid = uid, ar_now = now, ar_type = t, ar_run_id = fst who, ar_portfolio_id = snd who,
                  ar_payload = payload, ar_symbol = symbol, ar_strategy_id = None, ar_market_time = market_time\<rparr>
         in case el_append (dk_digest dk) w q (st_ledger s, st_file s) of
              (r, l, f) \<Rightarrow> (res_bind r (\<lambda>_. Inr ()), \<lparr>st_ledger = l, st_file = f, st_calls = st_calls s + 1\<rparr>)))"

definition SCOPE_ORDER :: string where "SCOPE_ORDER = ''ORDER''"
definition SCOPE_STRATEGY :: string where "SCOPE_STRATEGY = ''STRATEGY''"
definition SCOPE_PORTFOLIO :: string where "SCOPE_PORTFOLIO = ''PORTFOLIO''"
definition SCOPE_GLOBAL :: string where "SCOPE_GLOBAL = ''GLOBAL''"

definition SCOPES :: "string list" where
  "SCOPES = [SCOPE_ORDER, SCOPE_STRATEGY, SCOPE_PORTFOLIO, SCOPE_GLOBAL]"

lemmas scope_defs = SCOPE_ORDER_def SCOPE_STRATEGY_def SCOPE_PORTFOLIO_def SCOPE_GLOBAL_def SCOPES_def

record switch_record =
  sr_scope :: string
  sr_key :: "string option"
  sr_reason :: string
  sr_triggered_at :: string

type_synonym latches = "(string, switch_record) dict"

text \<open>\<open>f"{scope}:{key or '*'}"\<close>\<close>

definition switch_id :: "string \<Rightarrow> string option \<Rightarrow> string" where
  "switch_id scope key = scope @ '':'' @ (case key of None \<Rightarrow> ''*'' | Some k \<Rightarrow> if k = [] then ''*'' else k)"

definition switch_payload :: "switch_record \<Rightarrow> json" where
  "switch_payload r = JObj [(''scope'', JStr (sr_scope r)), (''key'', of_opt JStr (sr_key r)),
     (''reason'', JStr (sr_reason r)), (''triggered_at'', JStr (sr_triggered_at r))]"

text \<open>\<open>journal\<close> is who appends, or \<open>None\<close> when no journal is attached.\<close>

definition sw_trigger ::
    "desk \<Rightarrow> writer option \<Rightarrow> string \<Rightarrow> string \<Rightarrow> string \<Rightarrow> string option \<Rightarrow> latches \<times> event_store
     \<Rightarrow> switch_record res \<times> latches \<times> event_store" where
  "sw_trigger dk journal now scope reason key s =
     (let (latched, store) = s in
      if scope \<notin> set SCOPES then (Inl ValueError, s)
      else case map_of latched (switch_id scope key) of
        Some existing \<Rightarrow> (Inr existing, s)
      | None \<Rightarrow>
          (let r = \<lparr>sr_scope = scope, sr_key = key, sr_reason = reason, sr_triggered_at = now\<rparr>;
               latched = AList.update (switch_id scope key) r latched
           in case journal of
                None \<Rightarrow> (Inr r, latched, store)
              | Some who \<Rightarrow>
                  (case store_append dk who KILL_SWITCH_TRIGGERED (switch_payload r) None None store of
                     (x, store) \<Rightarrow> (res_bind x (\<lambda>_. Inr r), latched, store))))"

text \<open>One event of the ledger replayed; \<open>payload.get\<close> on a payload that is no object raises.\<close>

definition or_default :: "(json \<Rightarrow> string) \<Rightarrow> json \<Rightarrow> string \<Rightarrow> string" where
  "or_default S v d = (if truthy v then py_str S v else d)"

definition key_of :: "(json \<Rightarrow> string) \<Rightarrow> json \<Rightarrow> string option" where
  "key_of S v = (if v = JNull then None else Some (py_str S v))"

definition restore_event :: "(json \<Rightarrow> string) \<Rightarrow> paper_event \<Rightarrow> latches \<Rightarrow> latches res" where
  "restore_event S e latched =
     res_bind (jget (pe_payload e) ''scope'') (\<lambda>scope_json.
     res_bind (jget (pe_payload e) ''key'') (\<lambda>key_json.
     let scope = or_default S scope_json SCOPE_GLOBAL; key = key_of S key_json; i = switch_id scope key in
     if pe_event_type e = KILL_SWITCH_TRIGGERED then
       res_bind (jget (pe_payload e) ''reason'') (\<lambda>reason.
       res_bind (jget (pe_payload e) ''triggered_at'') (\<lambda>at_json.
         Inr (if map_of latched i = None
              then AList.update i \<lparr>sr_scope = scope, sr_key = key, sr_reason = or_default S reason ''unknown'',
                     sr_triggered_at = or_default S at_json (pe_event_time e)\<rparr> latched
              else latched)))
     else if pe_event_type e = KILL_SWITCH_CLEARED then Inr (AList.delete i latched)
     else Inr latched))"

fun sw_restore :: "(json \<Rightarrow> string) \<Rightarrow> paper_event list \<Rightarrow> latches \<Rightarrow> latches res" where
  "sw_restore S [] latched = Inr latched"
| "sw_restore S (e # es) latched = res_bind (restore_event S e latched) (sw_restore S es)"

definition is_triggered :: "latches \<Rightarrow> string \<Rightarrow> string option \<Rightarrow> bool" where
  "is_triggered latched scope key \<longleftrightarrow>
     map_of latched (switch_id SCOPE_GLOBAL None) \<noteq> None \<or> map_of latched (switch_id scope key) \<noteq> None"

definition sw_active :: "latches \<Rightarrow> switch_record list" where
  "sw_active latched = map snd latched"

definition blocks :: "bool \<Rightarrow> string option \<Rightarrow> switch_record \<Rightarrow> bool" where
  "blocks buying strategy_id r \<longleftrightarrow>
     sr_scope r = SCOPE_GLOBAL
     \<or> sr_scope r = SCOPE_PORTFOLIO \<and> buying
     \<or> sr_scope r = SCOPE_STRATEGY \<and> (sr_key r = None \<or> sr_key r = strategy_id)"

definition blocking :: "bool \<Rightarrow> string option \<Rightarrow> latches \<Rightarrow> switch_record list" where
  "blocking buying strategy_id latched = filter (blocks buying strategy_id) (sw_active latched)"

definition clear_payload :: "string \<Rightarrow> string option \<Rightarrow> string option \<Rightarrow> string option \<Rightarrow> string \<Rightarrow> json" where
  "clear_payload scope key author reason now = JObj [(''scope'', JStr scope), (''key'', of_opt JStr key),
     (''human_confirmation'', JBool True), (''author'', of_opt JStr author), (''reason'', of_opt JStr reason),
     (''cleared_at'', JStr now)]"

definition sw_clear ::
    "desk \<Rightarrow> writer option \<Rightarrow> string \<Rightarrow> string \<Rightarrow> string option \<Rightarrow> bool \<Rightarrow> string option \<Rightarrow> string option
     \<Rightarrow> latches \<times> event_store \<Rightarrow> bool res \<times> latches \<times> event_store" where
  "sw_clear dk journal now scope key human_confirmation author reason s =
     (let (latched, store) = s in
      if \<not> human_confirmation then (Inl RiskRejection, s)
      else
        let cleared = map_of latched (switch_id scope key) \<noteq> None;
            latched = AList.delete (switch_id scope key) latched
        in case (if cleared then journal else None) of
             None \<Rightarrow> (Inr cleared, latched, store)
           | Some who \<Rightarrow>
               (case store_append dk who KILL_SWITCH_CLEARED (clear_payload scope key author reason now) None None store of
                  (x, store) \<Rightarrow> (res_bind x (\<lambda>_. Inr cleared), latched, store)))"

section \<open>Calls, and what a restart reads\<close>

datatype latch_call =
    Trigger string string string "string option"
  | Clear string string "string option" bool "string option" "string option"
  | Other paper_event_type json "string option" "string option"

text \<open>\<open>Other\<close> is any event that its owner appends besides.\<close>

fun switch_do :: "desk \<Rightarrow> writer \<Rightarrow> latches \<times> event_store \<Rightarrow> latch_call \<Rightarrow> latches \<times> event_store" where
  "switch_do dk who s (Trigger now scope reason key) = snd (sw_trigger dk (Some who) now scope reason key s)"
| "switch_do dk who s (Clear now scope key human author reason) =
     snd (sw_clear dk (Some who) now scope key human author reason s)"
| "switch_do dk who s (Other t payload symbol market_time) =
     (fst s, snd (store_append dk who t payload symbol market_time (snd s)))"

end
