(* ===== verification/Paper_Orders.thy ===== *)
theory Paper_Orders
  imports Ledger_Codec
begin

text \<open>
  The order model of the paper broker, \<open>src/src/quantagent/paper/orders.py\<close>: the broker's own view of an
  order with a transition table derived from the canonical one, the schedules of a parent order and the
  broker's fill.  Quantities are floats here (\<open>rat\<close>).  The names of states, sides and order types are
  datatypes, so the errors for an unknown name do not arise.
\<close>

datatype paper_order_type = T_LIMIT | T_MARKETABLE_LIMIT | T_TWAP | T_VWAP | T_POV

definition PARENT_TYPES :: "paper_order_type list" where
  "PARENT_TYPES = [T_TWAP, T_VWAP, T_POV]"

datatype paper_status =
  P_NEW | P_ACCEPTED | P_PARTIALLY_FILLED | P_FILLED | P_CANCEL_REQUESTED | P_CANCELLED | P_REJECTED

definition ORDER_STATES :: "paper_status list" where
  "ORDER_STATES = [P_NEW, P_ACCEPTED, P_PARTIALLY_FILLED, P_FILLED, P_CANCEL_REQUESTED, P_CANCELLED, P_REJECTED]"

fun TO_CANONICAL :: "paper_status \<Rightarrow> order_status" where
  "TO_CANONICAL P_NEW = SUBMITTED"
| "TO_CANONICAL P_ACCEPTED = ACCEPTED"
| "TO_CANONICAL P_PARTIALLY_FILLED = PARTIALLY_FILLED"
| "TO_CANONICAL P_FILLED = FILLED"
| "TO_CANONICAL P_CANCEL_REQUESTED = CANCEL_REQUESTED"
| "TO_CANONICAL P_CANCELLED = CANCELLED"
| "TO_CANONICAL P_REJECTED = REJECTED"

definition TERMINAL_STATES :: "paper_status list" where
  "TERMINAL_STATES = filter (\<lambda>s. TO_CANONICAL s \<in> set TERMINAL_STATUSES) ORDER_STATES"

definition PAPER_TRANSITIONS :: "paper_status \<Rightarrow> paper_status list" where
  "PAPER_TRANSITIONS s = filter (\<lambda>t. TO_CANONICAL t \<in> set (ALLOWED_TRANSITIONS (TO_CANONICAL s))) ORDER_STATES"

record paper_order =
  pa_symbol :: string
  pa_side :: side
  pa_quantity :: rat
  pa_order_type :: paper_order_type
  pa_limit_price :: "rat option"
  pa_board :: string
  pa_order_id :: string
  pa_parent_id :: "string option"
  pa_strategy_id :: "string option"
  pa_state :: paper_status
  pa_filled_quantity :: rat
  pa_filled_notional :: rat
  pa_fees_paid :: rat
  pa_reject_reason :: "string option"
  pa_created_at :: string
  pa_is_full_liquidation :: bool

definition PaperOrder_check :: "paper_order \<Rightarrow> paper_order res" where
  "PaperOrder_check od =
     (if pa_quantity od \<le> 0 then Inl ValueError
      else if pa_order_type od \<in> {T_LIMIT, T_MARKETABLE_LIMIT} \<and> pa_limit_price od = None then Inl ValueError
      else if (case pa_limit_price od of None \<Rightarrow> False | Some l \<Rightarrow> l \<le> 0) then Inl ValueError
      else Inr od)"

definition paper_transition :: "paper_status \<Rightarrow> paper_order \<Rightarrow> paper_order res" where
  "paper_transition new_state od =
     (if new_state \<notin> set (PAPER_TRANSITIONS (pa_state od)) then Inl OrderStateError
      else Inr (od\<lparr>pa_state := new_state\<rparr>))"

definition pa_remaining :: "paper_order \<Rightarrow> rat" where
  "pa_remaining od = max 0 (pa_quantity od - pa_filled_quantity od)"

definition is_open :: "paper_order \<Rightarrow> bool" where
  "is_open od \<longleftrightarrow> pa_state od \<notin> set TERMINAL_STATES"

definition pa_average_price :: "paper_order \<Rightarrow> rat option" where
  "pa_average_price od =
     (if pa_filled_quantity od \<noteq> 0 then Some (pa_filled_notional od / pa_filled_quantity od) else None)"

section \<open>Parent orders\<close>

record paper_parent =
  pn_symbol :: string
  pn_side :: side
  pn_quantity :: rat
  pn_order_type :: paper_order_type
  pn_slices :: int
  pn_participation_rate :: rat
  pn_board :: string
  pn_parent_id :: string
  pn_strategy_id :: "string option"

definition PaperParent_check :: "paper_parent \<Rightarrow> paper_parent res" where
  "PaperParent_check p =
     (if pn_order_type p \<notin> set PARENT_TYPES then Inl ValueError
      else if pn_slices p < 1 then Inl ValueError
      else if \<not> (0 < pn_participation_rate p \<and> pn_participation_rate p \<le> 1) then Inl ValueError
      else Inr p)"

definition even_weights :: "nat \<Rightarrow> rat list" where
  "even_weights count = replicate count (1 / of_nat count)"

text \<open>The three weightings; \<open>volumes\<close> is empty when none were given.\<close>

definition schedule_weights :: "paper_parent \<Rightarrow> nat \<Rightarrow> rat list \<Rightarrow> rat list res" where
  "schedule_weights p count volumes =
     (if pn_order_type p = T_TWAP \<or> volumes = [] then Inr (even_weights count)
      else let window = take count volumes in
        if pn_order_type p = T_VWAP then
          Inr (if 0 < sum_list window then map (\<lambda>v. v / sum_list window) window else even_weights count)
        else
          let targets = map (\<lambda>v. v * pn_participation_rate p) window;
              capped = min (sum_list targets) (pn_quantity p) in
          if 0 < sum_list targets then
            (if pn_quantity p = 0 then Inl ZeroDivisionError
             else Inr (map (\<lambda>t. t / sum_list targets * (capped / pn_quantity p)) targets))
          else Inr (replicate count 0))"

definition child_order :: "paper_parent \<Rightarrow> string \<Rightarrow> string \<Rightarrow> rat \<Rightarrow> rat \<Rightarrow> paper_order" where
  "child_order p uid now amount price =
     \<lparr>pa_symbol = pn_symbol p, pa_side = pn_side p, pa_quantity = amount, pa_order_type = T_MARKETABLE_LIMIT,
      pa_limit_price = Some price, pa_board = pn_board p, pa_order_id = uid, pa_parent_id = Some (pn_parent_id p),
      pa_strategy_id = pn_strategy_id p, pa_state = P_NEW, pa_filled_quantity = 0, pa_filled_notional = 0,
      pa_fees_paid = 0, pa_reject_reason = None, pa_created_at = now, pa_is_full_liquidation = False\<rparr>"

text \<open>\<open>uid n\<close> is the \<open>n\<close>-th identifier drawn.\<close>

fun schedule_children ::
    "paper_parent \<Rightarrow> (nat \<Rightarrow> string) \<Rightarrow> string \<Rightarrow> nat \<Rightarrow> (rat \<times> rat) list \<Rightarrow> paper_order list res" where
  "schedule_children p uid now n [] = Inr []"
| "schedule_children p uid now n ((price, weight) # rest) =
     (let amount = pn_quantity p * weight in
      if amount \<le> 0 then schedule_children p uid now n rest
      else res_bind (PaperOrder_check (child_order p (uid n) now amount price)) (\<lambda>child.
           res_bind (schedule_children p uid now (Suc n) rest) (\<lambda>children. Inr (child # children))))"

definition schedule ::
    "paper_parent \<Rightarrow> (nat \<Rightarrow> string) \<Rightarrow> string \<Rightarrow> rat list \<Rightarrow> rat list \<Rightarrow> paper_order list res" where
  "schedule p uid now reference_prices volumes =
     (if reference_prices = [] then Inr []
      else let count = nat (min (pn_slices p) (int (length reference_prices))) in
        res_bind (schedule_weights p count volumes) (\<lambda>weights.
          schedule_children p uid now 0 (zip (take count reference_prices) weights)))"

section \<open>Fills\<close>

record paper_fill =
  pf_order_id :: string
  pf_symbol :: string
  pf_side :: side
  pf_quantity :: rat
  pf_price :: rat
  pf_notional :: rat
  pf_commission :: rat
  pf_stamp_duty :: rat
  pf_transfer_fee :: rat
  pf_market_time :: "string option"
  pf_fill_id :: string
  pf_partial :: bool

definition pf_fees :: "paper_fill \<Rightarrow> rat" where
  "pf_fees f = pf_commission f + pf_stamp_duty f + pf_transfer_fee f"

definition pf_cash_delta :: "paper_fill \<Rightarrow> rat" where
  "pf_cash_delta f = (if pf_side f = BUY then - (pf_notional f + pf_fees f) else pf_notional f - pf_fees f)"

section \<open>Facts\<close>

lemma paper_transitions_canonical:
  "t \<in> set (PAPER_TRANSITIONS s) \<longleftrightarrow> TO_CANONICAL t \<in> set (ALLOWED_TRANSITIONS (TO_CANONICAL s))"
  by (cases t) (auto simp: PAPER_TRANSITIONS_def ORDER_STATES_def)

lemma paper_terminal_canonical: "s \<in> set TERMINAL_STATES \<longleftrightarrow> terminal_status (TO_CANONICAL s)"
  by (cases s) (auto simp: TERMINAL_STATES_def ORDER_STATES_def terminal_status_def)

lemma paper_transition_Inr:
  "paper_transition t od = Inr od' \<longleftrightarrow>
     od' = od\<lparr>pa_state := t\<rparr> \<and> allowed_transition (TO_CANONICAL (pa_state od)) (TO_CANONICAL t)"
  by (auto simp: paper_transition_def paper_transitions_canonical allowed_transition_def)

text \<open>The paper table is the canonical one restricted to its vocabulary, so its states are one-way too.\<close>

interpretation paper_table: status_table
  "\<lambda>s t. t \<in> set (PAPER_TRANSITIONS s)" "\<lambda>s. s \<in> set TERMINAL_STATES" "\<lambda>s. status_rank (TO_CANONICAL s)"
  by unfold_locales
    (auto simp: paper_transitions_canonical paper_terminal_canonical simp flip: allowed_transition_def
      dest: order_table.terminal_final intro: order_table.rank_mono)

text \<open>What the schedules add up to.\<close>

definition scheduled_total :: "paper_order list \<Rightarrow> rat" where
  "scheduled_total children = sum_list (map pa_quantity children)"

lemma even_weights_sum: "0 < count \<Longrightarrow> sum_list (even_weights count) = 1"
  by (simp add: even_weights_def sum_list_replicate)

lemma sum_list_scale: "sum_list (map (\<lambda>v. v / c) xs) = sum_list xs / (c :: rat)"
  by (induction xs) (simp_all add: add_divide_distrib)

lemma schedule_children_total:
  assumes "schedule_children p uid now n pws = Inr children" "0 < pn_quantity p"
    "\<forall>w\<in>set (map snd pws). 0 \<le> w"
  shows "scheduled_total children = pn_quantity p * sum_list (map snd pws)"
  using assms(1,3)
proof (induction pws arbitrary: n children)
  case Nil
  then show ?case by (simp add: scheduled_total_def)
next
  case (Cons pw pws)
  obtain price w where pw: "pw = (price, w)" by (cases pw)
  show ?case
  proof (cases "pn_quantity p * w \<le> 0")
    case True
    with Cons.prems pw assms(2) have "w = 0" by (simp add: mult_le_0_iff)
    with Cons pw show ?thesis by simp
  next
    case False
    with Cons.prems pw obtain child rest where
      "PaperOrder_check (child_order p (uid n) now (pn_quantity p * w) price) = Inr child"
      "schedule_children p uid now (Suc n) pws = Inr rest" "children = child # rest"
      by (auto simp: res_bind_Inr_iff Let_def)
    moreover from this(1) have "pa_quantity child = pn_quantity p * w"
      by (auto simp: PaperOrder_check_def child_order_def split: if_splits)
    moreover have "scheduled_total rest = pn_quantity p * sum_list (map snd pws)"
      using Cons.IH [OF calculation(2)] Cons.prems(2) by simp
    ultimately show ?thesis using pw by (simp add: scheduled_total_def distrib_left)
  qed
qed

lemma shares_of_sum:
  fixes ts :: "rat list"
  assumes "\<forall>t\<in>set ts. 0 \<le> t" "0 < sum_list ts" "0 \<le> c"
  shows "(\<forall>w\<in>set (map (\<lambda>t. t / sum_list ts * c) ts). 0 \<le> w) \<and> sum_list (map (\<lambda>t. t / sum_list ts * c) ts) = c"
proof -
  have "sum_list (map (\<lambda>t. t / S * c) xs) = sum_list xs / S * c" for S and xs :: "rat list"
    by (induction xs) (simp_all add: add_divide_distrib distrib_right)
  with assms show ?thesis by auto
qed

lemma schedule_weights_sum:
  assumes "schedule_weights p count volumes = Inr weights" "0 < count" "\<forall>v\<in>set volumes. 0 \<le> v"
    "0 < pn_quantity p" "0 < pn_participation_rate p" "pn_order_type p \<in> set PARENT_TYPES"
  shows "(\<forall>w\<in>set weights. 0 \<le> w) \<and> sum_list weights \<le> 1 \<and>
    (pn_order_type p \<noteq> T_POV \<longrightarrow> sum_list weights = 1)"
proof -
  have window: "\<forall>v\<in>set (take count volumes). 0 \<le> v" using assms(3) by (auto dest: in_set_takeD)
  have even: "(\<forall>w\<in>set (even_weights count). 0 \<le> w) \<and> sum_list (even_weights count) = 1"
    using assms(2) by (simp add: even_weights_sum) (simp add: even_weights_def)
  show ?thesis
  proof (cases "pn_order_type p = T_TWAP \<or> volumes = []")
    case True
    with assms(1) even show ?thesis by (auto simp: schedule_weights_def)
  next
    case False
    show ?thesis
    proof (cases "pn_order_type p = T_VWAP")
      case True
      with False assms(1) window even show ?thesis
        by (auto simp: schedule_weights_def Let_def sum_list_scale split: if_splits)
    next
      case pov: False
      let ?targets = "map (\<lambda>v. v * pn_participation_rate p) (take count volumes)"
      let ?c = "min (sum_list ?targets) (pn_quantity p) / pn_quantity p"
      have type: "pn_order_type p = T_POV" using False pov assms(6) by (auto simp: PARENT_TYPES_def)
      have c: "?c \<le> 1" using assms(4) by (simp add: divide_le_eq)
      have zero: "sum_list (replicate count (0::rat)) = 0" by (simp add: sum_list_replicate)
      show ?thesis
      proof (cases "0 < sum_list ?targets")
        case True
        then have w: "weights = map (\<lambda>t. t / sum_list ?targets * ?c) ?targets"
          using False pov assms(1,4) by (auto simp: schedule_weights_def Let_def)
        have c0: "0 \<le> ?c" using True assms(4) by (simp add: min_def)
        have t0: "\<forall>t\<in>set ?targets. 0 \<le> t" using window assms(5) by auto
        show ?thesis unfolding w using shares_of_sum [OF t0 True c0] c type by simp
      next
        case no: False
        then have "weights = replicate count 0"
          using False pov assms(1) by (auto simp: schedule_weights_def Let_def)
        with zero type show ?thesis by auto
      qed
    qed
  qed
qed

text \<open>A schedule never asks for more than its parent, and all but a participation schedule ask for it exactly.\<close>

lemma schedule_total:
  assumes "schedule p uid now prices volumes = Inr children" "PaperParent_check p = Inr p" "0 < pn_quantity p"
    "prices \<noteq> []" "\<forall>v\<in>set volumes. 0 \<le> v" "volumes = [] \<or> length prices \<le> length volumes"
  shows "scheduled_total children \<le> pn_quantity p \<and>
    (pn_order_type p \<noteq> T_POV \<longrightarrow> scheduled_total children = pn_quantity p)"
proof -
  let ?count = "nat (min (pn_slices p) (int (length prices)))"
  have p: "pn_order_type p \<in> set PARENT_TYPES" "1 \<le> pn_slices p" "0 < pn_participation_rate p"
    using assms(2) by (auto simp: PaperParent_check_def split: if_splits)
  have count: "0 < ?count" "?count \<le> length prices" using p(2) assms(4) by auto
  from assms(1,4) obtain weights where w: "schedule_weights p ?count volumes = Inr weights"
    "schedule_children p uid now 0 (zip (take ?count prices) weights) = Inr children"
    by (auto simp: schedule_def res_bind_Inr_iff Let_def)
  have len: "length weights = ?count" using w(1) count(2) assms(6)
    by (auto simp: schedule_weights_def even_weights_def Let_def split: if_splits)
  have sums: "(\<forall>w\<in>set weights. 0 \<le> w) \<and> sum_list weights \<le> 1 \<and>
    (pn_order_type p \<noteq> T_POV \<longrightarrow> sum_list weights = 1)"
    by (rule schedule_weights_sum [OF w(1) count(1) assms(5,3) p(3,1)])
  have snd: "map snd (zip (take ?count prices) weights) = weights" using len count(2) by simp
  have "scheduled_total children = pn_quantity p * sum_list weights"
    using schedule_children_total [OF w(2) assms(3)] sums unfolding snd by simp
  with sums assms(3) show ?thesis by (simp add: mult_le_cancel_left1)
qed

end
