(* ===== verification/Paper_Portfolio.thy ===== *)
theory Paper_Portfolio
  imports Paper_Orders Account_Facts
begin

text \<open>
  The live portfolio of the paper broker, \<open>src/src/quantagent/paper/portfolio.py\<close>: cash, positions with
  settled and pending shares and an average cost, driven by fills, settlements and corporate actions.  It
  is mutated in place, so an operation that may raise returns its outcome with the portfolio it leaves.
\<close>

record paper_position =
  pp_symbol :: string
  pp_total :: rat
  pp_sellable :: rat
  pp_pending :: rat
  pp_average_cost :: rat
  pp_realised_pnl :: rat

definition new_position :: "string \<Rightarrow> paper_position" where
  "new_position symbol = \<lparr>pp_symbol = symbol, pp_total = 0, pp_sellable = 0, pp_pending = 0,
     pp_average_cost = 0, pp_realised_pnl = 0\<rparr>"

definition is_flat :: "paper_position \<Rightarrow> bool" where
  "is_flat p \<longleftrightarrow> \<bar>pp_total p\<bar> < 1 / 10 ^ 9"

definition pp_market_value :: "rat \<Rightarrow> paper_position \<Rightarrow> rat" where
  "pp_market_value price p = pp_total p * price"

definition pp_unrealised_pnl :: "rat \<Rightarrow> paper_position \<Rightarrow> rat" where
  "pp_unrealised_pnl price p = (price - pp_average_cost p) * pp_total p"

record portfolio =
  pt_portfolio_id :: string
  pt_cash :: rat
  pt_initial_cash :: rat
  pt_positions :: "(string, paper_position) dict"
  pt_realised_pnl :: rat
  pt_fees_paid :: rat

definition new_portfolio :: "string \<Rightarrow> rat \<Rightarrow> portfolio" where
  "new_portfolio pid cash = \<lparr>pt_portfolio_id = pid, pt_cash = cash, pt_initial_cash = cash, pt_positions = [],
     pt_realised_pnl = 0, pt_fees_paid = 0\<rparr>"

section \<open>Queries\<close>

text \<open>\<open>position\<close> inserts an empty position for a new symbol.\<close>

definition pt_get :: "portfolio \<Rightarrow> string \<Rightarrow> paper_position" where
  "pt_get pf symbol = dict_get (pt_positions pf) symbol (new_position symbol)"

definition pt_put :: "string \<Rightarrow> paper_position \<Rightarrow> portfolio \<Rightarrow> portfolio" where
  "pt_put symbol p pf = pf\<lparr>pt_positions := AList.update symbol p (pt_positions pf)\<rparr>"

definition pt_position :: "string \<Rightarrow> portfolio \<Rightarrow> paper_position \<times> portfolio" where
  "pt_position symbol pf =
     (case map_of (pt_positions pf) symbol of
        Some p \<Rightarrow> (p, pf)
      | None \<Rightarrow> (new_position symbol, pt_put symbol (new_position symbol) pf))"

definition pt_sellable :: "portfolio \<Rightarrow> string \<Rightarrow> rat" where
  "pt_sellable pf symbol = (case map_of (pt_positions pf) symbol of None \<Rightarrow> 0 | Some p \<Rightarrow> pp_sellable p)"

type_synonym marks = "(string, rat) dict"

definition pt_unpriceable :: "portfolio \<Rightarrow> marks \<Rightarrow> string list" where
  "pt_unpriceable pf prices =
     sort (map fst (filter (\<lambda>(symbol, p). \<not> is_flat p \<and> map_of prices symbol = None) (pt_positions pf)))"

text \<open>A sum over the held positions at their marks, which raises when one has no mark.\<close>

definition held_sum :: "(rat \<Rightarrow> paper_position \<Rightarrow> rat) \<Rightarrow> portfolio \<Rightarrow> marks \<Rightarrow> rat res" where
  "held_sum f pf prices =
     (let missing = pt_unpriceable pf prices in
      if missing \<noteq> [] then Inl (UnpriceablePosition missing)
      else Inr (sum_list (map (\<lambda>(symbol, p). f (dict_get prices symbol 0) p)
             (filter (\<lambda>(symbol, p). \<not> is_flat p) (pt_positions pf)))))"

definition pt_market_value :: "portfolio \<Rightarrow> marks \<Rightarrow> rat res" where
  "pt_market_value = held_sum pp_market_value"

definition pt_equity :: "portfolio \<Rightarrow> marks \<Rightarrow> rat res" where
  "pt_equity pf prices = res_bind (pt_market_value pf prices) (\<lambda>v. Inr (pt_cash pf + v))"

definition pt_unrealised_pnl :: "portfolio \<Rightarrow> marks \<Rightarrow> rat res" where
  "pt_unrealised_pnl = held_sum pp_unrealised_pnl"

definition pt_gross_exposure :: "portfolio \<Rightarrow> marks \<Rightarrow> rat res" where
  "pt_gross_exposure = held_sum (\<lambda>price p. \<bar>pp_market_value price p\<bar>)"

text \<open>The snapshot; its valuation fields are null when a holding has no mark.\<close>

definition position_json :: "paper_position \<Rightarrow> json" where
  "position_json p = JObj [(''symbol'', JStr (pp_symbol p)), (''total'', JNum (pp_total p)),
     (''sellable'', JNum (pp_sellable p)), (''pending_settlement'', JNum (pp_pending p)),
     (''average_cost'', JNum (pp_average_cost p)), (''realised_pnl'', JNum (pp_realised_pnl p))]"

definition value_json :: "rat res \<Rightarrow> json" where
  "value_json r = (case r of Inl e \<Rightarrow> JNull | Inr x \<Rightarrow> JNum x)"

definition pt_to_dict :: "portfolio \<Rightarrow> marks \<Rightarrow> json" where
  "pt_to_dict pf prices = JObj
     [(''portfolio_id'', JStr (pt_portfolio_id pf)), (''cash'', JNum (pt_cash pf)),
      (''initial_cash'', JNum (pt_initial_cash pf)), (''realised_pnl'', JNum (pt_realised_pnl pf)),
      (''fees_paid'', JNum (pt_fees_paid pf)),
      (''positions'', JObj (map (\<lambda>(symbol, p). (symbol, position_json p))
         (filter (\<lambda>(symbol, p). \<not> is_flat p) (pt_positions pf)))),
      (''unpriceable_symbols'', JList (map JStr (pt_unpriceable pf prices))),
      (''market_value'', value_json (pt_market_value pf prices)),
      (''equity'', value_json (pt_equity pf prices)),
      (''unrealised_pnl'', value_json (pt_unrealised_pnl pf prices))]"

section \<open>Mutations\<close>

definition can_afford :: "portfolio \<Rightarrow> paper_fill \<Rightarrow> bool" where
  "can_afford pf f \<longleftrightarrow> pf_side f \<noteq> BUY \<or> - (1 / 10 ^ 9) \<le> pt_cash pf + pf_cash_delta f"

definition buy_position :: "paper_fill \<Rightarrow> paper_position \<Rightarrow> paper_position" where
  "buy_position f p =
     (let new_total = pp_total p + pf_quantity f in
      p\<lparr>pp_average_cost := (if new_total \<noteq> 0
           then (pp_average_cost p * pp_total p + pf_notional f + pf_fees f) / new_total else 0),
        pp_total := new_total, pp_pending := pp_pending p + pf_quantity f\<rparr>)"

definition realised_by :: "paper_fill \<Rightarrow> paper_position \<Rightarrow> rat" where
  "realised_by f p = (pf_price f - pp_average_cost p) * pf_quantity f - pf_fees f"

definition sell_position :: "paper_fill \<Rightarrow> paper_position \<Rightarrow> paper_position" where
  "sell_position f p =
     (let p' = p\<lparr>pp_realised_pnl := pp_realised_pnl p + realised_by f p,
                 pp_total := pp_total p - pf_quantity f, pp_sellable := pp_sellable p - pf_quantity f\<rparr>
      in if is_flat p' then p'\<lparr>pp_total := 0, pp_sellable := 0, pp_average_cost := 0\<rparr> else p')"

definition book_cash :: "paper_fill \<Rightarrow> portfolio \<Rightarrow> portfolio" where
  "book_cash f pf = pf\<lparr>pt_cash := pt_cash pf + pf_cash_delta f, pt_fees_paid := pt_fees_paid pf + pf_fees f\<rparr>"

definition pt_apply_fill :: "paper_fill \<Rightarrow> portfolio \<Rightarrow> unit res \<times> portfolio" where
  "pt_apply_fill f pf =
     (case pt_position (pf_symbol f) pf of (p, pf1) \<Rightarrow>
        if pf_side f = BUY then
          (if \<not> can_afford pf1 f then (Inl InsufficientCash, pf1)
           else (Inr (), book_cash f (pt_put (pf_symbol f) (buy_position f p) pf1)))
        else if 1 / 10 ^ 9 < pf_quantity f - pp_sellable p then (Inl InsufficientSellable, pf1)
        else (Inr (), book_cash f (pt_put (pf_symbol f) (sell_position f p)
                (pf1\<lparr>pt_realised_pnl := pt_realised_pnl pf1 + realised_by f p\<rparr>))))"

definition settle_position :: "paper_position \<Rightarrow> paper_position" where
  "settle_position p =
     (if pp_pending p \<noteq> 0 then p\<lparr>pp_sellable := pp_sellable p + pp_pending p, pp_pending := 0\<rparr> else p)"

text \<open>The settled quantities, and the portfolio.\<close>

definition pt_settle :: "portfolio \<Rightarrow> (string, rat) dict \<times> portfolio" where
  "pt_settle pf =
     (map (\<lambda>(symbol, p). (symbol, pp_pending p)) (filter (\<lambda>(symbol, p). pp_pending p \<noteq> 0) (pt_positions pf)),
      pf\<lparr>pt_positions := map (\<lambda>(symbol, p). (symbol, settle_position p)) (pt_positions pf)\<rparr>)"

definition scale_position :: "rat \<Rightarrow> paper_position \<Rightarrow> paper_position" where
  "scale_position share_ratio p = p\<lparr>pp_total := pp_total p * share_ratio,
     pp_sellable := pp_sellable p * share_ratio, pp_pending := pp_pending p * share_ratio\<rparr>"

text \<open>A ratio of zero raises after the shares were scaled.\<close>

definition pt_apply_corporate_action ::
    "string \<Rightarrow> rat \<Rightarrow> rat \<Rightarrow> portfolio \<Rightarrow> bool res \<times> portfolio" where
  "pt_apply_corporate_action symbol share_ratio cash_per_share pf =
     (case pt_position symbol pf of (p, pf1) \<Rightarrow>
        if is_flat p then (Inr False, pf1)
        else
          let cash_received = pp_total p * cash_per_share;
              scaled = scale_position share_ratio p in
          if share_ratio \<noteq> 1 \<and> share_ratio = 0 then (Inl ZeroDivisionError, pt_put symbol scaled pf1)
          else
            let p' = scaled\<lparr>pp_average_cost := (if share_ratio \<noteq> 1 then pp_average_cost p / share_ratio
                                               else pp_average_cost p),
                            pp_realised_pnl := pp_realised_pnl p + cash_received\<rparr>
            in (Inr True, pt_put symbol p' (pf1\<lparr>pt_cash := pt_cash pf1 + cash_received,
                  pt_realised_pnl := pt_realised_pnl pf1 + cash_received\<rparr>)))"

section \<open>Calls\<close>

datatype portfolio_call =
    Fill_in paper_fill
  | Settle_now
  | Corporate string rat rat

text \<open>What a call leaves, raising or not.\<close>

fun portfolio_do :: "portfolio \<Rightarrow> portfolio_call \<Rightarrow> portfolio" where
  "portfolio_do pf (Fill_in f) = snd (pt_apply_fill f pf)"
| "portfolio_do pf Settle_now = snd (pt_settle pf)"
| "portfolio_do pf (Corporate symbol ratio cash) = snd (pt_apply_corporate_action symbol ratio cash pf)"

section \<open>Facts\<close>

lemma pt_position_simps [simp]:
  "fst (pt_position symbol pf) = pt_get pf symbol"
  "pt_get (snd (pt_position symbol pf)) s = pt_get pf s"
  "pt_cash (snd (pt_position symbol pf)) = pt_cash pf"
  "pt_realised_pnl (snd (pt_position symbol pf)) = pt_realised_pnl pf"
  "pt_initial_cash (snd (pt_position symbol pf)) = pt_initial_cash pf"
  "pt_fees_paid (snd (pt_position symbol pf)) = pt_fees_paid pf"
  by (auto simp: pt_position_def pt_get_def pt_put_def dict_get_def split: option.splits)

lemma pt_position_split:
  obtains pf1 where "pt_position symbol pf = (pt_get pf symbol, pf1)" "\<And>s. pt_get pf1 s = pt_get pf s"
    "pt_cash pf1 = pt_cash pf" "pt_realised_pnl pf1 = pt_realised_pnl pf" "pt_fees_paid pf1 = pt_fees_paid pf"
proof
  show "pt_position symbol pf = (pt_get pf symbol, snd (pt_position symbol pf))"
    using pt_position_simps(1) [of symbol pf] by (metis prod.collapse)
qed simp_all

lemma pt_put_simps [simp]:
  "pt_get (pt_put symbol p pf) s = (if s = symbol then p else pt_get pf s)"
  "pt_cash (pt_put symbol p pf) = pt_cash pf"
  "pt_realised_pnl (pt_put symbol p pf) = pt_realised_pnl pf"
  "pt_initial_cash (pt_put symbol p pf) = pt_initial_cash pf"
  "pt_fees_paid (pt_put symbol p pf) = pt_fees_paid pf"
  by (simp_all add: pt_put_def pt_get_def)

lemma book_cash_simps [simp]:
  "pt_get (book_cash f pf) s = pt_get pf s"
  "pt_cash (book_cash f pf) = pt_cash pf + pf_cash_delta f"
  "pt_realised_pnl (book_cash f pf) = pt_realised_pnl pf"
  "pt_initial_cash (book_cash f pf) = pt_initial_cash pf"
  "pt_fees_paid (book_cash f pf) = pt_fees_paid pf + pf_fees f"
  by (simp_all add: book_cash_def pt_get_def)

lemma pt_get_money [simp]:
  "pt_get (pf\<lparr>pt_realised_pnl := r\<rparr>) s = pt_get pf s"
  "pt_get (pf\<lparr>pt_cash := c\<rparr>) s = pt_get pf s"
  by (simp_all add: pt_get_def)

lemma pt_sellable_get: "pt_sellable pf s = pp_sellable (pt_get pf s)"
  by (simp add: pt_sellable_def pt_get_def dict_get_def new_position_def split: option.split)

lemma settle_get [simp]: "pt_get (snd (pt_settle pf)) s = settle_position (pt_get pf s)"
proof -
  have "map_of (map (\<lambda>(symbol, p). (symbol, settle_position p)) d) s = map_option settle_position (map_of d s)" for d
    by (induction d) auto
  then show ?thesis
    by (simp add: pt_settle_def pt_get_def dict_get_def settle_position_def new_position_def split: option.split)
qed

lemma settle_money [simp]:
  "pt_cash (snd (pt_settle pf)) = pt_cash pf" "pt_realised_pnl (snd (pt_settle pf)) = pt_realised_pnl pf"
  "pt_initial_cash (snd (pt_settle pf)) = pt_initial_cash pf" "pt_fees_paid (snd (pt_settle pf)) = pt_fees_paid pf"
  by (simp_all add: pt_settle_def)

end
