(* ===== verification/Paper_Risk.thy ===== *)
theory Paper_Risk
  imports Paper_Switch Paper_Portfolio
begin

text \<open>
  The risk engine of the paper desk, class \<open>RiskEngine\<close> of \<open>src/src/quantagent/paper/risk.py\<close>: pre-trade,
  portfolio and operational checks with their durable state.  A decision is the list of its checks; their
  texts and the time of the decision are left out, and so is the optional second ledger decisions may be
  copied to, which no caller in the repository passes; so is
  the flat position that valuing a new symbol inserts into the portfolio, which the caller accounts for.  The state ledger is the store of
  \<open>Paper_Switch\<close>; an operation returns its outcome with the engine and the store it leaves.
\<close>

record risk_limits =
  rl_max_order_notional :: rat
  rl_max_order_shares :: rat
  rl_max_single_name_weight :: rat
  rl_max_industry_weight :: rat
  rl_max_gross_exposure :: rat
  rl_max_daily_turnover :: rat
  rl_max_daily_loss_fraction :: "rat option"
  rl_max_daily_loss :: "rat option"
  rl_max_drawdown :: rat
  rl_max_participation :: rat
  rl_max_quote_age_seconds :: int
  rl_max_price_deviation :: rat
  rl_min_cash_buffer :: rat

definition default_risk_limits :: risk_limits where
  "default_risk_limits = \<lparr>rl_max_order_notional = 200000, rl_max_order_shares = 1000000,
     rl_max_single_name_weight = 1/10, rl_max_industry_weight = 3/10, rl_max_gross_exposure = 1,
     rl_max_daily_turnover = 2, rl_max_daily_loss_fraction = Some (5/100), rl_max_daily_loss = None,
     rl_max_drawdown = 2/10, rl_max_participation = 1/10, rl_max_quote_age_seconds = 300,
     rl_max_price_deviation = 1/10, rl_min_cash_buffer = 0\<rparr>"

record risk_check =
  rc_name :: string
  rc_passed :: bool
  rc_limit :: json
  rc_measured :: json

record risk_verdict =
  rv_approved :: bool
  rv_checks :: "risk_check list"

definition rv_failed :: "risk_verdict \<Rightarrow> string list" where
  "rv_failed v = map rc_name (filter (\<lambda>c. \<not> rc_passed c) (rv_checks v))"

definition decide :: "risk_check list \<Rightarrow> risk_verdict" where
  "decide checks = \<lparr>rv_approved = list_all rc_passed checks, rv_checks = checks\<rparr>"

definition enforce :: "risk_verdict \<Rightarrow> unit res" where
  "enforce v = (if \<not> rv_approved v then Inl RiskRejection else Inr ())"

record risk_engine =
  rk_limits :: risk_limits
  rk_latched :: latches
  rk_run_id :: string
  rk_bound :: bool
  rk_portfolio_id :: string
  rk_session :: "string option"
  rk_turnover :: rat
  rk_start_equity :: "rat option"
  rk_peak :: "rat option"
  rk_halted :: "string option"
  rk_seen :: "string list"
  rk_turnover_by :: "(string, rat) dict"
  rk_start_by :: "(string, rat) dict"
  rk_last_close :: "(string option \<times> rat) option"
  rk_last_decision :: "risk_verdict option"

definition RiskEngine_make :: "risk_limits \<Rightarrow> string \<Rightarrow> risk_engine" where
  "RiskEngine_make limits run_id = \<lparr>rk_limits = limits, rk_latched = [], rk_run_id = run_id, rk_bound = False,
     rk_portfolio_id = ''risk'', rk_session = None, rk_turnover = 0, rk_start_equity = None, rk_peak = None,
     rk_halted = None, rk_seen = [], rk_turnover_by = [], rk_start_by = [], rk_last_close = None,
     rk_last_decision = None\<rparr>"

type_synonym risk_world = "risk_engine \<times> event_store"

section \<open>Durable state\<close>

definition rk_writer :: "risk_engine \<Rightarrow> writer option" where
  "rk_writer rk = (if rk_bound rk then Some (rk_run_id rk, rk_portfolio_id rk) else None)"

definition rk_journal :: "desk \<Rightarrow> paper_event_type \<Rightarrow> json \<Rightarrow> risk_world \<Rightarrow> unit res \<times> risk_world" where
  "rk_journal dk t payload s =
     (case rk_writer (fst s) of
        None \<Rightarrow> (Inr (), s)
      | Some who \<Rightarrow>
          (case store_append dk who t payload None None (snd s) of (r, store) \<Rightarrow> (r, fst s, store)))"

definition observe_peak :: "rat \<Rightarrow> risk_engine \<Rightarrow> bool \<times> risk_engine" where
  "observe_peak equity rk =
     (if (case rk_peak rk of None \<Rightarrow> True | Some p \<Rightarrow> p < equity)
      then (True, rk\<lparr>rk_peak := Some equity\<rparr>) else (False, rk))"

definition observe_inception_equity :: "rat \<Rightarrow> risk_engine \<Rightarrow> risk_engine" where
  "observe_inception_equity equity rk = (if 0 < equity then snd (observe_peak equity rk) else rk)"

text \<open>A field of a payload that is read only when it is a number.\<close>

definition number_at :: "json \<Rightarrow> string \<Rightarrow> rat option res" where
  "number_at payload k = res_bind (jget payload k) (\<lambda>v.
     Inr (case json_float v of Inl _ \<Rightarrow> None | Inr x \<Rightarrow> Some x))"

definition session_at :: "(json \<Rightarrow> string) \<Rightarrow> json \<Rightarrow> string option res" where
  "session_at S payload = res_bind (jget payload ''session'') (\<lambda>v. Inr (if truthy v then Some (py_str S v) else None))"

text \<open>The update of one event, once its fields are read.\<close>

definition note_risk_state ::
    "string option \<Rightarrow> bool \<Rightarrow> rat option \<Rightarrow> rat option \<Rightarrow> rat option \<Rightarrow> risk_engine \<Rightarrow> risk_engine" where
  "note_risk_state session halt turnover start peak rk =
     (let rk = (if halt then rk\<lparr>rk_halted := session\<rparr> else rk);
          rk = (case (session, turnover) of
                 (Some d, Some x) \<Rightarrow> rk\<lparr>rk_turnover_by := AList.update d x (rk_turnover_by rk)\<rparr>
               | _ \<Rightarrow> rk);
          rk = (case (session, start) of
                 (Some d, Some x) \<Rightarrow>
                   if map_of (rk_start_by rk) d = None
                   then rk\<lparr>rk_start_by := AList.update d x (rk_start_by rk)\<rparr> else rk
               | _ \<Rightarrow> rk)
      in case peak of None \<Rightarrow> rk | Some x \<Rightarrow> snd (observe_peak x rk))"

definition replay_risk_state :: "(json \<Rightarrow> string) \<Rightarrow> paper_event \<Rightarrow> risk_engine \<Rightarrow> risk_engine res" where
  "replay_risk_state S e rk =
     res_bind (session_at S (pe_payload e)) (\<lambda>session.
     res_bind (jget (pe_payload e) ''daily_loss_halt'') (\<lambda>halt.
     res_bind (number_at (pe_payload e) ''session_turnover'') (\<lambda>turnover.
     res_bind (number_at (pe_payload e) ''session_start_equity'') (\<lambda>start.
     res_bind (number_at (pe_payload e) ''peak_equity'') (\<lambda>peak.
       Inr (note_risk_state session (truthy halt) turnover start peak rk))))))"

definition replay_mark :: "paper_event \<Rightarrow> risk_engine \<Rightarrow> risk_engine res" where
  "replay_mark e rk =
     res_bind (number_at (pe_payload e) ''equity'') (\<lambda>equity.
       Inr (case equity of
              None \<Rightarrow> rk
            | Some x \<Rightarrow>
                let day = take 10 (case pe_market_time e of None \<Rightarrow> [] | Some t \<Rightarrow> t)
                in (snd (observe_peak x rk))\<lparr>rk_last_close := Some (if day = [] then None else Some day, x)\<rparr>))"

definition replay_risk_event :: "(json \<Rightarrow> string) \<Rightarrow> paper_event \<Rightarrow> risk_engine \<Rightarrow> risk_engine res" where
  "replay_risk_event S e rk =
     (if pe_event_type e = RISK_STATE_UPDATED then replay_risk_state S e rk
      else if pe_event_type e = MARK_TO_MARKET then replay_mark e rk
      else Inr rk)"

fun replay_risk :: "(json \<Rightarrow> string) \<Rightarrow> paper_event list \<Rightarrow> risk_engine \<Rightarrow> risk_engine res" where
  "replay_risk S [] rk = Inr rk"
| "replay_risk S (e # es) rk = res_bind (replay_risk_event S e rk) (replay_risk S es)"

text \<open>A second binding to the same file does nothing.\<close>

definition bind_state_ledger :: "desk \<Rightarrow> string \<Rightarrow> risk_world \<Rightarrow> unit res \<times> risk_world" where
  "bind_state_ledger dk portfolio_id s =
     (let (rk, store) = s in
      if rk_bound rk then (Inr (), s)
      else
        let rk = rk\<lparr>rk_bound := True, rk_portfolio_id := portfolio_id\<rparr> in
        case res_bind (el_read (st_file store)) (\<lambda>events.
             res_bind (sw_restore (dk_str dk) events (rk_latched rk)) (\<lambda>latched.
               replay_risk (dk_str dk) events (rk\<lparr>rk_latched := latched\<rparr>))) of
          Inl e \<Rightarrow> (Inl e, rk, store)
        | Inr rk \<Rightarrow> (Inr (), rk, store))"

definition record_session_start :: "desk \<Rightarrow> string \<Rightarrow> rat \<Rightarrow> risk_world \<Rightarrow> unit res \<times> risk_world" where
  "record_session_start dk session equity s =
     (let (rk, store) = s in
      if map_of (rk_start_by rk) session \<noteq> None then (Inr (), s)
      else rk_journal dk RISK_STATE_UPDATED
             (JObj [(''session'', JStr session), (''session_start_equity'', JNum equity)])
             (rk\<lparr>rk_start_by := AList.update session equity (rk_start_by rk)\<rparr>, store))"

definition opening_of :: "risk_engine \<Rightarrow> string \<Rightarrow> rat option \<Rightarrow> rat option" where
  "opening_of rk session opening_equity =
     (case map_of (rk_start_by rk) session of
        Some x \<Rightarrow> Some x
      | None \<Rightarrow>
          (case opening_equity of
             Some x \<Rightarrow> Some x
           | None \<Rightarrow>
               (case rk_last_close rk of
                  Some (Some d, x) \<Rightarrow> if d < session then Some x else None
                | _ \<Rightarrow> None)))"

definition begin_session :: "desk \<Rightarrow> string \<Rightarrow> rat option \<Rightarrow> risk_world \<Rightarrow> unit res \<times> risk_world" where
  "begin_session dk session_text opening_equity s =
     (let (rk, store) = s; session = take 10 session_text in
      if rk_session rk = Some session then (Inr (), s)
      else
        let start = opening_of rk session opening_equity;
            rk = rk\<lparr>rk_session := Some session, rk_turnover := dict_get (rk_turnover_by rk) session 0,
                    rk_start_equity := start\<rparr>
        in case start of
             None \<Rightarrow> (Inr (), rk, store)
           | Some x \<Rightarrow> record_session_start dk session x (rk, store))"

text \<open>The tighter of the two caps; \<open>None\<close> is infinity.\<close>

definition daily_loss_limit_cny :: "risk_engine \<Rightarrow> rat option" where
  "daily_loss_limit_cny rk =
     (let fraction = (case (rk_start_equity rk, rl_max_daily_loss_fraction (rk_limits rk)) of
             (Some e, Some x) \<Rightarrow> [x * e] | _ \<Rightarrow> []);
          absolute = (case rl_max_daily_loss (rk_limits rk) of None \<Rightarrow> [] | Some x \<Rightarrow> [x])
      in case fraction @ absolute of [] \<Rightarrow> None | x # xs \<Rightarrow> Some (fold min xs x))"

section \<open>Pre-trade checks\<close>

record order_context =
  oc_reference_price :: rat
  oc_session_volume :: rat
  oc_prices :: marks
  oc_quote_age :: "rat option"
  oc_industry :: "string option"
  oc_industry_weights :: "(string, rat) dict option"
  oc_model_approved :: "bool option"
  oc_dataset_approved :: "bool option"

definition check :: "string \<Rightarrow> bool \<Rightarrow> json \<Rightarrow> json \<Rightarrow> risk_check" where
  "check name passed limit measured =
     \<lparr>rc_name = name, rc_passed = passed, rc_limit = limit, rc_measured = measured\<rparr>"

definition at_most :: "string \<Rightarrow> rat \<Rightarrow> rat \<Rightarrow> risk_check" where
  "at_most name measured limit = check name (measured \<le> limit) (JNum limit) (JNum measured)"

definition set_default :: "'k \<Rightarrow> 'v \<Rightarrow> ('k, 'v) dict \<Rightarrow> ('k, 'v) dict" where
  "set_default k v d = (if map_of d k = None then d @ [(k, v)] else d)"

definition order_marks :: "paper_order \<Rightarrow> order_context \<Rightarrow> marks" where
  "order_marks od oc = set_default (pa_symbol od) (oc_reference_price oc) (oc_prices oc)"

definition book_equity :: "portfolio \<Rightarrow> marks \<Rightarrow> rat option" where
  "book_equity pf prices = (case pt_equity pf prices of Inl e \<Rightarrow> None | Inr x \<Rightarrow> Some (max x (1 / 10 ^ 9)))"

definition order_notional :: "paper_order \<Rightarrow> rat \<Rightarrow> rat" where
  "order_notional od reference_price = pa_quantity od *
     (case pa_limit_price od of None \<Rightarrow> reference_price | Some l \<Rightarrow> if l = 0 then reference_price else l)"

definition switch_check :: "risk_engine \<Rightarrow> paper_order \<Rightarrow> risk_check" where
  "switch_check rk od =
     (let found = blocking (pa_side od = BUY) (pa_strategy_id od) (rk_latched rk) in
      check ''kill_switch'' (found = []) JNull
        (if found = [] then JNull else JList (map (\<lambda>r. JObj [(''scope'', JStr (sr_scope r)),
           (''key'', of_opt JStr (sr_key r)), (''reason'', JStr (sr_reason r))]) found)))"

definition industry_checks ::
    "risk_limits \<Rightarrow> rat \<Rightarrow> rat \<Rightarrow> string option \<Rightarrow> (string, rat) dict option \<Rightarrow> risk_check list" where
  "industry_checks limits notional equity industry weights =
     (let limit = rl_max_industry_weight limits in
      if 1 \<le> limit then []
      else case (industry, weights) of
        (Some i, Some ws) \<Rightarrow>
          (if i = [] then [check ''industry_unmeasured'' False (JNum limit) JNull]
           else [at_most ''industry_weight'' (dict_get ws i 0 + notional / equity) limit])
      | _ \<Rightarrow> [check ''industry_unmeasured'' False (JNum limit) JNull])"

definition order_checks ::
    "risk_engine \<Rightarrow> paper_order \<Rightarrow> portfolio \<Rightarrow> order_context \<Rightarrow> risk_check list" where
  "order_checks rk od pf oc =
     (let limits = rk_limits rk;
          prices = order_marks od oc;
          missing = pt_unpriceable pf prices;
          equity = (if missing \<noteq> [] then None else book_equity pf prices);
          reference_price = oc_reference_price oc;
          notional = order_notional od reference_price;
          volume = oc_session_volume oc;
          buying = (pa_side od = BUY)
      in [switch_check rk od]
       @ (if buying then
            let halted = (rk_halted rk \<noteq> None \<and> rk_halted rk = rk_session rk)
            in [check ''daily_loss_halt'' (\<not> halted) JNull (if halted then of_opt JStr (rk_halted rk) else JNull)]
          else [])
       @ [check ''duplicate_order'' (pa_order_id od \<notin> set (rk_seen rk)) JNull (JStr (pa_order_id od))]
       @ (case oc_model_approved oc of None \<Rightarrow> [] | Some b \<Rightarrow> [check ''model_approved'' b JNull JNull])
       @ (case oc_dataset_approved oc of None \<Rightarrow> [] | Some b \<Rightarrow> [check ''dataset_approved'' b JNull JNull])
       @ (case oc_quote_age oc of None \<Rightarrow> []
          | Some a \<Rightarrow> [at_most ''stale_data'' a (of_int (rl_max_quote_age_seconds limits))])
       @ [at_most ''order_notional'' notional (rl_max_order_notional limits)]
       @ [at_most ''order_shares'' (pa_quantity od) (rl_max_order_shares limits)]
       @ (case pa_limit_price od of None \<Rightarrow> []
          | Some l \<Rightarrow>
              if 0 < reference_price
              then [at_most ''fat_finger'' (\<bar>l - reference_price\<bar> / reference_price) (rl_max_price_deviation limits)]
              else [])
       @ (if volume < 0 then [check ''participation'' False (JNum (rl_max_participation limits)) (JNum volume)]
          else if 0 < volume then [at_most ''participation'' (pa_quantity od / volume) (rl_max_participation limits)]
          else [])
       @ [check ''book_priceable'' (missing = []) JNull (JList (map JStr missing))]
       @ (if buying then
            [check ''cash_available'' (rl_min_cash_buffer limits \<le> pt_cash pf - notional)
               (JNum (rl_min_cash_buffer limits)) (JNum (pt_cash pf - notional))]
            @ (case equity of None \<Rightarrow> []
               | Some e \<Rightarrow>
                   at_most ''single_name_weight''
                     ((pp_market_value reference_price (pt_get pf (pa_symbol od)) + notional) / e)
                     (rl_max_single_name_weight limits)
                   # industry_checks limits notional e (oc_industry oc) (oc_industry_weights oc))
          else
            [check ''position_available'' (pa_quantity od \<le> pt_sellable pf (pa_symbol od) + 1 / 10 ^ 9)
               (JNum (pt_sellable pf (pa_symbol od))) (JNum (pa_quantity od))])
       @ (case equity of None \<Rightarrow> []
          | Some e \<Rightarrow> [at_most ''daily_turnover'' ((rk_turnover rk + notional) / e) (rl_max_daily_turnover limits)]))"

text \<open>An approval counts the order and its turnover before it is journalled.\<close>

definition check_order ::
    "desk \<Rightarrow> paper_order \<Rightarrow> portfolio \<Rightarrow> order_context \<Rightarrow> risk_world \<Rightarrow> risk_verdict res \<times> risk_world" where
  "check_order dk od pf oc s =
     (let (rk, store) = s; verdict = decide (order_checks rk od pf oc) in
      if \<not> rv_approved verdict then (Inr verdict, s)
      else
        let turnover = rk_turnover rk + order_notional od (oc_reference_price oc);
            rk = rk\<lparr>rk_seen := List.insert (pa_order_id od) (rk_seen rk), rk_turnover := turnover\<rparr>
        in case rk_session rk of
             None \<Rightarrow> (Inr verdict, rk, store)
           | Some d \<Rightarrow>
               and_then (rk_journal dk RISK_STATE_UPDATED
                   (JObj [(''session'', JStr d), (''session_turnover'', JNum turnover)])
                   (rk\<lparr>rk_turnover_by := AList.update d turnover (rk_turnover_by rk)\<rparr>, store))
                 (\<lambda>_ s. (Inr verdict, s)))"

section \<open>Portfolio checks\<close>

definition held :: "portfolio \<Rightarrow> marks \<Rightarrow> (string \<times> paper_position) list" where
  "held pf prices = filter (\<lambda>(symbol, p). \<not> is_flat p \<and> map_of prices symbol \<noteq> None) (pt_positions pf)"

definition held_value :: "marks \<Rightarrow> string \<times> paper_position \<Rightarrow> rat" where
  "held_value prices sp = \<bar>pp_market_value (dict_get prices (fst sp) 0) (snd sp)\<bar>"

definition industry_totals :: "(string, string) dict \<Rightarrow> marks \<Rightarrow> (string \<times> paper_position) list \<Rightarrow> (string, rat) dict" where
  "industry_totals industry_map prices ps =
     foldl (\<lambda>totals sp. let i = dict_get industry_map (fst sp) ''UNKNOWN''
                        in AList.update i (dict_get totals i 0 + held_value prices sp) totals) [] ps"

definition portfolio_checks ::
    "risk_engine \<Rightarrow> portfolio \<Rightarrow> marks \<Rightarrow> (string, string) dict \<Rightarrow> rat \<Rightarrow> rat \<Rightarrow> risk_check list" where
  "portfolio_checks rk pf prices industry_map equity gross =
     (let limits = rk_limits rk;
          start = (case rk_start_equity rk of None \<Rightarrow> equity | Some x \<Rightarrow> x);
          daily_loss = start - equity;
          drawdown = (case rk_peak rk of None \<Rightarrow> 0 | Some p \<Rightarrow> if p = 0 then 0 else (p - equity) / p)
      in [at_most ''gross_exposure'' (gross / equity) (rl_max_gross_exposure limits)]
       @ map (\<lambda>sp. at_most (''concentration:'' @ fst sp) (held_value prices sp / equity)
              (rl_max_single_name_weight limits)) (held pf prices)
       @ map (\<lambda>(i, value). at_most (''industry:'' @ i) (value / equity) (rl_max_industry_weight limits))
           (if industry_map = [] then [] else industry_totals industry_map prices (held pf prices))
       @ [case daily_loss_limit_cny rk of
            None \<Rightarrow> check ''daily_loss'' True JNull (JNum daily_loss)
          | Some l \<Rightarrow> at_most ''daily_loss'' daily_loss l]
       @ [at_most ''drawdown'' drawdown (rl_max_drawdown limits)])"

definition number_of :: "json \<Rightarrow> rat" where
  "number_of v = (case v of JNum x \<Rightarrow> x | _ \<Rightarrow> 0)"

text \<open>What a failed check does: a daily loss halts the buys of its session, a drawdown latches the portfolio.\<close>

definition react ::
    "desk \<Rightarrow> string \<Rightarrow> risk_check \<Rightarrow> risk_world \<Rightarrow> unit res \<times> risk_world" where
  "react dk now c s =
     (let (rk, store) = s in
      if rc_passed c then (Inr (), s)
      else if rc_name c = ''daily_loss'' then
        (if rk_halted rk = rk_session rk then (Inr (), s)
         else rk_journal dk RISK_STATE_UPDATED
                (JObj [(''session'', of_opt JStr (rk_session rk)), (''daily_loss_halt'', JBool True),
                       (''daily_loss'', rc_measured c), (''daily_loss_limit'', rc_limit c)])
                (rk\<lparr>rk_halted := rk_session rk\<rparr>, store))
      else if rc_name c = ''drawdown'' then
        (case sw_trigger dk (rk_writer rk) now SCOPE_PORTFOLIO
                (dk_drawdown_text dk (number_of (rc_measured c)) (number_of (rc_limit c))) None (rk_latched rk, store) of
           (r, latched, store) \<Rightarrow> (res_bind r (\<lambda>_. Inr ()), rk\<lparr>rk_latched := latched\<rparr>, store))
      else (Inr (), s))"

fun react_all :: "desk \<Rightarrow> string \<Rightarrow> risk_check list \<Rightarrow> risk_world \<Rightarrow> unit res \<times> risk_world" where
  "react_all dk now [] s = (Inr (), s)"
| "react_all dk now (c # cs) s = and_then (react dk now c s) (\<lambda>_. react_all dk now cs)"

definition set_decision :: "risk_verdict \<Rightarrow> risk_world \<Rightarrow> risk_verdict res \<times> risk_world" where
  "set_decision verdict s = (Inr verdict, (fst s)\<lparr>rk_last_decision := Some verdict\<rparr>, snd s)"

definition note_start :: "desk \<Rightarrow> rat \<Rightarrow> risk_world \<Rightarrow> unit res \<times> risk_world" where
  "note_start dk equity s =
     (case rk_start_equity (fst s) of
        Some x \<Rightarrow> (Inr (), s)
      | None \<Rightarrow>
          let rk = (fst s)\<lparr>rk_start_equity := Some equity\<rparr> in
          (case rk_session rk of
             None \<Rightarrow> (Inr (), rk, snd s)
           | Some d \<Rightarrow> record_session_start dk d equity (rk, snd s)))"

definition note_peak :: "desk \<Rightarrow> rat \<Rightarrow> risk_world \<Rightarrow> unit res \<times> risk_world" where
  "note_peak dk equity s =
     (case observe_peak equity (fst s) of
        (False, rk) \<Rightarrow> (Inr (), rk, snd s)
      | (True, rk) \<Rightarrow>
          rk_journal dk RISK_STATE_UPDATED
            (JObj [(''session'', of_opt JStr (rk_session rk)), (''peak_equity'', JNum equity)]) (rk, snd s))"

definition check_portfolio ::
    "desk \<Rightarrow> string \<Rightarrow> portfolio \<Rightarrow> marks \<Rightarrow> (string, string) dict \<Rightarrow> risk_world \<Rightarrow> risk_verdict res \<times> risk_world" where
  "check_portfolio dk now pf prices industry_map s =
     (let missing = pt_unpriceable pf prices in
      if missing \<noteq> [] then
        set_decision (decide [check ''book_priceable'' False JNull (JList (map JStr missing))]) s
      else
        pure_then (res_bind (pt_equity pf prices) (\<lambda>e. res_bind (pt_gross_exposure pf prices) (\<lambda>g.
            Inr (max e (1 / 10 ^ 9), g)))) (\<lambda>(equity, gross).
          and_then (note_start dk equity s) (\<lambda>_ s.
          and_then (note_peak dk equity s) (\<lambda>_ s.
          let checks = portfolio_checks (fst s) pf prices industry_map equity gross in
          and_then (react_all dk now checks s) (\<lambda>_ s.
            set_decision (decide checks) s)))) s)"

section \<open>Operational checks\<close>

record operational_context =
  op_heartbeat_age :: rat
  op_max_heartbeat_age :: rat
  op_ledger_valid :: bool
  op_reconciliation_passed :: bool
  op_disk_free_bytes :: "int option"
  op_min_disk_free_bytes :: int
  op_clock_drift :: rat
  op_max_clock_drift :: rat
  op_schema_matches :: bool
  op_consecutive_rejections :: int
  op_max_consecutive_rejections :: int

definition negative_positions :: "portfolio \<Rightarrow> string list" where
  "negative_positions pf = map fst (filter (\<lambda>(symbol, p). pp_total p < - (1 / 10 ^ 9)) (pt_positions pf))"

definition operational_checks :: "portfolio \<Rightarrow> operational_context \<Rightarrow> risk_check list" where
  "operational_checks pf oc =
     [at_most ''heartbeat'' (op_heartbeat_age oc) (op_max_heartbeat_age oc),
      check ''ledger_chain'' (op_ledger_valid oc) JNull JNull,
      check ''reconciliation'' (op_reconciliation_passed oc) JNull JNull,
      at_most ''clock_drift'' \<bar>op_clock_drift oc\<bar> (op_max_clock_drift oc),
      check ''schema'' (op_schema_matches oc) JNull JNull,
      check ''repeated_rejections'' (op_consecutive_rejections oc < op_max_consecutive_rejections oc)
        (JInt (op_max_consecutive_rejections oc)) (JInt (op_consecutive_rejections oc))]
     @ (case op_disk_free_bytes oc of None \<Rightarrow> []
        | Some b \<Rightarrow> [check ''disk_space'' (op_min_disk_free_bytes oc \<le> b) (JInt (op_min_disk_free_bytes oc)) (JInt b)])
     @ [check ''no_negative_positions'' (negative_positions pf = []) JNull
          (JList (map JStr (negative_positions pf)))]"

fun latch_failures :: "desk \<Rightarrow> string \<Rightarrow> risk_check list \<Rightarrow> risk_world \<Rightarrow> unit res \<times> risk_world" where
  "latch_failures dk now [] s = (Inr (), s)"
| "latch_failures dk now (c # cs) s =
     (if \<not> rc_passed c \<and> (rc_name c = ''ledger_chain'' \<or> rc_name c = ''reconciliation'') then
        (case sw_trigger dk (rk_writer (fst s)) now SCOPE_GLOBAL (''operational failure: '' @ rc_name c) None
                (rk_latched (fst s), snd s) of
           (Inl e, latched, store) \<Rightarrow> (Inl e, (fst s)\<lparr>rk_latched := latched\<rparr>, store)
         | (Inr r, latched, store) \<Rightarrow> latch_failures dk now cs ((fst s)\<lparr>rk_latched := latched\<rparr>, store))
      else latch_failures dk now cs s)"

definition check_operational ::
    "desk \<Rightarrow> string \<Rightarrow> portfolio \<Rightarrow> operational_context \<Rightarrow> risk_world \<Rightarrow> risk_verdict res \<times> risk_world" where
  "check_operational dk now pf oc s =
     (let checks = operational_checks pf oc in
      and_then (latch_failures dk now checks s) (\<lambda>_ s. (Inr (decide checks), s)))"

end
