(* ===== verification/Paper_Switch_Props.thy ===== *)
theory Paper_Switch_Props
  imports Paper_Switch
begin

text \<open>
  What the desk's kill switch promises: a restart restores what was latched, but for the switches whose own
  durable write failed; and what the event ledger of one writer promises.
\<close>

section \<open>The event ledger of one writer\<close>

definition ledger_run ::
    "event_digest \<Rightarrow> event_ledger \<times> event_file \<Rightarrow> (write_outcome \<times> append_request) list \<Rightarrow> event_ledger \<times> event_file" where
  "ledger_run D = foldl (\<lambda>s (w, q). snd (el_append D w q s))"

lemma in_step_run:
  "in_step D s \<Longrightarrow> \<forall>(w, q)\<in>set ws. w = W_ok \<or> w = W_lost \<Longrightarrow> in_step D (ledger_run D s ws)"
  unfolding ledger_run_def
  by (induction ws arbitrary: s) (auto simp: in_step_append split: prod.splits)

text \<open>
  With writes that land or leave nothing the file verifies, and a restart resumes where the instance stands.
\<close>

lemma paper_ledger_verifies:
  assumes "\<forall>(w, q)\<in>set ws. w = W_ok \<or> w = W_lost"
  shows "\<exists>n. verify_file D (snd (ledger_run D (el_resume [], empty_event_file) ws))
       = Inr (Chain_valid n (el_head (fst (ledger_run D (el_resume [], empty_event_file) ws))))
     \<and> EventLedger_open (snd (ledger_run D (el_resume [], empty_event_file) ws))
       = Inr (fst (ledger_run D (el_resume [], empty_event_file) ws))"
proof -
  let ?s = "ledger_run D (el_resume [], empty_event_file) ws"
  have "in_step D ?s" by (rule in_step_run [OF in_step_new assms])
  then obtain es where "snd ?s = \<lparr>ef_lines = map Some es, ef_unfinished = False\<rparr>" "fst ?s = el_resume es"
    "event_chain D PAPER_GENESIS 0 es (el_head (fst ?s))"
    unfolding in_step_def by blast
  then show ?thesis
    by (auto simp: verify_file_def verify_lines_valid EventLedger_open_def el_read_def simp del: resume_snoc)
qed

text \<open>
  A write that lands although it raises (the final sync fails) is not counted by the instance: the next
  event repeats its sequence and the chain no longer verifies.
\<close>

lemma landed_write_breaks_chain:
  "verify_file D (snd (ledger_run D (el_resume [], empty_event_file) [(W_landed, q), (W_ok, q')])) = Inr (Broken 1)"
proof -
  have "pe_event_hash (new_event D r \<lparr>el_sequence = 0, el_head = PAPER_GENESIS\<rparr>)
      = compute_hash D (new_event D r \<lparr>el_sequence = 0, el_head = PAPER_GENESIS\<rparr>)" for r by simp
  then show ?thesis
    by (simp add: ledger_run_def el_append_def put_line_def empty_event_file_def verify_file_def Let_def)
qed

section \<open>The switch across a restart\<close>

definition norm_record :: "switch_record \<Rightarrow> switch_record" where
  "norm_record r = r\<lparr>sr_reason := (if sr_reason r = [] then ''unknown'' else sr_reason r)\<rparr>"

fun call_ids :: "latch_call \<Rightarrow> string list" where
  "call_ids (Trigger now scope reason key) = [switch_id scope key]"
| "call_ids (Clear now scope key human author reason) = [switch_id scope key]"
| "call_ids (Other t payload symbol market_time) = []"

definition next_outcome :: "desk \<Rightarrow> event_store \<Rightarrow> write_outcome" where
  "next_outcome dk store = fst (dk_env dk (st_calls store))"

text \<open>The switches that a call touches while the next durable write would fail.\<close>

definition failed_ids :: "desk \<Rightarrow> latches \<times> event_store \<Rightarrow> latch_call \<Rightarrow> string list" where
  "failed_ids dk s c = (if next_outcome dk (snd s) = W_ok then [] else call_ids c)"

fun latch_run ::
    "desk \<Rightarrow> writer \<Rightarrow> latches \<times> event_store \<Rightarrow> latch_call list \<Rightarrow> string list \<times> latches \<times> event_store" where
  "latch_run dk who s [] = ([], s)"
| "latch_run dk who s (c # cs) =
     (case latch_run dk who (switch_do dk who s c) cs of (ids, s') \<Rightarrow> (failed_ids dk s c @ ids, s'))"

text \<open>Clocks read a time; what else is appended is no switch event and carries an object.\<close>

fun latch_call_ok :: "latch_call \<Rightarrow> bool" where
  "latch_call_ok (Trigger now scope reason key) \<longleftrightarrow> now \<noteq> []"
| "latch_call_ok (Clear now scope key human author reason) \<longleftrightarrow> scope \<noteq> []"
| "latch_call_ok (Other t payload symbol market_time) \<longleftrightarrow>
     t \<noteq> KILL_SWITCH_TRIGGERED \<and> t \<noteq> KILL_SWITCH_CLEARED \<and> (\<exists>d. payload = JObj d)"

definition remembers :: "(json \<Rightarrow> string) \<Rightarrow> string set \<Rightarrow> latches \<times> event_store \<Rightarrow> bool" where
  "remembers S failed s \<longleftrightarrow>
     (ef_unfinished (st_file (snd s)) \<longrightarrow> None \<in> set (ef_lines (st_file (snd s)))) \<and>
     (\<forall>es. ef_lines (st_file (snd s)) = map Some es \<longrightarrow>
        (\<exists>restored. sw_restore S es [] = Inr restored \<and>
           (\<forall>i. i \<notin> failed \<longrightarrow> map_of restored i = map_option norm_record (map_of (fst s) i))))"

lemma sw_restore_snoc:
  "sw_restore S (es @ [e]) l = res_bind (sw_restore S es l) (restore_event S e)"
  by (induction es arbitrary: l) (auto simp: res_bind_def split: sum.splits)

lemma remembers_mono: "remembers S failed s \<Longrightarrow> failed \<subseteq> failed' \<Longrightarrow> remembers S failed' s"
  unfolding remembers_def by (meson subsetD)

text \<open>What an append does to the lines of the file.\<close>

lemma store_append_lines:
  assumes "store_append dk who t payload symbol mt s = (r, s')"
    "ef_unfinished (st_file s) \<longrightarrow> None \<in> set (ef_lines (st_file s))"
  obtains (torn) "None \<in> set (ef_lines (st_file s'))"
    | (lost) "next_outcome dk s = W_lost" "st_file s' = st_file s"
    | (put) e where "ef_lines (st_file s') = ef_lines (st_file s) @ [Some e]" "\<not> ef_unfinished (st_file s')"
        "pe_event_type e = t" "pe_payload e = payload" "next_outcome dk s = W_ok \<or> next_outcome dk s = W_landed"
proof -
  obtain w uid now where env: "dk_env dk (st_calls s) = (w, uid, now)" by (cases "dk_env dk (st_calls s)")
  show thesis
  proof (cases "ef_unfinished (st_file s)")
    case True
    with assms env show thesis
      by (intro torn) (cases w; auto simp: store_append_def el_append_def put_line_def put_part_def Let_def)
  next
    case False
    show thesis
    proof (cases w)
      case W_torn
      with False assms env show thesis
        by (intro torn) (auto simp: store_append_def el_append_def put_part_def Let_def)
    next
      case W_lost
      with False assms env show thesis
        by (intro lost) (auto simp: store_append_def el_append_def next_outcome_def Let_def)
    qed (use False assms env put in
        \<open>force simp: store_append_def el_append_def put_line_def next_outcome_def Let_def\<close>)+
  qed
qed

lemma torn_remembers: "None \<in> set (ef_lines (st_file store)) \<Longrightarrow> remembers S failed (latched, store)"
  by (auto simp: remembers_def)

text \<open>An append whose event changes the restored set as the call changed the latched one.\<close>

lemma remembers_append:
  assumes "remembers S failed (latched, store)" "store_append dk who t payload symbol mt store = (r, store')"
    and put: "\<And>e restored. pe_event_type e = t \<Longrightarrow> pe_payload e = payload \<Longrightarrow>
      \<forall>i. i \<notin> failed \<longrightarrow> map_of restored i = map_option norm_record (map_of latched i) \<Longrightarrow>
      \<exists>restored'. restore_event S e restored = Inr restored' \<and>
        (\<forall>i. i \<notin> failed' \<longrightarrow> map_of restored' i = map_option norm_record (map_of latched' i))"
    and lost: "next_outcome dk store = W_lost \<Longrightarrow> \<forall>i. i \<notin> failed' \<longrightarrow> i \<notin> failed \<and> map_of latched' i = map_of latched i"
  shows "remembers S failed' (latched', store')"
proof -
  have un: "ef_unfinished (st_file store) \<longrightarrow> None \<in> set (ef_lines (st_file store))"
    using assms(1) by (simp add: remembers_def)
  from assms(2) un show ?thesis
  proof (cases rule: store_append_lines)
    case torn
    then show ?thesis by (rule torn_remembers)
  next
    case lost': lost
    with assms(1) lost show ?thesis by (fastforce simp: remembers_def)
  next
    case (put e)
    show ?thesis unfolding remembers_def
    proof (intro conjI allI impI)
      fix es assume "ef_lines (st_file (snd (latched', store'))) = map Some es"
      with put(1) obtain es0 where es: "ef_lines (st_file store) = map Some es0" "es = es0 @ [e]"
        by (auto simp: append_eq_map_conv map_eq_append_conv)
      with assms(1) obtain restored where "sw_restore S es0 [] = Inr restored"
        "\<forall>i. i \<notin> failed \<longrightarrow> map_of restored i = map_option norm_record (map_of latched i)"
        by (auto simp: remembers_def)
      with assms(3) [OF put(3,4) this(2)] es(2) show "\<exists>restored. sw_restore S es [] = Inr restored \<and>
          (\<forall>i. i \<notin> failed' \<longrightarrow> map_of restored i = map_option norm_record (map_of (fst (latched', store')) i))"
        by (auto simp: sw_restore_snoc)
    qed (use put in simp)
  qed
qed

lemma scope_nonempty: "scope \<in> set SCOPES \<Longrightarrow> scope \<noteq> []"
  by (auto simp: scope_defs)

lemma decoded_text [simp]:
  "key_of S (of_opt JStr key) = key"
  "or_default S (JStr t) d = (if t = [] then d else t)"
  by (cases key; simp add: key_of_def py_str_def) (simp add: or_default_def py_str_def)

lemma restore_switch_event:
  assumes "pe_payload e = JObj d" "map_of d ''scope'' = Some (JStr scope)" "map_of d ''key'' = Some (of_opt JStr key)"
    "scope \<noteq> []"
  shows "pe_event_type e = KILL_SWITCH_TRIGGERED \<Longrightarrow> map_of d ''reason'' = Some (JStr reason) \<Longrightarrow>
      map_of d ''triggered_at'' = Some (JStr now) \<Longrightarrow> now \<noteq> [] \<Longrightarrow>
      restore_event S e restored = Inr (if map_of restored (switch_id scope key) = None
        then AList.update (switch_id scope key)
          (norm_record \<lparr>sr_scope = scope, sr_key = key, sr_reason = reason, sr_triggered_at = now\<rparr>) restored
        else restored)"
    "pe_event_type e = KILL_SWITCH_CLEARED \<Longrightarrow>
      restore_event S e restored = Inr (AList.delete (switch_id scope key) restored)"
  using assms by (simp_all add: restore_event_def norm_record_def Let_def)

lemma remembers_trigger:
  assumes "remembers (dk_str dk) failed (latched, store)" "now \<noteq> []"
  shows "remembers (dk_str dk) (failed \<union> set (failed_ids dk (latched, store) (Trigger now scope reason key)))
    (snd (sw_trigger dk (Some who) now scope reason key (latched, store)))"
    (is "remembers _ ?failed' _")
proof (cases "scope \<in> set SCOPES \<and> map_of latched (switch_id scope key) = None")
  case False
  then have "snd (sw_trigger dk (Some who) now scope reason key (latched, store)) = (latched, store)"
    by (auto simp: sw_trigger_def split: option.splits)
  with assms(1) show ?thesis by (auto intro: remembers_mono)
next
  case True
  let ?r = "\<lparr>sr_scope = scope, sr_key = key, sr_reason = reason, sr_triggered_at = now\<rparr>"
  let ?i = "switch_id scope key"
  obtain x store' where a: "store_append dk who KILL_SWITCH_TRIGGERED (switch_payload ?r) None None store = (x, store')"
    by (cases "store_append dk who KILL_SWITCH_TRIGGERED (switch_payload ?r) None None store")
  have result: "snd (sw_trigger dk (Some who) now scope reason key (latched, store)) = (AList.update ?i ?r latched, store')"
    using True a by (simp add: sw_trigger_def Let_def)
  have put: "\<exists>restored'. restore_event (dk_str dk) e restored = Inr restored' \<and>
      (\<forall>i. i \<notin> ?failed' \<longrightarrow> map_of restored' i = map_option norm_record (map_of (AList.update ?i ?r latched) i))"
    if e: "pe_event_type e = KILL_SWITCH_TRIGGERED" "pe_payload e = switch_payload ?r"
      and eq: "\<forall>i. i \<notin> failed \<longrightarrow> map_of restored i = map_option norm_record (map_of latched i)" for e restored
  proof -
    have "restore_event (dk_str dk) e restored = Inr (if map_of restored ?i = None
        then AList.update ?i (norm_record ?r) restored else restored)"
      by (rule restore_switch_event(1) [OF e(2) [unfolded switch_payload_def]])
        (use True e(1) assms(2) scope_nonempty in auto)
    then show ?thesis using eq True by auto
  qed
  show ?thesis unfolding result
    by (rule remembers_append [OF assms(1) a put]) (auto simp: failed_ids_def)
qed

lemma remembers_clear:
  assumes "remembers (dk_str dk) failed (latched, store)" "scope \<noteq> []"
  shows "remembers (dk_str dk) (failed \<union> set (failed_ids dk (latched, store) (Clear now scope key human author reason)))
    (snd (sw_clear dk (Some who) now scope key human author reason (latched, store)))"
    (is "remembers _ ?failed' _")
proof (cases "human \<and> map_of latched (switch_id scope key) \<noteq> None")
  case False
  then have "snd (sw_clear dk (Some who) now scope key human author reason (latched, store)) = (latched, store)"
    by (auto simp: sw_clear_def Let_def delete_absent)
  with assms(1) show ?thesis by (auto intro: remembers_mono)
next
  case True
  let ?i = "switch_id scope key"
  obtain x store' where a: "store_append dk who KILL_SWITCH_CLEARED (clear_payload scope key author reason now) None None store
      = (x, store')"
    by (cases "store_append dk who KILL_SWITCH_CLEARED (clear_payload scope key author reason now) None None store")
  have result: "snd (sw_clear dk (Some who) now scope key human author reason (latched, store))
      = (AList.delete ?i latched, store')"
    using True a by (simp add: sw_clear_def Let_def)
  have put: "\<exists>restored'. restore_event (dk_str dk) e restored = Inr restored' \<and>
      (\<forall>i. i \<notin> ?failed' \<longrightarrow> map_of restored' i = map_option norm_record (map_of (AList.delete ?i latched) i))"
    if e: "pe_event_type e = KILL_SWITCH_CLEARED" "pe_payload e = clear_payload scope key author reason now"
      and eq: "\<forall>i. i \<notin> failed \<longrightarrow> map_of restored i = map_option norm_record (map_of latched i)" for e restored
  proof -
    have "restore_event (dk_str dk) e restored = Inr (AList.delete ?i restored)"
      by (rule restore_switch_event(2) [OF e(2) [unfolded clear_payload_def]]) (use e(1) assms(2) in auto)
    then show ?thesis using eq by auto
  qed
  show ?thesis unfolding result
    by (rule remembers_append [OF assms(1) a put]) (auto simp: failed_ids_def)
qed

lemma remembers_other:
  assumes "remembers (dk_str dk) failed (latched, store)" "latch_call_ok (Other t payload symbol mt)"
  shows "remembers (dk_str dk) failed (latched, snd (store_append dk who t payload symbol mt store))"
proof -
  obtain x store' where a: "store_append dk who t payload symbol mt store = (x, store')"
    by (cases "store_append dk who t payload symbol mt store")
  show ?thesis unfolding a snd_conv
    by (rule remembers_append [OF assms(1) a]) (use assms(2) in \<open>auto simp: restore_event_def\<close>)
qed

lemma remembers_do:
  assumes "remembers (dk_str dk) failed s" "latch_call_ok c"
  shows "remembers (dk_str dk) (failed \<union> set (failed_ids dk s c)) (switch_do dk who s c)"
proof -
  obtain latched store where s: "s = (latched, store)" by (cases s)
  show ?thesis
  proof (cases c)
    case (Trigger now scope reason key)
    with assms s show ?thesis by (simp only: s Trigger switch_do.simps) (rule remembers_trigger; simp)
  next
    case (Clear now scope key human author reason)
    with assms s show ?thesis by (simp only: s Clear switch_do.simps) (rule remembers_clear; simp)
  next
    case (Other t payload symbol mt)
    have ids: "failed_ids dk s (Other t payload symbol mt) = []" by (simp add: failed_ids_def)
    show ?thesis unfolding Other ids using remembers_other assms s Other by simp
  qed
qed

lemma remembers_run:
  assumes "remembers (dk_str dk) failed s" "list_all latch_call_ok cs"
  shows "remembers (dk_str dk) (failed \<union> set (fst (latch_run dk who s cs))) (snd (latch_run dk who s cs))"
  using assms
proof (induction cs arbitrary: failed s)
  case Nil
  then show ?case by simp
next
  case (Cons c cs)
  obtain ids s' where run: "latch_run dk who (switch_do dk who s c) cs = (ids, s')"
    by (cases "latch_run dk who (switch_do dk who s c) cs")
  from Cons.IH [OF remembers_do [OF Cons.prems(1)], of c who] Cons.prems(2)
  have "remembers (dk_str dk) (failed \<union> set (failed_ids dk s c) \<union> set ids) s'" by (simp add: run)
  then show ?case by (simp add: run Un_assoc)
qed

text \<open>The switch before its first call, on a file that holds no event.\<close>

definition fresh_switch :: "latches \<times> event_store" where
  "fresh_switch = ([], \<lparr>st_ledger = el_resume [], st_file = empty_event_file, st_calls = 0\<rparr>)"

lemma remembers_fresh: "remembers S {} fresh_switch"
  by (auto simp: remembers_def fresh_switch_def empty_event_file_def)

section \<open>The promise\<close>

text \<open>C29. A restart is no way around the desk's kill switch.  After any triggers, human clears and other
  events, with durable writes that may succeed, be lost, tear or land and raise, reading the ledger again
  either raises, which refuses to start, or restores exactly the latched switches, each with its scope, key,
  reason and time: but for the switches whose own write did not succeed, for which the call had raised.\<close>

theorem switch_survives_restart:
  assumes "list_all latch_call_ok cs"
    and "latch_run dk who fresh_switch cs = (failed, latched, store)"
    and "el_read (st_file store) = Inr events"
  shows "\<exists>restored. sw_restore (dk_str dk) events [] = Inr restored \<and>
    (\<forall>scope key. switch_id scope key \<notin> set failed \<longrightarrow>
       map_of restored (switch_id scope key) = map_option norm_record (map_of latched (switch_id scope key)))"
proof -
  have "remembers (dk_str dk) (set failed) (latched, store)"
    using remembers_run [OF remembers_fresh assms(1), of dk who] assms(2) by simp
  moreover have "ef_lines (st_file store) = map Some events"
    using assms(3) by (auto simp: el_read_def dest: read_lines_Inr)
  ultimately show ?thesis by (auto simp: remembers_def)
qed

definition demo_desk :: desk where
  "demo_desk = \<lparr>dk_digest = \<lambda>p e. ''#'' @ p, dk_env = (\<lambda>n. (if n = 1 then W_lost else W_ok, ''id'', ''2024-01-02'')),
     dk_str = \<lambda>v. ''?'', dk_drawdown_text = \<lambda>a b. ''drawdown''\<rparr>"

definition demo_calls :: "latch_call list" where
  "demo_calls = [Trigger ''t0'' SCOPE_GLOBAL ''stop'' None, Trigger ''t1'' SCOPE_PORTFOLIO ''loss'' None]"

lemma switch_survives_restart_witness:
  "case latch_run demo_desk (''r'', ''p'') fresh_switch demo_calls of (failed, latched, store) \<Rightarrow>
     failed = [switch_id SCOPE_PORTFOLIO None] \<and>
     (case el_read (st_file store) of Inr events \<Rightarrow>
       \<exists>restored. sw_restore (dk_str demo_desk) events [] = Inr restored \<and>
         map_of restored (switch_id SCOPE_GLOBAL None) \<noteq> None)"
proof -
  obtain failed latched store where run: "latch_run demo_desk (''r'', ''p'') fresh_switch demo_calls = (failed, latched, store)"
    by (cases "latch_run demo_desk (''r'', ''p'') fresh_switch demo_calls")
  have facts: "failed = [switch_id SCOPE_PORTFOLIO None] \<and> map_of latched (switch_id SCOPE_GLOBAL None) \<noteq> None \<and>
      (\<exists>events. el_read (st_file store) = Inr events)"
    using run by (auto simp: demo_calls_def demo_desk_def fresh_switch_def sw_trigger_def scope_defs switch_id_def
      failed_ids_def next_outcome_def store_append_def el_append_def put_line_def empty_event_file_def el_read_def Let_def)
  have ok: "list_all latch_call_ok demo_calls" by (simp add: demo_calls_def)
  from facts obtain events where events: "el_read (st_file store) = Inr events" by blast
  have "switch_id SCOPE_GLOBAL None \<notin> set failed" using facts by (simp add: scope_defs switch_id_def)
  with switch_survives_restart [OF ok run events] facts events run show ?thesis by auto
qed

end
