(* ===== verification/Paper_Risk_Props.thy ===== *)
theory Paper_Risk_Props
  imports Paper_Risk Paper_Switch_Props
begin

text \<open>
  What the risk engine promises: an approved order keeps every limit, a breached drawdown stops the buys until a
  human clears it, and a restart restores the durable state.
\<close>

section \<open>Approvals\<close>

lemma decide_approved [simp]: "rv_approved (decide cs) \<longleftrightarrow> list_all rc_passed cs"
  by (simp add: decide_def)

lemma check_passed [simp]: "rc_passed (check n b l m) = b" "rc_passed (at_most n x y) \<longleftrightarrow> x \<le> y"
  by (simp_all add: check_def at_most_def)

lemma rk_journal_engine: "rk_journal dk t p (rk, store) = (r, rk', store') \<Longrightarrow> rk' = rk"
  by (auto simp: rk_journal_def split: option.splits prod.splits)

lemma check_order_approved:
  assumes "check_order dk od pf oc (rk, store) = (Inr verdict, rk', store')" "rv_approved verdict"
  shows "list_all rc_passed (order_checks rk od pf oc)"
    "rk' = rk\<lparr>rk_seen := List.insert (pa_order_id od) (rk_seen rk),
       rk_turnover := rk_turnover rk + order_notional od (oc_reference_price oc),
       rk_turnover_by := (case rk_session rk of None \<Rightarrow> rk_turnover_by rk
         | Some d \<Rightarrow> AList.update d (rk_turnover rk + order_notional od (oc_reference_price oc)) (rk_turnover_by rk))\<rparr>"
proof -
  show ok: "list_all rc_passed (order_checks rk od pf oc)"
  proof (rule ccontr)
    assume "\<not> list_all rc_passed (order_checks rk od pf oc)"
    with assms show False by (auto simp: check_order_def)
  qed
  show "rk' = rk\<lparr>rk_seen := List.insert (pa_order_id od) (rk_seen rk),
       rk_turnover := rk_turnover rk + order_notional od (oc_reference_price oc),
       rk_turnover_by := (case rk_session rk of None \<Rightarrow> rk_turnover_by rk
         | Some d \<Rightarrow> AList.update d (rk_turnover rk + order_notional od (oc_reference_price oc)) (rk_turnover_by rk))\<rparr>"
  proof (cases "rk_session rk")
    case None
    with ok assms(1) show ?thesis by (auto simp: check_order_def Let_def)
  next
    case (Some d)
    with ok assms(1) show ?thesis
      by (auto simp: check_order_def Let_def and_then_Inr dest!: rk_journal_engine)
  qed
qed

text \<open>The limits an approval stands for; \<open>equity\<close> is what the book is worth at the marks, at least 1e-9.\<close>

definition within_limits :: "risk_engine \<Rightarrow> paper_order \<Rightarrow> portfolio \<Rightarrow> order_context \<Rightarrow> rat \<Rightarrow> bool" where
  "within_limits rk od pf oc equity \<longleftrightarrow>
     (let limits = rk_limits rk; reference_price = oc_reference_price oc;
          notional = order_notional od reference_price in
      notional \<le> rl_max_order_notional limits \<and> pa_quantity od \<le> rl_max_order_shares limits \<and>
      0 \<le> oc_session_volume oc \<and>
      (0 < oc_session_volume oc \<longrightarrow> pa_quantity od \<le> rl_max_participation limits * oc_session_volume oc) \<and>
      (rk_turnover rk + notional) \<le> rl_max_daily_turnover limits * equity \<and>
      (case pa_side od of
         SELL \<Rightarrow> pa_quantity od \<le> pt_sellable pf (pa_symbol od) + 1 / 10 ^ 9
       | BUY \<Rightarrow> rl_min_cash_buffer limits \<le> pt_cash pf - notional \<and>
           pp_total (pt_get pf (pa_symbol od)) * reference_price + notional
             \<le> rl_max_single_name_weight limits * equity \<and>
           (rl_max_industry_weight limits < 1 \<longrightarrow> (\<exists>i ws. oc_industry oc = Some i \<and> i \<noteq> [] \<and>
              oc_industry_weights oc = Some ws \<and>
              dict_get ws i 0 * equity + notional \<le> rl_max_industry_weight limits * equity))))"

lemma book_equity_priced:
  assumes "pt_unpriceable pf prices = []"
  shows "\<exists>e. book_equity pf prices = Some (max e (1 / 10 ^ 9)) \<and> pt_equity pf prices = Inr e"
  using assms by (simp add: book_equity_def pt_equity_def pt_market_value_def held_sum_def)

lemma industry_checks_passed:
  assumes "list_all rc_passed (industry_checks limits notional equity industry weights)" "0 < equity"
    "rl_max_industry_weight limits < 1"
  shows "\<exists>i ws. industry = Some i \<and> i \<noteq> [] \<and> weights = Some ws \<and>
    dict_get ws i 0 * equity + notional \<le> rl_max_industry_weight limits * equity"
  using assms by (auto simp: industry_checks_def Let_def field_simps split: option.splits if_splits)

lemma passed_within_limits:
  assumes "list_all rc_passed (order_checks rk od pf oc)"
  shows "\<exists>e. pt_equity pf (order_marks od oc) = Inr e \<and> within_limits rk od pf oc (max e (1 / 10 ^ 9))"
    "blocking (pa_side od = BUY) (pa_strategy_id od) (rk_latched rk) = []"
    "pa_order_id od \<notin> set (rk_seen rk)"
    "pa_side od = BUY \<Longrightarrow> rk_halted rk \<noteq> None \<Longrightarrow> rk_halted rk \<noteq> rk_session rk"
proof -
  note passed = assms [unfolded order_checks_def Let_def list_all_append]
  from passed have priced: "pt_unpriceable pf (order_marks od oc) = []" by simp
  from book_equity_priced [OF this] obtain e eq where e: "book_equity pf (order_marks od oc) = Some eq"
    and equity: "pt_equity pf (order_marks od oc) = Inr e" "max e (1 / 10 ^ 9) = eq" by blast
  have pos: "0 < eq" using equity(2) by auto
  have turnover: "rk_turnover rk + order_notional od (oc_reference_price oc) \<le> rl_max_daily_turnover (rk_limits rk) * eq"
    using passed priced e pos by (simp add: divide_le_eq)
  have side: "case pa_side od of
         SELL \<Rightarrow> pa_quantity od \<le> pt_sellable pf (pa_symbol od) + 1 / 10 ^ 9
       | BUY \<Rightarrow> rl_min_cash_buffer (rk_limits rk) \<le> pt_cash pf - order_notional od (oc_reference_price oc) \<and>
           pp_total (pt_get pf (pa_symbol od)) * oc_reference_price oc + order_notional od (oc_reference_price oc)
             \<le> rl_max_single_name_weight (rk_limits rk) * eq \<and>
           (rl_max_industry_weight (rk_limits rk) < 1 \<longrightarrow> (\<exists>i ws. oc_industry oc = Some i \<and> i \<noteq> [] \<and>
              oc_industry_weights oc = Some ws \<and>
              dict_get ws i 0 * eq + order_notional od (oc_reference_price oc) \<le> rl_max_industry_weight (rk_limits rk) * eq))"
    using passed priced e pos industry_checks_passed [of "rk_limits rk" _ eq]
    by (cases "pa_side od") (auto simp: divide_le_eq pp_market_value_def)
  have volume: "0 \<le> oc_session_volume oc \<and>
      (0 < oc_session_volume oc \<longrightarrow> pa_quantity od \<le> rl_max_participation (rk_limits rk) * oc_session_volume oc)"
    using passed by (auto simp: divide_le_eq split: if_splits)
  show "\<exists>e. pt_equity pf (order_marks od oc) = Inr e \<and> within_limits rk od pf oc (max e (1 / 10 ^ 9))"
    using passed equity(1) turnover side volume
    by (intro exI [of _ e] conjI) (simp_all only: within_limits_def Let_def equity(2), simp)
  show "blocking (pa_side od = BUY) (pa_strategy_id od) (rk_latched rk) = []"
    using passed by (simp add: switch_check_def Let_def)
  show "pa_order_id od \<notin> set (rk_seen rk)" using passed by simp
  show "rk_halted rk \<noteq> rk_session rk" if "pa_side od = BUY" "rk_halted rk \<noteq> None"
    using passed that by simp
qed

section \<open>The state across a restart\<close>

definition writes_ok :: "desk \<Rightarrow> bool" where
  "writes_ok dk \<longleftrightarrow> (\<forall>n. fst (dk_env dk n) = W_ok)"

lemma store_append_ok:
  assumes "writes_ok dk" "\<not> ef_unfinished (st_file s)"
  obtains e s' where "store_append dk who t payload symbol mt s = (Inr (), s')"
    "ef_lines (st_file s') = ef_lines (st_file s) @ [Some e]" "\<not> ef_unfinished (st_file s')"
    "pe_event_type e = t" "pe_payload e = payload"
proof -
  obtain uid now where "dk_env dk (st_calls s) = (W_ok, uid, now)"
    using assms(1) unfolding writes_ok_def by (metis prod.collapse)
  with assms(2) that show thesis
    by (force simp: store_append_def el_append_def put_line_def Let_def)
qed

lemma no_failed_ids [simp]: "writes_ok dk \<Longrightarrow> failed_ids dk s c = []"
  by (simp add: failed_ids_def next_outcome_def writes_ok_def)

text \<open>What is read back from the events: the engine but for its switches.\<close>

definition risk_fields :: "risk_engine \<Rightarrow> (string, rat) dict \<times> (string, rat) dict \<times> string option \<times> rat option" where
  "risk_fields rk = (rk_turnover_by rk, rk_start_by rk, rk_halted rk, rk_peak rk)"

lemma observe_peak_fields:
  "risk_fields (snd (observe_peak x rk)) = (case risk_fields rk of (t, s, h, p) \<Rightarrow>
     (t, s, h, case p of None \<Rightarrow> Some x | Some y \<Rightarrow> Some (max y x)))"
  by (auto simp: observe_peak_def risk_fields_def max_def split: option.splits)

lemma note_risk_state_fields:
  "risk_fields (note_risk_state session halt turnover start peak rk) = (case risk_fields rk of (t, s, h, p) \<Rightarrow>
     (case (session, turnover) of (Some d, Some x) \<Rightarrow> AList.update d x t | _ \<Rightarrow> t,
      case (session, start) of (Some d, Some x) \<Rightarrow> if map_of s d = None then AList.update d x s else s | _ \<Rightarrow> s,
      if halt then session else h,
      case peak of None \<Rightarrow> p | Some x \<Rightarrow> (case p of None \<Rightarrow> Some x | Some y \<Rightarrow> Some (max y x))))"
proof -
  have u: "risk_fields (rk\<lparr>rk_halted := h\<rparr>) = (case risk_fields rk of (t, s, _, p) \<Rightarrow> (t, s, h, p))"
    "risk_fields (rk\<lparr>rk_turnover_by := t\<rparr>) = (case risk_fields rk of (_, s, h, p) \<Rightarrow> (t, s, h, p))"
    "risk_fields (rk\<lparr>rk_start_by := s\<rparr>) = (case risk_fields rk of (t, _, h, p) \<Rightarrow> (t, s, h, p))"
    "rk_turnover_by rk = fst (risk_fields rk)" "rk_start_by rk = fst (snd (risk_fields rk))" for h t s rk
    by (simp_all add: risk_fields_def)
  obtain t s h p where f: "risk_fields rk = (t, s, h, p)" by (cases "risk_fields rk") auto
  show ?thesis
    by (cases halt; cases session; cases turnover; cases start; cases peak)
      (auto simp: note_risk_state_def u f observe_peak_fields Let_def)
qed

lemma note_fields:
  "rk_turnover_by (note_risk_state session halt turnover start peak rk) =
     (case (session, turnover) of (Some d, Some x) \<Rightarrow> AList.update d x (rk_turnover_by rk) | _ \<Rightarrow> rk_turnover_by rk)"
  "rk_start_by (note_risk_state session halt turnover start peak rk) =
     (case (session, start) of
        (Some d, Some x) \<Rightarrow> if map_of (rk_start_by rk) d = None then AList.update d x (rk_start_by rk) else rk_start_by rk
      | _ \<Rightarrow> rk_start_by rk)"
  "rk_halted (note_risk_state session halt turnover start peak rk) = (if halt then session else rk_halted rk)"
  "rk_peak (note_risk_state session halt turnover start peak rk) =
     (case peak of None \<Rightarrow> rk_peak rk
      | Some x \<Rightarrow> (case rk_peak rk of None \<Rightarrow> Some x | Some y \<Rightarrow> Some (max y x)))"
  using note_risk_state_fields [of session halt turnover start peak rk] by (simp_all add: risk_fields_def)

text \<open>An event decides what it does before it looks at the engine, and acts on the fields alone.\<close>

definition event_update :: "(json \<Rightarrow> string) \<Rightarrow> paper_event \<Rightarrow> (risk_engine \<Rightarrow> risk_engine) res" where
  "event_update S e =
     (if pe_event_type e = RISK_STATE_UPDATED then
        res_bind (session_at S (pe_payload e)) (\<lambda>session.
        res_bind (jget (pe_payload e) ''daily_loss_halt'') (\<lambda>halt.
        res_bind (number_at (pe_payload e) ''session_turnover'') (\<lambda>turnover.
        res_bind (number_at (pe_payload e) ''session_start_equity'') (\<lambda>start.
        res_bind (number_at (pe_payload e) ''peak_equity'') (\<lambda>peak.
          Inr (note_risk_state session (truthy halt) turnover start peak))))))
      else if pe_event_type e = MARK_TO_MARKET then
        res_bind (number_at (pe_payload e) ''equity'') (\<lambda>equity. Inr (\<lambda>rk. case equity of
            None \<Rightarrow> rk
          | Some x \<Rightarrow> let day = take 10 (case pe_market_time e of None \<Rightarrow> [] | Some t \<Rightarrow> t)
              in (snd (observe_peak x rk))\<lparr>rk_last_close := Some (if day = [] then None else Some day, x)\<rparr>))
      else Inr (\<lambda>rk. rk))"

lemma replay_event_update: "replay_risk_event S e rk = res_bind (event_update S e) (\<lambda>u. Inr (u rk))"
proof -
  have b: "res_bind (res_bind m f) g = res_bind m (\<lambda>x. res_bind (f x) g)" for m :: "'x res" and f :: "'x \<Rightarrow> 'y res" and g :: "'y \<Rightarrow> 'z res"
    by (cases m) auto
  show ?thesis
    by (simp add: replay_risk_event_def replay_risk_state_def replay_mark_def event_update_def b)
qed

lemma event_update_fields:
  assumes "event_update S e = Inr u" "risk_fields rk = risk_fields rk2"
  shows "risk_fields (u rk) = risk_fields (u rk2)"
proof (cases "pe_event_type e = RISK_STATE_UPDATED")
  case True
  with assms(1) obtain a b c d f where "u = note_risk_state a b c d f"
    by (auto simp: event_update_def res_bind_Inr_iff)
  with assms(2) show ?thesis by (simp add: note_risk_state_fields)
next
  case False
  have close: "risk_fields (rk\<lparr>rk_last_close := c\<rparr>) = risk_fields rk" for rk c by (simp add: risk_fields_def)
  from False assms(1) consider "u = (\<lambda>rk. rk)" | equity where "u = (\<lambda>rk. case equity of
            None \<Rightarrow> rk
          | Some x \<Rightarrow> let day = take 10 (case pe_market_time e of None \<Rightarrow> [] | Some t \<Rightarrow> t)
              in (snd (observe_peak x rk))\<lparr>rk_last_close := Some (if day = [] then None else Some day, x)\<rparr>)"
    by (auto simp: event_update_def res_bind_Inr_iff split: if_splits)
  then show ?thesis
  proof cases
    case 2
    with assms(2) show ?thesis by (cases equity) (simp_all add: Let_def close observe_peak_fields)
  qed (use assms(2) in simp)
qed

lemma replay_event_sim:
  assumes "risk_fields rk = risk_fields rk2" "replay_risk_event S e rk = Inr rk'"
  shows "\<exists>rk2'. replay_risk_event S e rk2 = Inr rk2' \<and> risk_fields rk' = risk_fields rk2'"
proof -
  from assms(2) obtain u where "event_update S e = Inr u" "rk' = u rk"
    by (auto simp: replay_event_update res_bind_Inr_iff)
  with event_update_fields [OF _ assms(1)] show ?thesis by (simp add: replay_event_update)
qed

lemma replay_sim:
  assumes "risk_fields rk = risk_fields rk2" "replay_risk S es rk = Inr rk'"
  shows "\<exists>rk2'. replay_risk S es rk2 = Inr rk2' \<and> risk_fields rk' = risk_fields rk2'"
  using assms
proof (induction es arbitrary: rk rk2)
  case Nil
  then show ?case by simp
next
  case (Cons e es)
  then obtain mid where "replay_risk_event S e rk = Inr mid" "replay_risk S es mid = Inr rk'"
    by (auto simp: res_bind_Inr_iff)
  with Cons replay_event_sim show ?case by fastforce
qed

lemma replay_risk_snoc:
  "replay_risk S (es @ [e]) rk = res_bind (replay_risk S es rk) (replay_risk_event S e)"
  by (induction es arbitrary: rk) (auto simp: res_bind_def split: sum.splits)

definition fresh_engine :: "risk_limits \<Rightarrow> string \<Rightarrow> rat \<Rightarrow> risk_engine" where
  "fresh_engine limits run cash = observe_inception_equity cash (RiskEngine_make limits run)"

text \<open>Each switch is latched under the identifier of its scope and key.\<close>

definition well_keyed :: "latches \<Rightarrow> bool" where
  "well_keyed l \<longleftrightarrow> (\<forall>i r. map_of l i = Some r \<longrightarrow> sr_scope r \<in> set SCOPES \<and> i = switch_id (sr_scope r) (sr_key r))"

definition risk_synced :: "desk \<Rightarrow> risk_engine \<Rightarrow> risk_world \<Rightarrow> bool" where
  "risk_synced dk rk0 s \<longleftrightarrow>
     rk_bound (fst s) \<and> \<not> ef_unfinished (st_file (snd s)) \<and>
     remembers (dk_str dk) {} (rk_latched (fst s), snd s) \<and> well_keyed (rk_latched (fst s)) \<and>
     (\<exists>es rk. ef_lines (st_file (snd s)) = map Some es \<and> replay_risk (dk_str dk) es rk0 = Inr rk \<and>
        risk_fields rk = risk_fields (fst s))"

text \<open>An append that leaves the fields as the engine now has them.\<close>

lemma synced_append:
  assumes ok: "writes_ok dk" and sync: "risk_synced dk rk0 (rk, store)"
    and rk': "rk_bound rk'" "well_keyed (rk_latched rk')"
      "remembers (dk_str dk) {} (rk_latched rk', snd (store_append dk who t payload symbol mt store))"
    and update: "\<And>e. pe_event_type e = t \<Longrightarrow> pe_payload e = payload \<Longrightarrow>
      \<exists>u. event_update (dk_str dk) e = Inr u \<and> risk_fields (u rk) = risk_fields rk'"
  shows "\<exists>store'. store_append dk who t payload symbol mt store = (Inr (), store') \<and> risk_synced dk rk0 (rk', store')"
proof -
  from sync obtain es rk1 where es: "ef_lines (st_file store) = map Some es" "replay_risk (dk_str dk) es rk0 = Inr rk1"
    "risk_fields rk1 = risk_fields rk" and whole: "\<not> ef_unfinished (st_file store)"
    by (auto simp: risk_synced_def)
  from store_append_ok [OF ok whole, of who t payload symbol mt] obtain e store' where
    a: "store_append dk who t payload symbol mt store = (Inr (), store')"
    "ef_lines (st_file store') = ef_lines (st_file store) @ [Some e]" "\<not> ef_unfinished (st_file store')"
    "pe_event_type e = t" "pe_payload e = payload" by metis
  from update [OF a(4,5)] obtain u where u: "event_update (dk_str dk) e = Inr u" "risk_fields (u rk) = risk_fields rk'"
    by blast
  have "replay_risk (dk_str dk) (es @ [e]) rk0 = Inr (u rk1)"
    by (simp add: replay_risk_snoc es(2) replay_event_update u(1))
  moreover have "risk_fields (u rk1) = risk_fields rk'"
    using event_update_fields [OF u(1) es(3)] u(2) by simp
  moreover have "ef_lines (st_file store') = map Some (es @ [e])" using a(2) es(1) by simp
  ultimately have "risk_synced dk rk0 (rk', store')"
    using a rk' unfolding risk_synced_def by (intro conjI exI [of _ "es @ [e]"] exI [of _ "u rk1"]) simp_all
  with a(1) show ?thesis by blast
qed

lemma synced_journal:
  assumes ok: "writes_ok dk" and sync: "risk_synced dk rk0 (rk, store)"
    and rk': "rk_bound rk'" "rk_latched rk' = rk_latched rk"
    and update: "\<And>e. pe_event_type e = RISK_STATE_UPDATED \<Longrightarrow> pe_payload e = JObj d \<Longrightarrow>
      \<exists>u. event_update (dk_str dk) e = Inr u \<and> risk_fields (u rk) = risk_fields rk'"
  shows "\<exists>store'. rk_journal dk RISK_STATE_UPDATED (JObj d) (rk', store) = (Inr (), rk', store') \<and>
    risk_synced dk rk0 (rk', store')"
proof -
  let ?who = "(rk_run_id rk', rk_portfolio_id rk')"
  have mem: "remembers (dk_str dk) {} (rk_latched rk, store)" and keyed: "well_keyed (rk_latched rk')"
    using sync rk'(2) by (simp_all add: risk_synced_def)
  from mem have "remembers (dk_str dk) {} (rk_latched rk', snd (store_append dk ?who RISK_STATE_UPDATED (JObj d) None None store))"
    unfolding rk'(2) by (rule remembers_other) simp
  from synced_append [OF ok sync rk'(1) keyed this update] rk'(1) show ?thesis
    by (auto simp: rk_journal_def rk_writer_def)
qed

lemma synced_same:
  assumes "risk_synced dk rk0 (rk, store)" "rk_bound rk' = rk_bound rk" "rk_latched rk' = rk_latched rk"
    "risk_fields rk' = risk_fields rk"
  shows "risk_synced dk rk0 (rk', store)"
  using assms by (auto simp: risk_synced_def)

definition keeps_latches :: "latches \<Rightarrow> latches \<Rightarrow> bool" where
  "keeps_latches l l' \<longleftrightarrow> (\<forall>i r. map_of l i = Some r \<longrightarrow> map_of l' i = Some r)"

lemma keeps_latches_refl [simp]: "keeps_latches l l"
  by (simp add: keeps_latches_def)

lemma keeps_latches_trans: "keeps_latches l l' \<Longrightarrow> keeps_latches l' l'' \<Longrightarrow> keeps_latches l l''"
  by (simp add: keeps_latches_def)

lemma synced_trigger:
  assumes ok: "writes_ok dk" and sync: "risk_synced dk rk0 (rk, store)" and "now \<noteq> []" "scope \<in> set SCOPES"
  shows "\<exists>r latched store'. sw_trigger dk (rk_writer rk) now scope reason key (rk_latched rk, store) = (Inr r, latched, store')
    \<and> risk_synced dk rk0 (rk\<lparr>rk_latched := latched\<rparr>, store')
    \<and> map_of latched (switch_id scope key) \<noteq> None \<and> keeps_latches (rk_latched rk) latched"
proof -
  let ?who = "(rk_run_id rk, rk_portfolio_id rk)"
  have bound: "rk_bound rk" and mem: "remembers (dk_str dk) {} (rk_latched rk, store)"
    and keyed: "well_keyed (rk_latched rk)"
    using sync by (simp_all add: risk_synced_def)
  have writer: "rk_writer rk = Some ?who" using bound by (simp add: rk_writer_def)
  show ?thesis
  proof (cases "map_of (rk_latched rk) (switch_id scope key)")
    case (Some r)
    with sync assms(4) show ?thesis by (auto simp: sw_trigger_def)
  next
    case None
    let ?r = "\<lparr>sr_scope = scope, sr_key = key, sr_reason = reason, sr_triggered_at = now\<rparr>"
    let ?latched = "AList.update (switch_id scope key) ?r (rk_latched rk)"
    have call: "sw_trigger dk (rk_writer rk) now scope reason key (rk_latched rk, store) =
      (case store_append dk ?who KILL_SWITCH_TRIGGERED (switch_payload ?r) None None store of
         (x, store') \<Rightarrow> (res_bind x (\<lambda>_. Inr ?r), ?latched, store'))"
      using None assms(4) by (simp add: sw_trigger_def writer Let_def)
    have "remembers (dk_str dk) {} (?latched, snd (store_append dk ?who KILL_SWITCH_TRIGGERED (switch_payload ?r) None None store))"
      using remembers_trigger [OF mem assms(3), of scope reason key ?who] ok call
      by (simp add: writer split: prod.splits)
    then have "\<exists>store'. store_append dk ?who KILL_SWITCH_TRIGGERED (switch_payload ?r) None None store = (Inr (), store')
        \<and> risk_synced dk rk0 (rk\<lparr>rk_latched := ?latched\<rparr>, store')"
      using bound keyed assms(4) by (intro synced_append [OF ok sync]) (auto simp: event_update_def risk_fields_def well_keyed_def)
    with call None show ?thesis by (auto simp: keeps_latches_def)
  qed
qed

definition risk_inv :: "desk \<Rightarrow> risk_engine \<Rightarrow> risk_world \<Rightarrow> bool" where
  "risk_inv dk rk0 s \<longleftrightarrow> risk_synced dk rk0 s \<and> rk_session (fst s) \<noteq> Some []"

lemma risk_invD: "risk_inv dk rk0 (rk, store) \<Longrightarrow> risk_synced dk rk0 (rk, store)"
  "risk_inv dk rk0 (rk, store) \<Longrightarrow> rk_bound rk" "risk_inv dk rk0 (rk, store) \<Longrightarrow> rk_session rk \<noteq> Some []"
  by (simp_all add: risk_inv_def risk_synced_def)

lemmas payload_simps = event_update_def session_at_def number_at_def py_str_def

lemma inv_record_start:
  assumes ok: "writes_ok dk" and inv: "risk_inv dk rk0 (rk, store)" and d: "d \<noteq> []"
  shows "\<exists>rk' store'. record_session_start dk d x (rk, store) = (Inr (), rk', store') \<and> risk_inv dk rk0 (rk', store')
    \<and> rk_latched rk' = rk_latched rk \<and> rk_session rk' = rk_session rk"
proof (cases "map_of (rk_start_by rk) d")
  case (Some y)
  with inv show ?thesis by (auto simp: record_session_start_def)
next
  case None
  let ?rk = "rk\<lparr>rk_start_by := AList.update d x (rk_start_by rk)\<rparr>"
  have "\<exists>store'. rk_journal dk RISK_STATE_UPDATED (JObj [(''session'', JStr d), (''session_start_equity'', JNum x)])
      (?rk, store) = (Inr (), ?rk, store') \<and> risk_synced dk rk0 (?rk, store')"
    by (rule synced_journal [OF ok risk_invD(1) [OF inv]])
      (use risk_invD [OF inv] None d in \<open>auto simp: payload_simps note_fields risk_fields_def\<close>)
  with None inv show ?thesis by (auto simp: record_session_start_def risk_inv_def)
qed

lemma inv_begin_session:
  assumes ok: "writes_ok dk" and inv: "risk_inv dk rk0 (rk, store)" and d: "session \<noteq> []"
  shows "\<exists>rk' store'. begin_session dk session start (rk, store) = (Inr (), rk', store') \<and> risk_inv dk rk0 (rk', store')
    \<and> rk_latched rk' = rk_latched rk"
proof (cases "rk_session rk = Some (take 10 session)")
  case True
  with inv show ?thesis by (auto simp: begin_session_def)
next
  case False
  let ?d = "take 10 session"
  let ?rk = "rk\<lparr>rk_session := Some ?d, rk_turnover := dict_get (rk_turnover_by rk) ?d 0,
    rk_start_equity := opening_of rk ?d start\<rparr>"
  have inv': "risk_inv dk rk0 (?rk, store)"
    using inv d unfolding risk_inv_def
    by (auto intro: synced_same simp: risk_fields_def)
  show ?thesis
  proof (cases "opening_of rk ?d start")
    case None
    with False inv' show ?thesis by (auto simp: begin_session_def Let_def)
  next
    case (Some x)
    with False inv_record_start [OF ok inv', of ?d x] d show ?thesis
      by (auto simp: begin_session_def Let_def)
  qed
qed

lemma inv_check_order:
  assumes ok: "writes_ok dk" and inv: "risk_inv dk rk0 (rk, store)"
  shows "\<exists>verdict rk' store'. check_order dk od pf oc (rk, store) = (Inr verdict, rk', store')
    \<and> risk_inv dk rk0 (rk', store') \<and> rk_latched rk' = rk_latched rk"
proof (cases "list_all rc_passed (order_checks rk od pf oc)")
  case False
  with inv show ?thesis by (auto simp: check_order_def)
next
  case True
  let ?t = "rk_turnover rk + order_notional od (oc_reference_price oc)"
  let ?rk = "rk\<lparr>rk_seen := List.insert (pa_order_id od) (rk_seen rk), rk_turnover := ?t\<rparr>"
  have inv': "risk_inv dk rk0 (?rk, store)"
    using inv unfolding risk_inv_def by (auto intro: synced_same simp: risk_fields_def)
  show ?thesis
  proof (cases "rk_session rk")
    case None
    with True inv' show ?thesis by (auto simp: check_order_def Let_def)
  next
    case (Some d)
    let ?rk2 = "?rk\<lparr>rk_turnover_by := AList.update d ?t (rk_turnover_by rk)\<rparr>"
    have "d \<noteq> []" using risk_invD(3) [OF inv] Some by simp
    then have "\<exists>store'. rk_journal dk RISK_STATE_UPDATED (JObj [(''session'', JStr d), (''session_turnover'', JNum ?t)])
        (?rk2, store) = (Inr (), ?rk2, store') \<and> risk_synced dk rk0 (?rk2, store')"
      by (intro synced_journal [OF ok risk_invD(1) [OF inv']])
        (use risk_invD [OF inv'] in \<open>auto simp: payload_simps note_fields risk_fields_def\<close>)
    then show ?thesis using True Some risk_invD(3) [OF inv]
      by (auto simp: check_order_def Let_def and_then_def risk_inv_def)
  qed
qed

lemma inv_note_start:
  assumes ok: "writes_ok dk" and inv: "risk_inv dk rk0 (rk, store)"
  shows "\<exists>rk' store'. note_start dk equity (rk, store) = (Inr (), rk', store') \<and> risk_inv dk rk0 (rk', store')
    \<and> rk_latched rk' = rk_latched rk"
proof (cases "rk_start_equity rk")
  case (Some x)
  with inv show ?thesis by (auto simp: note_start_def)
next
  case None
  have inv': "risk_inv dk rk0 (rk\<lparr>rk_start_equity := Some equity\<rparr>, store)"
    using inv unfolding risk_inv_def by (auto intro: synced_same simp: risk_fields_def)
  show ?thesis
  proof (cases "rk_session rk")
    case None': None
    with None inv' show ?thesis by (auto simp: note_start_def Let_def)
  next
    case (Some d)
    with risk_invD(3) [OF inv] have "d \<noteq> []" by simp
    from inv_record_start [OF ok inv' this, of equity] None Some show ?thesis by (auto simp: note_start_def Let_def)
  qed
qed

lemma inv_note_peak:
  assumes ok: "writes_ok dk" and inv: "risk_inv dk rk0 (rk, store)"
  shows "\<exists>rk' store'. note_peak dk equity (rk, store) = (Inr (), rk', store') \<and> risk_inv dk rk0 (rk', store')
    \<and> rk_latched rk' = rk_latched rk"
proof (cases "fst (observe_peak equity rk)")
  case False
  then show ?thesis using inv by (auto simp: note_peak_def observe_peak_def split: if_splits)
next
  case True
  then have up: "observe_peak equity rk = (True, rk\<lparr>rk_peak := Some equity\<rparr>)"
    "case rk_peak rk of None \<Rightarrow> True | Some p \<Rightarrow> p < equity"
    by (auto simp: observe_peak_def split: if_splits)
  let ?rk = "rk\<lparr>rk_peak := Some equity\<rparr>"
  have "\<exists>store'. rk_journal dk RISK_STATE_UPDATED (JObj [(''session'', of_opt JStr (rk_session rk)), (''peak_equity'', JNum equity)])
      (?rk, store) = (Inr (), ?rk, store') \<and> risk_synced dk rk0 (?rk, store')"
    by (intro synced_journal [OF ok risk_invD(1) [OF inv]])
      (use risk_invD [OF inv] up(2) in \<open>auto simp: payload_simps note_fields risk_fields_def max_def
         split: option.splits\<close>)
  with inv up(1) show ?thesis by (auto simp: note_peak_def risk_inv_def)
qed

lemma portfolio_in_scopes [simp]: "SCOPE_PORTFOLIO \<in> set SCOPES" "SCOPE_GLOBAL \<in> set SCOPES"
  by (simp_all add: SCOPES_def)

lemma inv_react:
  assumes ok: "writes_ok dk" and inv: "risk_inv dk rk0 (rk, store)" and now: "now \<noteq> []"
  shows "\<exists>rk' store'. react dk now c (rk, store) = (Inr (), rk', store') \<and> risk_inv dk rk0 (rk', store')
    \<and> keeps_latches (rk_latched rk) (rk_latched rk')
    \<and> (rc_name c = ''drawdown'' \<and> \<not> rc_passed c \<longrightarrow>
        map_of (rk_latched rk') (switch_id SCOPE_PORTFOLIO None) \<noteq> None)"
proof -
  consider (none) "rc_passed c \<or> rc_name c \<noteq> ''daily_loss'' \<and> rc_name c \<noteq> ''drawdown''
      \<or> rc_name c = ''daily_loss'' \<and> rk_halted rk = rk_session rk"
    | (loss) "\<not> rc_passed c" "rc_name c = ''daily_loss''" "rk_halted rk \<noteq> rk_session rk"
    | (drawdown) "\<not> rc_passed c" "rc_name c = ''drawdown''" by blast
  then show ?thesis
  proof cases
    case none
    with inv show ?thesis by (auto simp: react_def)
  next
    case loss
    let ?rk = "rk\<lparr>rk_halted := rk_session rk\<rparr>"
    have "\<exists>store'. rk_journal dk RISK_STATE_UPDATED (JObj [(''session'', of_opt JStr (rk_session rk)),
        (''daily_loss_halt'', JBool True), (''daily_loss'', rc_measured c), (''daily_loss_limit'', rc_limit c)])
        (?rk, store) = (Inr (), ?rk, store') \<and> risk_synced dk rk0 (?rk, store')"
      by (intro synced_journal [OF ok risk_invD(1) [OF inv]])
        (use risk_invD [OF inv] in \<open>cases "rk_session rk"; auto simp: payload_simps note_fields risk_fields_def\<close>)+
    with loss inv show ?thesis by (auto simp: react_def risk_inv_def)
  next
    case drawdown
    from synced_trigger [OF ok risk_invD(1) [OF inv] now, of SCOPE_PORTFOLIO
        "dk_drawdown_text dk (number_of (rc_measured c)) (number_of (rc_limit c))" None]
    show ?thesis using drawdown inv by (auto simp: react_def risk_inv_def)
  qed
qed

lemma inv_react_all:
  assumes ok: "writes_ok dk" and inv: "risk_inv dk rk0 (rk, store)" and now: "now \<noteq> []"
  shows "\<exists>rk' store'. react_all dk now cs (rk, store) = (Inr (), rk', store') \<and> risk_inv dk rk0 (rk', store')
    \<and> keeps_latches (rk_latched rk) (rk_latched rk')
    \<and> ((\<exists>c\<in>set cs. rc_name c = ''drawdown'' \<and> \<not> rc_passed c) \<longrightarrow>
        map_of (rk_latched rk') (switch_id SCOPE_PORTFOLIO None) \<noteq> None)"
  using inv
proof (induction cs arbitrary: rk store)
  case Nil
  then show ?case by simp
next
  case (Cons c cs)
  from inv_react [OF ok Cons.prems now] obtain rk1 store1 where one: "react dk now c (rk, store) = (Inr (), rk1, store1)"
    "risk_inv dk rk0 (rk1, store1)" "keeps_latches (rk_latched rk) (rk_latched rk1)"
    "rc_name c = ''drawdown'' \<and> \<not> rc_passed c \<longrightarrow> map_of (rk_latched rk1) (switch_id SCOPE_PORTFOLIO None) \<noteq> None"
    by metis
  from Cons.IH [OF one(2)] obtain rk2 store2 where two: "react_all dk now cs (rk1, store1) = (Inr (), rk2, store2)"
    "risk_inv dk rk0 (rk2, store2)" "keeps_latches (rk_latched rk1) (rk_latched rk2)"
    "(\<exists>c\<in>set cs. rc_name c = ''drawdown'' \<and> \<not> rc_passed c) \<longrightarrow>
        map_of (rk_latched rk2) (switch_id SCOPE_PORTFOLIO None) \<noteq> None" by metis
  have "react_all dk now (c # cs) (rk, store) = (Inr (), rk2, store2)"
    by (simp add: and_then_def one(1) two(1))
  moreover have "keeps_latches (rk_latched rk) (rk_latched rk2)"
    using one(3) two(3) by (rule keeps_latches_trans)
  moreover have "(\<exists>c\<in>set (c # cs). rc_name c = ''drawdown'' \<and> \<not> rc_passed c) \<longrightarrow>
      map_of (rk_latched rk2) (switch_id SCOPE_PORTFOLIO None) \<noteq> None"
    using one(4) two(3,4) by (fastforce simp: keeps_latches_def)
  ultimately show ?case using two(2) by blast
qed

lemma inv_set_decision:
  "risk_inv dk rk0 (rk, store) \<Longrightarrow> risk_inv dk rk0 (rk\<lparr>rk_last_decision := v\<rparr>, store)"
  unfolding risk_inv_def by (auto intro: synced_same simp: risk_fields_def)

text \<open>The loss from the highest equity seen, this valuation included.\<close>

definition drawdown_now :: "risk_engine \<Rightarrow> rat \<Rightarrow> rat" where
  "drawdown_now rk equity =
     (let p = (case rk_peak rk of None \<Rightarrow> equity | Some p \<Rightarrow> max p equity) in (p - equity) / p)"

lemma note_fields_kept:
  assumes "note_start dk equity (rk, store) = (r, rk', store')"
  shows "rk_peak rk' = rk_peak rk \<and> rk_limits rk' = rk_limits rk"
  using assms by (auto simp: note_start_def record_session_start_def Let_def
      split: option.splits if_splits dest!: rk_journal_engine)

lemma note_peak_value:
  assumes "note_peak dk equity (rk, store) = (r, rk', store')"
  shows "rk_peak rk' = Some (case rk_peak rk of None \<Rightarrow> equity | Some p \<Rightarrow> max p equity) \<and> rk_limits rk' = rk_limits rk"
  using assms by (cases "rk_peak rk")
    (auto simp: note_peak_def observe_peak_def max_def split: if_splits dest!: rk_journal_engine)

lemma drawdown_check_in:
  assumes "rk_peak rk = Some p" "0 < p"
  shows "at_most ''drawdown'' ((p - equity) / p) (rl_max_drawdown (rk_limits rk))
    \<in> set (portfolio_checks rk pf prices imap equity gross)"
  using assms by (simp add: portfolio_checks_def Let_def)

lemma inv_check_portfolio:
  assumes ok: "writes_ok dk" and inv: "risk_inv dk rk0 (rk, store)" and now: "now \<noteq> []"
  shows "\<exists>verdict rk' store'. check_portfolio dk now pf prices imap (rk, store) = (Inr verdict, rk', store')
    \<and> risk_inv dk rk0 (rk', store') \<and> keeps_latches (rk_latched rk) (rk_latched rk')
    \<and> (\<forall>e. pt_equity pf prices = Inr e \<and> rl_max_drawdown (rk_limits rk) < drawdown_now rk (max e (1 / 10 ^ 9)) \<longrightarrow>
        map_of (rk_latched rk') (switch_id SCOPE_PORTFOLIO None) \<noteq> None)"
proof (cases "pt_unpriceable pf prices = []")
  case False
  then show ?thesis using inv_set_decision [OF inv]
    by (auto simp: check_portfolio_def Let_def set_decision_def pt_equity_def pt_market_value_def held_sum_def)
next
  case True
  then obtain e g where e: "pt_equity pf prices = Inr e" "pt_gross_exposure pf prices = Inr g"
    by (auto simp: pt_equity_def pt_market_value_def pt_gross_exposure_def held_sum_def)
  obtain eq where eq: "max e (1 / 10 ^ 9) = eq" by blast
  have pos: "0 < eq" unfolding eq [symmetric] by (simp add: less_max_iff_disj)
  obtain rk1 store1 where one: "note_start dk eq (rk, store) = (Inr (), rk1, store1)" "risk_inv dk rk0 (rk1, store1)"
    "rk_latched rk1 = rk_latched rk"
    using inv_note_start [OF ok inv, of eq] by metis
  obtain rk2 store2 where two: "note_peak dk eq (rk1, store1) = (Inr (), rk2, store2)" "risk_inv dk rk0 (rk2, store2)"
    "rk_latched rk2 = rk_latched rk1"
    using inv_note_peak [OF ok one(2), of eq] by metis
  let ?checks = "portfolio_checks rk2 pf prices imap eq g"
  obtain rk3 store3 where three: "react_all dk now ?checks (rk2, store2) = (Inr (), rk3, store3)"
    "risk_inv dk rk0 (rk3, store3)" "keeps_latches (rk_latched rk2) (rk_latched rk3)"
    "(\<exists>c\<in>set ?checks. rc_name c = ''drawdown'' \<and> \<not> rc_passed c) \<longrightarrow>
        map_of (rk_latched rk3) (switch_id SCOPE_PORTFOLIO None) \<noteq> None"
    using inv_react_all [OF ok two(2) now, of ?checks] by metis
  have run: "check_portfolio dk now pf prices imap (rk, store)
      = (Inr (decide ?checks), rk3\<lparr>rk_last_decision := Some (decide ?checks)\<rparr>, store3)"
    using True by (simp add: check_portfolio_def e pure_then_def and_then_def eq [simplified] one(1) two(1) three(1) Let_def
        set_decision_def)
  define p where "p = (case rk_peak rk of None \<Rightarrow> eq | Some p \<Rightarrow> max p eq)"
  have p: "rk_peak rk2 = Some p" "rk_limits rk2 = rk_limits rk" "0 < p"
    using note_fields_kept [OF one(1)] note_peak_value [OF two(1)] pos by (auto simp: p_def less_max_iff_disj split: option.splits)
  have "map_of (rk_latched rk3) (switch_id SCOPE_PORTFOLIO None) \<noteq> None"
    if "rl_max_drawdown (rk_limits rk) < drawdown_now rk eq"
  proof -
    have "\<not> rc_passed (at_most ''drawdown'' ((p - eq) / p) (rl_max_drawdown (rk_limits rk2)))"
      using that by (simp add: drawdown_now_def p_def [symmetric] p(2) Let_def)
    moreover have "rc_name (at_most ''drawdown'' ((p - eq) / p) (rl_max_drawdown (rk_limits rk2))) = ''drawdown''"
      by (simp add: at_most_def check_def)
    ultimately show ?thesis using three(4) drawdown_check_in [OF p(1,3), of eq pf prices imap g] by blast
  qed
  with run three(3) one(3) two(3) inv_set_decision [OF three(2)] e(1) show ?thesis by (auto simp: eq [simplified])
qed

lemma inv_latch_failures:
  assumes ok: "writes_ok dk" and inv: "risk_inv dk rk0 (rk, store)" and now: "now \<noteq> []"
  shows "\<exists>rk' store'. latch_failures dk now cs (rk, store) = (Inr (), rk', store') \<and> risk_inv dk rk0 (rk', store')
    \<and> keeps_latches (rk_latched rk) (rk_latched rk')"
  using inv
proof (induction cs arbitrary: rk store)
  case Nil
  then show ?case by simp
next
  case (Cons c cs)
  show ?case
  proof (cases "\<not> rc_passed c \<and> (rc_name c = ''ledger_chain'' \<or> rc_name c = ''reconciliation'')")
    case False
    with Cons show ?thesis by auto
  next
    case True
    from synced_trigger [OF ok risk_invD(1) [OF Cons.prems] now, of SCOPE_GLOBAL "''operational failure: '' @ rc_name c" None]
    obtain r latched store1 where one: "sw_trigger dk (rk_writer rk) now SCOPE_GLOBAL (''operational failure: '' @ rc_name c) None
        (rk_latched rk, store) = (Inr r, latched, store1)"
      "risk_synced dk rk0 (rk\<lparr>rk_latched := latched\<rparr>, store1)" "keeps_latches (rk_latched rk) latched" by auto
    have "risk_inv dk rk0 (rk\<lparr>rk_latched := latched\<rparr>, store1)"
      using one(2) Cons.prems by (simp add: risk_inv_def)
    from Cons.IH [OF this] obtain rk2 store2 where
      "latch_failures dk now cs (rk\<lparr>rk_latched := latched\<rparr>, store1) = (Inr (), rk2, store2)"
      "risk_inv dk rk0 (rk2, store2)" "keeps_latches latched (rk_latched rk2)" by auto
    with True one(1) show ?thesis using keeps_latches_trans [OF one(3)] by (auto simp del: append.simps)
  qed
qed

lemma inv_check_operational:
  assumes "writes_ok dk" "risk_inv dk rk0 (rk, store)" "now \<noteq> []"
  shows "\<exists>verdict rk' store'. check_operational dk now pf oc (rk, store) = (Inr verdict, rk', store')
    \<and> risk_inv dk rk0 (rk', store') \<and> keeps_latches (rk_latched rk) (rk_latched rk')"
  using inv_latch_failures [OF assms, of "operational_checks pf oc"]
  by (auto simp: check_operational_def and_then_def)

end
