(* ===== verification/Paper_Risk_Run.thy ===== *)
theory Paper_Risk_Run
  imports Paper_Risk_Props
begin

text \<open>
  Runs of the risk engine, started as \<open>PaperBroker.__init__\<close> starts it (\<open>src/src/quantagent/paper/broker.py\<close>), and
  what they promise.  A restart is the same start on the file the run left.
\<close>

definition risk_attach :: "desk \<Rightarrow> string \<Rightarrow> rat \<Rightarrow> risk_world \<Rightarrow> unit res \<times> risk_world" where
  "risk_attach dk portfolio_id initial_cash s =
     and_then (bind_state_ledger dk portfolio_id s)
       (\<lambda>_ s. (Inr (), observe_inception_equity initial_cash (fst s), snd s))"

definition risk_boot :: "desk \<Rightarrow> risk_limits \<Rightarrow> string \<Rightarrow> string \<Rightarrow> rat \<Rightarrow> event_store \<Rightarrow> unit res \<times> risk_world" where
  "risk_boot dk limits run_id portfolio_id initial_cash store =
     risk_attach dk portfolio_id initial_cash (RiskEngine_make limits run_id, store)"

definition fresh_event_store :: event_store where
  "fresh_event_store = snd fresh_switch"

datatype risk_call =
    Begin_session string "rat option"
  | Check_order paper_order portfolio order_context
  | Check_portfolio string portfolio marks "(string, string) dict"
  | Check_operational string portfolio operational_context
  | Pull string string string "string option"
  | Release string string "string option" bool "string option" "string option"

definition with_latches :: "'a res \<times> latches \<times> event_store \<Rightarrow> risk_engine \<Rightarrow> risk_world" where
  "with_latches x rk = (rk\<lparr>rk_latched := fst (snd x)\<rparr>, snd (snd x))"

text \<open>\<open>Pull\<close> and \<open>Release\<close> are an operator's calls of the switch.\<close>

fun risk_do :: "desk \<Rightarrow> risk_world \<Rightarrow> risk_call \<Rightarrow> risk_world" where
  "risk_do dk s (Begin_session d x) = snd (begin_session dk d x s)"
| "risk_do dk s (Check_order od pf oc) = snd (check_order dk od pf oc s)"
| "risk_do dk s (Check_portfolio now pf prices imap) = snd (check_portfolio dk now pf prices imap s)"
| "risk_do dk s (Check_operational now pf oc) = snd (check_operational dk now pf oc s)"
| "risk_do dk s (Pull now scope reason key) =
     with_latches (sw_trigger dk (rk_writer (fst s)) now scope reason key (rk_latched (fst s), snd s)) (fst s)"
| "risk_do dk s (Release now scope key human author reason) =
     with_latches (sw_clear dk (rk_writer (fst s)) now scope key human author reason (rk_latched (fst s), snd s)) (fst s)"

definition risk_run :: "desk \<Rightarrow> risk_world \<Rightarrow> risk_call list \<Rightarrow> risk_world" where
  "risk_run dk = foldl (risk_do dk)"

text \<open>Clocks and sessions read a time, and a scope is a name.\<close>

fun risk_call_ok :: "risk_call \<Rightarrow> bool" where
  "risk_call_ok (Begin_session d x) \<longleftrightarrow> d \<noteq> []"
| "risk_call_ok (Check_order od pf oc) \<longleftrightarrow> True"
| "risk_call_ok (Check_portfolio now pf prices imap) \<longleftrightarrow> now \<noteq> []"
| "risk_call_ok (Check_operational now pf oc) \<longleftrightarrow> now \<noteq> []"
| "risk_call_ok (Pull now scope reason key) \<longleftrightarrow> now \<noteq> []"
| "risk_call_ok (Release now scope key human author reason) \<longleftrightarrow> scope \<noteq> []"

fun releases :: "string \<Rightarrow> risk_call \<Rightarrow> bool" where
  "releases i (Release now scope key human author reason) \<longleftrightarrow> human \<and> switch_id scope key = i"
| "releases i _ \<longleftrightarrow> False"

section \<open>Every call keeps the engine and its file in step\<close>

lemma inv_release:
  assumes ok: "writes_ok dk" and inv: "risk_inv dk rk0 (rk, store)" and scope: "scope \<noteq> []"
  shows "risk_inv dk rk0 (risk_do dk (rk, store) (Release now scope key human author reason)) \<and>
    (\<forall>i. \<not> releases i (Release now scope key human author reason) \<longrightarrow>
      map_of (rk_latched (fst (risk_do dk (rk, store) (Release now scope key human author reason)))) i
        = map_of (rk_latched rk) i)"
proof -
  let ?who = "(rk_run_id rk, rk_portfolio_id rk)" and ?i = "switch_id scope key"
  let ?payload = "clear_payload scope key author reason now"
  have sync: "risk_synced dk rk0 (rk, store)" and bound: "rk_bound rk" by (rule risk_invD [OF inv])+
  have writer: "rk_writer rk = Some ?who" using bound by (simp add: rk_writer_def)
  have mem: "remembers (dk_str dk) {} (rk_latched rk, store)" and keyed: "well_keyed (rk_latched rk)"
    using sync by (simp_all add: risk_synced_def)
  show ?thesis
  proof (cases "human \<and> map_of (rk_latched rk) ?i \<noteq> None")
    case False
    then have "risk_do dk (rk, store) (Release now scope key human author reason) = (rk, store)"
      by (auto simp: sw_clear_def with_latches_def Let_def delete_absent)
    with inv show ?thesis by simp
  next
    case True
    let ?latched = "AList.delete ?i (rk_latched rk)"
    have call: "sw_clear dk (rk_writer rk) now scope key human author reason (rk_latched rk, store)
        = (case store_append dk ?who KILL_SWITCH_CLEARED ?payload None None store of
            (x, store') \<Rightarrow> (res_bind x (\<lambda>_. Inr True), ?latched, store'))"
      using True writer by (simp add: sw_clear_def Let_def)
    have "remembers (dk_str dk) {} (?latched, snd (store_append dk ?who KILL_SWITCH_CLEARED ?payload None None store))"
      using remembers_clear [OF mem scope, of now key human author reason ?who] ok call
      by (simp add: writer split: prod.splits)
    then have "\<exists>store'. store_append dk ?who KILL_SWITCH_CLEARED ?payload None None store = (Inr (), store')
        \<and> risk_synced dk rk0 (rk\<lparr>rk_latched := ?latched\<rparr>, store')"
      using bound keyed
      by (intro synced_append [OF ok sync]) (auto simp: event_update_def risk_fields_def well_keyed_def)
    with call inv True show ?thesis by (auto simp: with_latches_def risk_inv_def)
  qed
qed

lemma inv_do:
  assumes ok: "writes_ok dk" and inv: "risk_inv dk rk0 s" and call: "risk_call_ok c"
  shows "risk_inv dk rk0 (risk_do dk s c)"
    and "\<not> releases i c \<Longrightarrow> map_of (rk_latched (fst s)) i \<noteq> None \<Longrightarrow> map_of (rk_latched (fst (risk_do dk s c))) i \<noteq> None"
proof -
  obtain rk store where s: "s = (rk, store)" by (cases s)
  note inv' = inv [unfolded s]
  have "risk_inv dk rk0 (risk_do dk s c) \<and> (\<not> releases i c \<longrightarrow> map_of (rk_latched (fst s)) i \<noteq> None \<longrightarrow>
      map_of (rk_latched (fst (risk_do dk s c))) i \<noteq> None)"
  proof (cases c)
    case (Begin_session d x)
    with inv_begin_session [OF ok inv', of d x] call s show ?thesis by auto
  next
    case (Check_order od pf oc)
    with inv_check_order [OF ok inv', of od pf oc] s show ?thesis by auto
  next
    case (Check_portfolio now pf prices imap)
    with inv_check_portfolio [OF ok inv', of now pf prices imap] call s show ?thesis
      by (auto simp: keeps_latches_def)
  next
    case (Check_operational now pf oc)
    with inv_check_operational [OF ok inv', of now pf oc] call s show ?thesis
      by (auto simp: keeps_latches_def)
  next
    case (Pull now scope reason key)
    show ?thesis
    proof (cases "scope \<in> set SCOPES")
      case True
      with Pull synced_trigger [OF ok risk_invD(1) [OF inv'], of now scope reason key] call s inv' show ?thesis
        by (auto simp: with_latches_def risk_inv_def keeps_latches_def)
    next
      case False
      with Pull s inv' show ?thesis by (auto simp: with_latches_def sw_trigger_def)
    qed
  next
    case (Release now scope key human author reason)
    with inv_release [OF ok inv', of scope now key human author reason] call s show ?thesis by auto
  qed
  then show "risk_inv dk rk0 (risk_do dk s c)"
    "\<not> releases i c \<Longrightarrow> map_of (rk_latched (fst s)) i \<noteq> None \<Longrightarrow> map_of (rk_latched (fst (risk_do dk s c))) i \<noteq> None"
    by simp_all
qed

lemma inv_run:
  assumes "writes_ok dk" "risk_inv dk rk0 s" "list_all risk_call_ok cs"
  shows "risk_inv dk rk0 (risk_run dk s cs)"
    and "\<not> list_ex (releases i) cs \<Longrightarrow> map_of (rk_latched (fst s)) i \<noteq> None \<Longrightarrow>
      map_of (rk_latched (fst (risk_run dk s cs))) i \<noteq> None"
  using assms(2,3) unfolding risk_run_def
  by (induction cs arbitrary: s) (simp_all add: inv_do [OF assms(1)] del: risk_do.simps not_None_eq)

lemma inv_boot:
  assumes "risk_boot dk limits run_id pid cash fresh_event_store = (Inr (), s)"
  shows "risk_inv dk (fresh_engine limits run_id cash) s"
proof -
  have rem: "remembers (dk_str dk) {} ([], fresh_event_store)"
    using remembers_fresh [of "dk_str dk"] by (simp add: fresh_switch_def fresh_event_store_def)
  have s: "s = (observe_inception_equity cash ((RiskEngine_make limits run_id)
      \<lparr>rk_bound := True, rk_portfolio_id := pid, rk_latched := []\<rparr>), fresh_event_store)"
    using assms by (auto simp: risk_boot_def risk_attach_def bind_state_ledger_def and_then_def RiskEngine_make_def el_read_def
        fresh_event_store_def fresh_switch_def empty_event_file_def)
  show ?thesis unfolding s risk_inv_def risk_synced_def
    using rem by (auto simp: observe_inception_equity_def observe_peak_def RiskEngine_make_def fresh_engine_def
        risk_fields_def well_keyed_def fresh_event_store_def fresh_switch_def empty_event_file_def)
qed

section \<open>Restarts\<close>

lemma update_peak:
  assumes "event_update S e = Inr u"
  shows "risk_fields (u (snd (observe_peak x rk))) = risk_fields (snd (observe_peak x (u rk)))"
proof (cases "pe_event_type e = RISK_STATE_UPDATED")
  case True
  with assms obtain a b c d f where u: "u = note_risk_state a b c d f"
    by (auto simp: event_update_def res_bind_Inr_iff)
  obtain t s h p where "risk_fields rk = (t, s, h, p)" by (cases "risk_fields rk") auto
  then show ?thesis
    by (cases f; cases p) (simp_all add: u note_risk_state_fields observe_peak_fields max.commute max.left_commute)
next
  case False
  have close: "risk_fields (rk\<lparr>rk_last_close := c\<rparr>) = risk_fields rk" for rk c by (simp add: risk_fields_def)
  obtain t s h p where rk: "risk_fields rk = (t, s, h, p)" by (cases "risk_fields rk") auto
  from False assms consider "u = (\<lambda>rk. rk)" | equity where "u = (\<lambda>rk. case equity of
            None \<Rightarrow> rk
          | Some x \<Rightarrow> let day = take 10 (case pe_market_time e of None \<Rightarrow> [] | Some t \<Rightarrow> t)
              in (snd (observe_peak x rk))\<lparr>rk_last_close := Some (if day = [] then None else Some day, x)\<rparr>)"
    by (auto simp: event_update_def res_bind_Inr_iff split: if_splits)
  then show ?thesis
  proof cases
    case 2
    with rk show ?thesis
      by (cases equity; cases p) (simp_all add: Let_def close observe_peak_fields max.commute max.left_commute)
  qed simp
qed

lemma replay_peak:
  assumes "replay_risk S es (snd (observe_peak x rk)) = Inr r"
  shows "\<exists>r2. replay_risk S es rk = Inr r2 \<and> risk_fields r = risk_fields (snd (observe_peak x r2))"
  using assms
proof (induction es arbitrary: rk r)
  case Nil
  then show ?case by auto
next
  case (Cons e es)
  from Cons.prems obtain u where u: "event_update S e = Inr u"
    "replay_risk S es (u (snd (observe_peak x rk))) = Inr r"
    by (auto simp: res_bind_Inr_iff replay_event_update)
  from replay_sim [OF update_peak [OF u(1)] u(2)] obtain r1 where
    r1: "replay_risk S es (snd (observe_peak x (u rk))) = Inr r1" "risk_fields r = risk_fields r1" by blast
  from Cons.IH [OF r1(1)] u(1) r1(2) show ?case by (auto simp: replay_event_update)
qed

lemma inception_fields:
  "risk_fields rk = risk_fields rk2 \<Longrightarrow>
    risk_fields (observe_inception_equity x rk) = risk_fields (observe_inception_equity x rk2)"
  by (simp add: observe_inception_equity_def observe_peak_fields)

lemma restart_restores:
  assumes "risk_inv dk (fresh_engine limits run_id cash) (rk, store)"
  shows "\<exists>rk'. risk_boot dk limits run_id pid cash store = (Inr (), rk', store) \<and> risk_fields rk' = risk_fields rk \<and>
    (\<forall>i. map_of (rk_latched rk') i = map_option norm_record (map_of (rk_latched rk) i))"
proof -
  from assms obtain es rk1 where es: "ef_lines (st_file store) = map Some es"
    and replay: "replay_risk (dk_str dk) es (fresh_engine limits run_id cash) = Inr rk1" "risk_fields rk1 = risk_fields rk"
    by (auto simp: risk_inv_def risk_synced_def)
  have read: "el_read (st_file store) = Inr es"
    using es by (simp add: el_read_def)
  obtain restored where restored: "sw_restore (dk_str dk) es [] = Inr restored"
    "\<forall>i. map_of restored i = map_option norm_record (map_of (rk_latched rk) i)"
    using assms es by (auto simp: risk_inv_def risk_synced_def remembers_def)
  let ?rk = "(RiskEngine_make limits run_id)\<lparr>rk_bound := True, rk_portfolio_id := pid, rk_latched := restored\<rparr>"
  have same: "risk_fields (RiskEngine_make limits run_id) = risk_fields ?rk" by (simp add: risk_fields_def)
  have kept: "replay_risk S es r = Inr r' \<Longrightarrow> rk_latched r' = rk_latched r" for S es r r'
  proof (induction es arbitrary: r)
    case (Cons e es)
    then obtain u where u: "event_update S e = Inr u" "replay_risk S es (u r) = Inr r'"
      by (auto simp: res_bind_Inr_iff replay_event_update)
    have "rk_latched (u r) = rk_latched r"
      using u(1) by (auto simp: event_update_def res_bind_Inr_iff note_risk_state_def observe_peak_def Let_def
          split: if_splits option.splits)
    with Cons.IH [OF u(2)] show ?case by simp
  qed simp
  have "\<exists>rk2. replay_risk (dk_str dk) es ?rk = Inr rk2 \<and> risk_fields (observe_inception_equity cash rk2) = risk_fields rk1"
  proof (cases "0 < cash")
    case True
    with replay(1) have "replay_risk (dk_str dk) es (snd (observe_peak cash (RiskEngine_make limits run_id))) = Inr rk1"
      by (simp add: fresh_engine_def observe_inception_equity_def)
    from replay_peak [OF this] obtain r2 where r2: "replay_risk (dk_str dk) es (RiskEngine_make limits run_id) = Inr r2"
      "risk_fields rk1 = risk_fields (snd (observe_peak cash r2))" by blast
    from replay_sim [OF same r2(1)] r2(2) True inception_fields show ?thesis
      by (metis observe_inception_equity_def)
  next
    case False
    with replay(1) have "replay_risk (dk_str dk) es (RiskEngine_make limits run_id) = Inr rk1"
      by (simp add: fresh_engine_def observe_inception_equity_def)
    from replay_sim [OF same this] False show ?thesis by (auto simp: observe_inception_equity_def)
  qed
  then obtain rk2 where rk2: "replay_risk (dk_str dk) es ?rk = Inr rk2"
    "risk_fields (observe_inception_equity cash rk2) = risk_fields rk1" by blast
  have latched: "rk_latched (observe_inception_equity cash rk2) = restored"
    using kept [OF rk2(1)] by (simp add: observe_inception_equity_def observe_peak_def)
  have boot: "risk_boot dk limits run_id pid cash store = (Inr (), observe_inception_equity cash rk2, store)"
    using read restored(1) rk2(1)
    by (simp add: risk_boot_def risk_attach_def bind_state_ledger_def and_then_def RiskEngine_make_def)
  show ?thesis
    by (intro exI [of _ "observe_inception_equity cash rk2"] conjI boot) (simp_all add: rk2(2) replay(2) latched restored(2))
qed

section \<open>The promises\<close>


definition demo_buy :: paper_order where
  "demo_buy = \<lparr>pa_symbol = ''600000.SH'', pa_side = BUY, pa_quantity = 100, pa_order_type = T_LIMIT,
     pa_limit_price = Some 10, pa_board = ''SH_Main'', pa_order_id = ''o1'', pa_parent_id = None,
     pa_strategy_id = None, pa_state = P_NEW, pa_filled_quantity = 0, pa_filled_notional = 0, pa_fees_paid = 0,
     pa_reject_reason = None, pa_created_at = ''t'', pa_is_full_liquidation = False\<rparr>"

definition demo_context :: order_context where
  "demo_context = \<lparr>oc_reference_price = 10, oc_session_volume = 100000, oc_prices = [], oc_quote_age = Some 0,
     oc_industry = Some ''bank'', oc_industry_weights = Some [], oc_model_approved = None,
     oc_dataset_approved = None\<rparr>"

definition quiet_desk :: desk where
  "quiet_desk = demo_desk\<lparr>dk_env := (\<lambda>n. (W_ok, ''id'', ''2024-01-02''))\<rparr>"


text \<open>C10. With durable writes that succeed, a restart of the paper desk restores the risk engine: from the
  file alone it rebuilds the turnover and the opening equity of every session, the daily-loss halt, the
  highest equity seen and every latched switch.\<close>

theorem risk_state_survives_restart:
  assumes "writes_ok dk" "risk_boot dk limits run_id pid cash fresh_event_store = (Inr (), s0)"
    and "list_all risk_call_ok cs" "risk_run dk s0 cs = (rk, store)"
  shows "\<exists>rk'. risk_boot dk limits run_id pid cash store = (Inr (), rk', store)
    \<and> rk_turnover_by rk' = rk_turnover_by rk \<and> rk_start_by rk' = rk_start_by rk
    \<and> rk_halted rk' = rk_halted rk \<and> rk_peak rk' = rk_peak rk
    \<and> (\<forall>i. map_of (rk_latched rk') i = map_option norm_record (map_of (rk_latched rk) i))"
proof -
  have "risk_inv dk (fresh_engine limits run_id cash) (rk, store)"
    using inv_run(1) [OF assms(1) inv_boot [OF assms(2)] assms(3)] assms(4) by simp
  from restart_restores [OF this, of pid] show ?thesis by (auto simp: risk_fields_def)
qed

definition demo_day :: "risk_call list" where
  "demo_day = [Begin_session ''2024-01-02'' None, Check_order demo_buy (new_portfolio ''p'' 100000) demo_context]"

lemma boot_total: "risk_boot dk limits run_id pid cash fresh_event_store =
  (Inr (), observe_inception_equity cash ((RiskEngine_make limits run_id)
      \<lparr>rk_bound := True, rk_portfolio_id := pid\<rparr>), fresh_event_store)"
  by (simp add: risk_boot_def risk_attach_def bind_state_ledger_def and_then_def RiskEngine_make_def el_read_def
      fresh_event_store_def fresh_switch_def empty_event_file_def)

lemma quiet_writes: "writes_ok quiet_desk"
  by (simp add: writes_ok_def quiet_desk_def)

lemma risk_state_survives_restart_witness:
  "\<exists>rk store rk'. risk_run quiet_desk (snd (risk_boot quiet_desk default_risk_limits ''r'' ''p'' 100000 fresh_event_store)) demo_day
       = (rk, store)
     \<and> risk_boot quiet_desk default_risk_limits ''r'' ''p'' 100000 store = (Inr (), rk', store)
     \<and> rk_peak rk' = rk_peak rk"
proof -
  have calls: "list_all risk_call_ok demo_day" by (simp add: demo_day_def)
  obtain s0 where s0: "risk_boot quiet_desk default_risk_limits ''r'' ''p'' 100000 fresh_event_store = (Inr (), s0)"
    by (simp add: boot_total)
  obtain rk store where run: "risk_run quiet_desk s0 demo_day = (rk, store)"
    by (cases "risk_run quiet_desk s0 demo_day")
  from risk_state_survives_restart [OF quiet_writes s0 calls run] s0 run show ?thesis by auto
qed

lemma portfolio_switch:
  "scope \<in> set SCOPES \<Longrightarrow> switch_id SCOPE_PORTFOLIO None = switch_id scope key \<Longrightarrow> scope = SCOPE_PORTFOLIO"
  by (auto simp: scope_defs switch_id_def)

text \<open>C31. A breached drawdown stops the buying.  Once a valuation finds the equity below the limit under
  the highest equity seen, no buy is approved after any further calls but a human release of that switch, and
  a restart of the desk is no way around it.\<close>

theorem drawdown_stops_buys:
  assumes ok: "writes_ok dk" and boot: "risk_boot dk limits run_id pid cash fresh_event_store = (Inr (), s0)"
    and cs: "list_all risk_call_ok cs" "risk_run dk s0 cs = (rk, store)"
    and breach: "now \<noteq> []" "pt_equity pf prices = Inr e"
      "rl_max_drawdown (rk_limits rk) < drawdown_now rk (max e (1 / 10 ^ 9))"
    and later: "list_all risk_call_ok cs'" "\<not> list_ex (releases (switch_id SCOPE_PORTFOLIO None)) cs'"
      "risk_run dk (rk, store) (Check_portfolio now pf prices imap # cs') = (rk', store')"
    and order: "pa_side od = BUY"
      "check_order dk od pf' oc (rk', store') = (Inr verdict, w) \<or>
       check_order dk od pf' oc (snd (risk_boot dk limits run_id pid cash store')) = (Inr verdict, w)"
  shows "\<not> rv_approved verdict"
proof -
  let ?i = "switch_id SCOPE_PORTFOLIO None" and ?rk0 = "fresh_engine limits run_id cash"
  have inv: "risk_inv dk ?rk0 (rk, store)"
    using inv_run(1) [OF ok inv_boot [OF boot] cs(1)] cs(2) by simp
  from inv_check_portfolio [OF ok inv breach(1), of pf prices imap] breach obtain rk1 store1 where
    one: "risk_do dk (rk, store) (Check_portfolio now pf prices imap) = (rk1, store1)" "risk_inv dk ?rk0 (rk1, store1)"
    "map_of (rk_latched rk1) ?i \<noteq> None" by auto
  have run: "risk_run dk (rk1, store1) cs' = (rk', store')" using later(3) one(1) by (simp add: risk_run_def)
  have inv': "risk_inv dk ?rk0 (rk', store')" and latched: "map_of (rk_latched rk') ?i \<noteq> None"
    using inv_run [OF ok one(2) later(1)] later(2) one(3) run by auto
  have portfolio: "\<exists>r. map_of (rk_latched rk') ?i = Some r \<and> sr_scope r = SCOPE_PORTFOLIO"
    using latched inv' by (auto simp: risk_inv_def risk_synced_def well_keyed_def dest: portfolio_switch)
  from restart_restores [OF inv', of pid] obtain rk2 where
    two: "risk_boot dk limits run_id pid cash store' = (Inr (), rk2, store')"
    "map_of (rk_latched rk2) ?i = map_option norm_record (map_of (rk_latched rk') ?i)" by blast
  have refused: "\<not> rv_approved verdict" if "check_order dk od pf' oc (rk3, store3) = (Inr verdict, w)"
    "\<exists>r. map_of (rk_latched rk3) ?i = Some r \<and> sr_scope r = SCOPE_PORTFOLIO" for rk3 store3
  proof
    assume "rv_approved verdict"
    with that(1) have "blocking (pa_side od = BUY) (pa_strategy_id od) (rk_latched rk3) = []"
      by (cases w) (auto dest: check_order_approved(1) passed_within_limits(2))
    with that(2) order(1) show False
      by (force simp: blocking_def sw_active_def blocks_def filter_empty_conv dest: map_of_SomeD)
  qed
  from order(2) show ?thesis
  proof
    assume "check_order dk od pf' oc (rk', store') = (Inr verdict, w)"
    from refused [OF this portfolio] show ?thesis .
  next
    assume "check_order dk od pf' oc (snd (risk_boot dk limits run_id pid cash store')) = (Inr verdict, w)"
    moreover have "sr_scope (norm_record r) = sr_scope r" for r by (simp add: norm_record_def)
    ultimately show ?thesis using two portfolio by (intro refused [of rk2 store']) auto
  qed
qed

lemma drawdown_stops_buys_witness:
  "case check_order quiet_desk demo_buy (new_portfolio ''p'' 70000) demo_context
     (risk_run quiet_desk (snd (risk_boot quiet_desk default_risk_limits ''r'' ''p'' 100000 fresh_event_store))
        [Check_portfolio ''t'' (new_portfolio ''p'' 70000) [] []]) of
     (Inr verdict, w) \<Rightarrow> \<not> rv_approved verdict | _ \<Rightarrow> False"
proof -
  let ?pf = "new_portfolio ''p'' 70000"
  let ?rk = "observe_inception_equity 100000 ((RiskEngine_make default_risk_limits ''r'')
      \<lparr>rk_bound := True, rk_portfolio_id := ''p''\<rparr>)"
  note boot = boot_total [of quiet_desk default_risk_limits "''r''" "''p''" 100000]
  have idle: "risk_run quiet_desk (?rk, fresh_event_store) [] = (?rk, fresh_event_store)" by (simp add: risk_run_def)
  have equity: "pt_equity ?pf [] = Inr 70000"
    by (simp add: pt_equity_def pt_market_value_def held_sum_def pt_unpriceable_def new_portfolio_def)
  have breach: "rl_max_drawdown (rk_limits ?rk) < drawdown_now ?rk (max 70000 (1 / 10 ^ 9))"
    by (simp add: drawdown_now_def observe_inception_equity_def observe_peak_def RiskEngine_make_def
        default_risk_limits_def Let_def)
  obtain rk' store' where run: "risk_run quiet_desk (?rk, fresh_event_store) [Check_portfolio ''t'' ?pf [] []] = (rk', store')"
    by (cases "risk_run quiet_desk (?rk, fresh_event_store) [Check_portfolio ''t'' ?pf [] []]")
  have buy: "pa_side demo_buy = BUY" by (simp add: demo_buy_def)
  have refused: "\<not> rv_approved verdict"
    if "check_order quiet_desk demo_buy ?pf demo_context (rk', store') = (Inr verdict, w)" for verdict w
    by (rule drawdown_stops_buys [OF quiet_writes boot _ idle _ equity breach _ _ run buy disjI1 [OF that]]) simp_all
  have "risk_inv quiet_desk (fresh_engine default_risk_limits ''r'' 100000) (rk', store')"
    using inv_run(1) [OF quiet_writes inv_boot [OF boot], of "[Check_portfolio ''t'' ?pf [] []]"] run by simp
  from inv_check_order [OF quiet_writes this, of demo_buy ?pf demo_context] refused run boot
  show ?thesis by auto
qed

end
