(* ===== verification/Paper_Broker.thy ===== *)
theory Paper_Broker
  imports Paper_Risk_Run Ledger Market_Rules
begin

text \<open>
  The paper venue, class \<open>PaperBroker\<close> of \<open>src/src/quantagent/paper/broker.py\<close>, and the session calendar of
  \<open>src/src/quantagent/data/microstructure/contracts.py\<close>: it validates an order, fills it at once, books the fill
  in the live portfolio and mirrors every economic step on the canonical ledger.

  A trade date is a day number and a quote's clock is a second of its day, so the time of a quote can always
  be read.  \<open>venue\<close> holds what does not change and the surroundings: \<open>vn_canon n\<close> is what the \<open>n\<close>-th
  canonical step meets (whether a durable write succeeds, the clocks of book and ledger), \<open>vn_text\<close> renders a
  refusal, \<open>vn_power\<close> is the power \<open>x ** 0.5\<close>.  An operation returns its outcome with the broker it leaves; an
  order is an object the broker keeps, so each change of it is stored under its identifier.
\<close>

section \<open>Session calendar\<close>

datatype session_phase =
    Opening_auction | Pre_open_quiet | Continuous_am | Lunch_break | Continuous_pm | Closing_auction
  | After_hours | Post_close | Closed

text \<open>Windows in minutes of the day, closed below and open above.\<close>

definition SESSION_WINDOWS :: "(int \<times> int \<times> session_phase) list" where
  "SESSION_WINDOWS =
     [(9*60 + 15, 9*60 + 20, Opening_auction), (9*60 + 20, 9*60 + 25, Pre_open_quiet),
      (9*60 + 25, 9*60 + 30, Pre_open_quiet), (9*60 + 30, 11*60 + 31, Continuous_am),
      (11*60 + 31, 13*60, Lunch_break), (13*60, 14*60 + 57, Continuous_pm),
      (14*60 + 57, 15*60 + 1, Closing_auction)]"

definition STAR_AFTER_HOURS :: "int \<times> int" where "STAR_AFTER_HOURS = (15*60 + 5, 15*60 + 30)"
definition POST_CLOSE_WINDOW :: "int \<times> int" where "POST_CLOSE_WINDOW = (15*60 + 1, 15*60 + 35)"

definition CONTINUOUS_PHASES :: "session_phase list" where
  "CONTINUOUS_PHASES = [Continuous_am, Continuous_pm]"

definition AUCTION_PHASES :: "session_phase list" where
  "AUCTION_PHASES = [Opening_auction, Pre_open_quiet, Closing_auction]"

definition phase_at :: "int \<Rightarrow> string \<Rightarrow> session_phase" where
  "phase_at minute board =
     (case find (\<lambda>(start, stop, phase). start \<le> minute \<and> minute < stop) SESSION_WINDOWS of
        Some (start, stop, phase) \<Rightarrow> phase
      | None \<Rightarrow>
          if board = STAR \<and> fst STAR_AFTER_HOURS \<le> minute \<and> minute < snd STAR_AFTER_HOURS then After_hours
          else if fst POST_CLOSE_WINDOW \<le> minute \<and> minute < snd POST_CLOSE_WINDOW then Post_close
          else Closed)"

section \<open>Market snapshots\<close>

record market_snapshot =
  ms_symbol :: string
  ms_trade_date :: int
  ms_last_price :: rat
  ms_previous_close :: rat
  ms_session_volume :: rat
  ms_board :: string
  ms_clock :: int
  ms_is_suspended :: bool
  ms_is_st :: bool
  ms_sessions_since_listing :: "int option"
  ms_high :: "rat option"
  ms_low :: "rat option"

text \<open>The fields that cannot be priced against; a snapshot without any is valid.\<close>

definition invalid_fields :: "market_snapshot \<Rightarrow> string list" where
  "invalid_fields m =
     (if ms_last_price m \<le> 0 then [''last_price''] else [])
     @ (if ms_previous_close m \<le> 0 then [''previous_close''] else [])
     @ (if ms_session_volume m < 0 then [''session_volume''] else [])
     @ (case ms_high m of None \<Rightarrow> [] | Some x \<Rightarrow> if x \<le> 0 then [''high''] else [])
     @ (case ms_low m of None \<Rightarrow> [] | Some x \<Rightarrow> if x \<le> 0 then [''low''] else [])"

definition MarketSnapshot_make :: "market_snapshot \<Rightarrow> market_snapshot res" where
  "MarketSnapshot_make m = (if invalid_fields m \<noteq> [] then Inl InvalidMarketSnapshot else Inr m)"

definition ms_limits :: "market_snapshot \<Rightarrow> price_band res" where
  "ms_limits m = price_limits (ms_board m) (ms_previous_close m) (Some (ms_trade_date m))
     (ms_sessions_since_listing m) (ms_is_st m)"

definition at_limit_up :: "market_snapshot \<Rightarrow> price_band \<Rightarrow> bool" where
  "at_limit_up m p \<longleftrightarrow> (case pb_limit_up p of None \<Rightarrow> False | Some u \<Rightarrow> u - 1 / 10 ^ 9 \<le> ms_last_price m)"

definition at_limit_down :: "market_snapshot \<Rightarrow> price_band \<Rightarrow> bool" where
  "at_limit_down m p \<longleftrightarrow> (case pb_limit_down p of None \<Rightarrow> False | Some d \<Rightarrow> ms_last_price m \<le> d + 1 / 10 ^ 9)"

definition ms_phase :: "market_snapshot \<Rightarrow> session_phase" where
  "ms_phase m = phase_at (ms_clock m div 60) (ms_board m)"

text \<open>The second of the quote, counted from a fixed day.\<close>

definition observed_at :: "market_snapshot \<Rightarrow> int" where
  "observed_at m = ms_trade_date m * 86400 + ms_clock m"

definition clock_of_day :: "int \<Rightarrow> string" where
  "clock_of_day t = zero_pad 2 (nat (t div 3600)) @ '':'' @ zero_pad 2 (nat (t mod 3600 div 60)) @ '':''
     @ zero_pad 2 (nat (t mod 60))"

definition ms_session :: "market_snapshot \<Rightarrow> string" where
  "ms_session m = date_isoformat (ms_trade_date m)"

section \<open>The venue and its state\<close>

record broker_config =
  bc_participation_cap :: rat
  bc_commission_rate :: rat
  bc_slippage_bps :: rat
  bc_impact_coefficient :: rat
  bc_allow_st_buy :: bool

definition default_broker_config :: broker_config where
  "default_broker_config = \<lparr>bc_participation_cap = 1/10, bc_commission_rate = DEFAULT_COMMISSION_RATE,
     bc_slippage_bps = 5, bc_impact_coefficient = 1/10, bc_allow_st_buy = False\<rparr>"

datatype refusal =
    Kill_switch_active string
  | Market_data_invalid "string list"
  | Outside_session session_phase
  | Untradable "block_reason list"
  | St_blocked
  | Below_minimum_lot
  | Above_ceiling
  | Below_floor
  | Exceeds_settled
  | Portfolio_risk "string list"
  | Cannot_book exn

record venue =
  vn_desk :: desk
  vn_chain :: chain_digest
  vn_digest :: digest
  vn_canon :: "nat \<Rightarrow> bool \<times> string \<times> string"
  vn_stamp :: "nat \<Rightarrow> string"
  vn_text :: "refusal \<Rightarrow> string"
  vn_power :: "rat \<Rightarrow> rat"
  vn_config :: broker_config
  vn_run_id :: string
  vn_lineage :: lineage
  vn_industry_map :: "(string, string) dict"

record broker =
  br_portfolio :: portfolio
  br_store :: event_store
  br_risk :: "risk_engine option"
  br_latched :: latches
  br_book :: order_book
  br_ledger :: ledger
  br_steps :: nat
  br_orders :: "(string, paper_order) dict"
  br_fills :: "paper_fill list"
  br_fill_ids :: "string list"
  br_marks :: marks
  br_mark_times :: "(string, int) dict"
  br_clock :: "int option"
  br_session :: "string option"
  br_canonical_ids :: "(string, string) dict"
  br_last_decision :: "risk_verdict option"

type_synonym 'a step = "'a res \<times> broker"

text \<open>
  A venue on a canonical ledger: without a book it starts from the one the ledger records; the switch is the
  risk engine's when there is one, else its own, restored from the events.
\<close>

definition PaperBroker_make ::
    "venue \<Rightarrow> portfolio \<Rightarrow> event_store \<Rightarrow> risk_engine option \<Rightarrow> ledger \<Rightarrow> order_book option \<Rightarrow> broker res" where
  "PaperBroker_make vn pf store rk led book =
     res_bind (case book of
         Some b \<Rightarrow> Inr b
       | None \<Rightarrow> if led_records led \<noteq> [] then replay_book (vn_chain vn) (vn_digest vn) (vn_stamp vn) led
                else Inr empty_book) (\<lambda>b.
     let br = \<lparr>br_portfolio = pf, br_store = store, br_risk = None, br_latched = [], br_book = b, br_ledger = led,
               br_steps = 0, br_orders = [], br_fills = [], br_fill_ids = [], br_marks = [], br_mark_times = [],
               br_clock = None, br_session = None, br_canonical_ids = [], br_last_decision = None\<rparr>
     in case rk of
          Some engine \<Rightarrow>
            (case risk_attach (vn_desk vn) (pt_portfolio_id pf) (pt_initial_cash pf) (engine, store) of
               (Inl e, s) \<Rightarrow> Inl e
             | (Inr u, engine, store) \<Rightarrow> Inr (br\<lparr>br_risk := Some engine, br_store := store\<rparr>))
        | None \<Rightarrow>
            res_bind (el_read (st_file store)) (\<lambda>events.
            res_bind (sw_restore (dk_str (vn_desk vn)) events []) (\<lambda>latched.
              Inr (br\<lparr>br_latched := latched\<rparr>))))"

definition put_order :: "paper_order \<Rightarrow> broker \<Rightarrow> broker" where
  "put_order od br = br\<lparr>br_orders := AList.update (pa_order_id od) od (br_orders br)\<rparr>"

definition move_order :: "paper_status \<Rightarrow> paper_order \<Rightarrow> broker \<Rightarrow> paper_order step" where
  "move_order t od br = pure_then (paper_transition t od) (\<lambda>od. (Inr od, put_order od br)) br"

definition br_emit ::
    "venue \<Rightarrow> paper_event_type \<Rightarrow> json \<Rightarrow> string option \<Rightarrow> string option \<Rightarrow> broker \<Rightarrow> unit step" where
  "br_emit vn t payload symbol market_time br =
     (case store_append (vn_desk vn) (vn_run_id vn, pt_portfolio_id (br_portfolio br)) t payload symbol market_time
             (br_store br) of
        (r, store) \<Rightarrow> (r, br\<lparr>br_store := store\<rparr>))"

section \<open>The canonical mirror\<close>

definition canonical_mirror ::
    "venue \<Rightarrow> string \<Rightarrow> order_event_type \<Rightarrow> string option \<Rightarrow> fill option \<Rightarrow> string option \<Rightarrow> broker \<Rightarrow> unit step" where
  "canonical_mirror vn cid t trade_date f reason br =
     (case vn_canon vn (br_steps br) of (ok, now, now') \<Rightarrow>
      case mirror_event (vn_chain vn) ok now now' cid t trade_date f reason None (br_book br, br_ledger br) of
        (r, book, led) \<Rightarrow>
          (res_bind r (\<lambda>_. Inr ()), br\<lparr>br_book := book, br_ledger := led, br_steps := br_steps br + 1\<rparr>))"

text \<open>\<open>book.apply\<close> and then an append of the last event of the order, whatever the application did.\<close>

definition canonical_apply ::
    "venue \<Rightarrow> string \<Rightarrow> order_event_type \<Rightarrow> risk_decision option \<Rightarrow> string \<Rightarrow> broker \<Rightarrow> unit step" where
  "canonical_apply vn cid t rd session br =
     (case vn_canon vn (br_steps br) of (ok, now, now') \<Rightarrow>
      case OrderBook_apply now cid t None None rd (br_book br) of
        Inl e \<Rightarrow> (Inl e, br)
      | Inr (od, book) \<Rightarrow>
          (case append (vn_chain vn) ok now' (Some (last (history_of book cid))) (Some session) None None (br_ledger br) of
             (r, led) \<Rightarrow>
               (res_bind r (\<lambda>_. Inr ()), br\<lparr>br_book := book, br_ledger := led, br_steps := br_steps br + 1\<rparr>)))"

definition canonical_intent :: "venue \<Rightarrow> string \<Rightarrow> paper_order \<Rightarrow> string \<Rightarrow> order_intent res" where
  "canonical_intent vn now od session =
     OrderIntent_create (vn_digest vn) now (pa_symbol od) (pa_side od) (py_int (pa_quantity od)) session
       (sig_lineage (Signal_create (vn_digest vn) now (pa_symbol od) (session @ ''-'' @ pa_order_id od) 0 (vn_lineage vn)))
       (pa_limit_price od) (pa_limit_price od)"

definition canonical_open :: "venue \<Rightarrow> paper_order \<Rightarrow> string \<Rightarrow> broker \<Rightarrow> unit step" where
  "canonical_open vn od session br =
     (case vn_canon vn (br_steps br) of (ok, now, now') \<Rightarrow>
      pure_then (canonical_intent vn now od session) (\<lambda>intent.
        case mirror_open (vn_chain vn) (vn_digest vn) ok now now' intent (Some session) None (br_book br, br_ledger br) of
          (r, book, led) \<Rightarrow>
            (let br = br\<lparr>br_book := book, br_ledger := led, br_steps := br_steps br + 1\<rparr> in
             pure_then r (\<lambda>canonical.
               let cid = ord_order_id canonical;
                   br = br\<lparr>br_canonical_ids := AList.update (pa_order_id od) cid (br_canonical_ids br)\<rparr>;
                   decision = RiskDecision_create (vn_digest vn) now True ''paper_pretrade'' (JStr ''board+cash+t+1'')
                     (JStr ''passed'') ''passed paper validation'' (ord_lineage canonical) ''risk_engine''
               in and_then (canonical_apply vn cid Ev_RISK_APPROVED (Some decision) session br) (\<lambda>_ br.
                  canonical_apply vn cid Ev_SUBMITTED None session br)) br)) br)"

text \<open>A step of an order that has no canonical counterpart is not mirrored.\<close>

definition canonical_event ::
    "venue \<Rightarrow> paper_order \<Rightarrow> order_event_type \<Rightarrow> string option \<Rightarrow> string option \<Rightarrow> broker \<Rightarrow> unit step" where
  "canonical_event vn od t reason trade_date br =
     (case map_of (br_canonical_ids br) (pa_order_id od) of
        None \<Rightarrow> (Inr (), br)
      | Some cid \<Rightarrow> canonical_mirror vn cid t trade_date None reason br)"

definition economic_fill :: "paper_order \<Rightarrow> paper_fill \<Rightarrow> string \<Rightarrow> order \<Rightarrow> string \<Rightarrow> fill res" where
  "economic_fill od f cid canonical session =
     res_bind (derive (ord_lineage canonical) [(''execution_id'', Some (pf_fill_id f))]) (\<lambda>L.
       Inr \<lparr>fill_execution_id = pf_fill_id f, fill_order_id = cid, fill_symbol = pf_symbol f, fill_side = pf_side f,
            fill_quantity = py_int (pf_quantity f), fill_price = pf_price f,
            fill_reference_price = Some (case pa_limit_price od of
                None \<Rightarrow> pf_price f | Some l \<Rightarrow> if l = 0 then pf_price f else l),
            fill_commission = pf_commission f, fill_stamp_duty = pf_stamp_duty f,
            fill_transfer_fee = pf_transfer_fee f, fill_filled_at = session, fill_lineage = L\<rparr>)"

definition canonical_fill :: "venue \<Rightarrow> paper_order \<Rightarrow> paper_fill \<Rightarrow> string \<Rightarrow> broker \<Rightarrow> unit step" where
  "canonical_fill vn od f session br =
     (case map_of (br_canonical_ids br) (pa_order_id od) of
        None \<Rightarrow> (Inr (), br)
      | Some cid \<Rightarrow>
          pure_then (res_bind (state_of (br_book br) cid) (\<lambda>canonical.
              res_bind (economic_fill od f cid canonical session) (\<lambda>economic. Inr (canonical, economic))))
            (\<lambda>(canonical, economic).
              let total = ord_filled_quantity canonical + fill_quantity economic;
                  t = (if ord_quantity canonical \<le> total then Ev_FILL else Ev_PARTIAL_FILL)
              in canonical_mirror vn cid t (Some session) (Some economic) None br) br)"

section \<open>The kill switch of the venue\<close>

definition br_latches :: "broker \<Rightarrow> latches" where
  "br_latches br = (case br_risk br of None \<Rightarrow> br_latched br | Some rk \<Rightarrow> rk_latched rk)"

definition br_writer :: "venue \<Rightarrow> broker \<Rightarrow> writer option" where
  "br_writer vn br = (case br_risk br of
       None \<Rightarrow> Some (vn_run_id vn, pt_portfolio_id (br_portfolio br))
     | Some rk \<Rightarrow> rk_writer rk)"

definition set_latches :: "latches \<times> event_store \<Rightarrow> broker \<Rightarrow> broker" where
  "set_latches s br = (case br_risk br of
       None \<Rightarrow> br\<lparr>br_latched := fst s, br_store := snd s\<rparr>
     | Some rk \<Rightarrow> br\<lparr>br_risk := Some (rk\<lparr>rk_latched := fst s\<rparr>), br_store := snd s\<rparr>)"

definition arm_kill_switch :: "venue \<Rightarrow> string \<Rightarrow> string \<Rightarrow> broker \<Rightarrow> unit step" where
  "arm_kill_switch vn scope reason br =
     br_emit vn KILL_SWITCH_ARMED (JObj [(''scope'', JStr scope), (''reason'', JStr reason)]) None None br"

definition trigger_kill_switch :: "venue \<Rightarrow> string \<Rightarrow> string \<Rightarrow> broker \<Rightarrow> unit step" where
  "trigger_kill_switch vn reason scope br =
     (case sw_trigger (vn_desk vn) (br_writer vn br) (vn_stamp vn (st_calls (br_store br))) scope reason None
             (br_latches br, br_store br) of
        (r, s) \<Rightarrow> (res_bind r (\<lambda>_. Inr ()), set_latches s br))"

definition clear_kill_switch :: "venue \<Rightarrow> string \<Rightarrow> string option \<Rightarrow> bool \<Rightarrow> broker \<Rightarrow> bool step" where
  "clear_kill_switch vn scope key human_confirmation br =
     (case sw_clear (vn_desk vn) (br_writer vn br) (vn_stamp vn (st_calls (br_store br))) scope key human_confirmation
             None None (br_latches br, br_store br) of
        (r, s) \<Rightarrow> (r, set_latches s br))"

definition killed :: "broker \<Rightarrow> bool" where
  "killed br \<longleftrightarrow> (\<exists>r\<in>set (sw_active (br_latches br)). sr_scope r = SCOPE_GLOBAL)"

definition kill_reason :: "broker \<Rightarrow> string option" where
  "kill_reason br = (case sw_active (br_latches br) of [] \<Rightarrow> None | r # rs \<Rightarrow> Some (sr_reason r))"

end
