(* ===== verification/Paper_Venue.thy ===== *)
theory Paper_Venue
  imports Paper_Broker
begin

text \<open>
  The operations of \<open>PaperBroker\<close> (\<open>src/src/quantagent/paper/broker.py\<close>): marks and sessions, validation,
  submission with its immediate fill, execution reports, cancellation, corporate actions and the close of a
  session.  \<open>uid\<close> is the identifier a new fill draws, \<open>wall\<close> the date on the wall clock, read where a
  caller gives no session.
\<close>

section \<open>Marks and sessions\<close>

definition br_check_portfolio :: "venue \<Rightarrow> broker \<Rightarrow> risk_verdict option step" where
  "br_check_portfolio vn br =
     (case br_risk br of
        None \<Rightarrow> (Inr None, br)
      | Some rk \<Rightarrow>
          (case check_portfolio (vn_desk vn) (vn_stamp vn (st_calls (br_store br))) (br_portfolio br) (br_marks br)
                  (vn_industry_map vn) (rk, br_store br) of
             (r, rk, store) \<Rightarrow>
               (res_bind r (\<lambda>v. Inr (Some v)), br\<lparr>br_risk := Some rk, br_store := store\<rparr>)))"

definition opening_equity :: "string \<Rightarrow> broker \<Rightarrow> rat option" where
  "opening_equity session br =
     (if (case br_session br of None \<Rightarrow> False | Some d \<Rightarrow> session \<le> d) then None
      else case pt_equity (br_portfolio br) (br_marks br) of Inl e \<Rightarrow> None | Inr x \<Rightarrow> Some x)"

definition record_mark :: "string \<Rightarrow> rat \<Rightarrow> int \<Rightarrow> broker \<Rightarrow> broker" where
  "record_mark symbol price stamp br =
     (let br = (case map_of (br_mark_times br) symbol of
            Some previous \<Rightarrow>
              if previous \<le> stamp
              then br\<lparr>br_marks := AList.update symbol price (br_marks br),
                      br_mark_times := AList.update symbol stamp (br_mark_times br)\<rparr> else br
          | None \<Rightarrow> br\<lparr>br_marks := AList.update symbol price (br_marks br),
                      br_mark_times := AList.update symbol stamp (br_mark_times br)\<rparr>)
      in if (case br_clock br of None \<Rightarrow> True | Some c \<Rightarrow> c < stamp) then br\<lparr>br_clock := Some stamp\<rparr> else br)"

definition enter_session :: "venue \<Rightarrow> string \<Rightarrow> rat option \<Rightarrow> broker \<Rightarrow> unit step" where
  "enter_session vn session opening br =
     (if (case br_session br of None \<Rightarrow> False | Some d \<Rightarrow> session \<le> d) then (Inr (), br)
      else
        let br = br\<lparr>br_session := Some session\<rparr>
        in case br_risk br of
             None \<Rightarrow> (Inr (), br)
           | Some rk \<Rightarrow>
               (case begin_session (vn_desk vn) session opening (rk, br_store br) of
                  (r, rk, store) \<Rightarrow>
                    and_then (r, br\<lparr>br_risk := Some rk, br_store := store\<rparr>) (\<lambda>_ br.
                    and_then (br_check_portfolio vn br) (\<lambda>_ br. (Inr (), br)))))"

definition observe :: "venue \<Rightarrow> market_snapshot \<Rightarrow> broker \<Rightarrow> unit step" where
  "observe vn m br =
     (if invalid_fields m \<noteq> [] then (Inr (), br)
      else enter_session vn (ms_session m) (opening_equity (ms_session m) br)
             (record_mark (ms_symbol m) (ms_last_price m) (observed_at m) br))"

definition observe_marks :: "venue \<Rightarrow> marks \<Rightarrow> int \<Rightarrow> int \<Rightarrow> broker \<Rightarrow> unit step" where
  "observe_marks vn prices day t br =
     enter_session vn (date_isoformat day) (opening_equity (date_isoformat day) br)
       (fold (\<lambda>(symbol, price) br. if 0 < price then record_mark symbol price (day * 86400 + t) br else br) prices br)"

definition quote_age_seconds :: "market_snapshot \<Rightarrow> broker \<Rightarrow> rat" where
  "quote_age_seconds m br =
     (case br_clock br of
        None \<Rightarrow> 0
      | Some c \<Rightarrow> if c \<le> observed_at m then 0 else of_int (c - observed_at m))"

definition UNKNOWN_INDUSTRY :: string where
  "UNKNOWN_INDUSTRY = ''__unknown__''"

definition industry_weights :: "venue \<Rightarrow> marks \<Rightarrow> broker \<Rightarrow> (string, rat) dict option" where
  "industry_weights vn prices br =
     (case pt_equity (br_portfolio br) prices of
        Inl e \<Rightarrow> None
      | Inr x \<Rightarrow>
          Some (foldl (\<lambda>weights (symbol, p).
              let i = dict_get (vn_industry_map vn) symbol UNKNOWN_INDUSTRY
              in AList.update i (dict_get weights i 0
                   + \<bar>pp_market_value (dict_get prices symbol 0) p\<bar> / max x (1 / 10 ^ 9)) weights)
            [] (filter (\<lambda>(symbol, p). \<not> is_flat p) (pt_positions (br_portfolio br)))))"

section \<open>Validation\<close>

definition br_reject :: "venue \<Rightarrow> paper_order \<Rightarrow> refusal \<Rightarrow> market_snapshot \<Rightarrow> broker \<Rightarrow> paper_order step" where
  "br_reject vn od reason m br =
     (let od = od\<lparr>pa_reject_reason := Some (vn_text vn reason)\<rparr> in
      and_then (move_order P_REJECTED od (put_order od br)) (\<lambda>od br.
      and_then (canonical_event vn od Ev_REJECTED (Some (vn_text vn reason)) (Some (ms_session m)) br) (\<lambda>_ br.
        (Inr od, br))))"

definition risk_context :: "venue \<Rightarrow> paper_order \<Rightarrow> market_snapshot \<Rightarrow> broker \<Rightarrow> order_context" where
  "risk_context vn od m br =
     (let prices = set_default (pa_symbol od) (ms_last_price m) (br_marks br) in
      \<lparr>oc_reference_price = ms_last_price m, oc_session_volume = ms_session_volume m, oc_prices = prices,
       oc_quote_age = Some (quote_age_seconds m br), oc_industry = map_of (vn_industry_map vn) (pa_symbol od),
       oc_industry_weights = industry_weights vn prices br, oc_model_approved = None, oc_dataset_approved = None\<rparr>)"

definition portfolio_refusal :: "venue \<Rightarrow> paper_order \<Rightarrow> market_snapshot \<Rightarrow> broker \<Rightarrow> refusal option step" where
  "portfolio_refusal vn od m br =
     (case br_risk br of
        None \<Rightarrow> (Inr None, br)
      | Some rk \<Rightarrow>
          (case check_order (vn_desk vn) od (br_portfolio br) (risk_context vn od m br) (rk, br_store br) of
             (r, rk, store) \<Rightarrow>
               and_then (r, br\<lparr>br_risk := Some rk, br_store := store\<rparr>) (\<lambda>verdict br.
                 (Inr (if rv_approved verdict then None else Some (Portfolio_risk (rv_failed verdict))),
                  br\<lparr>br_last_decision := Some verdict\<rparr>))))"

definition price_refusal :: "paper_order \<Rightarrow> price_band \<Rightarrow> refusal option" where
  "price_refusal od p =
     (case pa_limit_price od of
        None \<Rightarrow> None
      | Some l \<Rightarrow>
          if unlimited p then None
          else if (case pb_limit_up p of None \<Rightarrow> False | Some u \<Rightarrow> u + 1 / 10 ^ 9 < l) then Some Above_ceiling
          else if (case pb_limit_down p of None \<Rightarrow> False | Some d \<Rightarrow> l < d - 1 / 10 ^ 9) then Some Below_floor
          else None)"

definition acquired_today :: "paper_order \<Rightarrow> paper_position \<Rightarrow> bool" where
  "acquired_today od p \<longleftrightarrow> pa_side od = SELL \<and> pp_sellable p < pa_quantity od \<and> 0 < pp_pending p"

definition venue_verdict :: "paper_order \<Rightarrow> market_snapshot \<Rightarrow> price_band \<Rightarrow> paper_position \<Rightarrow> tradability_verdict" where
  "venue_verdict od m p holding =
     tradability (ms_is_suspended m) (at_limit_up m p) (at_limit_down m p) False (acquired_today od holding)"

text \<open>The order comes back at its lot size; a refusal after the rounding keeps the rounded quantity too.\<close>

definition validate :: "venue \<Rightarrow> paper_order \<Rightarrow> market_snapshot \<Rightarrow> broker \<Rightarrow> (refusal option \<times> paper_order) step" where
  "validate vn od m br =
     (case blocking (pa_side od = BUY) (pa_strategy_id od) (br_latches br) of
        r # rs \<Rightarrow> (Inr (Some (Kill_switch_active (sr_reason r)), od), br)
      | [] \<Rightarrow>
      if invalid_fields m \<noteq> [] then (Inr (Some (Market_data_invalid (invalid_fields m)), od), br)
      else if ms_phase m \<notin> set CONTINUOUS_PHASES \<and> ms_phase m \<notin> set AUCTION_PHASES then
        (Inr (Some (Outside_session (ms_phase m)), od), br)
      else case pt_position (pa_symbol od) (br_portfolio br) of (holding, pf) \<Rightarrow>
        let br = br\<lparr>br_portfolio := pf\<rparr> in
        pure_then (ms_limits m) (\<lambda>p.
        let verdict = venue_verdict od m p holding in
        if pa_side od = BUY \<and> \<not> tv_can_buy verdict \<or> pa_side od = SELL \<and> \<not> tv_can_sell verdict then
          (Inr (Some (Untradable (tv_reasons verdict)), od), br)
        else if pa_side od = BUY \<and> ms_is_st m \<and> \<not> bc_allow_st_buy (vn_config vn) then (Inr (Some St_blocked, od), br)
        else
          let sized = round_to_lot (pa_quantity od) (pa_board od) (side_value (pa_side od)) (pa_is_full_liquidation od) in
          if sized \<le> 0 then (Inr (Some Below_minimum_lot, od), br)
          else
            let od = od\<lparr>pa_quantity := of_int sized\<rparr>; br = put_order od br in
            case price_refusal od p of
              Some reason \<Rightarrow> (Inr (Some reason, od), br)
            | None \<Rightarrow>
                if pa_side od = SELL \<and> 1 / 10 ^ 9 < pa_quantity od - pt_sellable (br_portfolio br) (pa_symbol od)
                then (Inr (Some Exceeds_settled, od), br)
                else and_then (portfolio_refusal vn od m br) (\<lambda>reason br. (Inr (reason, od), br))) br)"

section \<open>Fills\<close>

text \<open>Booking a fill: the portfolio first, then the canonical record, then the order.\<close>

definition filled_order :: "paper_fill \<Rightarrow> paper_order \<Rightarrow> paper_order" where
  "filled_order f od = od\<lparr>pa_filled_quantity := pa_filled_quantity od + pf_quantity f,
     pa_filled_notional := pa_filled_notional od + pf_notional f, pa_fees_paid := pa_fees_paid od + pf_fees f\<rparr>"

definition apply_execution_report ::
    "venue \<Rightarrow> string \<Rightarrow> paper_order \<Rightarrow> paper_fill \<Rightarrow> string option \<Rightarrow> broker \<Rightarrow> (bool \<times> paper_order) step" where
  "apply_execution_report vn wall od f trade_date br =
     (if pf_fill_id f \<in> set (br_fill_ids br) then (Inr (False, od), br)
      else case pt_apply_fill f (br_portfolio br) of
        (Inl e, pf) \<Rightarrow> (Inl e, br\<lparr>br_portfolio := pf\<rparr>)
      | (Inr u, pf) \<Rightarrow>
          let br = br\<lparr>br_portfolio := pf, br_fill_ids := List.insert (pf_fill_id f) (br_fill_ids br),
                      br_fills := br_fills br @ [f]\<rparr> in
          and_then (canonical_fill vn od f (take 10 (case trade_date of None \<Rightarrow> wall | Some d \<Rightarrow> d)) br) (\<lambda>_ br.
          let od = filled_order f od in
          and_then (move_order (if pa_remaining od \<le> 1 / 10 ^ 9 then P_FILLED else P_PARTIALLY_FILLED) od
                     (put_order od br)) (\<lambda>od br.
          and_then (br_check_portfolio vn br) (\<lambda>_ br. (Inr (True, od), br)))))"

definition resting :: "paper_order \<Rightarrow> market_snapshot \<Rightarrow> bool" where
  "resting od m \<longleftrightarrow> pa_order_type od = T_LIMIT \<and>
     (case pa_limit_price od of
        None \<Rightarrow> False
      | Some l \<Rightarrow> if pa_side od = BUY then l < ms_last_price m else ms_last_price m < l)"

definition fill_quantity_at :: "venue \<Rightarrow> paper_order \<Rightarrow> market_snapshot \<Rightarrow> int" where
  "fill_quantity_at vn od m =
     round_to_lot (min (pa_remaining od) (ms_session_volume m * bc_participation_cap (vn_config vn)))
       (pa_board od) (side_value (pa_side od)) (pa_is_full_liquidation od)"

definition venue_price :: "venue \<Rightarrow> paper_order \<Rightarrow> market_snapshot \<Rightarrow> price_band \<Rightarrow> rat \<Rightarrow> rat" where
  "venue_price vn od m p quantity =
     execution_price (vn_power vn) (ms_last_price m) (side_value (pa_side od)) quantity (ms_session_volume m)
       (bc_slippage_bps (vn_config vn)) (bc_impact_coefficient (vn_config vn)) (Some p) (pa_limit_price od)"

definition venue_fill :: "venue \<Rightarrow> string \<Rightarrow> paper_order \<Rightarrow> market_snapshot \<Rightarrow> int \<Rightarrow> rat \<Rightarrow> paper_fill" where
  "venue_fill vn uid od m quantity price =
     (let notional = of_int quantity * price;
          costs = trading_costs notional (side_value (pa_side od)) (Some (ms_trade_date m))
                    (bc_commission_rate (vn_config vn)) COMMISSION_MINIMUM_CNY
      in \<lparr>pf_order_id = pa_order_id od, pf_symbol = pa_symbol od, pf_side = pa_side od,
          pf_quantity = of_int quantity, pf_price = price, pf_notional = notional,
          pf_commission = tc_commission costs, pf_stamp_duty = tc_stamp_duty costs,
          pf_transfer_fee = tc_transfer_fee costs, pf_market_time = Some (clock_of_day (ms_clock m)),
          pf_fill_id = uid, pf_partial = (of_int quantity < pa_remaining od)\<rparr>)"

definition refused_booking :: "exn \<Rightarrow> bool" where
  "refused_booking e \<longleftrightarrow> e = InsufficientCash \<or> e = InsufficientSellable"

definition attempt_fill :: "venue \<Rightarrow> string \<Rightarrow> string \<Rightarrow> paper_order \<Rightarrow> market_snapshot \<Rightarrow> broker \<Rightarrow> paper_order step" where
  "attempt_fill vn wall uid od m br =
     (if resting od m then (Inr od, br)
      else let quantity = fill_quantity_at vn od m in
        if quantity \<le> 0 then (Inr od, br)
        else pure_then (ms_limits m) (\<lambda>p.
          let f = venue_fill vn uid od m quantity (venue_price vn od m p (of_int quantity)) in
          case apply_execution_report vn wall od f (Some (ms_session m)) br of
            (Inl e, br) \<Rightarrow>
              (if refused_booking e then br_reject vn od (Cannot_book e) m br else (Inl e, br))
          | (Inr (booked, od), br) \<Rightarrow> (Inr od, br)) br)"

section \<open>Submission\<close>

definition submit :: "venue \<Rightarrow> string \<Rightarrow> string \<Rightarrow> paper_order \<Rightarrow> market_snapshot \<Rightarrow> broker \<Rightarrow> paper_order step" where
  "submit vn wall uid od m br =
     and_then (observe vn m (put_order od br)) (\<lambda>_ br.
     and_then (if map_of (br_canonical_ids br) (pa_order_id od) = None
               then canonical_open vn od (ms_session m) br else (Inr (), br)) (\<lambda>_ br.
     and_then (validate vn od m br) (\<lambda>(reason, od) br.
       case reason of
         Some r \<Rightarrow> br_reject vn od r m br
       | None \<Rightarrow>
           and_then (move_order P_ACCEPTED od br) (\<lambda>od br.
           and_then (canonical_event vn od Ev_ACCEPTED None (Some (ms_session m)) br) (\<lambda>_ br.
             attempt_fill vn wall uid od m br)))))"

text \<open>The children of a parent in order, each against its own snapshot; the first that raises ends it.\<close>

fun submit_all ::
    "venue \<Rightarrow> string \<Rightarrow> (nat \<Rightarrow> string) \<Rightarrow> nat \<Rightarrow> (paper_order \<times> market_snapshot) list \<Rightarrow> broker \<Rightarrow> paper_order list step"
where
  "submit_all vn wall uid n [] br = (Inr [], br)"
| "submit_all vn wall uid n ((od, m) # rest) br =
     and_then (submit vn wall (uid n) od m br) (\<lambda>od br.
     and_then (submit_all vn wall uid (Suc n) rest br) (\<lambda>ods br. (Inr (od # ods), br)))"

definition submit_parent ::
    "venue \<Rightarrow> string \<Rightarrow> (nat \<Rightarrow> string) \<Rightarrow> (nat \<Rightarrow> string) \<Rightarrow> string \<Rightarrow> paper_parent \<Rightarrow> market_snapshot list \<Rightarrow> broker
     \<Rightarrow> paper_order list step" where
  "submit_parent vn wall order_uid fill_uid now parent markets br =
     pure_then (schedule parent order_uid now (map ms_last_price markets) (map ms_session_volume markets))
       (\<lambda>children. submit_all vn wall fill_uid 0 (zip children markets) br) br"

definition attach_canonical :: "string \<Rightarrow> string \<Rightarrow> broker \<Rightarrow> broker" where
  "attach_canonical order_id canonical_order_id br =
     br\<lparr>br_canonical_ids := AList.update order_id canonical_order_id (br_canonical_ids br)\<rparr>"

definition cancel :: "venue \<Rightarrow> string \<Rightarrow> market_snapshot option \<Rightarrow> broker \<Rightarrow> paper_order step" where
  "cancel vn order_id m br =
     (case map_of (br_orders br) order_id of
        None \<Rightarrow> (Inl KeyError, br)
      | Some od \<Rightarrow>
          if \<not> is_open od then (Inr od, br)
          else
            let session = map_option ms_session m in
            and_then (move_order P_CANCEL_REQUESTED od br) (\<lambda>od br.
            and_then (canonical_event vn od Ev_CANCEL_REQUESTED None session br) (\<lambda>_ br.
            and_then (move_order P_CANCELLED od br) (\<lambda>od br.
            and_then (canonical_event vn od Ev_CANCELLED (Some ''operator_cancel'') session br) (\<lambda>_ br.
              (Inr od, br))))))"

definition open_orders :: "broker \<Rightarrow> paper_order list" where
  "open_orders br = filter is_open (map snd (br_orders br))"

section \<open>Session operations\<close>

definition mark_to_market :: "venue \<Rightarrow> marks \<Rightarrow> string option \<Rightarrow> broker \<Rightarrow> json step" where
  "mark_to_market vn prices market_time br =
     (let snapshot = pt_to_dict (br_portfolio br) prices in
      and_then (br_emit vn MARK_TO_MARKET snapshot None market_time br) (\<lambda>_ br. (Inr snapshot, br)))"

text \<open>The canonical append comes first: when it raises, the portfolio is as it was.\<close>

definition br_corporate_action ::
    "venue \<Rightarrow> string \<Rightarrow> string \<Rightarrow> rat \<Rightarrow> rat \<Rightarrow> string option \<Rightarrow> broker \<Rightarrow> (bool \<times> string) step" where
  "br_corporate_action vn wall symbol share_ratio cash_per_share ex_date br =
     (let session = take 10 (case ex_date of None \<Rightarrow> wall | Some d \<Rightarrow> d) in
      pure_then (CorporateAction_create (vn_digest vn) symbol session (vn_lineage vn) share_ratio cash_per_share)
        (\<lambda>action.
           case vn_canon vn (br_steps br) of (ok, now, now') \<Rightarrow>
           case append_corporate_action (vn_chain vn) ok now' action (Some session) (br_ledger br) of
             (r, led) \<Rightarrow>
               and_then (r, br\<lparr>br_ledger := led, br_steps := br_steps br + 1\<rparr>) (\<lambda>_ br.
                 case pt_apply_corporate_action symbol share_ratio cash_per_share (br_portfolio br) of
                   (r, pf) \<Rightarrow>
                     (res_bind r (\<lambda>applied. Inr (applied, ca_corporate_action_id action)), br\<lparr>br_portfolio := pf\<rparr>))) br)"

definition close_session :: "venue \<Rightarrow> string \<Rightarrow> broker \<Rightarrow> json step" where
  "close_session vn trade_date br =
     (case pt_settle (br_portfolio br) of (settled, pf) \<Rightarrow>
        let payload = JObj [(''trade_date'', JStr trade_date),
              (''settled'', JObj (map (\<lambda>(symbol, q). (symbol, JNum q)) settled)), (''cash'', JNum (pt_cash pf))]
        in and_then (br_emit vn SESSION_CLOSED payload None (Some trade_date) (br\<lparr>br_portfolio := pf\<rparr>))
             (\<lambda>_ br. (Inr payload, br)))"

end
