(* ===== verification/Paper_Recovery.thy ===== *)
theory Paper_Recovery
  imports Paper_Venue
begin

text \<open>
  Rebuilding the paper state from durable ledgers, \<open>src/src/quantagent/paper/recovery.py\<close>: \<open>recover\<close> from the
  operational events, \<open>recover_from_canonical\<close> from the canonical ledger, and \<open>reconcile\<close>, which compares a
  running venue with a recovered state.  Text fields of a payload hold texts; \<open>S\<close> is \<open>str\<close> of other
  values and \<open>now\<close> the clock that stamps a rebuilt order.
\<close>

record recovered =
  rs_portfolio :: portfolio
  rs_orders :: "(string, paper_order) dict"
  rs_fills :: "paper_fill list"
  rs_killed :: bool
  rs_kill_reason :: json
  rs_events_replayed :: nat
  rs_sessions_closed :: nat
  rs_chain_valid :: bool

definition rs_open_orders :: "recovered \<Rightarrow> paper_order list" where
  "rs_open_orders s = filter is_open (map snd (rs_orders s))"

section \<open>Payloads\<close>

definition jget_or :: "json \<Rightarrow> string \<Rightarrow> json \<Rightarrow> json res" where
  "jget_or payload k d = (case payload of
       JObj m \<Rightarrow> Inr (case map_of m k of None \<Rightarrow> d | Some v \<Rightarrow> v) | _ \<Rightarrow> Inl TypeError)"

fun order_type_of_value :: "string \<Rightarrow> paper_order_type res" where
  "order_type_of_value t =
     (if t = ''LIMIT'' then Inr T_LIMIT else if t = ''MARKETABLE_LIMIT'' then Inr T_MARKETABLE_LIMIT
      else if t = ''TWAP'' then Inr T_TWAP else if t = ''VWAP'' then Inr T_VWAP
      else if t = ''POV'' then Inr T_POV else Inl ValueError)"

text \<open>\<open>except (KeyError, ValueError): return None\<close>\<close>

definition or_none :: "'a res \<Rightarrow> 'a option res" where
  "or_none r = (case r of
       Inr x \<Rightarrow> Inr (Some x)
     | Inl e \<Rightarrow> if e = KeyError \<or> e = ValueError then Inr None else Inl e)"

definition order_from_payload :: "string \<Rightarrow> json \<Rightarrow> paper_order option res" where
  "order_from_payload now payload =
     res_bind (jget payload ''order_id'') (\<lambda>oid.
     if \<not> truthy oid then Inr None
     else or_none (
       res_bind (index_str payload ''symbol'') (\<lambda>symbol.
       res_bind (index_str payload ''side'') (\<lambda>sd.
       res_bind (res_bind (jindex payload ''quantity'') json_float) (\<lambda>quantity.
       res_bind (res_bind (jget_or payload ''order_type'' (JStr ''LIMIT'')) json_str) (\<lambda>t.
       res_bind (res_bind (jget payload ''limit_price'') json_opt_float) (\<lambda>limit_price.
       res_bind (res_bind (jget_or payload ''board'' (JStr ''SH_Main'')) json_str) (\<lambda>board.
       res_bind (index_str payload ''order_id'') (\<lambda>order_id.
       res_bind (res_bind (jget payload ''parent_id'') json_opt_str) (\<lambda>parent_id.
       res_bind (res_bind (jget payload ''strategy_id'') json_opt_str) (\<lambda>strategy_id.
       res_bind (jget_or payload ''is_full_liquidation'' (JBool False)) (\<lambda>full.
       res_bind (side_of_value sd) (\<lambda>sd.
       res_bind (order_type_of_value t) (\<lambda>t.
         PaperOrder_check
           \<lparr>pa_symbol = symbol, pa_side = sd, pa_quantity = quantity, pa_order_type = t, pa_limit_price = limit_price,
            pa_board = board, pa_order_id = order_id, pa_parent_id = parent_id, pa_strategy_id = strategy_id,
            pa_state = P_NEW, pa_filled_quantity = 0, pa_filled_notional = 0, pa_fees_paid = 0,
            pa_reject_reason = None, pa_created_at = now, pa_is_full_liquidation = truthy full\<rparr>))))))))))))))"

text \<open>A fill has no constructor check, so its side stays what the payload says; here it is one of the two.\<close>

definition fill_from_payload :: "json \<Rightarrow> paper_fill option res" where
  "fill_from_payload payload =
     res_bind (jget payload ''order_id'') (\<lambda>oid.
     if \<not> truthy oid then Inr None
     else or_none (
       res_bind (index_str payload ''order_id'') (\<lambda>order_id.
       res_bind (index_str payload ''symbol'') (\<lambda>symbol.
       res_bind (res_bind (index_str payload ''side'') side_of_value) (\<lambda>sd.
       res_bind (res_bind (jindex payload ''quantity'') json_float) (\<lambda>quantity.
       res_bind (res_bind (jindex payload ''price'') json_float) (\<lambda>price.
       res_bind (res_bind (jindex payload ''notional'') json_float) (\<lambda>notional.
       res_bind (get_float_default payload ''commission'' 0) (\<lambda>commission.
       res_bind (get_float_default payload ''stamp_duty'' 0) (\<lambda>stamp_duty.
       res_bind (get_float_default payload ''transfer_fee'' 0) (\<lambda>transfer_fee.
       res_bind (res_bind (jget payload ''market_time'') json_opt_str) (\<lambda>market_time.
       res_bind (res_bind (jget_or payload ''fill_id'' (JStr [])) json_str) (\<lambda>fill_id.
       res_bind (jget_or payload ''partial'' (JBool False)) (\<lambda>part.
         Inr \<lparr>pf_order_id = order_id, pf_symbol = symbol, pf_side = sd, pf_quantity = quantity, pf_price = price,
              pf_notional = notional, pf_commission = commission, pf_stamp_duty = stamp_duty,
              pf_transfer_fee = transfer_fee, pf_market_time = market_time, pf_fill_id = fill_id,
              pf_partial = truthy part\<rparr>))))))))))))))"

section \<open>From the operational events\<close>

definition rs_put :: "paper_order \<Rightarrow> recovered \<Rightarrow> recovered" where
  "rs_put od s = s\<lparr>rs_orders := AList.update (pa_order_id od) od (rs_orders s)\<rparr>"

definition rs_order :: "recovered \<Rightarrow> json \<Rightarrow> paper_order option" where
  "rs_order s oid = (case oid of JStr i \<Rightarrow> map_of (rs_orders s) i | _ \<Rightarrow> None)"

definition move_if_allowed :: "paper_status \<Rightarrow> paper_order \<Rightarrow> paper_order" where
  "move_if_allowed t od = (if t \<in> set (PAPER_TRANSITIONS (pa_state od)) then od\<lparr>pa_state := t\<rparr> else od)"

definition recover_accepted :: "json \<Rightarrow> recovered \<Rightarrow> recovered res" where
  "recover_accepted payload s =
     res_bind (jget_or payload ''order_id'' (JStr [])) (\<lambda>oid.
       case rs_order s oid of
         None \<Rightarrow> Inr s
       | Some od \<Rightarrow>
           if pa_state od \<noteq> P_NEW then Inr s
           else res_bind (paper_transition P_ACCEPTED od) (\<lambda>od.
                res_bind (case payload of
                    JObj m \<Rightarrow> (case map_of m ''quantity'' of None \<Rightarrow> Inr (pa_quantity od) | Some v \<Rightarrow> json_float v)
                  | _ \<Rightarrow> Inl TypeError) (\<lambda>q.
                  Inr (rs_put (od\<lparr>pa_quantity := q\<rparr>) s))))"

definition recover_rejected :: "json \<Rightarrow> recovered \<Rightarrow> recovered res" where
  "recover_rejected payload s =
     res_bind (jget payload ''order'') (\<lambda>inner.
     res_bind (jget_or (if truthy inner then inner else JObj []) ''order_id'' (JStr [])) (\<lambda>oid.
     res_bind (res_bind (jget payload ''reason'') json_opt_str) (\<lambda>reason.
       Inr (case rs_order s oid of
              None \<Rightarrow> s
            | Some od \<Rightarrow>
                if \<not> is_open od then s
                else let od = od\<lparr>pa_reject_reason := reason\<rparr>
                     in rs_put (if pa_state od = P_NEW then od\<lparr>pa_state := P_REJECTED\<rparr> else od) s))))"

definition recover_fill :: "paper_status \<Rightarrow> json \<Rightarrow> recovered \<Rightarrow> recovered res" where
  "recover_fill target payload s =
     res_bind (jget_or payload ''fill'' (JObj [])) (\<lambda>inner.
     res_bind (fill_from_payload inner) (\<lambda>fill.
       case fill of
         None \<Rightarrow> Inr s
       | Some f \<Rightarrow>
           (case pt_apply_fill f (rs_portfolio s) of
              (Inl e, pf) \<Rightarrow> Inl e
            | (Inr u, pf) \<Rightarrow>
                let s = s\<lparr>rs_fills := rs_fills s @ [f], rs_portfolio := pf\<rparr> in
                Inr (case map_of (rs_orders s) (pf_order_id f) of
                       None \<Rightarrow> s
                     | Some od \<Rightarrow> rs_put (move_if_allowed target (filled_order f od)) s))))"

definition recover_cancelled :: "json \<Rightarrow> recovered \<Rightarrow> recovered res" where
  "recover_cancelled payload s =
     res_bind (jget_or payload ''order_id'' (JStr [])) (\<lambda>oid.
       Inr (case rs_order s oid of
              None \<Rightarrow> s
            | Some od \<Rightarrow>
                if \<not> is_open od then s
                else rs_put (move_if_allowed P_CANCELLED (move_if_allowed P_CANCEL_REQUESTED od)) s))"

definition recover_action :: "json \<Rightarrow> recovered \<Rightarrow> recovered res" where
  "recover_action payload s =
     res_bind (jget payload ''applied'') (\<lambda>applied.
     if \<not> truthy applied then Inr s
     else res_bind (index_str payload ''symbol'') (\<lambda>symbol.
          res_bind (get_float_default payload ''share_ratio'' 1) (\<lambda>ratio.
          case pt_apply_corporate_action symbol ratio 0 (rs_portfolio s) of (r, pf) \<Rightarrow>
          res_bind r (\<lambda>_.
          res_bind (get_float_default payload ''cash_received'' 0) (\<lambda>cash.
            Inr (s\<lparr>rs_portfolio := pf\<lparr>pt_cash := pt_cash pf + cash\<rparr>\<rparr>))))))"

text \<open>Only a GLOBAL switch halts the account here; the others are enforced by the venue.\<close>

definition recover_switch :: "(json \<Rightarrow> string) \<Rightarrow> bool \<Rightarrow> json \<Rightarrow> recovered \<Rightarrow> recovered res" where
  "recover_switch S triggered payload s =
     res_bind (jget payload ''scope'') (\<lambda>scope.
     if or_default S scope SCOPE_GLOBAL \<noteq> SCOPE_GLOBAL then Inr s
     else if triggered then
       res_bind (jget payload ''reason'') (\<lambda>reason. Inr (s\<lparr>rs_killed := True, rs_kill_reason := reason\<rparr>))
     else Inr (s\<lparr>rs_killed := False, rs_kill_reason := JNull\<rparr>))"

definition recover_event :: "(json \<Rightarrow> string) \<Rightarrow> string \<Rightarrow> paper_event \<Rightarrow> recovered \<Rightarrow> recovered res" where
  "recover_event S now e s0 =
     (let s = s0\<lparr>rs_events_replayed := rs_events_replayed s0 + 1\<rparr>; payload = pe_payload e in
      case pe_event_type e of
        ORDER_CREATED \<Rightarrow>
          res_bind (jget_or payload ''order'' (JObj [])) (\<lambda>inner.
          res_bind (order_from_payload now inner) (\<lambda>order.
            Inr (case order of None \<Rightarrow> s | Some od \<Rightarrow> rs_put od s)))
      | ORDER_ACCEPTED \<Rightarrow> recover_accepted payload s
      | ORDER_REJECTED \<Rightarrow> recover_rejected payload s
      | ORDER_FILLED \<Rightarrow> recover_fill P_FILLED payload s
      | ORDER_PARTIALLY_FILLED \<Rightarrow> recover_fill P_PARTIALLY_FILLED payload s
      | ORDER_CANCELLED \<Rightarrow> recover_cancelled payload s
      | CORPORATE_ACTION_APPLIED \<Rightarrow> recover_action payload s
      | SESSION_CLOSED \<Rightarrow>
          Inr (s\<lparr>rs_portfolio := snd (pt_settle (rs_portfolio s)), rs_sessions_closed := rs_sessions_closed s + 1\<rparr>)
      | KILL_SWITCH_TRIGGERED \<Rightarrow> recover_switch S True payload s
      | KILL_SWITCH_CLEARED \<Rightarrow> recover_switch S False payload s
      | _ \<Rightarrow> Inr s)"

fun recover_events :: "(json \<Rightarrow> string) \<Rightarrow> string \<Rightarrow> paper_event list \<Rightarrow> recovered \<Rightarrow> recovered res" where
  "recover_events S now [] s = Inr s"
| "recover_events S now (e # es) s = res_bind (recover_event S now e s) (recover_events S now es)"

definition chain_ok :: "chain_report \<Rightarrow> bool" where
  "chain_ok r = (case r of Broken n \<Rightarrow> False | Chain_valid n h \<Rightarrow> True)"

definition recover ::
    "event_digest \<Rightarrow> (json \<Rightarrow> string) \<Rightarrow> string \<Rightarrow> event_file \<Rightarrow> string \<Rightarrow> rat \<Rightarrow> bool \<Rightarrow> recovered res" where
  "recover D S now f portfolio_id initial_cash require_valid_chain =
     res_bind (verify_file D f) (\<lambda>report.
     if require_valid_chain \<and> \<not> chain_ok report then Inl RecoveryRefused
     else res_bind (el_read f) (\<lambda>events.
       recover_events S now events
         \<lparr>rs_portfolio = new_portfolio portfolio_id initial_cash, rs_orders = [], rs_fills = [], rs_killed = False,
          rs_kill_reason = JNull, rs_events_replayed = 0, rs_sessions_closed = 0, rs_chain_valid = chain_ok report\<rparr>))"

section \<open>Reconciliation\<close>

text \<open>The problems; the order of the symbols is that of a set, here of their first occurrence.\<close>

datatype problem = Cash_mismatch | Position_mismatch string | Fill_count_mismatch

definition held_totals :: "portfolio \<Rightarrow> (string, rat) dict" where
  "held_totals pf = map (\<lambda>(symbol, p). (symbol, pp_total p)) (filter (\<lambda>(symbol, p). \<not> is_flat p) (pt_positions pf))"

definition reconcile :: "portfolio \<Rightarrow> paper_fill list \<Rightarrow> recovered \<Rightarrow> rat \<Rightarrow> problem list" where
  "reconcile live_portfolio live_fills s tolerance =
     (let left = held_totals live_portfolio; right = held_totals (rs_portfolio s) in
      (if tolerance < \<bar>pt_cash live_portfolio - pt_cash (rs_portfolio s)\<bar> then [Cash_mismatch] else [])
      @ map Position_mismatch (filter (\<lambda>symbol. tolerance < \<bar>dict_get left symbol 0 - dict_get right symbol 0\<bar>)
          (remdups (map fst left @ map fst right)))
      @ (if length live_fills \<noteq> length (rs_fills s) then [Fill_count_mismatch] else []))"

section \<open>From the canonical ledger\<close>

definition ledger_sessions :: "ledger \<Rightarrow> string list" where
  "ledger_sessions led = sort (remdups (concat (map (\<lambda>r. case lr_trade_date r of
       None \<Rightarrow> [] | Some d \<Rightarrow> if d = [] then [] else [d]) (led_records led))))"

definition latest_session :: "ledger \<Rightarrow> string" where
  "latest_session led = (case ledger_sessions led of [] \<Rightarrow> [] | ds \<Rightarrow> last ds)"

definition effective_session :: "ledger \<Rightarrow> string option \<Rightarrow> string" where
  "effective_session led as_of_session =
     (case as_of_session of None \<Rightarrow> latest_session led | Some d \<Rightarrow> if d = [] then latest_session led else d)"

definition recovered_position :: "account_state \<Rightarrow> string \<Rightarrow> string \<Rightarrow> paper_position" where
  "recovered_position acc session symbol =
     (let total = of_int (Accounting.position acc symbol);
          settled = (if session \<noteq> [] then of_int (sellable acc symbol session) else 0)
      in \<lparr>pp_symbol = symbol, pp_total = total, pp_sellable = settled, pp_pending = total - settled,
          pp_average_cost = dict_get (acc_cost_basis acc) symbol 0, pp_realised_pnl = 0\<rparr>)"

definition recovered_portfolio :: "string \<Rightarrow> rat \<Rightarrow> account_state \<Rightarrow> string \<Rightarrow> portfolio" where
  "recovered_portfolio portfolio_id initial_cash acc session =
     \<lparr>pt_portfolio_id = portfolio_id, pt_cash = acc_cash acc, pt_initial_cash = initial_cash,
      pt_positions = map (\<lambda>symbol. (symbol, recovered_position acc session symbol))
        (filter (\<lambda>symbol. 0 < Accounting.position acc symbol) (map fst (acc_lots acc))),
      pt_realised_pnl = acc_realised_pnl acc, pt_fees_paid = acc_total_fees acc\<rparr>"

text \<open>The inverse of \<open>TO_CANONICAL\<close>; a status without a name raises.\<close>

definition PAPER_STATE_OF :: "order_status \<Rightarrow> paper_status res" where
  "PAPER_STATE_OF status = (case find (\<lambda>s. TO_CANONICAL s = status) ORDER_STATES of
       None \<Rightarrow> Inl KeyError | Some s \<Rightarrow> Inr s)"

definition recovered_order :: "string \<Rightarrow> order \<Rightarrow> paper_order res" where
  "recovered_order now canonical =
     res_bind (PaperOrder_check
       \<lparr>pa_symbol = ord_symbol canonical, pa_side = ord_side canonical, pa_quantity = of_int (ord_quantity canonical),
        pa_order_type = T_LIMIT,
        pa_limit_price = Some (case ord_limit_price canonical of None \<Rightarrow> 1 | Some l \<Rightarrow> if l = 0 then 1 else l),
        pa_board = ''SH_Main'', pa_order_id = ord_order_id canonical, pa_parent_id = None, pa_strategy_id = None,
        pa_state = P_NEW, pa_filled_quantity = 0, pa_filled_notional = 0, pa_fees_paid = 0, pa_reject_reason = None,
        pa_created_at = now, pa_is_full_liquidation = False\<rparr>) (\<lambda>od.
     res_bind (PAPER_STATE_OF (ord_status canonical)) (\<lambda>state.
       Inr (od\<lparr>pa_state := state, pa_filled_quantity := of_int (ord_filled_quantity canonical),
              pa_filled_notional := (\<Sum>f\<leftarrow>ord_fills canonical. of_int (fill_quantity f) * fill_price f),
              pa_fees_paid := ord_total_fees canonical, pa_reject_reason := ord_reason canonical\<rparr>)))"

definition recovered_fill :: "fill \<Rightarrow> paper_fill" where
  "recovered_fill f =
     \<lparr>pf_order_id = fill_order_id f, pf_symbol = fill_symbol f, pf_side = fill_side f,
      pf_quantity = of_int (fill_quantity f), pf_price = fill_price f, pf_notional = fill_gross f,
      pf_commission = fill_commission f, pf_stamp_duty = fill_stamp_duty f, pf_transfer_fee = fill_transfer_fee f,
      pf_market_time = Some (fill_filled_at f), pf_fill_id = fill_execution_id f, pf_partial = False\<rparr>"

definition recover_from_canonical ::
    "chain_digest \<Rightarrow> digest \<Rightarrow> (nat \<Rightarrow> string) \<Rightarrow> string \<Rightarrow> ledger \<Rightarrow> string \<Rightarrow> rat \<Rightarrow> string option \<Rightarrow> recovered res"
where
  "recover_from_canonical D H clock now led portfolio_id initial_cash as_of_session =
     (if \<not> ver_valid (verify D led) then Inl RecoveryRefused
      else res_bind (replay D H clock initial_cash led) (\<lambda>(book, acc).
        let latest = latest_session led; session = effective_session led as_of_session in
        if latest \<noteq> [] \<and> session \<noteq> [] \<and> session < latest then Inl RecoveryRefused
        else res_bind (map_res (recovered_order now) (book_orders book)) (\<lambda>ods.
          Inr \<lparr>rs_portfolio = recovered_portfolio portfolio_id initial_cash acc session,
               rs_orders = map (\<lambda>od. (pa_order_id od, od)) ods,
               rs_fills = map recovered_fill (book_fills book), rs_killed = False, rs_kill_reason = JNull,
               rs_events_replayed = length (led_records led), rs_sessions_closed = 0, rs_chain_valid = True\<rparr>)))"

end
