(* ===== verification/Paper_Mirror.thy ===== *)
theory Paper_Mirror
  imports Paper_Portfolio
begin

text \<open>
  The live portfolio of the paper venue and the account of the canonical ledger are two programs for one
  thing: the portfolio keeps settled and pending shares and is told when a session closes, the account keeps
  dated lots and compares dates.  \<open>mirrors d pf acc\<close> says that in session \<open>d\<close> they agree, and every
  operation keeps it.
\<close>

definition lots_mirror :: "string \<Rightarrow> paper_position \<Rightarrow> position_lot list \<Rightarrow> rat \<Rightarrow> bool" where
  "lots_mirror d p lots basis \<longleftrightarrow>
     pp_total p = of_int (total_quantity lots) \<and> pp_sellable p = of_int (sellable_quantity lots d)
     \<and> pp_pending p = of_int (total_quantity lots - sellable_quantity lots d)
     \<and> (lots \<noteq> [] \<longrightarrow> pp_average_cost p = basis) \<and> (\<forall>l\<in>set lots. lot_acquired_on l \<le> d)"

definition mirrors :: "string \<Rightarrow> portfolio \<Rightarrow> account_state \<Rightarrow> bool" where
  "mirrors d pf acc \<longleftrightarrow>
     pt_cash pf = acc_cash acc \<and> pt_realised_pnl pf = acc_realised_pnl acc \<and> pt_fees_paid pf = acc_total_fees acc
     \<and> (\<forall>s. lots_mirror d (pt_get pf s) (dict_get (acc_lots acc) s []) (dict_get (acc_cost_basis acc) s 0))
     \<and> account_ok acc"

text \<open>The paper fill and its canonical record, for a whole number of shares.\<close>

definition same_fill :: "paper_fill \<Rightarrow> fill \<Rightarrow> bool" where
  "same_fill f cf \<longleftrightarrow> pf_symbol f = fill_symbol cf \<and> pf_side f = fill_side cf
     \<and> 0 < fill_quantity cf \<and> pf_quantity f = of_int (fill_quantity cf) \<and> pf_price f = fill_price cf
     \<and> pf_notional f = fill_gross cf \<and> pf_fees f = fill_fees cf"

lemma same_fill_cash: "same_fill f cf \<Longrightarrow> pf_cash_delta f = fill_cash_delta cf"
  by (simp add: same_fill_def pf_cash_delta_def fill_cash_delta_def)

lemma mirrors_opening: "mirrors d (new_portfolio pid cash) (opening_account cash)"
  by (simp add: mirrors_def new_portfolio_def opening_account_def lots_mirror_def pt_get_def new_position_def
      account_ok_opening [unfolded opening_account_def])

lemma mirrors_lots:
  "mirrors d pf acc \<Longrightarrow> lots_mirror d (pt_get pf s) (dict_get (acc_lots acc) s []) (dict_get (acc_cost_basis acc) s 0)"
  by (simp add: mirrors_def)

lemma flat_whole: "pp_total p = of_int n \<Longrightarrow> is_flat p \<longleftrightarrow> n = 0"
proof -
  assume p: "pp_total p = of_int n"
  have "\<bar>of_int n :: rat\<bar> < 1 / 10 ^ 9 \<longleftrightarrow> n = 0"
  proof
    assume "\<bar>of_int n :: rat\<bar> < 1 / 10 ^ 9"
    then have "of_int \<bar>n\<bar> < (1 :: rat)" by simp
    then show "n = 0" by linarith
  qed simp
  with p show ?thesis by (simp add: is_flat_def)
qed

lemma sellable_append [simp]: "sellable_quantity (ls @ ms) d = sellable_quantity ls d + sellable_quantity ms d"
  by (induction ls) auto

section \<open>A buy\<close>

lemma mirror_buy:
  assumes m: "mirrors d pf acc" and f: "same_fill f cf" "fill_side cf = BUY"
    and buy: "pt_apply_fill f pf = (Inr u, pf')"
  shows "then_check (apply_fill H cf d acc) = Inr (apply_buy H cf d acc)" and "mirrors d pf' (apply_buy H cf d acc)"
proof -
  let ?s = "fill_symbol cf" and ?q = "fill_quantity cf"
  let ?lots = "dict_get (acc_lots acc) ?s []" and ?p = "pt_get pf (fill_symbol cf)"
  note fill = f [unfolded same_fill_def]
  have ok: "account_ok acc" using m by (simp add: mirrors_def)
  have old: "lots_positive ?lots" by (rule held_positive [OF ok])
  have pos: "all_lots_positive (apply_buy H cf d acc)"
    using ok old fill set_update_subset [of ?s "?lots @ [PositionLot_from_fill H cf d]" "acc_lots acc"]
    by (fastforce simp: all_lots_positive_def account_ok_def)
  then show "then_check (apply_fill H cf d acc) = Inr (apply_buy H cf d acc)"
    using f(2) by (simp add: then_check_Inr apply_fill_def)
  have ok': "account_ok (apply_buy H cf d acc)" by (rule apply_buy_ok [OF ok f(2) pos])
  have held: "0 < total_quantity ?lots + ?q"
    using fill old total_quantity_pos [OF old] by (cases "?lots = []") auto
  obtain pf1 where pf1: "pt_position ?s pf = (?p, pf1)" "\<And>s. pt_get pf1 s = pt_get pf s"
    "pt_cash pf1 = pt_cash pf" "pt_realised_pnl pf1 = pt_realised_pnl pf" "pt_fees_paid pf1 = pt_fees_paid pf"
    using pt_position_split [of ?s pf] by metis
  have pf': "pf' = book_cash f (pt_put ?s (buy_position f ?p) pf1)"
    using buy fill pf1(1) by (auto simp: pt_apply_fill_def split: if_splits)
  have basis: "dict_get (acc_cost_basis (apply_buy H cf d acc)) s 0 =
      (if s = ?s then (dict_get (acc_cost_basis acc) ?s 0 * of_int (total_quantity ?lots) + fill_gross cf + fill_fees cf)
          / of_int (total_quantity ?lots + ?q) else dict_get (acc_cost_basis acc) s 0)" for s
    using held by (simp add: apply_buy_def Let_def)
  have nz: "of_int (total_quantity ?lots) + of_int ?q \<noteq> (0 :: rat)"
    using held by (simp flip: of_int_add)
  have here: "lots_mirror d (buy_position f ?p) (?lots @ [PositionLot_from_fill H cf d])
      (dict_get (acc_cost_basis (apply_buy H cf d acc)) ?s 0)"
    using mirrors_lots [OF m, of ?s] fill held nz
    by (cases "?lots = []") (auto simp: lots_mirror_def buy_position_def basis Let_def sellable_on_def)
  have "lots_mirror d (pt_get pf' s) (dict_get (acc_lots (apply_buy H cf d acc)) s [])
      (dict_get (acc_cost_basis (apply_buy H cf d acc)) s 0)" for s
  proof (cases "s = ?s")
    case True
    with here show ?thesis by (simp add: pf')
  next
    case False
    with mirrors_lots [OF m, of s] show ?thesis by (simp add: pf' pf1 basis)
  qed
  moreover have "acc_total_fees (apply_buy H cf d acc) = acc_total_fees acc + fill_fees cf"
    by (simp add: apply_buy_def Let_def)
  ultimately show "mirrors d pf' (apply_buy H cf d acc)"
    using m ok' fill same_fill_cash [OF f(1)] by (simp add: mirrors_def pf' pf1)
qed


section \<open>A sale\<close>

lemma consume_lots_sellable:
  "lots_positive ls \<Longrightarrow> 0 \<le> r \<Longrightarrow> r \<le> sellable_quantity ls d \<Longrightarrow>
     sellable_quantity (consume_lots r d ls) d = sellable_quantity ls d - r"
proof (induction ls arbitrary: r)
  case (Cons l ls)
  show ?case
  proof (cases "r \<le> 0 \<or> \<not> sellable_on l d")
    case True
    with Cons show ?thesis by (auto simp: consume_lots_idle)
  next
    case False
    let ?t = "min r (lot_quantity l)"
    have "sellable_quantity (consume_lots (r - ?t) d ls) d = sellable_quantity ls d - (r - ?t)"
      using Cons False by (intro Cons.IH) (auto simp: min_def sellable_nonneg)
    with False show ?thesis by (auto simp: Let_def min_def sellable_on_def)
  qed
qed simp

lemma consume_lots_dates: "l \<in> set (consume_lots r d ls) \<Longrightarrow> \<exists>l'\<in>set ls. lot_acquired_on l = lot_acquired_on l'"
  by (induction ls arbitrary: r) (fastforce simp: Let_def split: if_splits)+

lemma mirror_sell:
  assumes m: "mirrors d pf acc" and f: "same_fill f cf" "fill_side cf = SELL"
    and sell: "pt_apply_fill f pf = (Inr u, pf')"
  shows "\<exists>acc'. then_check (apply_fill H cf d acc) = Inr acc' \<and> mirrors d pf' acc'"
proof -
  let ?s = "fill_symbol cf" and ?q = "fill_quantity cf"
  let ?lots = "dict_get (acc_lots acc) ?s []" and ?p = "pt_get pf (fill_symbol cf)"
  let ?kept = "consume_lots ?q d ?lots" and ?b = "dict_get (acc_cost_basis acc) ?s 0"
  note fill = f [unfolded same_fill_def]
  have ok: "account_ok acc" using m by (simp add: mirrors_def)
  have old: "lots_positive ?lots" by (rule held_positive [OF ok])
  note here = mirrors_lots [OF m, of ?s, unfolded lots_mirror_def]
  obtain pf1 where pf1: "pt_position ?s pf = (?p, pf1)" "\<And>s. pt_get pf1 s = pt_get pf s"
    "pt_cash pf1 = pt_cash pf" "pt_realised_pnl pf1 = pt_realised_pnl pf" "pt_fees_paid pf1 = pt_fees_paid pf"
    using pt_position_split [of ?s pf] by metis
  have pf': "pf' = book_cash f (pt_put ?s (sell_position f ?p) (pf1\<lparr>pt_realised_pnl := pt_realised_pnl pf1 + realised_by f ?p\<rparr>))"
    and small: "of_int ?q - of_int (sellable_quantity ?lots d) \<le> (1 :: rat) / 10 ^ 9"
    using sell fill pf1(1) here by (auto simp: pt_apply_fill_def split: if_splits)
  have le: "?q \<le> sellable_quantity ?lots d"
  proof (rule ccontr)
    assume "\<not> ?q \<le> sellable_quantity ?lots d"
    then have "1 \<le> ?q - sellable_quantity ?lots d" by simp
    then have "(of_int 1 :: rat) \<le> of_int (?q - sellable_quantity ?lots d)" by (simp only: of_int_le_iff)
    with small show False by simp
  qed
  have some: "?lots \<noteq> []" using le fill by auto
  from held_positive(2) [OF ok some] have basis: "dict_get (acc_cost_basis acc) ?s (fill_price cf) = ?b"
    by (auto simp: dict_get_def)
  let ?acc = "acc\<lparr>acc_cash := acc_cash acc + fill_cash_delta cf,
           acc_lots := (if ?kept \<noteq> [] then AList.update ?s ?kept (acc_lots acc) else AList.delete ?s (acc_lots acc)),
           acc_realised_pnl := acc_realised_pnl acc + ((fill_price cf - ?b) * of_int ?q - fill_fees cf),
           acc_total_fees := acc_total_fees acc + fill_fees cf,
           acc_total_slippage := acc_total_slippage acc + fill_slippage cf\<rparr>"
  have app: "apply_sell cf d acc = Inr ?acc"
    using le by (simp add: apply_sell_Inr Accounting.sellable_def basis Let_def)
  have ok': "account_ok ?acc"
    using fill by (intro apply_sell_ok [OF ok f(2) _ app]) simp
  then have checked: "then_check (apply_fill H cf d acc) = Inr ?acc"
    using app f(2) by (simp add: then_check_Inr apply_fill_def account_ok_def)
  have kept: "total_quantity ?kept = total_quantity ?lots - ?q" "sellable_quantity ?kept d = sellable_quantity ?lots d - ?q"
    "lots_positive ?kept"
    using consume_lots_total [OF old _ le] consume_lots_sellable [OF old _ le] consume_lots_positive [OF old] fill by auto
  have gone: "?kept = [] \<longleftrightarrow> total_quantity ?lots = ?q"
    using kept(1) total_quantity_pos [OF kept(3)] by (cases "?kept = []") auto
  have dates: "\<forall>l\<in>set ?kept. lot_acquired_on l \<le> d"
    using here consume_lots_dates by fastforce
  have flat: "is_flat (?p\<lparr>pp_realised_pnl := r, pp_total := pp_total ?p - pf_quantity f,
      pp_sellable := pp_sellable ?p - pf_quantity f\<rparr>) \<longleftrightarrow> total_quantity ?lots = ?q" for r
    using flat_whole [of "?p\<lparr>pp_realised_pnl := r, pp_total := pp_total ?p - pf_quantity f,
      pp_sellable := pp_sellable ?p - pf_quantity f\<rparr>" "total_quantity ?lots - ?q"] here fill by auto
  have empty: "total_quantity ?lots = ?q \<Longrightarrow> sellable_quantity ?lots d = ?q"
    using gone kept by simp
  have sold: "sell_position f ?p = (let p' = ?p\<lparr>pp_realised_pnl := pp_realised_pnl ?p + realised_by f ?p,
      pp_total := pp_total ?p - pf_quantity f, pp_sellable := pp_sellable ?p - pf_quantity f\<rparr>
    in if total_quantity ?lots = ?q then p'\<lparr>pp_total := 0, pp_sellable := 0, pp_average_cost := 0\<rparr> else p')"
    unfolding sell_position_def Let_def flat by simp
  have new: "lots_mirror d (sell_position f ?p) ?kept ?b"
    using here fill kept(1,2) dates some gone empty
    by (auto simp: lots_mirror_def sold Let_def)
  have "dict_get (acc_lots ?acc) s [] = (if s = ?s then ?kept else dict_get (acc_lots acc) s [])" for s
    by (simp add: dict_get_def)
  with m new ok' fill same_fill_cash [OF f(1)] here some have "mirrors d pf' ?acc"
    by (auto simp: mirrors_def pf' pf1 realised_by_def)
  with checked show ?thesis by blast
qed

text \<open>A booking that the portfolio refuses leaves it as it was, but for a flat position.\<close>

lemma mirror_refused:
  assumes "mirrors d pf acc" "pt_apply_fill f pf = (Inl e, pf')"
  shows "mirrors d pf' acc"
proof -
  obtain pf1 where pf1: "pt_position (pf_symbol f) pf = (pt_get pf (pf_symbol f), pf1)" "\<And>s. pt_get pf1 s = pt_get pf s"
    "pt_cash pf1 = pt_cash pf" "pt_realised_pnl pf1 = pt_realised_pnl pf" "pt_fees_paid pf1 = pt_fees_paid pf"
    using pt_position_split [of "pf_symbol f" pf] by metis
  have "pf' = pf1" using assms(2) pf1(1) by (auto simp: pt_apply_fill_def split: if_splits)
  with assms(1) pf1 show ?thesis by (simp add: mirrors_def)
qed

lemma mirror_fill:
  assumes "mirrors d pf acc" "same_fill f cf" "pt_apply_fill f pf = (Inr u, pf')"
  shows "\<exists>acc'. then_check (apply_fill H cf d acc) = Inr acc' \<and> mirrors d pf' acc'"
  using mirror_buy [OF assms(1,2) _ assms(3)] mirror_sell [OF assms(1,2) _ assms(3)]
  by (cases "fill_side cf") blast+

section \<open>The close of a session\<close>

lemma settled_all: "\<forall>l\<in>set ls. lot_acquired_on l < d \<Longrightarrow> sellable_quantity ls d = total_quantity ls"
  by (induction ls) (auto simp: sellable_on_def)

lemma mirror_settle:
  assumes "mirrors d pf acc" "d < d'"
  shows "mirrors d' (snd (pt_settle pf)) acc"
proof -
  have "lots_mirror d' (settle_position (pt_get pf s)) (dict_get (acc_lots acc) s []) (dict_get (acc_cost_basis acc) s 0)" for s
  proof -
    note here = mirrors_lots [OF assms(1), of s, unfolded lots_mirror_def]
    have "\<forall>l\<in>set (dict_get (acc_lots acc) s []). lot_acquired_on l < d'" using here assms(2) by (auto intro: le_less_trans)
    with settled_all here assms(2) show ?thesis
      by (auto simp: lots_mirror_def settle_position_def intro: order.strict_implies_order)
  qed
  with assms(1) show ?thesis by (simp add: mirrors_def)
qed

section \<open>Corporate actions\<close>

lemma scale_lots_sellable:
  "exact_action a \<Longrightarrow> map_res (scale_lot a) ls = Inr ls' \<Longrightarrow>
     of_int (sellable_quantity ls' d) = of_int (sellable_quantity ls d) * ca_share_ratio a"
proof (induction ls arbitrary: ls')
  case (Cons l ls)
  then show ?case
    by (auto simp: res_bind_Inr_iff algebra_simps scale_lot_def sellable_on_def Let_def dest: scale_lot_exact
        split: if_splits)
qed simp

lemma scale_lots_dates:
  "map_res (scale_lot a) ls = Inr ls' \<Longrightarrow> \<forall>l\<in>set ls. lot_acquired_on l \<le> d \<Longrightarrow> \<forall>l\<in>set ls'. lot_acquired_on l \<le> d"
proof (induction ls arbitrary: ls')
  case (Cons l ls)
  then show ?case by (auto simp: res_bind_Inr_iff scale_lot_def Let_def split: if_splits)
qed simp

lemma mirror_action:
  assumes m: "mirrors d pf acc" and a: "exact_action a"
    and app: "then_check (apply_corporate_action a acc) = Inr acc'"
    and live: "pt_apply_corporate_action (ca_symbol a) (ca_share_ratio a) (ca_cash_per_share a) pf = (r, pf')"
  shows "mirrors d pf' acc'"
proof -
  let ?s = "ca_symbol a" and ?ratio = "ca_share_ratio a"
  let ?lots = "dict_get (acc_lots acc) ?s []" and ?p = "pt_get pf (ca_symbol a)"
  have ok: "account_ok acc" using m by (simp add: mirrors_def)
  have app': "apply_corporate_action a acc = Inr acc'" and pos: "all_lots_positive acc'"
    using app by (simp_all add: then_check_Inr)
  have ok': "account_ok acc'" by (rule apply_corporate_action_ok [OF ok a app' pos])
  have ratio: "0 < ?ratio" using a by (simp add: exact_action_def)
  have old: "lots_positive ?lots" by (rule held_positive [OF ok])
  note here = mirrors_lots [OF m, of ?s, unfolded lots_mirror_def]
  obtain pf1 where pf1: "pt_position ?s pf = (?p, pf1)" "\<And>s. pt_get pf1 s = pt_get pf s"
    "pt_cash pf1 = pt_cash pf" "pt_realised_pnl pf1 = pt_realised_pnl pf" "pt_fees_paid pf1 = pt_fees_paid pf"
    using pt_position_split [of ?s pf] by metis
  have flat: "is_flat ?p \<longleftrightarrow> ?lots = []"
    using flat_whole [of ?p "total_quantity ?lots"] here total_quantity_pos [OF old] by (cases "?lots = []") auto
  show ?thesis
  proof (cases "?lots = []")
    case True
    with app' live flat pf1 have "acc' = acc" "pf' = pf1"
      by (auto simp: apply_corporate_action_def pt_apply_corporate_action_def)
    with m pf1 show ?thesis by (simp add: mirrors_def)
  next
    case False
    from held_positive(2) [OF ok False] obtain b where b: "map_of (acc_cost_basis acc) ?s = Some b" by auto
    from app' False obtain new where new: "map_res (scale_lot a) ?lots = Inr new"
      and acc': "acc' = acc\<lparr>acc_cash := acc_cash acc + of_int (total_quantity ?lots) * ca_cash_per_share a,
        acc_realised_pnl := acc_realised_pnl acc + of_int (total_quantity ?lots) * ca_cash_per_share a,
        acc_lots := AList.update ?s new (acc_lots acc),
        acc_cost_basis := AList.update ?s (b / ?ratio) (acc_cost_basis acc)\<rparr>"
      by (auto simp: apply_corporate_action_def Let_def res_bind_Inr_iff b)
    note totals = scale_lots_total [OF a new] scale_lots_sellable [OF a new]
      scale_lots_dates [OF new, of d] map_res_nonempty [OF new]
    let ?new = "(scale_position ?ratio ?p)\<lparr>pp_average_cost := pp_average_cost ?p / ?ratio,
        pp_realised_pnl := pp_realised_pnl ?p + pp_total ?p * ca_cash_per_share a\<rparr>"
    have live': "pt_apply_corporate_action ?s ?ratio (ca_cash_per_share a) pf = (Inr True, pt_put ?s ?new
        (pf1\<lparr>pt_cash := pt_cash pf1 + pp_total ?p * ca_cash_per_share a,
        pt_realised_pnl := pt_realised_pnl pf1 + pp_total ?p * ca_cash_per_share a\<rparr>))"
      using ratio flat False by (cases "?ratio = 1") (simp_all add: pt_apply_corporate_action_def pf1(1) Let_def)
    have pf': "pf' = pt_put ?s ?new (pf1\<lparr>pt_cash := pt_cash pf1 + pp_total ?p * ca_cash_per_share a,
        pt_realised_pnl := pt_realised_pnl pf1 + pp_total ?p * ca_cash_per_share a\<rparr>)"
      using live unfolding live' by simp
    have "lots_mirror d ?new new (b / ?ratio)"
      unfolding lots_mirror_def
    proof (intro conjI impI)
      have "dict_get (acc_cost_basis acc) ?s 0 = b" by (simp add: dict_get_def b)
      with here False show "pp_average_cost ?new = b / ?ratio" by simp
      have "pp_pending ?new = pp_pending ?p * ?ratio" by (simp add: scale_position_def)
      also have "\<dots> = of_int (total_quantity ?lots) * ?ratio - of_int (sellable_quantity ?lots d) * ?ratio"
        using here by (simp add: left_diff_distrib)
      finally show "pp_pending ?new = of_int (total_quantity new - sellable_quantity new d)"
        by (simp add: totals(1,2))
    qed (use here totals(1,2,3) in \<open>simp_all add: scale_position_def\<close>)
    then have "lots_mirror d (pt_get pf' s) (dict_get (acc_lots acc') s []) (dict_get (acc_cost_basis acc') s 0)" for s
      using mirrors_lots [OF m, of s] by (cases "s = ?s") (simp_all add: pf' pf1 acc')
    with m ok' here show ?thesis by (auto simp: mirrors_def pf' pf1 acc')
  qed
qed

end
