(* ===== verification/Replay_Pass.thy ===== *)
theory Replay_Pass
  imports Ledger_Facts
begin

text \<open>
  The replay of an account (\<open>CanonicalLedger.replay\<close>, \<open>domain/ledger.py\<close>) collects the dates of the whole
  ledger and the corporate actions with the number of events before each, and folds the events with the
  actions put back in.  It is equal to one pass over the records in their order, which is what a proof about
  a growing ledger needs.
\<close>

section \<open>One pass\<close>

definition pass_record :: "digest \<Rightarrow> (string, string) dict \<Rightarrow> ledger_record \<Rightarrow> replay_state \<Rightarrow> replay_state res" where
  "pass_record H known r st = (case lr_event r of
       Some e \<Rightarrow> replay_fill H known e st
     | None \<Rightarrow>
         if truthy (lr_corporate_action r) then
           res_bind (CorporateAction_from_dict (lr_corporate_action r)) (\<lambda>a.
             res_bind (then_check (apply_corporate_action a (rp_account st))) (\<lambda>acc. Inr (st\<lparr>rp_account := acc\<rparr>)))
         else Inr st)"

fun pass_records ::
    "digest \<Rightarrow> (string, string) dict \<Rightarrow> ledger_record list \<Rightarrow> replay_state \<Rightarrow> replay_state res" where
  "pass_records H known [] st = Inr st"
| "pass_records H known (r # rs) st = res_bind (pass_record H known r st) (pass_records H known rs)"

definition opening_replay :: "rat \<Rightarrow> replay_state" where
  "opening_replay cash = \<lparr>rp_account = opening_account cash, rp_pending = [], rp_applied = [], rp_duplicates = []\<rparr>"

definition replayed_account :: "replay_state \<Rightarrow> account_state" where
  "replayed_account st = (rp_account st)\<lparr>acc_duplicate_executions := rp_duplicates st\<rparr>"

definition record_events :: "ledger_record list \<Rightarrow> order_event list" where
  "record_events rs = concat (map (\<lambda>r. case lr_event r of None \<Rightarrow> [] | Some e \<Rightarrow> [e]) rs)"

lemma record_events_simps [simp]:
  "record_events [] = []"
  "record_events (r # rs) = (case lr_event r of None \<Rightarrow> record_events rs | Some e \<Rightarrow> e # record_events rs)"
  by (simp_all add: record_events_def split: option.split)

section \<open>Pending actions\<close>

definition at_index :: "int \<Rightarrow> (int \<times> corporate_action) list \<Rightarrow> corporate_action list" where
  "at_index j actions = map snd (filter (\<lambda>x. fst x = j) actions)"

lemma at_index_simps [simp]:
  "at_index j [] = []" "at_index j ((i, a) # rest) = (if i = j then a # at_index j rest else at_index j rest)"
  by (simp_all add: at_index_def)

definition pending_is :: "pending \<Rightarrow> int \<Rightarrow> corporate_action list \<Rightarrow> (int \<times> corporate_action) list \<Rightarrow> bool" where
  "pending_is p i pre actions \<longleftrightarrow> dict_wf p \<and> (\<forall>(j, as)\<in>set p. as \<noteq> []) \<and>
     (\<forall>j. dict_get p j [] = (if j = i then pre else []) @ at_index j actions)"

lemma group_actions_get: "dict_get (group_actions actions p) j [] = dict_get p j [] @ at_index j actions"
  by (induction actions p rule: group_actions.induct) auto

lemma group_actions_wf:
  "dict_wf p \<Longrightarrow> \<forall>(j, as)\<in>set p. as \<noteq> [] \<Longrightarrow>
    dict_wf (group_actions actions p) \<and> (\<forall>(j, as)\<in>set (group_actions actions p). as \<noteq> [])"
proof (induction actions p rule: group_actions.induct)
  case (2 i a rest p)
  have "\<forall>(j, as)\<in>set (AList.update i (dict_get p i [] @ [a]) p). as \<noteq> []"
    using 2(3) set_update_subset [of i "dict_get p i [] @ [a]" p] by fastforce
  with 2 show ?case by simp
qed simp

lemma dict_get_empty: "dict_get [] k d = d"
  by (simp add: dict_get_def)

lemma pending_group: "pending_is (group_actions actions []) 0 [] actions"
  using group_actions_wf [of "[]" actions] group_actions_get [of actions "[]"] dict_get_empty
  by (simp add: pending_is_def)

lemma pending_last:
  assumes "pending_is p i pre []"
  shows "concat (map snd (sort_key fst p)) = pre"
proof -
  have entry: "j = i \<and> as = pre \<and> as \<noteq> []" if "(j, as) \<in> set p" for j as
  proof -
    have "dict_wf p" "as \<noteq> []" using assms that by (auto simp: pending_is_def)
    moreover from this that have "dict_get p j [] = as" by (simp add: dict_get_def)
    moreover have "dict_get p j [] = (if j = i then pre else [])" using assms by (simp add: pending_is_def)
    ultimately show ?thesis by (simp split: if_splits)
  qed
  have keys: "distinct (map fst p)" using assms by (simp add: pending_is_def)
  show ?thesis
  proof (cases p)
    case Nil
    with assms show ?thesis by (auto simp: pending_is_def dict_get_def dest: spec [where x = i])
  next
    case (Cons x xs)
    with entry have x: "x = (i, pre)" by (cases x) auto
    have "xs = []"
    proof (cases xs)
      case (Cons y ys)
      with entry [of "fst y" "snd y"] \<open>p = x # xs\<close> have "fst y = i" by (cases y) auto
      with keys x Cons \<open>p = x # xs\<close> show ?thesis by auto
    qed simp
    with x \<open>p = x # xs\<close> show ?thesis by simp
  qed
qed

lemma actions_index: "corporate_actions_from i rs = Inr actions \<Longrightarrow> (j, a) \<in> set actions \<Longrightarrow> i \<le> j"
  by (induction i rs arbitrary: actions rule: corporate_actions_from.induct)
    (fastforce simp: res_bind_Inr_iff split: if_splits)+

lemma at_index_none: "(\<And>a. (j, a) \<notin> set actions) \<Longrightarrow> at_index j actions = []"
  by (force simp: at_index_def filter_empty_conv)

lemma pending_event:
  assumes "pending_is p i pre actions" "corporate_actions_from (i + 1) rs = Inr actions"
  shows "dict_get p i [] = pre" "pending_is (AList.delete i p) (i + 1) [] actions"
proof -
  have none: "at_index i actions = []" using actions_index [OF assms(2)] by (intro at_index_none) fastforce
  with assms(1) show "dict_get p i [] = pre" by (simp add: pending_is_def)
  have "dict_get (AList.delete i p) j [] = (if j = i + 1 then [] else []) @ at_index j actions" for j
  proof (cases "j = i")
    case True
    with none show ?thesis by (simp add: dict_get_def)
  next
    case False
    then have "dict_get (AList.delete i p) j [] = dict_get p j []" by (simp add: dict_get_def)
    with assms(1) False show ?thesis by (simp add: pending_is_def)
  qed
  with assms(1) set_delete_subset [of i p] show "pending_is (AList.delete i p) (i + 1) [] actions"
    unfolding pending_is_def by (auto dest: subsetD)
qed

section \<open>The replay is the pass\<close>

lemma apply_actions_snoc:
  "apply_actions (as @ [a]) acc = res_bind (apply_actions as acc) (\<lambda>acc. then_check (apply_corporate_action a acc))"
  by (induction as arbitrary: acc) (auto simp: res_bind_def split: sum.splits)

lemma replay_fill_pending:
  "replay_fill H known e (st\<lparr>rp_pending := p\<rparr>) = res_bind (replay_fill H known e st) (\<lambda>st. Inr (st\<lparr>rp_pending := p\<rparr>))"
  by (auto simp: replay_fill_def res_bind_def split: option.splits sum.splits)

definition finish :: "replay_state \<Rightarrow> account_state res" where
  "finish st = res_bind (apply_actions (concat (map snd (sort_key fst (rp_pending st)))) (rp_account st))
     (\<lambda>acc. Inr (acc\<lparr>acc_duplicate_executions := rp_duplicates st\<rparr>))"

lemma update_order: "st\<lparr>rp_pending := p, rp_account := acc\<rparr> = (st\<lparr>rp_account := acc, rp_pending := p\<rparr> :: replay_state)"
  by (cases st) simp

lemma pending_clear: "rp_pending st = [] \<Longrightarrow> st\<lparr>rp_pending := []\<rparr> = (st :: replay_state)"
  by (cases st) simp

lemma res_bind_assoc: "res_bind (res_bind m f) g = res_bind m (\<lambda>x. res_bind (f x) g)"
  by (cases m) auto

lemma replay_pass_from:
  assumes "corporate_actions_from i rs = Inr actions" "pending_is (rp_pending st) i pre actions"
  shows "res_bind (replay_events H known i (record_events rs) st) finish =
    res_bind (apply_actions pre (rp_account st)) (\<lambda>acc.
      res_bind (pass_records H known rs (st\<lparr>rp_account := acc, rp_pending := []\<rparr>)) (\<lambda>st. Inr (replayed_account st)))"
  using assms
proof (induction rs arbitrary: i st pre actions)
  case Nil
  then have "concat (map snd (sort_key fst (rp_pending st))) = pre" by (auto intro: pending_last)
  then show ?case by (simp add: finish_def replayed_account_def)
next
  case (Cons r rs)
  show ?case
  proof (cases "lr_event r")
    case (Some e)
    then have from_i: "corporate_actions_from (i + 1) rs = Inr actions" using Cons.prems(1) by simp
    note p = pending_event [OF Cons.prems(2) from_i]
    show ?thesis
    proof (cases "apply_actions pre (rp_account st)")
      case (Inl x)
      with Some p(1) show ?thesis by (simp add: replay_event_def)
    next
      case (Inr acc)
      let ?st = "st\<lparr>rp_account := acc, rp_pending := AList.delete i (rp_pending st)\<rparr>"
      let ?bare = "st\<lparr>rp_account := acc, rp_pending := []\<rparr>"
      have upd: "?bare\<lparr>rp_pending := AList.delete i (rp_pending st)\<rparr> = ?st" by simp
      have fill: "replay_fill H known e ?st
          = res_bind (replay_fill H known e ?bare) (\<lambda>st'. Inr (st'\<lparr>rp_pending := AList.delete i (rp_pending st)\<rparr>))"
        using replay_fill_pending [where H = H and known = known and e = e and st = ?bare
            and p = "AList.delete i (rp_pending st)"]
        unfolding upd .
      have empty: "replay_fill H known e ?bare = Inr st' \<Longrightarrow> rp_pending st' = []" for st'
        by (auto simp: replay_fill_def res_bind_Inr_iff split: if_splits option.splits)
      have "res_bind (replay_events H known (i + 1) (record_events rs) (st'\<lparr>rp_pending := AList.delete i (rp_pending st)\<rparr>)) finish
          = res_bind (pass_records H known rs st') (\<lambda>st. Inr (replayed_account st))"
        if "replay_fill H known e ?bare = Inr st'" for st'
        using Cons.IH [OF from_i, where st = "st'\<lparr>rp_pending := AList.delete i (rp_pending st)\<rparr>" and pre = "[]"]
          p(2) pending_clear [OF empty [OF that]] by simp
      then show ?thesis
        using Some p(1) Inr fill
        by (cases "replay_fill H known e ?bare") (simp_all add: replay_event_def pass_record_def)
    qed
  next
    case None
    show ?thesis
    proof (cases "truthy (lr_corporate_action r)")
      case False
      with None Cons show ?thesis by (simp add: pass_record_def)
    next
      case True
      with None Cons.prems(1) obtain a as where a: "CorporateAction_from_dict (lr_corporate_action r) = Inr a"
        "corporate_actions_from i rs = Inr as" "actions = (i, a) # as"
        by (auto simp: res_bind_Inr_iff)
      from Cons.prems(2) a(3) have "pending_is (rp_pending st) i (pre @ [a]) as"
        by (auto simp: pending_is_def)
      from Cons.IH [OF a(2) this] None True a(1) show ?thesis
        by (simp add: pass_record_def apply_actions_snoc res_bind_assoc update_order)
    qed
  qed
qed

lemma replay_is_one_pass:
  assumes "corporate_actions led = Inr actions"
  shows "replay_account H (ledger_events led) cash known actions =
    res_bind (pass_records H known (led_records led) (opening_replay cash)) (\<lambda>st. Inr (replayed_account st))"
proof -
  let ?st = "\<lparr>rp_account = opening_account cash, rp_pending = group_actions actions [], rp_applied = [], rp_duplicates = []\<rparr>"
  have "replay_account H (ledger_events led) cash known actions
      = res_bind (replay_events H known 0 (record_events (led_records led)) ?st) finish"
    unfolding replay_account_def ledger_events_def record_events_def finish_def [abs_def] by (rule refl)
  also have "\<dots> = res_bind (pass_records H known (led_records led) (opening_replay cash)) (\<lambda>st. Inr (replayed_account st))"
    using replay_pass_from [where i = 0 and rs = "led_records led" and actions = actions and st = ?st
      and pre = "[]" and H = H and known = known] assms pending_group [of actions]
    by (simp add: corporate_actions_def opening_replay_def)
  finally show ?thesis .
qed

end
