(* ===== verification/Paper_Account.thy ===== *)
theory Paper_Account
  imports Paper_Mirror Replay_Pass
begin

text \<open>
  The canonical ledger as the record of a live portfolio: while records are appended, the account that a
  replay rebuilds from them keeps mirroring the portfolio.  A fill is settled at the date its record carries,
  because no other record of that execution comes later.
\<close>

section \<open>Trade dates\<close>

definition note_date :: "ledger_record \<Rightarrow> (string, string) dict \<Rightarrow> (string, string) dict" where
  "note_date r dates = (case lr_event r of None \<Rightarrow> dates | Some e \<Rightarrow> note_trade_date r e dates)"

definition dates_of :: "ledger_record list \<Rightarrow> (string, string) dict" where
  "dates_of rs = fold note_date rs []"

lemma dates_of_snoc [simp]: "dates_of [] = []" "dates_of (rs @ [r]) = note_date r (dates_of rs)"
  by (simp_all add: dates_of_def)

lemma replay_records_dates:
  "replay_records H clock rs (b, dates) = Inr (b', dates') \<Longrightarrow> dates' = fold note_date rs dates"
  by (induction rs arbitrary: b dates) (auto simp: res_bind_Inr_iff note_date_def)

lemma note_date_keeps:
  assumes "map_of dates k = Some d" "\<And>e f. lr_event r = Some e \<Longrightarrow> ev_fill e = Some f \<Longrightarrow> fill_execution_id f \<noteq> k"
  shows "map_of (note_date r dates) k = Some d"
proof (cases "lr_event r")
  case None
  with assms(1) show ?thesis by (simp add: note_date_def)
next
  case (Some e)
  with assms(2) have "\<And>f. ev_fill e = Some f \<Longrightarrow> fill_execution_id f \<noteq> k" by blast
  with Some assms(1) show ?thesis
    by (cases "lr_trade_date r"; cases "ev_fill e") (auto simp: note_date_def note_trade_date_def)
qed

lemma note_date_fill:
  "lr_event r = Some e \<Longrightarrow> ev_fill e = Some f \<Longrightarrow> lr_trade_date r = Some d \<Longrightarrow> d \<noteq> [] \<Longrightarrow>
     map_of (note_date r dates) (fill_execution_id f) = Some d"
  by (simp add: note_date_def note_trade_date_def)

lemma settlement_known: "map_of known (fill_execution_id f) = Some d \<Longrightarrow> d \<noteq> [] \<Longrightarrow> settlement_date known e f = d"
  by (simp add: settlement_date_def dict_get_def)

section \<open>The pass, one record later\<close>

lemma pass_records_append:
  "pass_records H known (rs @ [r]) st = res_bind (pass_records H known rs st) (pass_record H known r)"
  by (induction rs arbitrary: st) (auto simp: res_bind_def split: sum.split)

lemma pass_record_cong:
  assumes "\<And>e f. lr_event r = Some e \<Longrightarrow> ev_fill e = Some f \<Longrightarrow> settlement_date known e f = settlement_date known' e f"
  shows "pass_record H known r st = pass_record H known' r st"
  using assms by (auto simp: pass_record_def replay_fill_def split: option.split)

lemma pass_records_cong:
  assumes "\<And>r e f. r \<in> set rs \<Longrightarrow> lr_event r = Some e \<Longrightarrow> ev_fill e = Some f \<Longrightarrow>
    settlement_date known e f = settlement_date known' e f"
  shows "pass_records H known rs st = pass_records H known' rs st"
  using assms
proof (induction rs arbitrary: st)
  case (Cons r rs)
  have "pass_record H known r st = pass_record H known' r st" for st
    by (rule pass_record_cong) (use Cons.prems in auto)
  moreover have "pass_records H known rs st = pass_records H known' rs st" for st
    by (rule Cons.IH) (use Cons.prems in auto)
  ultimately show ?case by (simp add: res_bind_def split: sum.split)
qed simp

lemma pass_actions: "pass_records H known rs st = Inr st' \<Longrightarrow> \<exists>actions. corporate_actions_from i rs = Inr actions"
proof (induction rs arbitrary: i st)
  case (Cons r rs)
  then obtain st1 where st1: "pass_record H known r st = Inr st1" "pass_records H known rs st1 = Inr st'"
    by (auto simp: res_bind_Inr_iff)
  from Cons.IH [OF st1(2)] obtain f where "\<And>i. corporate_actions_from i rs = Inr (f i)" by metis
  with st1(1) show ?case by (auto simp: pass_record_def res_bind_Inr_iff split: option.splits if_splits)
qed simp

section \<open>The account of a ledger\<close>

definition dated_fills :: "string set \<Rightarrow> ledger_record list \<Rightarrow> bool" where
  "dated_fills ids rs \<longleftrightarrow> (\<forall>r\<in>set rs. \<forall>e f. lr_event r = Some e \<longrightarrow> ev_fill e = Some f \<longrightarrow>
     fill_execution_id f \<in> ids \<and> (\<exists>d. map_of (dates_of rs) (fill_execution_id f) = Some d \<and> d \<noteq> []))"

text \<open>\<open>ids\<close>: the executions the venue has booked.\<close>

definition account_mirror ::
    "digest \<Rightarrow> rat \<Rightarrow> string \<Rightarrow> string set \<Rightarrow> portfolio \<Rightarrow> ledger_record list \<Rightarrow> bool" where
  "account_mirror H cash d ids pf rs \<longleftrightarrow> dated_fills ids rs \<and>
     (\<exists>st. pass_records H (dates_of rs) rs (opening_replay cash) = Inr st \<and> mirrors d pf (rp_account st)
        \<and> fst ` set (rp_applied st) \<subseteq> ids)"

lemma account_mirror_new: "account_mirror H cash d ids (new_portfolio pid cash) []"
  by (simp add: account_mirror_def dated_fills_def opening_replay_def mirrors_opening)

lemma account_mirror_portfolio:
  "account_mirror H cash d ids pf rs \<Longrightarrow> (\<And>acc. mirrors d pf acc \<Longrightarrow> mirrors d' pf' acc) \<Longrightarrow>
     account_mirror H cash d' ids pf' rs"
  by (auto simp: account_mirror_def)

lemma account_mirror_ids: "account_mirror H cash d ids pf rs \<Longrightarrow> ids \<subseteq> ids' \<Longrightarrow> account_mirror H cash d ids' pf rs"
  by (fastforce simp: account_mirror_def dated_fills_def)

lemma pass_extended:
  assumes "dated_fills ids rs" "\<And>e f. lr_event r = Some e \<Longrightarrow> ev_fill e = Some f \<Longrightarrow> fill_execution_id f \<notin> ids"
  shows "pass_records H (dates_of (rs @ [r])) rs st = pass_records H (dates_of rs) rs st"
proof (rule pass_records_cong)
  fix r' e f assume r': "r' \<in> set rs" "lr_event r' = Some e" "ev_fill e = Some f"
  with assms(1) obtain d where d: "fill_execution_id f \<in> ids" "map_of (dates_of rs) (fill_execution_id f) = Some d" "d \<noteq> []"
    unfolding dated_fills_def by blast
  have "map_of (dates_of (rs @ [r])) (fill_execution_id f) = Some d"
    unfolding dates_of_snoc using d(1,2) assms(2) by (intro note_date_keeps) metis+
  with d show "settlement_date (dates_of (rs @ [r])) e f = settlement_date (dates_of rs) e f"
    by (simp add: settlement_known)
qed

lemma dated_extended:
  assumes "dated_fills ids rs" "\<And>e f. lr_event r = Some e \<Longrightarrow> ev_fill e = Some f \<Longrightarrow>
    fill_execution_id f \<notin> ids \<and> (\<exists>d. lr_trade_date r = Some d \<and> d \<noteq> []) \<and> fill_execution_id f \<in> ids'" "ids \<subseteq> ids'"
  shows "dated_fills ids' (rs @ [r])"
  unfolding dated_fills_def
proof (intro ballI allI impI)
  fix r' e f assume r': "r' \<in> set (rs @ [r])" "lr_event r' = Some e" "ev_fill e = Some f"
  show "fill_execution_id f \<in> ids' \<and> (\<exists>d. map_of (dates_of (rs @ [r])) (fill_execution_id f) = Some d \<and> d \<noteq> [])"
  proof (cases "r' \<in> set rs")
    case True
    with assms(1) r' obtain d where d: "fill_execution_id f \<in> ids"
      "map_of (dates_of rs) (fill_execution_id f) = Some d" "d \<noteq> []" unfolding dated_fills_def by blast
    moreover have "map_of (dates_of (rs @ [r])) (fill_execution_id f) = Some d"
      unfolding dates_of_snoc using d(1,2) assms(2) by (intro note_date_keeps) metis+
    ultimately show ?thesis using assms(3) by auto
  next
    case False
    with r' have r: "r' = r" by simp
    with assms(2) r'(2,3) obtain d where "lr_trade_date r = Some d" "d \<noteq> []" "fill_execution_id f \<in> ids'" by auto
    with r r'(2,3) show ?thesis by (auto simp: note_date_fill)
  qed
qed

text \<open>A record without a fill and without an action.\<close>

lemma account_mirror_plain:
  assumes m: "account_mirror H cash d ids pf rs" and e: "lr_event r = Some e" "\<not> is_fill_event (ev_event_type e)" "ev_fill e = None"
  shows "account_mirror H cash d ids pf (rs @ [r])"
proof -
  have plain: "pass_record H known r st = Inr st" for known st
    using e by (simp add: pass_record_def replay_fill_def)
  from m have dated: "dated_fills ids rs" by (simp add: account_mirror_def)
  have "dated_fills ids (rs @ [r])" using e by (intro dated_extended [OF dated]) auto
  moreover have "pass_records H (dates_of (rs @ [r])) rs st = pass_records H (dates_of rs) rs st" for st
    using e by (intro pass_extended [OF dated]) auto
  ultimately show ?thesis using m by (auto simp: account_mirror_def pass_records_append plain)
qed

text \<open>The record of a fill the portfolio has booked.\<close>

lemma account_mirror_fill:
  assumes m: "account_mirror H cash d ids pf rs" and f: "same_fill f cf" "pt_apply_fill f pf = (Inr u, pf')"
    and r: "lr_event r = Some e" "is_fill_event (ev_event_type e)" "ev_fill e = Some cf" "lr_trade_date r = Some d" "d \<noteq> []"
    and new: "fill_execution_id cf \<notin> ids"
  shows "account_mirror H cash d (insert (fill_execution_id cf) ids) pf' (rs @ [r])"
proof -
  let ?ids = "insert (fill_execution_id cf) ids" and ?known = "dates_of (rs @ [r])"
  from m obtain st where dated: "dated_fills ids rs" and st: "pass_records H (dates_of rs) rs (opening_replay cash) = Inr st"
    "mirrors d pf (rp_account st)" "fst ` set (rp_applied st) \<subseteq> ids"
    by (auto simp: account_mirror_def)
  have pass: "pass_records H ?known rs (opening_replay cash) = Inr st"
    unfolding st(1) [symmetric] using r(1,3) new by (intro pass_extended [OF dated]) auto
  from mirror_fill [OF st(2) f(1,2)] obtain acc where acc: "then_check (apply_fill H cf d (rp_account st)) = Inr acc"
    "mirrors d pf' acc" by blast
  have "map_of (rp_applied st) (fill_execution_id cf) = None"
    using st(3) new by (auto simp: map_of_eq_None_iff)
  moreover have "settlement_date ?known e cf = d"
    using r by (intro settlement_known) (simp_all add: note_date_fill)
  ultimately have step: "pass_record H ?known r st = Inr (st\<lparr>rp_account := acc,
      rp_applied := AList.update (fill_execution_id cf) cf (rp_applied st)\<rparr>)"
    using r acc(1) by (simp add: pass_record_def replay_fill_def)
  have "dated_fills ?ids (rs @ [r])" using r new by (intro dated_extended [OF dated]) auto
  moreover have "fst ` set (AList.update (fill_execution_id cf) cf (rp_applied st)) \<subseteq> ?ids"
    using st(3) set_update_subset [of "fill_execution_id cf" cf "rp_applied st"] by fastforce
  moreover have "pass_records H ?known (rs @ [r]) (opening_replay cash) = Inr (st\<lparr>rp_account := acc,
      rp_applied := AList.update (fill_execution_id cf) cf (rp_applied st)\<rparr>)"
    by (simp only: pass_records_append pass step res_bind_simps)
  ultimately show ?thesis using acc(2) by (auto simp: account_mirror_def simp del: dates_of_snoc)
qed

text \<open>The record of a corporate action that the replay can apply.\<close>

lemma account_mirror_action:
  assumes m: "account_mirror H cash d ids pf rs" and a: "exact_action a"
    and r: "lr_event r = None" "truthy (lr_corporate_action r)" "CorporateAction_from_dict (lr_corporate_action r) = Inr a"
    and app: "\<And>acc. mirrors d pf acc \<Longrightarrow> \<exists>acc'. then_check (apply_corporate_action a acc) = Inr acc'"
    and live: "pt_apply_corporate_action (ca_symbol a) (ca_share_ratio a) (ca_cash_per_share a) pf = (x, pf')"
  shows "account_mirror H cash d ids pf' (rs @ [r])"
proof -
  from m obtain st where dated: "dated_fills ids rs" and st: "pass_records H (dates_of rs) rs (opening_replay cash) = Inr st"
    "mirrors d pf (rp_account st)" "fst ` set (rp_applied st) \<subseteq> ids"
    by (auto simp: account_mirror_def)
  from app [OF st(2)] obtain acc where acc: "then_check (apply_corporate_action a (rp_account st)) = Inr acc" by blast
  have known: "dates_of (rs @ [r]) = dates_of rs" using r(1) by (simp add: note_date_def)
  have step: "pass_record H known r st = Inr (st\<lparr>rp_account := acc\<rparr>)" for known
    using r acc by (simp add: pass_record_def)
  have "dated_fills ids (rs @ [r])" using r(1) by (intro dated_extended [OF dated]) auto
  with mirror_action [OF st(2) a acc live] st(1,3) known show ?thesis
    by (auto simp: account_mirror_def pass_records_append step)
qed

section \<open>The replayed account\<close>

lemma mirrors_duplicates: "mirrors d pf (acc\<lparr>acc_duplicate_executions := x\<rparr>) = mirrors d pf acc"
  by (simp add: mirrors_def account_ok_def all_lots_positive_def inventory_ok_def balanced_def invested_def)

lemma replay_mirrors:
  assumes "mirrored D H clock (b, led)" "account_mirror H cash d ids pf (led_records led)"
  obtains b' acc where "replay D H clock cash led = Inr (b', acc)" "erase_book b' = erase_book b" "mirrors d pf acc"
proof -
  from assms(1) obtain b' dates where b': "replay_records H clock (led_records led) (empty_book, []) = Inr (b', dates)"
    "erase_book b' = erase_book b" "chained D led" by (auto simp: mirrored_def)
  have dates: "dates = dates_of (led_records led)"
    using replay_records_dates [OF b'(1)] by (simp add: dates_of_def)
  from assms(2) obtain st where st: "pass_records H dates (led_records led) (opening_replay cash) = Inr st"
    "mirrors d pf (rp_account st)" by (auto simp: account_mirror_def dates)
  from pass_actions [OF st(1)] obtain actions where actions: "corporate_actions led = Inr actions"
    by (auto simp: corporate_actions_def)
  show ?thesis
  proof (rule that)
    show "replay D H clock cash led = Inr (b', replayed_account st)"
      by (simp add: replay_def replay_book_dates_def chained_verify [OF b'(3)] b'(1) actions replay_is_one_pass [OF actions] st(1))
    show "mirrors d pf (replayed_account st)" using st(2) by (simp add: replayed_account_def mirrors_duplicates)
  qed (rule b'(2))
qed

end
