(* ===== verification/Paper_Frame.thy ===== *)
theory Paper_Frame
  imports Paper_Venue
begin

text \<open>
  What the operations of the venue leave alone: marks, sessions, risk decisions, validation and the switch
  touch neither the canonical book and ledger nor the money and the holdings of the portfolio.
\<close>

definition same_money :: "portfolio \<Rightarrow> portfolio \<Rightarrow> bool" where
  "same_money pf pf' \<longleftrightarrow> pt_cash pf' = pt_cash pf \<and> pt_realised_pnl pf' = pt_realised_pnl pf
     \<and> pt_fees_paid pf' = pt_fees_paid pf \<and> (\<forall>s. pt_get pf' s = pt_get pf s)
     \<and> (dict_wf (pt_positions pf) \<longrightarrow> dict_wf (pt_positions pf'))"

definition framed :: "broker \<Rightarrow> broker \<Rightarrow> bool" where
  "framed br br' \<longleftrightarrow> same_money (br_portfolio br) (br_portfolio br') \<and> br_book br' = br_book br
     \<and> br_ledger br' = br_ledger br \<and> br_fill_ids br' = br_fill_ids br \<and> br_fills br' = br_fills br
     \<and> br_canonical_ids br' = br_canonical_ids br"

lemma pt_position_wf: "dict_wf (pt_positions pf) \<Longrightarrow> dict_wf (pt_positions (snd (pt_position symbol pf)))"
  by (simp add: pt_position_def pt_put_def distinct_update split: option.split)

lemma same_money_refl [simp]: "same_money pf pf"
  by (simp add: same_money_def)

lemma framed_refl [simp]: "framed br br"
  by (simp add: framed_def)

lemma framed_trans [trans]: "framed a b \<Longrightarrow> framed b c \<Longrightarrow> framed a c"
  by (auto simp: framed_def same_money_def)

lemma framed_updates [simp]:
  "framed a (br\<lparr>br_store := x\<rparr>) = framed a br" "framed a (br\<lparr>br_risk := y\<rparr>) = framed a br"
  "framed a (br\<lparr>br_latched := z\<rparr>) = framed a br" "framed a (br\<lparr>br_marks := m\<rparr>) = framed a br"
  "framed a (br\<lparr>br_mark_times := t\<rparr>) = framed a br" "framed a (br\<lparr>br_clock := c\<rparr>) = framed a br"
  "framed a (br\<lparr>br_session := s\<rparr>) = framed a br" "framed a (br\<lparr>br_orders := ods\<rparr>) = framed a br"
  "framed a (br\<lparr>br_last_decision := d\<rparr>) = framed a br"
  by (simp_all add: framed_def)

lemma framed_and_then:
  "framed br (snd m) \<Longrightarrow> (\<And>a br'. m = (Inr a, br') \<Longrightarrow> framed br br' \<Longrightarrow> framed br (snd (f a br'))) \<Longrightarrow>
     framed br (snd (and_then m f))"
  by (rule and_then_cases)

lemma framed_pure_then:
  "framed br br' \<Longrightarrow> (\<And>a. r = Inr a \<Longrightarrow> framed br (snd (f a))) \<Longrightarrow> framed br (snd (pure_then r f br'))"
  by (rule pure_then_cases)

section \<open>The operations\<close>

lemma framed_put_order [simp]: "framed a (put_order od br) = framed a br"
  by (simp add: put_order_def)

lemma framed_move_order: "framed a br \<Longrightarrow> framed a (snd (move_order t od br))"
  unfolding move_order_def by (rule framed_pure_then) simp_all

lemma framed_emit: "framed a br \<Longrightarrow> framed a (snd (br_emit vn t payload symbol market_time br))"
  by (simp add: br_emit_def split: prod.split)

lemma framed_check_portfolio: "framed a br \<Longrightarrow> framed a (snd (br_check_portfolio vn br))"
  by (simp add: br_check_portfolio_def split: prod.split option.split)

lemma framed_record_mark: "framed a br \<Longrightarrow> framed a (record_mark symbol price stamp br)"
  by (simp add: record_mark_def Let_def split: option.split)

lemma framed_enter_session: "framed a br \<Longrightarrow> framed a (snd (enter_session vn session opening br))"
  unfolding enter_session_def Let_def
  by (auto split: option.split prod.split intro!: framed_and_then framed_check_portfolio)

lemma framed_observe: "framed a br \<Longrightarrow> framed a (snd (observe vn m br))"
  by (simp add: observe_def framed_enter_session framed_record_mark)

lemma framed_marks: "framed a br \<Longrightarrow> framed a (fold (\<lambda>(symbol, price) br.
    if 0 < price then record_mark symbol price t br else br) prices br)"
  by (induction prices arbitrary: br) (auto simp: framed_record_mark)

lemma framed_observe_marks: "framed a br \<Longrightarrow> framed a (snd (observe_marks vn prices day t br))"
  unfolding observe_marks_def by (intro framed_enter_session framed_marks)

lemma framed_portfolio_refusal: "framed a br \<Longrightarrow> framed a (snd (portfolio_refusal vn od m br))"
  unfolding portfolio_refusal_def by (auto split: option.split prod.split intro!: framed_and_then)

lemma framed_mark_to_market: "framed a br \<Longrightarrow> framed a (snd (mark_to_market vn prices market_time br))"
  unfolding mark_to_market_def Let_def by (intro framed_and_then framed_emit) simp_all

lemma framed_set_latches [simp]: "framed a (set_latches s br) = framed a br"
  by (simp add: set_latches_def split: option.split)

lemma framed_switch:
  "framed a br \<Longrightarrow> framed a (snd (arm_kill_switch vn scope reason br))"
  "framed a br \<Longrightarrow> framed a (snd (trigger_kill_switch vn reason scope br))"
  "framed a br \<Longrightarrow> framed a (snd (clear_kill_switch vn scope key human br))"
  by (simp_all add: arm_kill_switch_def trigger_kill_switch_def clear_kill_switch_def framed_emit split: prod.split)

lemma framed_position:
  assumes "framed a br" "pt_position symbol (br_portfolio br) = (holding, pf)"
  shows "framed a (br\<lparr>br_portfolio := pf\<rparr>)"
proof -
  have "same_money (br_portfolio br) pf"
    using pt_position_simps [of symbol "br_portfolio br"] pt_position_wf [of "br_portfolio br" symbol]
    unfolding same_money_def assms(2) by simp
  with assms(1) show ?thesis by (auto simp: framed_def same_money_def)
qed

lemma framed_validate:
  assumes "framed a br"
  shows "framed a (snd (validate vn od m br))"
proof (cases "blocking (pa_side od = BUY) (pa_strategy_id od) (br_latches br)")
  case (Cons r rs)
  with assms show ?thesis by (simp add: validate_def)
next
  case Nil
  obtain holding pf where p: "pt_position (pa_symbol od) (br_portfolio br) = (holding, pf)" by fastforce
  note pf = framed_position [OF assms p]
  show ?thesis
    unfolding validate_def Nil p prod.case list.case Let_def
    by (auto simp: assms pf split: option.split intro!: framed_pure_then framed_and_then framed_portfolio_refusal)
qed

lemma validate_order: "validate vn od m br = (Inr (reason, od'), br') \<Longrightarrow> pa_order_id od' = pa_order_id od"
  by (auto simp: validate_def and_then_def pure_then_def Let_def split: list.splits if_splits prod.splits sum.splits option.splits)

lemma move_order_same: "move_order t od br = (Inr od', br') \<Longrightarrow> pa_order_id od' = pa_order_id od"
  by (auto simp: move_order_def pure_then_def paper_transition_def split: sum.splits if_splits)

end
