(* ===== verification/Paper_Desk.thy ===== *)
theory Paper_Desk
  imports Paper_Account Paper_Frame Paper_Recovery
begin

text \<open>
  The venue and its canonical ledger stay together: \<open>desk_ok\<close> says that the ledger replays to the book and
  that its account mirrors the live portfolio, that the book has the venue's fills and that its orders can be
  recovered; every operation that returns keeps it.
\<close>

definition booked_fills :: "order_book \<Rightarrow> string list \<Rightarrow> bool" where
  "booked_fills b ids \<longleftrightarrow> (\<forall>cid od f. map_of (bk_orders b) cid = Some od \<longrightarrow> f \<in> set (ord_fills od) \<longrightarrow>
     fill_execution_id f \<in> set ids)"

definition recoverable :: "order_status \<Rightarrow> bool" where
  "recoverable status \<longleftrightarrow> (\<exists>t. PAPER_STATE_OF status = Inr t)"

text \<open>Outside \<open>X\<close> every order has a status the paper side has a name for.\<close>

definition orders_ok :: "string set \<Rightarrow> order_book \<Rightarrow> bool" where
  "orders_ok X b \<longleftrightarrow> (\<forall>cid od. map_of (bk_orders b) cid = Some od \<longrightarrow>
     0 < ord_quantity od \<and> (cid \<in> X \<or> recoverable (ord_status od)))"

definition dated_until :: "string \<Rightarrow> ledger \<Rightarrow> bool" where
  "dated_until d led \<longleftrightarrow> (\<forall>r\<in>set (led_records led). \<forall>x. lr_trade_date r = Some x \<longrightarrow> x \<le> d)"

definition canon_ok ::
    "chain_digest \<Rightarrow> digest \<Rightarrow> (nat \<Rightarrow> string) \<Rightarrow> rat \<Rightarrow> string \<Rightarrow> string list \<Rightarrow> nat \<Rightarrow> string set \<Rightarrow> portfolio
     \<Rightarrow> order_book \<Rightarrow> ledger \<Rightarrow> bool" where
  "canon_ok D H clock cash d ids n X pf b led \<longleftrightarrow> mirrored D H clock (b, led)
     \<and> account_mirror H cash d (set ids) pf (led_records led) \<and> booked_fills b ids
     \<and> length (book_fills b) = n \<and> orders_ok X b \<and> dated_until d led"

definition desk_but :: "string set \<Rightarrow> venue \<Rightarrow> (nat \<Rightarrow> string) \<Rightarrow> rat \<Rightarrow> string \<Rightarrow> broker \<Rightarrow> bool" where
  "desk_but X vn clock cash d br \<longleftrightarrow> canon_ok (vn_chain vn) (vn_digest vn) clock cash d (br_fill_ids br)
       (length (br_fills br)) X (br_portfolio br) (br_book br) (br_ledger br)
     \<and> dict_wf (pt_positions (br_portfolio br))"

abbreviation desk_ok :: "venue \<Rightarrow> (nat \<Rightarrow> string) \<Rightarrow> rat \<Rightarrow> string \<Rightarrow> broker \<Rightarrow> bool" where
  "desk_ok \<equiv> desk_but {}"

lemma canon_okD:
  assumes "canon_ok D H clock cash d ids n X pf b led"
  shows "mirrored D H clock (b, led)" "account_mirror H cash d (set ids) pf (led_records led)" "booked_fills b ids"
    "length (book_fills b) = n" "orders_ok X b" "dated_until d led"
  using assms by (simp_all add: canon_ok_def)

lemma canon_portfolio:
  "canon_ok D H clock cash d ids n X pf b led \<Longrightarrow> (\<And>acc. mirrors d pf acc \<Longrightarrow> mirrors d pf' acc) \<Longrightarrow>
     canon_ok D H clock cash d ids n X pf' b led"
  by (auto simp: canon_ok_def intro: account_mirror_portfolio)

lemma desk_butD:
  assumes "desk_but X vn clock cash d br"
  shows "canon_ok (vn_chain vn) (vn_digest vn) clock cash d (br_fill_ids br) (length (br_fills br)) X (br_portfolio br)
      (br_book br) (br_ledger br)" "dict_wf (pt_positions (br_portfolio br))"
  using assms by (simp_all add: desk_but_def)

lemma mirrors_same_money: "same_money pf pf' \<Longrightarrow> mirrors d pf acc \<Longrightarrow> mirrors d pf' acc"
  by (simp add: same_money_def mirrors_def)

lemma desk_framed: "desk_but X vn clock cash d br \<Longrightarrow> framed br br' \<Longrightarrow> desk_but X vn clock cash d br'"
  unfolding desk_but_def framed_def
  by (auto intro: canon_portfolio [OF _ mirrors_same_money]) (simp add: same_money_def)

section \<open>Steps of the mirror\<close>

lemma mirrored_order: "mirrored D H clock (b, led) \<Longrightarrow> map_of (bk_orders b) cid = Some od \<Longrightarrow> no_empty_field (ord_lineage od)"
  by (auto simp: mirrored_def)

lemma booked_update:
  "booked_fills b ids \<Longrightarrow> set ids \<subseteq> set ids' \<Longrightarrow> \<forall>f\<in>set (ord_fills od). fill_execution_id f \<in> set ids' \<Longrightarrow>
     booked_fills (b\<lparr>bk_orders := AList.update cid od (bk_orders b), bk_events := es\<rparr>) ids'"
  by (fastforce simp: booked_fills_def split: if_splits)

lemma book_eq: "\<lparr>bk_orders = x, bk_events = y\<rparr> = b\<lparr>bk_orders := x, bk_events := y\<rparr>"
  by simp

lemma orders_update:
  "orders_ok X b \<Longrightarrow> 0 < ord_quantity od \<Longrightarrow> cid \<in> Y \<or> recoverable (ord_status od) \<Longrightarrow> X - {cid} \<subseteq> Y \<Longrightarrow>
     orders_ok Y (b\<lparr>bk_orders := AList.update cid od (bk_orders b), bk_events := es\<rparr>)"
  by (fastforce simp: orders_ok_def split: if_splits)

lemma dated_snoc:
  "dated_until d led \<Longrightarrow> pred_option (\<lambda>x. x \<le> d) (lr_trade_date r) \<Longrightarrow>
     dated_until d (led\<lparr>led_records := led_records led @ [r], led_head := h\<rparr>)"
  by (auto simp: dated_until_def)

lemma fills_snoc:
  "length (book_fills \<lparr>bk_orders = x, bk_events = bk_events b @ [e]\<rparr>) =
     length (book_fills b) + (case ev_fill e of None \<Rightarrow> 0 | Some f \<Rightarrow> 1)"
  by (simp add: book_fills_def event_fills_def split: option.split)

lemma apply_grows:
  assumes "OrderBook_apply now cid t None reason rd b = Inr (od, b')" "\<not> is_fill_event t"
  shows "length (bk_events b) < length (bk_events b')"
proof -
  from assms(1) obtain od1 where "OrderBook_apply now cid t None reason rd b = Inr (od, b')"
    "map_of (bk_orders b) cid = Some od1" by (auto simp: OrderBook_apply_Inr)
  with assms(2) show ?thesis by (auto simp: OrderBook_apply_Inr Let_def Order_apply_other)
qed

lemma mirror_event_grows:
  "mirror_event D w now now' cid t td None reason rd (b, led) = (Inr od, b', led') \<Longrightarrow> \<not> is_fill_event t \<Longrightarrow>
     length (bk_events b) < length (bk_events b')"
  by (auto simp: mirror_event_def dest: apply_grows split: sum.splits prod.splits if_splits)

lemma mirror_event_desk:
  assumes ok: "canon_ok D H clock cash d ids n X pf b led"
    and t: "\<not> is_fill_event t" and rd: "pred_option storable_risk rd" and td: "pred_option (\<lambda>x. x \<le> d) td"
    and Y: "cid \<in> Y \<or> recoverable (TARGET_STATUS t)" "X - {cid} \<subseteq> Y"
    and step: "mirror_event D w now now' cid t td None reason rd (b, led) = (Inr od, b', led')"
  shows "canon_ok D H clock cash d ids n Y pf b' led'"
proof -
  note run = mirror_event_durable [OF step]
  note old = canon_okD [OF ok]
  have nf: "\<not> led_write_failure led" using old(1) by (simp add: mirrored_def)
  have m: "mirrored D H clock (b', led')"
    using mirrored_event [OF old(1), of None rd now now' cid t td reason] rd run by simp
  from nf show ?thesis
  proof (cases rule: mirror_event_cases [of led D now now' cid t td None reason rd b])
    case none
    with run mirror_event_grows [OF step t] show ?thesis by simp
  next
    case (some od1 e od2 r)
    have od2: "ord_fills od2 = ord_fills od1" "ord_quantity od2 = ord_quantity od1" "ord_status od2 = TARGET_STATUS t"
      using some(2,3) t by (auto elim!: Order_apply_UpdatedE)
    have "storable_event e"
      using mirrored_order [OF old(1) some(1)] rd by (simp add: some(2) storable_event_def applied_event_def)
    then have "account_mirror H cash d (set ids) pf (led_records led @ [r])"
      using t by (intro account_mirror_plain [OF old(2), where e = e]) (simp_all add: some(2,4) record_event)
    moreover have "booked_fills \<lparr>bk_orders = AList.update cid od2 (bk_orders b), bk_events = bk_events b @ [e]\<rparr> ids"
      unfolding book_eq [of _ _ b] using old(3) some(1) od2 by (intro booked_update) (auto simp: booked_fills_def)
    moreover have "orders_ok Y \<lparr>bk_orders = AList.update cid od2 (bk_orders b), bk_events = bk_events b @ [e]\<rparr>"
      unfolding book_eq [of _ _ b] using old(5) some(1) od2 Y by (intro orders_update [OF old(5)]) (auto simp: orders_ok_def)
    moreover have "dated_until d (led\<lparr>led_records := led_records led @ [r], led_head := lr_record_hash r\<rparr>)"
      using td by (intro dated_snoc old) (simp add: some(4) record_date)
    moreover have "ev_fill e = None" by (simp add: some(2))
    ultimately show ?thesis using run some(5) m old(4) by (simp add: canon_ok_def fills_snoc)
  qed
qed

text \<open>The record of a fill the portfolio has just booked.\<close>

lemma mirror_fill_desk:
  assumes ok: "canon_ok D H clock cash d ids n X pf b led"
    and t: "is_fill_event t" and f: "same_fill f cf" "pt_apply_fill f pf = (Inr u, pf')"
      "\<And>od. map_of (bk_orders b) cid = Some od \<Longrightarrow> storable_fill cf"
    and new: "fill_execution_id cf \<notin> set ids" "d \<noteq> []" and ids: "set ids' = insert (fill_execution_id cf) (set ids)"
    and step: "mirror_event D w now now' cid t (Some d) (Some cf) None None (b, led) = (Inr od, b', led')"
  shows "canon_ok D H clock cash d ids' (n + 1) X pf' b' led'"
proof -
  note run = mirror_event_durable [OF step]
  note old = canon_okD [OF ok]
  have nf: "\<not> led_write_failure led" using old(1) by (simp add: mirrored_def)
  from step obtain od1 where od1: "map_of (bk_orders b) cid = Some od1"
    by (auto simp: mirror_event_def OrderBook_apply_def split: option.splits)
  note stored = f(3) [OF od1]
  have m: "mirrored D H clock (b', led')"
    using mirrored_event [OF old(1), of "Some cf" None now now' cid t "Some d" None] stored run by simp
  have others: "\<forall>g\<in>set (ord_fills od1). fill_execution_id g \<noteq> fill_execution_id cf"
    using old(3) od1 new(1) unfolding booked_fills_def by metis
  have "Order_apply od1 e \<noteq> Inr Same" if "ev_event_type e = t" "ev_fill e = Some cf" for e
    using others t that by (auto simp: Order_apply_def apply_new_fill_def Let_def res_bind_Inr_iff find_Some_iff
        split: option.splits if_splits)
  then have grown: "length (bk_events b) < length (bk_events b')"
    using run od1 by (auto simp: mirror_event_def OrderBook_apply_def Let_def split: sum.splits applied.splits prod.splits if_splits)
  from nf show ?thesis
  proof (cases rule: mirror_event_cases [of led D now now' cid t "Some d" "Some cf" None None b])
    case none
    with run grown show ?thesis by simp
  next
    case (some od1' e od2 r)
    have same: "od1' = od1" using some(1) od1 by simp
    have od2: "ord_fills od2 = ord_fills od1 @ [cf]" "ord_quantity od2 = ord_quantity od1"
      "ord_status od2 \<in> {FILLED, PARTIALLY_FILLED}"
      using some(2,3) t same by (auto elim!: Order_apply_UpdatedE split: if_splits)
    have "storable_event e"
      using mirrored_order [OF old(1) some(1)] stored by (simp add: some(2) storable_event_def applied_event_def)
    then have "account_mirror H cash d (insert (fill_execution_id cf) (set ids)) pf' (led_records led @ [r])"
      using t new by (intro account_mirror_fill [OF old(2) f(1,2), where e = e])
        (simp_all add: some(2,4) record_event record_date)
    moreover have "booked_fills \<lparr>bk_orders = AList.update cid od2 (bk_orders b), bk_events = bk_events b @ [e]\<rparr> ids'"
      unfolding book_eq [of _ _ b] using old(3) od1 od2 ids by (intro booked_update) (auto simp: booked_fills_def)
    moreover have "orders_ok X \<lparr>bk_orders = AList.update cid od2 (bk_orders b), bk_events = bk_events b @ [e]\<rparr>"
      unfolding book_eq [of _ _ b] using old(5) od1 od2
      by (intro orders_update [OF old(5)]) (auto simp: orders_ok_def recoverable_def PAPER_STATE_OF_def ORDER_STATES_def)
    moreover have "dated_until d (led\<lparr>led_records := led_records led @ [r], led_head := lr_record_hash r\<rparr>)"
      by (intro dated_snoc old) (simp add: some(4) record_date)
    moreover have "ev_fill e = Some cf" by (simp add: some(2))
    ultimately show ?thesis using run some(5) m ids old(4) by (simp add: canon_ok_def fills_snoc)
  qed
qed

lemma mirror_open_desk:
  assumes ok: "canon_ok D H clock cash d ids n X pf b led"
    and i: "no_empty_field (oi_lineage i)" "0 < oi_quantity i" "pred_option (\<lambda>x. x \<le> d) td"
    and step: "mirror_open D H w now now' i td None (b, led) = (Inr od, b', led')"
  shows "canon_ok D H clock cash d ids n (insert (ord_order_id od) X) pf b' led' \<and> od = Order_from_intent H i None"
proof -
  note run = mirror_open_durable [OF step]
  note old = canon_okD [OF ok]
  have nf: "\<not> led_write_failure led" using old(1) by (simp add: mirrored_def)
  have m: "mirrored D H clock (b', led')"
    using mirrored_open [OF old(1) i(1), of None now now' td] run by simp
  let ?od = "Order_from_intent H i None"
  let ?e = "created_event now ?od (length (bk_events b))"
  let ?r = "appended_record D now' (Some ?e) td (Some i) None led"
  have fresh: "map_of (bk_orders b) (ord_order_id ?od) = None"
    using step by (cases "map_of (bk_orders b) (ord_order_id ?od)")
      (auto simp: mirror_open_def OrderBook_open_known Let_def)
  have "storable_event ?e"
    using lineage_from_intent(1) [OF i(1), of None H] by (simp add: storable_event_def created_event_def)
  then have "account_mirror H cash d (set ids) pf (led_records led @ [?r])"
    by (intro account_mirror_plain [OF old(2), where e = ?e]) (simp_all add: record_event is_fill_event_def)
  moreover have "booked_fills \<lparr>bk_orders = AList.update (ord_order_id ?od) ?od (bk_orders b),
      bk_events = bk_events b @ [?e]\<rparr> ids"
    unfolding book_eq [of _ _ b] using old(3) by (intro booked_update) (auto simp: Order_from_intent_def Let_def)
  moreover have "orders_ok (insert (ord_order_id ?od) X) \<lparr>bk_orders = AList.update (ord_order_id ?od) ?od (bk_orders b),
      bk_events = bk_events b @ [?e]\<rparr>"
    unfolding book_eq [of _ _ b] using i(2) by (intro orders_update [OF old(5)]) (auto simp: Order_from_intent_def Let_def)
  moreover have "dated_until d (led\<lparr>led_records := led_records led @ [?r], led_head := lr_record_hash ?r\<rparr>)"
    using i(3) by (intro dated_snoc old) (simp add: record_date)
  moreover have "od = ?od"
    using run fresh by (auto simp: mirror_open_def OrderBook_open_new Let_def split: prod.splits sum.splits if_splits)
  ultimately show ?thesis
    using mirror_open_cases [OF nf, of D H now now' i td None b] run fresh m old(4)
    by (auto simp: Let_def canon_ok_def fills_snoc)
qed

section \<open>Steps of the venue\<close>

lemma canonical_mirror_ok:
  assumes "desk_but X vn clock cash d br" "\<not> is_fill_event t" "pred_option (\<lambda>x. x \<le> d) td" "recoverable (TARGET_STATUS t)"
    "canonical_mirror vn cid t td None reason br = (Inr (), br')"
  shows "desk_but X vn clock cash d br' \<and> br_canonical_ids br' = br_canonical_ids br"
proof -
  obtain w now now' where env: "vn_canon vn (br_steps br) = (w, now, now')" by (metis prod_cases3)
  obtain r b led where step: "mirror_event (vn_chain vn) w now now' cid t td None reason None (br_book br, br_ledger br) = (r, b, led)"
    by (metis prod_cases3)
  with assms(5) env obtain od where r: "r = Inr od"
    and br': "br' = br\<lparr>br_book := b, br_ledger := led, br_steps := br_steps br + 1\<rparr>"
    by (auto simp: canonical_mirror_def res_bind_Inr_iff)
  from mirror_event_desk [OF desk_butD(1) [OF assms(1)] assms(2) _ assms(3) _ _ step [unfolded r], of X] assms(1,4)
  show ?thesis by (auto simp: desk_but_def br')
qed

lemma canonical_event_ok:
  assumes "desk_but X vn clock cash d br" "\<not> is_fill_event t" "pred_option (\<lambda>x. x \<le> d) td" "recoverable (TARGET_STATUS t)"
    "canonical_event vn od t reason td br = (Inr (), br')"
  shows "desk_but X vn clock cash d br' \<and> br_canonical_ids br' = br_canonical_ids br"
  using assms canonical_mirror_ok [OF assms(1-4)] by (auto simp: canonical_event_def split: option.splits)

lemma canonical_apply_ok:
  assumes "desk_but X vn clock cash d br" "\<not> is_fill_event t" "pred_option storable_risk rd" "session \<le> d"
    and Y: "cid \<in> Y \<or> recoverable (TARGET_STATUS t)" "X - {cid} \<subseteq> Y"
    and run: "canonical_apply vn cid t rd session br = (Inr (), br')"
  shows "desk_but Y vn clock cash d br' \<and> br_canonical_ids br' = br_canonical_ids br"
proof -
  obtain w now now' where env: "vn_canon vn (br_steps br) = (w, now, now')" by (metis prod_cases3)
  from run env obtain od b where app: "OrderBook_apply now cid t None None rd (br_book br) = Inr (od, b)"
    by (auto simp: canonical_apply_def split: sum.splits prod.splits)
  obtain r led where put: "append (vn_chain vn) w now' (Some (last (history_of b cid))) (Some session) None None (br_ledger br) = (r, led)"
    by fastforce
  from run env app put obtain rec where r: "r = Inr rec"
    and br': "br' = br\<lparr>br_book := b, br_ledger := led, br_steps := br_steps br + 1\<rparr>"
    by (auto simp: canonical_apply_def res_bind_Inr_iff)
  have step: "mirror_event (vn_chain vn) w now now' cid t (Some session) None None rd (br_book br, br_ledger br) = (Inr od, b, led)"
    using apply_grows [OF app assms(2)] by (simp add: mirror_event_def app put r)
  from mirror_event_desk [OF desk_butD(1) [OF assms(1)] assms(2,3) _ Y step] assms(1,4)
  show ?thesis by (auto simp: desk_but_def br')
qed

lemma canonical_intent_fields:
  "canonical_intent vn now od session = Inr i \<Longrightarrow> no_empty_field (vn_lineage vn) \<Longrightarrow>
     no_empty_field (oi_lineage i) \<and> 0 < oi_quantity i"
  by (auto simp: canonical_intent_def OrderIntent_create_def Signal_create_def Let_def no_empty_field_update split: if_splits)

lemma desk_canonical_ids: "desk_but X vn clock cash d (br\<lparr>br_canonical_ids := x\<rparr>) = desk_but X vn clock cash d br"
  by (simp add: desk_but_def)

lemma canonical_open_ok:
  assumes "desk_ok vn clock cash d br" "no_empty_field (vn_lineage vn)" "session \<le> d"
    and run: "canonical_open vn od session br = (Inr (), br')"
  shows "desk_ok vn clock cash d br' \<and> map_of (br_canonical_ids br') (pa_order_id od) \<noteq> None"
proof -
  obtain w now now' where env: "vn_canon vn (br_steps br) = (w, now, now')" by (metis prod_cases3)
  from run env obtain i where i: "canonical_intent vn now od session = Inr i"
    by (auto simp: canonical_open_def pure_then_Inr)
  obtain r b led where open': "mirror_open (vn_chain vn) (vn_digest vn) w now now' i (Some session) None (br_book br, br_ledger br) = (r, b, led)"
    by (metis prod_cases3)
  let ?br = "br\<lparr>br_book := b, br_ledger := led, br_steps := br_steps br + 1\<rparr>"
  from run env i open' obtain canonical where r: "r = Inr canonical"
    by (auto simp: canonical_open_def pure_then_Inr Let_def)
  let ?cid = "ord_order_id canonical"
  from canonical_intent_fields [OF i assms(2)] have lineage: "no_empty_field (oi_lineage i)" and q: "0 < oi_quantity i"
    by simp_all
  from mirror_open_desk [OF desk_butD(1) [OF assms(1)] lineage q _ open' [unfolded r]] assms(1,3)
  have br1: "desk_but {?cid} vn clock cash d ?br" and canonical: "canonical = Order_from_intent (vn_digest vn) i None"
    by (auto simp: desk_but_def)
  define br2 where "br2 = ?br\<lparr>br_canonical_ids := AList.update (pa_order_id od) ?cid (br_canonical_ids br)\<rparr>"
  define rd where "rd = RiskDecision_create (vn_digest vn) now True ''paper_pretrade'' (JStr ''board+cash+t+1'')
                     (JStr ''passed'') ''passed paper validation'' (ord_lineage canonical) ''risk_engine''"
  have br2: "desk_but {?cid} vn clock cash d br2" using br1 by (simp add: br2_def desk_canonical_ids)
  have rd_ok: "pred_option storable_risk (Some rd)"
    using lineage_from_intent(1) [OF lineage, of None "vn_digest vn"] canonical
    by (simp add: rd_def storable_risk_def RiskDecision_create_def Let_def no_empty_field_update)
  from run env i open' obtain br3 where
    first: "canonical_apply vn ?cid Ev_RISK_APPROVED (Some rd) session br2 = (Inr (), br3)"
    and second: "canonical_apply vn ?cid Ev_SUBMITTED None session br3 = (Inr (), br')"
    unfolding canonical_open_def r env prod.case Let_def br2_def rd_def by (auto simp: pure_then_Inr and_then_Inr)
  have br3: "desk_but {?cid} vn clock cash d br3 \<and> br_canonical_ids br3 = br_canonical_ids br2"
    by (rule canonical_apply_ok [OF br2 _ rd_ok assms(3) _ _ first]) (simp_all add: is_fill_event_def)
  have "desk_ok vn clock cash d br' \<and> br_canonical_ids br' = br_canonical_ids br3"
    by (rule canonical_apply_ok [OF _ _ _ assms(3) _ _ second, where X = "{?cid}"])
      (use br3 in \<open>simp_all add: is_fill_event_def recoverable_def PAPER_STATE_OF_def ORDER_STATES_def\<close>)
  with br3 show ?thesis by (simp add: br2_def)
qed

section \<open>Executions\<close>

text \<open>What the venue's own fills are: a whole number of shares at their notional, under an identifier.\<close>

definition whole_fill :: "paper_fill \<Rightarrow> bool" where
  "whole_fill f \<longleftrightarrow> pf_fill_id f \<noteq> [] \<and> (\<exists>q>0. pf_quantity f = of_int q) \<and> pf_notional f = pf_quantity f * pf_price f"

lemma economic_fill_same:
  assumes "economic_fill od f cid canonical session = Inr cf" "whole_fill f"
  shows "same_fill f cf" "fill_execution_id cf = pf_fill_id f" "no_empty_field (ord_lineage canonical) \<Longrightarrow> storable_fill cf"
proof -
  from assms(1) obtain L where L: "derive (ord_lineage canonical) [(field_name Execution_id, Some (pf_fill_id f))] = Inr L"
    and cf: "fill_symbol cf = pf_symbol f" "fill_side cf = pf_side f" "fill_quantity cf = py_int (pf_quantity f)"
      "fill_price cf = pf_price f" "fill_commission cf = pf_commission f" "fill_stamp_duty cf = pf_stamp_duty f"
      "fill_transfer_fee cf = pf_transfer_fee f" "fill_execution_id cf = pf_fill_id f" "fill_lineage cf = L"
    by (auto simp: economic_fill_def res_bind_Inr_iff)
  from assms(2) obtain q where q: "0 < q" "pf_quantity f = of_int q" by (auto simp: whole_fill_def)
  have quantity: "fill_quantity cf = q" using q cf(3) by (simp add: py_int_def)
  show "same_fill f cf"
    using assms(2) q quantity cf by (simp add: same_fill_def whole_fill_def fill_gross_def fill_fees_def pf_fees_def)
  show "fill_execution_id cf = pf_fill_id f" by (rule cf)
  have "L = (ord_lineage canonical)(Execution_id := Some (pf_fill_id f))" using L unfolding derive_known by simp
  with cf(9) assms(2) show "no_empty_field (ord_lineage canonical) \<Longrightarrow> storable_fill cf"
    by (simp add: storable_fill_def no_empty_field_update whole_fill_def)
qed

lemma fill_keeps_wf:
  assumes "pt_apply_fill f pf = (x, pf')" "dict_wf (pt_positions pf)"
  shows "dict_wf (pt_positions pf')"
proof -
  obtain p pf1 where p: "pt_position (pf_symbol f) pf = (p, pf1)" by fastforce
  then have "dict_wf (pt_positions pf1)" using pt_position_wf [OF assms(2), of "pf_symbol f"] by simp
  with assms(1) p show ?thesis
    by (auto simp: pt_apply_fill_def book_cash_def pt_put_def distinct_update split: if_splits)
qed

lemma canonical_fill_ok:
  assumes ok: "desk_ok vn clock cash d br" and f: "whole_fill f" "pf_fill_id f \<notin> set (br_fill_ids br)" "d \<noteq> []"
    and book: "pt_apply_fill f (br_portfolio br) = (Inr u, pf')"
    and known: "map_of (br_canonical_ids br) (pa_order_id od) \<noteq> None"
    and run: "canonical_fill vn od f d (br\<lparr>br_portfolio := pf', br_fill_ids := List.insert (pf_fill_id f) (br_fill_ids br),
      br_fills := br_fills br @ [f]\<rparr>) = (Inr (), br')"
  shows "desk_ok vn clock cash d br' \<and> br_canonical_ids br' = br_canonical_ids br"
proof -
  let ?br = "br\<lparr>br_portfolio := pf', br_fill_ids := List.insert (pf_fill_id f) (br_fill_ids br),
      br_fills := br_fills br @ [f]\<rparr>"
  obtain w now now' where env: "vn_canon vn (br_steps br) = (w, now, now')" by (metis prod_cases3)
  from known obtain cid where cid: "map_of (br_canonical_ids br) (pa_order_id od) = Some cid" by auto
  from run obtain canonical cf where canonical: "state_of (br_book br) cid = Inr canonical"
    and cf: "economic_fill od f cid canonical d = Inr cf"
    by (auto simp: canonical_fill_def cid pure_then_Inr res_bind_Inr_iff)
  let ?t = "if ord_quantity canonical \<le> ord_filled_quantity canonical + fill_quantity cf then Ev_FILL else Ev_PARTIAL_FILL"
  obtain r b led where step: "mirror_event (vn_chain vn) w now now' cid ?t (Some d) (Some cf) None None (br_book br, br_ledger br) = (r, b, led)"
    by (metis prod_cases3)
  have mir: "canonical_mirror vn cid ?t (Some d) (Some cf) None ?br = (Inr (), br')"
    using run by (simp add: canonical_fill_def cid canonical cf pure_then_def Let_def)
  with env step obtain od' where r: "r = Inr od'"
    and br': "br' = ?br\<lparr>br_book := b, br_ledger := led, br_steps := br_steps br + 1\<rparr>"
    by (auto simp: canonical_mirror_def res_bind_Inr_iff)
  note same = economic_fill_same [OF cf f(1)]
  have canon: "canon_ok (vn_chain vn) (vn_digest vn) clock cash d (br_fill_ids br) (length (br_fills br)) {} (br_portfolio br)
      (br_book br) (br_ledger br)" and wf: "dict_wf (pt_positions (br_portfolio br))"
    using ok by (simp_all add: desk_but_def)
  have L: "no_empty_field (ord_lineage canonical)"
    using canon_okD(1) [OF canon] canonical mirrored_order by (auto simp: state_of_Inr)
  have t: "is_fill_event ?t" by (simp add: is_fill_event_def)
  have "canon_ok (vn_chain vn) (vn_digest vn) clock cash d (List.insert (pf_fill_id f) (br_fill_ids br))
      (length (br_fills br) + 1) {} pf' b led"
    by (rule mirror_fill_desk [OF canon t same(1) book same(3) [OF L] _ f(3) _ step [unfolded r]])
      (use f(2) same(2) in auto)
  then show ?thesis using fill_keeps_wf [OF book wf] by (simp add: desk_but_def br')
qed

end
