(* ===== verification/Paper_Run.thy ===== *)
theory Paper_Run
  imports Paper_Desk
begin

text \<open>
  The operations of the venue over the invariant of \<open>Paper_Desk\<close>, and trading days: the calls of a session
  and its close, one session after the other.
\<close>

section \<open>What is sold\<close>

definition sold_of :: "string \<Rightarrow> paper_fill list \<Rightarrow> rat" where
  "sold_of s fs = (\<Sum>f\<leftarrow>filter (\<lambda>f. pf_symbol f = s \<and> pf_side f = SELL) fs. pf_quantity f)"

text \<open>The fills since then; no share became sellable and each sold one was.\<close>

definition sells :: "broker \<Rightarrow> broker \<Rightarrow> bool" where
  "sells br br' \<longleftrightarrow> (\<exists>fs. br_fills br' = br_fills br @ fs \<and>
     (\<forall>s. pt_sellable (br_portfolio br') s = pt_sellable (br_portfolio br) s - sold_of s fs))"

lemma sold_of_simps [simp]:
  "sold_of s [] = 0" "sold_of s (fs @ gs) = sold_of s fs + sold_of s gs"
  "sold_of s [f] = (if pf_symbol f = s \<and> pf_side f = SELL then pf_quantity f else 0)"
  by (simp_all add: sold_of_def)

lemma sells_trans: "sells a b \<Longrightarrow> sells b c \<Longrightarrow> sells a c"
  by (force simp: sells_def)

lemma sells_framed: "framed br br' \<Longrightarrow> sells br br'"
  by (auto simp: framed_def sells_def same_money_def pt_sellable_get intro: exI [of _ "[]"])

lemma sells_same: "br_fills br' = br_fills br \<Longrightarrow> br_portfolio br' = br_portfolio br \<Longrightarrow> sells br br'"
  by (simp add: sells_def exI [of _ "[]"])

lemma canonical_keeps:
  "br_fills (snd (canonical_mirror vn cid t td f reason br)) = br_fills br"
  "br_portfolio (snd (canonical_mirror vn cid t td f reason br)) = br_portfolio br"
  by (simp_all add: canonical_mirror_def split: prod.split)

lemma event_sells: "sells br (snd (canonical_event vn od t reason td br))"
  by (rule sells_same) (simp_all add: canonical_event_def canonical_keeps split: option.split)

lemma apply_keeps:
  "br_fills (snd (canonical_apply vn cid t rd session br)) = br_fills br"
  "br_portfolio (snd (canonical_apply vn cid t rd session br)) = br_portfolio br"
  by (simp_all add: canonical_apply_def split: sum.split prod.split)

lemma open_sells: "sells br (snd (canonical_open vn od session br))"
proof -
  let ?P = "\<lambda>b. br_fills b = br_fills br \<and> br_portfolio b = br_portfolio br"
  obtain w now now' where env: "vn_canon vn (br_steps br) = (w, now, now')" by (metis prod_cases3)
  have "?P (snd (canonical_open vn od session br))"
    unfolding canonical_open_def env prod.case
  proof (rule pure_then_cases [where P = ?P])
    fix i
    obtain r b led where open': "mirror_open (vn_chain vn) (vn_digest vn) w now now' i (Some session) None (br_book br, br_ledger br) = (r, b, led)"
      by (metis prod_cases3)
    show "?P (snd (case mirror_open (vn_chain vn) (vn_digest vn) w now now' i (Some session) None (br_book br, br_ledger br) of
          (r, book, led) \<Rightarrow>
            (let br = br\<lparr>br_book := book, br_ledger := led, br_steps := br_steps br + 1\<rparr> in
             pure_then r (\<lambda>canonical.
               let cid = ord_order_id canonical;
                   br = br\<lparr>br_canonical_ids := AList.update (pa_order_id od) cid (br_canonical_ids br)\<rparr>;
                   decision = RiskDecision_create (vn_digest vn) now True ''paper_pretrade'' (JStr ''board+cash+t+1'')
                     (JStr ''passed'') ''passed paper validation'' (ord_lineage canonical) ''risk_engine''
               in and_then (canonical_apply vn cid Ev_RISK_APPROVED (Some decision) session br) (\<lambda>_ br.
                  canonical_apply vn cid Ev_SUBMITTED None session br)) br)))"
      unfolding open' prod.case Let_def
      by (rule pure_then_cases [where P = ?P], simp, rule and_then_cases [where P = ?P]) (simp_all add: apply_keeps)
  qed simp
  then show ?thesis by (simp add: sells_same)
qed

text \<open>Whole shares: a sale takes exactly its quantity from the settled ones.\<close>

lemma fill_sells:
  assumes m: "mirrors d pf acc" and f: "\<exists>q>0. pf_quantity f = of_int q" and book: "pt_apply_fill f pf = (Inr u, pf')"
  shows "pp_sellable (pt_get pf' s) = pp_sellable (pt_get pf s) - sold_of s [f]"
proof -
  obtain pf1 where pf1: "pt_position (pf_symbol f) pf = (pt_get pf (pf_symbol f), pf1)" "\<And>s. pt_get pf1 s = pt_get pf s"
    using pt_position_split [of "pf_symbol f" pf] by metis
  show ?thesis
  proof (cases "pf_side f")
    case BUY
    with book pf1 show ?thesis by (auto simp: pt_apply_fill_def buy_position_def Let_def split: if_splits)
  next
    case SELL
    let ?p = "pt_get pf (pf_symbol f)" and ?lots = "dict_get (acc_lots acc) (pf_symbol f) []"
    from f obtain q where q: "0 < q" "pf_quantity f = of_int q" by blast
    note here = mirrors_lots [OF m, of "pf_symbol f", unfolded lots_mirror_def]
    have pf': "pf' = book_cash f (pt_put (pf_symbol f) (sell_position f ?p)
        (pf1\<lparr>pt_realised_pnl := pt_realised_pnl pf1 + realised_by f ?p\<rparr>))"
      and small: "of_int q - of_int (sellable_quantity ?lots d) \<le> (1 :: rat) / 10 ^ 9"
      using book SELL pf1(1) here q by (auto simp: pt_apply_fill_def split: if_splits)
    have le: "q \<le> sellable_quantity ?lots d"
    proof (rule ccontr)
      assume "\<not> q \<le> sellable_quantity ?lots d"
      then have "(of_int 1 :: rat) \<le> of_int (q - sellable_quantity ?lots d)" by (simp only: of_int_le_iff)
      with small show False by simp
    qed
    have le': "sellable_quantity ?lots d \<le> total_quantity ?lots"
      using m by (intro sellable_le_total held_positive(1)) (simp add: mirrors_def)
    have flat: "is_flat (?p\<lparr>pp_realised_pnl := r, pp_total := pp_total ?p - pf_quantity f,
        pp_sellable := pp_sellable ?p - pf_quantity f\<rparr>) \<longleftrightarrow> total_quantity ?lots = q" for r
      using flat_whole [of "?p\<lparr>pp_realised_pnl := r, pp_total := pp_total ?p - pf_quantity f,
        pp_sellable := pp_sellable ?p - pf_quantity f\<rparr>" "total_quantity ?lots - q"] here q by auto
    have "pp_sellable (sell_position f ?p) = pp_sellable ?p - of_int q"
      using here q le le' unfolding sell_position_def Let_def flat by simp
    with SELL q show ?thesis by (auto simp: pf' pf1)
  qed
qed

section \<open>What the mirror raises\<close>

lemma apply_error: "OrderBook_apply now cid t f reason rd b = Inl e \<Longrightarrow> \<not> refused_booking e"
  by (auto simp: OrderBook_apply_def Order_apply_def apply_new_fill_def assert_transition_def assert_rejectable_def
      refused_booking_def res_bind_def Let_def split: option.splits if_splits sum.splits applied.splits)

lemma append_error: "append D ok now e td i ca led = (Inl x, led') \<Longrightarrow> \<not> refused_booking x"
  by (auto simp: append_cases refused_booking_def Let_def split: if_splits)

lemma mirror_event_error: "mirror_event D ok now now' cid t td f reason rd st = (Inl e, st') \<Longrightarrow> \<not> refused_booking e"
  by (auto simp: mirror_event_def dest: apply_error append_error split: prod.splits sum.splits if_splits)

lemma canonical_fill_error: "canonical_fill vn od f session br = (Inl e, br') \<Longrightarrow> \<not> refused_booking e"
  by (auto simp: canonical_fill_def canonical_mirror_def pure_then_def state_of_def economic_fill_def derive_def
      refused_booking_def res_bind_def Let_def dest: mirror_event_error [unfolded refused_booking_def]
      split: option.splits sum.splits prod.splits if_splits)

section \<open>Fills\<close>

lemma refused_money: "pt_apply_fill f pf = (Inl e, pf') \<Longrightarrow> same_money pf pf'"
proof -
  assume refused: "pt_apply_fill f pf = (Inl e, pf')"
  obtain p pf1 where p: "pt_position (pf_symbol f) pf = (p, pf1)" by fastforce
  with refused have "pf' = snd (pt_position (pf_symbol f) pf)" by (auto simp: pt_apply_fill_def split: if_splits)
  then show ?thesis by (simp add: same_money_def pt_position_wf)
qed

lemma fill_refused: "pt_apply_fill f (br_portfolio br) = (Inl e, pf') \<Longrightarrow> framed br (br\<lparr>br_portfolio := pf'\<rparr>)"
  by (simp add: framed_def refused_money)

lemma canonical_fill_keeps:
  "br_fills (snd (canonical_fill vn od f session br)) = br_fills br"
  "br_portfolio (snd (canonical_fill vn od f session br)) = br_portfolio br"
  by (simp_all add: canonical_fill_def pure_then_def canonical_keeps Let_def split: option.split sum.split prod.split)

text \<open>A report that returns, or that the portfolio refuses, keeps the two together.\<close>

lemma report_ok:
  assumes ok: "desk_ok vn clock cash d br" and f: "whole_fill f" "d \<noteq> []" "length d = 10"
    and known: "map_of (br_canonical_ids br) (pa_order_id od) \<noteq> None"
    and run: "apply_execution_report vn wall od f (Some d) br = (r, br')" "\<And>e. r = Inl e \<Longrightarrow> refused_booking e"
  shows "desk_ok vn clock cash d br' \<and> br_canonical_ids br' = br_canonical_ids br \<and> sells br br'"
proof (cases "pf_fill_id f \<in> set (br_fill_ids br)")
  case True
  with ok run(1) show ?thesis by (simp add: apply_execution_report_def sells_same)
next
  case new: False
  obtain x pf' where book: "pt_apply_fill f (br_portfolio br) = (x, pf')" by fastforce
  show ?thesis
  proof (cases x)
    case (Inl e)
    note refused = fill_refused [OF book [unfolded Inl]]
    from Inl new run(1) book have "br' = br\<lparr>br_portfolio := pf'\<rparr>" by (simp add: apply_execution_report_def)
    with refused desk_framed [OF ok refused] sells_framed [OF refused] show ?thesis by simp
  next
    case (Inr u)
    let ?br = "br\<lparr>br_portfolio := pf', br_fill_ids := List.insert (pf_fill_id f) (br_fill_ids br), br_fills := br_fills br @ [f]\<rparr>"
    obtain c br1 where mir: "canonical_fill vn od f d ?br = (c, br1)" by fastforce
    let ?rest = "\<lambda>br1. and_then (move_order (if pa_remaining (filled_order f od) \<le> 1 / 10 ^ 9 then P_FILLED else P_PARTIALLY_FILLED)
      (filled_order f od) (put_order (filled_order f od) br1))
      (\<lambda>od br. and_then (br_check_portfolio vn br) (\<lambda>_ br. (Inr (True, od), br)))"
    have run': "and_then (c, br1) (\<lambda>_ br1. ?rest br1) = (r, br')"
      using run(1) new book Inr f(3) mir by (simp add: apply_execution_report_def Let_def)
    have rest: "framed br1 (snd (?rest br1))"
      by (intro framed_and_then framed_move_order framed_check_portfolio) simp_all
    show ?thesis
    proof (cases c)
      case (Inl e)
      with run' run(2) have "refused_booking e" by (auto simp: and_then_def)
      with canonical_fill_error [OF mir [unfolded Inl]] show ?thesis by simp
    next
      case (Inr v)
      have "desk_ok vn clock cash d br1 \<and> br_canonical_ids br1 = br_canonical_ids br"
        using mir Inr \<open>x = Inr u\<close> book by (intro canonical_fill_ok [OF ok f(1) new f(2) _ known]) auto
      moreover have br': "br' = snd (?rest br1)" using run' Inr by (simp add: and_then_def)
      moreover have "sells br br1"
      proof -
        obtain acc where "mirrors d (br_portfolio br) acc"
          using canon_okD(2) [OF desk_butD(1) [OF ok]] by (auto simp: account_mirror_def)
        moreover have "br_fills br1 = br_fills br @ [f]" "br_portfolio br1 = pf'"
          using canonical_fill_keeps [of vn od f d ?br] mir by simp_all
        ultimately show ?thesis
          using fill_sells [of d "br_portfolio br" acc f u pf'] f(1) book \<open>x = Inr u\<close>
          by (auto simp: sells_def whole_fill_def pt_sellable_get intro!: exI [of _ "[f]"])
      qed
      moreover have "framed br1 br'" using rest br' by simp
      ultimately show ?thesis
        using desk_framed [of "{}" vn clock cash d br1 br'] sells_trans [OF _ sells_framed, of br br1 br']
        by (simp add: framed_def)
    qed
  qed
qed

lemma venue_fill_whole: "uid \<noteq> [] \<Longrightarrow> 0 < q \<Longrightarrow> whole_fill (venue_fill vn uid od m q price)"
  by (auto simp: whole_fill_def venue_fill_def Let_def)

lemma move_order_ok:
  "desk_ok vn clock cash d br \<Longrightarrow> desk_ok vn clock cash d (snd (move_order t od br))
     \<and> br_canonical_ids (snd (move_order t od br)) = br_canonical_ids br"
  using framed_move_order [OF framed_refl, of br t od] by (auto simp: framed_def intro: desk_framed framed_move_order)

lemma venue_targets:
  "recoverable (TARGET_STATUS Ev_REJECTED)" "recoverable (TARGET_STATUS Ev_ACCEPTED)"
  "recoverable (TARGET_STATUS Ev_CANCEL_REQUESTED)" "recoverable (TARGET_STATUS Ev_CANCELLED)"
  by (simp_all add: recoverable_def PAPER_STATE_OF_def ORDER_STATES_def)

lemma reject_ok:
  assumes "desk_ok vn clock cash (ms_session m) br" "br_reject vn od reason m br = (Inr od', br')"
  shows "desk_ok vn clock cash (ms_session m) br' \<and> sells br br'"
proof -
  let ?od = "od\<lparr>pa_reject_reason := Some (vn_text vn reason)\<rparr>"
  from assms(2) obtain od1 br1 where move: "move_order P_REJECTED ?od (put_order ?od br) = (Inr od1, br1)"
    and ev: "canonical_event vn od1 Ev_REJECTED (Some (vn_text vn reason)) (Some (ms_session m)) br1 = (Inr (), br')"
    by (auto simp: br_reject_def and_then_Inr Let_def)
  have frame: "framed br br1" using framed_move_order [of br "put_order ?od br" P_REJECTED ?od] move by simp
  have "sells br1 br'" using event_sells [of br1 vn od1] ev by (metis snd_conv)
  with canonical_event_ok [OF desk_framed [OF assms(1) frame] _ _ venue_targets(1) ev] sells_framed [OF frame]
  show ?thesis by (auto simp: is_fill_event_def intro: sells_trans)
qed

lemma attempt_fill_ok:
  assumes ok: "desk_ok vn clock cash (ms_session m) br" and uid: "uid \<noteq> []" and d: "length (ms_session m) = 10"
    and known: "map_of (br_canonical_ids br) (pa_order_id od) \<noteq> None"
    and run: "attempt_fill vn wall uid od m br = (Inr od', br')"
  shows "desk_ok vn clock cash (ms_session m) br' \<and> sells br br'"
proof (cases "resting od m \<or> fill_quantity_at vn od m \<le> 0")
  case True
  with ok run show ?thesis by (auto simp: attempt_fill_def Let_def sells_same split: if_splits)
next
  case False
  with run obtain p where "ms_limits m = Inr p" by (cases "ms_limits m") (auto simp: attempt_fill_def pure_then_def Let_def)
  let ?f = "venue_fill vn uid od m (fill_quantity_at vn od m) (venue_price vn od m p (of_int (fill_quantity_at vn od m)))"
  obtain r br1 where rep: "apply_execution_report vn wall od ?f (Some (ms_session m)) br = (r, br1)" by fastforce
  have whole: "whole_fill ?f" using False uid by (intro venue_fill_whole) auto
  have d': "ms_session m \<noteq> []" using d by auto
  have run': "(case (r, br1) of
      (Inl e, br) \<Rightarrow> if refused_booking e then br_reject vn od (Cannot_book e) m br else (Inl e, br)
    | (Inr (booked, od), br) \<Rightarrow> (Inr od, br)) = (Inr od', br')"
    using run False \<open>ms_limits m = Inr p\<close> rep by (simp add: attempt_fill_def pure_then_def Let_def)
  then have "\<And>e. r = Inl e \<Longrightarrow> refused_booking e" by (auto split: if_splits)
  from report_ok [OF ok whole d' d known rep this] have "desk_ok vn clock cash (ms_session m) br1" "sells br br1" by simp_all
  with run' reject_ok [of vn clock cash m br1] show ?thesis
    by (auto split: sum.splits if_splits intro: sells_trans)
qed

section \<open>Orders\<close>

lemma submit_ok:
  assumes ok: "desk_ok vn clock cash (ms_session m) br" and L: "no_empty_field (vn_lineage vn)"
    and uid: "uid \<noteq> []" and d: "length (ms_session m) = 10"
    and run: "submit vn wall uid od m br = (Inr od', br')"
  shows "desk_ok vn clock cash (ms_session m) br' \<and> sells br br'"
proof -
  let ?d = "ms_session m" and ?known = "\<lambda>br. map_of (br_canonical_ids br) (pa_order_id od) \<noteq> None"
  from run obtain br1 br2 reason od2 br3 where
    obs: "observe vn m (put_order od br) = (Inr (), br1)"
    and canon: "(if map_of (br_canonical_ids br1) (pa_order_id od) = None
               then canonical_open vn od ?d br1 else (Inr (), br1)) = (Inr (), br2)"
    and val: "validate vn od m br2 = (Inr (reason, od2), br3)"
    and rest: "(case reason of
         Some r \<Rightarrow> br_reject vn od2 r m br3
       | None \<Rightarrow> and_then (move_order P_ACCEPTED od2 br3) (\<lambda>od br.
           and_then (canonical_event vn od Ev_ACCEPTED None (Some ?d) br) (\<lambda>_ br. attempt_fill vn wall uid od m br))) = (Inr od', br')"
    by (auto simp: submit_def and_then_Inr)
  have "framed br br1" using framed_observe [of br "put_order od br" vn m] obs by simp
  then have br1: "desk_ok vn clock cash ?d br1" "sells br br1" using desk_framed [OF ok] sells_framed by blast+
  have br2: "desk_ok vn clock cash ?d br2 \<and> ?known br2"
    using br1 canon canonical_open_ok [OF br1(1) L order_refl, of od br2] by (auto split: if_splits)
  have "sells br1 br2" using canon open_sells [of br1 vn od ?d] by (auto simp: sells_same split: if_splits)
  moreover have "framed br2 br3" using framed_validate [of br2 br2 vn od m] val by simp
  ultimately have sold: "sells br br3" using br1(2) sells_framed sells_trans by blast
  from \<open>framed br2 br3\<close>
  have br3: "desk_ok vn clock cash ?d br3" "?known br3" using br2 by (auto simp: framed_def intro: desk_framed)
  have id: "pa_order_id od2 = pa_order_id od" by (rule validate_order [OF val])
  show ?thesis
  proof (cases reason)
    case (Some r)
    with rest br3 reject_ok [of vn clock cash m br3] sold show ?thesis by (auto intro: sells_trans)
  next
    case None
    with rest obtain od4 br4 br5 where move: "move_order P_ACCEPTED od2 br3 = (Inr od4, br4)"
      and ev: "canonical_event vn od4 Ev_ACCEPTED None (Some ?d) br4 = (Inr (), br5)"
      and att: "attempt_fill vn wall uid od4 m br5 = (Inr od', br')"
      by (auto simp: and_then_Inr)
    have br4: "desk_ok vn clock cash ?d br4" "br_canonical_ids br4 = br_canonical_ids br3"
      using move_order_ok [OF br3(1), of P_ACCEPTED od2] move by simp_all
    have br5: "desk_ok vn clock cash ?d br5 \<and> br_canonical_ids br5 = br_canonical_ids br4"
      by (rule canonical_event_ok [OF br4(1) _ _ venue_targets(2) ev]) (simp_all add: is_fill_event_def)
    have "sells br3 br4" using framed_move_order [OF framed_refl, of br3 P_ACCEPTED od2] move by (intro sells_framed) simp
    moreover have "sells br4 br5" using event_sells [of br4 vn od4] ev by (metis snd_conv)
    ultimately have sold': "sells br br5" using sold sells_trans by blast
    have id': "pa_order_id od4 = pa_order_id od" using move_order_same [OF move] id by simp
    show ?thesis using attempt_fill_ok [OF _ uid d _ att] br5 br4(2) br3(2) id' sold' by (auto intro: sells_trans)
  qed
qed

lemma cancel_ok:
  assumes ok: "desk_ok vn clock cash d br" and m: "pred_option (\<lambda>m. ms_session m \<le> d) m"
    and run: "cancel vn oid m br = (Inr od', br')"
  shows "desk_ok vn clock cash d br' \<and> sells br br'"
proof -
  from run obtain od where od: "map_of (br_orders br) oid = Some od" by (auto simp: cancel_def split: option.splits)
  show ?thesis
  proof (cases "is_open od")
    case False
    with ok run od show ?thesis by (simp add: cancel_def sells_same)
  next
    case True
    with run od obtain od1 br1 br2 od2 br3 where
      move: "move_order P_CANCEL_REQUESTED od br = (Inr od1, br1)"
      and ev: "canonical_event vn od1 Ev_CANCEL_REQUESTED None (map_option ms_session m) br1 = (Inr (), br2)"
      and move': "move_order P_CANCELLED od1 br2 = (Inr od2, br3)"
      and ev': "canonical_event vn od2 Ev_CANCELLED (Some ''operator_cancel'') (map_option ms_session m) br3 = (Inr (), br')"
      by (auto simp: cancel_def and_then_Inr Let_def)
    have br1: "desk_ok vn clock cash d br1" using move_order_ok [OF ok, of P_CANCEL_REQUESTED od] move by simp
    have session: "pred_option (\<lambda>x. x \<le> d) (map_option ms_session m)" using m by (cases m) simp_all
    have br2: "desk_ok vn clock cash d br2"
      using canonical_event_ok [OF br1 _ session venue_targets(3) ev] by (simp add: is_fill_event_def)
    have br3: "desk_ok vn clock cash d br3" using move_order_ok [OF br2, of P_CANCELLED od1] move' by simp
    have "sells br br1" "sells br2 br3"
      using framed_move_order [OF framed_refl, of br P_CANCEL_REQUESTED od] move
        framed_move_order [OF framed_refl, of br2 P_CANCELLED od1] move' by (auto intro: sells_framed)
    moreover have "sells br1 br2" "sells br3 br'"
      using event_sells [of br1 vn od1 Ev_CANCEL_REQUESTED] event_sells [of br3 vn od2 Ev_CANCELLED] ev ev' by (metis snd_conv)+
    ultimately have "sells br br'" using sells_trans by blast
    then show ?thesis using canonical_event_ok [OF br3 _ session venue_targets(4) ev'] by (simp add: is_fill_event_def)
  qed
qed

end
