(* ===== verification/Paper_Days.thy ===== *)
theory Paper_Days
  imports Paper_Run
begin

text \<open>
  Corporate actions, the close of a session, and runs of whole trading days.  A replay can apply an action
  only when it leaves whole shares; here the ratio is a whole number.
\<close>

section \<open>Corporate actions\<close>

lemma mirrored_action:
  assumes "mirrored D H clock (b, led)" "append_corporate_action D w now a td led = (Inr r, led')"
  shows "mirrored D H clock (b, led') \<and> led_records led' = led_records led @ [r] \<and> lr_event r = None
    \<and> lr_corporate_action r = CorporateAction_to_dict a \<and> lr_trade_date r = td"
proof -
  have run: "append D True now None td None (Some a) led = (Inr r, led')"
    using assms(2) kept_durable by (auto simp: append_corporate_action_def)
  from assms(1) obtain b' dates where b': "replay_records H clock (led_records led) (empty_book, []) = Inr (b', dates)"
    "erase_book b' = erase_book b" and nf: "\<not> led_write_failure led" by (auto simp: mirrored_def)
  have chain: "chained D led'"
    using chained_append [of D led None True now td None "Some a"] assms(1) run by (simp add: mirrored_def)
  have r: "r = appended_record D now None td None (Some a) led"
    and led': "led' = led\<lparr>led_records := led_records led @ [r], led_head := lr_record_hash r\<rparr>"
    using run nf by (auto simp: append_cases Let_def)
  have none: "lr_event r = None" and act: "lr_corporate_action r = CorporateAction_to_dict a"
    by (simp_all add: r appended_record_def)
  have "replay_records H clock (led_records led') (empty_book, []) = Inr (b', dates)"
    by (simp add: led' replay_records_snoc b'(1) replay_record_def none)
  moreover have "ledger_events led' = ledger_events led" by (simp add: led' ledger_events_def none)
  ultimately have "mirrored D H clock (b, led')"
    using assms(1) b'(2) chain by (simp add: mirrored_def led')
  then show ?thesis using none act by (simp add: led' r record_date)
qed

definition whole_ratio :: "rat \<Rightarrow> bool" where
  "whole_ratio x \<longleftrightarrow> (\<exists>k\<ge>1. x = of_int k)"

lemma whole_exact: "whole_ratio (ca_share_ratio a) \<Longrightarrow> exact_action a"
  by (auto simp: whole_ratio_def exact_action_def)

lemma scale_whole:
  assumes "ca_share_ratio a = of_int k" "1 \<le> k" "0 < lot_quantity l"
  shows "\<exists>l'. scale_lot a l = Inr l' \<and> 0 < lot_quantity l'"
proof -
  have "of_int (lot_quantity l) * ca_share_ratio a = of_int (lot_quantity l * k)" by (simp add: assms(1))
  moreover have "0 < lot_quantity l * k" using assms(2,3) by simp
  ultimately show ?thesis by (auto simp: scale_lot_def round_half_even_def Let_def simp del: of_int_mult)
qed

lemma scale_all_whole:
  assumes "ca_share_ratio a = of_int k" "1 \<le> k" "lots_positive ls"
  shows "\<exists>ls'. map_res (scale_lot a) ls = Inr ls' \<and> lots_positive ls'"
  using assms(3)
proof (induction ls)
  case (Cons l ls)
  then obtain ls' where "map_res (scale_lot a) ls = Inr ls'" "lots_positive ls'" by (auto simp: lots_positive_def)
  moreover from Cons.prems have "0 < lot_quantity l" by (simp add: lots_positive_def)
  from scale_whole [OF assms(1,2) this] obtain l' where "scale_lot a l = Inr l'" "0 < lot_quantity l'" by blast
  ultimately show ?case by (auto simp: lots_positive_def)
qed (simp add: lots_positive_def)

lemma whole_action_applies:
  assumes "whole_ratio (ca_share_ratio a)" "account_ok acc"
  shows "\<exists>acc'. then_check (apply_corporate_action a acc) = Inr acc'"
proof -
  let ?lots = "dict_get (acc_lots acc) (ca_symbol a) []"
  from assms(1) obtain k where k: "1 \<le> k" "ca_share_ratio a = of_int k" by (auto simp: whole_ratio_def)
  obtain ls' where ls': "map_res (scale_lot a) ?lots = Inr ls'" "lots_positive ls'"
    using scale_all_whole [OF k(2,1) held_positive(1) [OF assms(2)]] by blast
  have all: "all_lots_positive acc" using assms(2) by (simp add: account_ok_def)
  show ?thesis
  proof (cases "?lots = []")
    case True
    with all show ?thesis by (auto simp: then_check_Inr apply_corporate_action_def)
  next
    case False
    have "all_lots_positive (acc\<lparr>acc_lots := AList.update (ca_symbol a) ls' (acc_lots acc)\<rparr>)"
      using all ls'(2) set_update_subset [of "ca_symbol a" ls' "acc_lots acc"] by (fastforce simp: all_lots_positive_def)
    with False ls'(1) show ?thesis
      by (auto simp: then_check_Inr apply_corporate_action_def all_lots_positive_def Let_def split: option.split)
  qed
qed

lemma action_keeps_wf:
  assumes "pt_apply_corporate_action symbol ratio per_share pf = (x, pf')" "dict_wf (pt_positions pf)"
  shows "dict_wf (pt_positions pf')"
proof -
  obtain p pf1 where p: "pt_position symbol pf = (p, pf1)" by fastforce
  then have "dict_wf (pt_positions pf1)" using pt_position_wf [OF assms(2), of symbol] by simp
  with assms(1) p show ?thesis
    by (auto simp: pt_apply_corporate_action_def pt_put_def distinct_update Let_def split: if_splits)
qed

lemma corporate_action_ok:
  assumes ok: "desk_ok vn clock cash d br" and L: "no_empty_field (vn_lineage vn)" and ratio: "whole_ratio ratio"
    and d: "length d = 10" and run: "br_corporate_action vn wall symbol ratio per_share (Some d) br = (Inr x, br')"
  shows "desk_ok vn clock cash d br'"
proof -
  obtain w now now' where env: "vn_canon vn (br_steps br) = (w, now, now')" by (metis prod_cases3)
  from run d obtain a where a: "CorporateAction_create (vn_digest vn) symbol d (vn_lineage vn) ratio per_share = Inr a"
    by (cases "CorporateAction_create (vn_digest vn) symbol d (vn_lineage vn) ratio per_share")
      (auto simp: br_corporate_action_def pure_then_def Let_def)
  have fields: "ca_symbol a = symbol" "ca_share_ratio a = ratio" "ca_cash_per_share a = per_share"
    using a by (auto simp: CorporateAction_create_def CorporateAction_make_def split: if_splits)
  have trip: "CorporateAction_from_dict (CorporateAction_to_dict a) = Inr a"
    using a L by (auto simp: CorporateAction_create_def intro: corporate_action_roundtrip)
  obtain r led where put: "append_corporate_action (vn_chain vn) w now' a (Some d) (br_ledger br) = (r, led)" by fastforce
  let ?br = "br\<lparr>br_ledger := led, br_steps := br_steps br + 1\<rparr>"
  obtain y pf where live: "pt_apply_corporate_action symbol ratio per_share (br_portfolio br) = (y, pf)" by fastforce
  from run env a put live d obtain rec where r: "r = Inr rec" and br': "br' = ?br\<lparr>br_portfolio := pf\<rparr>"
    by (auto simp: br_corporate_action_def pure_then_def and_then_Inr Let_def)
  note canon = canon_okD [OF desk_butD(1) [OF ok]]
  note m = mirrored_action [OF canon(1) put [unfolded r]]
  have "account_mirror (vn_digest vn) cash d (set (br_fill_ids br)) pf (led_records (br_ledger br) @ [rec])"
  proof (rule account_mirror_action [OF canon(2)])
    show "exact_action a" using ratio by (simp add: whole_exact fields)
    show "CorporateAction_from_dict (lr_corporate_action rec) = Inr a" using m trip by simp
    show "truthy (lr_corporate_action rec)" "lr_event rec = None" using m by (simp_all add: CorporateAction_to_dict_def)
    show "\<exists>acc'. then_check (apply_corporate_action a acc) = Inr acc'" if "mirrors d (br_portfolio br) acc" for acc
      using ratio that by (intro whole_action_applies) (simp_all add: fields mirrors_def)
    show "pt_apply_corporate_action (ca_symbol a) (ca_share_ratio a) (ca_cash_per_share a) (br_portfolio br) = (y, pf)"
      using live by (simp add: fields)
  qed
  moreover have "dated_until d led" using canon(6) m by (auto simp: dated_until_def)
  moreover have "dict_wf (pt_positions pf)" by (rule action_keeps_wf [OF live desk_butD(2) [OF ok]])
  ultimately show ?thesis using m canon by (simp add: desk_but_def canon_ok_def br')
qed

section \<open>The close\<close>

lemma settle_keeps_wf: "dict_wf (pt_positions (snd (pt_settle pf))) = dict_wf (pt_positions pf)"
  by (simp add: pt_settle_def comp_def case_prod_beta)

lemma canon_settle:
  "canon_ok D H clock cash d ids n X pf b led \<Longrightarrow> d < d' \<Longrightarrow> canon_ok D H clock cash d' ids n X (snd (pt_settle pf)) b led"
  by (auto simp: canon_ok_def dated_until_def intro: account_mirror_portfolio [OF _ mirror_settle] order.strict_implies_order
      order_trans)

lemma close_session_ok:
  assumes ok: "desk_ok vn clock cash d br" and next_day: "d < d'" and run: "close_session vn td br = (Inr x, br')"
  shows "desk_ok vn clock cash d' br'"
proof -
  let ?br = "br\<lparr>br_portfolio := snd (pt_settle (br_portfolio br))\<rparr>"
  have "desk_ok vn clock cash d' ?br"
    using ok next_day by (auto simp: desk_but_def settle_keeps_wf intro: canon_settle)
  moreover have "framed ?br br'"
    using run framed_emit [OF framed_refl, of ?br vn SESSION_CLOSED _ None "Some td"]
    by (auto simp: close_session_def and_then_Inr Let_def split: prod.splits) (metis snd_conv)
  ultimately show ?thesis by (rule desk_framed)
qed

section \<open>Trading days\<close>

datatype desk_call =
    Submit paper_order market_snapshot string
  | Cancel string "market_snapshot option"
  | Observe market_snapshot
  | Observe_marks marks int int
  | Mark marks "string option"
  | Arm string string
  | Trip string string
  | Release string "string option" bool
  | Adjust string rat rat

definition no_result :: "'a step \<Rightarrow> unit step" where
  "no_result s = and_then s (\<lambda>_ br. (Inr (), br))"

text \<open>The call in session \<open>d\<close>: an action is dated with it.\<close>

fun desk_do :: "venue \<Rightarrow> string \<Rightarrow> string \<Rightarrow> desk_call \<Rightarrow> broker \<Rightarrow> unit step" where
  "desk_do vn wall d (Submit od m uid) br = no_result (submit vn wall uid od m br)"
| "desk_do vn wall d (Cancel oid m) br = no_result (cancel vn oid m br)"
| "desk_do vn wall d (Observe m) br = observe vn m br"
| "desk_do vn wall d (Observe_marks prices day t) br = observe_marks vn prices day t br"
| "desk_do vn wall d (Mark prices market_time) br = no_result (mark_to_market vn prices market_time br)"
| "desk_do vn wall d (Arm scope reason) br = arm_kill_switch vn scope reason br"
| "desk_do vn wall d (Trip scope reason) br = trigger_kill_switch vn reason scope br"
| "desk_do vn wall d (Release scope key human) br = no_result (clear_kill_switch vn scope key human br)"
| "desk_do vn wall d (Adjust symbol ratio per_share) br =
     no_result (br_corporate_action vn wall symbol ratio per_share (Some d) br)"

text \<open>What the venue relies on: an order is quoted in its session, a fill has an identifier, a split is whole.\<close>

fun in_session :: "string \<Rightarrow> desk_call \<Rightarrow> bool" where
  "in_session d (Submit od m uid) \<longleftrightarrow> ms_session m = d \<and> uid \<noteq> []"
| "in_session d (Cancel oid m) \<longleftrightarrow> pred_option (\<lambda>m. ms_session m = d) m"
| "in_session d (Adjust symbol ratio per_share) \<longleftrightarrow> whole_ratio ratio"
| "in_session d c \<longleftrightarrow> True"

fun desk_calls :: "venue \<Rightarrow> string \<Rightarrow> string \<Rightarrow> desk_call list \<Rightarrow> broker \<Rightarrow> unit step" where
  "desk_calls vn wall d [] br = (Inr (), br)"
| "desk_calls vn wall d (c # cs) br = and_then (desk_do vn wall d c br) (\<lambda>_. desk_calls vn wall d cs)"

fun desk_days :: "venue \<Rightarrow> string \<Rightarrow> (string \<times> desk_call list) list \<Rightarrow> broker \<Rightarrow> unit step" where
  "desk_days vn wall [] br = (Inr (), br)"
| "desk_days vn wall ((d, cs) # rest) br =
     and_then (desk_calls vn wall d cs br) (\<lambda>_ br.
     and_then (close_session vn d br) (\<lambda>_. desk_days vn wall rest))"

fun adjusts :: "desk_call \<Rightarrow> bool" where
  "adjusts (Adjust symbol ratio per_share) \<longleftrightarrow> True"
| "adjusts c \<longleftrightarrow> False"

lemma desk_do_ok:
  assumes ok: "desk_ok vn clock cash d br" "no_empty_field (vn_lineage vn)" "length d = 10" "in_session d c"
    and run: "desk_do vn wall d c br = (Inr (), br')"
  shows "desk_ok vn clock cash d br' \<and> (\<not> adjusts c \<longrightarrow> sells br br')"
proof -
  have quiet: "desk_ok vn clock cash d b \<and> sells br b" if "framed br b" for b
    using desk_framed [OF ok(1) that] sells_framed [OF that] by simp
  show ?thesis
  proof (cases c)
    case (Submit od m uid)
    with ok run submit_ok [of vn clock cash m br uid wall od _ br'] show ?thesis by (auto simp: no_result_def and_then_Inr)
  next
    case (Cancel oid m)
    with ok run cancel_ok [of vn clock cash d br m oid _ br'] show ?thesis
      by (cases m) (auto simp: no_result_def and_then_Inr)
  next
    case (Adjust symbol ratio per_share)
    with ok run show ?thesis by (auto simp: no_result_def and_then_Inr intro: corporate_action_ok)
  next
    case (Observe m)
    with run framed_observe [OF framed_refl, of br vn m] quiet [of br'] show ?thesis by simp
  next
    case (Observe_marks prices day t)
    with run framed_observe_marks [OF framed_refl, of br vn prices day t] quiet [of br'] show ?thesis by simp
  next
    case (Mark prices t)
    with run framed_mark_to_market [OF framed_refl, of br vn prices t] quiet [of br'] show ?thesis
      by (auto simp: no_result_def and_then_Inr)
  next
    case (Arm scope reason)
    with run framed_switch(1) [OF framed_refl, of br vn scope reason] quiet [of br'] show ?thesis by simp
  next
    case (Trip scope reason)
    with run framed_switch(2) [OF framed_refl, of br vn reason scope] quiet [of br'] show ?thesis by simp
  next
    case (Release scope key human)
    with run framed_switch(3) [OF framed_refl, of br vn scope key human] quiet [of br'] show ?thesis
      by (auto simp: no_result_def and_then_Inr)
  qed
qed

lemma desk_calls_ok:
  "desk_ok vn clock cash d br \<Longrightarrow> no_empty_field (vn_lineage vn) \<Longrightarrow> length d = 10 \<Longrightarrow> list_all (in_session d) cs \<Longrightarrow>
     desk_calls vn wall d cs br = (Inr (), br') \<Longrightarrow>
     desk_ok vn clock cash d br' \<and> (\<not> list_ex adjusts cs \<longrightarrow> sells br br')"
proof (induction cs arbitrary: br)
  case (Cons c cs)
  from Cons.prems(5) obtain br1 where br1: "desk_do vn wall d c br = (Inr (), br1)" "desk_calls vn wall d cs br1 = (Inr (), br')"
    by (auto simp: and_then_Inr)
  have "desk_ok vn clock cash d br1 \<and> (\<not> adjusts c \<longrightarrow> sells br br1)"
    by (rule desk_do_ok [OF Cons.prems(1-3) _ br1(1)]) (use Cons.prems(4) in simp)
  with Cons.IH [OF _ Cons.prems(2,3) _ br1(2)] Cons.prems(4) show ?case by (auto intro: sells_trans)
qed (simp add: sells_same)

definition good_day :: "string \<times> desk_call list \<Rightarrow> bool" where
  "good_day day \<longleftrightarrow> length (fst day) = 10 \<and> list_all (in_session (fst day)) (snd day)"

lemma desk_days_ok:
  assumes "desk_ok vn clock cash (hd (map fst ds @ [today])) br" "no_empty_field (vn_lineage vn)"
    "list_all good_day ds" "sorted_wrt (<) (map fst ds @ [today])" "desk_days vn wall ds br = (Inr (), br')"
  shows "desk_ok vn clock cash today br'"
  using assms
proof (induction ds arbitrary: br)
  case (Cons day ds)
  obtain d cs where day: "day = (d, cs)" by fastforce
  from Cons.prems(5) [unfolded day] obtain br1 x br2 where calls: "desk_calls vn wall d cs br = (Inr (), br1)"
    and close: "close_session vn d br1 = (Inr x, br2)" and rest: "desk_days vn wall ds br2 = (Inr (), br')"
    by (auto simp: and_then_Inr)
  let ?next = "hd (map fst ds @ [today])"
  have "desk_ok vn clock cash d br1"
    using Cons.prems(1-3) calls by (auto simp: day good_day_def dest: desk_calls_ok)
  moreover have "d < ?next" using Cons.prems(4) by (cases ds) (auto simp: day)
  ultimately have "desk_ok vn clock cash ?next br2" using close by (rule close_session_ok)
  with Cons.IH [OF this Cons.prems(2) _ _ rest] Cons.prems(3,4) show ?case by (simp add: day)
qed simp

lemma desk_ok_opened:
  assumes "PaperBroker_make vn (new_portfolio pid cash) store rk (new_ledger durable) None = Inr br"
  shows "desk_ok vn clock cash d br"
proof -
  have "br_portfolio br = new_portfolio pid cash \<and> br_book br = empty_book \<and> br_ledger br = new_ledger durable
      \<and> br_fill_ids br = [] \<and> br_fills br = []"
    using assms by (auto simp: PaperBroker_make_def new_ledger_def res_bind_Inr_iff Let_def split: option.splits prod.splits sum.splits)
  then show ?thesis
    using mirrored_new [of "vn_chain vn" "vn_digest vn" clock durable] account_mirror_new [of "vn_digest vn" cash d "{}" pid]
    by (simp add: desk_but_def canon_ok_def booked_fills_def orders_ok_def dated_until_def book_fills_def event_fills_def
        new_ledger_def empty_book_def new_portfolio_def)
qed

end
