(* ===== verification/Paper_Rebuild.thy ===== *)
theory Paper_Rebuild
  imports Paper_Days
begin

text \<open>
  A restart from the canonical ledger: \<open>recover_from_canonical\<close> on the ledger of a venue rebuilds what the
  venue holds, and \<open>reconcile\<close> finds nothing.
\<close>

definition same_holdings :: "portfolio \<Rightarrow> portfolio \<Rightarrow> bool" where
  "same_holdings pf pf' \<longleftrightarrow> pt_cash pf' = pt_cash pf \<and> pt_realised_pnl pf' = pt_realised_pnl pf
     \<and> pt_fees_paid pf' = pt_fees_paid pf
     \<and> (\<forall>s. pp_total (pt_get pf' s) = pp_total (pt_get pf s) \<and> pp_sellable (pt_get pf' s) = pp_sellable (pt_get pf s)
        \<and> pp_pending (pt_get pf' s) = pp_pending (pt_get pf s)
        \<and> (pp_total (pt_get pf s) \<noteq> 0 \<longrightarrow> pp_average_cost (pt_get pf' s) = pp_average_cost (pt_get pf s)))"

section \<open>The portfolio\<close>

lemma map_of_keyed: "map_of (map (\<lambda>k. (k, f k)) (filter P ks)) s = (if s \<in> set ks \<and> P s then Some (f s) else None)"
  by (induction ks) auto

lemma recovered_get:
  "pt_get (recovered_portfolio pid cash acc d) s =
     (if map_of (acc_lots acc) s \<noteq> None \<and> 0 < Accounting.position acc s then recovered_position acc d s else new_position s)"
  by (simp add: pt_get_def recovered_portfolio_def dict_get_def map_of_keyed map_of_eq_None_iff)

lemma recovered_mirrors:
  assumes "mirrors d pf acc" "d \<noteq> []"
  shows "same_holdings pf (recovered_portfolio pid cash acc d)"
proof -
  have "pp_total (pt_get (recovered_portfolio pid cash acc d) s) = pp_total (pt_get pf s)
      \<and> pp_sellable (pt_get (recovered_portfolio pid cash acc d) s) = pp_sellable (pt_get pf s)
      \<and> pp_pending (pt_get (recovered_portfolio pid cash acc d) s) = pp_pending (pt_get pf s)
      \<and> (pp_total (pt_get pf s) \<noteq> 0 \<longrightarrow>
          pp_average_cost (pt_get (recovered_portfolio pid cash acc d) s) = pp_average_cost (pt_get pf s))" for s
  proof (cases "dict_get (acc_lots acc) s [] = []")
    case True
    then have "Accounting.position acc s = 0" by (simp add: Accounting.position_def)
    with mirrors_lots [OF assms(1), of s] True show ?thesis
      by (simp add: recovered_get lots_mirror_def new_position_def)
  next
    case False
    then have "map_of (acc_lots acc) s \<noteq> None" by (auto simp: dict_get_def split: option.splits)
    moreover have "0 < total_quantity (dict_get (acc_lots acc) s [])"
      using False assms(1) by (intro total_quantity_pos held_positive(1)) (simp_all add: mirrors_def)
    ultimately show ?thesis
      using mirrors_lots [OF assms(1), of s] False assms(2)
      by (simp add: recovered_get recovered_position_def lots_mirror_def Accounting.position_def Accounting.sellable_def Let_def)
  qed
  with assms(1) show ?thesis by (simp add: same_holdings_def mirrors_def recovered_portfolio_def)
qed

section \<open>The reconciliation\<close>

lemma held_totals_get:
  assumes "dict_wf (pt_positions pf)"
  shows "dict_get (held_totals pf) s 0 = (if is_flat (pt_get pf s) then 0 else pp_total (pt_get pf s))"
proof -
  have "dict_get (map (\<lambda>(symbol, p). (symbol, pp_total p)) (filter (\<lambda>(symbol, p). \<not> is_flat p) d)) s 0
      = (case map_of d s of None \<Rightarrow> 0 | Some p \<Rightarrow> if is_flat p then 0 else pp_total p)" if "distinct (map fst d)" for d
    using that
  proof (induction d)
    case (Cons x d)
    obtain k p where x: "x = (k, p)" by fastforce
    have "map_of (map (\<lambda>(symbol, p). (symbol, pp_total p)) (filter (\<lambda>(symbol, p). \<not> is_flat p) d)) k = None"
      using Cons.prems x by (force simp: map_of_eq_None_iff)
    with Cons x show ?case by (auto simp: dict_get_def)
  qed (simp add: dict_get_def)
  with assms show ?thesis
    by (auto simp: held_totals_def pt_get_def dict_get_def new_position_def is_flat_def split: option.split)
qed

lemma recovered_wf: "dict_wf (acc_lots acc) \<Longrightarrow> dict_wf (pt_positions (recovered_portfolio pid cash acc d))"
  by (simp add: recovered_portfolio_def comp_def)

lemma reconcile_same:
  assumes "same_holdings pf (rs_portfolio s)" "dict_wf (pt_positions pf)" "dict_wf (pt_positions (rs_portfolio s))"
    "length (rs_fills s) = length fs"
  shows "reconcile pf fs s 0 = []"
  using assms by (simp add: reconcile_def same_holdings_def held_totals_get is_flat_def Let_def filter_empty_conv)

section \<open>The orders\<close>

definition unpriced :: "order_book \<Rightarrow> bool" where
  "unpriced b \<longleftrightarrow> (\<forall>cid od. map_of (bk_orders b) cid = Some od \<longrightarrow> ord_limit_price od = None) \<and> dict_wf (bk_orders b)"

lemma replay_record_unpriced: "unpriced b \<Longrightarrow> replay_record H clock r b = Inr b' \<Longrightarrow> unpriced b'"
proof -
  assume b: "unpriced b" and run: "replay_record H clock r b = Inr b'"
  have opened: "unpriced (snd (OrderBook_open H now i p b))" if "oi_limit_price i = None" for now i p
    using b that by (cases "map_of (bk_orders b) (ord_order_id (Order_from_intent H i p))")
      (auto simp: OrderBook_open_known OrderBook_open_new unpriced_def Let_def distinct_update Order_from_intent_def)
  have applied: "unpriced b'" if "OrderBook_apply now cid t f reason rd b = Inr (od, b')" for now cid t f reason rd od
    using b that by (auto simp: OrderBook_apply_Inr Let_def unpriced_def distinct_update dest!: Order_apply_frame split: if_splits)
  from run show ?thesis
    by (auto simp: replay_record_def intent_from_dict_def res_bind_Inr_iff Let_def intro: opened applied
        split: option.splits if_splits) (use b in blast)?
qed

lemma replay_records_unpriced:
  "replay_records H clock rs (b, dates) = Inr (b', dates') \<Longrightarrow> unpriced b \<Longrightarrow> unpriced b'"
  by (induction rs arbitrary: b dates) (auto simp: res_bind_Inr_iff dest: replay_record_unpriced)

lemma recovered_orders:
  assumes "erase_book b' = erase_book b" "orders_ok {} b" "unpriced b'"
  shows "\<exists>ods. map_res (recovered_order now) (book_orders b') = Inr ods"
proof -
  have one: "\<exists>x. recovered_order now od' = Inr x" if "od' \<in> set (book_orders b')" for od'
  proof -
    from that obtain cid where cid: "(cid, od') \<in> set (bk_orders b')" by (auto simp: book_orders_def)
    then have here: "map_of (bk_orders b') cid = Some od'" using assms(3) by (simp add: unpriced_def)
    then obtain od where od: "map_of (bk_orders b) cid = Some od" "erase_order od' = erase_order od"
      using erase_book_lookup [OF assms(1), of cid] by (cases "map_of (bk_orders b) cid") auto
    have "ord_quantity od' = ord_quantity od" "ord_status od' = ord_status od"
      using od(2) by (metis erase_order_simps(3)) (metis od(2) erase_order_simps(2))
    moreover have "0 < ord_quantity od" "recoverable (ord_status od)" using assms(2) od(1) by (auto simp: orders_ok_def)
    ultimately show ?thesis
      using assms(3) here by (auto simp: recovered_order_def PaperOrder_check_def recoverable_def unpriced_def)
  qed
  have "\<exists>ys. map_res (recovered_order now) xs = Inr ys" if "\<forall>x\<in>set xs. \<exists>y. recovered_order now x = Inr y" for xs
    using that by (induction xs) auto
  with one show ?thesis by blast
qed

lemma erase_book_fills: "erase_book b' = erase_book b \<Longrightarrow> book_fills b' = book_fills b"
proof -
  assume "erase_book b' = erase_book b"
  then have "map ev_fill (map erase_event (bk_events b')) = map ev_fill (map erase_event (bk_events b))"
    by (simp add: erase_book_def)
  then have same: "map ev_fill (bk_events b') = map ev_fill (bk_events b)" by (simp add: comp_def)
  have "event_fills es = concat (map (\<lambda>f. case f of None \<Rightarrow> [] | Some f \<Rightarrow> [f]) (map ev_fill es))" for es
    by (simp add: event_fills_def comp_def)
  then show ?thesis unfolding book_fills_def same by (simp only: same)
qed

section \<open>The restart\<close>

lemma latest_le: "dated_until d led \<Longrightarrow> latest_session led \<le> d"
proof -
  assume until: "dated_until d led"
  have "x \<le> d" if "x \<in> set (ledger_sessions led)" for x
    using until that by (fastforce simp: ledger_sessions_def dated_until_def split: option.splits if_splits)
  then show ?thesis
    by (cases "ledger_sessions led") (auto simp: latest_session_def)
qed

lemma desk_recovers:
  assumes ok: "desk_ok vn clock cash d br" and d: "d \<noteq> []"
  shows "\<exists>s. recover_from_canonical (vn_chain vn) (vn_digest vn) clock now (br_ledger br) pid cash (Some d) = Inr s
    \<and> same_holdings (br_portfolio br) (rs_portfolio s) \<and> reconcile (br_portfolio br) (br_fills br) s 0 = []"
proof -
  note canon = canon_okD [OF desk_butD(1) [OF ok]]
  obtain b' acc where rep: "replay (vn_chain vn) (vn_digest vn) clock cash (br_ledger br) = Inr (b', acc)"
    "erase_book b' = erase_book (br_book br)" "mirrors d (br_portfolio br) acc"
    by (rule replay_mirrors [OF canon(1,2)])
  have valid: "ver_valid (verify (vn_chain vn) (br_ledger br))"
    using canon(1) by (simp add: mirrored_def chained_verify)
  have "unpriced empty_book" by (simp add: unpriced_def empty_book_def)
  with rep(1) valid have "unpriced b'"
    by (auto simp: replay_def replay_book_dates_def res_bind_Inr_iff dest: replay_records_unpriced)
  with recovered_orders [OF rep(2) canon(5)] obtain ods where ods: "map_res (recovered_order now) (book_orders b') = Inr ods"
    by blast
  let ?s = "\<lparr>rs_portfolio = recovered_portfolio pid cash acc d, rs_orders = map (\<lambda>od. (pa_order_id od, od)) ods,
      rs_fills = map recovered_fill (book_fills b'), rs_killed = False, rs_kill_reason = JNull,
      rs_events_replayed = length (led_records (br_ledger br)), rs_sessions_closed = 0, rs_chain_valid = True\<rparr>"
  have rec: "recover_from_canonical (vn_chain vn) (vn_digest vn) clock now (br_ledger br) pid cash (Some d) = Inr ?s"
    using latest_le [OF canon(6)] d
    by (simp add: recover_from_canonical_def valid rep(1) effective_session_def ods Let_def not_less)
  have same: "same_holdings (br_portfolio br) (rs_portfolio ?s)" using recovered_mirrors [OF rep(3) d] by simp
  have "dict_wf (acc_lots acc)" using rep(3) by (simp add: mirrors_def account_ok_def inventory_ok_def)
  then have "reconcile (br_portfolio br) (br_fills br) ?s 0 = []"
    using same desk_butD(2) [OF ok] erase_book_fills [OF rep(2)] canon(4)
    by (intro reconcile_same) (simp_all add: recovered_wf)
  with rec same show ?thesis by blast
qed

end
