(* ===== verification/Paper_Restart.thy ===== *)
theory Paper_Restart
  imports Paper_Rebuild
begin

text \<open>
  What the runs of the venue promise: a restart from the canonical ledger, whole shares, and T+1; with one
  day of a small venue as the example.
\<close>

text \<open>The venue at the open of session \<open>today\<close>: opened with its cash, then traded and closed day by day.\<close>

definition at_open ::
    "venue \<Rightarrow> string \<Rightarrow> string \<Rightarrow> rat \<Rightarrow> event_store \<Rightarrow> risk_engine option \<Rightarrow> bool \<Rightarrow> (string \<times> desk_call list) list
     \<Rightarrow> string \<Rightarrow> broker \<Rightarrow> bool" where
  "at_open vn wall pid cash store rk durable ds today br \<longleftrightarrow> no_empty_field (vn_lineage vn) \<and> length today = 10
     \<and> list_all good_day ds \<and> sorted_wrt (<) (map fst ds @ [today])
     \<and> (\<exists>br0. PaperBroker_make vn (new_portfolio pid cash) store rk (new_ledger durable) None = Inr br0
          \<and> desk_days vn wall ds br0 = (Inr (), br))"

lemma at_open_ok: "at_open vn wall pid cash store rk durable ds today br \<Longrightarrow> desk_ok vn clock cash today br"
  by (auto simp: at_open_def intro: desk_days_ok desk_ok_opened)

lemma at_open_calls:
  assumes "at_open vn wall pid cash store rk durable ds today br" "list_all (in_session today) cs"
    "desk_calls vn wall today cs br = (Inr (), br')"
  shows "desk_ok vn clock cash today br' \<and> (\<not> list_ex adjusts cs \<longrightarrow> sells br br')"
  using assms at_open_ok [OF assms(1)] by (intro desk_calls_ok) (simp_all add: at_open_def)

lemma desk_mirrors: "desk_ok vn clock cash d br \<Longrightarrow> \<exists>acc. mirrors d (br_portfolio br) acc"
  using canon_okD(2) [OF desk_butD(1)] by (fastforce simp: account_mirror_def)

lemma mirrors_whole:
  assumes "mirrors d pf acc"
  shows "\<exists>k m. pp_sellable (pt_get pf s) = of_nat k \<and> pp_pending (pt_get pf s) = of_nat m \<and> pp_total (pt_get pf s) = of_nat (k + m)"
proof -
  let ?lots = "dict_get (acc_lots acc) s []"
  have pos: "lots_positive ?lots" using assms by (intro held_positive(1)) (simp add: mirrors_def)
  let ?k = "nat (sellable_quantity ?lots d)" and ?m = "nat (total_quantity ?lots - sellable_quantity ?lots d)"
  have "int ?k = sellable_quantity ?lots d" "int ?m = total_quantity ?lots - sellable_quantity ?lots d"
    using sellable_nonneg [OF pos] sellable_le_total [OF pos] by simp_all
  then have "of_int (sellable_quantity ?lots d) = (of_nat ?k :: rat)"
    "of_int (total_quantity ?lots - sellable_quantity ?lots d) = (of_nat ?m :: rat)"
    by (metis of_int_of_nat_eq)+
  with mirrors_lots [OF assms, of s] show ?thesis
    by (intro exI [of _ ?k] exI [of _ ?m]) (simp add: lots_mirror_def del: of_nat_nat)
qed

section \<open>A day of a small venue\<close>

definition desk_digest :: digest where
  "desk_digest j = ''x''"

lemma desk_id: "content_id desk_digest p parts = p @ ''_x''"
  by (simp add: content_id_def desk_digest_def)

definition desk_venue :: venue where
  "desk_venue = \<lparr>vn_desk = quiet_desk, vn_chain = (\<lambda>p j. ''h''), vn_digest = desk_digest,
     vn_canon = (\<lambda>n. (True, ''t'', ''t'')), vn_stamp = (\<lambda>n. ''t''), vn_text = (\<lambda>r. ''refused''), vn_power = (\<lambda>x. 0),
     vn_config = default_broker_config, vn_run_id = ''r'', vn_lineage = no_lineage, vn_industry_map = []\<rparr>"

lemma desk_venue_fields [simp]:
  "vn_desk desk_venue = quiet_desk" "vn_digest desk_venue = desk_digest" "vn_canon desk_venue n = (True, ''t'', ''t'')"
  "vn_lineage desk_venue = no_lineage" "vn_config desk_venue = default_broker_config" "vn_power desk_venue = (\<lambda>x. 0)"
  by (simp_all add: desk_venue_def)

definition desk_quote :: market_snapshot where
  "desk_quote = \<lparr>ms_symbol = ''600000.SH'', ms_trade_date = 19724, ms_last_price = 10, ms_previous_close = 10,
     ms_session_volume = 100000, ms_board = ''SH_Main'', ms_clock = 36000, ms_is_suspended = False, ms_is_st = False,
     ms_sessions_since_listing = Some 1, ms_high = None, ms_low = None\<rparr>"

lemma desk_quote_fields [simp]:
  "ms_symbol desk_quote = ''600000.SH''" "ms_trade_date desk_quote = 19724" "ms_last_price desk_quote = 10"
  "ms_session_volume desk_quote = 100000" "ms_clock desk_quote = 36000" "\<not> ms_is_suspended desk_quote" "\<not> ms_is_st desk_quote"
  by (simp_all add: desk_quote_def)

lemma demo_buy_fields [simp]:
  "pa_symbol demo_buy = ''600000.SH''" "pa_side demo_buy = BUY" "pa_quantity demo_buy = 100" "pa_limit_price demo_buy = Some 10"
  "pa_order_type demo_buy = T_LIMIT" "pa_board demo_buy = ''SH_Main''" "pa_order_id demo_buy = ''o1''"
  "pa_is_full_liquidation demo_buy = False" "pa_strategy_id demo_buy = None" "pa_state demo_buy = P_NEW" "pa_filled_quantity demo_buy = 0"
  by (simp_all add: demo_buy_def)

lemma desk_session [simp]: "ms_session desk_quote = ''2024-01-02''"
proof -
  have "civil 19724 = (2024, 1, 2)" by code_simp
  moreover have "zero_pad 4 2024 = ''2024''" "zero_pad 2 1 = ''01''" "zero_pad 2 2 = ''02''" by code_simp+
  ultimately have "date_isoformat 19724 = ''2024-01-02''" by (simp add: date_isoformat_def)
  then show ?thesis by (simp add: ms_session_def)
qed

definition desk_band :: price_band where
  "desk_band = no_band ''IPO_NO_LIMIT_WINDOW'' 10"

lemma desk_limits [simp]: "ms_limits desk_quote = Inr desk_band"
proof -
  have "REGISTRATION_SYSTEM_MAIN_BOARD = 19457" by code_simp
  then show ?thesis
    by (simp add: ms_limits_def desk_quote_def desk_band_def price_limits_def board_defs IPO_UNLIMITED_DAYS_def dict_get_def
        chinext_pre_reform_def Let_def)
qed

lemma desk_unlimited: "unlimited desk_band"
  by (simp add: unlimited_def desk_band_def no_band_def)

lemma desk_phase [simp]: "ms_phase desk_quote = Continuous_am"
  by (simp add: ms_phase_def desk_quote_def phase_at_def SESSION_WINDOWS_def)

lemma desk_valid [simp]: "invalid_fields desk_quote = []"
  by (simp add: invalid_fields_def desk_quote_def)

definition desk_opened :: broker where
 "desk_opened = \<lparr>br_portfolio = new_portfolio ''p'' 100000, br_store = fresh_event_store, br_risk = None, br_latched = [],
    br_book = empty_book, br_ledger = new_ledger True,
               br_steps = 0, br_orders = [], br_fills = [], br_fill_ids = [], br_marks = [], br_mark_times = [],
               br_clock = None, br_session = None, br_canonical_ids = [], br_last_decision = None\<rparr>"

lemma desk_boot: "PaperBroker_make desk_venue (new_portfolio ''p'' 100000) fresh_event_store None (new_ledger True) None = Inr desk_opened"
  by (simp add: desk_opened_def PaperBroker_make_def new_ledger_def el_read_def fresh_event_store_def fresh_switch_def empty_event_file_def)

definition desk_marked :: broker where
  "desk_marked = desk_opened\<lparr>br_orders := [(''o1'', demo_buy)], br_marks := [(''600000.SH'', 10)],
         br_mark_times := [(''600000.SH'', observed_at desk_quote)], br_clock := Some (observed_at desk_quote),
         br_session := Some ''2024-01-02''\<rparr>"

lemma desk_observe: "observe desk_venue desk_quote (put_order demo_buy desk_opened) = (Inr (), desk_marked)"
  by (simp add: observe_def enter_session_def opening_equity_def desk_opened_def put_order_def record_mark_def Let_def desk_marked_def)

definition desk_cid :: string where "desk_cid = ''ord_x''"

definition desk_state :: "order_status \<Rightarrow> portfolio \<Rightarrow> broker \<Rightarrow> bool" where
  "desk_state status pf br \<longleftrightarrow> br_risk br = None \<and> br_latched br = [] \<and> \<not> led_write_failure (br_ledger br)
     \<and> map_of (br_canonical_ids br) ''o1'' = Some desk_cid \<and> br_portfolio br = pf \<and> br_fill_ids br = [] \<and> br_store br = fresh_event_store
     \<and> (\<exists>od. map_of (bk_orders (br_book br)) desk_cid = Some od \<and> ord_status od = status \<and> ord_quantity od = 100
        \<and> ord_filled_quantity od = 0 \<and> ord_fills od = [])"

lemma desk_intent: "canonical_intent desk_venue ''t'' demo_buy ''2024-01-02'' = Inr
    \<lparr>oi_order_intent_id = ''oi_x'', oi_symbol = ''600000.SH'', oi_side = BUY, oi_quantity = 100,
     oi_trade_date = ''2024-01-02'', oi_limit_price = Some 10, oi_reference_price = Some 10,
     oi_lineage = no_lineage(Signal_id \<mapsto> ''sig_x'', Order_intent_id \<mapsto> ''oi_x''), oi_created_at = ''t''\<rparr>"
  by (simp add: canonical_intent_def OrderIntent_create_def Signal_create_def Let_def py_int_def desk_id)

lemma desk_canonical: "\<exists>br. canonical_open desk_venue demo_buy ''2024-01-02'' desk_marked = (Inr (), br)
    \<and> desk_state SUBMITTED (new_portfolio ''p'' 100000) br"
  by (simp add: canonical_open_def desk_intent desk_marked_def desk_opened_def Let_def pure_then_def mirror_open_def OrderBook_open_def
      Order_from_intent_def desk_id empty_book_def history_of_def append_cases new_ledger_def canonical_apply_def and_then_def
      OrderBook_apply_def Order_apply_def is_fill_event_def assert_transition_def desk_state_def desk_cid_def)

lemma desk_accept:
  assumes "desk_state SUBMITTED pf br" "pa_order_id od = ''o1''"
  shows "\<exists>br'. canonical_event desk_venue od Ev_ACCEPTED None td br = (Inr (), br') \<and> desk_state ACCEPTED pf br'"
  using assms
  by (auto simp: desk_state_def canonical_event_def canonical_mirror_def mirror_event_def OrderBook_apply_def Order_apply_def
      is_fill_event_def assert_transition_def append_cases Let_def)

lemma desk_validate:
  assumes "desk_state st (new_portfolio ''p'' 100000) br"
  shows "\<exists>br'. validate desk_venue demo_buy desk_quote br = (Inr (None, demo_buy), br') \<and>
     desk_state st (pt_put ''600000.SH'' (new_position ''600000.SH'') (new_portfolio ''p'' 100000)) br'"
proof -
  have lot: "round_to_lot 100 ''SH_Main'' ''BUY'' False = 100" by code_simp
  have buy: "tv_can_buy (venue_verdict demo_buy desk_quote desk_band h)" for h
    by (simp add: venue_verdict_def tradability_def desk_band_def no_band_def at_limit_up_def at_limit_down_def acquired_today_def)
  have same: "demo_buy\<lparr>pa_quantity := 100\<rparr> = demo_buy" by (simp add: demo_buy_def)
  show ?thesis using assms
    by (simp add: validate_def br_latches_def desk_state_def blocking_def sw_active_def CONTINUOUS_PHASES_def
       pt_position_def new_portfolio_def lot buy same price_refusal_def desk_unlimited portfolio_refusal_def and_then_def put_order_def pure_then_def Let_def)
qed
lemma desk_accepted: "paper_transition P_ACCEPTED demo_buy = Inr (demo_buy\<lparr>pa_state := P_ACCEPTED\<rparr>)"
  by (simp add: paper_transition_def PAPER_TRANSITIONS_def ORDER_STATES_def)

text \<open>The fill: 100 shares at 10, with the minimum commission of 5 and a transfer fee of 1/100.\<close>

definition desk_fill :: paper_fill where
  "desk_fill = \<lparr>pf_order_id = ''o1'', pf_symbol = ''600000.SH'', pf_side = BUY, pf_quantity = 100, pf_price = 10, pf_notional = 1000,
     pf_commission = 5, pf_stamp_duty = 0, pf_transfer_fee = 1000 * TRANSFER_FEE, pf_market_time = Some (clock_of_day 36000), pf_fill_id = ''f1'',
     pf_partial = False\<rparr>"

lemma desk_venue_fill:
  assumes "pa_order_id od = ''o1''" "pa_symbol od = ''600000.SH''" "pa_side od = BUY" "pa_remaining od = 100" "pa_board od = ''SH_Main''"
    "\<not> pa_is_full_liquidation od" "pa_limit_price od = Some 10"
  shows "fill_quantity_at desk_venue od desk_quote = 100" 
    "venue_fill desk_venue ''f1'' od desk_quote 100 (venue_price desk_venue od desk_quote desk_band 100) = desk_fill"
proof -
  have lot: "round_to_lot 100 ''SH_Main'' ''BUY'' False = 100" by code_simp
  show "fill_quantity_at desk_venue od desk_quote = 100"
    using assms by (simp add: fill_quantity_at_def default_broker_config_def lot)
  have ten: "round_dec 2 (10 :: rat) = 10" by code_simp
  have price: "venue_price desk_venue od desk_quote desk_band 100 = 10"
    using assms by (simp add: venue_price_def execution_price_def desk_unlimited default_broker_config_def upper_def Let_def ten)
  show "venue_fill desk_venue ''f1'' od desk_quote 100 (venue_price desk_venue od desk_quote desk_band 100) = desk_fill"
    using assms by (simp add: price venue_fill_def desk_fill_def trading_costs_def default_broker_config_def COMMISSION_MINIMUM_CNY_def
        DEFAULT_COMMISSION_RATE_def upper_def Let_def)
qed


lemma desk_derive: "derive L [(''execution_id'', Some x)] = Inr (L(Execution_id := Some x))"
  using derive_known(1) [of L Execution_id "Some x"] by simp

lemma desk_canonical_fill:
  assumes "desk_state ACCEPTED pf br" "pa_order_id od = ''o1''" "pa_limit_price od = Some 10"
  shows "\<exists>br'. canonical_fill desk_venue od desk_fill ''2024-01-02'' (br\<lparr>br_portfolio := pf', br_fill_ids := [''f1''], br_fills := fs\<rparr>) = (Inr (), br')
    \<and> br_risk br' = None \<and> br_portfolio br' = pf' \<and> br_store br' = fresh_event_store"
proof -
  let ?br = "br\<lparr>br_portfolio := pf', br_fill_ids := [''f1''], br_fills := fs\<rparr>"
  from assms(1) obtain canonical where known: "map_of (br_canonical_ids br) ''o1'' = Some desk_cid"
    "map_of (bk_orders (br_book br)) desk_cid = Some canonical" "ord_status canonical = ACCEPTED" "ord_quantity canonical = 100"
    "ord_filled_quantity canonical = 0" "ord_fills canonical = []" "\<not> led_write_failure (br_ledger br)"
    "br_risk br = None" "br_store br = fresh_event_store" by (auto simp: desk_state_def)
  define cf where "cf = \<lparr>fill_execution_id = ''f1'', fill_order_id = desk_cid, fill_symbol = ''600000.SH'', fill_side = BUY,
            fill_quantity = 100, fill_price = 10, fill_reference_price = Some 10,
            fill_commission = 5, fill_stamp_duty = 0, fill_transfer_fee = 1000 * TRANSFER_FEE, fill_filled_at = ''2024-01-02'',
            fill_lineage = (ord_lineage canonical)(Execution_id := Some ''f1'')\<rparr>"
  have cf: "economic_fill od desk_fill desk_cid canonical ''2024-01-02'' = Inr cf" "fill_quantity cf = 100"
    using assms(3) by (simp_all add: economic_fill_def desk_fill_def desk_derive cf_def py_int_def)
  have "Order_apply canonical e = Inr (Updated (canonical\<lparr>ord_status := FILLED, ord_filled_quantity := 100, ord_fills := [cf]\<rparr>))"
    if "ev_event_type e = Ev_FILL" "ev_fill e = Some cf" for e
    using that known cf(2) by (simp add: Order_apply_def is_fill_event_def apply_new_fill_def is_terminal_def TERMINAL_STATUSES_def assert_transition_def)
  then have "\<exists>od book. OrderBook_apply ''t'' desk_cid Ev_FILL (Some cf) None None (br_book br) = Inr (od, book)
      \<and> length (bk_events (br_book br)) < length (bk_events book)"
    using known by (simp add: OrderBook_apply_def Let_def)
  then show ?thesis
    using known cf assms(2) by (auto simp: canonical_fill_def state_of_def pure_then_def canonical_mirror_def mirror_event_def append_cases Let_def)
qed

definition desk_held :: portfolio where
  "desk_held = pt_put ''600000.SH'' (new_position ''600000.SH'') (new_portfolio ''p'' 100000)"

definition desk_bought :: portfolio where
  "desk_bought = snd (pt_apply_fill desk_fill desk_held)"

lemma desk_booked: "pt_apply_fill desk_fill desk_held = (Inr (), desk_bought)"
  by (simp add: desk_bought_def pt_apply_fill_def desk_held_def pt_position_def pt_put_def new_portfolio_def desk_fill_def can_afford_def
      pf_cash_delta_def pf_fees_def TRANSFER_FEE_def)

lemma desk_attempt:
  assumes st: "desk_state ACCEPTED desk_held br"
    and od: "pa_order_id od = ''o1''" "pa_symbol od = ''600000.SH''" "pa_side od = BUY" "pa_remaining od = 100" "pa_board od = ''SH_Main''"
    "\<not> pa_is_full_liquidation od" "pa_limit_price od = Some 10" "pa_state od = P_ACCEPTED" "pa_quantity od = 100" "pa_filled_quantity od = 0"
  shows "\<exists>od' br'. attempt_fill desk_venue ''w'' ''f1'' od desk_quote br = (Inr od', br') \<and> br_portfolio br' = desk_bought
    \<and> br_store br' = fresh_event_store"
proof -
  have ids: "pf_fill_id desk_fill = ''f1''" "pf_quantity desk_fill = 100" by (simp_all add: desk_fill_def)
  have free: "br_fill_ids br = []" "br_portfolio br = desk_held" using st by (simp_all add: desk_state_def)
  obtain br1 where br1: "canonical_fill desk_venue od desk_fill ''2024-01-02'' (br\<lparr>br_portfolio := desk_bought, br_fill_ids := [''f1''],
      br_fills := br_fills br @ [desk_fill]\<rparr>) = (Inr (), br1)" "br_risk br1 = None" "br_portfolio br1 = desk_bought"
    "br_store br1 = fresh_event_store"
    using desk_canonical_fill [OF st od(1,7)] by blast
  have "\<exists>od' br'. apply_execution_report desk_venue ''w'' od desk_fill (Some ''2024-01-02'') br = (Inr (True, od'), br')
      \<and> br_portfolio br' = desk_bought \<and> br_store br' = fresh_event_store"
    using br1 od by (simp add: apply_execution_report_def free ids desk_booked and_then_def move_order_def paper_transition_def
        filled_order_def pa_remaining_def pure_then_def put_order_def br_check_portfolio_def PAPER_TRANSITIONS_def ORDER_STATES_def Let_def)
  then show ?thesis
    using desk_venue_fill [OF od(1-7)] od by (auto simp: attempt_fill_def resting_def pure_then_def)
qed

lemma desk_submit: "\<exists>od br. submit desk_venue ''w'' ''f1'' demo_buy desk_quote desk_opened = (Inr od, br)
    \<and> br_portfolio br = desk_bought \<and> br_store br = fresh_event_store"
proof -
  obtain br1 where br1: "canonical_open desk_venue demo_buy ''2024-01-02'' desk_marked = (Inr (), br1)"
    "desk_state SUBMITTED (new_portfolio ''p'' 100000) br1" using desk_canonical by blast
  obtain br2 where br2: "validate desk_venue demo_buy desk_quote br1 = (Inr (None, demo_buy), br2)"
    "desk_state SUBMITTED desk_held br2" using desk_validate [OF br1(2)] by (auto simp: desk_held_def)
  let ?od = "demo_buy\<lparr>pa_state := P_ACCEPTED\<rparr>"
  have "desk_state SUBMITTED desk_held (put_order ?od br2)" using br2(2) by (simp add: desk_state_def put_order_def)
  from desk_accept [OF this, of ?od] obtain br3 where
    br3: "canonical_event desk_venue ?od Ev_ACCEPTED None (Some ''2024-01-02'') (put_order ?od br2) = (Inr (), br3)"
    "desk_state ACCEPTED desk_held br3" by auto
  obtain od br4 where "attempt_fill desk_venue ''w'' ''f1'' ?od desk_quote br3 = (Inr od, br4)"
    "br_portfolio br4 = desk_bought" "br_store br4 = fresh_event_store"
    using desk_attempt [OF br3(2), of ?od] by (auto simp: pa_remaining_def)
  then show ?thesis
    using br1(1) br2(1) br3(1)
    by (simp add: submit_def desk_observe and_then_def desk_marked_def desk_opened_def [symmetric] move_order_def desk_accepted pure_then_def)
      (simp add: desk_opened_def)
qed

lemma desk_close:
  assumes "br_portfolio br = pf" "br_store br = fresh_event_store"
  shows "\<exists>x br'. close_session desk_venue d br = (Inr x, br') \<and> br_portfolio br' = snd (pt_settle pf)"
  using assms
  by (simp add: close_session_def and_then_def br_emit_def store_append_def el_append_def quiet_desk_def demo_desk_def fresh_event_store_def fresh_switch_def
      put_line_def empty_event_file_def Let_def split: prod.split)

lemma desk_day: "at_open desk_venue ''w'' ''p'' 100000 fresh_event_store None True [(''2024-01-02'', [Submit demo_buy desk_quote ''f1''])]
    ''2024-01-03'' (snd (desk_days desk_venue ''w'' [(''2024-01-02'', [Submit demo_buy desk_quote ''f1''])] desk_opened))
  \<and> br_portfolio (snd (desk_days desk_venue ''w'' [(''2024-01-02'', [Submit demo_buy desk_quote ''f1''])] desk_opened))
      = snd (pt_settle desk_bought)"
proof -
  obtain od br1 where br1: "submit desk_venue ''w'' ''f1'' demo_buy desk_quote desk_opened = (Inr od, br1)"
    "br_portfolio br1 = desk_bought" "br_store br1 = fresh_event_store" using desk_submit by blast
  obtain x br2 where br2: "close_session desk_venue ''2024-01-02'' br1 = (Inr x, br2)" "br_portfolio br2 = snd (pt_settle desk_bought)"
    using desk_close [OF br1(2,3)] by blast
  have run: "desk_days desk_venue ''w'' [(''2024-01-02'', [Submit demo_buy desk_quote ''f1''])] desk_opened = (Inr (), br2)"
    by (simp add: no_result_def and_then_def br1(1) br2(1))
  have "no_empty_field no_lineage" by (simp add: no_empty_field_def no_lineage_def)
  with desk_boot run br2(2) show ?thesis by (simp add: at_open_def good_day_def)
qed

section \<open>Properties\<close>

text \<open>C4. A restart loses nothing.  After any trading days and any calls of the current session,
  \<open>recover_from_canonical\<close> accepts the venue's canonical ledger and rebuilds its cash, its profit and fees and,
  for each symbol, the total, settled and pending shares and the average cost; \<open>reconcile\<close> finds no problem.\<close>

theorem restart_reconciles:
  assumes "at_open vn wall pid cash store rk durable ds today br1" "list_all (in_session today) cs"
    and "desk_calls vn wall today cs br1 = (Inr (), br)"
  shows "\<exists>s. recover_from_canonical (vn_chain vn) (vn_digest vn) clock now (br_ledger br) pid cash (Some today) = Inr s
    \<and> same_holdings (br_portfolio br) (rs_portfolio s) \<and> reconcile (br_portfolio br) (br_fills br) s 0 = []"
proof -
  have "today \<noteq> []" using assms(1) by (auto simp: at_open_def)
  with at_open_calls [OF assms] show ?thesis by (intro desk_recovers) simp_all
qed

lemma restart_reconciles_witness:
  "\<exists>s. recover_from_canonical (vn_chain desk_venue) (vn_digest desk_venue) (\<lambda>n. ''t'') ''t''
      (br_ledger (snd (desk_days desk_venue ''w'' [(''2024-01-02'', [Submit demo_buy desk_quote ''f1''])] desk_opened)))
      ''p'' 100000 (Some ''2024-01-03'') = Inr s
    \<and> pp_sellable (pt_get (rs_portfolio s) ''600000.SH'') = 100 \<and> pt_cash (rs_portfolio s) = 98994 + 99/100"
proof -
  have "pp_sellable (pt_get (snd (pt_settle desk_bought)) ''600000.SH'') = 100 \<and> pt_cash (snd (pt_settle desk_bought)) = 98994 + 99/100"
    by (simp add: desk_bought_def pt_apply_fill_def desk_held_def pt_position_def pt_put_def new_portfolio_def desk_fill_def can_afford_def
      pf_cash_delta_def pf_fees_def TRANSFER_FEE_def settle_position_def pt_settle_def buy_position_def new_position_def pt_get_def dict_get_def book_cash_def Let_def)
  with restart_reconciles [OF desk_day [THEN conjunct1], of "[]" _ "\<lambda>n. ''t''" "''t''"] desk_day [THEN conjunct2]
  show ?thesis by (fastforce simp: same_holdings_def)
qed

text \<open>C32. The live portfolio is well formed: after any trading days and calls, every position is a natural number of
  settled and a natural number of pending shares and their sum.\<close>

theorem holdings_are_whole:
  assumes "at_open vn wall pid cash store rk durable ds today br1" "list_all (in_session today) cs"
    and "desk_calls vn wall today cs br1 = (Inr (), br)"
  shows "\<exists>k m. pp_sellable (pt_get (br_portfolio br) s) = of_nat k \<and> pp_pending (pt_get (br_portfolio br) s) = of_nat m
    \<and> pp_total (pt_get (br_portfolio br) s) = of_nat (k + m)"
  using at_open_calls [OF assms] desk_mirrors mirrors_whole by blast

lemma holdings_are_whole_witness:
  "\<exists>k m. pp_sellable (pt_get (snd (pt_settle desk_bought)) ''600000.SH'') = of_nat k
    \<and> pp_pending (pt_get (snd (pt_settle desk_bought)) ''600000.SH'') = of_nat m
    \<and> pp_total (pt_get (snd (pt_settle desk_bought)) ''600000.SH'') = of_nat (k + m)"
  using holdings_are_whole [OF desk_day [THEN conjunct1], of "[]"] unfolding desk_day [THEN conjunct2, symmetric] by simp

text \<open>C33. T+1.  In a session without a corporate action the shares of a symbol that are sold were settled at
  its open: the settled shares fall by exactly what is sold, so what is bought in the session cannot be sold
  in it.\<close>

theorem sales_are_settled:
  assumes "at_open vn wall pid cash store rk durable ds today br1" "list_all (in_session today) cs"
    and "desk_calls vn wall today cs br1 = (Inr (), br)" "\<not> list_ex adjusts cs"
  shows "pt_sellable (br_portfolio br) s
      = pt_sellable (br_portfolio br1) s - sold_of s (drop (length (br_fills br1)) (br_fills br))
    \<and> sold_of s (drop (length (br_fills br1)) (br_fills br)) \<le> pt_sellable (br_portfolio br1) s"
proof -
  have "sells br1 br" using at_open_calls [OF assms(1-3)] assms(4) by simp
  moreover have "0 \<le> pt_sellable (br_portfolio br) s"
    using at_open_calls [OF assms(1-3)] desk_mirrors mirrors_whole [of today "br_portfolio br" _ s]
    by (fastforce simp: pt_sellable_get)
  ultimately show ?thesis by (auto simp: sells_def)
qed

lemma sales_are_settled_witness:
  "\<exists>br. desk_calls desk_venue ''w'' ''2024-01-02'' [Submit demo_buy desk_quote ''f1''] desk_opened = (Inr (), br)
    \<and> pp_total (pt_get (br_portfolio br) ''600000.SH'') = 100 \<and> pt_sellable (br_portfolio br) ''600000.SH'' = 0
    \<and> sold_of ''600000.SH'' (br_fills br) \<le> 0"
proof -
  obtain od br where br: "submit desk_venue ''w'' ''f1'' demo_buy desk_quote desk_opened = (Inr od, br)" "br_portfolio br = desk_bought"
    using desk_submit by blast
  have run: "desk_calls desk_venue ''w'' ''2024-01-02'' [Submit demo_buy desk_quote ''f1''] desk_opened = (Inr (), br)"
    by (simp add: no_result_def and_then_def br)
  have "at_open desk_venue ''w'' ''p'' 100000 fresh_event_store None True [] ''2024-01-02'' desk_opened"
    using desk_boot by (simp add: at_open_def no_empty_field_def no_lineage_def)
  from sales_are_settled [OF this _ run, of "''600000.SH''"] have "sold_of ''600000.SH'' (br_fills br) \<le> 0"
    by (simp add: desk_opened_def new_portfolio_def pt_sellable_def)
  moreover have "pp_total (pt_get desk_bought ''600000.SH'') = 100" "pt_sellable desk_bought ''600000.SH'' = 0"
    by (simp_all add: desk_bought_def pt_apply_fill_def desk_held_def pt_position_def pt_put_def new_portfolio_def desk_fill_def
        can_afford_def pf_cash_delta_def pf_fees_def TRANSFER_FEE_def buy_position_def new_position_def pt_get_def dict_get_def
        book_cash_def pt_sellable_def Let_def)
  ultimately show ?thesis using run br(2) by simp
qed

end
