(* ===== verification/Constraints.thy ===== *)
theory Constraints
  imports Timeline "HOL-Library.Multiset"
begin

text \<open>
  The declarative pre-submit checks of \<open>src/src/quantagent/execution/constraints.py\<close>: a set of limits and
  the evaluator that checks a batch of order intents against it.  A time stamp is a \<open>moment\<close>; a naive one is
  a wall clock of the exchange.  Of a violation the texts (its reason and its detail) are left out.  Amounts are
  rationals, so the screen for NaN and infinite amounts, which have no counterpart, is left out.
\<close>

section \<open>Counting into a dictionary\<close>

text \<open>The loop \<open>d[key(x)] = d.get(key(x), 0) + weight(x)\<close>, and \<open>d.setdefault(key(x), []).append(x)\<close>.\<close>

definition tally :: "('a \<Rightarrow> 'k) \<Rightarrow> ('a \<Rightarrow> int) \<Rightarrow> 'a list \<Rightarrow> ('k, int) dict" where
  "tally key weight xs = foldl (\<lambda>d x. AList.update (key x) (dict_get d (key x) 0 + weight x) d) [] xs"

definition gather :: "('a \<Rightarrow> 'k) \<Rightarrow> 'a list \<Rightarrow> ('k, 'a list) dict" where
  "gather key xs = foldl (\<lambda>d x. AList.update (key x) (dict_get d (key x) [] @ [x]) d) [] xs"

lemma tally_simps [simp]:
  "tally key w [] = []"
  "tally key w (xs @ [x]) = AList.update (key x) (dict_get (tally key w xs) (key x) 0 + w x) (tally key w xs)"
  by (simp_all add: tally_def)

lemma gather_simps [simp]:
  "gather key [] = []"
  "gather key (xs @ [x]) = AList.update (key x) (dict_get (gather key xs) (key x) [] @ [x]) (gather key xs)"
  by (simp_all add: gather_def)

lemma tally_wf [simp]: "dict_wf (tally key w xs)"
  by (induction xs rule: rev_induct) simp_all

lemma gather_wf [simp]: "dict_wf (gather key xs)"
  by (induction xs rule: rev_induct) simp_all

lemma tally_get: "dict_get (tally key w xs) k 0 = (\<Sum>x\<leftarrow>filter (\<lambda>x. key x = k) xs. w x)"
  by (induction xs rule: rev_induct) auto

lemma gather_get: "dict_get (gather key xs) k [] = filter (\<lambda>x. key x = k) xs"
  by (induction xs rule: rev_induct) auto

lemma tally_keys: "fst ` set (tally key w xs) = key ` set xs"
  by (induction xs rule: rev_induct) (simp_all add: dom_update)

lemma gather_keys: "fst ` set (gather key xs) = key ` set xs"
  by (induction xs rule: rev_induct) (simp_all add: dom_update)

lemma dict_entry:
  assumes "dict_wf d"
  shows "(k, v) \<in> set d \<longleftrightarrow> k \<in> fst ` set d \<and> dict_get d k z = v"
proof (cases "map_of d k")
  case None
  then have "k \<notin> fst ` set d" by (simp add: map_of_eq_None_iff)
  then show ?thesis by force
next
  case (Some w)
  then have "k \<in> fst ` set d" by (metis domI dom_map_of_conv_image_fst)
  moreover have "dict_get d k z = w" using Some by (simp add: dict_get_def)
  ultimately show ?thesis using Some by (simp add: in_set_dict [OF assms])
qed

lemma in_tally: "(k, n) \<in> set (tally key w xs) \<longleftrightarrow> k \<in> key ` set xs \<and> n = (\<Sum>x\<leftarrow>filter (\<lambda>x. key x = k) xs. w x)"
  unfolding dict_entry [OF tally_wf, where z = 0] by (auto simp: tally_keys tally_get)

lemma in_gather: "(k, g) \<in> set (gather key xs) \<longleftrightarrow> k \<in> key ` set xs \<and> g = filter (\<lambda>x. key x = k) xs"
  unfolding dict_entry [OF gather_wf, where z = "[]"] by (auto simp: gather_keys gather_get)

section \<open>Auction phases\<close>

datatype auction_phase = Pre_auction_open | Auction_open | Continuous | Pre_auction_close | Auction_close | Closed

definition exchange_timestamp :: "moment \<Rightarrow> moment" where
  "exchange_timestamp ts = (case mo_offset ts of
       None \<Rightarrow> \<lparr>mo_instant = mo_instant ts - microseconds EXCHANGE_OFFSET, mo_offset = Some EXCHANGE_OFFSET\<rparr>
     | Some _ \<Rightarrow> ts\<lparr>mo_offset := Some EXCHANGE_OFFSET\<rparr>)"

text \<open>\<open>wall.time()\<close> in microseconds of the day.\<close>

definition wall_time :: "moment \<Rightarrow> int" where
  "wall_time ts = (mo_instant ts + (case mo_offset ts of None \<Rightarrow> 0 | Some off \<Rightarrow> microseconds off)) mod days 1"

definition dtime :: "int \<Rightarrow> int \<Rightarrow> int" where
  "dtime h m = microseconds (hhmm h m)"

definition classify_auction_phase :: "moment \<Rightarrow> auction_phase" where
  "classify_auction_phase ts =
     (let t = wall_time (exchange_timestamp ts) in
      if dtime 9 15 \<le> t \<and> t < dtime 9 25 then Pre_auction_open
      else if dtime 9 25 \<le> t \<and> t < dtime 9 30 then Auction_open
      else if dtime 9 30 \<le> t \<and> t < dtime 11 30 then Continuous
      else if dtime 13 0 \<le> t \<and> t < dtime 14 57 then Continuous
      else if dtime 14 57 \<le> t \<and> t < dtime 15 0 then Pre_auction_close
      else if t = dtime 15 0 then Auction_close
      else Closed)"

section \<open>The constraint set and the intents\<close>

record constraint_set =
  cs_max_orders_per_second :: "int option"
  cs_max_orders_per_day :: "int option"
  cs_max_cancel_ratio :: "rat option"
  cs_min_order_resting_time_seconds :: "rat option"
  cs_max_single_stock_participation_rate :: "rat option"
  cs_max_single_order_value :: "rat option"
  cs_max_daily_turnover :: "rat option"
  cs_auction_mode_max_orders_per_symbol :: "int option"
  cs_auction_mode_min_resting_time_seconds :: "rat option"
  cs_auction_mode_max_cancel_ratio :: "rat option"
  cs_auction_mode_block_layering :: bool
  cs_no_spoofing :: bool
  cs_no_layering :: bool
  cs_no_pull_push :: bool
  cs_spoof_max_repeated_cancels :: int
  cs_layering_max_concurrent_levels :: int
  cs_pull_push_min_size_jump :: rat
  cs_qmt_dry_run_required_by_default :: bool
  cs_live_trading_enabled :: bool

definition default_constraints :: constraint_set where
  "default_constraints = \<lparr>
     cs_max_orders_per_second = Some 30, cs_max_orders_per_day = Some 500, cs_max_cancel_ratio = Some (1/2),
     cs_min_order_resting_time_seconds = Some (1/2), cs_max_single_stock_participation_rate = Some (1/10),
     cs_max_single_order_value = Some 1000000, cs_max_daily_turnover = Some 2,
     cs_auction_mode_max_orders_per_symbol = Some 2, cs_auction_mode_min_resting_time_seconds = Some 30,
     cs_auction_mode_max_cancel_ratio = Some (1/5), cs_auction_mode_block_layering = True,
     cs_no_spoofing = True, cs_no_layering = True, cs_no_pull_push = True,
     cs_spoof_max_repeated_cancels = 3, cs_layering_max_concurrent_levels = 5, cs_pull_push_min_size_jump = 3,
     cs_qmt_dry_run_required_by_default = True, cs_live_trading_enabled = False\<rparr>"

definition constraints_as_dict :: "constraint_set \<Rightarrow> (string, json) dict" where
  "constraints_as_dict c =
     [(''max_orders_per_second'', of_opt JInt (cs_max_orders_per_second c)),
      (''max_orders_per_day'', of_opt JInt (cs_max_orders_per_day c)),
      (''max_cancel_ratio'', of_opt JNum (cs_max_cancel_ratio c)),
      (''min_order_resting_time_seconds'', of_opt JNum (cs_min_order_resting_time_seconds c)),
      (''max_single_stock_participation_rate'', of_opt JNum (cs_max_single_stock_participation_rate c)),
      (''max_single_order_value'', of_opt JNum (cs_max_single_order_value c)),
      (''max_daily_turnover'', of_opt JNum (cs_max_daily_turnover c)),
      (''auction_mode_max_orders_per_symbol'', of_opt JInt (cs_auction_mode_max_orders_per_symbol c)),
      (''auction_mode_min_resting_time_seconds'', of_opt JNum (cs_auction_mode_min_resting_time_seconds c)),
      (''auction_mode_max_cancel_ratio'', of_opt JNum (cs_auction_mode_max_cancel_ratio c)),
      (''auction_mode_block_layering'', JBool (cs_auction_mode_block_layering c)),
      (''no_spoofing'', JBool (cs_no_spoofing c)),
      (''no_layering'', JBool (cs_no_layering c)),
      (''no_pull_push'', JBool (cs_no_pull_push c)),
      (''spoof_max_repeated_cancels'', JInt (cs_spoof_max_repeated_cancels c)),
      (''layering_max_concurrent_levels'', JInt (cs_layering_max_concurrent_levels c)),
      (''pull_push_min_size_jump'', JNum (cs_pull_push_min_size_jump c)),
      (''qmt_dry_run_required_by_default'', JBool (cs_qmt_dry_run_required_by_default c)),
      (''live_trading_enabled'', JBool (cs_live_trading_enabled c))]"

record intent_record =
  ir_intent_id :: string
  ir_symbol :: string
  ir_side :: string
  ir_quantity :: int
  ir_price :: rat
  ir_timestamp :: moment
  ir_order_value :: rat
  ir_parent_intent_id :: "string option"
  ir_portfolio_nav :: "rat option"
  ir_daily_volume_hint :: "rat option"

record violation =
  vi_intent_id :: string
  vi_symbol :: string
  vi_constraint :: string
  vi_severity :: string

record unmeasured_constraint =
  uc_constraint :: string
  uc_missing_input :: string

record constraint_report =
  rp_n_intents :: nat
  rp_n_violations :: nat
  rp_n_blocking :: nat
  rp_violations :: "violation list"
  rp_by_constraint :: "(string, int) dict"
  rp_unmeasured :: "unmeasured_constraint list"

definition passed :: "constraint_report \<Rightarrow> bool" where
  "passed r \<longleftrightarrow> rp_n_blocking r = 0"

definition fully_measured :: "constraint_report \<Rightarrow> bool" where
  "fully_measured r \<longleftrightarrow> rp_unmeasured r = []"

definition unmeasured_constraints :: "constraint_report \<Rightarrow> string list" where
  "unmeasured_constraints r = sort (remdups (map uc_constraint (rp_unmeasured r)))"

definition blocks_as :: "string \<Rightarrow> string \<Rightarrow> string \<Rightarrow> violation" where
  "blocks_as constraint intent_id symbol =
     \<lparr>vi_intent_id = intent_id, vi_symbol = symbol, vi_constraint = constraint, vi_severity = ''block''\<rparr>"

section \<open>The checks\<close>

text \<open>Each check is given the batch in the order of time and identifier, and lists what it finds.\<close>

definition posture_check :: "constraint_set \<Rightarrow> violation list" where
  "posture_check c = (if cs_live_trading_enabled c \<and> cs_qmt_dry_run_required_by_default c
     then [blocks_as ''qmt_dry_run_required_by_default'' ''<global>'' ''<global>''] else [])"

definition day_check :: "constraint_set \<Rightarrow> intent_record list \<Rightarrow> violation list" where
  "day_check c xs = (case cs_max_orders_per_day c of None \<Rightarrow> []
     | Some m \<Rightarrow> if m < int (length xs) then [blocks_as ''max_orders_per_day'' ''<batch>'' ''<batch>''] else [])"

definition second_of :: "intent_record \<Rightarrow> int" where
  "second_of x = mo_instant (ir_timestamp x) div microseconds 1"

definition minute_of :: "intent_record \<Rightarrow> int" where
  "minute_of x = mo_instant (ir_timestamp x) div minutes_of 1"

definition second_check :: "constraint_set \<Rightarrow> intent_record list \<Rightarrow> violation list" where
  "second_check c xs = (case cs_max_orders_per_second c of None \<Rightarrow> []
     | Some m \<Rightarrow> map (\<lambda>_. blocks_as ''max_orders_per_second'' ''<window>'' ''<window>'')
         (filter (\<lambda>(_, n). m < n) (tally second_of (\<lambda>_. 1) xs)))"

definition is_cancel :: "intent_record \<Rightarrow> bool" where
  "is_cancel x \<longleftrightarrow> ir_side x = ''cancel''"

definition is_trade :: "intent_record \<Rightarrow> bool" where
  "is_trade x \<longleftrightarrow> ir_side x \<in> {''buy'', ''sell''}"

definition n_cancels :: "intent_record list \<Rightarrow> nat" where
  "n_cancels xs = length (filter is_cancel xs)"

definition cancel_check :: "constraint_set \<Rightarrow> intent_record list \<Rightarrow> violation list" where
  "cancel_check c xs = (case cs_max_cancel_ratio c of None \<Rightarrow> []
     | Some m \<Rightarrow>
         (let n_submits = length xs - n_cancels xs in
          if 0 < n_submits \<and> m < of_nat (n_cancels xs) / of_nat (max 1 n_submits)
          then [blocks_as ''max_cancel_ratio'' ''<batch>'' ''<batch>''] else []))"

definition value_of :: "intent_record \<Rightarrow> rat" where
  "value_of x = (if 0 < ir_order_value x then ir_order_value x else of_int (ir_quantity x) * ir_price x)"

definition value_check :: "constraint_set \<Rightarrow> intent_record list \<Rightarrow> violation list" where
  "value_check c xs = (case cs_max_single_order_value c of None \<Rightarrow> []
     | Some m \<Rightarrow> map (\<lambda>x. blocks_as ''max_single_order_value'' (ir_intent_id x) (ir_symbol x))
         (filter (\<lambda>x. m < value_of x) xs))"

definition volume_hints :: "intent_record list \<Rightarrow> (string, rat) dict" where
  "volume_hints xs = foldl (\<lambda>d x. case ir_daily_volume_hint x of
       None \<Rightarrow> d | Some v \<Rightarrow> if 0 < v then AList.update (ir_symbol x) v d else d) [] xs"

definition volumes :: "intent_record list \<Rightarrow> (string, int) dict" where
  "volumes xs = tally ir_symbol (\<lambda>x. max 0 (ir_quantity x)) xs"

definition participation_unmeasured :: "constraint_set \<Rightarrow> intent_record list \<Rightarrow> unmeasured_constraint list" where
  "participation_unmeasured c xs = (case cs_max_single_stock_participation_rate c of None \<Rightarrow> []
     | Some m \<Rightarrow> map (\<lambda>_. \<lparr>uc_constraint = ''max_single_stock_participation_rate'', uc_missing_input = ''daily_volume_hint''\<rparr>)
         (filter (\<lambda>(symbol, vol). map_of (volume_hints xs) symbol = None) (volumes xs)))"

definition participation_check :: "constraint_set \<Rightarrow> intent_record list \<Rightarrow> violation list" where
  "participation_check c xs = (case cs_max_single_stock_participation_rate c of None \<Rightarrow> []
     | Some m \<Rightarrow> map (\<lambda>(symbol, vol). blocks_as ''max_single_stock_participation_rate'' ''<symbol>'' symbol)
         (filter (\<lambda>(symbol, vol). case map_of (volume_hints xs) symbol of None \<Rightarrow> False
            | Some dvol \<Rightarrow> m < of_int vol / dvol) (volumes xs)))"

definition first_nav :: "intent_record list \<Rightarrow> rat option" where
  "first_nav xs = List.find (\<lambda>v. 0 < v) (List.map_filter ir_portfolio_nav xs)"

definition gross_value :: "intent_record list \<Rightarrow> rat" where
  "gross_value xs = (\<Sum>x\<leftarrow>filter is_trade xs. value_of x)"

definition turnover_unmeasured :: "constraint_set \<Rightarrow> intent_record list \<Rightarrow> unmeasured_constraint list" where
  "turnover_unmeasured c xs = (if cs_max_daily_turnover c \<noteq> None \<and> first_nav xs = None
     then [\<lparr>uc_constraint = ''max_daily_turnover'', uc_missing_input = ''portfolio_nav''\<rparr>] else [])"

definition turnover_check :: "constraint_set \<Rightarrow> intent_record list \<Rightarrow> violation list" where
  "turnover_check c xs = (case cs_max_daily_turnover c of None \<Rightarrow> []
     | Some m \<Rightarrow> (case first_nav xs of None \<Rightarrow> []
         | Some nav \<Rightarrow> if m < gross_value xs / nav then [blocks_as ''max_daily_turnover'' ''<batch>'' ''<batch>''] else []))"

text \<open>\<open>{it.intent_id: it for it in ordered}\<close>: the last intent of an identifier.\<close>

definition intent_by_id :: "intent_record list \<Rightarrow> (string, intent_record) dict" where
  "intent_by_id xs = foldl (\<lambda>d x. AList.update (ir_intent_id x) x d) [] xs"

definition in_auction :: "intent_record \<Rightarrow> bool" where
  "in_auction x \<longleftrightarrow> classify_auction_phase (ir_timestamp x) \<in> {Pre_auction_open, Pre_auction_close}"

definition resting_floor :: "constraint_set \<Rightarrow> rat \<Rightarrow> intent_record \<Rightarrow> rat" where
  "resting_floor c m parent = (case cs_auction_mode_min_resting_time_seconds c of None \<Rightarrow> m
     | Some a \<Rightarrow> if a \<noteq> 0 \<and> in_auction parent then a else m)"

definition rest_seconds :: "intent_record \<Rightarrow> intent_record \<Rightarrow> rat" where
  "rest_seconds x parent = of_int (mo_instant (ir_timestamp x) - mo_instant (ir_timestamp parent)) / 10 ^ 6"

definition cancelled_parent :: "intent_record list \<Rightarrow> intent_record \<Rightarrow> intent_record option" where
  "cancelled_parent xs x = (case ir_parent_intent_id x of None \<Rightarrow> None
     | Some p \<Rightarrow> if is_cancel x \<and> p \<noteq> [] then map_of (intent_by_id xs) p else None)"

definition resting_check :: "constraint_set \<Rightarrow> intent_record list \<Rightarrow> violation list" where
  "resting_check c xs = (case cs_min_order_resting_time_seconds c of None \<Rightarrow> []
     | Some m \<Rightarrow> map (\<lambda>x. blocks_as ''min_order_resting_time_seconds'' (ir_intent_id x) (ir_symbol x))
         (filter (\<lambda>x. case cancelled_parent xs x of None \<Rightarrow> False
            | Some parent \<Rightarrow> rest_seconds x parent < resting_floor c m parent) xs))"

definition auction_key :: "intent_record \<Rightarrow> string \<times> auction_phase" where
  "auction_key x = (ir_symbol x, classify_auction_phase (ir_timestamp x))"

definition auction_check :: "constraint_set \<Rightarrow> intent_record list \<Rightarrow> violation list" where
  "auction_check c xs = (case cs_auction_mode_max_orders_per_symbol c of None \<Rightarrow> []
     | Some m \<Rightarrow> map (\<lambda>((symbol, _), n). blocks_as ''auction_mode_max_orders_per_symbol'' ''<auction>'' symbol)
         (filter (\<lambda>(_, n). m < n) (tally auction_key (\<lambda>_. 1) (filter in_auction xs))))"

definition spoofing_check :: "constraint_set \<Rightarrow> intent_record list \<Rightarrow> violation list" where
  "spoofing_check c xs = (if \<not> cs_no_spoofing c then []
     else map (\<lambda>((symbol, _), n). blocks_as ''no_spoofing'' ''<heuristic>'' symbol)
       (filter (\<lambda>(_, n). cs_spoof_max_repeated_cancels c \<le> n)
         (tally (\<lambda>x. (ir_symbol x, minute_of x)) (\<lambda>_. 1) (filter is_cancel xs))))"

definition price_levels :: "intent_record list \<Rightarrow> nat" where
  "price_levels xs = length (remdups (map ir_price xs))"

definition layering_check :: "constraint_set \<Rightarrow> intent_record list \<Rightarrow> violation list" where
  "layering_check c xs = (if \<not> cs_no_layering c then []
     else map (\<lambda>((symbol, _), g). blocks_as ''no_layering'' ''<heuristic>'' symbol)
       (filter (\<lambda>(_, g). cs_layering_max_concurrent_levels c \<le> int (price_levels g))
         (gather (\<lambda>x. (ir_symbol x, ir_side x, second_of x)) (filter is_trade xs))))"

definition size_jump :: "constraint_set \<Rightarrow> intent_record \<times> intent_record \<Rightarrow> bool" where
  "size_jump c p = (case p of (prev, nxt) \<Rightarrow>
     0 < ir_quantity prev \<and> of_int (ir_quantity prev) * cs_pull_push_min_size_jump c \<le> of_int (ir_quantity nxt))"

definition pull_push_check :: "constraint_set \<Rightarrow> intent_record list \<Rightarrow> violation list" where
  "pull_push_check c xs = (if \<not> cs_no_pull_push c then []
     else concat (map (\<lambda>((symbol, _), records).
         map (\<lambda>(prev, nxt). blocks_as ''no_pull_push'' (ir_intent_id nxt) symbol)
           (filter (size_jump c) (zip records (tl records))))
       (gather (\<lambda>x. (ir_symbol x, ir_side x)) (filter is_trade xs))))"

section \<open>The evaluator\<close>

definition on_exchange_clock :: "intent_record \<Rightarrow> intent_record" where
  "on_exchange_clock x = x\<lparr>ir_timestamp := exchange_timestamp (ir_timestamp x)\<rparr>"

definition intent_key :: "intent_record \<Rightarrow> int \<times> string" where
  "intent_key x = (mo_instant (ir_timestamp x), ir_intent_id x)"

definition ordered :: "intent_record list \<Rightarrow> intent_record list" where
  "ordered intents = sort_key intent_key (map on_exchange_clock intents)"

definition violations :: "constraint_set \<Rightarrow> intent_record list \<Rightarrow> violation list" where
  "violations c xs = posture_check c @ day_check c xs @ second_check c xs @ cancel_check c xs @ value_check c xs
     @ participation_check c xs @ turnover_check c xs @ resting_check c xs @ auction_check c xs
     @ spoofing_check c xs @ layering_check c xs @ pull_push_check c xs"

definition unmeasured :: "constraint_set \<Rightarrow> intent_record list \<Rightarrow> unmeasured_constraint list" where
  "unmeasured c xs = participation_unmeasured c xs @ turnover_unmeasured c xs"

definition evaluate :: "constraint_set \<Rightarrow> intent_record list \<Rightarrow> constraint_report" where
  "evaluate c intents =
     (if intents = [] then \<lparr>rp_n_intents = 0, rp_n_violations = 0, rp_n_blocking = 0, rp_violations = [],
        rp_by_constraint = [], rp_unmeasured = []\<rparr>
      else let xs = ordered intents; vs = violations c xs
        in \<lparr>rp_n_intents = length intents, rp_n_violations = length vs,
            rp_n_blocking = length (filter (\<lambda>v. vi_severity v = ''block'') vs),
            rp_violations = vs, rp_by_constraint = tally vi_constraint (\<lambda>_. 1) vs, rp_unmeasured = unmeasured c xs\<rparr>)"

definition report_to_dict :: "constraint_report \<Rightarrow> (string, json) dict" where
  "report_to_dict r =
     [(''n_intents'', JInt (int (rp_n_intents r))),
      (''n_violations'', JInt (int (rp_n_violations r))),
      (''n_blocking'', JInt (int (rp_n_blocking r))),
      (''by_constraint'', JObj (map (\<lambda>(k, n). (k, JInt n)) (rp_by_constraint r))),
      (''passed'', JBool (passed r)),
      (''fully_measured'', JBool (fully_measured r)),
      (''unmeasured'', JList (map (\<lambda>u. JObj [(''constraint'', JStr (uc_constraint u)),
          (''missing_input'', JStr (uc_missing_input u))]) (rp_unmeasured r))),
      (''violations'', JList (map (\<lambda>v. JObj [(''intent_id'', JStr (vi_intent_id v)), (''symbol'', JStr (vi_symbol v)),
          (''constraint'', JStr (vi_constraint v)), (''severity'', JStr (vi_severity v))]) (rp_violations r)))]"

end
