(* ===== verification/Constraint_Props.thy ===== *)
theory Constraint_Props
  imports Constraints
begin

text \<open>
  What a certificate of the evaluator means: a declarative reading of the limits over the batch, without
  dictionaries, which the evaluator decides; that the order in which the intents arrive does not matter; and which
  fields of the constraint set nothing reads.
\<close>

section \<open>The declarative reading\<close>

definition limit :: "'a option \<Rightarrow> ('a \<Rightarrow> bool) \<Rightarrow> bool" where
  "limit bound P \<longleftrightarrow> (case bound of None \<Rightarrow> True | Some m \<Rightarrow> P m)"

definition alike :: "('a \<Rightarrow> 'k) \<Rightarrow> 'a \<Rightarrow> 'a list \<Rightarrow> 'a list" where
  "alike key x xs = filter (\<lambda>y. key y = key x) xs"

lemma limit_simps [simp]: "limit None P" "limit (Some m) P \<longleftrightarrow> P m"
  by (simp_all add: limit_def)

text \<open>The rates and sizes of a batch.\<close>

definition within_rates :: "constraint_set \<Rightarrow> intent_record list \<Rightarrow> bool" where
  "within_rates c xs \<longleftrightarrow>
     limit (cs_max_orders_per_day c) (\<lambda>m. int (length xs) \<le> m)
     \<and> limit (cs_max_orders_per_second c) (\<lambda>m. \<forall>x\<in>set xs. int (length (alike second_of x xs)) \<le> m)
     \<and> limit (cs_max_cancel_ratio c) (\<lambda>m. let k = n_cancels xs in
         k < length xs \<longrightarrow> of_nat k \<le> m * of_nat (length xs - k))
     \<and> limit (cs_max_single_order_value c) (\<lambda>m. \<forall>x\<in>set xs. value_of x \<le> m)"

text \<open>The shape of the order flow: auctions, repeated cancels, price levels.\<close>

definition within_conduct :: "constraint_set \<Rightarrow> intent_record list \<Rightarrow> bool" where
  "within_conduct c xs \<longleftrightarrow>
     limit (cs_auction_mode_max_orders_per_symbol c) (\<lambda>m. \<forall>x\<in>set xs.
         in_auction x \<longrightarrow> int (length (alike auction_key x xs)) \<le> m)
     \<and> (cs_no_spoofing c \<longrightarrow> (\<forall>x\<in>set xs. is_cancel x \<longrightarrow>
         int (length (alike (\<lambda>y. (ir_symbol y, minute_of y)) x (filter is_cancel xs))) < cs_spoof_max_repeated_cancels c))
     \<and> (cs_no_layering c \<longrightarrow> (\<forall>x\<in>set xs. is_trade x \<longrightarrow>
         int (card (ir_price ` set (alike (\<lambda>y. (ir_symbol y, ir_side y, second_of y)) x xs)))
           < cs_layering_max_concurrent_levels c))"

text \<open>The measured limits, over the batch in order: the last volume of a symbol and the first asset value count.\<close>

definition last_volume :: "string \<Rightarrow> intent_record list \<Rightarrow> rat option" where
  "last_volume symbol xs = (case filter (\<lambda>v. 0 < v) (List.map_filter ir_daily_volume_hint
       (filter (\<lambda>x. ir_symbol x = symbol) xs)) of [] \<Rightarrow> None | vs \<Rightarrow> Some (last vs))"

definition within_measures :: "constraint_set \<Rightarrow> intent_record list \<Rightarrow> bool" where
  "within_measures c xs \<longleftrightarrow>
     limit (cs_max_single_stock_participation_rate c) (\<lambda>m. \<forall>x\<in>set xs. case last_volume (ir_symbol x) xs of
         None \<Rightarrow> False
       | Some v \<Rightarrow> of_int (\<Sum>y\<leftarrow>alike ir_symbol x xs. max 0 (ir_quantity y)) \<le> m * v)
     \<and> limit (cs_max_daily_turnover c) (\<lambda>m. case first_nav xs of None \<Rightarrow> False | Some nav \<Rightarrow> gross_value xs \<le> m * nav)"

definition neighbours :: "'a list \<Rightarrow> ('a \<times> 'a) list" where
  "neighbours xs = zip xs (tl xs)"

definition within_timing :: "constraint_set \<Rightarrow> intent_record list \<Rightarrow> bool" where
  "within_timing c xs \<longleftrightarrow>
     limit (cs_min_order_resting_time_seconds c) (\<lambda>m. \<forall>x\<in>set xs. case cancelled_parent xs x of None \<Rightarrow> True
       | Some parent \<Rightarrow> resting_floor c m parent \<le> rest_seconds x parent)
     \<and> (cs_no_pull_push c \<longrightarrow> (\<forall>x\<in>set xs. is_trade x \<longrightarrow>
         (\<forall>(prev, nxt) \<in> set (neighbours (alike (\<lambda>y. (ir_symbol y, ir_side y)) x xs)).
            0 < ir_quantity prev \<longrightarrow> of_int (ir_quantity nxt) < of_int (ir_quantity prev) * cs_pull_push_min_size_jump c)))"

definition within_constraints :: "constraint_set \<Rightarrow> intent_record list \<Rightarrow> bool" where
  "within_constraints c intents \<longleftrightarrow>
     \<not> (cs_live_trading_enabled c \<and> cs_qmt_dry_run_required_by_default c)
     \<and> within_rates c (map on_exchange_clock intents) \<and> within_conduct c (map on_exchange_clock intents)
     \<and> within_measures c (ordered intents) \<and> within_timing c (ordered intents)"

section \<open>What each check decides\<close>

lemma filter_alike: "filter (\<lambda>y. key y = key x) (filter P xs) = filter P (alike key x xs)"
  by (simp add: alike_def conj_commute)

lemma alike_filter: "(\<And>y. key y = key x \<Longrightarrow> P y) \<Longrightarrow> filter P (alike key x xs) = alike key x xs"
  unfolding alike_def by (rule filter_True) simp

lemma sum_ones [simp]: "(\<Sum>x\<leftarrow>ys. 1) = int (length ys)"
  by (induction ys) simp_all

lemma tally_none:
  "filter P (tally key w xs) = [] \<longleftrightarrow> (\<forall>x\<in>set xs. \<not> P (key x, \<Sum>y\<leftarrow>alike key x xs. w y))"
  by (auto simp: filter_empty_conv in_tally alike_def)

lemma gather_none: "filter P (gather key xs) = [] \<longleftrightarrow> (\<forall>x\<in>set xs. \<not> P (key x, alike key x xs))"
  by (auto simp: filter_empty_conv in_gather alike_def)

lemma alike_in: "(\<And>y. key y = key x \<Longrightarrow> P y) \<Longrightarrow> alike key x (filter P xs) = alike key x xs"
  by (metis alike_def alike_filter filter_alike)

lemma day_decided: "day_check c xs = [] \<longleftrightarrow> limit (cs_max_orders_per_day c) (\<lambda>m. int (length xs) \<le> m)"
  by (simp add: day_check_def limit_def not_less split: option.split)

lemma second_decided:
  "second_check c xs = []
     \<longleftrightarrow> limit (cs_max_orders_per_second c) (\<lambda>m. \<forall>x\<in>set xs. int (length (alike second_of x xs)) \<le> m)"
  by (simp add: second_check_def limit_def tally_none not_less del: filter_empty_conv split: option.split)

lemma cancel_decided:
  "cancel_check c xs = [] \<longleftrightarrow> limit (cs_max_cancel_ratio c) (\<lambda>m. let k = n_cancels xs in
         k < length xs \<longrightarrow> of_nat k \<le> m * of_nat (length xs - k))"
proof (cases "cs_max_cancel_ratio c")
  case (Some m)
  show ?thesis
  proof (cases "n_cancels xs < length xs")
    case True
    then have "(0::rat) < of_nat (length xs - n_cancels xs)" "max 1 (length xs - n_cancels xs) = length xs - n_cancels xs" by simp_all
    with True Some show ?thesis by (simp add: cancel_check_def Let_def not_less pos_less_divide_eq del: of_nat_diff)
  qed (simp add: cancel_check_def Let_def Some)
qed (simp add: cancel_check_def)

lemma value_decided: "value_check c xs = [] \<longleftrightarrow> limit (cs_max_single_order_value c) (\<lambda>m. \<forall>x\<in>set xs. value_of x \<le> m)"
  by (simp add: value_check_def limit_def not_less filter_empty_conv split: option.split)

lemma auction_decided:
  "auction_check c xs = [] \<longleftrightarrow> limit (cs_auction_mode_max_orders_per_symbol c) (\<lambda>m. \<forall>x\<in>set xs.
         in_auction x \<longrightarrow> int (length (alike auction_key x xs)) \<le> m)"
proof -
  have "alike auction_key x (filter in_auction xs) = alike auction_key x xs" if "in_auction x" for x
    by (rule alike_in) (use that in \<open>auto simp: auction_key_def in_auction_def\<close>)
  then show ?thesis
    by (auto simp: auction_check_def limit_def tally_none not_less simp del: filter_empty_conv split: option.split)
qed

lemma spoofing_decided:
  "spoofing_check c xs = [] \<longleftrightarrow> (cs_no_spoofing c \<longrightarrow> (\<forall>x\<in>set xs. is_cancel x \<longrightarrow>
         int (length (alike (\<lambda>y. (ir_symbol y, minute_of y)) x (filter is_cancel xs))) < cs_spoof_max_repeated_cancels c))"
  by (auto simp: spoofing_check_def tally_none not_le simp del: filter_empty_conv)

lemma layering_decided:
  "layering_check c xs = [] \<longleftrightarrow> (cs_no_layering c \<longrightarrow> (\<forall>x\<in>set xs. is_trade x \<longrightarrow>
         int (card (ir_price ` set (alike (\<lambda>y. (ir_symbol y, ir_side y, second_of y)) x xs)))
           < cs_layering_max_concurrent_levels c))"
proof -
  have "alike (\<lambda>y. (ir_symbol y, ir_side y, second_of y)) x (filter is_trade xs)
      = alike (\<lambda>y. (ir_symbol y, ir_side y, second_of y)) x xs" if "is_trade x" for x
    by (rule alike_in) (use that in \<open>auto simp: is_trade_def\<close>)
  moreover have "price_levels g = card (ir_price ` set g)" for g
    unfolding price_levels_def length_remdups_card_conv by simp
  ultimately show ?thesis by (auto simp: layering_check_def gather_none not_le simp del: filter_empty_conv)
qed

lemma last_volume_hint: "map_of (volume_hints xs) s = last_volume s xs"
proof (induction xs rule: rev_induct)
  case (snoc x xs)
  have "volume_hints (xs @ [x]) = (case ir_daily_volume_hint x of None \<Rightarrow> volume_hints xs
      | Some v \<Rightarrow> if 0 < v then AList.update (ir_symbol x) v (volume_hints xs) else volume_hints xs)"
    unfolding volume_hints_def by simp
  with snoc show ?case
    by (auto simp: last_volume_def map_filter_def split: option.splits list.splits)
qed (simp add: volume_hints_def last_volume_def map_filter_def)

lemma last_volume_positive: "last_volume s xs = Some v \<Longrightarrow> 0 < v"
proof -
  assume a: "last_volume s xs = Some v"
  let ?vs = "filter (\<lambda>v. 0 < v) (List.map_filter ir_daily_volume_hint (filter (\<lambda>x. ir_symbol x = s) xs))"
  from a have "?vs \<noteq> [] \<and> v = last ?vs" by (auto simp: last_volume_def split: list.splits)
  then have "v \<in> set ?vs" using last_in_set by blast
  then show "0 < v" by simp
qed

lemma participation_decided:
  "participation_check c xs = [] \<and> participation_unmeasured c xs = [] \<longleftrightarrow>
     limit (cs_max_single_stock_participation_rate c) (\<lambda>m. \<forall>x\<in>set xs. case last_volume (ir_symbol x) xs of
         None \<Rightarrow> False
       | Some v \<Rightarrow> of_int (\<Sum>y\<leftarrow>alike ir_symbol x xs. max 0 (ir_quantity y)) \<le> m * v)"
proof (cases "cs_max_single_stock_participation_rate c")
  case (Some m)
  let ?w = "\<lambda>x. \<Sum>y\<leftarrow>alike ir_symbol x xs. max 0 (ir_quantity y)"
  have "participation_unmeasured c xs = [] \<longleftrightarrow> (\<forall>x\<in>set xs. last_volume (ir_symbol x) xs \<noteq> None)"
    by (simp add: participation_unmeasured_def Some volumes_def tally_none last_volume_hint del: filter_empty_conv)
  moreover have "participation_check c xs = [] \<longleftrightarrow>
      (\<forall>x\<in>set xs. case last_volume (ir_symbol x) xs of None \<Rightarrow> True | Some v \<Rightarrow> of_int (?w x) / v \<le> m)"
    by (simp add: participation_check_def Some volumes_def tally_none last_volume_hint not_less del: filter_empty_conv split: option.split)
  moreover have "of_int n / v \<le> m \<longleftrightarrow> of_int n \<le> m * v" if "last_volume s xs = Some v" for s v n
    using last_volume_positive [OF that] by (rule pos_divide_le_eq)
  ultimately show ?thesis by (simp add: Some split: option.splits) blast
qed (simp add: participation_check_def participation_unmeasured_def)

lemma first_nav_positive: "first_nav xs = Some nav \<Longrightarrow> 0 < nav"
  by (auto simp: first_nav_def find_Some_iff)

lemma turnover_decided:
  "turnover_check c xs = [] \<and> turnover_unmeasured c xs = [] \<longleftrightarrow>
     limit (cs_max_daily_turnover c) (\<lambda>m. case first_nav xs of None \<Rightarrow> False | Some nav \<Rightarrow> gross_value xs \<le> m * nav)"
  using first_nav_positive [of xs]
  by (auto simp: turnover_check_def turnover_unmeasured_def limit_def not_less pos_less_divide_eq split: option.split)

lemma resting_decided:
  "resting_check c xs = [] \<longleftrightarrow> limit (cs_min_order_resting_time_seconds c) (\<lambda>m. \<forall>x\<in>set xs.
       case cancelled_parent xs x of None \<Rightarrow> True | Some parent \<Rightarrow> resting_floor c m parent \<le> rest_seconds x parent)"
  by (auto simp: resting_check_def limit_def filter_empty_conv not_less split: option.splits)

lemma pull_push_decided:
  "pull_push_check c xs = [] \<longleftrightarrow> (cs_no_pull_push c \<longrightarrow> (\<forall>x\<in>set xs. is_trade x \<longrightarrow>
         (\<forall>(prev, nxt) \<in> set (neighbours (alike (\<lambda>y. (ir_symbol y, ir_side y)) x xs)).
            0 < ir_quantity prev \<longrightarrow> of_int (ir_quantity nxt) < of_int (ir_quantity prev) * cs_pull_push_min_size_jump c)))"
proof -
  let ?k = "\<lambda>y. (ir_symbol y, ir_side y)"
  have a: "alike ?k x (filter is_trade xs) = alike ?k x xs" if "is_trade x" for x
    by (rule alike_in) (use that in \<open>auto simp: is_trade_def\<close>)
  have "pull_push_check c xs = [] \<longleftrightarrow>
      (cs_no_pull_push c \<longrightarrow> filter (\<lambda>(_, g). filter (size_jump c) (neighbours g) \<noteq> []) (gather ?k (filter is_trade xs)) = [])"
    by (auto simp: pull_push_check_def neighbours_def filter_empty_conv)
  also have "\<dots> \<longleftrightarrow> (cs_no_pull_push c \<longrightarrow> (\<forall>x\<in>set xs. is_trade x \<longrightarrow> filter (size_jump c) (neighbours (alike ?k x xs)) = []))"
    unfolding gather_none using a by auto
  finally show ?thesis by (simp add: filter_empty_conv size_jump_def not_le case_prod_beta)
qed

section \<open>The batch in any order\<close>

lemma alike_mset: "mset xs = mset ys \<Longrightarrow> mset (alike key x xs) = mset (alike key x ys)"
  by (simp add: alike_def)

lemma ordered_mset [simp]: "mset (ordered xs) = mset (map on_exchange_clock xs)"
  by (simp add: ordered_def)

lemma mset_length: "mset xs = mset ys \<Longrightarrow> length xs = length ys"
  by (metis size_mset)

lemma rates_mset: "mset xs = mset ys \<Longrightarrow> within_rates c xs = within_rates c ys"
  using mset_eq_setD [of xs ys] mset_length [of xs ys] mset_length [OF alike_mset, of xs ys second_of]
    mset_length [of "filter is_cancel xs" "filter is_cancel ys"]
  by (simp add: within_rates_def n_cancels_def)

lemma conduct_mset: "mset xs = mset ys \<Longrightarrow> within_conduct c xs = within_conduct c ys"
  using mset_eq_setD [of xs ys] mset_length [OF alike_mset, of xs ys auction_key]
    mset_length [OF alike_mset, of "filter is_cancel xs" "filter is_cancel ys" "\<lambda>y. (ir_symbol y, minute_of y)"]
    mset_eq_setD [OF alike_mset, of xs ys "\<lambda>y. (ir_symbol y, ir_side y, second_of y)"]
  by (simp add: within_conduct_def)

lemma violations_block: "v \<in> set (violations c xs) \<Longrightarrow> vi_severity v = ''block''"
  by (auto simp: violations_def posture_check_def day_check_def second_check_def cancel_check_def value_check_def
      participation_check_def turnover_check_def resting_check_def auction_check_def spoofing_check_def layering_check_def
      pull_push_check_def blocks_as_def Let_def split: option.splits if_splits)

lemma certificate_iff:
  assumes "intents \<noteq> []"
  shows "passed (evaluate c intents) \<and> fully_measured (evaluate c intents) \<longleftrightarrow> within_constraints c intents"
proof -
  let ?xs = "ordered intents" and ?B = "map on_exchange_clock intents"
  have "passed (evaluate c intents) \<longleftrightarrow> violations c ?xs = []"
    using assms violations_block by (auto simp: passed_def evaluate_def Let_def filter_empty_conv)
  moreover have "fully_measured (evaluate c intents) \<longleftrightarrow> unmeasured c ?xs = []"
    using assms by (simp add: fully_measured_def evaluate_def Let_def)
  moreover have "posture_check c = [] \<longleftrightarrow> \<not> (cs_live_trading_enabled c \<and> cs_qmt_dry_run_required_by_default c)"
    by (simp add: posture_check_def)
  moreover have "within_rates c ?xs = within_rates c ?B" "within_conduct c ?xs = within_conduct c ?B"
    by (intro rates_mset conduct_mset ordered_mset)+
  moreover have "within_rates c ?xs \<longleftrightarrow> day_check c ?xs = [] \<and> second_check c ?xs = [] \<and> cancel_check c ?xs = [] \<and> value_check c ?xs = []"
    unfolding within_rates_def day_decided second_decided cancel_decided value_decided ..
  moreover have "within_conduct c ?xs \<longleftrightarrow> auction_check c ?xs = [] \<and> spoofing_check c ?xs = [] \<and> layering_check c ?xs = []"
    unfolding within_conduct_def auction_decided spoofing_decided layering_decided ..
  moreover have "within_measures c ?xs \<longleftrightarrow> (participation_check c ?xs = [] \<and> participation_unmeasured c ?xs = [])
      \<and> (turnover_check c ?xs = [] \<and> turnover_unmeasured c ?xs = [])"
    unfolding within_measures_def participation_decided turnover_decided ..
  moreover have "within_timing c ?xs \<longleftrightarrow> resting_check c ?xs = [] \<and> pull_push_check c ?xs = []"
    unfolding within_timing_def resting_decided pull_push_decided ..
  ultimately show ?thesis
    by (auto simp: within_constraints_def violations_def unmeasured_def)
qed


definition demo_intent :: intent_record where
  "demo_intent = \<lparr>ir_intent_id = ''i1'', ir_symbol = ''600000.SH'', ir_side = ''buy'', ir_quantity = 100, ir_price = 10,
     ir_timestamp = \<lparr>mo_instant = microseconds (hhmm 10 0), mo_offset = None\<rparr>, ir_order_value = 1000,
     ir_parent_intent_id = None, ir_portfolio_nav = Some 100000, ir_daily_volume_hint = Some 1000000\<rparr>"

definition demo_second :: intent_record where
  "demo_second = demo_intent\<lparr>ir_intent_id := ''i2'', ir_timestamp := \<lparr>mo_instant = microseconds (hhmm 10 1), mo_offset = None\<rparr>\<rparr>"


text \<open>The order of arrival does not matter.\<close>

lemma verdict_ignores_arrival_order:
  assumes "mset xs = mset ys" "distinct (map (intent_key \<circ> on_exchange_clock) xs)"
  shows "evaluate c xs = evaluate c ys"
proof -
  let ?f = "\<lambda>zs. map on_exchange_clock zs"
  have m: "mset (?f xs) = mset (?f ys)" using assms(1) by simp
  have "distinct (map intent_key (?f xs))" using assms(2) by simp
  moreover have "distinct (map intent_key zs) \<longleftrightarrow> distinct (map intent_key zs')" if "mset zs = mset zs'" for zs zs'
    using that by (metis mset_eq_imp_distinct_iff mset_map)
  ultimately have d: "distinct (map intent_key (ordered xs))" "distinct (map intent_key (ordered ys))"
    using m by (metis ordered_mset)+
  have "inj_on intent_key (set (ordered xs) \<union> set (ordered ys))"
    using d(1) m by (metis distinct_map mset_eq_setD ordered_mset sup_idem)
  moreover have "set (ordered xs) = set (ordered ys)" using m by (metis mset_eq_setD ordered_mset)
  moreover have "sorted (map intent_key (ordered zs))" for zs by (simp add: ordered_def)
  ultimately have "ordered xs = ordered ys" using d by (intro map_sorted_distinct_set_unique [of intent_key])
  moreover have "xs = [] \<longleftrightarrow> ys = []" "length xs = length ys" using assms(1) by (auto dest: mset_length)
  ultimately show ?thesis by (simp add: evaluate_def)
qed

lemma unread_constraints:
  "evaluate (c\<lparr>cs_auction_mode_max_cancel_ratio := r, cs_auction_mode_block_layering := b\<rparr>) intents = evaluate c intents"
proof -
  let ?c = "c\<lparr>cs_auction_mode_max_cancel_ratio := r, cs_auction_mode_block_layering := b\<rparr>"
  have [simp]: "size_jump ?c = size_jump c" "resting_floor ?c = resting_floor c"
    by (auto simp: size_jump_def resting_floor_def fun_eq_iff)
  have "violations ?c xs = violations c xs" for xs
    by (simp add: violations_def posture_check_def day_check_def second_check_def cancel_check_def value_check_def
      participation_check_def turnover_check_def resting_check_def auction_check_def spoofing_check_def layering_check_def
      pull_push_check_def cong: option.case_cong)
  moreover have "unmeasured ?c xs = unmeasured c xs" for xs
    by (simp add: unmeasured_def participation_unmeasured_def turnover_unmeasured_def)
  ultimately show ?thesis by (simp add: evaluate_def)
qed

end
