(* ===== verification/Step_Rules.thy ===== *)
theory Step_Rules
  imports Prelude
begin

text \<open>
  Rules for steps that may raise after they changed the state: \<open>ends r R E\<close> says that the step \<open>r\<close> either
  returns a value and a state in \<open>R\<close> or raises and leaves a state in \<open>E\<close>.
\<close>

definition ends :: "'a res \<times> 's \<Rightarrow> ('a \<Rightarrow> 's \<Rightarrow> bool) \<Rightarrow> ('s \<Rightarrow> bool) \<Rightarrow> bool" where
  "ends r R E \<longleftrightarrow> (case r of (Inl e, s) \<Rightarrow> E s | (Inr x, s) \<Rightarrow> R x s)"

lemma ends_simps [simp]: "ends (Inl e, s) R E \<longleftrightarrow> E s" "ends (Inr x, s) R E \<longleftrightarrow> R x s"
  by (simp_all add: ends_def)

lemma ends_and_then:
  assumes "ends r Q E" "\<And>x s. Q x s \<Longrightarrow> ends (f x s) R E"
  shows "ends (and_then r f) R E"
  using assms by (cases r; cases "fst r") (auto simp: and_then_def)

lemma ends_pure_then:
  assumes "E s" "\<And>x. r = Inr x \<Longrightarrow> ends (f x) R E"
  shows "ends (pure_then r f s) R E"
  using assms by (cases r) (auto simp: pure_then_def)

lemma ends_mono:
  assumes "ends r R E" "\<And>x s. R x s \<Longrightarrow> R' x s" "\<And>s. E s \<Longrightarrow> E' s"
  shows "ends r R' E'"
  using assms by (cases r; cases "fst r") auto

lemma ends_if: "(b \<Longrightarrow> ends r R E) \<Longrightarrow> (\<not> b \<Longrightarrow> ends r' R E) \<Longrightarrow> ends (if b then r else r') R E"
  by simp

lemma ends_Inr: "ends r R E \<Longrightarrow> r = (Inr x, s) \<Longrightarrow> R x s"
  by simp

lemma ends_Inl: "ends r R E \<Longrightarrow> r = (Inl e, s) \<Longrightarrow> E s"
  by simp

lemma ends_conj: "ends r R E \<Longrightarrow> ends r R' E' \<Longrightarrow> ends r (\<lambda>x s. R x s \<and> R' x s) (\<lambda>s. E s \<and> E' s)"
  by (cases r; cases "fst r") auto

text \<open>What the state keeps whichever way the step ends.\<close>

lemma ends_snd: "ends r (\<lambda>_. P) P \<longleftrightarrow> P (snd r)"
  by (cases r; cases "fst r") auto

end
