(* ===== verification/Broker_Base.thy ===== *)
theory Broker_Base
  imports Market_Rules Ledger
begin

text \<open>
  The wire vocabulary of \<open>src/src/quantagent/execution/broker_base.py\<close>, the broker as the record of its
  operations over its own state, and the board-aware quantities of \<open>src/src/quantagent/quant_math/ashare.py\<close>.
\<close>

section \<open>The wire\<close>

text \<open>\<open>OrderSide\<close> has the members of \<open>Side\<close>, with other values.\<close>

fun wire_side :: "side \<Rightarrow> string" where
  "wire_side BUY = ''buy''"
| "wire_side SELL = ''sell''"

datatype wire_type = Limit_order | Market_order

fun wire_type_value :: "wire_type \<Rightarrow> string" where
  "wire_type_value Limit_order = ''limit''"
| "wire_type_value Market_order = ''market''"

datatype wire_status = WS_PENDING | WS_SUBMITTED | WS_PARTIAL | WS_FILLED | WS_CANCELLED | WS_REJECTED

record wire_order =
  wo_client_order_id :: string
  wo_symbol :: string
  wo_side :: side
  wo_quantity :: int
  wo_type :: wire_type
  wo_price :: "rat option"
  wo_note :: string
  wo_signal_id :: string
  wo_model_version :: string
  wo_feature_version :: string
  wo_strategy_version :: string
  wo_risk_check_result :: string
  wo_timestamp :: string

record wire_intent =
  wi_intent_id :: string
  wi_symbol :: string
  wi_side :: side
  wi_quantity :: int
  wi_target_weight :: rat
  wi_reference_price :: rat
  wi_signal_id :: string
  wi_model_version :: string
  wi_feature_version :: string
  wi_strategy_version :: string
  wi_risk_check_result :: string
  wi_timestamp :: string

record wire_state =
  ws_client_order_id :: string
  ws_broker_order_id :: "string option"
  ws_status :: wire_status
  ws_filled_quantity :: int
  ws_avg_price :: rat
  ws_last_message :: string

record wire_position =
  wp_symbol :: string
  wp_available :: int
  wp_frozen :: int
  wp_avg_cost :: rat

record trade_fill =
  tf_client_order_id :: string
  tf_symbol :: string
  tf_side :: side
  tf_quantity :: int
  tf_price :: rat
  tf_fill_time :: string
  tf_commission :: rat
  tf_stamp_duty :: rat
  tf_transfer_fee :: rat
  tf_impact_cost :: rat

text \<open>What \<open>submit\<close> does: it answers, it raises \<open>VenueRefusal\<close> with its reason, or it raises anything else.\<close>

datatype broker_reply = Answered wire_state | Refused string | Crashed exn

text \<open>
  A broker over its state \<open>'b\<close>.  A canonical venue (one with \<open>attach_canonical\<close>) is told the canonical identifier
  of the order and writes to the order book and the ledger it shares with its client.  \<open>bo_volume\<close> is there when
  the broker has \<open>query_daily_volume\<close>; \<open>bo_production\<close> is what its \<open>config\<close> says about live trading.
\<close>

record 'b broker_ops =
  bo_name :: string
  bo_canonical :: bool
  bo_production :: bool
  bo_submit :: "string option \<Rightarrow> wire_order \<Rightarrow> 'b \<times> order_book \<times> ledger \<Rightarrow> broker_reply \<times> 'b \<times> order_book \<times> ledger"
  bo_cancel :: "string \<Rightarrow> 'b \<times> order_book \<times> ledger \<Rightarrow> wire_state res \<times> 'b \<times> order_book \<times> ledger"
  bo_positions :: "'b \<Rightarrow> wire_position list res"
  bo_account_value :: "'b \<Rightarrow> rat res"
  bo_volume :: "(string \<Rightarrow> 'b \<Rightarrow> rat res) option"

section \<open>Board-aware quantities\<close>

definition infer_board :: "string \<Rightarrow> string" where
  "infer_board symbol =
     (let text = upper symbol; code = takeWhile (\<lambda>c. c \<noteq> CHR ''.'') text in
      if starts_with [''IF'', ''IH'', ''IC'', ''IM''] text then ''futures_hedge''
      else if starts_with [''510'', ''511'', ''512'', ''513'', ''515'', ''516'', ''517'', ''518'', ''588'', ''159''] code then ''etf''
      else if starts_with [''110'', ''113'', ''118'', ''123'', ''127'', ''128''] code then ''convertible_bond''
      else if ends_with ''.BJ'' text \<or> starts_with [''8'', ''4'', ''920''] code then ''bse''
      else if starts_with [''688'', ''689''] code then ''star''
      else if starts_with [''300'', ''301'', ''302''] code then ''chinext''
      else ''main_board'')"

text \<open>The lot size, the least buy quantity and the odd-lot policy of each board, in the default configuration.\<close>

definition STAR_MINIMUM_BUY_QUANTITY :: int where
  "STAR_MINIMUM_BUY_QUANTITY = 200"

definition board_rules :: "(string, int \<times> int \<times> string) dict" where
  "board_rules =
     [(''main_board'', (100, 100, ''allow_odd_lot_full_sell'')),
      (''chinext'', (100, 100, ''allow_odd_lot_full_sell'')),
      (''star'', (100, STAR_MINIMUM_BUY_QUANTITY, ''allow_odd_lot_full_sell'')),
      (''bse'', (100, 100, ''allow_odd_lot_full_sell'')),
      (''etf'', (100, 100, ''allow_odd_lot_full_sell'')),
      (''convertible_bond'', (10, 10, ''allow_odd_lot_full_sell'')),
      (''futures_hedge'', (1, 1, ''allow_odd_lot_full_sell''))]"

definition round_order_quantity :: "string \<Rightarrow> string \<Rightarrow> rat \<Rightarrow> int" where
  "round_order_quantity symbol sd quantity =
     (let (lot_size, minimum_buy, policy) = dict_get board_rules (infer_board symbol) (100, 100, '''');
          qty = max 0 \<lfloor>quantity\<rfloor>
      in if qty \<le> 0 then 0
         else if sd = ''buy'' then
           (if qty < max minimum_buy lot_size then 0 else (qty div lot_size) * lot_size)
         else if policy = ''allow_odd_lot_full_sell'' \<and> qty < lot_size then qty
         else (qty div lot_size) * lot_size)"

definition cash_equity_board :: "string \<Rightarrow> string option" where
  "cash_equity_board symbol =
     (if infer_board symbol \<in> {''main_board'', ''chinext'', ''star'', ''bse''}
      then Some (exchange_board_for_symbol symbol) else None)"

definition round_delta_quantity :: "string \<Rightarrow> string \<Rightarrow> rat \<Rightarrow> bool \<Rightarrow> string \<Rightarrow> int" where
  "round_delta_quantity symbol sd quantity is_full_liquidation order_type = (case cash_equity_board symbol of
       None \<Rightarrow> round_order_quantity symbol sd quantity
     | Some board \<Rightarrow>
         (let rounded = round_to_lot quantity board sd is_full_liquidation
          in case max_order_quantity board order_type of None \<Rightarrow> rounded | Some maximum \<Rightarrow> min rounded maximum))"

end
