(* ===== verification/Order_Manager.thy ===== *)
theory Order_Manager
  imports Broker_Base Constraints Idempotency
begin

text \<open>
  The order manager of \<open>src/src/quantagent/execution/order_manager.py\<close>: from target weights to order intents, and
  each order through its claim, its canonical order, the pre-trade decision, the broker and the record of what
  came back.  The configuration is the record \<open>oms\<close>, the state the record \<open>manager\<close>; what is not
  deterministic in one submission (clocks, outcomes of durable writes) is the record \<open>oms_env\<close>.
\<close>

section \<open>Configuration, environment and state\<close>

text \<open>
  \<open>om_sha\<close> is the hexadecimal SHA-1, \<open>om_str\<close> renders a number as \<open>str\<close> does, and \<open>om_parse\<close> is
  \<open>pandas.Timestamp\<close>, with \<open>None\<close> where it raises or gives no time.
\<close>

record 'b oms =
  om_broker :: "'b broker_ops"
  om_chain :: chain_digest
  om_digest :: digest
  om_sha :: "string \<Rightarrow> string"
  om_str :: "json \<Rightarrow> string"
  om_parse :: "string \<Rightarrow> moment option"
  om_lineage :: lineage
  om_forensic :: bool
  om_constraints :: constraint_set
  om_daily_volume_hints :: "(string, rat) dict"
  om_min_order_value_yuan :: rat
  om_odd_lot_liquidation :: bool
  om_max_orders_per_symbol_per_day :: int
  om_negligible_weight :: rat
  om_strategy_version :: string

text \<open>The \<open>n\<close>-th event of the book and the \<open>n\<close>-th record of the ledger, if written now, get these times and this outcome.\<close>

record oms_env =
  oe_now :: string
  oe_event_time :: "nat \<Rightarrow> string"
  oe_record_time :: "nat \<Rightarrow> string"
  oe_write :: "nat \<Rightarrow> bool"
  oe_claimed_at :: string
  oe_claim :: write_outcome
  oe_resolve :: write_outcome

record order_record =
  or_order :: wire_order
  or_state :: wire_state
  or_submitted_at :: string
  or_last_updated_at :: string

record 'b manager =
  mg_broker :: 'b
  mg_book :: order_book
  mg_ledger :: ledger
  mg_claims :: idem_store
  mg_file :: idem_file
  mg_wire :: "(string, order_record) dict"
  mg_client_order_ids :: "(string, string) dict"
  mg_counts_today :: "(string, int) dict"
  mg_count_session :: "string option"
  mg_risk_intents :: "intent_record list"
  mg_risk_session :: "string option"
  mg_risk_errors :: "string list"

type_synonym ('a, 'b) oms_step = "'a res \<times> 'b manager"

text \<open>A forensic replay must not reach a broker that can trade.\<close>

definition contains :: "string \<Rightarrow> string \<Rightarrow> bool" where
  "contains needle s \<longleftrightarrow> list_ex (\<lambda>n. take (length needle) (drop n s) = needle) [0..<Suc (length s)]"

definition forensic_leak :: "string \<Rightarrow> bool" where
  "forensic_leak name \<longleftrightarrow>
     list_ex (\<lambda>token. contains token (lower name)) [''paper'', ''shadow'', ''live'', ''qmt'', ''broker_gateway'']"

text \<open>
  The constructor over a ledger that was loaded, a claims file and the state of the broker.  \<open>clock\<close> is read by the
  replay of the book.
\<close>

definition OrderManager_make ::
    "'b oms \<Rightarrow> (nat \<Rightarrow> string) \<Rightarrow> bool \<Rightarrow> ledger \<Rightarrow> idem_file \<Rightarrow> 'b \<Rightarrow> 'b manager res" where
  "OrderManager_make cfg clock durable led file b =
     (if om_forensic cfg \<and> forensic_leak (bo_name (om_broker cfg)) then Inl ForensicHarnessLeak
      else res_bind (if led_records led = [] then Inr empty_book
                     else replay_book (om_chain cfg) (om_digest cfg) clock led) (\<lambda>book.
        let (r, claims) = load_store file (fresh_store durable) in
        res_bind r (\<lambda>_. Inr
          \<lparr>mg_broker = b, mg_book = book, mg_ledger = led, mg_claims = claims, mg_file = file, mg_wire = [],
           mg_client_order_ids = [], mg_counts_today = [], mg_count_session = None, mg_risk_intents = [],
           mg_risk_session = None, mg_risk_errors = []\<rparr>)))"

section \<open>Identity of a request\<close>

definition exchange_session_of :: "moment \<Rightarrow> string" where
  "exchange_session_of stamp =
     date_isoformat (local_date (if mo_offset stamp = None then stamp else exchange_timestamp stamp))"

definition parse_stamp :: "'b oms \<Rightarrow> string \<Rightarrow> moment res" where
  "parse_stamp cfg text = (case om_parse cfg text of None \<Rightarrow> Inl ValueError | Some m \<Rightarrow> Inr m)"

definition exchange_session :: "'b oms \<Rightarrow> string \<Rightarrow> string res" where
  "exchange_session cfg text = res_bind (parse_stamp cfg text) (\<lambda>stamp. Inr (exchange_session_of stamp))"

definition or_text :: "string \<Rightarrow> string \<Rightarrow> string" where
  "or_text s d = (if s = [] then d else s)"

definition joined :: "string \<Rightarrow> string list \<Rightarrow> string" where
  "joined sep parts = concat (case parts of [] \<Rightarrow> [] | p # ps \<Rightarrow> p # map (\<lambda>q. sep @ q) ps)"

definition request_fingerprint :: "'b oms \<Rightarrow> wire_order \<Rightarrow> string" where
  "request_fingerprint cfg od = take 16 (om_sha cfg (joined ''|''
     [wo_symbol od, wire_side (wo_side od), om_str cfg (JInt (wo_quantity od)), wire_type_value (wo_type od),
      (case wo_price od of None \<Rightarrow> ''None'' | Some p \<Rightarrow> om_str cfg (JNum p)), wo_strategy_version od]))"

definition run_id_of :: "'b oms \<Rightarrow> string" where
  "run_id_of cfg = (case om_lineage cfg Run_id of None \<Rightarrow> [] | Some r \<Rightarrow> r)"

definition request_key :: "'b oms \<Rightarrow> wire_order \<Rightarrow> string res" where
  "request_key cfg od = res_bind (exchange_session cfg (wo_timestamp od)) (\<lambda>session.
     order_intent_key (om_digest cfg) (or_text (run_id_of cfg) ''forensic'') (or_text (wo_signal_id od) ''manual'')
       (wo_symbol od) (wire_side (wo_side od)) (wo_quantity od) session [])"

section \<open>What the session has consumed\<close>

definition submitted_orders :: "order_book \<Rightarrow> string \<Rightarrow> order list" where
  "submitted_orders book session = filter (\<lambda>od. ord_trade_date od = session
     \<and> list_ex (\<lambda>e. ev_event_type e = Ev_SUBMITTED) (history_of book (ord_order_id od))) (book_orders book)"

definition count_order :: "order \<Rightarrow> (string, int) dict \<Rightarrow> (string, int) dict" where
  "count_order od counts = AList.update (ord_symbol od) (dict_get counts (ord_symbol od) 0 + 1) counts"

text \<open>\<open>asdict(risk_intent)\<close> with its time as text, and \<open>OrderIntentRecord(**payload)\<close>.\<close>

definition risk_intent_to_json :: "intent_record \<Rightarrow> json" where
  "risk_intent_to_json i = JObj
     [(''intent_id'', JStr (ir_intent_id i)), (''symbol'', JStr (ir_symbol i)), (''side'', JStr (ir_side i)),
      (''quantity'', JInt (ir_quantity i)), (''price'', JNum (ir_price i)),
      (''timestamp'', JStr (moment_isoformat (ir_timestamp i))), (''order_value'', JNum (ir_order_value i)),
      (''parent_intent_id'', of_opt JStr (ir_parent_intent_id i)), (''portfolio_nav'', of_opt JNum (ir_portfolio_nav i)),
      (''daily_volume_hint'', of_opt JNum (ir_daily_volume_hint i))]"

definition INTENT_FIELDS :: "string list" where
  "INTENT_FIELDS = [''intent_id'', ''symbol'', ''side'', ''quantity'', ''price'', ''timestamp'', ''order_value'',
     ''parent_intent_id'', ''portfolio_nav'', ''daily_volume_hint'']"

definition risk_intent_from_json :: "'b oms \<Rightarrow> json \<Rightarrow> intent_record res" where
  "risk_intent_from_json cfg v =
     res_bind (res_bind (jindex v ''timestamp'') json_str) (\<lambda>text.
     res_bind (parse_stamp cfg text) (\<lambda>stamp.
     res_bind (case v of JObj d \<Rightarrow> if set (map fst d) \<subseteq> set INTENT_FIELDS then Inr d else Inl TypeError | _ \<Rightarrow> Inl TypeError) (\<lambda>d.
     res_bind (res_bind (jindex v ''intent_id'') json_str) (\<lambda>intent_id.
     res_bind (res_bind (jindex v ''symbol'') json_str) (\<lambda>symbol.
     res_bind (res_bind (jindex v ''side'') json_str) (\<lambda>sd.
     res_bind (res_bind (jindex v ''quantity'') json_int) (\<lambda>quantity.
     res_bind (res_bind (jindex v ''price'') json_float) (\<lambda>price.
     res_bind (get_float_default v ''order_value'' 0) (\<lambda>order_value.
     res_bind (res_bind (jget v ''parent_intent_id'') json_opt_str) (\<lambda>parent.
     res_bind (res_bind (jget v ''portfolio_nav'') json_opt_float) (\<lambda>nav.
     res_bind (res_bind (jget v ''daily_volume_hint'') json_opt_float) (\<lambda>hint.
     Inr \<lparr>ir_intent_id = intent_id, ir_symbol = symbol, ir_side = sd, ir_quantity = quantity, ir_price = price,
          ir_timestamp = stamp, ir_order_value = order_value, ir_parent_intent_id = parent, ir_portfolio_nav = nav,
          ir_daily_volume_hint = hint\<rparr>))))))))))))"

text \<open>The intent the last approval of an order was given for, bound to the order.\<close>

definition binds :: "intent_record \<Rightarrow> order \<Rightarrow> bool" where
  "binds i od \<longleftrightarrow> ir_symbol i = ord_symbol od \<and> ir_quantity i = ord_quantity od
     \<and> upper (ir_side i) = side_value (ord_side od) \<and> 0 < ir_order_value i"

definition approvals :: "order_event list \<Rightarrow> risk_decision list" where
  "approvals history = List.map_filter ev_risk_decision (filter (\<lambda>e. ev_event_type e = Ev_RISK_APPROVED) history)"

definition recovered_intent :: "'b oms \<Rightarrow> order_book \<Rightarrow> order \<Rightarrow> intent_record res" where
  "recovered_intent cfg book od =
     (let decisions = approvals (history_of book (ord_order_id od)) in
      if decisions = [] then Inl KeyError
      else res_bind (jindex (rd_measured (last decisions)) ''risk_intent'') (\<lambda>v.
        res_bind (risk_intent_from_json cfg v) (\<lambda>i. if binds i od then Inr i else Inl ValueError)))"

definition restore_order :: "'b oms \<Rightarrow> 'b manager \<Rightarrow> order \<Rightarrow> 'b manager" where
  "restore_order cfg m od =
     (let m = m\<lparr>mg_counts_today := count_order od (mg_counts_today m)\<rparr> in
      case recovered_intent cfg (mg_book m) od of
        Inl _ \<Rightarrow> m\<lparr>mg_risk_errors := mg_risk_errors m @ [ord_order_id od]\<rparr>
      | Inr i \<Rightarrow> m\<lparr>mg_risk_intents := mg_risk_intents m @ [i],
                  mg_client_order_ids := AList.update (ord_order_id od) (ir_intent_id i) (mg_client_order_ids m)\<rparr>)"

definition restore_daily_risk :: "'b oms \<Rightarrow> string \<Rightarrow> 'b manager \<Rightarrow> 'b manager" where
  "restore_daily_risk cfg session m =
     (if mg_risk_session m = Some session then m
      else foldl (restore_order cfg)
        (m\<lparr>mg_risk_session := Some session, mg_risk_intents := [], mg_risk_errors := [], mg_counts_today := []\<rparr>)
        (submitted_orders (mg_book m) session))"

definition reset_daily_counters :: "'b manager \<Rightarrow> 'b manager" where
  "reset_daily_counters m = m\<lparr>mg_counts_today := [], mg_risk_intents := [], mg_risk_session := None\<rparr>"

definition requires_production_pretrade :: "'b oms \<Rightarrow> bool" where
  "requires_production_pretrade cfg = bo_production (om_broker cfg)"

definition symbol_orders_today :: "'b oms \<Rightarrow> string \<Rightarrow> string \<Rightarrow> 'b manager \<Rightarrow> int \<times> 'b manager" where
  "symbol_orders_today cfg session symbol m =
     (let m = (if requires_production_pretrade cfg then restore_daily_risk cfg session m
               else if mg_count_session m \<noteq> Some session
               then m\<lparr>mg_counts_today := foldl (\<lambda>d od. count_order od d) [] (submitted_orders (mg_book m) session)\<rparr>
               else m);
          m = m\<lparr>mg_count_session := Some session\<rparr>
      in (dict_get (mg_counts_today m) symbol 0, m))"

section \<open>The pre-trade decision\<close>

definition is_proven_full_liquidation :: "'b oms \<Rightarrow> 'b \<Rightarrow> string \<Rightarrow> int \<Rightarrow> bool" where
  "is_proven_full_liquidation cfg b symbol quantity = (case bo_positions (om_broker cfg) b of
       Inl _ \<Rightarrow> False
     | Inr positions \<Rightarrow> (case List.find (\<lambda>p. wp_symbol p = symbol) positions of
           None \<Rightarrow> False
         | Some p \<Rightarrow> 0 < wp_available p \<and> wp_available p = quantity \<and> wp_frozen p = 0))"

definition exchange_quantity_rejection :: "'b oms \<Rightarrow> 'b \<Rightarrow> wire_order \<Rightarrow> string option" where
  "exchange_quantity_rejection cfg b od = (case cash_equity_board (wo_symbol od) of
       None \<Rightarrow> None
     | Some board \<Rightarrow>
         (let quantity = wo_quantity od; n = (\<lambda>k. om_str cfg (JInt k));
              (minimum, increment) = dict_get LOT_RULES board (0, 1);
              maximum = max_order_quantity board (upper (wire_type_value (wo_type od)));
              full_liquidation = (wo_side od = SELL \<and> is_proven_full_liquidation cfg b (wo_symbol od) quantity)
          in if (case maximum of None \<Rightarrow> False | Some k \<Rightarrow> k < quantity)
             then Some (board @ '' '' @ wire_type_value (wo_type od) @ '' quantity '' @ n quantity @ '' exceeds exchange maximum ''
               @ (case maximum of None \<Rightarrow> [] | Some k \<Rightarrow> n k))
             else if quantity < minimum then
               (if full_liquidation then None
                else Some (board @ '' quantity '' @ n quantity @ '' is below normal minimum '' @ n minimum
                  @ ''; sub-minimum sell requires proven full liquidation''))
             else if (quantity - minimum) mod increment \<noteq> 0 then
               (if full_liquidation then None
                else Some (board @ '' quantity '' @ n quantity @ '' violates minimum/increment '' @ n minimum @ ''+n*'' @ n increment
                  @ ''; non-increment sell requires proven full liquidation''))
             else None))"

definition daily_volume_hint :: "'b oms \<Rightarrow> 'b \<Rightarrow> string \<Rightarrow> rat option" where
  "daily_volume_hint cfg b symbol =
     (let positive = (\<lambda>v. if 0 < v then Some v else None) in
      case map_of (om_daily_volume_hints cfg) symbol of
        Some hint \<Rightarrow> positive hint
      | None \<Rightarrow> (case bo_volume (om_broker cfg) of
            None \<Rightarrow> None
          | Some query \<Rightarrow> (case query symbol b of Inl _ \<Rightarrow> None | Inr v \<Rightarrow> positive v)))"

definition account_nav :: "'b oms \<Rightarrow> 'b \<Rightarrow> rat option" where
  "account_nav cfg b = (case bo_account_value (om_broker cfg) b of Inl _ \<Rightarrow> None | Inr v \<Rightarrow> if 0 < v then Some v else None)"

definition risk_intent_of :: "'b oms \<Rightarrow> 'b \<Rightarrow> moment \<Rightarrow> wire_order \<Rightarrow> rat \<Rightarrow> intent_record" where
  "risk_intent_of cfg b stamp od price =
     \<lparr>ir_intent_id = wo_client_order_id od, ir_symbol = wo_symbol od, ir_side = wire_side (wo_side od),
      ir_quantity = wo_quantity od, ir_price = price, ir_timestamp = stamp,
      ir_order_value = of_int (wo_quantity od) * price, ir_parent_intent_id = None,
      ir_portfolio_nav = account_nav cfg b, ir_daily_volume_hint = daily_volume_hint cfg b (wo_symbol od)\<rparr>"

text \<open>History never stands in for a measurement of the order itself.\<close>

definition missing_current :: "constraint_set \<Rightarrow> intent_record \<Rightarrow> constraint_report \<Rightarrow> unmeasured_constraint list" where
  "missing_current c i report =
     (let missing = (\<lambda>name input (enabled :: rat option) (v :: rat option).
            if enabled \<noteq> None \<and> v = None \<and> name \<notin> set (unmeasured_constraints report)
            then [\<lparr>uc_constraint = name, uc_missing_input = input\<rparr>] else [])
      in missing ''max_daily_turnover'' ''portfolio_nav'' (cs_max_daily_turnover c) (ir_portfolio_nav i)
       @ missing ''max_single_stock_participation_rate'' ''daily_volume_hint''
           (cs_max_single_stock_participation_rate c) (ir_daily_volume_hint i))"

definition current_report :: "constraint_set \<Rightarrow> intent_record list \<Rightarrow> intent_record \<Rightarrow> constraint_report" where
  "current_report c history i =
     (let report = evaluate c (history @ [i]) in
      report\<lparr>rp_unmeasured := rp_unmeasured report @ missing_current c i report\<rparr>)"

definition certified :: "constraint_report \<Rightarrow> bool" where
  "certified r \<longleftrightarrow> passed r \<and> fully_measured r"

definition certificate_reason :: "constraint_report \<Rightarrow> string" where
  "certificate_reason r =
     (if \<not> passed r then ''blocking execution constraint violation: '' @ joined '','' (sort (map fst (rp_by_constraint r)))
      else if \<not> fully_measured r then ''production pre-trade refuses to certify an order against an unmeasured constraint: ''
        @ joined '','' (unmeasured_constraints r)
      else ''all production pre-submit execution constraints passed'')"

definition explicit_result :: "wire_order \<Rightarrow> string" where
  "explicit_result od = lower (strip (or_text (wo_risk_check_result od) ''not_checked''))"

definition UPSTREAM_REJECTIONS :: "string list" where
  "UPSTREAM_REJECTIONS = [''rejected'', ''reject'', ''blocked'', ''failed'', ''fail'', ''denied'']"

definition priced :: "wire_order \<Rightarrow> bool" where
  "priced od \<longleftrightarrow> (case wo_price od of None \<Rightarrow> False | Some p \<Rightarrow> 0 < p)"

type_synonym pretrade_outcome = "wire_order \<times> risk_decision \<times> intent_record option"

definition decision_on ::
    "'b oms \<Rightarrow> string \<Rightarrow> order \<Rightarrow> bool \<Rightarrow> string \<Rightarrow> json \<Rightarrow> json \<Rightarrow> string \<Rightarrow> string \<Rightarrow> risk_decision" where
  "decision_on cfg now canonical approved rule threshold measured reason by =
     RiskDecision_create (om_digest cfg) now approved rule threshold measured reason (ord_lineage canonical) by"

definition refused_decision ::
    "'b oms \<Rightarrow> string \<Rightarrow> order \<Rightarrow> wire_order \<Rightarrow> string \<Rightarrow> json \<Rightarrow> json \<Rightarrow> string \<Rightarrow> string \<Rightarrow> pretrade_outcome" where
  "refused_decision cfg now canonical od rule threshold measured reason by =
     (od, decision_on cfg now canonical False rule threshold measured reason by, None)"

text \<open>The production rules: a bounded price, a complete history of the session, and the certificate over all of it.\<close>

definition certify_order ::
    "'b oms \<Rightarrow> string \<Rightarrow> wire_order \<Rightarrow> order \<Rightarrow> moment \<Rightarrow> rat \<Rightarrow> 'b manager \<Rightarrow> pretrade_outcome" where
  "certify_order cfg now od canonical stamp price m =
     (let c = om_constraints cfg;
          i = risk_intent_of cfg (mg_broker m) stamp od price;
          report = current_report c (mg_risk_intents m) i;
          d = decision_on cfg now canonical (certified report) ''execution_constraint_dsl'' (JObj (constraints_as_dict c))
                (JObj (report_to_dict report @ [(''risk_intent'', risk_intent_to_json i)]))
                (certificate_reason report) ''execution_constraint_dsl''
      in if \<not> certified report then (od, d, None) else (od\<lparr>wo_risk_check_result := ''approved''\<rparr>, d, Some i))"

definition bounded_price :: "wire_order \<Rightarrow> rat option" where
  "bounded_price od = (if wo_type od = Market_order \<or> \<not> priced od then None else wo_price od)"

definition production_decision ::
    "'b oms \<Rightarrow> string \<Rightarrow> wire_order \<Rightarrow> order \<Rightarrow> moment \<Rightarrow> 'b manager \<Rightarrow> (pretrade_outcome, 'b) oms_step" where
  "production_decision cfg now od canonical stamp m = (case bounded_price od of
       None \<Rightarrow>
         (Inr (refused_decision cfg now canonical od ''execution_constraint_dsl'' (JStr ''bounded_limit_order'')
            (JObj [(''order_type'', JStr (wire_type_value (wo_type od))), (''price'', of_opt JNum (wo_price od))])
            ''live A-share order requires a bounded positive reference/limit price'' ''risk_engine''), m)
     | Some price \<Rightarrow>
         (let m = restore_daily_risk cfg (exchange_session_of stamp) m in
          if mg_risk_errors m \<noteq> [] then
            (Inr (refused_decision cfg now canonical od ''intraday_risk_recovery'' (JStr ''complete canonical risk-intent history'')
               (JObj [(''unresolved_orders'', JList (map JStr (mg_risk_errors m)))])
               ''recovery-required: submitted orders lack bound risk-intent evidence'' ''risk_engine''), m)
          else (Inr (certify_order cfg now od canonical stamp price m), m)))"

definition pretrade_decision ::
    "'b oms \<Rightarrow> string \<Rightarrow> wire_order \<Rightarrow> order \<Rightarrow> 'b manager \<Rightarrow> (pretrade_outcome, 'b) oms_step" where
  "pretrade_decision cfg now od canonical m =
     (if explicit_result od \<in> set UPSTREAM_REJECTIONS then
        (Inr (refused_decision cfg now canonical od ''upstream_risk'' (JStr ''approved'') (JStr (explicit_result od))
           ''upstream risk explicitly rejected the order'' ''risk_engine''), m)
      else if wo_quantity od \<le> 0 then
        (Inr (refused_decision cfg now canonical od ''order_manager_basic_admissibility'' (JStr ''quantity>0'') (JInt (wo_quantity od))
           ''order quantity must be positive'' ''risk_engine''), m)
      else if wo_type od = Limit_order \<and> \<not> priced od then
        (Inr (refused_decision cfg now canonical od ''order_manager_basic_admissibility'' (JStr ''limit_price>0'') (of_opt JNum (wo_price od))
           ''limit order requires a finite positive price'' ''risk_engine''), m)
      else case exchange_quantity_rejection cfg (mg_broker m) od of
        Some text \<Rightarrow>
          (Inr (refused_decision cfg now canonical od ''exchange_quantity_admissibility''
             (JStr ''board_minimum_increment_maximum_or_proven_full_liquidation'')
             (JObj [(''symbol'', JStr (wo_symbol od)), (''quantity'', JInt (wo_quantity od)),
                    (''order_type'', JStr (wire_type_value (wo_type od)))]) text ''order_manager''), m)
      | None \<Rightarrow>
          pure_then (parse_stamp cfg (wo_timestamp od)) (\<lambda>stamp.
          (let session = exchange_session_of stamp;
               limit = om_max_orders_per_symbol_per_day cfg;
               (submitted_today, m) = (if om_forensic cfg then (0, m) else symbol_orders_today cfg session (wo_symbol od) m)
           in
           if \<not> om_forensic cfg \<and> limit \<le> submitted_today then
             (Inr (refused_decision cfg now canonical od ''max_orders_per_symbol_per_day'' (JInt limit)
                (JObj [(''symbol'', JStr (wo_symbol od)), (''session'', JStr session), (''submitted_today'', JInt submitted_today)])
                (wo_symbol od @ '' already has '' @ om_str cfg (JInt submitted_today)
                  @ '' submitted orders this session (limit '' @ om_str cfg (JInt limit) @ '')'') ''order_manager''), m)
           else if \<not> requires_production_pretrade cfg then
             (Inr (od, decision_on cfg now canonical True ''order_manager_basic_admissibility''
                (JStr ''positive_quantity+valid_limit_price+exchange_quantity'')
                (JObj [(''upstream'', JStr (explicit_result od)), (''mode'', JStr ''non_live_or_research'')])
                ''basic OMS and exchange-quantity admissibility passed; this is not production risk certification''
                ''order_manager'', None), m)
           else production_decision cfg now od canonical stamp m)) m)"

section \<open>Writing to book and ledger\<close>

definition open_canonical_pending :: "'b oms \<Rightarrow> oms_env \<Rightarrow> wire_order \<Rightarrow> 'b manager \<Rightarrow> (order, 'b) oms_step" where
  "open_canonical_pending cfg env od m =
     pure_then (exchange_session cfg (wo_timestamp od)) (\<lambda>session.
       let event_time = oe_event_time env (length (bk_events (mg_book m)));
           n = length (led_records (mg_ledger m));
           sig = Signal_create (om_digest cfg) event_time (wo_symbol od)
             (session @ ''-'' @ or_text (wo_signal_id od) ''manual'') 0 (om_lineage cfg)
       in pure_then (OrderIntent_create (om_digest cfg) event_time (wo_symbol od) (wo_side od) (wo_quantity od) session
            (sig_lineage sig) None (wo_price od)) (\<lambda>intent.
            case mirror_open (om_chain cfg) (om_digest cfg) (oe_write env n) event_time (oe_record_time env n) intent
              (Some session) None (mg_book m, mg_ledger m) of
              (r, book, led) \<Rightarrow> (r, m\<lparr>mg_book := book, mg_ledger := led\<rparr>)) m) m"

text \<open>\<open>self.book.apply(...)\<close>, and the append of the event it recorded.\<close>

definition book_apply ::
    "oms_env \<Rightarrow> string \<Rightarrow> order_event_type \<Rightarrow> string option \<Rightarrow> risk_decision option \<Rightarrow> 'b manager \<Rightarrow> (unit, 'b) oms_step"
where
  "book_apply env oid t reason rd m =
     (case OrderBook_apply (oe_event_time env (length (bk_events (mg_book m)))) oid t None reason rd (mg_book m) of
        Inl e \<Rightarrow> (Inl e, m)
      | Inr (_, book) \<Rightarrow> (Inr (), m\<lparr>mg_book := book\<rparr>))"

definition append_last :: "'b oms \<Rightarrow> oms_env \<Rightarrow> string \<Rightarrow> string option \<Rightarrow> 'b manager \<Rightarrow> (unit, 'b) oms_step" where
  "append_last cfg env oid trade_date m =
     (let n = length (led_records (mg_ledger m)) in
      case append (om_chain cfg) (oe_write env n) (oe_record_time env n) (Some (last (history_of (mg_book m) oid)))
        trade_date None None (mg_ledger m) of
        (r, led) \<Rightarrow> (res_bind r (\<lambda>_. Inr ()), m\<lparr>mg_ledger := led\<rparr>))"

definition record_event ::
    "'b oms \<Rightarrow> oms_env \<Rightarrow> string \<Rightarrow> order_event_type \<Rightarrow> string option \<Rightarrow> risk_decision option \<Rightarrow> string option
     \<Rightarrow> 'b manager \<Rightarrow> (unit, 'b) oms_step" where
  "record_event cfg env oid t reason rd trade_date m =
     and_then (book_apply env oid t reason rd m) (\<lambda>_ m. append_last cfg env oid trade_date m)"

definition apply_canonical_risk ::
    "'b oms \<Rightarrow> oms_env \<Rightarrow> order \<Rightarrow> risk_decision \<Rightarrow> bool \<Rightarrow> 'b manager \<Rightarrow> (order, 'b) oms_step" where
  "apply_canonical_risk cfg env canonical rd approved m =
     (let oid = ord_order_id canonical; session = Some (ord_trade_date canonical) in
      and_then (record_event cfg env oid (if approved then Ev_RISK_APPROVED else Ev_RISK_REJECTED)
        (if approved then None else Some (rd_reason rd)) (Some rd) session m) (\<lambda>_ m.
      and_then (if approved then record_event cfg env oid Ev_SUBMITTED None None session m else (Inr (), m)) (\<lambda>_ m.
        (state_of (mg_book m) oid, m))))"

definition refused_state :: "wire_order \<Rightarrow> string \<Rightarrow> wire_state" where
  "refused_state od message = \<lparr>ws_client_order_id = wo_client_order_id od, ws_broker_order_id = None,
     ws_status = WS_REJECTED, ws_filled_quantity = 0, ws_avg_price = 0, ws_last_message = message\<rparr>"

definition record_venue_refusal ::
    "'b oms \<Rightarrow> oms_env \<Rightarrow> wire_order \<Rightarrow> order \<Rightarrow> string \<Rightarrow> 'b manager \<Rightarrow> (wire_state, 'b) oms_step" where
  "record_venue_refusal cfg env od canonical reason m =
     pure_then (state_of (mg_book m) (ord_order_id canonical)) (\<lambda>current.
       and_then (if ord_status current = SUBMITTED
                 then record_event cfg env (ord_order_id canonical) Ev_REJECTED (Some reason) None
                   (Some (ord_trade_date canonical)) m
                 else (Inr (), m)) (\<lambda>_ m. (Inr (refused_state od reason), m))) m"

text \<open>
  What the broker answered, as an event: the answer has no \<open>timestamp\<close> and no \<open>reason\<close>, so both are \<open>None\<close>.
  An event the order does not allow is dropped.
\<close>

definition answer_event :: "wire_status \<Rightarrow> order_event_type" where
  "answer_event status = (case status of WS_REJECTED \<Rightarrow> Ev_REJECTED | WS_CANCELLED \<Rightarrow> Ev_CANCELLED | _ \<Rightarrow> Ev_ACCEPTED)"

definition record_canonical_state :: "'b oms \<Rightarrow> oms_env \<Rightarrow> order \<Rightarrow> wire_state \<Rightarrow> 'b manager \<Rightarrow> (unit, 'b) oms_step" where
  "record_canonical_state cfg env canonical state m =
     (case book_apply env (ord_order_id canonical) (answer_event (ws_status state)) None None m of
        (Inl _, m) \<Rightarrow> (Inr (), m)
      | (Inr _, m) \<Rightarrow> append_last cfg env (ord_order_id canonical) None m)"

definition update_wire :: "string \<Rightarrow> wire_order \<Rightarrow> wire_state \<Rightarrow> 'b manager \<Rightarrow> 'b manager" where
  "update_wire now od state m = m\<lparr>mg_wire := AList.update (wo_client_order_id od)
     \<lparr>or_order = od, or_state = state,
      or_submitted_at = (case map_of (mg_wire m) (wo_client_order_id od) of None \<Rightarrow> now | Some r \<Rightarrow> or_submitted_at r),
      or_last_updated_at = now\<rparr> (mg_wire m)\<rparr>"

definition manager_history :: "'b manager \<Rightarrow> (string, order_record) dict" where
  "manager_history m = foldl (\<lambda>d od. case map_of (mg_client_order_ids m) (ord_order_id od) of
       None \<Rightarrow> d
     | Some cid \<Rightarrow> (case map_of (mg_wire m) cid of None \<Rightarrow> d | Some r \<Rightarrow> AList.update cid r d)) [] (book_orders (mg_book m))"

section \<open>One submission\<close>

text \<open>
  The claim of the request: granted, or answered before, with the state that is yielded then, if any.
\<close>

datatype claim_answer = Granted | Answered_before "wire_state list"

definition str_or_empty :: "(json \<Rightarrow> string) \<Rightarrow> json \<Rightarrow> string" where
  "str_or_empty S v = (if truthy v then py_str S v else [])"

definition claim_request ::
    "'b oms \<Rightarrow> oms_env \<Rightarrow> string \<Rightarrow> string \<Rightarrow> wire_order \<Rightarrow> 'b manager \<Rightarrow> (claim_answer, 'b) oms_step" where
  "claim_request cfg env key fingerprint od m =
     (case claim (oe_claim env) (oe_claimed_at env) key None
         [(''clientOrderId'', JStr (wo_client_order_id od)), (''fingerprint'', JStr fingerprint)] False (mg_claims m, mg_file m) of
        (r, claims, file) \<Rightarrow>
          (let m = m\<lparr>mg_claims := claims, mg_file := file\<rparr> in
           pure_then r (\<lambda>c.
             if cl_granted c then (Inr Granted, m)
             else let payload = cr_payload (cl_record c); stored = dict_get payload ''fingerprint'' JNull in
               if stored \<noteq> JNull \<and> stored \<noteq> JStr fingerprint then (Inl IdempotencyConflict, m)
               else (Inr (Answered_before
                 (case map_of (mg_wire m) (str_or_empty (om_str cfg) (dict_get payload ''clientOrderId'' JNull)) of
                    None \<Rightarrow> [] | Some existing \<Rightarrow> [or_state existing])), m)) m))"

definition resolve_request ::
    "oms_env \<Rightarrow> string \<Rightarrow> wire_order \<Rightarrow> (string, json) dict \<Rightarrow> 'b manager \<Rightarrow> (unit, 'b) oms_step" where
  "resolve_request env key od payload m =
     (case resolve_claim (oe_resolve env) key (wo_client_order_id od) payload (mg_claims m, mg_file m) of
        (r, claims, file) \<Rightarrow> (res_bind r (\<lambda>_. Inr ()), m\<lparr>mg_claims := claims, mg_file := file\<rparr>))"

definition resolve_unless_forensic ::
    "'b oms \<Rightarrow> oms_env \<Rightarrow> string \<Rightarrow> wire_order \<Rightarrow> (string, json) dict \<Rightarrow> 'b manager \<Rightarrow> (unit, 'b) oms_step" where
  "resolve_unless_forensic cfg env key od payload m =
     (if om_forensic cfg then (Inr (), m) else resolve_request env key od payload m)"

definition resolution :: "wire_order \<Rightarrow> string \<Rightarrow> string \<Rightarrow> bool \<Rightarrow> (string, json) dict" where
  "resolution od oid fingerprint approved =
     [(''clientOrderId'', JStr (wo_client_order_id od)), (''orderId'', JStr oid), (''fingerprint'', JStr fingerprint),
      (''riskApproved'', JBool approved)]"

text \<open>An order the decision refused.\<close>

definition refuse_order ::
    "'b oms \<Rightarrow> oms_env \<Rightarrow> string \<Rightarrow> string \<Rightarrow> wire_order \<Rightarrow> order \<Rightarrow> risk_decision \<Rightarrow> 'b manager \<Rightarrow> (wire_state list, 'b) oms_step"
where
  "refuse_order cfg env key fingerprint od canonical rd m =
     and_then (apply_canonical_risk cfg env canonical rd False m) (\<lambda>_ m.
       let state = refused_state od (''pretrade_risk_rejected:'' @ rd_reason rd);
           m = update_wire (oe_now env) od state m
       in and_then (resolve_unless_forensic cfg env key od
            (resolution od (ord_order_id canonical) fingerprint False @ [(''riskReason'', JStr (rd_reason rd))]) m)
            (\<lambda>_ m. (Inr [state], m)))"

text \<open>\<open>self.broker.submit(order)\<close>, with the refusal of the venue turned into a state.\<close>

definition call_broker ::
    "'b oms \<Rightarrow> oms_env \<Rightarrow> wire_order \<Rightarrow> order \<Rightarrow> 'b manager \<Rightarrow> (wire_state \<times> string option, 'b) oms_step" where
  "call_broker cfg env od canonical m =
     (case bo_submit (om_broker cfg) (if bo_canonical (om_broker cfg) then Some (ord_order_id canonical) else None) od
         (mg_broker m, mg_book m, mg_ledger m) of
        (r, b, book, led) \<Rightarrow>
          (let m = m\<lparr>mg_broker := b, mg_book := book, mg_ledger := led\<rparr> in
           case r of
             Answered state \<Rightarrow> (Inr (state, None), m)
           | Refused reason \<Rightarrow>
               and_then (record_venue_refusal cfg env od canonical reason m) (\<lambda>state m. (Inr (state, Some reason), m))
           | Crashed e \<Rightarrow> (Inl e, m)))"

definition count_submission :: "string \<Rightarrow> 'b manager \<Rightarrow> 'b manager" where
  "count_submission symbol m =
     m\<lparr>mg_counts_today := AList.update symbol (dict_get (mg_counts_today m) symbol 0 + 1) (mg_counts_today m)\<rparr>"

text \<open>An order the decision approved.\<close>

definition route_order ::
    "'b oms \<Rightarrow> oms_env \<Rightarrow> string \<Rightarrow> string \<Rightarrow> wire_order \<Rightarrow> order \<Rightarrow> risk_decision \<Rightarrow> intent_record option \<Rightarrow> 'b manager
     \<Rightarrow> (wire_state list, 'b) oms_step" where
  "route_order cfg env key fingerprint od canonical rd i m =
     and_then (apply_canonical_risk cfg env canonical rd True m) (\<lambda>canonical m.
       let m = (case i of None \<Rightarrow> m | Some i \<Rightarrow> m\<lparr>mg_risk_intents := mg_risk_intents m @ [i]\<rparr>) in
       and_then (call_broker cfg env od canonical m) (\<lambda>(state, refusal) m.
         let m = update_wire (oe_now env) od state m in
         and_then (if \<not> bo_canonical (om_broker cfg) \<and> refusal = None
                   then record_canonical_state cfg env canonical state m else (Inr (), m)) (\<lambda>_ m.
         and_then (resolve_unless_forensic cfg env key od (resolution od (ord_order_id canonical) fingerprint True
                     @ (case refusal of None \<Rightarrow> [] | Some reason \<Rightarrow> [(''venueRefused'', JStr reason)])) m) (\<lambda>_ m.
           (Inr [state], count_submission (wo_symbol od) m)))))"

definition decide_and_route ::
    "'b oms \<Rightarrow> oms_env \<Rightarrow> string \<Rightarrow> string \<Rightarrow> wire_order \<Rightarrow> 'b manager \<Rightarrow> (wire_state list, 'b) oms_step" where
  "decide_and_route cfg env key fingerprint od m =
     and_then (open_canonical_pending cfg env od m) (\<lambda>canonical m.
       let m = m\<lparr>mg_client_order_ids := AList.update (ord_order_id canonical) (wo_client_order_id od) (mg_client_order_ids m)\<rparr> in
       and_then (pretrade_decision cfg (oe_now env) od canonical m) (\<lambda>(od, rd, i) m.
         if rd_approved rd then route_order cfg env key fingerprint od canonical rd i m
         else refuse_order cfg env key fingerprint od canonical rd m))"

definition stamped :: "oms_env \<Rightarrow> wire_order \<Rightarrow> wire_order" where
  "stamped env od = (if wo_timestamp od = [] then od\<lparr>wo_timestamp := oe_now env\<rparr> else od)"

definition submit_one :: "'b oms \<Rightarrow> oms_env \<Rightarrow> wire_order \<Rightarrow> 'b manager \<Rightarrow> (wire_state list, 'b) oms_step" where
  "submit_one cfg env original m =
     (let od = stamped env original in
      if \<not> om_forensic cfg \<and> run_id_of cfg = [] then (Inl MissingIdempotencyLineage, m)
      else pure_then (request_key cfg od) (\<lambda>key.
        let fingerprint = request_fingerprint cfg od in
        if om_forensic cfg then
          (if map_of (manager_history m) (wo_client_order_id od) \<noteq> None then (Inr [], m)
           else decide_and_route cfg env key fingerprint od m)
        else and_then (claim_request cfg env key fingerprint od m) (\<lambda>answer m.
          case answer of Answered_before states \<Rightarrow> (Inr states, m)
          | Granted \<Rightarrow> decide_and_route cfg env key fingerprint od m)) m)"

fun submit_each :: "'b oms \<Rightarrow> (oms_env \<times> wire_order) list \<Rightarrow> 'b manager \<Rightarrow> (wire_state list, 'b) oms_step" where
  "submit_each cfg [] m = (Inr [], m)"
| "submit_each cfg ((env, od) # rest) m =
     and_then (submit_one cfg env od m) (\<lambda>states m.
       and_then (submit_each cfg rest m) (\<lambda>more m. (Inr (states @ more), m)))"

definition submit_orders :: "'b oms \<Rightarrow> (oms_env \<times> wire_order) list \<Rightarrow> 'b manager \<Rightarrow> (wire_state list, 'b) oms_step" where
  "submit_orders = submit_each"

section \<open>Cancelling and rebuilding\<close>

definition is_working :: "wire_status \<Rightarrow> bool" where
  "is_working status \<longleftrightarrow> status \<in> {WS_PENDING, WS_SUBMITTED, WS_PARTIAL}"

fun cancel_records :: "'b oms \<Rightarrow> string \<Rightarrow> order_record list \<Rightarrow> 'b manager \<Rightarrow> (wire_state list, 'b) oms_step" where
  "cancel_records cfg now [] m = (Inr [], m)"
| "cancel_records cfg now (r # rest) m =
     (if is_working (ws_status (or_state r)) then
        (case bo_cancel (om_broker cfg) (wo_client_order_id (or_order r)) (mg_broker m, mg_book m, mg_ledger m) of
           (c, b, book, led) \<Rightarrow>
             (let m = m\<lparr>mg_broker := b, mg_book := book, mg_ledger := led\<rparr> in
              pure_then c (\<lambda>state.
                and_then (cancel_records cfg now rest (update_wire now (or_order r) state m)) (\<lambda>more m.
                  (Inr (state # more), m))) m))
      else cancel_records cfg now rest m)"

definition cancel_all_open :: "'b oms \<Rightarrow> string \<Rightarrow> 'b manager \<Rightarrow> (wire_state list, 'b) oms_step" where
  "cancel_all_open cfg now m = cancel_records cfg now (map snd (manager_history m)) m"

definition rebuild_history :: "'b oms \<Rightarrow> (nat \<Rightarrow> string) \<Rightarrow> 'b manager \<Rightarrow> (string, order_record) dict res" where
  "rebuild_history cfg clock m =
     res_bind (replay_book (om_chain cfg) (om_digest cfg) clock (mg_ledger m)) (\<lambda>book.
       Inr (foldl (\<lambda>d (oid, cid). if map_of (bk_orders book) oid = None then d
           else (case map_of (mg_wire m) cid of None \<Rightarrow> d | Some r \<Rightarrow> AList.update cid r d)) [] (mg_client_order_ids m)))"

section \<open>From target weights to orders\<close>

record skipped =
  sk_symbol :: string
  sk_side :: side
  sk_quantity :: int
  sk_target_weight :: rat
  sk_reference_price :: rat
  sk_reason :: string
  sk_delta_value :: rat
  sk_implied_shares :: "rat option"

text \<open>The identifier of an intent; \<open>uuid\<close> is the hexadecimal text of the fresh identifier an unsigned one takes.\<close>

definition make_id :: "'b oms \<Rightarrow> string \<Rightarrow> string \<Rightarrow> side \<Rightarrow> string \<Rightarrow> string \<Rightarrow> string" where
  "make_id cfg uuid symbol sd signal_id model_version =
     joined ''-'' [symbol, wire_side sd, take 10 (if signal_id = [] then uuid
       else om_sha cfg (joined ''-'' [symbol, wire_side sd, signal_id, model_version]))]"

definition current_shares :: "wire_position list \<Rightarrow> string \<Rightarrow> int" where
  "current_shares positions symbol = (case map_of (rev (map (\<lambda>p. (wp_symbol p, p)) positions)) symbol of
       None \<Rightarrow> 0 | Some p \<Rightarrow> wp_available p + wp_frozen p)"

text \<open>
  One symbol: nothing, a skipped row, or a side with its quantity.  A missing price is \<open>None\<close>.
\<close>

datatype sizing = Hold | Skip skipped | Trade side int

definition skip_row :: "string \<Rightarrow> side \<Rightarrow> int \<Rightarrow> rat \<Rightarrow> rat \<Rightarrow> string \<Rightarrow> rat \<Rightarrow> rat option \<Rightarrow> sizing" where
  "skip_row symbol sd quantity weight price reason delta implied = Skip
     \<lparr>sk_symbol = symbol, sk_side = sd, sk_quantity = quantity, sk_target_weight = weight, sk_reference_price = price,
      sk_reason = reason, sk_delta_value = delta, sk_implied_shares = implied\<rparr>"

definition size_delta :: "'b oms \<Rightarrow> rat \<Rightarrow> int \<Rightarrow> string \<Rightarrow> rat \<Rightarrow> rat option \<Rightarrow> sizing" where
  "size_delta cfg net_value current symbol weight observed =
     (let price = (case observed of None \<Rightarrow> 0 | Some p \<Rightarrow> p) in
      if price \<le> 0 \<or> net_value \<le> 0 then skip_row symbol BUY 0 weight price ''skipped_invalid_price'' 0 None
      else
        let raw_target = weight * net_value / price;
            delta_shares = raw_target - of_int current;
            delta_value = \<bar>delta_shares\<bar> * price
        in if current = 0 \<and> \<bar>weight\<bar> \<le> om_negligible_weight cfg then Hold
        else if of_int current \<le> raw_target then
          (let quantity = round_delta_quantity symbol ''buy'' delta_shares False ''LIMIT'' in
           if quantity \<le> 0 then skip_row symbol BUY 0 weight price ''skipped_below_min_lot'' delta_value (Some delta_shares)
           else if of_int quantity * price < om_min_order_value_yuan cfg
           then skip_row symbol BUY quantity weight price ''skipped_small_order'' (of_int quantity * price) None
           else Trade BUY quantity)
        else
          (let desired_sell = of_int current - raw_target;
               target_is_zero = (weight \<le> om_negligible_weight cfg);
               quantity = round_delta_quantity symbol ''sell'' desired_sell (target_is_zero \<and> om_odd_lot_liquidation cfg) ''LIMIT''
           in if quantity \<le> 0 then skip_row symbol SELL 0 weight price
                (if 0 < desired_sell \<and> \<not> target_is_zero then ''skipped_not_full_odd_lot_liquidation'' else ''skipped_below_min_lot'')
                delta_value (Some (- desired_sell))
              else if of_int quantity * price < om_min_order_value_yuan cfg \<and> \<not> target_is_zero
              then skip_row symbol SELL quantity weight price ''skipped_small_order'' (of_int quantity * price) None
              else Trade SELL quantity))"

record request_labels =
  rl_signal_id :: string
  rl_model_version :: string
  rl_feature_version :: string
  rl_risk_check_result :: string

definition wire_intent_of ::
    "'b oms \<Rightarrow> string \<Rightarrow> string \<Rightarrow> request_labels \<Rightarrow> string \<Rightarrow> rat \<Rightarrow> rat \<Rightarrow> side \<Rightarrow> int \<Rightarrow> wire_intent" where
  "wire_intent_of cfg now uuid labels symbol weight price sd quantity =
     \<lparr>wi_intent_id = make_id cfg uuid symbol sd (rl_signal_id labels) (rl_model_version labels), wi_symbol = symbol,
      wi_side = sd, wi_quantity = quantity, wi_target_weight = weight, wi_reference_price = price,
      wi_signal_id = rl_signal_id labels, wi_model_version = rl_model_version labels,
      wi_feature_version = rl_feature_version labels, wi_strategy_version = om_strategy_version cfg,
      wi_risk_check_result = rl_risk_check_result labels, wi_timestamp = now\<rparr>"

text \<open>
  Over the symbols that have a price, in their order; a weight that is missing is 0.  The result is the intents,
  sells first, and the rows skipped.  \<open>uuid symbol\<close> is the fresh identifier drawn for the symbol.
\<close>

definition intent_for ::
    "'b oms \<Rightarrow> string \<Rightarrow> (string \<Rightarrow> string) \<Rightarrow> request_labels \<Rightarrow> wire_position list \<Rightarrow> rat \<Rightarrow> (string, rat) dict
     \<Rightarrow> string \<times> rat option \<Rightarrow> wire_intent list \<times> skipped list" where
  "intent_for cfg now uuid labels positions net_value weights entry =
     (case entry of (symbol, observed) \<Rightarrow>
       let weight = dict_get weights symbol 0 in
       case size_delta cfg net_value (current_shares positions symbol) symbol weight observed of
         Hold \<Rightarrow> ([], [])
       | Skip row \<Rightarrow> ([], [row])
       | Trade sd quantity \<Rightarrow>
           ([wire_intent_of cfg now (uuid symbol) labels symbol weight (case observed of None \<Rightarrow> 0 | Some p \<Rightarrow> p) sd quantity], []))"

definition target_weights_to_order_intents ::
    "'b oms \<Rightarrow> string \<Rightarrow> (string \<Rightarrow> string) \<Rightarrow> request_labels \<Rightarrow> wire_position list \<Rightarrow> rat \<Rightarrow> (string, rat) dict
     \<Rightarrow> (string, rat option) dict \<Rightarrow> wire_intent list \<times> skipped list" where
  "target_weights_to_order_intents cfg now uuid labels positions net_value weights prices =
     (let rows = map (intent_for cfg now uuid labels positions net_value weights) prices;
          intents = concat (map fst rows)
      in (filter (\<lambda>i. wi_side i = SELL) intents @ filter (\<lambda>i. wi_side i \<noteq> SELL) intents, concat (map snd rows)))"

definition reconcile_order :: "wire_intent \<Rightarrow> wire_order" where
  "reconcile_order i = \<lparr>wo_client_order_id = wi_intent_id i, wo_symbol = wi_symbol i, wo_side = wi_side i,
     wo_quantity = wi_quantity i, wo_type = Limit_order, wo_price = Some (wi_reference_price i),
     wo_note = ''target_weight_reconcile'', wo_signal_id = wi_signal_id i, wo_model_version = wi_model_version i,
     wo_feature_version = wi_feature_version i, wo_strategy_version = wi_strategy_version i,
     wo_risk_check_result = wi_risk_check_result i, wo_timestamp = wi_timestamp i\<rparr>"

text \<open>\<open>envs n\<close> is the environment of the \<open>n\<close>-th submission.\<close>

definition om_reconcile ::
    "'b oms \<Rightarrow> string \<Rightarrow> (string \<Rightarrow> string) \<Rightarrow> (nat \<Rightarrow> oms_env) \<Rightarrow> string \<Rightarrow> rat \<Rightarrow> (string, rat) dict \<Rightarrow> (string, rat option) dict
     \<Rightarrow> 'b manager \<Rightarrow> (wire_state list, 'b) oms_step" where
  "om_reconcile cfg now uuid envs signal_id net_value weights prices m =
     pure_then (bo_positions (om_broker cfg) (mg_broker m)) (\<lambda>positions.
       let labels = \<lparr>rl_signal_id = signal_id, rl_model_version = ''unknown'', rl_feature_version = ''unknown'',
             rl_risk_check_result = ''not_checked''\<rparr>;
           intents = fst (target_weights_to_order_intents cfg now uuid labels positions net_value weights prices);
           routed = filter (\<lambda>i. dict_get (mg_counts_today m) (wi_symbol i) 0 < om_max_orders_per_symbol_per_day cfg) intents
       in submit_each cfg (map (\<lambda>(n, i). (envs n, reconcile_order i)) (enumerate 0 routed)) m) m"

end
