(* ===== verification/Session_View.thy ===== *)
theory Session_View
  imports Order_Manager Ledger_Facts
begin

text \<open>
  What a session has consumed, read off an order book: for each order the request it was opened for, its approvals and
  whether it was submitted.  Counting and risk recovery depend on nothing else, and a replay of the ledger
  keeps it.
\<close>

record order_view =
  ov_symbol :: string
  ov_side :: side
  ov_quantity :: int
  ov_trade_date :: string
  ov_submitted :: bool
  ov_approvals :: "risk_decision list"

definition view_of :: "order_event list \<Rightarrow> order \<Rightarrow> order_view" where
  "view_of history od = \<lparr>ov_symbol = ord_symbol od, ov_side = ord_side od, ov_quantity = ord_quantity od,
     ov_trade_date = ord_trade_date od, ov_submitted = list_ex (\<lambda>e. ev_event_type e = Ev_SUBMITTED) history,
     ov_approvals = approvals history\<rparr>"

definition views :: "order_book \<Rightarrow> order_view list" where
  "views b = map (\<lambda>(k, od). view_of (history_of b k) od) (bk_orders b)"

definition sent :: "order_view list \<Rightarrow> string \<Rightarrow> order_view list" where
  "sent vs session = filter (\<lambda>v. ov_trade_date v = session \<and> ov_submitted v) vs"

definition n_sent :: "order_view list \<Rightarrow> string \<Rightarrow> string \<Rightarrow> int" where
  "n_sent vs session symbol = int (length (filter (\<lambda>v. ov_symbol v = symbol) (sent vs session)))"

definition view_binds :: "intent_record \<Rightarrow> order_view \<Rightarrow> bool" where
  "view_binds i v \<longleftrightarrow> ir_symbol i = ov_symbol v \<and> ir_quantity i = ov_quantity v
     \<and> upper (ir_side i) = side_value (ov_side v) \<and> 0 < ir_order_value i"

definition view_intent :: "'b oms \<Rightarrow> order_view \<Rightarrow> intent_record res" where
  "view_intent cfg v =
     (if ov_approvals v = [] then Inl KeyError
      else res_bind (jindex (rd_measured (last (ov_approvals v))) ''risk_intent'') (\<lambda>j.
        res_bind (risk_intent_from_json cfg j) (\<lambda>i. if view_binds i v then Inr i else Inl ValueError)))"

definition session_intents :: "'b oms \<Rightarrow> order_view list \<Rightarrow> string \<Rightarrow> intent_record list res" where
  "session_intents cfg vs session = map_res (view_intent cfg) (sent vs session)"

text \<open>Every order stands under its identifier, and every event belongs to an order.\<close>

definition keyed :: "order_book \<Rightarrow> bool" where
  "keyed b \<longleftrightarrow> dict_wf (bk_orders b) \<and> (\<forall>(k, od) \<in> set (bk_orders b). ord_order_id od = k)
     \<and> (\<forall>e \<in> set (bk_events b). ev_order_id e \<in> fst ` set (bk_orders b))"

lemma keyed_empty [simp]: "keyed empty_book"
  by (simp add: keyed_def empty_book_def)

section \<open>The code's reading\<close>

lemma recovered_view: "recovered_intent cfg b od = view_intent cfg (view_of (history_of b (ord_order_id od)) od)"
  by (simp add: recovered_intent_def view_intent_def view_of_def binds_def view_binds_def Let_def)

lemma sent_orders:
  assumes "keyed b"
  shows "sent (views b) s = map (\<lambda>od. view_of (history_of b (ord_order_id od)) od) (submitted_orders b s)"
proof -
  let ?v = "\<lambda>od. view_of (history_of b (ord_order_id od)) od"
  have "views b = map ?v (book_orders b)"
    using assms by (auto simp: views_def book_orders_def keyed_def)
  then have "sent (views b) s = map ?v (filter (\<lambda>od. ov_trade_date (?v od) = s \<and> ov_submitted (?v od)) (book_orders b))"
    by (simp add: sent_def filter_map comp_def)
  then show ?thesis by (simp add: submitted_orders_def view_of_def)
qed

lemma counted_orders:
  assumes "keyed b"
  shows "dict_get (foldl (\<lambda>d od. count_order od d) [] (submitted_orders b s)) y 0 = n_sent (views b) s y"
proof -
  have "dict_get (foldl (\<lambda>d od. count_order od d) d ods) y 0
      = dict_get d y 0 + int (length (filter (\<lambda>od. ord_symbol od = y) ods))" for d ods
    by (induction ods arbitrary: d) (auto simp: count_order_def)
  then show ?thesis
    by (simp add: n_sent_def sent_orders [OF assms] filter_map comp_def view_of_def)
qed

lemma session_intents_orders:
  assumes "keyed b"
  shows "session_intents cfg (views b) s = map_res (recovered_intent cfg b) (submitted_orders b s)"
proof -
  have "map_res f (map g xs) = map_res (\<lambda>x. f (g x)) xs" for f :: "order_view \<Rightarrow> intent_record res" and g and xs :: "order list"
    by (induction xs) simp_all
  then show ?thesis
    unfolding session_intents_def sent_orders [OF assms] by (simp add: recovered_view [symmetric])
qed

section \<open>What changes the view\<close>

lemma view_erase [simp]: "view_of h (erase_order od) = view_of h od"
  by (simp add: view_of_def erase_order_def)

lemma approvals_simps [simp]:
  "approvals [] = []"
  "approvals (h @ h') = approvals h @ approvals h'"
  "approvals [e] = (if ev_event_type e = Ev_RISK_APPROVED then (case ev_risk_decision e of None \<Rightarrow> [] | Some d \<Rightarrow> [d]) else [])"
  by (auto simp: approvals_def map_filter_def split: option.split)

lemma history_erase:
  assumes "erase_book b' = erase_book b"
  shows "map erase_event (history_of b' k) = map erase_event (history_of b k)"
proof -
  have "map erase_event (history_of c k) = filter (\<lambda>e. ev_order_id e = k) (bk_events (erase_book c))" for c
    by (simp add: history_of_def erase_book_def filter_map comp_def)
  then show ?thesis using assms by simp
qed

lemma view_history: "map erase_event h' = map erase_event h \<Longrightarrow> view_of h' od = view_of h od"
proof -
  assume eq: "map erase_event h' = map erase_event h"
  have r: "ev_risk_decision (erase_event e) = ev_risk_decision e" for e by (simp add: erase_event_def)
  have "approvals h = approvals (map erase_event h)" "list_ex (\<lambda>e. ev_event_type e = Ev_SUBMITTED) h
      = list_ex (\<lambda>e. ev_event_type e = Ev_SUBMITTED) (map erase_event h)" for h
    by (induction h) (auto simp: approvals_def map_filter_def r)
  then have v: "view_of h od = view_of (map erase_event h) od" for h by (simp only: view_of_def)
  show ?thesis unfolding v [of h'] v [of h] eq ..
qed

lemma views_erase: "erase_book b' = erase_book b \<Longrightarrow> views b' = views b"
proof -
  assume eq: "erase_book b' = erase_book b"
  have v: "views c = map (\<lambda>(k, od). view_of (history_of c k) od) (bk_orders (erase_book c))" for c
    by (simp add: views_def erase_book_def comp_def case_prod_beta)
  have "view_of (history_of b' k) od = view_of (history_of b k) od" for k od
    by (rule view_history [OF history_erase [OF eq]])
  then show ?thesis unfolding v [of b'] v [of b] eq by (simp add: case_prod_beta)
qed

lemma keyed_erase: "erase_book b' = erase_book b \<Longrightarrow> keyed b' = keyed b"
proof -
  have k: "keyed c \<longleftrightarrow> keyed (erase_book c)" for c
    by (auto simp: keyed_def erase_book_def comp_def case_prod_beta image_image)
  show "erase_book b' = erase_book b \<Longrightarrow> keyed b' = keyed b" using k [of b'] k [of b] by simp
qed

lemma update_views:
  assumes "map_of d k = Some od" "g k od' = g k od"
  shows "map (\<lambda>(k, od). g k od) (AList.update k od' d) = map (\<lambda>(k, od). g k od) d"
  using assms by (induction d) (auto split: if_splits)

text \<open>An event that neither approves nor submits.\<close>

definition quiet :: "order_event_type \<Rightarrow> bool" where
  "quiet t \<longleftrightarrow> t \<noteq> Ev_RISK_APPROVED \<and> t \<noteq> Ev_SUBMITTED"

lemma view_frame: "Order_apply od e = Inr (Updated od') \<Longrightarrow> view_of h od' = view_of h od"
  using Order_apply_frame [of od e od'] by (simp add: view_of_def)

lemma apply_updated:
  assumes "OrderBook_apply now oid t f reason rd b = Inr (od', b')" "\<not> is_fill_event t"
  obtains od where "map_of (bk_orders b) oid = Some od"
    "Order_apply od (applied_event now oid t f reason rd (ord_lineage od) (length (bk_events b))) = Inr (Updated od')"
    "b' = \<lparr>bk_orders = AList.update oid od' (bk_orders b), bk_events = bk_events b
       @ [applied_event now oid t f reason rd (ord_lineage od) (length (bk_events b))]\<rparr>"
proof -
  have "Order_apply od e \<noteq> Inr Same" if "ev_event_type e = t" for od e
    using that assms(2) by (auto simp: Order_apply_def res_bind_def Let_def split: sum.splits if_splits)
  with assms(1) that show ?thesis
    by (auto simp: OrderBook_apply_Inr Let_def)
qed

lemma views_apply:
  assumes "OrderBook_apply now oid t f reason rd b = Inr (od', b')" "quiet t"
  shows "views b' = views b"
proof (cases "b' = b")
  case False
  from assms(1) obtain od where od: "map_of (bk_orders b) oid = Some od"
    "Order_apply od (applied_event now oid t f reason rd (ord_lineage od) (length (bk_events b))) = Inr (Updated od')"
    and b': "b' = \<lparr>bk_orders = AList.update oid od' (bk_orders b), bk_events = bk_events b
       @ [applied_event now oid t f reason rd (ord_lineage od) (length (bk_events b))]\<rparr>"
    using False by (auto simp: OrderBook_apply_Inr Let_def)
  have h: "view_of (history_of b' k) x = view_of (history_of b k) x" for k x
    using assms(2) unfolding b' history_of_def by (auto simp: view_of_def quiet_def)
  have "views b' = map (\<lambda>(k, x). view_of (history_of b k) x) (AList.update oid od' (bk_orders b))"
    by (simp add: views_def h) (simp add: b')
  also have "\<dots> = views b"
    unfolding views_def by (rule update_views [OF od(1)]) (rule view_frame [OF od(2)])
  finally show ?thesis .
qed simp

lemma keyed_apply:
  assumes "OrderBook_apply now oid t f reason rd b = Inr (od', b')" "keyed b"
  shows "keyed b'"
proof (cases "b' = b")
  case False
  from assms(1) obtain od where od: "map_of (bk_orders b) oid = Some od"
    "Order_apply od (applied_event now oid t f reason rd (ord_lineage od) (length (bk_events b))) = Inr (Updated od')"
    and b': "b' = \<lparr>bk_orders = AList.update oid od' (bk_orders b), bk_events = bk_events b
       @ [applied_event now oid t f reason rd (ord_lineage od) (length (bk_events b))]\<rparr>"
    using False by (auto simp: OrderBook_apply_Inr Let_def)
  have "ord_order_id od = oid" using od(1) assms(2) by (auto simp: keyed_def dest: map_of_SomeD)
  with Order_apply_frame [OF od(2)] have "ord_order_id od' = oid" by simp
  with assms(2) show ?thesis
    by (auto simp: keyed_def b' dom_update dest!: set_update_subset [THEN subsetD])
qed (use assms in simp)

text \<open>A new order comes last, without events but its first.\<close>

definition fresh_view :: "order \<Rightarrow> order_view" where
  "fresh_view od = view_of [] od"

lemma update_absent: "map_of d k = None \<Longrightarrow> AList.update k v d = d @ [(k, v)]"
  by (induction d) (auto split: if_splits)

lemma views_open:
  assumes "keyed b" "map_of (bk_orders b) oid = None" "ev_order_id e = oid" "ev_event_type e = Ev_CREATED"
  shows "views \<lparr>bk_orders = AList.update oid od (bk_orders b), bk_events = bk_events b @ [e]\<rparr> = views b @ [fresh_view od]"
proof -
  let ?b = "\<lparr>bk_orders = bk_orders b @ [(oid, od)], bk_events = bk_events b @ [e]\<rparr>"
  have old: "oid \<notin> fst ` set (bk_orders b)" using assms(2) by (simp add: map_of_eq_None_iff)
  then have none: "history_of b oid = []"
    using assms(1) by (auto simp: history_of_def keyed_def filter_empty_conv)
  have h: "history_of ?b k = (if k = oid then [e] else history_of b k)" for k
    using none assms(3) by (simp add: history_of_def)
  have "view_of [e] od = fresh_view od" using assms(4) by (simp add: view_of_def fresh_view_def)
  moreover have "map (\<lambda>(k, x). view_of (history_of ?b k) x) (bk_orders b) = views b"
    unfolding views_def using old by (intro map_cong refl) (force simp: h)
  ultimately show ?thesis unfolding update_absent [OF assms(2)] by (simp add: views_def h)
qed

text \<open>The last order is approved, and submitted.\<close>

lemma views_last:
  assumes "OrderBook_apply now oid t f reason rd b = Inr (od', b')" "\<not> is_fill_event t"
    and "bk_orders b = d @ [(oid, od)]" "keyed b"
  shows "\<exists>vs. views b = vs @ [view_of (history_of b oid) od]
    \<and> views b' = vs @ [view_of (history_of b oid @ [applied_event now oid t f reason rd (ord_lineage od) (length (bk_events b))]) od]
    \<and> bk_orders b' = d @ [(oid, od')]"
proof -
  have new: "oid \<notin> fst ` set d" using assms(3,4) by (simp add: keyed_def)
  then have m: "map_of (bk_orders b) oid = Some od"
    by (auto simp: assms(3) map_add_def map_of_eq_None_iff [symmetric] split: option.split)
  obtain e where e: "e = applied_event now oid t f reason rd (ord_lineage od) (length (bk_events b))"
      "Order_apply od e = Inr (Updated od')"
      "b' = \<lparr>bk_orders = AList.update oid od' (bk_orders b), bk_events = bk_events b @ [e]\<rparr>"
    using apply_updated [OF assms(1,2)] m by auto
  have upd: "AList.update oid od' (d @ [(oid, od)]) = d @ [(oid, od')]" using new by (induction d) auto
  have h: "history_of b' k = (if k = oid then history_of b k @ [e] else history_of b k)" for k
    by (simp add: e(3) history_of_def) (simp add: e(1))
  have b': "bk_orders b' = d @ [(oid, od')]" by (simp add: e(3) assms(3) upd)
  let ?vs = "map (\<lambda>(k, x). view_of (history_of b k) x) d"
  have "map (\<lambda>(k, x). view_of (history_of b' k) x) d = ?vs"
    using new by (intro map_cong refl) (force simp: h)
  moreover have "view_of hs od' = view_of hs od" for hs by (rule view_frame [OF e(2)])
  ultimately show ?thesis
    by (intro exI [of _ ?vs]) (simp add: views_def assms(3) h b' e(1) [symmetric])
qed

end
