(* ===== verification/Ledger_Reopen.thy ===== *)
theory Ledger_Reopen
  imports Session_View
begin

text \<open>
  A book and the ledger it was written to, across restarts: \<open>replays\<close> says that the ledger accepts appends and that
  its replay is the book, up to clocks and prices; \<open>recovers\<close> that it will be so once the ledger is opened again, with what the book then says of the sessions.
\<close>

definition reopen :: "ledger \<Rightarrow> ledger" where
  "reopen led = led\<lparr>led_write_failure := False\<rparr>"

definition replays :: "chain_digest \<Rightarrow> digest \<Rightarrow> order_book \<times> ledger \<Rightarrow> bool" where
  "replays D H st \<longleftrightarrow> (case st of (b, led) \<Rightarrow>
     keyed b \<and> (\<exists>b0. (\<forall>clock. mirrored D H clock (b0, led)) \<and> erase_book b0 = erase_book b))"

definition recovers :: "chain_digest \<Rightarrow> digest \<Rightarrow> ledger \<Rightarrow> order_view list \<Rightarrow> bool" where
  "recovers D H led vs \<longleftrightarrow> (\<exists>b. replays D H (b, reopen led) \<and> views b = vs)"

lemma replays_keyed: "replays D H (b, led) \<Longrightarrow> keyed b"
  by (simp add: replays_def)

lemma replays_open: "replays D H (b, led) \<Longrightarrow> \<not> led_write_failure led"
  by (auto simp: replays_def mirrored_def)

lemma reopen_simps [simp]:
  "\<not> led_write_failure led \<Longrightarrow> reopen led = led"
  "reopen (led\<lparr>led_write_failure := f\<rparr>) = reopen led"
  "led_records (reopen led) = led_records led"
  "led_durable (reopen led) = led_durable led"
  by (cases led; simp add: reopen_def)+

lemma replays_recovers: "replays D H (b, led) \<Longrightarrow> recovers D H led (views b)"
  using replays_open [of D H b led] by (auto simp: recovers_def)

lemma failed_recovers: "replays D H (b, led) \<Longrightarrow> recovers D H (led\<lparr>led_write_failure := True\<rparr>) (views b)"
  using replays_open [of D H b led] by (auto simp: recovers_def)

lemma replays_new: "replays D H (empty_book, new_ledger durable)"
  by (auto simp: replays_def intro!: exI [of _ empty_book] mirrored_new)

lemma replays_lineage: "replays D H (b, led) \<Longrightarrow> map_of (bk_orders b) oid = Some od \<Longrightarrow> no_empty_field (ord_lineage od)"
proof -
  assume r: "replays D H (b, led)" and od: "map_of (bk_orders b) oid = Some od"
  then obtain b0 where b0: "mirrored D H clock (b0, led)" "erase_book b0 = erase_book b" for clock by (auto simp: replays_def)
  from erase_book_lookup [OF b0(2), of oid] od obtain o0 where "map_of (bk_orders b0) oid = Some o0" "erase_order o0 = erase_order od"
    by auto
  moreover from this(1) b0(1) have "no_empty_field (ord_lineage o0)" by (auto simp: mirrored_def)
  ultimately show ?thesis using erase_order_lineage [of o0 od] by simp
qed

lemma replays_reopened:
  assumes "recovers D H led vs" "replay_book D H clock (reopen led) = Inr b"
  shows "replays D H (b, reopen led) \<and> views b = vs"
proof -
  obtain b1 b0 where b: "keyed b1" "\<forall>clock. mirrored D H clock (b0, reopen led)" "erase_book b0 = erase_book b1" "views b1 = vs"
    using assms(1) by (auto simp: recovers_def replays_def)
  obtain b' where "replay_book D H clock (reopen led) = Inr b'" "erase_book b' = erase_book b0"
    by (rule mirrored_replay [OF b(2) [rule_format]])
  with assms(2) have "erase_book b0 = erase_book b" by simp
  with b keyed_erase [of b b1] views_erase [of b b1] show ?thesis by (auto simp: replays_def)
qed

lemma replay_total:
  assumes "recovers D H led vs"
  obtains b where "replay_book D H clock (reopen led) = Inr b"
proof -
  obtain b0 where "mirrored D H clock (b0, reopen led)" using assms by (auto simp: recovers_def replays_def)
  from mirrored_replay [OF this] that show ?thesis by blast
qed

section \<open>Opening an order\<close>

lemma append_failed: "append D w now' e td i ca led = (Inl x, led') \<Longrightarrow> led' = led \<or> led' = led\<lparr>led_write_failure := True\<rparr>"
  by (auto simp: append_cases Let_def split: if_splits)

lemma open_book:
  assumes "mirror_open D H w now now' i td p (b, led) = (Inr od, b', led')"
  shows "od = Order_from_intent H i p \<and> map_of (bk_orders b) (ord_order_id od) = None
    \<and> b' = \<lparr>bk_orders = AList.update (ord_order_id od) od (bk_orders b),
            bk_events = bk_events b @ [created_event now od (length (bk_events b))]\<rparr>"
proof (cases "map_of (bk_orders b) (ord_order_id (Order_from_intent H i p))")
  case None
  with assms show ?thesis by (auto simp: mirror_open_def OrderBook_open_new Let_def split: prod.splits sum.splits if_splits)
next
  case (Some x)
  with assms show ?thesis by (simp add: mirror_open_def OrderBook_open_known)
qed

lemma open_keyed: "mirror_open D H w now now' i td p (b, led) = (Inr od, b', led') \<Longrightarrow> keyed b \<Longrightarrow> keyed b'"
  by (drule open_book) (auto simp: keyed_def dom_update dest!: set_update_subset [THEN subsetD])

lemma replays_mirror_open:
  assumes r: "replays D H (b, led)" and i: "no_empty_field (oi_lineage i)" "p \<noteq> Some []"
    and run: "mirror_open D H w now now' i td p (b, led) = (x, b', led')"
  shows "case x of Inl e \<Rightarrow> recovers D H led' (views b) | Inr od \<Rightarrow> replays D H (b', led')"
proof (cases x)
  case (Inl e)
  have "led' = led \<or> led' = led\<lparr>led_write_failure := True\<rparr>"
    using run Inl append_failed by (fastforce simp: mirror_open_def Let_def split: prod.splits sum.splits if_splits)
  with replays_recovers [OF r] failed_recovers [OF r] Inl show ?thesis by auto
next
  case (Inr od)
  obtain b0 where b0: "\<forall>clock. mirrored D H clock (b0, led)" "erase_book b0 = erase_book b" and k: "keyed b"
    using r by (auto simp: replays_def)
  have nf: "\<not> led_write_failure led" by (rule replays_open [OF r])
  have run1: "mirror_open D H True now now' i td p (b, led) = (Inr od, b', led')"
    using mirror_open_durable run Inr by simp
  note ob = open_book [OF run1]
  then have od: "od = Order_from_intent H i p" and new: "map_of (bk_orders b) (ord_order_id od) = None" by blast+
  have new0: "map_of (bk_orders b0) (ord_order_id od) = None"
    using erase_book_lookup [OF b0(2), of "ord_order_id od"] new by simp
  let ?e = "created_event now od (length (bk_events b))"
  let ?b0 = "\<lparr>bk_orders = AList.update (ord_order_id od) od (bk_orders b0), bk_events = bk_events b0 @ [?e]\<rparr>"
  have len: "length (bk_events b0) = length (bk_events b)" by (rule erase_book_length [OF b0(2)])
  have "snd (mirror_open D H True now now' i td p (b, led)) = (b', led')" by (simp add: run1)
  then have "snd (mirror_open D H True now now' i td p (b0, led)) = (?b0, led')"
    using new new0 unfolding mirror_open_cases [OF nf] od [symmetric] by (auto simp: Let_def len)
  then have "\<forall>clock. mirrored D H clock (?b0, led')"
    using mirrored_open [OF b0(1) [rule_format] i, where now = now and now' = now' and td = td] by simp
  moreover have "erase_book ?b0 = erase_book b'"
    using erase_book_snoc [OF b0(2) refl refl] ob by simp
  ultimately show ?thesis using Inr open_keyed [OF run1 k] by (auto simp: replays_def)
qed

section \<open>Applying an event\<close>

lemma mirror_event_updated:
  assumes "\<not> led_write_failure led" "map_of (bk_orders b) oid = Some od"
    and "e = applied_event now oid t f reason rd (ord_lineage od) (length (bk_events b))"
    and "Order_apply od e = Inr (Updated od')"
  shows "snd (mirror_event D True now now' oid t td f reason rd (b, led)) =
    (\<lparr>bk_orders = AList.update oid od' (bk_orders b), bk_events = bk_events b @ [e]\<rparr>,
     let r = appended_record D now' (Some e) td None None led in led\<lparr>led_records := led_records led @ [r], led_head := lr_record_hash r\<rparr>)"
proof -
  have "OrderBook_apply now oid t f reason rd b =
      Inr (od', \<lparr>bk_orders = AList.update oid od' (bk_orders b), bk_events = bk_events b @ [e]\<rparr>)"
    using assms by (simp add: OrderBook_apply_Inr Let_def)
  moreover have "ev_order_id e = oid" by (simp add: assms(3))
  ultimately show ?thesis
    using assms(1) by (simp add: mirror_event_def history_of_def append_cases Let_def)
qed

lemma replays_mirror_event:
  assumes r: "replays D H (b, led)" and ok: "pred_option storable_fill f" "pred_option storable_risk rd"
    and run: "mirror_event D w now now' oid t td f reason rd (b, led) = (x, b', led')"
  shows "case x of Inl e \<Rightarrow> recovers D H led' (views b) | Inr od \<Rightarrow> replays D H (b', led')"
proof (cases x)
  case (Inl e)
  have "led' = led \<or> led' = led\<lparr>led_write_failure := True\<rparr>"
    using run Inl append_failed by (fastforce simp: mirror_event_def Let_def split: prod.splits sum.splits if_splits)
  with replays_recovers [OF r] failed_recovers [OF r] Inl show ?thesis by auto
next
  case (Inr od')
  obtain b0 where b0: "\<forall>clock. mirrored D H clock (b0, led)" "erase_book b0 = erase_book b" and k: "keyed b"
    using r by (auto simp: replays_def)
  have nf: "\<not> led_write_failure led" by (rule replays_open [OF r])
  have run1: "mirror_event D True now now' oid t td f reason rd (b, led) = (Inr od', b', led')"
    using mirror_event_durable run Inr by simp
  have kb: "keyed b'"
    using run1 keyed_apply [OF _ k] by (auto simp: mirror_event_def split: sum.splits prod.splits if_splits)
  from nf show ?thesis
  proof (cases rule: mirror_event_cases [of led D now now' oid t td f reason rd b])
    case none
    with run1 Inr r show ?thesis by simp
  next
    case (some od e od1 rec)
    from erase_book_lookup [OF b0(2), of oid] some(1) obtain o0 where o0: "map_of (bk_orders b0) oid = Some o0"
        "erase_order o0 = erase_order od" by auto
    have e0: "e = applied_event now oid t f reason rd (ord_lineage o0) (length (bk_events b0))"
      using some(2) erase_order_lineage [OF o0(2)] erase_book_length [OF b0(2)] by simp
    obtain o1 where o1: "Order_apply o0 e = Inr (Updated o1)" "erase_order o1 = erase_order od1"
      by (rule Order_apply_similar [OF o0(2) refl some(3)])
    let ?b0 = "\<lparr>bk_orders = AList.update oid o1 (bk_orders b0), bk_events = bk_events b0 @ [e]\<rparr>"
    have "snd (mirror_event D True now now' oid t td f reason rd (b0, led)) = (?b0, led')"
      using mirror_event_updated [OF nf o0(1) e0 o1(1)] some(4,5) run1 by (simp add: Let_def)
    then have "\<forall>clock. mirrored D H clock (?b0, led')"
      using mirrored_event [OF b0(1) [rule_format] ok, where now = now and now' = now' and oid = oid and t = t and td = td and reason = reason] by simp
    moreover have "erase_book ?b0 = erase_book b'"
      using erase_book_snoc [OF b0(2) o1(2) refl] some(5) run1 by simp
    ultimately show ?thesis using Inr kb by (auto simp: replays_def)
  qed
qed

end
