(* ===== verification/Oms_Steps.thy ===== *)
theory Oms_Steps
  imports Step_Rules Ledger_Reopen Constraint_Props
begin

text \<open>
  What each step of a submission keeps: the ledger replays to the book, and the memory of the session (its counts and
  its risk intents) is what the book says.
\<close>

section \<open>The invariant of a running manager\<close>

definition production :: "'b oms \<Rightarrow> bool" where
  "production cfg \<longleftrightarrow> bo_production (om_broker cfg)"

lemma requires_production [simp]: "requires_production_pretrade cfg = production cfg"
  by (simp add: requires_production_pretrade_def production_def)

text \<open>The counts, but for one order of the symbol \<open>lag\<close> that is on its way.\<close>

definition tallied :: "string option \<Rightarrow> string \<Rightarrow> 'b manager \<Rightarrow> bool" where
  "tallied lag s m \<longleftrightarrow> (\<forall>y. dict_get (mg_counts_today m) y 0 + (if lag = Some y then 1 else 0) = n_sent (views (mg_book m)) s y)"

definition informed :: "'b oms \<Rightarrow> string \<Rightarrow> 'b manager \<Rightarrow> bool" where
  "informed cfg s m \<longleftrightarrow> (if mg_risk_errors m = [] then session_intents cfg (views (mg_book m)) s = Inr (mg_risk_intents m)
     else isl (session_intents cfg (views (mg_book m)) s))"

definition memory_ok :: "'b oms \<Rightarrow> 'b manager \<Rightarrow> bool" where
  "memory_ok cfg m \<longleftrightarrow>
     (if production cfg then \<forall>s. mg_risk_session m = Some s \<longrightarrow> tallied None s m \<and> informed cfg s m
      else \<forall>s. mg_count_session m = Some s \<longrightarrow> tallied None s m)"

definition on_record :: "'b oms \<Rightarrow> 'b manager \<Rightarrow> bool" where
  "on_record cfg m \<longleftrightarrow> replays (om_chain cfg) (om_digest cfg) (mg_book m, mg_ledger m)"

definition running :: "'b oms \<Rightarrow> 'b manager \<Rightarrow> bool" where
  "running cfg m \<longleftrightarrow> on_record cfg m \<and> memory_ok cfg m"

text \<open>A step raised midway: the ledger, opened again, gives a book with the submissions \<open>m\<close> had.\<close>

definition same_counts :: "order_view list \<Rightarrow> order_view list \<Rightarrow> bool" where
  "same_counts vs vs' \<longleftrightarrow> (\<forall>s y. n_sent vs' s y = n_sent vs s y)"

lemma same_counts_refl [simp]: "same_counts vs vs"
  by (simp add: same_counts_def)

lemma same_counts_trans: "same_counts vs vs' \<Longrightarrow> same_counts vs' vs'' \<Longrightarrow> same_counts vs vs''"
  by (simp add: same_counts_def)

definition halted :: "'b oms \<Rightarrow> 'b manager \<Rightarrow> 'b manager \<Rightarrow> bool" where
  "halted cfg m m' \<longleftrightarrow>
     (\<exists>vs. recovers (om_chain cfg) (om_digest cfg) (mg_ledger m') vs \<and> same_counts (views (mg_book m)) vs)"

lemma halted_from: "halted cfg m1 m' \<Longrightarrow> same_counts (views (mg_book m)) (views (mg_book m1)) \<Longrightarrow> halted cfg m m'"
  by (auto simp: halted_def intro: same_counts_trans)

lemma recovers_halted: "recovers (om_chain cfg) (om_digest cfg) (mg_ledger m') (views (mg_book m)) \<Longrightarrow> halted cfg m m'"
  by (auto simp: halted_def)

lemma on_record_halted: "on_record cfg m \<Longrightarrow> halted cfg m m"
  by (intro recovers_halted) (simp add: on_record_def replays_recovers)

lemma running_halted: "running cfg m \<Longrightarrow> halted cfg m m"
  by (simp add: running_def on_record_halted)

text \<open>What the invariant does not see, and what a step on book and ledger leaves.\<close>

lemma unseen [simp]:
  "running cfg (m\<lparr>mg_client_order_ids := a\<rparr>) = running cfg m"
  "running cfg (m\<lparr>mg_wire := w\<rparr>) = running cfg m"
  "running cfg (m\<lparr>mg_claims := c, mg_file := f\<rparr>) = running cfg m"
  "running cfg (m\<lparr>mg_broker := b\<rparr>) = running cfg m"
  "on_record cfg (m\<lparr>mg_client_order_ids := a\<rparr>) = on_record cfg m"
  "on_record cfg (m\<lparr>mg_wire := w\<rparr>) = on_record cfg m"
  "on_record cfg (m\<lparr>mg_claims := c, mg_file := f\<rparr>) = on_record cfg m"
  "on_record cfg (m\<lparr>mg_broker := b\<rparr>) = on_record cfg m"
  "halted cfg n (m\<lparr>mg_client_order_ids := a\<rparr>) = halted cfg n m"
  "halted cfg n (m\<lparr>mg_wire := w\<rparr>) = halted cfg n m"
  "halted cfg n (m\<lparr>mg_claims := c, mg_file := f\<rparr>) = halted cfg n m"
  "halted cfg n (m\<lparr>mg_broker := b\<rparr>) = halted cfg n m"
  by (simp_all add: running_def on_record_def halted_def memory_ok_def tallied_def informed_def)

definition same_memory :: "'b manager \<Rightarrow> 'b manager \<Rightarrow> bool" where
  "same_memory m m' \<longleftrightarrow> mg_counts_today m' = mg_counts_today m \<and> mg_count_session m' = mg_count_session m
     \<and> mg_risk_intents m' = mg_risk_intents m \<and> mg_risk_session m' = mg_risk_session m \<and> mg_risk_errors m' = mg_risk_errors m"

lemma same_memory_simps [simp]:
  "same_memory m m"
  "same_memory m (m'\<lparr>mg_client_order_ids := a\<rparr>) = same_memory m m'"
  "same_memory m (m'\<lparr>mg_wire := w\<rparr>) = same_memory m m'"
  "same_memory m (m'\<lparr>mg_claims := c, mg_file := f\<rparr>) = same_memory m m'"
  "same_memory m (m'\<lparr>mg_broker := b\<rparr>) = same_memory m m'"
  "same_memory m (m'\<lparr>mg_book := k\<rparr>) = same_memory m m'"
  "same_memory m (m'\<lparr>mg_ledger := l\<rparr>) = same_memory m m'"
  by (simp_all add: same_memory_def)

lemma same_memory_trans: "same_memory m m' \<Longrightarrow> same_memory m' m'' \<Longrightarrow> same_memory m m''"
  by (simp add: same_memory_def)

definition same_desk :: "'b manager \<Rightarrow> 'b manager \<Rightarrow> bool" where
  "same_desk m m' \<longleftrightarrow> same_memory m m' \<and> mg_broker m' = mg_broker m \<and> mg_claims m' = mg_claims m \<and> mg_file m' = mg_file m"

lemma same_desk_simps [simp]:
  "same_desk m m"
  "same_desk m (m'\<lparr>mg_client_order_ids := a\<rparr>) = same_desk m m'"
  "same_desk m (m'\<lparr>mg_wire := w\<rparr>) = same_desk m m'"
  "same_desk m (m'\<lparr>mg_book := k\<rparr>) = same_desk m m'"
  "same_desk m (m'\<lparr>mg_ledger := l\<rparr>) = same_desk m m'"
  by (simp_all add: same_desk_def)

lemma same_desk_trans: "same_desk m m' \<Longrightarrow> same_desk m' m'' \<Longrightarrow> same_desk m m''"
  by (auto simp: same_desk_def intro: same_memory_trans)

lemma memory_views: "same_memory m m' \<Longrightarrow> views (mg_book m') = views (mg_book m) \<Longrightarrow> memory_ok cfg m' = memory_ok cfg m"
  by (simp add: memory_ok_def same_memory_def tallied_def informed_def)

section \<open>One event\<close>

lemma record_event_mirror:
  assumes "\<not> is_fill_event t"
  shows "record_event cfg env oid t reason rd td m =
    (case mirror_event (om_chain cfg) (oe_write env (length (led_records (mg_ledger m))))
        (oe_event_time env (length (bk_events (mg_book m)))) (oe_record_time env (length (led_records (mg_ledger m))))
        oid t td None reason rd (mg_book m, mg_ledger m) of
      (r, book, led) \<Rightarrow> (res_bind r (\<lambda>_. Inr ()), m\<lparr>mg_book := book, mg_ledger := led\<rparr>))"
proof (cases "OrderBook_apply (oe_event_time env (length (bk_events (mg_book m)))) oid t None reason rd (mg_book m)")
  case (Inl e)
  then show ?thesis by (simp add: record_event_def book_apply_def and_then_def mirror_event_def)
next
  case (Inr r)
  then obtain od' book where ob: "OrderBook_apply (oe_event_time env (length (bk_events (mg_book m)))) oid t None reason rd (mg_book m)
      = Inr (od', book)" by (cases r) simp
  have "length (bk_events (mg_book m)) < length (bk_events book)"
    by (rule apply_updated [OF ob assms]) simp
  with ob show ?thesis
    by (simp add: record_event_def book_apply_def and_then_def mirror_event_def append_last_def split: prod.split sum.split)
qed

lemma recorded_append:
  assumes "mirror_event D w now now' oid t td None reason rd (b, led) = (Inr od', b', led')" "\<not> is_fill_event t"
    and "replays D H (b, led)" "pred_option storable_risk rd"
  shows "\<exists>r e. OrderBook_apply now oid t None reason rd b = Inr (od', b') \<and> led_records led' = led_records led @ [r]
    \<and> lr_event r = Some e \<and> ev_event_type e = t \<and> ev_order_id e = oid"
proof -
  from assms(1) have ob: "OrderBook_apply now oid t None reason rd b = Inr (od', b')"
    by (auto simp: mirror_event_def split: sum.splits prod.splits if_splits)
  obtain od where od: "map_of (bk_orders b) oid = Some od"
    and b': "b' = \<lparr>bk_orders = AList.update oid od' (bk_orders b), bk_events = bk_events b
       @ [applied_event now oid t None reason rd (ord_lineage od) (length (bk_events b))]\<rparr>"
    by (rule apply_updated [OF ob assms(2)])
  let ?e = "applied_event now oid t None reason rd (ord_lineage od) (length (bk_events b))"
  have "storable_event ?e"
    using replays_lineage [OF assms(3) od] assms(4) by (simp add: storable_event_def applied_event_def)
  then have "lr_event (appended_record D now' (Some ?e) td None None led) = Some ?e" by (rule record_event)
  moreover have "last (history_of b' oid) = ?e" by (simp add: b' history_of_def)
  ultimately show ?thesis
    using assms(1) ob replays_open [OF assms(3)]
    by (auto simp: mirror_event_def b' append_cases Let_def split: if_splits)
qed

lemma record_event_ok:
  assumes "on_record cfg m" "\<not> is_fill_event t" "pred_option storable_risk rd"
  shows "ends (record_event cfg env oid t reason rd td m)
    (\<lambda>_ m'. on_record cfg m' \<and> same_desk m m'
       \<and> (\<exists>now od' r e. OrderBook_apply now oid t None reason rd (mg_book m) = Inr (od', mg_book m')
            \<and> led_records (mg_ledger m') = led_records (mg_ledger m) @ [r]
            \<and> lr_event r = Some e \<and> ev_event_type e = t \<and> ev_order_id e = oid))
    (\<lambda>m'. halted cfg m m' \<and> same_desk m m')"
proof -
  let ?n = "length (led_records (mg_ledger m))" and ?now = "oe_event_time env (length (bk_events (mg_book m)))"
  have rep: "replays (om_chain cfg) (om_digest cfg) (mg_book m, mg_ledger m)" using assms(1) by (simp add: on_record_def)
  obtain x b' led' where run: "mirror_event (om_chain cfg) (oe_write env ?n) ?now (oe_record_time env ?n)
      oid t td None reason rd (mg_book m, mg_ledger m) = (x, b', led')" by (metis prod_cases3)
  note k = replays_mirror_event [OF rep _ assms(3) run, simplified]
  show ?thesis
  proof (cases x)
    case (Inl e)
    with k show ?thesis by (simp add: record_event_mirror [OF assms(2)] run recovers_halted)
  next
    case (Inr od')
    with k recorded_append [OF run [unfolded Inr] assms(2) rep assms(3)] show ?thesis
      by (simp add: record_event_mirror [OF assms(2)] run on_record_def) blast
  qed
qed

end
