(* ===== verification/Oms_Stages.thy ===== *)
theory Oms_Stages
  imports Oms_Steps
begin

text \<open>The stages of a submission up to the broker: the canonical order, the decision, the approval.\<close>

section \<open>The canonical order\<close>

text \<open>The order just opened for a request stands last in the book and has no history yet.\<close>

definition pending :: "wire_order \<Rightarrow> string \<Rightarrow> order \<Rightarrow> 'b manager \<Rightarrow> bool" where
  "pending od s c m \<longleftrightarrow>
     (\<exists>d. bk_orders (mg_book m) = d @ [(ord_order_id c, c)])
     \<and> view_of (history_of (mg_book m) (ord_order_id c)) c = fresh_view c
     \<and> ord_symbol c = wo_symbol od \<and> ord_side c = wo_side od \<and> ord_quantity c = wo_quantity od \<and> ord_trade_date c = s
     \<and> ord_status c = PENDING_RISK \<and> no_empty_field (ord_lineage c)"

lemma pending_simps [simp]:
  "pending od s c (m\<lparr>mg_client_order_ids := a\<rparr>) = pending od s c m"
  "pending od s c (m\<lparr>mg_wire := w\<rparr>) = pending od s c m"
  by (simp_all add: pending_def)

lemma signal_lineage: "no_empty_field L \<Longrightarrow> no_empty_field (sig_lineage (Signal_create H now symbol td score L))"
  by (simp add: Signal_create_def Let_def no_empty_field_update content_id_nonempty)

lemma intent_fields:
  assumes "OrderIntent_create H now symbol sd q td L lp rp = Inr i" "no_empty_field L"
  shows "oi_symbol i = symbol \<and> oi_side i = sd \<and> oi_quantity i = q \<and> oi_trade_date i = td \<and> no_empty_field (oi_lineage i) \<and> 0 < q"
  using assms by (auto simp: OrderIntent_create_def Let_def no_empty_field_update content_id_nonempty split: if_splits)

lemma sent_fresh [simp]: "sent (vs @ [fresh_view c]) s = sent vs s"
  by (simp add: sent_def fresh_view_def view_of_def)

lemma fresh_unseen [simp]:
  "n_sent (vs @ [fresh_view c]) s y = n_sent vs s y"
  "session_intents cfg (vs @ [fresh_view c]) s = session_intents cfg vs s"
  by (simp_all add: n_sent_def session_intents_def)

lemma memory_fresh:
  "same_memory m m' \<Longrightarrow> views (mg_book m') = views (mg_book m) @ [fresh_view c] \<Longrightarrow> memory_ok cfg m' = memory_ok cfg m"
  by (simp add: memory_ok_def same_memory_def tallied_def informed_def)

lemma open_canonical_ok:
  assumes run: "running cfg m" and L: "no_empty_field (om_lineage cfg)"
  shows "ends (open_canonical_pending cfg env od m)
    (\<lambda>c m'. running cfg m' \<and> same_desk m m' \<and> views (mg_book m') = views (mg_book m) @ [fresh_view c]
       \<and> (\<exists>s. exchange_session cfg (wo_timestamp od) = Inr s \<and> pending od s c m'))
    (\<lambda>m'. halted cfg m m' \<and> same_desk m m')"
proof -
  let ?H = "om_digest cfg" and ?n = "length (led_records (mg_ledger m))" and ?now = "oe_event_time env (length (bk_events (mg_book m)))"
  have rep: "replays (om_chain cfg) ?H (mg_book m, mg_ledger m)" using run by (simp add: running_def on_record_def)
  have h: "halted cfg m m" by (rule running_halted [OF run])
  have main: "case mirror_open (om_chain cfg) ?H (oe_write env ?n) ?now (oe_record_time env ?n) i (Some s) None (mg_book m, mg_ledger m) of
        (r, book, led) \<Rightarrow> ends (r, m\<lparr>mg_book := book, mg_ledger := led\<rparr>)
          (\<lambda>c m'. running cfg m' \<and> same_desk m m' \<and> views (mg_book m') = views (mg_book m) @ [fresh_view c] \<and> pending od s c m') (\<lambda>m'. halted cfg m m' \<and> same_desk m m')"
    if i: "OrderIntent_create ?H ?now (wo_symbol od) (wo_side od) (wo_quantity od) s (sig_lineage (Signal_create ?H ?now (wo_symbol od)
             (s @ ''-'' @ or_text (wo_signal_id od) ''manual'') 0 (om_lineage cfg))) None (wo_price od) = Inr i" for i s
  proof -
    note f = intent_fields [OF i signal_lineage [OF L]]
    obtain x b' led' where mo: "mirror_open (om_chain cfg) ?H (oe_write env ?n) ?now (oe_record_time env ?n) i (Some s) None
        (mg_book m, mg_ledger m) = (x, b', led')" by (metis prod_cases3)
    have k: "case x of Inl e \<Rightarrow> recovers (om_chain cfg) ?H led' (views (mg_book m)) | Inr od \<Rightarrow> replays (om_chain cfg) ?H (b', led')"
      by (rule replays_mirror_open [OF rep _ _ mo]) (use f in simp_all)
    show ?thesis
    proof (cases x)
      case (Inl e)
      with k mo show ?thesis by (simp add: recovers_halted)
    next
      case (Inr c)
      note ob = open_book [OF mo [unfolded Inr]]
      have kb: "keyed (mg_book m)" by (rule replays_keyed [OF rep])
      have new: "map_of (bk_orders (mg_book m)) (ord_order_id c) = None" using ob by blast
      have v: "views b' = views (mg_book m) @ [fresh_view c]"
        using ob views_open [OF kb new] by simp
      have none: "history_of (mg_book m) (ord_order_id c) = []"
        using kb new unfolding keyed_def history_of_def filter_empty_conv map_of_eq_None_iff by metis
      have p: "pending od s c (m\<lparr>mg_book := b', mg_ledger := led'\<rparr>)"
      proof -
        have "bk_orders b' = bk_orders (mg_book m) @ [(ord_order_id c, c)]" using ob update_absent [OF new] by simp
        moreover have "history_of b' (ord_order_id c) = [created_event ?now c (length (bk_events (mg_book m)))]"
          using ob none by (simp add: history_of_def)
        moreover have "c = Order_from_intent ?H i None" using ob by blast
        moreover have "no_empty_field (ord_lineage (Order_from_intent ?H i None))" using f by (intro lineage_from_intent) simp_all
        ultimately show ?thesis using f
          by (auto simp: pending_def view_of_def fresh_view_def Order_from_intent_def Let_def)
      qed
      have "memory_ok cfg (m\<lparr>mg_book := b', mg_ledger := led'\<rparr>)"
        using memory_fresh [of m "m\<lparr>mg_book := b', mg_ledger := led'\<rparr>" c cfg] run v by (simp add: running_def)
      with k mo Inr p v show ?thesis by (simp add: running_def on_record_def)
    qed
  qed
  show ?thesis unfolding open_canonical_pending_def Let_def
    by (intro ends_pure_then) (use h main in \<open>auto simp: case_prod_beta intro: ends_mono\<close>)
qed

section \<open>Restoring the memory of a session\<close>

lemma restore_fold:
  fixes cfg :: "'b oms" and m :: "'b manager"
  defines "fin \<equiv> \<lambda>ods m. foldl (restore_order cfg) m ods"
  shows "mg_book (fin ods m) = mg_book m \<and> mg_ledger (fin ods m) = mg_ledger m \<and> mg_broker (fin ods m) = mg_broker m
    \<and> mg_claims (fin ods m) = mg_claims m \<and> mg_file (fin ods m) = mg_file m \<and> mg_count_session (fin ods m) = mg_count_session m
    \<and> mg_risk_session (fin ods m) = mg_risk_session m \<and> mg_wire (fin ods m) = mg_wire m
    \<and> mg_counts_today (fin ods m) = foldl (\<lambda>d od. count_order od d) (mg_counts_today m) ods
    \<and> (if mg_risk_errors (fin ods m) = [] then mg_risk_errors m = [] \<and>
          (\<exists>is. map_res (recovered_intent cfg (mg_book m)) ods = Inr is \<and> mg_risk_intents (fin ods m) = mg_risk_intents m @ is)
        else mg_risk_errors m \<noteq> [] \<or> isl (map_res (recovered_intent cfg (mg_book m)) ods))"
proof (induction ods arbitrary: m)
  case Nil
  then show ?case by (simp add: fin_def)
next
  case (Cons od ods)
  let ?m = "restore_order cfg m od"
  have "fin (od # ods) m = fin ods ?m" by (simp add: fin_def)
  moreover have "mg_book ?m = mg_book m \<and> mg_ledger ?m = mg_ledger m \<and> mg_broker ?m = mg_broker m
    \<and> mg_claims ?m = mg_claims m \<and> mg_file ?m = mg_file m \<and> mg_count_session ?m = mg_count_session m
    \<and> mg_risk_session ?m = mg_risk_session m \<and> mg_wire ?m = mg_wire m \<and> mg_counts_today ?m = count_order od (mg_counts_today m)
    \<and> (case recovered_intent cfg (mg_book m) od of Inl _ \<Rightarrow> mg_risk_errors ?m \<noteq> []
       | Inr i \<Rightarrow> mg_risk_errors ?m = mg_risk_errors m \<and> mg_risk_intents ?m = mg_risk_intents m @ [i])"
    by (simp add: restore_order_def Let_def split: sum.split)
  moreover have "isl (res_bind r f)" if "isl r" for r :: "intent_record list res" and f :: "intent_record list \<Rightarrow> intent_record list res"
    using that by (cases r) simp_all
  ultimately show ?case using Cons.IH [of ?m] by (auto split: sum.splits if_splits)
qed

lemma restore_ok:
  assumes "running cfg m" "production cfg"
  shows "running cfg (restore_daily_risk cfg s m) \<and> mg_risk_session (restore_daily_risk cfg s m) = Some s
    \<and> mg_book (restore_daily_risk cfg s m) = mg_book m \<and> mg_ledger (restore_daily_risk cfg s m) = mg_ledger m
    \<and> mg_broker (restore_daily_risk cfg s m) = mg_broker m \<and> mg_claims (restore_daily_risk cfg s m) = mg_claims m
    \<and> mg_file (restore_daily_risk cfg s m) = mg_file m"
proof (cases "mg_risk_session m = Some s")
  case True
  with assms show ?thesis by (simp add: restore_daily_risk_def)
next
  case False
  let ?m = "m\<lparr>mg_risk_session := Some s, mg_risk_intents := [], mg_risk_errors := [], mg_counts_today := []\<rparr>"
  let ?ods = "submitted_orders (mg_book m) s"
  have k: "keyed (mg_book m)" using assms(1) by (auto simp: running_def on_record_def dest: replays_keyed)
  note f = restore_fold [of cfg ?m ?ods]
  have "tallied None s (foldl (restore_order cfg) ?m ?ods)" "informed cfg s (foldl (restore_order cfg) ?m ?ods)"
    using f counted_orders [OF k, of s] session_intents_orders [OF k, of cfg s] by (auto simp: tallied_def informed_def)
  with f assms False show ?thesis
    by (simp add: restore_daily_risk_def running_def on_record_def memory_ok_def)
qed

definition limit_left :: "'b oms \<Rightarrow> string \<Rightarrow> string \<Rightarrow> 'b manager \<Rightarrow> bool" where
  "limit_left cfg s y m \<longleftrightarrow> n_sent (views (mg_book m)) s y < om_max_orders_per_symbol_per_day cfg"

definition session_known :: "'b oms \<Rightarrow> string \<Rightarrow> 'b manager \<Rightarrow> bool" where
  "session_known cfg s m \<longleftrightarrow> (if production cfg then mg_risk_session m = Some s else mg_count_session m = Some s)"

definition same_store :: "'b manager \<Rightarrow> 'b manager \<Rightarrow> bool" where
  "same_store m m' \<longleftrightarrow> mg_book m' = mg_book m \<and> mg_ledger m' = mg_ledger m \<and> mg_broker m' = mg_broker m
     \<and> mg_claims m' = mg_claims m \<and> mg_file m' = mg_file m"

lemma same_store_refl [simp]: "same_store m m"
  by (simp add: same_store_def)

lemma same_store_trans: "same_store m m' \<Longrightarrow> same_store m' m'' \<Longrightarrow> same_store m m''"
  by (simp add: same_store_def)

lemma restore_store:
  "running cfg m \<Longrightarrow> production cfg \<Longrightarrow> same_store m (restore_daily_risk cfg s m)"
  by (simp add: same_store_def restore_ok)

lemma orders_today_ok:
  assumes "running cfg m" "symbol_orders_today cfg s y m = (n, m')"
  shows "running cfg m' \<and> session_known cfg s m' \<and> same_store m m' \<and> n = n_sent (views (mg_book m')) s y"
proof (cases "production cfg")
  case True
  let ?m = "restore_daily_risk cfg s m"
  from assms(2) True have m': "m' = ?m\<lparr>mg_count_session := Some s\<rparr>" "n = dict_get (mg_counts_today ?m) y 0"
    by (auto simp: symbol_orders_today_def Let_def)
  note r = restore_ok [OF assms(1) True, of s]
  then have "tallied None s ?m" using True by (simp add: running_def memory_ok_def)
  with r restore_store [OF assms(1) True, of s] True show ?thesis
    by (auto simp: m' session_known_def same_store_def running_def on_record_def memory_ok_def tallied_def informed_def)
next
  case False
  have k: "keyed (mg_book m)" using assms(1) by (auto simp: running_def on_record_def dest: replays_keyed)
  show ?thesis
  proof (cases "mg_count_session m = Some s")
    case True
    with assms False have "m' = m\<lparr>mg_count_session := Some s\<rparr>" "n = dict_get (mg_counts_today m) y 0" "tallied None s m"
      by (auto simp: symbol_orders_today_def Let_def running_def memory_ok_def)
    with assms(1) False True show ?thesis
      by (auto simp: session_known_def same_store_def running_def on_record_def memory_ok_def tallied_def)
  next
    case other: False
    with assms(2) False have m': "m' = m\<lparr>mg_counts_today := foldl (\<lambda>d od. count_order od d) [] (submitted_orders (mg_book m) s),
        mg_count_session := Some s\<rparr>" "n = dict_get (mg_counts_today m') y 0"
      by (auto simp: symbol_orders_today_def Let_def)
    have "tallied None s m'" using counted_orders [OF k, of s] by (simp add: tallied_def m')
    with assms(1) False m' show ?thesis
      by (auto simp: session_known_def same_store_def running_def on_record_def memory_ok_def tallied_def)
  qed
qed

section \<open>The decision\<close>

definition same_request :: "wire_order \<Rightarrow> wire_order \<Rightarrow> bool" where
  "same_request od od' \<longleftrightarrow> od' = od\<lparr>wo_risk_check_result := wo_risk_check_result od'\<rparr>"

lemma same_requestI [simp]: "same_request od od" "same_request od (od\<lparr>wo_risk_check_result := r\<rparr>)"
  by (simp_all add: same_request_def)

text \<open>What an approval rests on: the daily count, and in production a certificate over the whole session.\<close>

definition risk_evidence :: "intent_record \<Rightarrow> risk_decision \<Rightarrow> bool" where
  "risk_evidence i rd \<longleftrightarrow> jindex (rd_measured rd) ''risk_intent'' = Inr (risk_intent_to_json i)"

definition stands_for :: "'b oms \<Rightarrow> intent_record \<Rightarrow> wire_order \<Rightarrow> bool" where
  "stands_for cfg i od \<longleftrightarrow> ir_intent_id i = wo_client_order_id od \<and> ir_symbol i = wo_symbol od \<and> ir_side i = wire_side (wo_side od)
     \<and> ir_quantity i = wo_quantity od \<and> 0 < ir_order_value i \<and> om_parse cfg (wo_timestamp od) = Some (ir_timestamp i)"

definition cleared ::
    "'b oms \<Rightarrow> string \<Rightarrow> wire_order \<Rightarrow> risk_decision \<Rightarrow> intent_record option \<Rightarrow> 'b manager \<Rightarrow> bool" where
  "cleared cfg s od rd i m \<longleftrightarrow> limit_left cfg s (wo_symbol od) m \<and> session_known cfg s m
     \<and> (production cfg \<longrightarrow> mg_risk_errors m = [] \<and> (\<exists>j. i = Some j \<and> stands_for cfg j od \<and> risk_evidence j rd
          \<and> certified (current_report (om_constraints cfg) (mg_risk_intents m) j)))
     \<and> (\<not> production cfg \<longrightarrow> i = None)"

lemma decision_storable:
  "no_empty_field L \<Longrightarrow> by \<noteq> [] \<Longrightarrow> storable_risk (RiskDecision_create H now a r t me re L by)"
  by (simp add: RiskDecision_create_def Let_def storable_risk_def no_empty_field_update content_id_nonempty)

lemma decision_approved [simp]:
  "rd_approved (RiskDecision_create H now a r t me re L by) = a"
  "rd_measured (RiskDecision_create H now a r t me re L by) = me"
  by (simp_all add: RiskDecision_create_def Let_def)

definition decided :: "'b oms \<Rightarrow> string \<Rightarrow> wire_order \<Rightarrow> 'b manager \<Rightarrow> pretrade_outcome \<Rightarrow> 'b manager \<Rightarrow> bool" where
  "decided cfg s od m d m' \<longleftrightarrow> running cfg m' \<and> same_store m m' \<and> (case d of (od', rd, i) \<Rightarrow>
     same_request od od' \<and> storable_risk rd \<and> (rd_approved rd \<longrightarrow> cleared cfg s od' rd i m'))"

lemma evidence_of_report: "jindex (JObj (report_to_dict r @ [(''risk_intent'', v)])) ''risk_intent'' = Inr v"
  by (simp add: report_to_dict_def)

lemma stands_for_intent:
  "om_parse cfg (wo_timestamp od) = Some stamp \<Longrightarrow> 0 < wo_quantity od \<Longrightarrow> 0 < price \<Longrightarrow>
     stands_for cfg (risk_intent_of cfg b stamp od price) (od\<lparr>wo_risk_check_result := r\<rparr>)"
  by (simp add: stands_for_def risk_intent_of_def)

lemma refusal_decided: "running cfg m' \<Longrightarrow> same_store m m' \<Longrightarrow> no_empty_field (ord_lineage c) \<Longrightarrow> by \<noteq> [] \<Longrightarrow>
    decided cfg s od m (refused_decision cfg now c od rule th me re by) m'"
  by (simp add: decided_def refused_decision_def decision_on_def decision_storable)

lemma certify_decided:
  assumes "running cfg m" "same_store m0 m" "no_empty_field (ord_lineage c)" "mg_risk_errors m = []"
    and "limit_left cfg s (wo_symbol od) m" "session_known cfg s m" "production cfg"
    and "om_parse cfg (wo_timestamp od) = Some stamp" "0 < wo_quantity od" "0 < price"
  shows "decided cfg s od m0 (certify_order cfg now od c stamp price m) m"
  using assms evidence_of_report stands_for_intent [OF assms(8-10), of "mg_broker m"]
  by (auto simp: certify_order_def Let_def decided_def decision_on_def decision_storable cleared_def risk_evidence_def)

lemma production_decided:
  assumes "running cfg m" "same_store m0 m" "no_empty_field (ord_lineage c)"
    and "limit_left cfg s (wo_symbol od) m" "session_known cfg s m" "production cfg"
    and "om_parse cfg (wo_timestamp od) = Some stamp" "s = exchange_session_of stamp" "0 < wo_quantity od"
  shows "ends (production_decision cfg now od c stamp m) (decided cfg s od m0) E"
proof (cases "bounded_price od")
  case None
  with assms show ?thesis by (simp add: production_decision_def refusal_decided)
next
  case (Some price)
  then have price: "0 < price" by (auto simp: bounded_price_def priced_def split: if_splits option.splits)
  let ?m = "restore_daily_risk cfg s m"
  have r: "running cfg ?m" "same_store m0 ?m" "session_known cfg s ?m" "limit_left cfg s (wo_symbol od) ?m"
    using restore_ok [OF assms(1,6), of s] same_store_trans [OF assms(2) restore_store [OF assms(1,6)]] assms(4,6)
    by (simp_all add: session_known_def limit_left_def)
  show ?thesis
    using refusal_decided [OF r(1,2) assms(3)] certify_decided [OF r(1,2) assms(3) _ r(4,3) assms(6,7,9) price]
    by (simp add: production_decision_def Some assms(8) [symmetric] Let_def)
qed

lemma pretrade_ok:
  assumes run: "running cfg m" and nf: "\<not> om_forensic cfg" and L: "no_empty_field (ord_lineage c)"
    and s: "exchange_session cfg (wo_timestamp od) = Inr s"
  shows "ends (pretrade_decision cfg now od c m) (decided cfg s od m) (\<lambda>m'. m' = m)"
proof -
  obtain stamp where stamp: "om_parse cfg (wo_timestamp od) = Some stamp" "s = exchange_session_of stamp"
    using s by (auto simp: exchange_session_def parse_stamp_def res_bind_Inr_iff split: option.splits)
  obtain n m1 where t: "symbol_orders_today cfg s (wo_symbol od) m = (n, m1)" by fastforce
  note o = orders_today_ok [OF run t]
  have re: "decided cfg s od m (refused_decision cfg now c od rule th me re by) m" if "by \<noteq> []" for rule th me re "by"
    using refusal_decided [OF run _ L that] by simp
  have late: "ends (if om_max_orders_per_symbol_per_day cfg \<le> n
      then (Inr (refused_decision cfg now c od rule th me re ''order_manager''), m1)
      else if \<not> production cfg then (Inr (od, decision_on cfg now c True rule' th' me' re' ''order_manager'', None), m1)
      else production_decision cfg now od c stamp m1) (decided cfg s od m) (\<lambda>m'. m' = m)"
    if "0 < wo_quantity od" for rule th me re rule' th' me' re'
  proof (cases "om_max_orders_per_symbol_per_day cfg \<le> n")
    case True
    then show ?thesis using refusal_decided [of cfg m1 m c "''order_manager''"] o L by simp
  next
    case False
    with o have left: "limit_left cfg s (wo_symbol od) m1" by (simp add: limit_left_def)
    show ?thesis
    proof (cases "production cfg")
      case True
      with False o left show ?thesis
        using production_decided [OF _ _ L left _ True stamp that, of m] by simp
    next
      case np: False
      with False o left L show ?thesis
        by (simp add: decided_def decision_on_def decision_storable cleared_def)
    qed
  qed
  show ?thesis
  proof (cases "explicit_result od \<in> set UPSTREAM_REJECTIONS \<or> wo_quantity od \<le> 0 \<or> (wo_type od = Limit_order \<and> \<not> priced od)
      \<or> exchange_quantity_rejection cfg (mg_broker m) od \<noteq> None")
    case True
    then show ?thesis by (auto simp: pretrade_decision_def intro!: re)
  next
    case False
    then have q: "0 < wo_quantity od" by auto
    from False have c: "(explicit_result od \<in> set UPSTREAM_REJECTIONS) = False" "(wo_quantity od \<le> 0) = False"
        "(wo_type od = Limit_order \<and> \<not> priced od) = False" "exchange_quantity_rejection cfg (mg_broker m) od = None" "om_forensic cfg = False" using nf by auto
    have p: "parse_stamp cfg (wo_timestamp od) = Inr stamp" by (simp add: parse_stamp_def stamp(1))
    show ?thesis
      unfolding pretrade_decision_def c if_False option.case p pure_then_def sum.case Let_def stamp(2) [symmetric] t simp_thms
        prod.case requires_production by (rule late [OF q])
  qed
qed

end
