(* ===== verification/Oms_Route.thy ===== *)
theory Oms_Route
  imports Oms_Stages
begin

text \<open>The approval, the call of the broker, and what a venue must keep.\<close>

section \<open>Approved and submitted\<close>

definition sent_view :: "order \<Rightarrow> risk_decision \<Rightarrow> order_view" where
  "sent_view c rd = (fresh_view c)\<lparr>ov_submitted := True, ov_approvals := [rd]\<rparr>"

lemma n_sent_more:
  "ov_trade_date v = s \<Longrightarrow> ov_submitted v \<Longrightarrow> n_sent (vs @ [v]) s y = n_sent vs s y + (if ov_symbol v = y then 1 else 0)"
  by (simp add: n_sent_def sent_def)

lemma sent_other: "ov_trade_date v \<noteq> s \<Longrightarrow> sent (vs @ [v]) s = sent vs s"
  by (simp add: sent_def)

lemma map_res_snoc: "map_res f (xs @ [x]) = res_bind (map_res f xs) (\<lambda>ys. res_bind (f x) (\<lambda>y. Inr (ys @ [y])))"
proof (induction xs)
  case Nil
  show ?case by (cases "f x") simp_all
next
  case (Cons a xs)
  show ?case unfolding append_Cons map_res.simps Cons.IH by (cases "f a"; cases "map_res f xs"; cases "f x") simp_all
qed

lemma session_intents_more:
  "ov_trade_date v = s \<Longrightarrow> ov_submitted v \<Longrightarrow> session_intents cfg (vs @ [v]) s
     = res_bind (session_intents cfg vs s) (\<lambda>is. res_bind (view_intent cfg v) (\<lambda>i. Inr (is @ [i])))"
  by (simp add: session_intents_def sent_def map_res_snoc)

text \<open>The order \<open>c\<close>, now \<open>c'\<close>, was approved and submitted, and the ledger ends with the two events.\<close>

definition ends_submitted :: "string \<Rightarrow> ledger \<Rightarrow> bool" where
  "ends_submitted oid led \<longleftrightarrow> (\<exists>rs r1 r2 e1 e2. led_records led = rs @ [r1, r2] \<and> lr_event r1 = Some e1 \<and> lr_event r2 = Some e2
     \<and> ev_event_type e1 = Ev_RISK_APPROVED \<and> ev_event_type e2 = Ev_SUBMITTED \<and> ev_order_id e1 = oid \<and> ev_order_id e2 = oid)"

definition went_out :: "order \<Rightarrow> order \<Rightarrow> risk_decision \<Rightarrow> 'b manager \<Rightarrow> 'b manager \<Rightarrow> bool" where
  "went_out c c' rd m m' \<longleftrightarrow>
     (\<exists>vs. views (mg_book m) = vs @ [fresh_view c] \<and> views (mg_book m') = vs @ [sent_view c rd])
     \<and> map_of (bk_orders (mg_book m')) (ord_order_id c) = Some c'
     \<and> ord_order_id c' = ord_order_id c \<and> ord_symbol c' = ord_symbol c \<and> ord_side c' = ord_side c
     \<and> ord_quantity c' = ord_quantity c \<and> ord_trade_date c' = ord_trade_date c \<and> ord_status c' = SUBMITTED
     \<and> ends_submitted (ord_order_id c) (mg_ledger m')"

lemma target_reached:
  assumes "OrderBook_apply now oid t f reason rd b = Inr (od', b')" "\<not> is_fill_event t" "map_of (bk_orders b) oid = Some od"
  shows "ord_status od' = TARGET_STATUS t \<and> ord_order_id od' = ord_order_id od \<and> ord_symbol od' = ord_symbol od
    \<and> ord_side od' = ord_side od \<and> ord_quantity od' = ord_quantity od \<and> ord_trade_date od' = ord_trade_date od
    \<and> ord_lineage od' = ord_lineage od"
proof -
  obtain o0 where o0: "map_of (bk_orders b) oid = Some o0"
    and u: "Order_apply o0 (applied_event now oid t f reason rd (ord_lineage o0) (length (bk_events b))) = Inr (Updated od')"
    by (rule apply_updated [OF assms(1,2)])
  have "ord_status od' = TARGET_STATUS t"
    using u assms(2) by (auto simp: Order_apply_def Let_def res_bind_Inr_iff split: if_splits)
  with Order_apply_frame [OF u] o0 assms(3) show ?thesis by simp
qed

lemma approve_ok:
  assumes run: "on_record cfg m" and p: "pending od s c m" and rd: "storable_risk rd"
  shows "ends (apply_canonical_risk cfg env c rd True m)
    (\<lambda>c' m'. on_record cfg m' \<and> same_desk m m' \<and> went_out c c' rd m m') (\<lambda>m'. halted cfg m m' \<and> same_desk m m')"
proof -
  let ?oid = "ord_order_id c" and ?td = "Some (ord_trade_date c)"
  obtain d where d: "bk_orders (mg_book m) = d @ [(?oid, c)]" using p by (auto simp: pending_def)
  let ?h = "history_of (mg_book m) ?oid"
  have h: "approvals ?h = [] \<and> \<not> list_ex (\<lambda>e. ev_event_type e = Ev_SUBMITTED) ?h"
    using p by (simp add: pending_def view_of_def fresh_view_def)
  have keyed: "keyed (mg_book x)" if "on_record cfg x" for x using that by (auto simp: on_record_def dest: replays_keyed)
  define Q1 where "Q1 = (\<lambda>m1. on_record cfg m1 \<and> same_desk m m1
       \<and> (\<exists>now od' r e. OrderBook_apply now ?oid Ev_RISK_APPROVED None None (Some rd) (mg_book m) = Inr (od', mg_book m1)
            \<and> led_records (mg_ledger m1) = led_records (mg_ledger m) @ [r]
            \<and> lr_event r = Some e \<and> ev_event_type e = Ev_RISK_APPROVED \<and> ev_order_id e = ?oid))"
  have step1: "ends (record_event cfg env ?oid Ev_RISK_APPROVED None (Some rd) ?td m) (\<lambda>_. Q1) (\<lambda>m'. halted cfg m m' \<and> same_desk m m')"
    unfolding Q1_def by (rule record_event_ok [OF run]) (simp_all add: is_fill_event_def rd)
  have counts: "same_counts (views (mg_book m)) (views (mg_book m1))" if q: "Q1 m1" for m1
  proof -
    from q obtain n1 o1 where a: "OrderBook_apply n1 ?oid Ev_RISK_APPROVED None None (Some rd) (mg_book m) = Inr (o1, mg_book m1)"
      by (auto simp: Q1_def)
    show ?thesis
      using views_last [OF a _ d keyed [OF run]] h
      by (auto simp: is_fill_event_def same_counts_def n_sent_def sent_def view_of_def applied_event_def)
  qed
  have step2: "ends (and_then (record_event cfg env ?oid Ev_SUBMITTED None None ?td m1) (\<lambda>_ m. (state_of (mg_book m) ?oid, m)))
      (\<lambda>c' m'. on_record cfg m' \<and> same_desk m m' \<and> went_out c c' rd m m') (\<lambda>m'. halted cfg m m' \<and> same_desk m m')"
    if q: "Q1 m1" for m1
  proof (rule ends_and_then)
    have m1: "on_record cfg m1" "same_desk m m1" using q by (auto simp: Q1_def)
    show "ends (record_event cfg env ?oid Ev_SUBMITTED None None ?td m1)
      (\<lambda>_ m2. on_record cfg m2 \<and> same_desk m1 m2
       \<and> (\<exists>now od' r e. OrderBook_apply now ?oid Ev_SUBMITTED None None None (mg_book m1) = Inr (od', mg_book m2)
            \<and> led_records (mg_ledger m2) = led_records (mg_ledger m1) @ [r]
            \<and> lr_event r = Some e \<and> ev_event_type e = Ev_SUBMITTED \<and> ev_order_id e = ?oid))
      (\<lambda>m'. halted cfg m m' \<and> same_desk m m')"
      by (rule ends_mono [OF record_event_ok [OF m1(1)]])
        (auto simp: is_fill_event_def intro: same_desk_trans [OF m1(2)] halted_from [OF _ counts [OF q]])
  next
    fix u m2
    assume r2: "on_record cfg m2 \<and> same_desk m1 m2
       \<and> (\<exists>now od' r e. OrderBook_apply now ?oid Ev_SUBMITTED None None None (mg_book m1) = Inr (od', mg_book m2)
            \<and> led_records (mg_ledger m2) = led_records (mg_ledger m1) @ [r]
            \<and> lr_event r = Some e \<and> ev_event_type e = Ev_SUBMITTED \<and> ev_order_id e = ?oid)"
    from q obtain n1 o1 r1 e1 where a1: "OrderBook_apply n1 ?oid Ev_RISK_APPROVED None None (Some rd) (mg_book m) = Inr (o1, mg_book m1)"
        "led_records (mg_ledger m1) = led_records (mg_ledger m) @ [r1]" "lr_event r1 = Some e1" "ev_event_type e1 = Ev_RISK_APPROVED"
        "ev_order_id e1 = ?oid" by (auto simp: Q1_def)
    from r2 obtain n2 o2 r2 e2 where a2: "OrderBook_apply n2 ?oid Ev_SUBMITTED None None None (mg_book m1) = Inr (o2, mg_book m2)"
        "led_records (mg_ledger m2) = led_records (mg_ledger m1) @ [r2]" "lr_event r2 = Some e2" "ev_event_type e2 = Ev_SUBMITTED"
        "ev_order_id e2 = ?oid" and k2: "on_record cfg m2" "same_desk m1 m2" by auto
    have m1: "on_record cfg m1" "same_desk m m1" using q by (auto simp: Q1_def)
    have find: "map_of (bk_orders (mg_book x)) ?oid = Some y" if "bk_orders (mg_book x) = d @ [(?oid, y)]" "on_record cfg x" for x y
      using keyed [OF that(2)] that(1) by (auto simp: keyed_def map_add_def map_of_eq_None_iff split: option.split)
        (metis fst_conv image_eqI map_of_SomeD option.distinct(1))+
    obtain vs where v1: "views (mg_book m) = vs @ [view_of ?h c]"
        "views (mg_book m1) = vs @ [view_of (?h @ [applied_event n1 ?oid Ev_RISK_APPROVED None None (Some rd) (ord_lineage c)
           (length (bk_events (mg_book m)))]) c]" and o1: "bk_orders (mg_book m1) = d @ [(?oid, o1)]"
      using views_last [OF a1(1) _ d keyed [OF run]] by (auto simp: is_fill_event_def)
    obtain vs' where v2: "views (mg_book m1) = vs' @ [view_of (history_of (mg_book m1) ?oid) o1]"
        "views (mg_book m2) = vs' @ [view_of (history_of (mg_book m1) ?oid @ [applied_event n2 ?oid Ev_SUBMITTED None None None
           (ord_lineage o1) (length (bk_events (mg_book m1)))]) o1]" and o2: "bk_orders (mg_book m2) = d @ [(?oid, o2)]"
      using views_last [OF a2(1) _ o1 keyed [OF m1(1)]] by (auto simp: is_fill_event_def)
    have t1: "ord_status o1 = APPROVED \<and> ord_order_id o1 = ?oid \<and> ord_symbol o1 = ord_symbol c
      \<and> ord_side o1 = ord_side c \<and> ord_quantity o1 = ord_quantity c \<and> ord_trade_date o1 = ord_trade_date c"
      using target_reached [OF a1(1) _ find [OF d run]] by (simp add: is_fill_event_def)
    have t2: "ord_status o2 = SUBMITTED \<and> ord_order_id o2 = ?oid \<and> ord_symbol o2 = ord_symbol c
      \<and> ord_side o2 = ord_side c \<and> ord_quantity o2 = ord_quantity c \<and> ord_trade_date o2 = ord_trade_date c"
      using target_reached [OF a2(1) _ find [OF o1 m1(1)]] t1 by (simp add: is_fill_event_def)
    have e1: "ev_risk_decision (applied_event a b Ev_RISK_APPROVED None None (Some rd) L n) = Some rd" for a b L n
      by (simp add: applied_event_def)
    have "vs' = vs" "view_of (history_of (mg_book m1) ?oid) o1
        = view_of (?h @ [applied_event n1 ?oid Ev_RISK_APPROVED None None (Some rd) (ord_lineage c) (length (bk_events (mg_book m)))]) c"
      using v1(2) v2(1) by simp_all
    then have "views (mg_book m2) = vs @ [sent_view c rd]"
      using v2(2) h t1 by (simp add: view_of_def sent_view_def fresh_view_def e1)
    moreover have "view_of ?h c = fresh_view c" using p by (simp add: pending_def)
    moreover have "ends_submitted ?oid (mg_ledger m2)"
      unfolding ends_submitted_def using a1 a2 by (intro exI [of _ "led_records (mg_ledger m)"] exI [of _ r1] exI [of _ r2]) simp
    ultimately have "went_out c o2 rd m m2"
      using v1(1) t2 find [OF o2 k2(1)] by (simp add: went_out_def)
    then show "ends (state_of (mg_book m2) ?oid, m2)
        (\<lambda>c' m'. on_record cfg m' \<and> same_desk m m' \<and> went_out c c' rd m m') (\<lambda>m'. halted cfg m m' \<and> same_desk m m')"
      using find [OF o2 k2(1)] k2 same_desk_trans [OF m1(2) k2(2)] by (simp add: state_of_def)
  qed
  show ?thesis unfolding apply_canonical_risk_def Let_def if_True by (rule ends_and_then [OF step1 step2])
qed

end
