(* ===== verification/Oms_Submit.thy ===== *)
theory Oms_Submit
  imports Oms_Route
begin

text \<open>
  A whole submission over a broker whose calls are written down, and the contract a broker must keep towards the book
  and the ledger.
\<close>

section \<open>A broker whose calls are written down\<close>

record broker_call =
  ca_process :: nat
  ca_order :: wire_order
  ca_book :: order_book
  ca_ledger :: ledger

text \<open>The calls process \<open>p\<close> makes, each with the order, the book and the ledger at the time of the call.\<close>

definition watched :: "nat \<Rightarrow> 'b broker_ops \<Rightarrow> ('b \<times> broker_call list) broker_ops" where
  "watched p ops =
     \<lparr>bo_name = bo_name ops, bo_canonical = bo_canonical ops, bo_production = bo_production ops,
      bo_submit = (\<lambda>cid od (xl, b, led). case bo_submit ops cid od (fst xl, b, led) of
        (r, x, b', led') \<Rightarrow>
          (r, (x, snd xl @ [\<lparr>ca_process = p, ca_order = od, ca_book = b, ca_ledger = led\<rparr>]), b', led')),
      bo_cancel = (\<lambda>cid (xl, b, led). case bo_cancel ops cid (fst xl, b, led) of
        (r, x, b', led') \<Rightarrow> (r, (x, snd xl), b', led')),
      bo_positions = (\<lambda>xl. bo_positions ops (fst xl)), bo_account_value = (\<lambda>xl. bo_account_value ops (fst xl)),
      bo_volume = map_option (\<lambda>q symbol xl. q symbol (fst xl)) (bo_volume ops)\<rparr>"

lemma watched_simps [simp]:
  "bo_production (watched p ops) = bo_production ops" "bo_canonical (watched p ops) = bo_canonical ops"
  "bo_name (watched p ops) = bo_name ops"
  by (simp_all add: watched_def)

text \<open>What holds of a call when it is made.\<close>

definition on_file :: "chain_digest \<Rightarrow> digest \<Rightarrow> broker_call \<Rightarrow> bool" where
  "on_file D H ca \<longleftrightarrow> replays D H (ca_book ca, ca_ledger ca) \<and>
     (\<exists>c. map_of (bk_orders (ca_book ca)) (ord_order_id c) = Some c \<and> ord_status c = SUBMITTED
        \<and> ord_symbol c = wo_symbol (ca_order ca) \<and> ord_side c = wo_side (ca_order ca)
        \<and> ord_quantity c = wo_quantity (ca_order ca) \<and> ends_submitted (ord_order_id c) (ca_ledger ca))"

definition call_ok :: "'b oms \<Rightarrow> nat \<Rightarrow> string \<Rightarrow> broker_call \<Rightarrow> bool" where
  "call_ok cfg p s ca \<longleftrightarrow> ca_process ca = p \<and> exchange_session cfg (wo_timestamp (ca_order ca)) = Inr s
     \<and> on_file (om_chain cfg) (om_digest cfg) ca
     \<and> n_sent (views (ca_book ca)) s (wo_symbol (ca_order ca)) \<le> om_max_orders_per_symbol_per_day cfg
     \<and> (production cfg \<longrightarrow> (\<exists>is i. session_intents cfg (views (ca_book ca)) s = Inr (is @ [i])
          \<and> stands_for cfg i (ca_order ca) \<and> certified (current_report (om_constraints cfg) is i)))"

text \<open>How a step moves the calls and the submissions on record: not at all, or by one call of one order.\<close>

definition bumped :: "string \<Rightarrow> string \<Rightarrow> order_view list \<Rightarrow> order_view list \<Rightarrow> bool" where
  "bumped s y vs vs' \<longleftrightarrow> (\<forall>s' y'. n_sent vs' s' y' = n_sent vs s' y' + (if s' = s \<and> y' = y then 1 else 0))"

definition moved ::
    "'b oms \<Rightarrow> nat \<Rightarrow> broker_call list \<Rightarrow> order_view list \<Rightarrow> broker_call list \<Rightarrow> order_view list \<Rightarrow> bool" where
  "moved cfg p cs vs cs' vs' \<longleftrightarrow> (cs' = cs \<and> same_counts vs vs')
     \<or> (\<exists>ca s. cs' = cs @ [ca] \<and> call_ok cfg p s ca \<and> bumped s (wo_symbol (ca_order ca)) vs vs'
          \<and> same_counts (views (ca_book ca)) vs')"

lemma moved_still: "same_counts vs vs' \<Longrightarrow> moved cfg p cs vs cs vs'"
  by (simp add: moved_def)

lemma moved_after: "same_counts vs0 vs \<Longrightarrow> moved cfg p cs vs cs' vs' \<Longrightarrow> moved cfg p cs vs0 cs' vs'"
  by (auto simp: moved_def bumped_def same_counts_def)

abbreviation calls_of :: "('b \<times> broker_call list) manager \<Rightarrow> broker_call list" where
  "calls_of m \<equiv> snd (mg_broker m)"

definition stepped :: "('b \<times> broker_call list) oms \<Rightarrow> nat \<Rightarrow> ('b \<times> broker_call list) manager \<Rightarrow>
    ('b \<times> broker_call list) manager \<Rightarrow> bool" where
  "stepped cfg p m m' \<longleftrightarrow> running cfg m' \<and> moved cfg p (calls_of m) (views (mg_book m)) (calls_of m') (views (mg_book m'))"

definition fallen :: "('b \<times> broker_call list) oms \<Rightarrow> nat \<Rightarrow> ('b \<times> broker_call list) manager \<Rightarrow>
    ('b \<times> broker_call list) manager \<Rightarrow> bool" where
  "fallen cfg p m m' \<longleftrightarrow> (\<exists>vs. recovers (om_chain cfg) (om_digest cfg) (mg_ledger m') vs
     \<and> moved cfg p (calls_of m) (views (mg_book m)) (calls_of m') vs)"

lemma fallen_halted: "halted cfg m m' \<Longrightarrow> mg_broker m' = mg_broker m \<Longrightarrow> fallen cfg p m m'"
  by (auto simp: halted_def fallen_def moved_def)

lemma fallen_after:
  "fallen cfg p m1 m' \<Longrightarrow> same_counts (views (mg_book m)) (views (mg_book m1)) \<Longrightarrow> mg_broker m1 = mg_broker m
     \<Longrightarrow> fallen cfg p m m'"
  by (auto simp: fallen_def intro: moved_after)

lemma stepped_after:
  "stepped cfg p m1 m' \<Longrightarrow> same_counts (views (mg_book m)) (views (mg_book m1)) \<Longrightarrow> mg_broker m1 = mg_broker m
     \<Longrightarrow> stepped cfg p m m'"
  by (auto simp: stepped_def intro: moved_after)

section \<open>Events that approve and submit nothing\<close>

definition still :: "'b oms \<Rightarrow> 'b manager \<Rightarrow> 'b manager \<Rightarrow> bool" where
  "still cfg m m' \<longleftrightarrow> on_record cfg m' \<and> same_desk m m' \<and> views (mg_book m') = views (mg_book m)"

lemma quiet_event_ok:
  assumes "on_record cfg m" "\<not> is_fill_event t" "pred_option storable_risk rd" "quiet t"
  shows "ends (record_event cfg env oid t reason rd td m) (\<lambda>_. still cfg m) (\<lambda>m'. halted cfg m m' \<and> same_desk m m')"
proof (rule ends_mono [OF record_event_ok [OF assms(1-3)]])
  fix m'
  assume "on_record cfg m' \<and> same_desk m m'
    \<and> (\<exists>now od' r e. OrderBook_apply now oid t None reason rd (mg_book m) = Inr (od', mg_book m')
         \<and> led_records (mg_ledger m') = led_records (mg_ledger m) @ [r]
         \<and> lr_event r = Some e \<and> ev_event_type e = t \<and> ev_order_id e = oid)"
  with views_apply [OF _ assms(4)] show "still cfg m m'" unfolding still_def by blast
qed simp

lemma answer_quiet: "quiet (answer_event st) \<and> \<not> is_fill_event (answer_event st)"
  by (simp add: answer_event_def quiet_def is_fill_event_def split: wire_status.split)

lemma record_canonical_ok:
  assumes "on_record cfg m"
  shows "ends (record_canonical_state cfg env c st m) (\<lambda>_. still cfg m) (\<lambda>m'. halted cfg m m' \<and> same_desk m m')"
proof -
  let ?r = "book_apply env (ord_order_id c) (answer_event (ws_status st)) None None m"
  obtain x m1 where b: "?r = (x, m1)" by fastforce
  have ok: "ends (record_event cfg env (ord_order_id c) (answer_event (ws_status st)) None None None m)
      (\<lambda>_. still cfg m) (\<lambda>m'. halted cfg m m' \<and> same_desk m m')"
    using answer_quiet by (intro quiet_event_ok [OF assms]) simp_all
  show ?thesis
  proof (cases x)
    case (Inl e)
    with b have "m1 = m" by (auto simp: book_apply_def split: sum.splits)
    with Inl b assms show ?thesis by (simp add: record_canonical_state_def still_def)
  next
    case (Inr u)
    with b ok show ?thesis by (simp add: record_canonical_state_def record_event_def and_then_def)
  qed
qed

lemma decline_ok:
  assumes "on_record cfg m" "storable_risk rd"
  shows "ends (apply_canonical_risk cfg env c rd False m) (\<lambda>_. still cfg m) (\<lambda>m'. halted cfg m m' \<and> same_desk m m')"
proof -
  have ok: "ends (record_event cfg env (ord_order_id c) Ev_RISK_REJECTED (Some (rd_reason rd)) (Some rd) (Some (ord_trade_date c)) m)
      (\<lambda>_. still cfg m) (\<lambda>m'. halted cfg m m' \<and> same_desk m m')"
    by (rule quiet_event_ok [OF assms(1)]) (simp_all add: is_fill_event_def quiet_def assms(2))
  show ?thesis
    unfolding apply_canonical_risk_def Let_def if_False
  proof (rule ends_and_then [OF ok])
    fix u m1
    assume s: "still cfg m m1"
    then have "halted cfg m m1" by (auto simp: still_def dest: on_record_halted intro: halted_from)
    with s show "ends (and_then (Inr (), m1) (\<lambda>_ m. (state_of (mg_book m) (ord_order_id c), m))) (\<lambda>_. still cfg m)
        (\<lambda>m'. halted cfg m m' \<and> same_desk m m')"
      by (cases "state_of (mg_book m1) (ord_order_id c)") (simp_all add: still_def and_then_def)
  qed
qed

lemma record_refusal_ok:
  assumes "on_record cfg m"
  shows "ends (record_venue_refusal cfg env od c reason m) (\<lambda>_. still cfg m) (\<lambda>m'. halted cfg m m' \<and> same_desk m m')"
  unfolding record_venue_refusal_def
proof (rule ends_pure_then)
  show "halted cfg m m \<and> same_desk m m" using on_record_halted [OF assms] by simp
  fix current
  have "ends (record_event cfg env (ord_order_id c) Ev_REJECTED (Some reason) None (Some (ord_trade_date c)) m)
      (\<lambda>_. still cfg m) (\<lambda>m'. halted cfg m m' \<and> same_desk m m')"
    by (rule quiet_event_ok [OF assms]) (simp_all add: is_fill_event_def quiet_def)
  then show "ends (and_then (if ord_status current = SUBMITTED
        then record_event cfg env (ord_order_id c) Ev_REJECTED (Some reason) None (Some (ord_trade_date c)) m
        else (Inr (), m)) (\<lambda>_ m. (Inr (refused_state od reason), m))) (\<lambda>_. still cfg m)
      (\<lambda>m'. halted cfg m m' \<and> same_desk m m')"
    using assms by (intro ends_and_then [where Q = "\<lambda>_. still cfg m"]) (simp_all add: still_def)
qed

lemma resolve_request_ends: "ends (resolve_unless_forensic cfg env key od payload m)
    (\<lambda>_ m'. \<exists>c f. m' = m\<lparr>mg_claims := c, mg_file := f\<rparr>) (\<lambda>m'. \<exists>c f. m' = m\<lparr>mg_claims := c, mg_file := f\<rparr>)"
proof -
  obtain r c f where "resolve_claim (oe_resolve env) key (wo_client_order_id od) payload (mg_claims m, mg_file m) = (r, c, f)"
    by (metis prod_cases3)
  moreover have "\<exists>c f. m = m\<lparr>mg_claims := c, mg_file := f\<rparr>" by (intro exI [of _ "mg_claims m"] exI [of _ "mg_file m"]) simp
  ultimately show ?thesis
    by (cases r) (auto simp: resolve_unless_forensic_def resolve_request_def)
qed

end
