(* ===== verification/Oms_Once.thy ===== *)
theory Oms_Once
  imports Oms_Submit Idempotency_Props
begin

text \<open>
  A submission and the claims file: at most one call of the broker, and only for a key that was not on the file
  before and is on it now.  Nothing is assumed of the broker, the book or the ledger.
\<close>

section \<open>What does not touch the broker and the claims\<close>

definition shared :: "'b manager \<Rightarrow> 'b manager \<Rightarrow> bool" where
  "shared m m' \<longleftrightarrow> mg_broker m' = mg_broker m \<and> mg_claims m' = mg_claims m \<and> mg_file m' = mg_file m"

lemma shared_simps [simp]:
  "shared m m"
  "shared m (m'\<lparr>mg_client_order_ids := a\<rparr>) = shared m m'"
  "shared m (m'\<lparr>mg_wire := w\<rparr>) = shared m m'"
  "shared m (m'\<lparr>mg_book := k\<rparr>) = shared m m'"
  "shared m (m'\<lparr>mg_ledger := l\<rparr>) = shared m m'"
  "shared m (m'\<lparr>mg_risk_intents := i\<rparr>) = shared m m'"
  by (simp_all add: shared_def)

lemma shared_trans: "shared m m' \<Longrightarrow> shared m' m'' \<Longrightarrow> shared m m''"
  by (simp add: shared_def)

lemma open_shared: "shared m (snd (open_canonical_pending cfg env od m))"
  by (auto simp: open_canonical_pending_def pure_then_def Let_def split: sum.splits prod.splits)

lemma record_event_shared: "shared m (snd (record_event cfg env oid t reason rd td m))"
  by (auto simp: record_event_def book_apply_def append_last_def and_then_def Let_def split: sum.splits prod.splits)

lemma snd_and_then: "shared m (snd r) \<Longrightarrow> (\<And>x s. r = (Inr x, s) \<Longrightarrow> shared s (snd (f x s))) \<Longrightarrow> shared m (snd (and_then r f))"
  by (cases r; cases "fst r") (auto simp: and_then_def intro: shared_trans)

lemma apply_risk_shared: "shared m (snd (apply_canonical_risk cfg env c rd b m))"
  unfolding apply_canonical_risk_def Let_def by (intro snd_and_then) (auto simp: record_event_shared)

lemma record_canonical_shared: "shared m (snd (record_canonical_state cfg env c st m))"
  by (auto simp: record_canonical_state_def book_apply_def append_last_def Let_def split: sum.splits prod.splits)

lemma record_refusal_shared: "shared m (snd (record_venue_refusal cfg env od c reason m))"
proof (cases "state_of (mg_book m) (ord_order_id c)")
  case (Inr current)
  have "shared m (snd (and_then (if ord_status current = SUBMITTED
      then record_event cfg env (ord_order_id c) Ev_REJECTED (Some reason) None (Some (ord_trade_date c)) m
      else (Inr (), m)) (\<lambda>_ m. (Inr (refused_state od reason), m))))"
    by (intro snd_and_then) (auto simp: record_event_shared)
  then show ?thesis by (simp add: record_venue_refusal_def pure_then_def Inr)
qed (simp add: record_venue_refusal_def pure_then_def)

lemma restore_shared:
  fixes m :: "'b manager"
  shows "shared m (restore_daily_risk cfg s m)"
proof -
  have "shared m (foldl (restore_order cfg) m ods)" for ods and m :: "'b manager"
  proof (induction ods arbitrary: m)
    case (Cons od ods)
    have "shared m (restore_order cfg m od)" by (simp add: restore_order_def shared_def Let_def split: sum.split)
    with Cons show ?case by (auto intro: shared_trans)
  qed simp
  from this [of "m\<lparr>mg_risk_session := Some s, mg_risk_intents := [], mg_risk_errors := [], mg_counts_today := []\<rparr>"] show ?thesis
    by (auto simp: restore_daily_risk_def shared_def)
qed

lemma orders_today_shared: "shared m (snd (symbol_orders_today cfg s y m))"
  using restore_shared [of m cfg s] by (auto simp: symbol_orders_today_def Let_def shared_def)

text \<open>The decision keeps the request it decides on.\<close>

definition kept_request :: "wire_order \<Rightarrow> pretrade_outcome \<Rightarrow> bool" where
  "kept_request od d \<longleftrightarrow> same_request od (fst d)"

lemma refusal_kept [simp]: "kept_request od (refused_decision cfg now c od rule th me re by)"
  by (simp add: kept_request_def refused_decision_def)

lemma certify_kept: "kept_request od (certify_order cfg now od c stamp price m)"
  by (simp add: kept_request_def certify_order_def Let_def)

lemma production_shared:
  "ends (production_decision cfg now od c stamp m) (\<lambda>d m'. kept_request od d \<and> shared m m') (shared m)"
  using restore_shared certify_kept by (auto simp: production_decision_def Let_def split: option.split)

lemma pretrade_shared: "ends (pretrade_decision cfg now od c m) (\<lambda>d m'. kept_request od d \<and> shared m m') (shared m)"
proof -
  let ?R = "\<lambda>d m'. kept_request od d \<and> shared m m'"
  have prod: "ends (production_decision cfg now od c stamp m1) ?R (shared m)" if "shared m m1" for stamp m1
    using ends_mono [OF production_shared [of cfg now od c stamp m1], of ?R "shared m"] that by (auto intro: shared_trans)
  have today: "shared m m1" if "symbol_orders_today cfg s y m = (n, m1)" for s y n m1
    using orders_today_shared [of m cfg s y] that by simp
  have kept: "kept_request od (od, rd, i)" for rd i by (simp add: kept_request_def)
  show ?thesis
    unfolding pretrade_decision_def
    by (auto simp: Let_def pure_then_def kept split: option.split sum.split prod.split intro!: prod dest: today)
qed

section \<open>The calls of the broker\<close>

lemma call_broker_shared:
  assumes "om_broker cfg = watched p ops"
  shows "mg_claims (snd (call_broker cfg env od c m)) = mg_claims m \<and> mg_file (snd (call_broker cfg env od c m)) = mg_file m
    \<and> calls_of (snd (call_broker cfg env od c m)) = calls_of m @ [\<lparr>ca_process = p, ca_order = od, ca_book = mg_book m, ca_ledger = mg_ledger m\<rparr>]"
proof -
  let ?ca = "\<lparr>ca_process = p, ca_order = od, ca_book = mg_book m, ca_ledger = mg_ledger m\<rparr>"
  let ?cid = "if bo_canonical ops then Some (ord_order_id c) else None"
  obtain rep x b led where s: "bo_submit ops ?cid od (fst (mg_broker m), mg_book m, mg_ledger m) = (rep, x, b, led)" by (metis prod_cases4)
  have call: "bo_submit (om_broker cfg) (if bo_canonical (om_broker cfg) then Some (ord_order_id c) else None) od
      (mg_broker m, mg_book m, mg_ledger m) = (rep, (x, calls_of m @ [?ca]), b, led)"
    unfolding assms watched_simps using s by (simp add: watched_def)
  let ?m = "m\<lparr>mg_broker := (x, calls_of m @ [?ca]), mg_book := b, mg_ledger := led\<rparr>"
  have "shared ?m (snd (and_then (record_venue_refusal cfg env od c reason ?m) (\<lambda>state m. (Inr (state, Some reason), m))))" for reason
    by (intro snd_and_then) (auto simp: record_refusal_shared)
  then show ?thesis
    unfolding call_broker_def call by (cases rep) (auto simp: shared_def)
qed

text \<open>The store stays in step with the file, the file only grows, and at most one call is made, of the request \<open>od\<close>.\<close>

definition once :: "wire_order \<Rightarrow> ('b \<times> broker_call list) manager \<Rightarrow> ('b \<times> broker_call list) manager \<Rightarrow> bool" where
  "once od m m' \<longleftrightarrow> synced (mg_file m') (mg_claims m') \<and> (\<exists>ls. if_lines (mg_file m') = if_lines (mg_file m) @ ls)
     \<and> (calls_of m' = calls_of m \<or> (\<exists>ca. calls_of m' = calls_of m @ [ca] \<and> same_request od (ca_order ca)))"

definition quietly :: "('b \<times> broker_call list) manager \<Rightarrow> ('b \<times> broker_call list) manager \<Rightarrow> bool" where
  "quietly m m' \<longleftrightarrow> synced (mg_file m') (mg_claims m') \<and> (\<exists>ls. if_lines (mg_file m') = if_lines (mg_file m) @ ls)
     \<and> calls_of m' = calls_of m"

lemma shared_quietly: "shared m m' \<Longrightarrow> synced (mg_file m) (mg_claims m) \<Longrightarrow> quietly m m'"
  by (simp add: shared_def quietly_def)

lemma quietly_once: "quietly m m' \<Longrightarrow> once od m m'"
  by (simp add: quietly_def once_def)

lemma quietly_trans: "quietly m m1 \<Longrightarrow> quietly m1 m2 \<Longrightarrow> quietly m m2"
  by (auto simp: quietly_def)

lemma once_quietly: "once od m m1 \<Longrightarrow> quietly m1 m2 \<Longrightarrow> once od m m2"
  by (auto simp: once_def quietly_def)

lemma quietly_then_once: "quietly m m1 \<Longrightarrow> once od m1 m2 \<Longrightarrow> once od m m2"
  by (auto simp: once_def quietly_def)

lemma once_synced: "once od m m' \<Longrightarrow> synced (mg_file m') (mg_claims m')"
  by (simp add: once_def)

lemma once_same: "once od' m m' \<Longrightarrow> same_request od od' \<Longrightarrow> once od m m'"
proof -
  assume o: "once od' m m'" and s: "same_request od od'"
  have "same_request od x" if "same_request od' x" for x
    using that s by (cases od; cases od'; cases x) (simp add: same_request_def)
  with o show ?thesis by (auto simp: once_def)
qed

lemma ends_all: "(\<And>x. P (snd r)) \<Longrightarrow> ends r (\<lambda>_. P) P"
  by (simp add: ends_snd)

lemma resolve_quietly:
  assumes "synced (mg_file m) (mg_claims m)"
  shows "quietly m (snd (resolve_unless_forensic cfg env key od payload m))"
proof -
  obtain r st fl where "resolve_claim (oe_resolve env) key (wo_client_order_id od) payload (mg_claims m, mg_file m) = (r, st, fl)"
    by (metis prod_cases3)
  with resolve_facts [OF this assms] assms show ?thesis
    by (auto simp: resolve_unless_forensic_def resolve_request_def quietly_def)
qed

lemma then_quietly:
  assumes "quietly m (snd r)" "\<And>x s. r = (Inr x, s) \<Longrightarrow> synced (mg_file s) (mg_claims s) \<Longrightarrow> quietly s (snd (f x s))"
  shows "quietly m (snd (and_then r f))"
  using assms by (cases r; cases "fst r") (auto simp: and_then_def quietly_def)

lemma route_once:
  assumes br: "om_broker cfg = watched p ops" and sy: "synced (mg_file m) (mg_claims m)"
  shows "ends (route_order cfg env key fp od c rd i m) (\<lambda>_. once od m) (once od m)"
  unfolding route_order_def
proof (rule ends_and_then)
  have "quietly m (snd (apply_canonical_risk cfg env c rd True m))" by (rule shared_quietly [OF apply_risk_shared sy])
  then show "ends (apply_canonical_risk cfg env c rd True m) (\<lambda>_. quietly m) (once od m)"
    by (cases "apply_canonical_risk cfg env c rd True m"; cases "fst (apply_canonical_risk cfg env c rd True m)") (auto intro: quietly_once)
next
  fix c' m1
  assume q1: "quietly m m1"
  let ?m1 = "case i of None \<Rightarrow> m1 | Some i \<Rightarrow> m1\<lparr>mg_risk_intents := mg_risk_intents m1 @ [i]\<rparr>"
  have q: "quietly m ?m1" using q1 by (simp add: quietly_def split: option.split)
  define rest where "rest = (\<lambda>(state, refusal :: string option) m. let m = update_wire (oe_now env) od state m in
         and_then (if \<not> bo_canonical (om_broker cfg) \<and> refusal = None
                   then record_canonical_state cfg env c' state m else (Inr (), m)) (\<lambda>_ m.
         and_then (resolve_unless_forensic cfg env key od (resolution od (ord_order_id c') fp True
                     @ (case refusal of None \<Rightarrow> [] | Some reason \<Rightarrow> [(''venueRefused'', JStr reason)])) m) (\<lambda>_ m.
           (Inr [state], count_submission (wo_symbol od) m))))"
  have "once od m (snd (call_broker cfg env od c' ?m1))"
    using call_broker_shared [OF br, of env od c' ?m1] q by (auto simp: quietly_def once_def)
  then have call: "ends (call_broker cfg env od c' ?m1) (\<lambda>_. once od m) (once od m)" by (simp add: ends_snd)
  have "ends (and_then (call_broker cfg env od c' ?m1) rest) (\<lambda>_. once od m) (once od m)"
  proof (rule ends_and_then [OF call])
    fix x :: "wire_state \<times> string option" and m2
    assume o: "once od m m2"
    obtain state ref where x: "x = (state, ref)" by (cases x)
    let ?m2 = "update_wire (oe_now env) od state m2"
    have s2: "synced (mg_file ?m2) (mg_claims ?m2)" and u: "quietly m2 ?m2"
      using once_synced [OF o] by (simp_all add: update_wire_def quietly_def)
    have "quietly ?m2 (snd (if b then record_canonical_state cfg env c' state ?m2 else (Inr (), ?m2)))" for b
      using shared_quietly [OF record_canonical_shared s2] s2 by (simp add: quietly_def)
    moreover have "quietly s (snd (and_then (resolve_unless_forensic cfg env key od pl s) (\<lambda>_ m. (Inr [state], count_submission (wo_symbol od) m))))"
      if "synced (mg_file s) (mg_claims s)" for s pl
      by (rule then_quietly [OF resolve_quietly [OF that]]) (simp add: quietly_def count_submission_def)
    ultimately have "quietly ?m2 (snd (rest x m2))"
      unfolding rest_def x prod.case Let_def by (rule then_quietly)
    then have "once od m (snd (rest x m2))" using once_quietly [OF once_quietly [OF o u]] by blast
    then show "ends (rest x m2) (\<lambda>_. once od m) (once od m)" by (simp add: ends_snd)
  qed
  then show "ends (let m = ?m1 in and_then (call_broker cfg env od c' m) (\<lambda>(state, refusal) m.
         let m = update_wire (oe_now env) od state m in
         and_then (if \<not> bo_canonical (om_broker cfg) \<and> refusal = None
                   then record_canonical_state cfg env c' state m else (Inr (), m)) (\<lambda>_ m.
         and_then (resolve_unless_forensic cfg env key od (resolution od (ord_order_id c') fp True
                     @ (case refusal of None \<Rightarrow> [] | Some reason \<Rightarrow> [(''venueRefused'', JStr reason)])) m) (\<lambda>_ m.
           (Inr [state], count_submission (wo_symbol od) m))))) (\<lambda>_. once od m) (once od m)"
    by (simp add: rest_def)
qed

lemma refuse_quietly:
  fixes m :: "('b \<times> broker_call list) manager"
  assumes sy: "synced (mg_file m) (mg_claims m)"
  shows "quietly m (snd (refuse_order cfg env key fp od c rd m))"
  unfolding refuse_order_def Let_def
proof (rule then_quietly)
  show "quietly m (snd (apply_canonical_risk cfg env c rd False m))" by (rule shared_quietly [OF apply_risk_shared sy])
next
  fix x :: order and s :: "('b \<times> broker_call list) manager"
  assume "synced (mg_file s) (mg_claims s)"
  then have s: "synced (mg_file (update_wire now od st s)) (mg_claims (update_wire now od st s))"
    and u: "quietly s (update_wire now od st s)" for now st by (simp_all add: update_wire_def quietly_def)
  have "quietly (update_wire now od st s)
      (snd (and_then (resolve_unless_forensic cfg env key od pl (update_wire now od st s)) (\<lambda>_ m. (Inr [st], m))))" for now st pl
    by (rule then_quietly [OF resolve_quietly [OF s]]) (simp add: quietly_def)
  with u show "quietly s (snd (and_then (resolve_unless_forensic cfg env key od (resolution od (ord_order_id c) fp False
        @ [(''riskReason'', JStr (rd_reason rd))]) (update_wire (oe_now env) od
          (refused_state od (''pretrade_risk_rejected:'' @ rd_reason rd)) s))
      (\<lambda>_ m. (Inr [refused_state od (''pretrade_risk_rejected:'' @ rd_reason rd)], m))))"
    by (blast intro: quietly_trans)
qed

lemma decide_once:
  fixes m :: "('b \<times> broker_call list) manager"
  assumes br: "om_broker cfg = watched p ops" and sy: "synced (mg_file m) (mg_claims m)"
  shows "ends (decide_and_route cfg env key fp od m) (\<lambda>_. once od m) (once od m)"
  unfolding decide_and_route_def Let_def
proof (rule ends_and_then)
  have "quietly m (snd (open_canonical_pending cfg env od m))" by (rule shared_quietly [OF open_shared sy])
  then show "ends (open_canonical_pending cfg env od m) (\<lambda>_. quietly m) (once od m)"
    by (cases "open_canonical_pending cfg env od m"; cases "fst (open_canonical_pending cfg env od m)") (auto intro: quietly_once)
next
  fix c :: order and m1 :: "('b \<times> broker_call list) manager"
  let ?m = "m1\<lparr>mg_client_order_ids := AList.update (ord_order_id c) (wo_client_order_id od) (mg_client_order_ids m1)\<rparr>"
  assume "quietly m m1"
  then have q: "quietly m ?m" "synced (mg_file ?m) (mg_claims ?m)" by (simp_all add: quietly_def)
  show "ends (and_then (pretrade_decision cfg (oe_now env) od c ?m) (\<lambda>(od, rd, i) m.
         if rd_approved rd then route_order cfg env key fp od c rd i m else refuse_order cfg env key fp od c rd m))
      (\<lambda>_. once od m) (once od m)"
  proof (rule ends_and_then)
    show "ends (pretrade_decision cfg (oe_now env) od c ?m) (\<lambda>d m'. kept_request od d \<and> quietly m m') (once od m)"
      by (rule ends_mono [OF pretrade_shared]) (use q in \<open>auto simp: shared_def quietly_def once_def\<close>)
  next
    fix d :: pretrade_outcome and m2
    assume a: "kept_request od d \<and> quietly m m2"
    obtain od' rd i where d: "d = (od', rd, i)" by (cases d)
    have k: "same_request od od'" "quietly m m2" "synced (mg_file m2) (mg_claims m2)"
      using a by (simp_all add: d kept_request_def quietly_def)
    have "once od m x" if "once od' m2 x" for x using quietly_then_once [OF k(2) once_same [OF that k(1)]] .
    moreover have "ends (refuse_order cfg env key fp od' c rd m2) (\<lambda>_. once od' m2) (once od' m2)"
      using quietly_once [OF refuse_quietly [OF k(3)]] by (simp add: ends_snd)
    ultimately show "ends ((case d of (od, rd, i) \<Rightarrow> \<lambda>m. if rd_approved rd then route_order cfg env key fp od c rd i m
        else refuse_order cfg env key fp od c rd m) m2) (\<lambda>_. once od m) (once od m)"
      unfolding d prod.case using route_once [OF br k(3), of env key fp od' c rd i] by (auto elim: ends_mono)
  qed
qed

section \<open>Claimed before called\<close>

definition claimed :: "('b \<times> broker_call list) oms \<Rightarrow> broker_call list \<Rightarrow> idem_file \<Rightarrow> bool" where
  "claimed cfg cs fl \<longleftrightarrow> distinct (map (\<lambda>ca. request_key cfg (ca_order ca)) cs)
     \<and> (\<forall>ca \<in> set cs. \<exists>key. request_key cfg (ca_order ca) = Inr key \<and> key \<in> line_keys (if_lines fl))"

definition claims_ok :: "('b \<times> broker_call list) oms \<Rightarrow> ('b \<times> broker_call list) manager \<Rightarrow> bool" where
  "claims_ok cfg m \<longleftrightarrow> synced (mg_file m) (mg_claims m) \<and> claimed cfg (calls_of m) (mg_file m)"

lemma same_request_key: "same_request od od' \<Longrightarrow> request_key cfg od' = request_key cfg od"
  by (cases od; cases od') (simp add: same_request_def request_key_def)

lemma request_key_nonempty: "request_key cfg od = Inr key \<Longrightarrow> key \<noteq> []"
  by (auto simp: request_key_def order_intent_key_def Let_def res_bind_Inr_iff content_id_nonempty split: if_splits)

lemma claimed_grow: "claimed cfg cs fl \<Longrightarrow> if_lines fl' = if_lines fl @ ls \<Longrightarrow> claimed cfg cs fl'"
  by (auto simp: claimed_def)

lemma claimed_call:
  assumes "claimed cfg cs fl" "request_key cfg (ca_order ca) = Inr key" "key \<notin> line_keys (if_lines fl)"
    and "key \<in> line_keys (if_lines fl')" "if_lines fl' = if_lines fl @ ls"
  shows "claimed cfg (cs @ [ca]) fl'"
proof -
  have "request_key cfg (ca_order c) \<noteq> Inr key" if "c \<in> set cs" for c using assms(1,3) that by (auto simp: claimed_def)
  with claimed_grow [OF assms(1,5)] assms(2,4) show ?thesis by (auto simp: claimed_def)
qed

lemma submit_one_claims:
  assumes br: "om_broker cfg = watched p ops" "\<not> om_forensic cfg" and ok: "claims_ok cfg m" and t: "oe_claimed_at env \<noteq> []"
  shows "claims_ok cfg (snd (submit_one cfg env od0 m)) \<and> (\<exists>ls. if_lines (mg_file (snd (submit_one cfg env od0 m))) = if_lines (mg_file m) @ ls)"
proof -
  let ?od = "stamped env od0"
  define P where "P = (\<lambda>m'. claims_ok cfg m' \<and> (\<exists>ls. if_lines (mg_file m') = if_lines (mg_file m) @ ls))"
  have P0: "P m" using ok by (simp add: P_def)
  have main: "P (snd (and_then (claim_request cfg env key fp ?od m) (\<lambda>answer m.
          case answer of Answered_before states \<Rightarrow> (Inr states, m) | Granted \<Rightarrow> decide_and_route cfg env key fp ?od m)))"
    if key: "request_key cfg ?od = Inr key" for key fp
  proof -
    obtain r st fl where c: "claim (oe_claim env) (oe_claimed_at env) key None
         [(''clientOrderId'', JStr (wo_client_order_id ?od)), (''fingerprint'', JStr fp)] False (mg_claims m, mg_file m) = (r, st, fl)"
      by (metis prod_cases3)
    let ?m = "m\<lparr>mg_claims := st, mg_file := fl\<rparr>"
    from claim_facts [OF c] ok have s: "synced fl st" and g: "\<exists>ls. if_lines fl = if_lines (mg_file m) @ ls"
      and new: "\<And>x. r = Inr x \<Longrightarrow> cl_granted x \<Longrightarrow> key \<notin> line_keys (if_lines (mg_file m)) \<and> key \<in> line_keys (if_lines fl)"
      using request_key_nonempty [OF key] t by (auto simp: claims_ok_def)
    have Pm: "P ?m" using s g ok claimed_grow by (auto simp: P_def claims_ok_def)
    show ?thesis
    proof (cases "\<exists>x. r = Inr x \<and> cl_granted x")
      case False
      with Pm show ?thesis by (auto simp: claim_request_def c Let_def pure_then_def and_then_def split: sum.splits if_splits)
    next
      case True
      then have gr: "claim_request cfg env key fp ?od m = (Inr Granted, ?m)" by (auto simp: claim_request_def c pure_then_def)
      let ?r = "decide_and_route cfg env key fp ?od ?m"
      have o: "once ?od ?m (snd ?r)" using decide_once [OF br(1), of ?m env key fp ?od] s by (simp add: ends_snd)
      obtain ls where ls: "if_lines fl = if_lines (mg_file m) @ ls" using g ..
      obtain ls' where ls': "if_lines (mg_file (snd ?r)) = if_lines (mg_file m) @ ls @ ls'" using o ls by (auto simp: once_def)
      have k: "key \<notin> line_keys (if_lines (mg_file m))" "key \<in> line_keys (if_lines (mg_file (snd ?r)))"
        using new True ls ls' by auto
      have "claimed cfg (calls_of (snd ?r)) (mg_file (snd ?r))"
      proof (cases "calls_of (snd ?r) = calls_of m")
        case True
        with ok claimed_grow [OF _ ls', of cfg "calls_of m"] show ?thesis by (simp add: claims_ok_def)
      next
        case False
        with o obtain ca where ca: "calls_of (snd ?r) = calls_of m @ [ca]" "same_request ?od (ca_order ca)" by (auto simp: once_def)
        have "claimed cfg (calls_of m) (mg_file m)" using ok by (simp add: claims_ok_def)
        from claimed_call [OF this _ k ls'] same_request_key [OF ca(2), of cfg] key show ?thesis by (simp add: ca(1))
      qed
      with once_synced [OF o] ls' have "P (snd ?r)" by (simp add: P_def claims_ok_def)
      then show ?thesis by (simp add: gr and_then_def)
    qed
  qed
  have "P (snd (submit_one cfg env od0 m))"
    using main P0 br(2) by (auto simp: submit_one_def Let_def pure_then_def split: sum.split)
  then show ?thesis by (simp add: P_def)
qed

end
