(* ===== verification/Oms_Venue.thy ===== *)
theory Oms_Venue
  imports Oms_Submit
begin

text \<open>
  The locale \<open>venue\<close>: what a broker must keep of the book and the ledger it may share with the order manager.  From
  it follows what one submission does.
\<close>

section \<open>The order on its way\<close>

text \<open>The count of the order's symbol is one behind until the broker has answered.\<close>

definition flying :: "'b oms \<Rightarrow> string \<Rightarrow> string \<Rightarrow> 'b manager \<Rightarrow> bool" where
  "flying cfg s y m \<longleftrightarrow> on_record cfg m \<and> session_known cfg s m \<and> tallied (Some y) s m \<and> (production cfg \<longrightarrow> informed cfg s m)"

lemma flying_still:
  "flying cfg s y m \<Longrightarrow> on_record cfg m' \<Longrightarrow> same_memory m m' \<Longrightarrow> views (mg_book m') = views (mg_book m) \<Longrightarrow> flying cfg s y m'"
  by (simp add: flying_def session_known_def same_memory_def tallied_def informed_def)

lemma flying_unseen [simp]:
  "flying cfg s y (m\<lparr>mg_wire := w\<rparr>) = flying cfg s y m"
  "flying cfg s y (m\<lparr>mg_claims := c, mg_file := f\<rparr>) = flying cfg s y m"
  by (simp_all add: flying_def session_known_def tallied_def informed_def)

lemma flying_lands: "flying cfg s y m \<Longrightarrow> running cfg (count_submission y m)"
  by (auto simp: flying_def running_def on_record_def count_submission_def memory_ok_def session_known_def tallied_def informed_def
      split: if_splits)

text \<open>A stored risk intent is read back as it was.\<close>

definition stamps_ok :: "'b oms \<Rightarrow> bool" where
  "stamps_ok cfg \<longleftrightarrow> (\<forall>t m. om_parse cfg t = Some m \<longrightarrow> om_parse cfg (moment_isoformat m) = Some m)"

lemma json_opt_float_written [simp]: "json_opt_float (of_opt JNum v) = Inr v"
  by (cases v) simp_all

lemma risk_intent_roundtrip:
  assumes "om_parse cfg (moment_isoformat (ir_timestamp i)) = Some (ir_timestamp i)"
  shows "risk_intent_from_json cfg (risk_intent_to_json i) = Inr i"
  using assms by (cases i) (simp add: risk_intent_from_json_def risk_intent_to_json_def parse_stamp_def INTENT_FIELDS_def get_float_default_def)

lemma upper_side: "upper (wire_side sd) = side_value sd"
proof (cases sd)
  case BUY
  show ?thesis unfolding BUY by code_simp
next
  case SELL
  show ?thesis unfolding SELL by code_simp
qed

lemma sent_intent:
  assumes "stands_for cfg i od'" "risk_evidence i rd" "stamps_ok cfg" "same_request od od'" "pending od s c m"
  shows "view_intent cfg (sent_view c rd) = Inr i"
proof -
  have "wo_symbol od' = wo_symbol od" "wo_side od' = wo_side od" "wo_quantity od' = wo_quantity od"
    using assms(4) by (metis same_request_def wire_order.simps(2,3,4) wire_order.surjective wire_order.update_convs(12))+
  moreover note upper_side
  moreover have "risk_intent_from_json cfg (risk_intent_to_json i) = Inr i"
    using assms(1,3) unfolding stands_for_def stamps_ok_def by (intro risk_intent_roundtrip) blast
  ultimately show ?thesis
    using assms(1,2,5)
    by (simp add: view_intent_def sent_view_def fresh_view_def view_of_def risk_evidence_def view_binds_def stands_for_def pending_def)
qed

lemma approved_flying:
  assumes "running cfg m" "pending od s c m" "cleared cfg s od' rd i m" "same_request od od'" "stamps_ok cfg"
    and "on_record cfg m1" "same_desk m m1" "went_out c c' rd m m1"
    and "m2 = (case i of None \<Rightarrow> m1 | Some i \<Rightarrow> m1\<lparr>mg_risk_intents := mg_risk_intents m1 @ [i]\<rparr>)"
  shows "flying cfg s (wo_symbol od') m2 \<and> bumped s (wo_symbol od') (views (mg_book m)) (views (mg_book m2))
    \<and> n_sent (views (mg_book m2)) s (wo_symbol od') \<le> om_max_orders_per_symbol_per_day cfg
    \<and> (production cfg \<longrightarrow> (\<exists>is j. session_intents cfg (views (mg_book m2)) s = Inr (is @ [j])
          \<and> stands_for cfg j od' \<and> certified (current_report (om_constraints cfg) is j)))"
proof -
  have y: "wo_symbol od' = wo_symbol od" using assms(4) by (metis same_request_def wire_order.simps(2) wire_order.surjective wire_order.update_convs(12))
  obtain vs where v: "views (mg_book m) = vs @ [fresh_view c]" "views (mg_book m1) = vs @ [sent_view c rd]"
    using assms(8) by (auto simp: went_out_def)
  have c: "ord_symbol c = wo_symbol od" "ord_trade_date c = s" using assms(2) by (auto simp: pending_def)
  have sv: "ov_trade_date (sent_view c rd) = s" "ov_submitted (sent_view c rd)" "ov_symbol (sent_view c rd) = wo_symbol od"
    using c by (simp_all add: sent_view_def fresh_view_def view_of_def)
  have n: "n_sent (views (mg_book m1)) s' y' = n_sent (views (mg_book m)) s' y' + (if s' = s \<and> y' = wo_symbol od then 1 else 0)" for s' y'
    using n_sent_more [OF sv(1,2), of vs y'] sent_other [of "sent_view c rd" s' vs] sv
    by (cases "s' = s") (auto simp: v n_sent_def [of _ s'])
  have known: "session_known cfg s m" and left: "limit_left cfg s (wo_symbol od) m" using assms(3) y by (simp_all add: cleared_def)
  have t: "tallied None s m" "production cfg \<Longrightarrow> informed cfg s m"
    using assms(1) known by (auto simp: running_def memory_ok_def session_known_def split: if_splits)
  have mem: "mg_counts_today m1 = mg_counts_today m" "mg_risk_session m1 = mg_risk_session m" "mg_count_session m1 = mg_count_session m"
      "mg_risk_intents m1 = mg_risk_intents m" "mg_risk_errors m1 = mg_risk_errors m"
    using assms(7) by (auto simp: same_desk_def same_memory_def)
  have m2: "mg_book m2 = mg_book m1" "mg_ledger m2 = mg_ledger m1" "mg_counts_today m2 = mg_counts_today m1"
      "mg_risk_session m2 = mg_risk_session m1" "mg_count_session m2 = mg_count_session m1" "mg_risk_errors m2 = mg_risk_errors m1"
    by (simp_all add: assms(9) split: option.split)
  have inf: "\<exists>j. session_intents cfg (views (mg_book m2)) s = Inr (mg_risk_intents m @ [j]) \<and> mg_risk_intents m2 = mg_risk_intents m @ [j]
      \<and> mg_risk_errors m = [] \<and> stands_for cfg j od' \<and> certified (current_report (om_constraints cfg) (mg_risk_intents m) j)" if pr: "production cfg"
  proof -
    from assms(3) pr obtain j where j: "mg_risk_errors m = []" "i = Some j" "stands_for cfg j od'" "risk_evidence j rd"
      "certified (current_report (om_constraints cfg) (mg_risk_intents m) j)" by (auto simp: cleared_def)
    have "session_intents cfg vs s = Inr (mg_risk_intents m)" using t(2) [OF pr] j(1) by (simp add: informed_def v)
    then have "session_intents cfg (views (mg_book m2)) s = Inr (mg_risk_intents m @ [j])"
      using session_intents_more [OF sv(1,2), of cfg vs] sent_intent [OF j(3,4) assms(5,4,2)] by (simp add: m2 v)
    with j mem show ?thesis by (simp add: assms(9))
  qed
  have "flying cfg s (wo_symbol od') m2"
    using assms(6) known t(1) n inf y
    by (auto simp: flying_def on_record_def m2 session_known_def mem tallied_def informed_def)
  moreover have "n_sent (views (mg_book m2)) s (wo_symbol od') \<le> om_max_orders_per_symbol_per_day cfg"
    using left n by (simp add: m2 y limit_left_def)
  ultimately show ?thesis using n inf by (auto simp: bumped_def m2 y)
qed

section \<open>The contract\<close>

locale venue =
  fixes ops :: "'b broker_ops" and D :: chain_digest and H :: digest
  assumes submit_keeps: "replays D H (b, led) \<Longrightarrow> bo_submit ops cid od (x, b, led) = (rep, x', b', led') \<Longrightarrow>
      (case rep of Crashed e \<Rightarrow> recovers D H led' (views b) | _ \<Rightarrow> replays D H (b', led') \<and> views b' = views b)"
    and cancel_keeps: "replays D H (b, led) \<Longrightarrow> bo_cancel ops cid' (x, b, led) = (r, x', b', led') \<Longrightarrow>
      (case r of Inl e \<Rightarrow> recovers D H led' (views b) | Inr st \<Rightarrow> replays D H (b', led') \<and> views b' = views b)"

definition serves :: "'b broker_ops \<Rightarrow> chain_digest \<Rightarrow> digest \<Rightarrow> nat \<Rightarrow> ('b \<times> broker_call list) oms \<Rightarrow> bool" where
  "serves ops D H p cfg \<longleftrightarrow> om_broker cfg = watched p ops \<and> om_chain cfg = D \<and> om_digest cfg = H \<and> \<not> om_forensic cfg
     \<and> no_empty_field (om_lineage cfg) \<and> stamps_ok cfg"

definition opened :: "'b oms \<Rightarrow> wire_order \<Rightarrow> 'b manager \<Rightarrow> order \<Rightarrow> 'b manager \<Rightarrow> bool" where
  "opened cfg od m c m' \<longleftrightarrow> running cfg m' \<and> mg_broker m' = mg_broker m \<and> same_counts (views (mg_book m)) (views (mg_book m'))
     \<and> (\<exists>s. exchange_session cfg (wo_timestamp od) = Inr s \<and> pending od s c m')"

definition call_now :: "nat \<Rightarrow> wire_order \<Rightarrow> 'b manager \<Rightarrow> broker_call" where
  "call_now p od m = \<lparr>ca_process = p, ca_order = od, ca_book = mg_book m, ca_ledger = mg_ledger m\<rparr>"

context venue
begin

lemma call_broker_ok:
  assumes cfg: "serves ops D H p cfg" and run: "on_record cfg m"
  shows "ends (call_broker cfg env od c m)
    (\<lambda>_ m'. on_record cfg m' \<and> same_memory m m' \<and> views (mg_book m') = views (mg_book m) \<and> calls_of m' = calls_of m @ [call_now p od m])
    (\<lambda>m'. halted cfg m m' \<and> calls_of m' = calls_of m @ [call_now p od m])"
proof -
  let ?cid = "if bo_canonical ops then Some (ord_order_id c) else None"
  obtain rep x b led where s: "bo_submit ops ?cid od (fst (mg_broker m), mg_book m, mg_ledger m) = (rep, x, b, led)" by (metis prod_cases4)
  have rep: "replays D H (mg_book m, mg_ledger m)" using run cfg by (simp add: on_record_def serves_def)
  note k = submit_keeps [OF rep s]
  let ?m = "m\<lparr>mg_broker := (x, calls_of m @ [call_now p od m]), mg_book := b, mg_ledger := led\<rparr>"
  have br: "om_broker cfg = watched p ops" "om_chain cfg = D" "om_digest cfg = H" using cfg by (simp_all add: serves_def)
  have call: "bo_submit (om_broker cfg) (if bo_canonical (om_broker cfg) then Some (ord_order_id c) else None) od
      (mg_broker m, mg_book m, mg_ledger m) = (rep, (x, calls_of m @ [call_now p od m]), b, led)"
    unfolding br(1) watched_simps using s by (simp add: watched_def call_now_def)
  show ?thesis
  proof (cases rep)
    case (Answered st)
    with k show ?thesis unfolding call_broker_def call by (simp add: on_record_def br same_memory_def)
  next
    case (Crashed e)
    with k show ?thesis unfolding call_broker_def call by (auto simp: br intro: recovers_halted)
  next
    case (Refused reason)
    with k have k: "on_record cfg ?m" "views (mg_book ?m) = views (mg_book m)" by (simp_all add: on_record_def br)
    have "ends (record_venue_refusal cfg env od c reason ?m) (\<lambda>_. still cfg ?m) (\<lambda>m'. halted cfg ?m m' \<and> same_desk ?m m')"
      by (rule record_refusal_ok [OF k(1)])
    then have "ends (and_then (record_venue_refusal cfg env od c reason ?m) (\<lambda>state m. (Inr (state, Some reason), m)))
        (\<lambda>_. still cfg ?m) (\<lambda>m'. halted cfg ?m m' \<and> same_desk ?m m')"
      by (rule ends_and_then) simp
    then show ?thesis
      unfolding call_broker_def call Refused prod.case broker_reply.case Let_def
      by (rule ends_mono) (use k(2) in \<open>auto simp: still_def same_desk_def same_memory_def halted_def\<close>)
  qed
qed

lemma route_ok:
  assumes cfg: "serves ops D H p cfg" and m: "running cfg m" "pending od s c m" "cleared cfg s od' rd i m" "same_request od od'"
    "storable_risk rd" and s: "exchange_session cfg (wo_timestamp od') = Inr s"
  shows "ends (route_order cfg env key fp od' c rd i m) (\<lambda>_. stepped cfg p m) (fallen cfg p m)"
  unfolding route_order_def
proof (rule ends_and_then)
  have "on_record cfg m" using m(1) by (simp add: running_def)
  then show "ends (apply_canonical_risk cfg env c rd True m)
      (\<lambda>c' m'. on_record cfg m' \<and> same_desk m m' \<and> went_out c c' rd m m') (fallen cfg p m)"
    by (rule ends_mono [OF approve_ok [OF _ m(2,5)]]) (auto simp: same_desk_def intro: fallen_halted)
next
  fix c' m1
  assume m1: "on_record cfg m1 \<and> same_desk m m1 \<and> went_out c c' rd m m1"
  define m2 where "m2 = (case i of None \<Rightarrow> m1 | Some i \<Rightarrow> m1\<lparr>mg_risk_intents := mg_risk_intents m1 @ [i]\<rparr>)"
  let ?ca = "call_now p od' m2" and ?y = "wo_symbol od'"
  have st: "stamps_ok cfg" and cd: "om_chain cfg = D" "om_digest cfg = H" using cfg by (simp_all add: serves_def)
  have f: "flying cfg s ?y m2" "bumped s ?y (views (mg_book m)) (views (mg_book m2))"
      "n_sent (views (mg_book m2)) s ?y \<le> om_max_orders_per_symbol_per_day cfg"
      "production cfg \<longrightarrow> (\<exists>is j. session_intents cfg (views (mg_book m2)) s = Inr (is @ [j])
          \<and> stands_for cfg j od' \<and> certified (current_report (om_constraints cfg) is j))"
    using approved_flying [OF m(1-4) st _ _ _ m2_def] m1 by blast+
  have same2: "mg_broker m2 = mg_broker m" "mg_book m2 = mg_book m1" "mg_ledger m2 = mg_ledger m1" "on_record cfg m2"
    using m1 f(1) by (simp_all add: m2_def same_desk_def flying_def split: option.split)
  have od': "wo_symbol od' = wo_symbol od" "wo_side od' = wo_side od" "wo_quantity od' = wo_quantity od"
    using m(4) by (metis same_request_def wire_order.simps(2,3,4) wire_order.surjective wire_order.update_convs(12))+
  have "on_file D H ?ca"
    unfolding on_file_def
    using m1 same2 m(2) od' cd by (auto simp: call_now_def on_record_def went_out_def pending_def intro!: exI [of _ c'])
  then have call: "call_ok cfg p s ?ca"
    using f(3,4) s by (simp add: call_ok_def call_now_def cd)
  have went: "moved cfg p (calls_of m) (views (mg_book m)) (calls_of m @ [?ca]) vs" if "same_counts (views (mg_book m2)) vs" for vs
  proof -
    have "bumped s ?y (views (mg_book m)) vs" "same_counts (views (ca_book ?ca)) vs" "wo_symbol (ca_order ?ca) = ?y"
      using f(2) that by (simp_all add: bumped_def same_counts_def call_now_def)
    with call show ?thesis unfolding moved_def by auto
  qed
  define gone where "gone = (\<lambda>m3. flying cfg s ?y m3 \<and> views (mg_book m3) = views (mg_book m2) \<and> calls_of m3 = calls_of m @ [?ca])"
  have fell: "fallen cfg p m m'" if "halted cfg m3 m'" "views (mg_book m3) = views (mg_book m2)" "calls_of m' = calls_of m @ [?ca]" for m3 m'
    using that went by (auto simp: fallen_def halted_def)
  have gone_fell: "fallen cfg p m m'" if "gone m3" "calls_of m' = calls_of m3" "mg_ledger m' = mg_ledger m3" for m3 m'
  proof -
    have "on_record cfg m3" using that(1) by (simp add: gone_def flying_def)
    then have "halted cfg m3 m'" using that(3) on_record_halted by (auto simp: halted_def)
    with fell that(1,2) show ?thesis by (simp add: gone_def)
  qed
  have gone_still: "gone m4" if "gone m3" "still cfg m3 m4" for m3 m4
    using that flying_still [of cfg s ?y m3 m4] by (auto simp: gone_def still_def same_desk_def)
  show "ends (let m = m2 in
       and_then (call_broker cfg env od' c' m) (\<lambda>(state, refusal) m.
         let m = update_wire (oe_now env) od' state m in
         and_then (if \<not> bo_canonical (om_broker cfg) \<and> refusal = None
                   then record_canonical_state cfg env c' state m else (Inr (), m)) (\<lambda>_ m.
         and_then (resolve_unless_forensic cfg env key od' (resolution od' (ord_order_id c') fp True
                     @ (case refusal of None \<Rightarrow> [] | Some reason \<Rightarrow> [(''venueRefused'', JStr reason)])) m) (\<lambda>_ m.
           (Inr [state], count_submission (wo_symbol od') m)))))
      (\<lambda>_. stepped cfg p m) (fallen cfg p m)"
    unfolding Let_def
  proof (rule ends_and_then)
    show "ends (call_broker cfg env od' c' m2) (\<lambda>_. gone) (fallen cfg p m)"
      using f(1) same2 fell [of m2]
      by (intro ends_mono [OF call_broker_ok [OF cfg same2(4)]]) (auto simp: gone_def intro: flying_still)
  next
    fix x :: "wire_state \<times> string option" and m3
    assume g3: "gone m3"
    obtain state ref where x: "x = (state, ref)" by (cases x)
    let ?m4 = "update_wire (oe_now env) od' state m3"
    have g4: "gone ?m4" using g3 by (simp add: gone_def update_wire_def)
    have r4: "on_record cfg ?m4" using g4 by (simp add: gone_def flying_def)
    show "ends ((case x of (st, why) \<Rightarrow> \<lambda>m.
        and_then (if \<not> bo_canonical (om_broker cfg) \<and> why = None
                   then record_canonical_state cfg env c' st (update_wire (oe_now env) od' st m)
                   else (Inr (), update_wire (oe_now env) od' st m)) (\<lambda>_ m.
         and_then (resolve_unless_forensic cfg env key od' (resolution od' (ord_order_id c') fp True
                     @ (case why of None \<Rightarrow> [] | Some reason \<Rightarrow> [(''venueRefused'', JStr reason)])) m) (\<lambda>_ m.
           (Inr [st], count_submission (wo_symbol od') m)))) m3)
      (\<lambda>_. stepped cfg p m) (fallen cfg p m)"
      unfolding x prod.case
    proof (rule ends_and_then)
      show "ends (if \<not> bo_canonical (om_broker cfg) \<and> ref = None then record_canonical_state cfg env c' state ?m4 else (Inr (), ?m4))
          (\<lambda>_. gone) (fallen cfg p m)"
      proof (rule ends_if)
        show "ends (record_canonical_state cfg env c' state ?m4) (\<lambda>_. gone) (fallen cfg p m)"
        proof (rule ends_mono [OF record_canonical_ok [OF r4]])
          show "gone m5" if "still cfg ?m4 m5" for m5 by (rule gone_still [OF g4 that])
          show "fallen cfg p m m5" if "halted cfg ?m4 m5 \<and> same_desk ?m4 m5" for m5
            using that g4 fell [of ?m4 m5] by (simp add: gone_def same_desk_def)
        qed
      qed (use g4 in simp)
    next
      fix u m5
      assume g5: "gone m5"
      show "ends (and_then (resolve_unless_forensic cfg env key od' (resolution od' (ord_order_id c') fp True
                     @ (case ref of None \<Rightarrow> [] | Some reason \<Rightarrow> [(''venueRefused'', JStr reason)])) m5) (\<lambda>_ m.
           (Inr [state], count_submission (wo_symbol od') m))) (\<lambda>_. stepped cfg p m) (fallen cfg p m)"
      proof (rule ends_and_then)
        show "ends (resolve_unless_forensic cfg env key od' (resolution od' (ord_order_id c') fp True
                     @ (case ref of None \<Rightarrow> [] | Some reason \<Rightarrow> [(''venueRefused'', JStr reason)])) m5) (\<lambda>_. gone) (fallen cfg p m)"
          by (rule ends_mono [OF resolve_request_ends]) (use g5 gone_fell in \<open>auto simp: gone_def\<close>)
      next
        fix w m6
        assume g6: "gone m6"
        then have "running cfg (count_submission ?y m6)" unfolding gone_def by (blast intro: flying_lands)
        moreover have "mg_book (count_submission ?y m6) = mg_book m6" "mg_broker (count_submission ?y m6) = mg_broker m6"
          by (simp_all add: count_submission_def)
        ultimately show "ends (Inr [state], count_submission (wo_symbol od') m6) (\<lambda>_. stepped cfg p m) (fallen cfg p m)"
          using g6 went by (simp add: stepped_def gone_def)
      qed
    qed
  qed
qed

lemma refuse_ok:
  assumes m: "running cfg m" and rd: "storable_risk rd"
  shows "ends (refuse_order cfg env key fp od c rd m) (\<lambda>_. stepped cfg p m) (fallen cfg p m)"
  unfolding refuse_order_def Let_def
proof (rule ends_and_then)
  have "on_record cfg m" using m by (simp add: running_def)
  then show "ends (apply_canonical_risk cfg env c rd False m) (\<lambda>_. still cfg m) (fallen cfg p m)"
    by (rule ends_mono [OF decline_ok [OF _ rd]]) (auto simp: same_desk_def intro: fallen_halted)
next
  fix c' m1
  assume s: "still cfg m m1"
  let ?st = "refused_state od (''pretrade_risk_rejected:'' @ rd_reason rd)"
  define ok where "ok = (\<lambda>m2. running cfg m2 \<and> views (mg_book m2) = views (mg_book m) \<and> mg_broker m2 = mg_broker m)"
  have ok1: "ok (update_wire (oe_now env) od ?st m1)"
  proof -
    have "running cfg m1" using s m memory_views [of m m1 cfg] by (simp add: still_def running_def same_desk_def)
    with s show ?thesis by (simp add: ok_def update_wire_def still_def same_desk_def)
  qed
  have fell: "fallen cfg p m m2" if "ok m2" for m2
    using that running_halted [of cfg m2] by (intro fallen_halted) (auto simp: ok_def halted_def)
  show "ends (and_then (resolve_unless_forensic cfg env key od (resolution od (ord_order_id c) fp False
            @ [(''riskReason'', JStr (rd_reason rd))]) (update_wire (oe_now env) od ?st m1))
          (\<lambda>_ m. (Inr [?st], m))) (\<lambda>_. stepped cfg p m) (fallen cfg p m)"
  proof (rule ends_and_then)
    show "ends (resolve_unless_forensic cfg env key od (resolution od (ord_order_id c) fp False
            @ [(''riskReason'', JStr (rd_reason rd))]) (update_wire (oe_now env) od ?st m1)) (\<lambda>_. ok) (fallen cfg p m)"
      by (rule ends_mono [OF resolve_request_ends]) (use ok1 fell in \<open>auto simp: ok_def\<close>)
  qed (simp add: ok_def stepped_def moved_def)
qed

lemma route_decision_ok:
  assumes cfg: "serves ops D H p cfg" and m: "running cfg m" "pending od s c m" and s: "exchange_session cfg (wo_timestamp od) = Inr s"
  shows "ends (and_then (pretrade_decision cfg now od c m) (\<lambda>(od, rd, i) m.
         if rd_approved rd then route_order cfg env key fp od c rd i m else refuse_order cfg env key fp od c rd m))
     (\<lambda>_. stepped cfg p m) (fallen cfg p m)"
proof (rule ends_and_then)
  have nf: "\<not> om_forensic cfg" "no_empty_field (ord_lineage c)" using cfg m(2) by (simp_all add: serves_def pending_def)
  have f: "fallen cfg p m m" by (rule fallen_halted [OF running_halted [OF m(1)]]) simp
  show "ends (pretrade_decision cfg now od c m) (decided cfg s od m) (fallen cfg p m)"
    by (rule ends_mono [OF pretrade_ok [OF m(1) nf s]]) (simp_all add: f)
next
  fix d :: pretrade_outcome and m1
  obtain od' rd i where d: "d = (od', rd, i)" by (cases d)
  assume "decided cfg s od m d m1"
  then have k: "running cfg m1" "same_store m m1" "same_request od od'" "storable_risk rd" "rd_approved rd \<Longrightarrow> cleared cfg s od' rd i m1"
    by (simp_all add: decided_def d)
  have s': "exchange_session cfg (wo_timestamp od') = Inr s"
    using k(3) s by (metis same_request_def wire_order.simps(13) wire_order.surjective wire_order.update_convs(12))
  have p1: "pending od s c m1" "mg_broker m1 = mg_broker m" "mg_book m1 = mg_book m" using k(2) m(2) by (simp_all add: same_store_def pending_def)
  have "ends (if rd_approved rd then route_order cfg env key fp od' c rd i m1 else refuse_order cfg env key fp od' c rd m1)
      (\<lambda>_. stepped cfg p m1) (fallen cfg p m1)"
    using route_ok [OF cfg k(1) p1(1) k(5,3,4) s'] refuse_ok [OF k(1,4)] by (intro ends_if) simp_all
  then show "ends ((case d of (od, rd, i) \<Rightarrow> \<lambda>m.
        if rd_approved rd then route_order cfg env key fp od c rd i m else refuse_order cfg env key fp od c rd m) m1)
      (\<lambda>_. stepped cfg p m) (fallen cfg p m)"
    unfolding d prod.case using p1 by (elim ends_mono) (auto intro: stepped_after fallen_after)
qed

lemma decide_ok:
  assumes cfg: "serves ops D H p cfg" and m: "running cfg m"
  shows "ends (decide_and_route cfg env key fp od m) (\<lambda>_. stepped cfg p m) (fallen cfg p m)"
  unfolding decide_and_route_def Let_def
proof (rule ends_and_then)
  have L: "no_empty_field (om_lineage cfg)" using cfg by (simp add: serves_def)
  show "ends (open_canonical_pending cfg env od m) (opened cfg od m) (fallen cfg p m)"
    by (rule ends_mono [OF open_canonical_ok [OF m L]]) (auto simp: opened_def same_desk_def same_counts_def intro: fallen_halted)
next
  fix c m1
  assume q: "opened cfg od m c m1"
  let ?m = "m1\<lparr>mg_client_order_ids := AList.update (ord_order_id c) (wo_client_order_id od) (mg_client_order_ids m1)\<rparr>"
  note q = q [unfolded opened_def]
  from q obtain s where s: "exchange_session cfg (wo_timestamp od) = Inr s" "pending od s c ?m" "running cfg ?m" by auto
  show "ends (and_then (pretrade_decision cfg (oe_now env) od c ?m) (\<lambda>(od, rd, i) m.
         if rd_approved rd then route_order cfg env key fp od c rd i m else refuse_order cfg env key fp od c rd m))
      (\<lambda>_. stepped cfg p m) (fallen cfg p m)"
    by (rule ends_mono [OF route_decision_ok [OF cfg s(3,2,1)]]) (use q in \<open>auto intro: stepped_after fallen_after\<close>)
qed

end

end
