(* ===== verification/Oms_World.thy ===== *)
theory Oms_World
  imports Oms_Once Oms_Venue
begin

text \<open>
  Several order managers over one broker and one claims file, each with its own ledger; they start, submit, rebalance,
  cancel, reset their counters and die in any order.
\<close>

section \<open>The desks and their calls\<close>

record 'b shop =
  sh_broker :: "'b \<times> broker_call list"
  sh_file :: idem_file
  sh_desks :: "nat \<Rightarrow> ('b \<times> broker_call list) manager option"
  sh_disks :: "nat \<Rightarrow> ledger"

text \<open>The flag says whether a process lives on when the call raises.  \<open>Elsewhere\<close> is what happens at the broker meanwhile.\<close>

datatype 'b shop_call =
    Start_desk nat "nat \<Rightarrow> string"
  | Submit_orders nat bool "(oms_env \<times> wire_order) list"
  | Rebalance nat bool string "string \<Rightarrow> string" "nat \<Rightarrow> oms_env" string rat "(string, rat) dict" "(string, rat option) dict"
  | Cancel_open nat bool string
  | Reset_day nat
  | Elsewhere "'b \<Rightarrow> 'b"

definition desk_cfg :: "'b broker_ops \<Rightarrow> ('b \<times> broker_call list) oms \<Rightarrow> nat \<Rightarrow> ('b \<times> broker_call list) oms" where
  "desk_cfg ops cfg p = cfg\<lparr>om_broker := watched p ops\<rparr>"

definition settle ::
    "nat \<Rightarrow> bool \<Rightarrow> ('x, 'b \<times> broker_call list) oms_step \<Rightarrow> 'b shop \<Rightarrow> 'b shop" where
  "settle p survives r w = (case r of (x, m) \<Rightarrow>
     w\<lparr>sh_broker := mg_broker m, sh_file := mg_file m,
       sh_desks := (sh_desks w)(p := if isl x \<and> \<not> survives then None else Some m),
       sh_disks := (sh_disks w)(p := mg_ledger m)\<rparr>)"

definition work :: "nat \<Rightarrow> bool \<Rightarrow> (('b \<times> broker_call list) manager \<Rightarrow> ('x, 'b \<times> broker_call list) oms_step) \<Rightarrow> 'b shop \<Rightarrow> 'b shop" where
  "work p survives f w = (case sh_desks w p of
       None \<Rightarrow> w
     | Some m \<Rightarrow> settle p survives (f (m\<lparr>mg_broker := sh_broker w, mg_file := sh_file w\<rparr>)) w)"

fun shop_do :: "'b broker_ops \<Rightarrow> ('b \<times> broker_call list) oms \<Rightarrow> 'b shop_call \<Rightarrow> 'b shop \<Rightarrow> 'b shop" where
  "shop_do ops cfg (Start_desk p clock) w =
     w\<lparr>sh_desks := (sh_desks w)(p := (case OrderManager_make (desk_cfg ops cfg p) clock True (reopen (sh_disks w p))
         (sh_file w) (sh_broker w) of Inl _ \<Rightarrow> None | Inr m \<Rightarrow> Some m))\<rparr>"
| "shop_do ops cfg (Submit_orders p survives xs) w = work p survives (submit_orders (desk_cfg ops cfg p) xs) w"
| "shop_do ops cfg (Rebalance p survives now uuid envs signal_id net_value weights prices) w =
     work p survives (om_reconcile (desk_cfg ops cfg p) now uuid envs signal_id net_value weights prices) w"
| "shop_do ops cfg (Cancel_open p survives now) w = work p survives (cancel_all_open (desk_cfg ops cfg p) now) w"
| "shop_do ops cfg (Reset_day p) w =
     w\<lparr>sh_desks := (sh_desks w)(p := map_option reset_daily_counters (sh_desks w p))\<rparr>"
| "shop_do ops cfg (Elsewhere f) w = w\<lparr>sh_broker := apfst f (sh_broker w)\<rparr>"

fun shop_run :: "'b broker_ops \<Rightarrow> ('b \<times> broker_call list) oms \<Rightarrow> 'b shop_call list \<Rightarrow> 'b shop \<Rightarrow> 'b shop" where
  "shop_run ops cfg [] w = w"
| "shop_run ops cfg (c # cs) w = shop_run ops cfg cs (shop_do ops cfg c w)"

definition new_shop :: "'b \<Rightarrow> 'b shop" where
  "new_shop x = \<lparr>sh_broker = (x, []), sh_file = \<lparr>if_lines = [], if_torn = False\<rparr>, sh_desks = (\<lambda>_. None),
     sh_disks = (\<lambda>_. new_ledger True)\<rparr>"

definition broker_calls :: "'b broker_ops \<Rightarrow> ('b \<times> broker_call list) oms \<Rightarrow> 'b shop_call list \<Rightarrow> 'b \<Rightarrow> broker_call list" where
  "broker_calls ops cfg calls x = snd (sh_broker (shop_run ops cfg calls (new_shop x)))"

section \<open>Each request once\<close>

text \<open>What identifies a request within a run.\<close>

definition request_of :: "'b oms \<Rightarrow> wire_order \<Rightarrow> string \<times> string \<times> side \<times> int \<times> string res" where
  "request_of cfg od = (or_text (wo_signal_id od) ''manual'', wo_symbol od, wo_side od, wo_quantity od,
     exchange_session cfg (wo_timestamp od))"

lemma same_request_same_key: "request_of cfg od = request_of cfg od' \<Longrightarrow> request_key cfg od = request_key cfg od'"
  by (simp add: request_of_def request_key_def)

lemma desk_cfg_simps [simp]:
  "om_broker (desk_cfg ops cfg p) = watched p ops" "om_forensic (desk_cfg ops cfg p) = om_forensic cfg"
  "request_key (desk_cfg ops cfg p) = request_key cfg" "claimed (desk_cfg ops cfg p) = claimed cfg"
  by (auto simp: desk_cfg_def request_key_def exchange_session_def parse_stamp_def run_id_of_def claimed_def fun_eq_iff)

fun claims_timed :: "'b shop_call \<Rightarrow> bool" where
  "claims_timed (Submit_orders p s xs) \<longleftrightarrow> list_all (\<lambda>(env, od). oe_claimed_at env \<noteq> []) xs"
| "claims_timed (Rebalance p s now uuid envs g nv ws ps) \<longleftrightarrow> (\<forall>n. oe_claimed_at (envs n) \<noteq> [])"
| "claims_timed _ \<longleftrightarrow> True"

definition file_grows :: "'b manager \<Rightarrow> 'b manager \<Rightarrow> bool" where
  "file_grows m m' \<longleftrightarrow> (\<exists>ls. if_lines (mg_file m') = if_lines (mg_file m) @ ls)"

lemma file_grows_refl [simp]: "file_grows m m"
  by (simp add: file_grows_def)

lemma file_grows_trans: "file_grows m m1 \<Longrightarrow> file_grows m1 m2 \<Longrightarrow> file_grows m m2"
  by (auto simp: file_grows_def)

lemma submit_each_claims:
  assumes "om_broker cfg = watched p ops" "\<not> om_forensic cfg" "claims_ok cfg m" "list_all (\<lambda>(env, od). oe_claimed_at env \<noteq> []) xs"
  shows "claims_ok cfg (snd (submit_each cfg xs m)) \<and> file_grows m (snd (submit_each cfg xs m))"
  using assms(3,4)
proof (induction xs arbitrary: m)
  case (Cons x xs)
  obtain env od where x: "x = (env, od)" by (cases x)
  obtain r m1 where r: "submit_one cfg env od m = (r, m1)" by fastforce
  have one: "claims_ok cfg m1" "file_grows m m1"
    using submit_one_claims [OF assms(1,2) Cons.prems(1), of env od] Cons.prems(2) by (simp_all add: x r file_grows_def)
  have rest: "claims_ok cfg (snd (submit_each cfg xs m1))" "file_grows m (snd (submit_each cfg xs m1))"
    using Cons.IH [OF one(1)] Cons.prems(2) file_grows_trans [OF one(2)] by simp_all
  show ?case
  proof (cases r)
    case (Inl e)
    with one show ?thesis by (simp add: x r and_then_def)
  next
    case (Inr y)
    obtain r2 m2 where r2: "submit_each cfg xs m1 = (r2, m2)" by fastforce
    with rest show ?thesis by (cases r2) (simp_all add: x r Inr and_then_def)
  qed
qed simp

lemma reconcile_claims:
  assumes "om_broker cfg = watched p ops" "\<not> om_forensic cfg" "claims_ok cfg m" "\<And>n. oe_claimed_at (envs n) \<noteq> []"
  shows "claims_ok cfg (snd (om_reconcile cfg now uuid envs g nv ws ps m)) \<and> file_grows m (snd (om_reconcile cfg now uuid envs g nv ws ps m))"
proof -
  have "list_all (\<lambda>(env, od). oe_claimed_at env \<noteq> []) (map (\<lambda>(n, i). (envs n, reconcile_order i)) ys)" for ys
    using assms(4) by (auto simp: list_all_iff)
  with submit_each_claims [OF assms(1-3)] assms(3) show ?thesis
    by (auto simp: om_reconcile_def pure_then_def Let_def split: sum.split)
qed

lemma cancel_shared: "om_broker cfg = watched p ops \<Longrightarrow>
    mg_claims (snd (cancel_records cfg now rs m)) = mg_claims m \<and> mg_file (snd (cancel_records cfg now rs m)) = mg_file m
    \<and> calls_of (snd (cancel_records cfg now rs m)) = calls_of m"
proof (induction rs arbitrary: m)
  case (Cons r rs)
  show ?case
  proof (cases "is_working (ws_status (or_state r))")
    case True
    obtain c x b led where s: "bo_cancel ops (wo_client_order_id (or_order r)) (fst (mg_broker m), mg_book m, mg_ledger m) = (c, x, b, led)"
      by (metis prod_cases4)
    have call: "bo_cancel (om_broker cfg) (wo_client_order_id (or_order r)) (mg_broker m, mg_book m, mg_ledger m)
        = (c, (x, calls_of m), b, led)" unfolding Cons.prems using s by (simp add: watched_def)
    let ?m = "m\<lparr>mg_broker := (x, calls_of m), mg_book := b, mg_ledger := led\<rparr>"
    have snd_map: "snd (and_then q (\<lambda>more m. (Inr (st # more), m))) = snd q" for q :: "(wire_state list, 'a \<times> broker_call list) oms_step" and st
      by (cases q; cases "fst q") (auto simp: and_then_def)
    show ?thesis
      using Cons.IH [OF Cons.prems]
      by (cases c) (simp_all add: True call pure_then_def snd_map update_wire_def)
  qed (use Cons in simp)
qed simp

definition shop_ok :: "('b \<times> broker_call list) oms \<Rightarrow> 'b shop \<Rightarrow> bool" where
  "shop_ok cfg w \<longleftrightarrow> claimed cfg (snd (sh_broker w)) (sh_file w)
     \<and> (\<forall>p m. sh_desks w p = Some m \<longrightarrow> synced (sh_file w) (mg_claims m))"

lemma work_ok:
  assumes ok: "shop_ok cfg w"
    and f: "\<And>m. claims_ok cfg m \<Longrightarrow> claims_ok cfg (snd (f m)) \<and> file_grows m (snd (f m))"
  shows "shop_ok cfg (work p s f w)"
proof (cases "sh_desks w p")
  case (Some m)
  let ?m = "m\<lparr>mg_broker := sh_broker w, mg_file := sh_file w\<rparr>"
  obtain x m' where r: "f ?m = (x, m')" by fastforce
  have "claims_ok cfg ?m" using ok Some by (auto simp: shop_ok_def claims_ok_def)
  from f [OF this] have k: "claims_ok cfg m'" "\<exists>ls. if_lines (mg_file m') = if_lines (sh_file w) @ ls"
    by (simp_all add: r file_grows_def)
  have "synced (mg_file m') (mg_claims n)" if "sh_desks w q = Some n" for q n
    using synced_more k(2) ok that unfolding shop_ok_def by blast
  with k(1) show ?thesis by (auto simp: work_def Some r settle_def shop_ok_def claims_ok_def)
qed (simp add: work_def ok)

lemma shop_ok_do:
  assumes "shop_ok cfg w" "claims_timed c" "\<not> om_forensic cfg"
  shows "shop_ok cfg (shop_do ops cfg c w)"
proof (cases c)
  case (Start_desk p clock)
  have "synced (sh_file w) (mg_claims m)"
    if "OrderManager_make (desk_cfg ops cfg p) clock True (reopen (sh_disks w p)) (sh_file w) (sh_broker w) = Inr m" for m
  proof -
    obtain r st where l: "load_store (sh_file w) (fresh_store True) = (r, st)" by fastforce
    from load_store_facts(1) [OF l synced_fresh] that show ?thesis
      by (auto simp: OrderManager_make_def l res_bind_Inr_iff split: if_splits)
  qed
  with assms(1) show ?thesis by (auto simp: Start_desk shop_ok_def split: sum.split)
next
  case (Submit_orders p s xs)
  have cfg: "om_broker (desk_cfg ops cfg p) = watched p ops" "\<not> om_forensic (desk_cfg ops cfg p)" using assms(3) by simp_all
  have "claims_ok (desk_cfg ops cfg p) = claims_ok cfg" by (auto simp: claims_ok_def fun_eq_iff)
  with submit_each_claims [OF cfg] assms(2) show ?thesis
    unfolding Submit_orders shop_do.simps submit_orders_def by (intro work_ok [OF assms(1)]) simp
next
  case (Rebalance p s now uuid envs g nv ws ps)
  have cfg: "om_broker (desk_cfg ops cfg p) = watched p ops" "\<not> om_forensic (desk_cfg ops cfg p)" using assms(3) by simp_all
  have "claims_ok (desk_cfg ops cfg p) = claims_ok cfg" by (auto simp: claims_ok_def fun_eq_iff)
  with reconcile_claims [OF cfg] assms(2) show ?thesis
    unfolding Rebalance shop_do.simps by (intro work_ok [OF assms(1)]) simp
next
  case (Cancel_open p s now)
  show ?thesis
    unfolding Cancel_open shop_do.simps
    by (rule work_ok [OF assms(1)])
      (use cancel_shared [of "desk_cfg ops cfg p"] in \<open>simp add: cancel_all_open_def claims_ok_def file_grows_def\<close>)
next
  case (Reset_day p)
  with assms(1) show ?thesis by (auto simp: shop_ok_def reset_daily_counters_def)
next
  case (Elsewhere f)
  with assms(1) show ?thesis by (simp add: shop_ok_def)
qed

lemma shop_ok_run: "shop_ok cfg w \<Longrightarrow> list_all claims_timed cs \<Longrightarrow> \<not> om_forensic cfg \<Longrightarrow> shop_ok cfg (shop_run ops cfg cs w)"
  by (induction cs arbitrary: w) (simp_all add: shop_ok_do)

text \<open>No two calls are for one request.\<close>

lemma requests_distinct:
  assumes "list_all claims_timed calls" "\<not> om_forensic cfg"
  shows "distinct (map (\<lambda>ca. request_of cfg (ca_order ca)) (broker_calls ops cfg calls x))"
proof -
  have "shop_ok cfg (new_shop x)" by (simp add: shop_ok_def new_shop_def claimed_def)
  from shop_ok_run [OF this assms, of ops]
  have "distinct (map (\<lambda>ca. request_key cfg (ca_order ca)) (broker_calls ops cfg calls x))"
    by (simp add: shop_ok_def claimed_def broker_calls_def)
  then have "distinct (broker_calls ops cfg calls x)"
    and "inj_on (\<lambda>ca. request_key cfg (ca_order ca)) (set (broker_calls ops cfg calls x))" by (simp_all add: distinct_map)
  then show ?thesis
    unfolding distinct_map inj_on_def using same_request_same_key [of cfg] by blast
qed

end
