(* ===== verification/Oms_Run.thy ===== *)
theory Oms_Run
  imports Oms_World
begin

text \<open>
  Whole runs: what every call of the broker can rely on, over restarts.  First for any broker that keeps the contract
  \<open>venue\<close>, then for the brokers that have no access to book and ledger.
\<close>

section \<open>The calls of a process so far\<close>

definition n_calls :: "'b oms \<Rightarrow> nat \<Rightarrow> string \<Rightarrow> string \<Rightarrow> broker_call list \<Rightarrow> nat" where
  "n_calls cfg p s y cs = length (filter (\<lambda>ca. ca_process ca = p \<and> wo_symbol (ca_order ca) = y
     \<and> exchange_session cfg (wo_timestamp (ca_order ca)) = Inr s) cs)"

definition calls_good :: "'b oms \<Rightarrow> nat \<Rightarrow> broker_call list \<Rightarrow> order_view list \<Rightarrow> bool" where
  "calls_good cfg p cs vs \<longleftrightarrow> (\<forall>s y. int (n_calls cfg p s y cs) \<le> n_sent vs s y)
     \<and> (\<forall>s y. int (n_calls cfg p s y cs) \<le> max 0 (om_max_orders_per_symbol_per_day cfg))
     \<and> (\<forall>ca \<in> set cs. ca_process ca = p \<longrightarrow> (\<exists>s. call_ok cfg p s ca))"

lemma calls_good_same: "calls_good cfg p cs vs \<Longrightarrow> same_counts vs vs' \<Longrightarrow> calls_good cfg p cs vs'"
  by (simp add: calls_good_def same_counts_def)

lemma calls_good_moved:
  assumes "calls_good cfg p cs vs" "moved cfg p cs vs cs' vs'"
  shows "calls_good cfg p cs' vs'"
proof (cases "cs' = cs \<and> same_counts vs vs'")
  case True
  with assms(1) show ?thesis by (auto intro: calls_good_same)
next
  case False
  with assms(2) obtain ca s where ca: "cs' = cs @ [ca]" "call_ok cfg p s ca" "bumped s (wo_symbol (ca_order ca)) vs vs'"
    "same_counts (views (ca_book ca)) vs'" by (auto simp: moved_def)
  have n: "int (n_calls cfg p s' y cs') = int (n_calls cfg p s' y cs) + (if s' = s \<and> y = wo_symbol (ca_order ca) then 1 else 0)" for s' y
    using ca(2) by (auto simp: n_calls_def ca(1) call_ok_def)
  have le: "int (n_calls cfg p s' y cs') \<le> n_sent vs' s' y" for s' y
    using assms(1) ca(3) n [of s' y] by (simp add: calls_good_def bumped_def)
  have "n_sent vs' s (wo_symbol (ca_order ca)) \<le> om_max_orders_per_symbol_per_day cfg"
    using ca(2,4) by (simp add: call_ok_def same_counts_def)
  then have "int (n_calls cfg p s' y cs') \<le> max 0 (om_max_orders_per_symbol_per_day cfg)" for s' y
    using n [of s' y] le [of s' y] assms(1) by (auto simp: calls_good_def split: if_splits)
  with le ca(2) assms(1) show ?thesis by (auto simp: calls_good_def ca(1))
qed

definition only_by :: "nat \<Rightarrow> broker_call list \<Rightarrow> broker_call list \<Rightarrow> bool" where
  "only_by p cs cs' \<longleftrightarrow> (\<exists>ds. cs' = cs @ ds \<and> (\<forall>ca \<in> set ds. ca_process ca = p))"

lemma only_by_refl [simp]: "only_by p cs cs"
  by (simp add: only_by_def)

lemma only_by_moved: "only_by p cs0 cs \<Longrightarrow> moved cfg p cs vs cs' vs' \<Longrightarrow> only_by p cs0 cs'"
  by (auto simp: only_by_def moved_def call_ok_def)

lemma calls_good_others: "only_by q cs cs' \<Longrightarrow> p \<noteq> q \<Longrightarrow> calls_good cfg p cs vs \<Longrightarrow> calls_good cfg p cs' vs"
  by (auto simp: only_by_def calls_good_def n_calls_def filter_False)

definition going :: "('b \<times> broker_call list) oms \<Rightarrow> nat \<Rightarrow> broker_call list \<Rightarrow> ('b \<times> broker_call list) manager \<Rightarrow> bool" where
  "going cfg p cs0 m \<longleftrightarrow> running cfg m \<and> calls_good cfg p (calls_of m) (views (mg_book m)) \<and> only_by p cs0 (calls_of m)"

definition gone :: "('b \<times> broker_call list) oms \<Rightarrow> nat \<Rightarrow> broker_call list \<Rightarrow> ('b \<times> broker_call list) manager \<Rightarrow> bool" where
  "gone cfg p cs0 m \<longleftrightarrow> (\<exists>vs. recovers (om_chain cfg) (om_digest cfg) (mg_ledger m) vs \<and> calls_good cfg p (calls_of m) vs)
     \<and> only_by p cs0 (calls_of m)"

lemma going_wire [simp]: "going cfg p cs0 (update_wire now od st m) = going cfg p cs0 m"
  by (simp add: going_def update_wire_def)

lemma going_gone: "going cfg p cs0 m \<Longrightarrow> gone cfg p cs0 m"
  by (auto simp: going_def gone_def running_def on_record_def dest: replays_recovers)

lemma stepped_going: "going cfg p cs0 m \<Longrightarrow> stepped cfg p m m' \<Longrightarrow> going cfg p cs0 m'"
  by (auto simp: going_def stepped_def intro: calls_good_moved only_by_moved)

lemma fallen_gone: "going cfg p cs0 m \<Longrightarrow> fallen cfg p m m' \<Longrightarrow> gone cfg p cs0 m'"
  by (auto simp: going_def gone_def fallen_def intro: calls_good_moved only_by_moved)

section \<open>The operations\<close>

context venue
begin

lemma submit_one_ok:
  assumes cfg: "serves ops D H p cfg" and m: "running cfg m"
  shows "ends (submit_one cfg env od m) (\<lambda>_. stepped cfg p m) (fallen cfg p m)"
proof -
  have nf: "\<not> om_forensic cfg" using cfg by (simp add: serves_def)
  have same: "stepped cfg p m (m\<lparr>mg_claims := c, mg_file := f\<rparr>)" "fallen cfg p m (m\<lparr>mg_claims := c, mg_file := f\<rparr>)" "fallen cfg p m m" for c f
    using m running_halted [OF m] by (auto simp: stepped_def moved_def intro!: fallen_halted)
  have claim: "ends (claim_request cfg env key fp od' m)
      (\<lambda>_ m'. \<exists>c f. m' = m\<lparr>mg_claims := c, mg_file := f\<rparr>) (fallen cfg p m)" for key fp od'
    using same by (auto simp: claim_request_def Let_def pure_then_def split: prod.split sum.split)
  show ?thesis
    unfolding submit_one_def Let_def
  proof (rule ends_if)
    show "ends (Inl MissingIdempotencyLineage, m) (\<lambda>_. stepped cfg p m) (fallen cfg p m)" using same by simp
    show "ends (pure_then (request_key cfg (stamped env od)) (\<lambda>key. if om_forensic cfg then
          (if map_of (manager_history m) (wo_client_order_id (stamped env od)) \<noteq> None then (Inr [], m)
           else decide_and_route cfg env key (request_fingerprint cfg (stamped env od)) (stamped env od) m)
        else and_then (claim_request cfg env key (request_fingerprint cfg (stamped env od)) (stamped env od) m) (\<lambda>answer m.
          case answer of Answered_before states \<Rightarrow> (Inr states, m)
          | Granted \<Rightarrow> decide_and_route cfg env key (request_fingerprint cfg (stamped env od)) (stamped env od) m)) m)
        (\<lambda>_. stepped cfg p m) (fallen cfg p m)"
      unfolding eq_False [THEN iffD2, OF nf] if_False
    proof (intro ends_pure_then ends_and_then [OF claim])
      fix key answer m1
      assume "\<exists>c f. m1 = m\<lparr>mg_claims := c, mg_file := f\<rparr>"
      then obtain c f where m1: "m1 = m\<lparr>mg_claims := c, mg_file := f\<rparr>" by blast
      have "running cfg m1" using m by (simp add: m1)
      from decide_ok [OF cfg this] have d: "ends (decide_and_route cfg env key (request_fingerprint cfg (stamped env od)) (stamped env od) m1)
          (\<lambda>_. stepped cfg p m) (fallen cfg p m)"
        by (rule ends_mono) (auto simp: m1 intro: stepped_after fallen_after)
      with same(1) m1 show "ends (case answer of Answered_before states \<Rightarrow> (Inr states, m1)
          | Granted \<Rightarrow> decide_and_route cfg env key (request_fingerprint cfg (stamped env od)) (stamped env od) m1)
          (\<lambda>_. stepped cfg p m) (fallen cfg p m)" by (cases answer) simp_all
    qed (rule same)
  qed
qed

lemma submit_each_ok:
  assumes cfg: "serves ops D H p cfg" and m: "going cfg p cs0 m"
  shows "ends (submit_each cfg xs m) (\<lambda>_. going cfg p cs0) (gone cfg p cs0)"
  using m
proof (induction xs arbitrary: m)
  case (Cons x xs)
  obtain env od where x: "x = (env, od)" by (cases x)
  have "running cfg m" using Cons.prems by (simp add: going_def)
  from submit_one_ok [OF cfg this] have one: "ends (submit_one cfg env od m) (\<lambda>_. going cfg p cs0) (gone cfg p cs0)"
    by (rule ends_mono) (use Cons.prems in \<open>auto intro: stepped_going fallen_gone\<close>)
  show ?case
    unfolding x submit_each.simps
    by (rule ends_and_then [OF one], rule ends_and_then [OF Cons.IH]) simp_all
qed simp

lemma cancel_records_ok:
  assumes cfg: "serves ops D H p cfg" and m: "going cfg p cs0 m"
  shows "ends (cancel_records cfg now rs m) (\<lambda>_. going cfg p cs0) (gone cfg p cs0)"
  using m
proof (induction rs arbitrary: m)
  case (Cons r rs)
  show ?case
  proof (cases "is_working (ws_status (or_state r))")
    case True
    obtain c x b led where s: "bo_cancel ops (wo_client_order_id (or_order r)) (fst (mg_broker m), mg_book m, mg_ledger m) = (c, x, b, led)"
      by (metis prod_cases4)
    have br: "om_broker cfg = watched p ops" "om_chain cfg = D" "om_digest cfg = H" using cfg by (simp_all add: serves_def)
    have call: "bo_cancel (om_broker cfg) (wo_client_order_id (or_order r)) (mg_broker m, mg_book m, mg_ledger m)
        = (c, (x, calls_of m), b, led)" unfolding br using s by (simp add: watched_def)
    have rep: "replays D H (mg_book m, mg_ledger m)" using Cons.prems br by (simp add: going_def running_def on_record_def)
    note k = cancel_keeps [OF rep s]
    let ?m = "m\<lparr>mg_broker := (x, calls_of m), mg_book := b, mg_ledger := led\<rparr>"
    show ?thesis
    proof (cases c)
      case (Inl e)
      with k Cons.prems show ?thesis
        unfolding cancel_records.simps call by (auto simp: True pure_then_def going_def gone_def br)
    next
      case (Inr st)
      with k have v: "on_record cfg ?m" "views (mg_book ?m) = views (mg_book m)" by (simp_all add: on_record_def br)
      with Cons.prems memory_views [of m ?m cfg] have "going cfg p cs0 ?m" by (simp add: going_def running_def)
      then have "going cfg p cs0 (update_wire now (or_order r) st ?m)" by simp
      from Cons.IH [OF this] have "ends (and_then (cancel_records cfg now rs (update_wire now (or_order r) st ?m))
          (\<lambda>more m. (Inr (st # more), m))) (\<lambda>_. going cfg p cs0) (gone cfg p cs0)"
        by (rule ends_and_then) simp
      then show ?thesis unfolding cancel_records.simps call by (simp add: True Inr pure_then_def)
    qed
  qed (use Cons in simp)
qed simp

lemma reconcile_ok:
  assumes cfg: "serves ops D H p cfg" and m: "going cfg p cs0 m"
  shows "ends (om_reconcile cfg now uuid envs g nv ws ps m) (\<lambda>_. going cfg p cs0) (gone cfg p cs0)"
  unfolding om_reconcile_def Let_def
  by (intro ends_pure_then) (simp_all add: going_gone [OF m] submit_each_ok [OF cfg m])

end

section \<open>The desks\<close>

text \<open>A process dies with an exception; counters are reset in production only.\<close>

fun orderly :: "'b broker_ops \<Rightarrow> 'b shop_call \<Rightarrow> bool" where
  "orderly ops (Submit_orders p survives xs) \<longleftrightarrow> \<not> survives"
| "orderly ops (Rebalance p survives now uuid envs g nv ws ps) \<longleftrightarrow> \<not> survives"
| "orderly ops (Cancel_open p survives now) \<longleftrightarrow> \<not> survives"
| "orderly ops (Reset_day p) \<longleftrightarrow> bo_production ops"
| "orderly ops _ \<longleftrightarrow> True"

definition seat_ok :: "('b \<times> broker_call list) oms \<Rightarrow> nat \<Rightarrow> broker_call list \<Rightarrow> ledger \<Rightarrow> ('b \<times> broker_call list) manager option \<Rightarrow> bool" where
  "seat_ok cfg p cs led d \<longleftrightarrow> (\<exists>vs. recovers (om_chain cfg) (om_digest cfg) led vs \<and> calls_good cfg p cs vs)
     \<and> (\<forall>m. d = Some m \<longrightarrow> running cfg m \<and> calls_good cfg p cs (views (mg_book m)))"

definition desks_ok :: "'b broker_ops \<Rightarrow> ('b \<times> broker_call list) oms \<Rightarrow> 'b shop \<Rightarrow> bool" where
  "desks_ok ops cfg w \<longleftrightarrow> (\<forall>p. seat_ok (desk_cfg ops cfg p) p (snd (sh_broker w)) (sh_disks w p) (sh_desks w p))"

lemma seat_ok_others: "only_by q cs cs' \<Longrightarrow> p \<noteq> q \<Longrightarrow> seat_ok cfg p cs led d \<Longrightarrow> seat_ok cfg p cs' led d"
  by (auto simp: seat_ok_def intro: calls_good_others)

lemma work_desks:
  assumes ok: "desks_ok ops cfg w"
    and f: "\<And>cs0 m. going (desk_cfg ops cfg p) p cs0 m \<Longrightarrow>
      ends (f m) (\<lambda>_. going (desk_cfg ops cfg p) p cs0) (gone (desk_cfg ops cfg p) p cs0)"
  shows "desks_ok ops cfg (work p False f w)"
proof (cases "sh_desks w p")
  case (Some m)
  let ?c = "desk_cfg ops cfg p" and ?cs = "snd (sh_broker w)" and ?m = "m\<lparr>mg_broker := sh_broker w, mg_file := sh_file w\<rparr>"
  have "running ?c m" "calls_good ?c p ?cs (views (mg_book m))" using ok Some by (simp_all add: desks_ok_def seat_ok_def)
  moreover from this(1) have "running ?c ?m" by (simp add: running_def on_record_def memory_ok_def tallied_def informed_def split: if_splits)
  ultimately have "going ?c p ?cs ?m" by (simp add: going_def)
  note e = f [OF this]
  obtain x m' where r: "f ?m = (x, m')" by fastforce
  have by_p: "only_by p ?cs (calls_of m')" using e by (cases x) (simp_all add: r going_def gone_def)
  have "seat_ok ?c p (calls_of m') (mg_ledger m') (if isl x then None else Some m')"
  proof (cases x)
    case (Inl a)
    with e show ?thesis by (simp add: r seat_ok_def gone_def)
  next
    case (Inr a)
    with e going_gone [of ?c p ?cs m'] show ?thesis by (simp add: r seat_ok_def gone_def) (simp add: going_def)
  qed
  moreover have "seat_ok (desk_cfg ops cfg q) q (calls_of m') (sh_disks w q) (sh_desks w q)" if "q \<noteq> p" for q
    by (rule seat_ok_others [OF by_p that]) (use ok in \<open>simp add: desks_ok_def\<close>)
  ultimately show ?thesis by (auto simp: work_def Some r settle_def desks_ok_def)
qed (simp add: work_def ok)

lemma new_desks_ok: "desks_ok ops cfg (new_shop x)"
proof -
  have "seat_ok (desk_cfg ops cfg p) p [] (new_ledger True) None" for p
    using replays_recovers [OF replays_new] by (fastforce simp: seat_ok_def calls_good_def n_calls_def n_sent_def sent_def views_def empty_book_def)
  then show ?thesis by (simp add: desks_ok_def new_shop_def)
qed

lemma reset_running: "running cfg m \<Longrightarrow> production cfg \<Longrightarrow> running cfg (reset_daily_counters m)"
  by (simp add: running_def on_record_def memory_ok_def reset_daily_counters_def)

lemma desk_serves:
  "\<not> om_forensic cfg \<Longrightarrow> no_empty_field (om_lineage cfg) \<Longrightarrow> stamps_ok cfg \<Longrightarrow>
     serves ops (om_chain cfg) (om_digest cfg) p (desk_cfg ops cfg p)"
  by (simp add: serves_def desk_cfg_def stamps_ok_def)

lemma started_ok:
  assumes "OrderManager_make cfg clock True (reopen led) file b = Inr m" "recovers (om_chain cfg) (om_digest cfg) led vs"
  shows "running cfg m \<and> views (mg_book m) = vs"
proof -
  have e: "replay_book (om_chain cfg) (om_digest cfg) clock (reopen led) = Inr empty_book" if "led_records (reopen led) = []"
  proof -
    obtain b' where "replay_book (om_chain cfg) (om_digest cfg) clock (reopen led) = Inr b'" by (rule replay_total [OF assms(2)])
    with that show ?thesis by (auto simp: replay_book_def replay_book_dates_def split: if_splits)
  qed
  obtain r st where l: "load_store file (fresh_store True) = (r, st)" by fastforce
  from assms(1) e obtain book where b: "replay_book (om_chain cfg) (om_digest cfg) clock (reopen led) = Inr book"
    and m: "mg_book m = book" "mg_ledger m = reopen led" "mg_risk_session m = None" "mg_count_session m = None"
    by (auto simp: OrderManager_make_def l res_bind_Inr_iff split: if_splits)
  from replays_reopened [OF assms(2) b] m show ?thesis by (simp add: running_def on_record_def memory_ok_def)
qed

context venue
begin

lemma desks_ok_do:
  assumes ok: "desks_ok ops cfg w" and c: "orderly ops c"
    and cfg: "\<not> om_forensic cfg" "no_empty_field (om_lineage cfg)" "stamps_ok cfg" "om_chain cfg = D" "om_digest cfg = H"
  shows "desks_ok ops cfg (shop_do ops cfg c w)"
proof (cases c)
  case (Start_desk p clock)
  have "seat_ok (desk_cfg ops cfg p) p (snd (sh_broker w)) (sh_disks w p)
      (case OrderManager_make (desk_cfg ops cfg p) clock True (reopen (sh_disks w p)) (sh_file w) (sh_broker w) of
         Inl _ \<Rightarrow> None | Inr m \<Rightarrow> Some m)"
    using ok started_ok [of "desk_cfg ops cfg p" clock "sh_disks w p" "sh_file w" "sh_broker w"]
    by (auto simp: desks_ok_def seat_ok_def split: sum.split)
  with ok show ?thesis by (simp add: Start_desk desks_ok_def)
next
  case (Submit_orders p s xs)
  show ?thesis using c unfolding Submit_orders shop_do.simps submit_orders_def
    by (simp only: orderly.simps not_False_eq_True simp_thms)
      (rule work_desks [OF ok], rule submit_each_ok, use desk_serves [OF cfg(1-3), of ops p] cfg(4,5) in simp_all)
next
  case (Rebalance p s now uuid envs g nv ws ps)
  show ?thesis using c unfolding Rebalance shop_do.simps
    by (simp only: orderly.simps not_False_eq_True simp_thms)
      (rule work_desks [OF ok], rule reconcile_ok, use desk_serves [OF cfg(1-3), of ops p] cfg(4,5) in simp_all)
next
  case (Cancel_open p s now)
  show ?thesis using c unfolding Cancel_open shop_do.simps cancel_all_open_def
    by (simp only: orderly.simps not_False_eq_True simp_thms)
      (rule work_desks [OF ok], rule cancel_records_ok, use desk_serves [OF cfg(1-3), of ops p] cfg(4,5) in simp_all)
next
  case (Reset_day p)
  have "production (desk_cfg ops cfg p)" using c by (simp add: Reset_day production_def)
  with ok reset_running show ?thesis
    by (auto simp: Reset_day desks_ok_def seat_ok_def reset_daily_counters_def [THEN arg_cong [where f = mg_book]])
next
  case (Elsewhere f)
  with ok show ?thesis by (simp add: desks_ok_def)
qed

lemma desks_ok_run:
  assumes "desks_ok ops cfg w" "list_all (orderly ops) cs"
    and "\<not> om_forensic cfg" "no_empty_field (om_lineage cfg)" "stamps_ok cfg" "om_chain cfg = D" "om_digest cfg = H"
  shows "desks_ok ops cfg (shop_run ops cfg cs w)"
  using assms by (induction cs arbitrary: w) (simp_all add: desks_ok_do)

lemma desks_ok_calls:
  assumes "list_all (orderly ops) cs"
    and "\<not> om_forensic cfg" "no_empty_field (om_lineage cfg)" "stamps_ok cfg" "om_chain cfg = D" "om_digest cfg = H"
  shows "\<exists>vs. calls_good (desk_cfg ops cfg p) p (broker_calls ops cfg cs x) vs"
proof -
  from desks_ok_run [OF new_desks_ok [of _ _ x] assms] show ?thesis by (auto simp: desks_ok_def seat_ok_def broker_calls_def)
qed

end

end
