(* ===== verification/Oms_Sent.thy ===== *)
theory Oms_Sent
  imports Oms_Run
begin

text \<open>
  That nothing is lost on the way: an order that every check admits, on a desk whose writes succeed, reaches the broker.
\<close>

section \<open>After the approval\<close>

lemma after_call_quietly:
  assumes "synced (mg_file m) (mg_claims m)"
  shows "quietly m (snd ((case x of (state, why :: string option) \<Rightarrow> \<lambda>m. let m = update_wire now od state m in
         and_then (if \<not> bo_canonical (om_broker cfg) \<and> why = None
                   then record_canonical_state cfg env c state m else (Inr (), m)) (\<lambda>_ m.
         and_then (resolve_unless_forensic cfg env key od (f why) m) (\<lambda>_ m.
           (Inr [state], count_submission y m)))) m))"
proof -
  obtain state ref where x: "x = (state, ref)" by (cases x)
  let ?m = "update_wire now od state m"
  have s: "synced (mg_file ?m) (mg_claims ?m)" and u: "quietly m ?m" using assms by (simp_all add: update_wire_def quietly_def)
  have "quietly ?m (snd (if b then record_canonical_state cfg env c state ?m else (Inr (), ?m)))" for b
    using shared_quietly [OF record_canonical_shared s] s by (simp add: quietly_def)
  moreover have "quietly n (snd (and_then (resolve_unless_forensic cfg env key od pl n) (\<lambda>_ m. (Inr [state], count_submission y m))))"
    if "synced (mg_file n) (mg_claims n)" for n pl
    by (rule then_quietly [OF resolve_quietly [OF that]]) (simp add: quietly_def count_submission_def)
  ultimately have "quietly ?m (snd (and_then (if b then record_canonical_state cfg env c state ?m else (Inr (), ?m)) (\<lambda>_ m.
      and_then (resolve_unless_forensic cfg env key od pl m) (\<lambda>_ m. (Inr [state], count_submission y m)))))" for b pl
    by (rule then_quietly)
  then show ?thesis unfolding x prod.case Let_def by (rule quietly_trans [OF u])
qed

lemma and_then_returned: "and_then (Inr x, s) f = f x s"
  by (simp add: and_then_def)

lemma route_calls:
  assumes br: "om_broker cfg = watched p ops" and sy: "synced (mg_file m) (mg_claims m)"
    and a: "apply_canonical_risk cfg env c rd True m = (Inr c', m1)"
  shows "\<exists>ca. calls_of (snd (route_order cfg env key fp od c rd i m)) = calls_of m @ [ca] \<and> ca_order ca = od \<and> ca_process ca = p"
proof -
  define m2 where "m2 = (case i of None \<Rightarrow> m1 | Some i \<Rightarrow> m1\<lparr>mg_risk_intents := mg_risk_intents m1 @ [i]\<rparr>)"
  have "shared m m1" using apply_risk_shared [of m cfg env c rd True] a by simp
  then have s2: "mg_broker m2 = mg_broker m" "mg_claims m2 = mg_claims m" "mg_file m2 = mg_file m"
    by (simp_all add: m2_def shared_def split: option.split)
  obtain r m3 where r: "call_broker cfg env od c' m2 = (r, m3)" by fastforce
  note k = call_broker_shared [OF br, of env od c' m2, unfolded r snd_conv]
  have s3: "synced (mg_file m3) (mg_claims m3)" using k s2 sy by simp
  have "snd (route_order cfg env key fp od c rd i m) = m3 \<or> quietly m3 (snd (route_order cfg env key fp od c rd i m))"
  proof (cases r)
    case (Inl e)
    then show ?thesis by (simp add: route_order_def a and_then_def m2_def [symmetric] r)
  next
    case (Inr x)
    have "quietly m3 (snd (route_order cfg env key fp od c rd i m))"
      unfolding route_order_def a and_then_returned Let_def m2_def [symmetric] r [unfolded Inr]
      by (rule after_call_quietly [OF s3, unfolded Let_def])
    then show ?thesis ..
  qed
  then have "calls_of (snd (route_order cfg env key fp od c rd i m)) = calls_of m3" by (auto simp: quietly_def)
  with k s2 show ?thesis by simp
qed

section \<open>Approval succeeds\<close>

lemma append_ok:
  "\<not> led_write_failure led \<Longrightarrow> ok \<Longrightarrow> \<exists>r. append D ok now e td i ca led
     = (Inr r, led\<lparr>led_records := led_records led @ [r], led_head := lr_record_hash r\<rparr>)"
  by (simp add: append_cases Let_def)

lemma record_ok:
  assumes "map_of (bk_orders (mg_book m)) oid = Some od" "\<not> is_fill_event t" "TARGET_STATUS t \<in> set (ALLOWED_TRANSITIONS (ord_status od))"
    and "TARGET_STATUS t \<noteq> REJECTED" "\<not> led_write_failure (mg_ledger m)" "\<And>n. oe_write env n"
  shows "\<exists>m' od'. record_event cfg env oid t reason rd td m = (Inr (), m') \<and> map_of (bk_orders (mg_book m')) oid = Some od'
    \<and> ord_status od' = TARGET_STATUS t \<and> \<not> led_write_failure (mg_ledger m')"
proof -
  let ?now = "oe_event_time env (length (bk_events (mg_book m)))"
  let ?e = "applied_event ?now oid t None reason rd (ord_lineage od) (length (bk_events (mg_book m)))"
  let ?od = "od\<lparr>ord_status := TARGET_STATUS t, ord_reason := or_reason (ev_reason ?e) (ord_reason od)\<rparr>"
  have "Order_apply od ?e = Inr (Updated ?od)"
    using assms(2-4) by (simp add: Order_apply_def Let_def assert_transition_def applied_event_def)
  then have ob: "OrderBook_apply ?now oid t None reason rd (mg_book m)
      = Inr (?od, \<lparr>bk_orders = AList.update oid ?od (bk_orders (mg_book m)), bk_events = bk_events (mg_book m) @ [?e]\<rparr>)"
    using assms(1) unfolding OrderBook_apply_Inr Let_def by blast
  let ?m = "m\<lparr>mg_book := \<lparr>bk_orders = AList.update oid ?od (bk_orders (mg_book m)), bk_events = bk_events (mg_book m) @ [?e]\<rparr>\<rparr>"
  have b: "book_apply env oid t reason rd m = (Inr (), ?m)" by (simp add: book_apply_def ob)
  obtain r where ap: "append (om_chain cfg) (oe_write env (length (led_records (mg_ledger m)))) (oe_record_time env (length (led_records (mg_ledger m))))
      (Some (last (history_of (mg_book ?m) oid))) td None None (mg_ledger m)
      = (Inr r, (mg_ledger m)\<lparr>led_records := led_records (mg_ledger m) @ [r], led_head := lr_record_hash r\<rparr>)"
    using append_ok [OF assms(5,6)] by blast
  let ?m' = "?m\<lparr>mg_ledger := (mg_ledger m)\<lparr>led_records := led_records (mg_ledger m) @ [r], led_head := lr_record_hash r\<rparr>\<rparr>"
  have "record_event cfg env oid t reason rd td m = (Inr (), ?m')"
    unfolding record_event_def b by (simp add: and_then_def append_last_def ap [simplified] Let_def)
  with assms(5) show ?thesis by (intro exI [of _ ?m'] exI [of _ ?od]) simp
qed

lemma approve_returns:
  assumes "map_of (bk_orders (mg_book m)) (ord_order_id c) = Some c" "ord_status c = PENDING_RISK"
    and "\<not> led_write_failure (mg_ledger m)" "\<And>n. oe_write env n"
  shows "\<exists>c' m'. apply_canonical_risk cfg env c rd True m = (Inr c', m')"
proof -
  let ?oid = "ord_order_id c" and ?td = "Some (ord_trade_date c)"
  obtain m1 o1 where s1: "record_event cfg env ?oid Ev_RISK_APPROVED None (Some rd) ?td m = (Inr (), m1)"
      "map_of (bk_orders (mg_book m1)) ?oid = Some o1" "ord_status o1 = TARGET_STATUS Ev_RISK_APPROVED" "\<not> led_write_failure (mg_ledger m1)"
    using record_ok [OF assms(1) _ _ _ assms(3,4), where t = Ev_RISK_APPROVED and cfg = cfg and reason = None and rd = "Some rd" and td = ?td] assms(2) by (auto simp: is_fill_event_def)
  obtain m2 o2 where s2: "record_event cfg env ?oid Ev_SUBMITTED None None ?td m1 = (Inr (), m2)"
      "map_of (bk_orders (mg_book m2)) ?oid = Some o2"
    using record_ok [OF s1(2) _ _ _ s1(4) assms(4), where t = Ev_SUBMITTED and cfg = cfg and reason = None and rd = None and td = ?td] s1(3) by (auto simp: is_fill_event_def)
  show ?thesis
    by (simp add: apply_canonical_risk_def Let_def and_then_def s1(1) s2 state_of_def)
qed

definition canonical_intent :: "'b oms \<Rightarrow> string \<Rightarrow> wire_order \<Rightarrow> string \<Rightarrow> order_intent res" where
  "canonical_intent cfg now od s = OrderIntent_create (om_digest cfg) now (wo_symbol od) (wo_side od) (wo_quantity od) s
     (sig_lineage (Signal_create (om_digest cfg) now (wo_symbol od) (s @ ''-'' @ or_text (wo_signal_id od) ''manual'') 0 (om_lineage cfg)))
     None (wo_price od)"

lemma open_returns:
  assumes s: "exchange_session cfg (wo_timestamp od) = Inr s" and ok: "\<not> led_write_failure (mg_ledger m)" "\<And>n. oe_write env n"
    and i: "canonical_intent cfg (oe_event_time env (length (bk_events (mg_book m)))) od s = Inr i"
    and new: "map_of (bk_orders (mg_book m)) (ord_order_id (Order_from_intent (om_digest cfg) i None)) = None"
  shows "\<exists>c m'. open_canonical_pending cfg env od m = (Inr c, m')"
proof -
  let ?n = "length (led_records (mg_ledger m))"
  have "\<exists>c st. mirror_open (om_chain cfg) (om_digest cfg) (oe_write env ?n) now now' i td None (mg_book m, mg_ledger m) = (Inr c, st)" for now now' td
    by (simp add: mirror_open_def OrderBook_open_new [OF new] append_cases Let_def ok)
  then obtain c st where c: "mirror_open (om_chain cfg) (om_digest cfg) (oe_write env ?n) (oe_event_time env (length (bk_events (mg_book m))))
      (oe_record_time env ?n) i (Some s) None (mg_book m, mg_ledger m) = (Inr c, st)" by blast
  show ?thesis
    unfolding open_canonical_pending_def s pure_then_def sum.case Let_def i [unfolded canonical_intent_def] c
    by (simp split: prod.split)
qed

section \<open>The decision approves\<close>

text \<open>Every check the order manager makes of an order, over the book and the state of the broker.\<close>

definition admitted :: "'b oms \<Rightarrow> 'b \<Rightarrow> order_book \<Rightarrow> wire_order \<Rightarrow> bool" where
  "admitted cfg b book od \<longleftrightarrow> (case om_parse cfg (wo_timestamp od) of
       None \<Rightarrow> False
     | Some stamp \<Rightarrow>
         (let session = exchange_session_of stamp; sent_today = submitted_orders book session in
          explicit_result od \<notin> set UPSTREAM_REJECTIONS \<and> 0 < wo_quantity od \<and> (wo_type od = Limit_order \<longrightarrow> priced od)
          \<and> exchange_quantity_rejection cfg b od = None
          \<and> int (length (filter (\<lambda>o'. ord_symbol o' = wo_symbol od) sent_today)) < om_max_orders_per_symbol_per_day cfg
          \<and> (requires_production_pretrade cfg \<longrightarrow>
               (case (bounded_price od, map_res (recovered_intent cfg book) sent_today) of
                  (Some price, Inr earlier) \<Rightarrow>
                    certified (current_report (om_constraints cfg) earlier (risk_intent_of cfg b stamp od price))
                | _ \<Rightarrow> False))))"

lemma n_sent_orders:
  assumes "keyed b"
  shows "n_sent (views b) s y = int (length (filter (\<lambda>o'. ord_symbol o' = y) (submitted_orders b s)))"
  by (simp add: n_sent_def sent_orders [OF assms] filter_map comp_def view_of_def)

definition approves :: "wire_order \<Rightarrow> 'b manager \<Rightarrow> (pretrade_outcome, 'b) oms_step \<Rightarrow> bool" where
  "approves od m r \<longleftrightarrow> (\<exists>od' rd i m'. r = (Inr (od', rd, i), m') \<and> rd_approved rd \<and> same_request od od' \<and> same_store m m')"

lemma production_approves:
  assumes m: "running cfg m" "production cfg" and b: "bounded_price od = Some price"
    and h: "session_intents cfg (views (mg_book m)) (exchange_session_of stamp) = Inr earlier"
    and c: "certified (current_report (om_constraints cfg) earlier (risk_intent_of cfg (mg_broker m) stamp od price))"
    and s: "same_store m0 m"
  shows "approves od m0 (production_decision cfg now od c stamp m)"
proof -
  let ?s = "exchange_session_of stamp" and ?m = "restore_daily_risk cfg (exchange_session_of stamp) m"
  note r = restore_ok [OF m, of ?s] restore_store [OF m, of ?s]
  then have "informed cfg ?s ?m" using m(2) by (simp add: running_def memory_ok_def)
  then have e: "mg_risk_errors ?m = []" "mg_risk_intents ?m = earlier" using r h by (auto simp: informed_def split: if_splits)
  have "same_store m0 ?m" using s r(2) by (rule same_store_trans)
  then show ?thesis
    using c r by (simp add: production_decision_def b Let_def e certify_order_def approves_def decision_on_def)
qed

lemma pretrade_approves:
  assumes m: "running cfg m" and nf: "\<not> om_forensic cfg" and a: "admitted cfg (mg_broker m) (mg_book m) od"
  shows "approves od m (pretrade_decision cfg now od c m)"
proof -
  have k: "keyed (mg_book m)" using m by (auto simp: running_def on_record_def dest: replays_keyed)
  from a obtain stamp where stamp: "om_parse cfg (wo_timestamp od) = Some stamp" by (auto simp: admitted_def split: option.splits)
  let ?s = "exchange_session_of stamp"
  have p: "parse_stamp cfg (wo_timestamp od) = Inr stamp" by (simp add: parse_stamp_def stamp)
  obtain n m1 where t: "symbol_orders_today cfg ?s (wo_symbol od) m = (n, m1)" by fastforce
  note o = orders_today_ok [OF m t]
  have bk: "mg_book m1 = mg_book m" "mg_broker m1 = mg_broker m" using o by (simp_all add: same_store_def)
  have left: "\<not> om_max_orders_per_symbol_per_day cfg \<le> n"
    using a o n_sent_orders [OF k] by (simp add: admitted_def stamp Let_def bk)
  have c: "(explicit_result od \<in> set UPSTREAM_REJECTIONS) = False" "(wo_quantity od \<le> 0) = False"
      "(wo_type od = Limit_order \<and> \<not> priced od) = False" "exchange_quantity_rejection cfg (mg_broker m) od = None" "om_forensic cfg = False"
      "(om_max_orders_per_symbol_per_day cfg \<le> n) = False"
    using a nf left by (auto simp: admitted_def stamp Let_def)
  have late: "approves od m (if \<not> production cfg then (Inr (od, decision_on cfg now c True ru th me re by, None), m1)
      else production_decision cfg now od c stamp m1)" for ru th me re "by"
  proof (cases "production cfg")
    case False
    with o show ?thesis by (simp add: approves_def decision_on_def)
  next
    case True
    with a obtain price earlier where e: "bounded_price od = Some price"
        "map_res (recovered_intent cfg (mg_book m)) (submitted_orders (mg_book m) ?s) = Inr earlier"
        "certified (current_report (om_constraints cfg) earlier (risk_intent_of cfg (mg_broker m) stamp od price))"
      by (auto simp: admitted_def stamp Let_def split: option.splits sum.splits)
    have "session_intents cfg (views (mg_book m1)) ?s = Inr earlier" unfolding bk session_intents_orders [OF k] by (rule e(2))
    with production_approves [OF _ True e(1) this, of m now c] o e(3) True show ?thesis by (simp add: bk)
  qed
  show ?thesis
    unfolding pretrade_decision_def c if_False option.case p pure_then_def sum.case Let_def t simp_thms
      prod.case requires_production by (rule late)
qed

section \<open>The whole way\<close>

lemma admitted_is_sent:
  assumes cfg: "om_broker cfg = watched p ops" "\<not> om_forensic cfg" "run_id_of cfg \<noteq> []" "no_empty_field (om_lineage cfg)"
    and m: "running cfg m" "synced (mg_file m) (mg_claims m)"
    and claim: "request_key cfg od = Inr key" "load_store (mg_file m) (mg_claims m) = (Inr (), st)" "map_of (is_claims st) key = None"
    and env: "oe_claim env = W_ok" "\<And>n. oe_write env n"
    and od: "wo_timestamp od \<noteq> []" "exchange_session cfg (wo_timestamp od) = Inr s"
      "canonical_intent cfg (oe_event_time env (length (bk_events (mg_book m)))) od s = Inr i"
      "map_of (bk_orders (mg_book m)) (ord_order_id (Order_from_intent (om_digest cfg) i None)) = None"
    and ad: "admitted cfg (mg_broker m) (mg_book m) od"
  shows "\<exists>ca. calls_of (snd (submit_one cfg env od m)) = calls_of m @ [ca] \<and> same_request od (ca_order ca) \<and> ca_process ca = p"
proof -
  let ?fp = "request_fingerprint cfg od"
  have "is_durable st" using load_store_facts(1) [OF claim(2) m(2)] by (simp add: synced_def)
  moreover obtain r c f where cl: "claim (oe_claim env) (oe_claimed_at env) key None
       [(''clientOrderId'', JStr (wo_client_order_id od)), (''fingerprint'', JStr ?fp)] False (mg_claims m, mg_file m) = (r, c, f)"
    by (metis prod_cases3)
  ultimately have "\<exists>x. r = Inr x \<and> cl_granted x"
    using claim(2,3) env(1) by (auto simp: claim_def Let_def append_claim_def)
  then have g: "claim_request cfg env key ?fp od m = (Inr Granted, m\<lparr>mg_claims := c, mg_file := f\<rparr>)"
    by (auto simp: claim_request_def cl pure_then_def)
  define m1 where "m1 = m\<lparr>mg_claims := c, mg_file := f\<rparr>"
  have st: "stamped env od = od" using od(1) by (simp add: stamped_def)
  have sub: "submit_one cfg env od m = decide_and_route cfg env key ?fp od m1"
    unfolding submit_one_def Let_def st using cfg(2,3) claim(1) by (simp add: pure_then_def g m1_def [symmetric] and_then_returned)
  have r1: "running cfg m1" "mg_book m1 = mg_book m" "mg_broker m1 = mg_broker m" "mg_ledger m1 = mg_ledger m" using m(1) by (simp_all add: m1_def)
  have s1: "synced (mg_file m1) (mg_claims m1)"
    using claim_facts [OF cl m(2)] by (simp add: m1_def)
  have nf: "\<not> led_write_failure (mg_ledger m1)" if "on_record cfg m1" for m1 :: "('a \<times> broker_call list) manager"
    using that by (auto simp: on_record_def dest: replays_open)
  have rec1: "on_record cfg m1" using r1(1) by (simp add: running_def)
  obtain cn m2 where op: "open_canonical_pending cfg env od m1 = (Inr cn, m2)"
    using open_returns [OF od(2) nf [OF rec1] env(2)] od(3,4) by (auto simp: r1)
  have o2: "running cfg m2" "same_desk m1 m2" "views (mg_book m2) = views (mg_book m1) @ [fresh_view cn]" "pending od s cn m2"
    using open_canonical_ok [OF r1(1) cfg(4), of env od] od(2) by (auto simp: op)
  define m2' where "m2' = m2\<lparr>mg_client_order_ids := AList.update (ord_order_id cn) (wo_client_order_id od) (mg_client_order_ids m2)\<rparr>"
  have r2: "running cfg m2'" "pending od s cn m2'" "mg_broker m2' = mg_broker m" "synced (mg_file m2') (mg_claims m2')"
      "views (mg_book m2') = views (mg_book m) @ [fresh_view cn]"
    using o2 r1 s1 by (simp_all add: m2'_def same_desk_def)
  have keyed: "keyed (mg_book m)" "keyed (mg_book m2')"
    using m(1) r2(1) by (auto simp: running_def on_record_def dest: replays_keyed)
  have same: "int (length (filter (\<lambda>o'. ord_symbol o' = y) (submitted_orders (mg_book m2') q)))
      = int (length (filter (\<lambda>o'. ord_symbol o' = y) (submitted_orders (mg_book m) q)))"
    "map_res (recovered_intent cfg (mg_book m2')) (submitted_orders (mg_book m2') q)
      = map_res (recovered_intent cfg (mg_book m)) (submitted_orders (mg_book m) q)" for q y
    unfolding n_sent_orders [OF keyed(1), symmetric] n_sent_orders [OF keyed(2), symmetric]
      session_intents_orders [OF keyed(1), symmetric] session_intents_orders [OF keyed(2), symmetric] r2(5) by simp_all
  have "admitted cfg (mg_broker m2') (mg_book m2') od" using ad unfolding admitted_def Let_def same r2(3) .
  from pretrade_approves [OF r2(1) cfg(2) this, of "oe_now env" cn] obtain od' rd j m3 where
    d: "pretrade_decision cfg (oe_now env) od cn m2' = (Inr (od', rd, j), m3)" "rd_approved rd" "same_request od od'" "same_store m2' m3"
    by (auto simp: approves_def)
  have r3: "mg_book m3 = mg_book m2'" "mg_broker m3 = mg_broker m" "mg_ledger m3 = mg_ledger m2'" "synced (mg_file m3) (mg_claims m3)"
    using d(4) r2 by (simp_all add: same_store_def)
  have cn: "map_of (bk_orders (mg_book m3)) (ord_order_id cn) = Some cn" "ord_status cn = PENDING_RISK"
    using r2(2) keyed(2) by (auto simp: pending_def r3 keyed_def map_add_def map_of_eq_None_iff split: option.split)
  have "on_record cfg m2'" using r2(1) by (simp add: running_def)
  from approve_returns [OF cn _ env(2), of cfg rd] nf [OF this] obtain c' m4 where
    ap: "apply_canonical_risk cfg env cn rd True m3 = (Inr c', m4)" by (auto simp: r3)
  have "decide_and_route cfg env key ?fp od m1 = route_order cfg env key ?fp od' cn rd j m3"
    unfolding decide_and_route_def op and_then_returned Let_def m2'_def [symmetric] d(1) using d(2) by simp
  with route_calls [OF cfg(1) r3(4) ap, of key ?fp od' j] d(3) show ?thesis by (auto simp: sub r3)
qed

text \<open>The request has no claim on the file yet, and its canonical order is not in the book.\<close>

definition unclaimed :: "'b oms \<Rightarrow> idem_file \<Rightarrow> idem_store \<Rightarrow> wire_order \<Rightarrow> bool" where
  "unclaimed cfg fl claims od \<longleftrightarrow> (case (request_key cfg od, load_store fl claims) of
       (Inr key, (Inr _, st)) \<Rightarrow> \<not> idem_seen st key | _ \<Rightarrow> False)"

definition unopened :: "'b oms \<Rightarrow> string \<Rightarrow> order_book \<Rightarrow> wire_order \<Rightarrow> bool" where
  "unopened cfg now book od \<longleftrightarrow> (case exchange_session cfg (wo_timestamp od) of
       Inl _ \<Rightarrow> False
     | Inr s \<Rightarrow> (case canonical_intent cfg now od s of
           Inl _ \<Rightarrow> False | Inr i \<Rightarrow> map_of (bk_orders book) (ord_order_id (Order_from_intent (om_digest cfg) i None)) = None))"

lemma admitted_is_sent':
  assumes "om_broker cfg = watched p ops" "\<not> om_forensic cfg" "run_id_of cfg \<noteq> []" "no_empty_field (om_lineage cfg)"
    and "running cfg m" "synced (mg_file m) (mg_claims m)" "unclaimed cfg (mg_file m) (mg_claims m) od"
    and "oe_claim env = W_ok" "\<And>n. oe_write env n" "wo_timestamp od \<noteq> []"
    and "unopened cfg (oe_event_time env (length (bk_events (mg_book m)))) (mg_book m) od" "admitted cfg (mg_broker m) (mg_book m) od"
  shows "\<exists>ca. calls_of (snd (submit_one cfg env od m)) = calls_of m @ [ca] \<and> same_request od (ca_order ca) \<and> ca_process ca = p"
proof -
  obtain r st where l: "load_store (mg_file m) (mg_claims m) = (r, st)" by fastforce
  then obtain key where k: "request_key cfg od = Inr key" "load_store (mg_file m) (mg_claims m) = (Inr (), st)" "map_of (is_claims st) key = None"
    using assms(7) by (cases r) (auto simp: unclaimed_def idem_seen_def split: sum.splits)
  obtain s i where o: "exchange_session cfg (wo_timestamp od) = Inr s"
      "canonical_intent cfg (oe_event_time env (length (bk_events (mg_book m)))) od s = Inr i"
      "map_of (bk_orders (mg_book m)) (ord_order_id (Order_from_intent (om_digest cfg) i None)) = None"
    using assms(11) by (auto simp: unopened_def split: sum.splits)
  show ?thesis by (rule admitted_is_sent [OF assms(1-6) k assms(8,9,10) o assms(12)])
qed

end
