(* ===== verification/Virtual_Broker.thy ===== *)
theory Virtual_Broker
  imports Broker_Base
begin

text \<open>
  The simulated broker of \<open>src/src/quantagent/execution/virtual_broker.py\<close>, over the fills of
  \<open>fill_simulator.py\<close>, the costs of \<open>cost_model.py\<close> and the positions of \<open>position_ledger.py\<close>.  The audit file and
  the callbacks it tells of a fill are left out: nothing they do comes back into its state.
\<close>

section \<open>Fills\<close>

record fill_simulator =
  fs_participation_rate :: rat
  fs_slippage_bps :: rat

record virtual_fill =
  fd_quantity :: int
  fd_price :: rat
  fd_message :: string

definition simulate :: "fill_simulator \<Rightarrow> wire_order \<Rightarrow> rat option \<Rightarrow> virtual_fill" where
  "simulate sim od available_volume =
     (let quantity = (case available_volume of None \<Rightarrow> wo_quantity od
            | Some v \<Rightarrow> min (wo_quantity od) (py_int (max 0 v * fs_participation_rate sim)));
          slip = fs_slippage_bps sim / 10000;
          price = (case wo_price od of None \<Rightarrow> 0 | Some p \<Rightarrow> p) * (if wo_side od = BUY then 1 + slip else 1 - slip)
      in if quantity \<le> 0 then \<lparr>fd_quantity = 0, fd_price = price, fd_message = ''no_liquidity''\<rparr>
         else \<lparr>fd_quantity = quantity, fd_price = price,
                fd_message = (if quantity = wo_quantity od then ''filled'' else ''partial'')\<rparr>)"

section \<open>Costs\<close>

text \<open>
  \<open>cm_sqrt\<close> is \<open>math.sqrt\<close>.  A trade date is \<open>None\<close> where there is none, and \<open>Some d\<close> with the day \<open>d\<close> that
  \<open>_as_date\<close> reads, if it reads one.
\<close>

record cost_model =
  cm_commission_rate :: rat
  cm_min_commission :: rat
  cm_stamp_tax_rate :: "rat option"
  cm_transfer_fee_rate :: rat
  cm_impact_alpha_bps :: rat
  cm_sqrt :: "rat \<Rightarrow> rat"

record costs =
  co_commission :: rat
  co_stamp_duty :: rat
  co_transfer_fee :: rat
  co_impact_cost :: rat

definition co_total :: "costs \<Rightarrow> rat" where
  "co_total c = co_commission c + co_stamp_duty c + co_transfer_fee c + co_impact_cost c"

definition stamp_rate :: "cost_model \<Rightarrow> int option option \<Rightarrow> rat res" where
  "stamp_rate cm trade_date = (case cm_stamp_tax_rate cm of
       Some r \<Rightarrow> Inr r
     | None \<Rightarrow> (case trade_date of None \<Rightarrow> Inl ValueError | Some day \<Rightarrow> Inr (stamp_duty_rate day)))"

definition impact_cost :: "cost_model \<Rightarrow> rat \<Rightarrow> rat \<Rightarrow> rat" where
  "impact_cost cm order_value participation_rate =
     (if order_value \<le> 0 \<or> cm_impact_alpha_bps cm \<le> 0 then 0
      else let p = max 0 participation_rate in
        if p \<le> 0 then 0 else order_value * (cm_impact_alpha_bps cm * cm_sqrt cm p) / 10000)"

definition calculate :: "cost_model \<Rightarrow> side \<Rightarrow> int \<Rightarrow> rat \<Rightarrow> rat \<Rightarrow> int option option \<Rightarrow> costs res" where
  "calculate cm sd quantity price participation_rate trade_date =
     (let value = of_int quantity * price;
          commission = max (if 0 < value then cm_min_commission cm else 0) (value * cm_commission_rate cm)
      in res_bind (if sd = SELL then res_bind (stamp_rate cm trade_date) (\<lambda>r. Inr (value * r)) else Inr 0) (\<lambda>stamp.
           Inr \<lparr>co_commission = commission, co_stamp_duty = stamp, co_transfer_fee = value * cm_transfer_fee_rate cm,
                co_impact_cost = impact_cost cm value participation_rate\<rparr>))"

section \<open>Positions and cash\<close>

record position_ledger =
  pl_positions :: "(string, wire_position) dict"
  pl_cash :: rat
  pl_fills :: "trade_fill list"

definition fill_cost :: "trade_fill \<Rightarrow> rat" where
  "fill_cost f = tf_commission f + tf_stamp_duty f + tf_transfer_fee f + tf_impact_cost f"

definition held_position :: "position_ledger \<Rightarrow> string \<Rightarrow> rat \<Rightarrow> wire_position" where
  "held_position pl symbol cost = dict_get (pl_positions pl) symbol
     \<lparr>wp_symbol = symbol, wp_available = 0, wp_frozen = 0, wp_avg_cost = cost\<rparr>"

definition apply_trade :: "trade_fill \<Rightarrow> position_ledger \<Rightarrow> position_ledger" where
  "apply_trade f pl =
     (let current = held_position pl (tf_symbol f) (tf_price f);
          value = of_int (tf_quantity f) * tf_price f;
          pl' = (if tf_side f = BUY then
              let total_shares = wp_available current + wp_frozen current + tf_quantity f;
                  avg_cost = (of_int (wp_available current + wp_frozen current) * wp_avg_cost current + value)
                    / of_int (max total_shares 1)
              in pl\<lparr>pl_positions := AList.update (tf_symbol f) \<lparr>wp_symbol = tf_symbol f, wp_available = wp_available current,
                    wp_frozen = wp_frozen current + tf_quantity f, wp_avg_cost = avg_cost\<rparr> (pl_positions pl),
                  pl_cash := pl_cash pl - (value + fill_cost f)\<rparr>
            else
              let sell_qty = min (tf_quantity f) (wp_available current)
              in pl\<lparr>pl_positions := AList.update (tf_symbol f) \<lparr>wp_symbol = tf_symbol f,
                    wp_available = wp_available current - sell_qty, wp_frozen = wp_frozen current,
                    wp_avg_cost = wp_avg_cost current\<rparr> (pl_positions pl),
                  pl_cash := pl_cash pl + (of_int sell_qty * tf_price f - fill_cost f)\<rparr>)
      in pl'\<lparr>pl_fills := pl_fills pl' @ [f]\<rparr>)"

definition release_frozen_shares :: "position_ledger \<Rightarrow> position_ledger" where
  "release_frozen_shares pl = pl\<lparr>pl_positions := map (\<lambda>(symbol, p). (symbol, \<lparr>wp_symbol = symbol,
     wp_available = wp_available p + wp_frozen p, wp_frozen = 0, wp_avg_cost = wp_avg_cost p\<rparr>)) (pl_positions pl)\<rparr>"

section \<open>The broker\<close>

text \<open>One row of the market state, its flags as \<open>bool\<close> reads them.\<close>

record market_row =
  mr_suspended :: bool
  mr_is_limit_up :: bool
  mr_is_limit_down :: bool
  mr_volume :: "rat option"
  mr_trade_date :: "int option option"

text \<open>\<open>vc_fill_time n\<close> and \<open>vc_uuid n\<close> are the time and the identifier of the \<open>n\<close>-th fill.\<close>

record virtual_config =
  vc_fill_simulator :: fill_simulator
  vc_cost_model :: cost_model
  vc_fill_time :: "nat \<Rightarrow> string"
  vc_uuid :: "nat \<Rightarrow> string"

record virtual_broker =
  vb_ledger :: position_ledger
  vb_orders :: "(string, wire_state) dict"
  vb_order_objects :: "(string, wire_order) dict"
  vb_fills :: "(string, trade_fill) dict"
  vb_market :: "(string, market_row) dict"

definition VirtualBroker_make :: "rat \<Rightarrow> (string, market_row) dict \<Rightarrow> virtual_broker" where
  "VirtualBroker_make initial_cash market =
     \<lparr>vb_ledger = \<lparr>pl_positions = [], pl_cash = initial_cash, pl_fills = []\<rparr>, vb_orders = [], vb_order_objects = [],
      vb_fills = [], vb_market = market\<rparr>"

definition plain_row :: market_row where
  "plain_row = \<lparr>mr_suspended = False, mr_is_limit_up = False, mr_is_limit_down = False, mr_volume = None, mr_trade_date = None\<rparr>"

definition row_of :: "virtual_broker \<Rightarrow> string \<Rightarrow> market_row" where
  "row_of vb symbol = dict_get (vb_market vb) symbol plain_row"

definition vb_reject_reason :: "virtual_broker \<Rightarrow> wire_order \<Rightarrow> string option" where
  "vb_reject_reason vb od =
     (let row = row_of vb (wo_symbol od) in
      if mr_suspended row then Some ''suspended''
      else if wo_side od = BUY \<and> mr_is_limit_up row then Some ''limit_up_no_buy''
      else if wo_side od = SELL \<and> mr_is_limit_down row then Some ''limit_down_no_sell''
      else if wo_side od = SELL \<and> wp_available (held_position (vb_ledger vb) (wo_symbol od) 0) < wo_quantity od
      then Some ''t_plus_one_or_insufficient_available_shares''
      else None)"

definition vb_record :: "wire_order \<Rightarrow> wire_state \<Rightarrow> virtual_broker \<Rightarrow> virtual_broker" where
  "vb_record od state vb = vb\<lparr>vb_order_objects := AList.update (wo_client_order_id od) od (vb_order_objects vb),
     vb_orders := AList.update (wo_client_order_id od) state (vb_orders vb)\<rparr>"

definition state_for :: "string \<Rightarrow> string option \<Rightarrow> wire_status \<Rightarrow> int \<Rightarrow> rat \<Rightarrow> string \<Rightarrow> wire_state" where
  "state_for cid bid status filled price message = \<lparr>ws_client_order_id = cid, ws_broker_order_id = bid, ws_status = status,
     ws_filled_quantity = filled, ws_avg_price = price, ws_last_message = message\<rparr>"

definition vb_reject :: "wire_order \<Rightarrow> rat \<Rightarrow> string \<Rightarrow> virtual_broker \<Rightarrow> broker_reply \<times> virtual_broker" where
  "vb_reject od price message vb =
     (let state = state_for (wo_client_order_id od) None WS_REJECTED 0 price message
      in (Answered state, vb_record od state vb))"

definition participation :: "int \<Rightarrow> rat option \<Rightarrow> rat" where
  "participation quantity day_volume = (case day_volume of
       None \<Rightarrow> 0 | Some v \<Rightarrow> if 0 < v then of_int quantity / v else 0)"

definition trade_of :: "virtual_config \<Rightarrow> virtual_broker \<Rightarrow> wire_order \<Rightarrow> virtual_fill \<Rightarrow> costs \<Rightarrow> trade_fill" where
  "trade_of vc vb od fill co =
     \<lparr>tf_client_order_id = wo_client_order_id od, tf_symbol = wo_symbol od, tf_side = wo_side od, tf_quantity = fd_quantity fill,
      tf_price = fd_price fill, tf_fill_time = vc_fill_time vc (length (pl_fills (vb_ledger vb))),
      tf_commission = co_commission co, tf_stamp_duty = co_stamp_duty co, tf_transfer_fee = co_transfer_fee co,
      tf_impact_cost = co_impact_cost co\<rparr>"

definition vb_book_fill :: "virtual_config \<Rightarrow> wire_order \<Rightarrow> virtual_fill \<Rightarrow> costs \<Rightarrow> virtual_broker \<Rightarrow> broker_reply \<times> virtual_broker" where
  "vb_book_fill vc od fill co vb =
     (let trade = trade_of vc vb od fill co;
          n = length (pl_fills (vb_ledger vb));
          vb = vb\<lparr>vb_ledger := apply_trade trade (vb_ledger vb),
                 vb_fills := AList.update (wo_client_order_id od) trade (vb_fills vb)\<rparr>;
          state = state_for (wo_client_order_id od) (Some (''VB-'' @ take 12 (vc_uuid vc n)))
            (if fd_quantity fill = wo_quantity od then WS_FILLED else WS_PARTIAL) (fd_quantity fill) (fd_price fill) (fd_message fill)
      in (Answered state, vb_record od state vb))"

definition vb_submit :: "virtual_config \<Rightarrow> wire_order \<Rightarrow> virtual_broker \<Rightarrow> broker_reply \<times> virtual_broker" where
  "vb_submit vc od vb = (case vb_reject_reason vb od of
       Some reason \<Rightarrow> vb_reject od 0 reason vb
     | None \<Rightarrow>
         (let volume = mr_volume (row_of vb (wo_symbol od));
              fill = simulate (vc_fill_simulator vc) od volume
          in if fd_quantity fill \<le> 0 then vb_reject od (fd_price fill) (fd_message fill) vb
             else case calculate (vc_cost_model vc) (wo_side od) (fd_quantity fill) (fd_price fill)
                    (participation (fd_quantity fill) volume) (mr_trade_date (row_of vb (wo_symbol od))) of
               Inl e \<Rightarrow> (Crashed e, vb)
             | Inr co \<Rightarrow>
                 (if wo_side od = BUY \<and> pl_cash (vb_ledger vb) < of_int (fd_quantity fill) * fd_price fill + co_total co
                  then vb_reject od (fd_price fill) ''insufficient_cash'' vb
                  else vb_book_fill vc od fill co vb)))"

definition vb_cancel :: "string \<Rightarrow> virtual_broker \<Rightarrow> wire_state \<times> virtual_broker" where
  "vb_cancel cid vb =
     (let state = (case map_of (vb_orders vb) cid of
            None \<Rightarrow> state_for cid None WS_REJECTED 0 0 ''unknown_order''
          | Some existing \<Rightarrow>
              if ws_status existing \<in> {WS_FILLED, WS_REJECTED, WS_CANCELLED} then existing
              else state_for cid (ws_broker_order_id existing) WS_CANCELLED (ws_filled_quantity existing)
                     (ws_avg_price existing) ''cancelled'')
      in (state, vb\<lparr>vb_orders := AList.update cid state (vb_orders vb)\<rparr>))"

definition vb_query_order :: "virtual_broker \<Rightarrow> string \<Rightarrow> wire_state" where
  "vb_query_order vb cid = dict_get (vb_orders vb) cid (state_for cid None WS_REJECTED 0 0 ''unknown_order'')"

definition vb_query_positions :: "virtual_broker \<Rightarrow> wire_position list" where
  "vb_query_positions vb = map snd (pl_positions (vb_ledger vb))"

definition vb_account_value :: "virtual_broker \<Rightarrow> rat" where
  "vb_account_value vb = pl_cash (vb_ledger vb)
     + (\<Sum>p\<leftarrow>vb_query_positions vb. of_int (wp_available p + wp_frozen p) * wp_avg_cost p)"

definition set_market_state :: "(string \<times> market_row) list \<Rightarrow> virtual_broker \<Rightarrow> virtual_broker" where
  "set_market_state rows vb = vb\<lparr>vb_market := foldl (\<lambda>d (symbol, row). AList.update symbol row d) [] rows\<rparr>"

definition advance_trading_day :: "virtual_broker \<Rightarrow> virtual_broker" where
  "advance_trading_day vb = vb\<lparr>vb_ledger := release_frozen_shares (vb_ledger vb)\<rparr>"

section \<open>A broker apart\<close>

text \<open>A broker that is no canonical venue: it is given the order alone, and has neither the book nor the ledger.\<close>

record 'b plain_ops =
  po_name :: string
  po_production :: bool
  po_submit :: "wire_order \<Rightarrow> 'b \<Rightarrow> broker_reply \<times> 'b"
  po_cancel :: "string \<Rightarrow> 'b \<Rightarrow> wire_state res \<times> 'b"
  po_positions :: "'b \<Rightarrow> wire_position list res"
  po_account_value :: "'b \<Rightarrow> rat res"
  po_volume :: "(string \<Rightarrow> 'b \<Rightarrow> rat res) option"

definition plain_broker :: "'b plain_ops \<Rightarrow> 'b broker_ops" where
  "plain_broker po =
     \<lparr>bo_name = po_name po, bo_canonical = False, bo_production = po_production po,
      bo_submit = (\<lambda>_ od (x, book, led). case po_submit po od x of (r, x) \<Rightarrow> (r, x, book, led)),
      bo_cancel = (\<lambda>cid (x, book, led). case po_cancel po cid x of (r, x) \<Rightarrow> (r, x, book, led)),
      bo_positions = po_positions po, bo_account_value = po_account_value po, bo_volume = po_volume po\<rparr>"

definition virtual_ops :: "virtual_config \<Rightarrow> virtual_broker plain_ops" where
  "virtual_ops vc =
     \<lparr>po_name = ''quantagent.execution.virtual_broker.VirtualBroker'', po_production = False, po_submit = vb_submit vc,
      po_cancel = (\<lambda>cid vb. case vb_cancel cid vb of (state, vb) \<Rightarrow> (Inr state, vb)),
      po_positions = (\<lambda>vb. Inr (vb_query_positions vb)), po_account_value = (\<lambda>vb. Inr (vb_account_value vb)),
      po_volume = None\<rparr>"

end
