(* ===== verification/Virtual_Props.thy ===== *)
theory Virtual_Props
  imports Virtual_Broker
begin

text \<open>
  The account of the simulated broker: it is what its fills add up to, nothing is negative, no share is sold on the day
  it was bought, and no purchase overdraws the cash.
\<close>

datatype vb_call = VB_submit wire_order | VB_cancel string | VB_market "(string \<times> market_row) list" | VB_advance

fun vb_do :: "virtual_config \<Rightarrow> vb_call \<Rightarrow> virtual_broker \<Rightarrow> virtual_broker" where
  "vb_do vc (VB_submit od) vb = snd (vb_submit vc od vb)"
| "vb_do vc (VB_cancel cid) vb = snd (vb_cancel cid vb)"
| "vb_do vc (VB_market rows) vb = set_market_state rows vb"
| "vb_do vc VB_advance vb = advance_trading_day vb"

fun vb_run :: "virtual_config \<Rightarrow> vb_call list \<Rightarrow> virtual_broker \<Rightarrow> virtual_broker" where
  "vb_run vc [] vb = vb"
| "vb_run vc (c # cs) vb = vb_run vc cs (vb_do vc c vb)"

definition shares_free :: "position_ledger \<Rightarrow> string \<Rightarrow> int" where
  "shares_free pl s = wp_available (held_position pl s 0)"

definition shares_frozen :: "position_ledger \<Rightarrow> string \<Rightarrow> int" where
  "shares_frozen pl s = wp_frozen (held_position pl s 0)"

definition bought :: "trade_fill list \<Rightarrow> string \<Rightarrow> int" where
  "bought fs s = (\<Sum>f\<leftarrow>filter (\<lambda>f. tf_symbol f = s \<and> tf_side f = BUY) fs. tf_quantity f)"

definition sold :: "trade_fill list \<Rightarrow> string \<Rightarrow> int" where
  "sold fs s = (\<Sum>f\<leftarrow>filter (\<lambda>f. tf_symbol f = s \<and> tf_side f = SELL) fs. tf_quantity f)"

definition cash_flow :: "trade_fill \<Rightarrow> rat" where
  "cash_flow f = (if tf_side f = BUY then - (of_int (tf_quantity f) * tf_price f) else of_int (tf_quantity f) * tf_price f) - fill_cost f"

section \<open>One order\<close>

lemma simulate_quantity: "fd_quantity (simulate sim od v) \<le> max 0 (wo_quantity od)"
  by (auto simp: simulate_def Let_def split: option.split)

text \<open>A fill that fits the account.\<close>

definition fits :: "position_ledger \<Rightarrow> trade_fill \<Rightarrow> bool" where
  "fits pl f \<longleftrightarrow> 0 < tf_quantity f \<and> (tf_side f = SELL \<longrightarrow> tf_quantity f \<le> shares_free pl (tf_symbol f))
     \<and> (tf_side f = BUY \<longrightarrow> of_int (tf_quantity f) * tf_price f + fill_cost f \<le> pl_cash pl)"

lemma rejected_ledger: "vb_ledger (snd (vb_reject od price message vb)) = vb_ledger vb"
  by (simp add: vb_reject_def vb_record_def Let_def)

lemma submitted_ledger:
  "vb_ledger (snd (vb_submit vc od vb)) = vb_ledger vb
   \<or> (\<exists>f. fits (vb_ledger vb) f \<and> vb_ledger (snd (vb_submit vc od vb)) = apply_trade f (vb_ledger vb))"
proof (cases "vb_reject_reason vb od")
  case (Some reason)
  then show ?thesis by (simp add: vb_submit_def rejected_ledger)
next
  case None
  let ?v = "mr_volume (row_of vb (wo_symbol od))" and ?d = "mr_trade_date (row_of vb (wo_symbol od))"
  let ?f = "simulate (vc_fill_simulator vc) od ?v"
  let ?c = "calculate (vc_cost_model vc) (wo_side od) (fd_quantity ?f) (fd_price ?f) (participation (fd_quantity ?f) ?v) ?d"
  show ?thesis
  proof (cases "fd_quantity ?f \<le> 0")
    case True
    with None show ?thesis by (simp add: vb_submit_def Let_def rejected_ledger)
  next
    case q: False
    show ?thesis
    proof (cases ?c)
      case (Inl e)
      with None q show ?thesis by (simp add: vb_submit_def Let_def)
    next
      case (Inr co)
      let ?t = "trade_of vc vb od ?f co"
      have cost: "fill_cost ?t = co_total co" by (simp add: trade_of_def fill_cost_def co_total_def)
      show ?thesis
      proof (cases "wo_side od = BUY \<and> pl_cash (vb_ledger vb) < of_int (fd_quantity ?f) * fd_price ?f + co_total co")
        case True
        with None q Inr show ?thesis by (simp add: vb_submit_def Let_def rejected_ledger)
      next
        case enough: False
        have avail: "wo_quantity od \<le> shares_free (vb_ledger vb) (wo_symbol od)" if "wo_side od = SELL"
          using None that by (auto simp: vb_reject_reason_def Let_def shares_free_def split: if_splits)
        have qty: "fd_quantity ?f \<le> wo_quantity od" using simulate_quantity [of "vc_fill_simulator vc" od ?v] q by simp
        have "fits (vb_ledger vb) ?t"
          unfolding fits_def cost using q enough avail qty by (auto simp: trade_of_def)
        moreover have "vb_ledger (snd (vb_submit vc od vb)) = apply_trade ?t (vb_ledger vb)"
          unfolding vb_submit_def None option.case Let_def if_not_P [OF q] Inr sum.case if_not_P [OF enough]
          by (simp add: vb_book_fill_def vb_record_def Let_def)
        ultimately show ?thesis by blast
      qed
    qed
  qed
qed

lemma trade_moves:
  assumes "fits pl f"
  shows "shares_free (apply_trade f pl) s = shares_free pl s - (if tf_symbol f = s \<and> tf_side f = SELL then tf_quantity f else 0)"
    and "shares_frozen (apply_trade f pl) s = shares_frozen pl s + (if tf_symbol f = s \<and> tf_side f = BUY then tf_quantity f else 0)"
    and "pl_cash (apply_trade f pl) = pl_cash pl + cash_flow f"
    and "pl_fills (apply_trade f pl) = pl_fills pl @ [f]"
proof -
  have h: "wp_available (held_position pl (tf_symbol f) c) = shares_free pl (tf_symbol f)" "wp_frozen (held_position pl (tf_symbol f) c) = shares_frozen pl (tf_symbol f)" for c
    by (simp_all add: held_position_def shares_free_def shares_frozen_def dict_get_def split: option.split)
  have m: "min (tf_quantity f) (shares_free pl (tf_symbol f)) = tf_quantity f" if "tf_side f = SELL"
    using assms that by (simp add: fits_def)
  have b: "tf_side f \<noteq> BUY \<longleftrightarrow> tf_side f = SELL" by (cases "tf_side f") simp_all
  show "shares_free (apply_trade f pl) s = shares_free pl s - (if tf_symbol f = s \<and> tf_side f = SELL then tf_quantity f else 0)"
    using m b by (auto simp: apply_trade_def Let_def h) (auto simp: shares_free_def held_position_def)
  show "shares_frozen (apply_trade f pl) s = shares_frozen pl s + (if tf_symbol f = s \<and> tf_side f = BUY then tf_quantity f else 0)"
    using m b by (auto simp: apply_trade_def Let_def h) (auto simp: shares_frozen_def held_position_def)
  show "pl_cash (apply_trade f pl) = pl_cash pl + cash_flow f"
    using m b by (auto simp: apply_trade_def Let_def h cash_flow_def)
  show "pl_fills (apply_trade f pl) = pl_fills pl @ [f]" by (simp add: apply_trade_def Let_def)
qed

lemma released:
  "shares_free (release_frozen_shares pl) s = shares_free pl s + shares_frozen pl s" "shares_frozen (release_frozen_shares pl) s = 0"
  "pl_cash (release_frozen_shares pl) = pl_cash pl" "pl_fills (release_frozen_shares pl) = pl_fills pl"
proof -
  have "map_of (map (\<lambda>(symbol, p). (symbol, g symbol p)) d) s = map_option (g s) (map_of d s)" for g :: "string \<Rightarrow> wire_position \<Rightarrow> wire_position" and d
    by (induction d) auto
  note m = this [of "\<lambda>symbol p. \<lparr>wp_symbol = symbol, wp_available = wp_available p + wp_frozen p, wp_frozen = 0, wp_avg_cost = wp_avg_cost p\<rparr>"]
  show "shares_free (release_frozen_shares pl) s = shares_free pl s + shares_frozen pl s" "shares_frozen (release_frozen_shares pl) s = 0"
    by (auto simp: release_frozen_shares_def shares_free_def shares_frozen_def held_position_def dict_get_def m split: option.split)
qed (simp_all add: release_frozen_shares_def)

section \<open>Whole runs\<close>

definition adds_up :: "rat \<Rightarrow> position_ledger \<Rightarrow> bool" where
  "adds_up c0 pl \<longleftrightarrow> pl_cash pl = c0 + (\<Sum>f\<leftarrow>pl_fills pl. cash_flow f)
     \<and> (\<forall>s. 0 \<le> shares_free pl s \<and> 0 \<le> shares_frozen pl s \<and> shares_free pl s + shares_frozen pl s = bought (pl_fills pl) s - sold (pl_fills pl) s)"

lemma adds_up_trade: "adds_up c0 pl \<Longrightarrow> fits pl f \<Longrightarrow> adds_up c0 (apply_trade f pl)"
  unfolding adds_up_def by (auto simp: trade_moves bought_def sold_def fits_def)

lemma adds_up_do: "adds_up c0 (vb_ledger vb) \<Longrightarrow> adds_up c0 (vb_ledger (vb_do vc c vb))"
proof (cases c)
  case (VB_submit od)
  assume "adds_up c0 (vb_ledger vb)"
  with submitted_ledger [of vc od vb] show ?thesis by (auto simp: VB_submit intro: adds_up_trade)
next
  case VB_advance
  assume a: "adds_up c0 (vb_ledger vb)"
  let ?pl = "vb_ledger vb"
  have "0 \<le> shares_free ?pl s + shares_frozen ?pl s \<and> shares_free ?pl s + shares_frozen ?pl s = bought (pl_fills ?pl) s - sold (pl_fills ?pl) s" for s
    using a unfolding adds_up_def by (metis add_nonneg_nonneg)
  then have "sold (pl_fills ?pl) s \<le> bought (pl_fills ?pl) s" for s by (metis diff_ge_0_iff_ge)
  with a show ?thesis by (simp add: VB_advance advance_trading_day_def adds_up_def released)
qed (auto simp: vb_cancel_def set_market_state_def Let_def)

lemma adds_up_run: "adds_up c0 (vb_ledger vb) \<Longrightarrow> adds_up c0 (vb_ledger (vb_run vc cs vb))"
  by (induction cs arbitrary: vb) (simp_all add: adds_up_do)

lemma adds_up_new: "adds_up c0 (vb_ledger (VirtualBroker_make c0 market))"
  by (simp add: adds_up_def VirtualBroker_make_def shares_free_def shares_frozen_def held_position_def bought_def sold_def)

text \<open>C39. The simulated account adds up: after any run of orders, cancels, market updates and day changes its cash is
  the opening cash and the flows of its fills, no position has a negative number of available or frozen shares, and
  the shares of each symbol are those bought less those sold.\<close>

theorem virtual_account_adds_up:
  "let pl = vb_ledger (vb_run vc calls (VirtualBroker_make initial_cash market)) in
     pl_cash pl = initial_cash + (\<Sum>f\<leftarrow>pl_fills pl. cash_flow f)
     \<and> (\<forall>s. 0 \<le> shares_free pl s \<and> 0 \<le> shares_frozen pl s \<and> shares_free pl s + shares_frozen pl s = bought (pl_fills pl) s - sold (pl_fills pl) s)"
  using adds_up_run [OF adds_up_new [of initial_cash market], of vc calls] by (simp add: adds_up_def Let_def)

text \<open>Within a day.\<close>

definition same_day :: "position_ledger \<Rightarrow> position_ledger \<Rightarrow> bool" where
  "same_day pl pl' \<longleftrightarrow> (\<exists>fs. pl_fills pl' = pl_fills pl @ fs
     \<and> (\<forall>s. shares_free pl' s = shares_free pl s - sold fs s \<and> shares_frozen pl' s = shares_frozen pl s + bought fs s))"

lemma same_day_refl: "same_day pl pl"
  by (simp add: same_day_def bought_def sold_def)

lemma same_day_trade: "same_day pl pl' \<Longrightarrow> fits pl' f \<Longrightarrow> same_day pl (apply_trade f pl')"
  unfolding same_day_def by (auto simp: trade_moves bought_def sold_def)

lemma same_day_do: "same_day pl (vb_ledger vb) \<Longrightarrow> c \<noteq> VB_advance \<Longrightarrow> same_day pl (vb_ledger (vb_do vc c vb))"
proof (cases c)
  case (VB_submit od)
  assume "same_day pl (vb_ledger vb)"
  with submitted_ledger [of vc od vb] show ?thesis by (auto simp: VB_submit intro: same_day_trade)
qed (auto simp: vb_cancel_def set_market_state_def Let_def)

lemma same_day_run: "same_day pl (vb_ledger vb) \<Longrightarrow> VB_advance \<notin> set cs \<Longrightarrow> same_day pl (vb_ledger (vb_run vc cs vb))"
  by (induction cs arbitrary: vb) (auto simp: same_day_do)

text \<open>C40. T+1: whatever has happened before, what a day sells of a symbol was available when it opened, and what it
  buys stays frozen until the next day.\<close>

theorem virtual_t_plus_one:
  assumes "vb = vb_run vc before (VirtualBroker_make initial_cash market)" "VB_advance \<notin> set today"
    and "vb' = vb_run vc today vb"
  shows "\<exists>fs. pl_fills (vb_ledger vb') = pl_fills (vb_ledger vb) @ fs
    \<and> (\<forall>s. sold fs s \<le> shares_free (vb_ledger vb) s \<and> shares_frozen (vb_ledger vb') s = shares_frozen (vb_ledger vb) s + bought fs s)"
proof -
  have "adds_up initial_cash (vb_ledger vb')"
    unfolding assms(1,3) by (intro adds_up_run adds_up_new)
  then have "0 \<le> shares_free (vb_ledger vb') s" for s by (simp add: adds_up_def)
  moreover obtain fs where "pl_fills (vb_ledger vb') = pl_fills (vb_ledger vb) @ fs"
      "\<forall>s. shares_free (vb_ledger vb') s = shares_free (vb_ledger vb) s - sold fs s \<and> shares_frozen (vb_ledger vb') s = shares_frozen (vb_ledger vb) s + bought fs s"
    using same_day_run [OF same_day_refl assms(2), of vb vc] unfolding assms(3) [symmetric] same_day_def by blast
  ultimately show ?thesis by (intro exI [of _ fs]) (metis diff_ge_0_iff_ge)
qed

text \<open>A purchase is paid from the cash there is; a sale can still overdraw it, by the minimum commission.\<close>

lemma virtual_buy_within_cash:
  assumes "pl_fills (vb_ledger (snd (vb_submit vc od vb))) = pl_fills (vb_ledger vb) @ [f]" "tf_side f = BUY"
  shows "0 \<le> pl_cash (vb_ledger (snd (vb_submit vc od vb)))"
proof -
  obtain f' where f': "fits (vb_ledger vb) f'" "vb_ledger (snd (vb_submit vc od vb)) = apply_trade f' (vb_ledger vb)"
    using submitted_ledger [of vc od vb] assms(1) by auto
  then have "f' = f" using assms(1) by (simp add: trade_moves)
  with f' assms(2) show ?thesis by (simp add: trade_moves fits_def cash_flow_def)
qed

definition demo_costs :: cost_model where
  "demo_costs = \<lparr>cm_commission_rate = 3 / 10000, cm_min_commission = 5, cm_stamp_tax_rate = None, cm_transfer_fee_rate = 1 / 100000,
     cm_impact_alpha_bps = 10, cm_sqrt = id\<rparr>"

definition demo_virtual :: virtual_config where
  "demo_virtual = \<lparr>vc_fill_simulator = \<lparr>fs_participation_rate = 1, fs_slippage_bps = 5\<rparr>, vc_cost_model = demo_costs,
     vc_fill_time = (\<lambda>_. ''t''), vc_uuid = (\<lambda>_. ''0123456789abcdef'')\<rparr>"

definition demo_wire :: "string \<Rightarrow> side \<Rightarrow> int \<Rightarrow> rat \<Rightarrow> wire_order" where
  "demo_wire cid sd quantity price = \<lparr>wo_client_order_id = cid, wo_symbol = ''600000.SH'', wo_side = sd, wo_quantity = quantity,
     wo_type = Limit_order, wo_price = Some price, wo_note = '''', wo_signal_id = ''s1'', wo_model_version = '''',
     wo_feature_version = '''', wo_strategy_version = ''v1'', wo_risk_check_result = '''', wo_timestamp = ''now''\<rparr>"

definition demo_market :: "(string, market_row) dict" where
  "demo_market = [(''600000.SH'', plain_row\<lparr>mr_volume := Some 100000, mr_trade_date := Some (Some 20000)\<rparr>)]"

theorem virtual_t_plus_one_witness:
  "shares_free (vb_ledger (vb_run demo_virtual [VB_submit (demo_wire ''a'' BUY 200 10), VB_advance] (VirtualBroker_make 10000 demo_market))) ''600000.SH'' = 200
   \<and> (\<exists>fs. length fs = 2 \<and> sold fs ''600000.SH'' = 200 \<and> bought fs ''600000.SH'' = 100 \<and> sold fs ''600000.SH'' \<le> 200)"
proof -
  let ?before = "[VB_submit (demo_wire ''a'' BUY 200 10), VB_advance]"
  let ?today = "[VB_submit (demo_wire ''b'' BUY 100 10), VB_submit (demo_wire ''c'' SELL 200 11), VB_submit (demo_wire ''d'' SELL 100 11)]"
  let ?vb = "vb_run demo_virtual ?before (VirtualBroker_make 10000 demo_market)"
  let ?vb' = "vb_run demo_virtual ?today ?vb"
  obtain fs where fs: "pl_fills (vb_ledger ?vb') = pl_fills (vb_ledger ?vb) @ fs"
      "\<forall>s. sold fs s \<le> shares_free (vb_ledger ?vb) s \<and> shares_frozen (vb_ledger ?vb') s = shares_frozen (vb_ledger ?vb) s + bought fs s"
    using virtual_t_plus_one [OF refl _ refl, of ?today demo_virtual ?before 10000 demo_market] by auto
  have a: "shares_free (vb_ledger ?vb) ''600000.SH'' = 200" by code_simp
  have n: "length (pl_fills (vb_ledger ?vb)) = 1" by code_simp
  have d: "fs = drop 1 (pl_fills (vb_ledger ?vb'))" using fs(1) n by simp
  have "length (drop 1 (pl_fills (vb_ledger ?vb'))) = 2 \<and> sold (drop 1 (pl_fills (vb_ledger ?vb'))) ''600000.SH'' = 200
      \<and> bought (drop 1 (pl_fills (vb_ledger ?vb'))) ''600000.SH'' = 100" by code_simp
  with d a fs(2) show ?thesis by (intro conjI exI [of _ fs]) auto
qed

end
