(* ===== verification/Oms_Props.thy ===== *)
theory Oms_Props
  imports Oms_Sent Virtual_Props Constraint_Props
begin

text \<open>
  What holds of every call of a broker that has no access to book and ledger: what stands on record when it is made,
  the daily cap, and the certificate in production.
\<close>

interpretation plain: venue "plain_broker po" D H for po :: "'b plain_ops" and D H
proof unfold_locales
  fix b led cid od x rep x' b' led'
  assume r: "replays D H (b, led)" and s: "bo_submit (plain_broker po) cid od (x, b, led) = (rep, x', b', led')"
  from s have "b' = b" "led' = led" by (auto simp: plain_broker_def split: prod.splits)
  with r replays_recovers [OF r] show "case rep of Crashed e \<Rightarrow> recovers D H led' (views b) | _ \<Rightarrow> replays D H (b', led') \<and> views b' = views b"
    by (simp split: broker_reply.split)
next
  fix b led cid x r x' b' led'
  assume r: "replays D H (b, led)" and s: "bo_cancel (plain_broker po) cid (x, b, led) = (r, x', b', led')"
  from s have "b' = b" "led' = led" by (auto simp: plain_broker_def split: prod.splits)
  with r replays_recovers [OF r] show "case r of Inl e \<Rightarrow> recovers D H led' (views b) | Inr st \<Rightarrow> replays D H (b', led') \<and> views b' = views b"
    by (simp split: sum.split)
qed

text \<open>A production line, or a test: any configuration that is no forensic replay, has a lineage without empty fields
  and reads back the timestamps it writes.\<close>

definition well_configured :: "'b oms \<Rightarrow> bool" where
  "well_configured cfg \<longleftrightarrow> \<not> om_forensic cfg \<and> no_empty_field (om_lineage cfg) \<and> stamps_ok cfg"

lemma calls_of_run:
  assumes "well_configured cfg" "list_all (orderly (plain_broker po)) calls"
  shows "\<exists>vs. calls_good (desk_cfg (plain_broker po) cfg p) p (broker_calls (plain_broker po) cfg calls x) vs"
  using assms unfolding well_configured_def by (intro plain.desks_ok_calls [OF assms(2)]) auto

lemma call_of_run:
  assumes "well_configured cfg" "list_all (orderly (plain_broker po)) calls"
    and "ca \<in> set (broker_calls (plain_broker po) cfg calls x)"
  shows "\<exists>s. call_ok (desk_cfg (plain_broker po) cfg (ca_process ca)) (ca_process ca) s ca"
  using calls_of_run [OF assms(1,2), of "ca_process ca" x] assms(3) by (auto simp: calls_good_def)

lemma desk_cfg_fields [simp]:
  "om_chain (desk_cfg ops cfg p) = om_chain cfg" "om_digest (desk_cfg ops cfg p) = om_digest cfg"
  "exchange_session (desk_cfg ops cfg p) = exchange_session cfg" "production (desk_cfg ops cfg p) = bo_production ops"
  "om_max_orders_per_symbol_per_day (desk_cfg ops cfg p) = om_max_orders_per_symbol_per_day cfg"
  "om_constraints (desk_cfg ops cfg p) = om_constraints cfg"
  by (auto simp: desk_cfg_def exchange_session_def parse_stamp_def production_def fun_eq_iff)

text \<open>C3. Recorded before it is sent: when the broker is called, the canonical order stands in the book as SUBMITTED with
  the symbol, the side and the quantity of the call, the last two records of the ledger are its approval and its
  submission, and the ledger as it stands replays to the book.  So a process that dies in the call, or after it,
  leaves a ledger from which the order is recovered.\<close>

theorem recorded_before_sent:
  assumes "well_configured cfg" "list_all (orderly (plain_broker po)) calls"
    and "ca \<in> set (broker_calls (plain_broker po) cfg calls x)"
  shows "\<exists>c. map_of (bk_orders (ca_book ca)) (ord_order_id c) = Some c \<and> ord_status c = SUBMITTED
      \<and> ord_symbol c = wo_symbol (ca_order ca) \<and> ord_side c = wo_side (ca_order ca) \<and> ord_quantity c = wo_quantity (ca_order ca)
      \<and> (\<exists>rs r1 r2 e1 e2. led_records (ca_ledger ca) = rs @ [r1, r2] \<and> lr_event r1 = Some e1 \<and> lr_event r2 = Some e2
           \<and> ev_event_type e1 = Ev_RISK_APPROVED \<and> ev_event_type e2 = Ev_SUBMITTED
           \<and> ev_order_id e1 = ord_order_id c \<and> ev_order_id e2 = ord_order_id c)
      \<and> (\<exists>b. replay_book (om_chain cfg) (om_digest cfg) clock (ca_ledger ca) = Inr b \<and> erase_book b = erase_book (ca_book ca))"
proof -
  from call_of_run [OF assms] have f: "on_file (om_chain cfg) (om_digest cfg) ca" by (auto simp: call_ok_def)
  then obtain b0 where b0: "mirrored (om_chain cfg) (om_digest cfg) clock (b0, ca_ledger ca)" "erase_book b0 = erase_book (ca_book ca)"
    by (auto simp: on_file_def replays_def)
  obtain b where "replay_book (om_chain cfg) (om_digest cfg) clock (ca_ledger ca) = Inr b" "erase_book b = erase_book b0"
    by (rule mirrored_replay [OF b0(1)])
  with b0(2) have "\<exists>b. replay_book (om_chain cfg) (om_digest cfg) clock (ca_ledger ca) = Inr b \<and> erase_book b = erase_book (ca_book ca)" by simp
  with f show ?thesis unfolding on_file_def ends_submitted_def by blast
qed


lemma certified_within: "certified (current_report c is i) \<Longrightarrow> within_constraints c (is @ [i])"
  using certificate_iff [of "is @ [i]" c]
  by (auto simp: certified_def current_report_def Let_def passed_def fully_measured_def)

text \<open>C5. In production no order is sent that breaks a limit: the intents recovered from the book for the session of the
  call end with the intent of the order itself, and all of them together are within the configured constraints.\<close>

theorem sent_within_constraints:
  assumes "well_configured cfg" "list_all (orderly (plain_broker po)) calls" "po_production po"
    and "ca \<in> set (broker_calls (plain_broker po) cfg calls x)"
  shows "\<exists>session earlier i. exchange_session cfg (wo_timestamp (ca_order ca)) = Inr session
      \<and> map_res (recovered_intent cfg (ca_book ca)) (submitted_orders (ca_book ca) session) = Inr (earlier @ [i])
      \<and> ir_symbol i = wo_symbol (ca_order ca) \<and> ir_quantity i = wo_quantity (ca_order ca)
      \<and> ir_side i = wire_side (wo_side (ca_order ca)) \<and> within_constraints (om_constraints cfg) (earlier @ [i])"
proof -
  have pr: "bo_production (plain_broker po)" using assms(3) by (simp add: plain_broker_def)
  let ?c = "desk_cfg (plain_broker po) cfg (ca_process ca)"
  obtain s where s: "call_ok ?c (ca_process ca) s ca" using call_of_run [OF assms(1,2,4)] by blast
  have k: "keyed (ca_book ca)" using s by (auto simp: call_ok_def on_file_def dest: replays_keyed)
  have same: "recovered_intent ?c = recovered_intent cfg"
  proof -
    have "risk_intent_from_json ?c = risk_intent_from_json cfg"
      by (simp add: fun_eq_iff risk_intent_from_json_def parse_stamp_def desk_cfg_def)
    then show ?thesis by (intro ext) (simp add: recovered_intent_def Let_def cong: if_cong)
  qed
  obtain es i where e: "session_intents ?c (views (ca_book ca)) s = Inr (es @ [i])" "stands_for ?c i (ca_order ca)"
      "certified (current_report (om_constraints cfg) es i)"
    using s pr by (auto simp: call_ok_def)
  have "map_res (recovered_intent cfg (ca_book ca)) (submitted_orders (ca_book ca) s) = Inr (es @ [i])"
    using e(1) unfolding session_intents_orders [OF k] same .
  with s e(2) certified_within [OF e(3)] show ?thesis
    by (intro exI [of _ s] exI [of _ es] exI [of _ i]) (simp add: call_ok_def stands_for_def)
qed

lemma admitted_reaches:
  assumes "well_configured cfg" "run_id_of cfg \<noteq> []" "list_all (orderly (plain_broker po)) calls" "list_all claims_timed calls"
    and "shop_run (plain_broker po) cfg calls (new_shop x) = w" "sh_desks w p = Some m"
    and "oe_claim env = W_ok" "\<And>n. oe_write env n" "wo_timestamp od \<noteq> []"
    and "unclaimed cfg (sh_file w) (mg_claims m) od"
    and "unopened cfg (oe_event_time env (length (bk_events (mg_book m)))) (mg_book m) od"
    and "admitted (desk_cfg (plain_broker po) cfg p) (sh_broker w) (mg_book m) od"
  shows "\<exists>ca. broker_calls (plain_broker po) cfg (calls @ [Submit_orders p False [(env, od)]]) x = broker_calls (plain_broker po) cfg calls x @ [ca]
    \<and> ca_process ca = p \<and> same_request od (ca_order ca)"
proof -
  let ?ops = "plain_broker po" and ?c = "desk_cfg (plain_broker po) cfg p" and ?m = "m\<lparr>mg_broker := sh_broker w, mg_file := sh_file w\<rparr>"
  have run: "shop_run ?ops cfg (cs @ [c]) v = shop_do ?ops cfg c (shop_run ?ops cfg cs v)" for cs c v
    by (induction cs arbitrary: v) simp_all
  have "shop_ok cfg (new_shop x)" by (simp add: shop_ok_def new_shop_def claimed_def)
  from shop_ok_run [OF this assms(4), of ?ops] assms(1,5,6) have sy: "synced (sh_file w) (mg_claims m)"
    by (simp add: well_configured_def shop_ok_def)
  have wc: "\<not> om_forensic cfg" "no_empty_field (om_lineage cfg)" "stamps_ok cfg" using assms(1) by (simp_all add: well_configured_def)
  have "desks_ok ?ops cfg (new_shop x)" by (rule new_desks_ok)
  from plain.desks_ok_run [OF this assms(3) wc refl refl] assms(5,6) have "running ?c m" by (simp add: desks_ok_def seat_ok_def)
  then have r: "running ?c ?m" by (simp add: running_def on_record_def memory_ok_def tallied_def informed_def split: if_splits)
  have intent: "canonical_intent ?c = canonical_intent cfg" by (simp add: fun_eq_iff canonical_intent_def desk_cfg_def)
  have same: "unclaimed ?c = unclaimed cfg" "unopened ?c = unopened cfg" "run_id_of ?c = run_id_of cfg" "om_lineage ?c = om_lineage cfg"
    unfolding unclaimed_def unopened_def intent desk_cfg_fields desk_cfg_simps by (simp_all add: run_id_of_def desk_cfg_def)
  obtain ca where ca: "calls_of (snd (submit_one ?c env od ?m)) = calls_of ?m @ [ca]" "same_request od (ca_order ca)" "ca_process ca = p"
    using admitted_is_sent' [of ?c p ?ops ?m od env] wc assms(2,7-12) r sy by (auto simp: same)
  obtain y m' where sub: "submit_one ?c env od ?m = (y, m')" by fastforce
  have each: "snd (submit_orders ?c [(env, od)] ?m) = m'"
    by (cases y) (simp_all add: submit_orders_def sub and_then_def)
  have "snd (sh_broker (shop_do ?ops cfg (Submit_orders p False [(env, od)]) w)) = calls_of m'"
    using each by (cases "submit_orders ?c [(env, od)] ?m") (simp add: work_def assms(6) settle_def)
  with ca sub show ?thesis by (simp add: broker_calls_def run assms(5))
qed

text \<open>C35. Nothing is lost on the way: on a desk that runs and whose writes succeed, an order that the checks admit, that has
  no claim and no canonical order yet, reaches the broker, whatever happened before.\<close>

theorem admitted_order_is_sent:
  assumes "well_configured cfg" "run_id_of cfg \<noteq> []" "list_all (orderly (plain_broker po)) calls" "list_all claims_timed calls"
    and "shop_run (plain_broker po) cfg calls (new_shop x) = w" "sh_desks w p = Some m"
    and "oe_claim env = W_ok" "\<And>n. oe_write env n" "wo_timestamp od \<noteq> []"
    and "unclaimed cfg (sh_file w) (mg_claims m) od"
    and "unopened cfg (oe_event_time env (length (bk_events (mg_book m)))) (mg_book m) od"
    and "admitted (desk_cfg (plain_broker po) cfg p) (sh_broker w) (mg_book m) od"
  shows "\<exists>ca. broker_calls (plain_broker po) cfg (calls @ [Submit_orders p False [(env, od)]]) x = broker_calls (plain_broker po) cfg calls x @ [ca]
    \<and> ca_process ca = p \<and> same_request od (ca_order ca)"
  using assms by (rule admitted_reaches)

section \<open>A run\<close>

definition demo_stamp :: moment where
  "demo_stamp = \<lparr>mo_instant = microseconds (hhmm 10 0), mo_offset = None\<rparr>"

definition demo_ops :: "unit plain_ops" where
  "demo_ops = \<lparr>po_name = ''demo'', po_production = True, po_submit = (\<lambda>od x. (Crashed OSError, x)),
     po_cancel = (\<lambda>_ x. (Inl OSError, x)), po_positions = (\<lambda>_. Inr []), po_account_value = (\<lambda>_. Inr 100000), po_volume = None\<rparr>"

definition demo_cfg :: "(unit \<times> broker_call list) oms" where
  "demo_cfg = \<lparr>om_broker = watched 0 (plain_broker demo_ops), om_chain = (\<lambda>_ _. ''h''), om_digest = (\<lambda>_. ''d''), om_sha = id,
     om_str = (\<lambda>_. ''n''), om_parse = (\<lambda>_. Some demo_stamp), om_lineage = (\<lambda>f. if f = Run_id then Some ''run'' else None),
     om_forensic = False, om_constraints = default_constraints, om_daily_volume_hints = [(''600000.SH'', 1000000)],
     om_min_order_value_yuan = 0, om_odd_lot_liquidation = True, om_max_orders_per_symbol_per_day = 1, om_negligible_weight = 0,
     om_strategy_version = ''v1''\<rparr>"

definition demo_env :: oms_env where
  "demo_env = \<lparr>oe_now = ''t'', oe_event_time = (\<lambda>_. ''t''), oe_record_time = (\<lambda>_. ''t''), oe_write = (\<lambda>_. True),
     oe_claimed_at = ''t'', oe_claim = W_ok, oe_resolve = W_ok\<rparr>"

definition demo_od :: wire_order where
  "demo_od = demo_wire ''a'' BUY 100 10"

definition demo_start :: "unit shop_call list" where
  "demo_start = [Start_desk 0 (\<lambda>_. ''t'')]"

definition demo_calls :: "unit shop_call list" where
  "demo_calls = demo_start @ [Submit_orders 0 False [(demo_env, demo_od)]]"

lemma demo_well_configured: "well_configured demo_cfg"
  by (simp add: well_configured_def demo_cfg_def stamps_ok_def no_empty_field_def)

lemma demo_desk: "sh_desks (shop_run (plain_broker demo_ops) demo_cfg demo_start (new_shop ())) 0 = Some
    \<lparr>mg_broker = ((), []), mg_book = empty_book, mg_ledger = new_ledger True, mg_claims = fresh_store True,
     mg_file = \<lparr>if_lines = [], if_torn = False\<rparr>, mg_wire = [], mg_client_order_ids = [], mg_counts_today = [],
     mg_count_session = None, mg_risk_intents = [], mg_risk_session = None, mg_risk_errors = []\<rparr>"
  "sh_file (shop_run (plain_broker demo_ops) demo_cfg demo_start (new_shop ())) = \<lparr>if_lines = [], if_torn = False\<rparr>"
  "sh_broker (shop_run (plain_broker demo_ops) demo_cfg demo_start (new_shop ())) = ((), [])"
  by (simp_all add: demo_start_def new_shop_def OrderManager_make_def desk_cfg_def demo_cfg_def load_store_def fresh_store_def
      new_ledger_def reopen_def)

lemma demo_certified: "certified (current_report default_constraints [] (demo_intent\<lparr>ir_intent_id := ''a'', ir_timestamp := demo_stamp\<rparr>))"
  by code_simp

lemma demo_checks: "explicit_result demo_od \<notin> set UPSTREAM_REJECTIONS"
    "exchange_quantity_rejection cfg b demo_od = None" "bounded_price demo_od = Some 10" "priced demo_od" "0 < wo_quantity demo_od"
    "wo_timestamp demo_od \<noteq> []" "wo_symbol demo_od = ''600000.SH''"
proof -
  have "cash_equity_board ''600000.SH'' = Some SH_MAIN" "dict_get LOT_RULES SH_MAIN (0, 1) = (100, 100)"
    "max_order_quantity SH_MAIN (upper ''limit'') = None" by code_simp+
  then show "exchange_quantity_rejection cfg b demo_od = None"
    by (simp add: exchange_quantity_rejection_def demo_od_def demo_wire_def)
qed (code_simp+)

lemma demo_admitted: "admitted (desk_cfg (plain_broker demo_ops) demo_cfg 0) ((), []) empty_book demo_od"
proof -
  let ?c = "desk_cfg (plain_broker demo_ops) demo_cfg 0"
  have none: "submitted_orders empty_book s = []" for s by (simp add: submitted_orders_def book_orders_def empty_book_def)
  have i: "risk_intent_of ?c ((), []) demo_stamp demo_od 10 = demo_intent\<lparr>ir_intent_id := ''a'', ir_timestamp := demo_stamp\<rparr>"
    by (simp add: risk_intent_of_def demo_od_def demo_wire_def demo_intent_def account_nav_def daily_volume_hint_def desk_cfg_def
        demo_cfg_def watched_def plain_broker_def demo_ops_def)
  have "om_parse ?c t = Some demo_stamp" "om_constraints ?c = default_constraints" "om_max_orders_per_symbol_per_day ?c = 1" for t
    by (simp_all add: desk_cfg_def demo_cfg_def)
  then show ?thesis using demo_certified by (simp add: admitted_def Let_def none demo_checks i)
qed

lemma demo_new:
  "unclaimed demo_cfg \<lparr>if_lines = [], if_torn = False\<rparr> (fresh_store True) demo_od" "unopened demo_cfg now empty_book demo_od"
proof -
  show "unclaimed demo_cfg \<lparr>if_lines = [], if_torn = False\<rparr> (fresh_store True) demo_od"
    by (simp add: unclaimed_def request_key_def exchange_session_def parse_stamp_def order_intent_key_def demo_cfg_def Let_def
        load_store_def fresh_store_def idem_seen_def)
  show "unopened demo_cfg now empty_book demo_od"
    by (simp add: unopened_def exchange_session_def parse_stamp_def canonical_intent_def OrderIntent_create_def demo_cfg_def Let_def
        demo_checks empty_book_def) (simp add: demo_od_def demo_wire_def)
qed

lemma demo_shape:
  "run_id_of demo_cfg \<noteq> []" "\<not> om_forensic demo_cfg" "list_all (orderly (plain_broker demo_ops)) demo_start"
  "list_all (orderly (plain_broker demo_ops)) demo_calls" "list_all claims_timed demo_start" "list_all claims_timed demo_calls"
  "oe_claim demo_env = W_ok" "oe_write demo_env n" "broker_calls (plain_broker demo_ops) demo_cfg demo_start () = []"
  using demo_desk(3)
  by (simp_all add: run_id_of_def demo_cfg_def demo_start_def demo_calls_def demo_env_def broker_calls_def)

theorem admitted_order_is_sent_witness:
  "\<exists>ca. broker_calls (plain_broker demo_ops) demo_cfg demo_calls () = [ca] \<and> ca_process ca = 0 \<and> same_request demo_od (ca_order ca)"
  using admitted_order_is_sent [OF demo_well_configured demo_shape(1,3,5) refl demo_desk(1) demo_shape(7,8), of demo_od]
    demo_admitted demo_new by (simp add: demo_desk demo_calls_def demo_shape demo_checks)

lemma demo_sent:
  "\<exists>ca. broker_calls (plain_broker demo_ops) demo_cfg demo_calls () = [ca] \<and> ca_process ca = 0 \<and> same_request demo_od (ca_order ca)"
  using admitted_reaches [OF demo_well_configured demo_shape(1,3,5) refl demo_desk(1) demo_shape(7,8), of demo_od]
    demo_admitted demo_new by (simp add: demo_desk demo_calls_def demo_shape demo_checks)

theorem recorded_before_sent_witness:
  "\<exists>ca c b. broker_calls (plain_broker demo_ops) demo_cfg demo_calls () = [ca] \<and> ord_status c = SUBMITTED
    \<and> map_of (bk_orders (ca_book ca)) (ord_order_id c) = Some c
    \<and> replay_book (om_chain demo_cfg) (om_digest demo_cfg) (\<lambda>_. ''t'') (ca_ledger ca) = Inr b \<and> erase_book b = erase_book (ca_book ca)"
proof -
  obtain ca where ca: "broker_calls (plain_broker demo_ops) demo_cfg demo_calls () = [ca]" using demo_sent by blast
  then have "ca \<in> set (broker_calls (plain_broker demo_ops) demo_cfg demo_calls ())" by simp
  from recorded_before_sent [OF demo_well_configured demo_shape(4) this, of "\<lambda>_. ''t''"] ca show ?thesis by blast
qed


theorem sent_within_constraints_witness:
  "\<exists>ca earlier i. broker_calls (plain_broker demo_ops) demo_cfg demo_calls () = [ca] \<and> ir_quantity i = wo_quantity (ca_order ca)
    \<and> within_constraints default_constraints (earlier @ [i])"
proof -
  obtain ca where ca: "broker_calls (plain_broker demo_ops) demo_cfg demo_calls () = [ca]" using demo_sent by blast
  then have "ca \<in> set (broker_calls (plain_broker demo_ops) demo_cfg demo_calls ())" by simp
  moreover have "po_production demo_ops" "om_constraints demo_cfg = default_constraints" by (simp_all add: demo_ops_def demo_cfg_def)
  ultimately show ?thesis using sent_within_constraints [OF demo_well_configured demo_shape(4)] ca by metis
qed

text \<open>C2. Each request reaches the broker at most once: whatever order managers share the claims file and the broker, in
  whatever order they start, submit, rebalance, cancel and die, and whichever writes fail, no two calls of the broker
  are for the same signal, symbol, side, quantity and exchange session.\<close>

theorem request_reaches_broker_once:
  assumes "list_all claims_timed calls" "\<not> om_forensic cfg"
  shows "distinct (map (\<lambda>ca. request_of cfg (ca_order ca)) (broker_calls ops cfg calls x))"
  by (rule requests_distinct [OF assms])

theorem request_reaches_broker_once_witness:
  "\<exists>ca. broker_calls (plain_broker demo_ops) demo_cfg demo_calls () = [ca]
   \<and> distinct (map (\<lambda>ca. request_of demo_cfg (ca_order ca)) (broker_calls (plain_broker demo_ops) demo_cfg
        (demo_calls @ [Start_desk 0 (\<lambda>_. ''t''), Start_desk 1 (\<lambda>_. ''t''), Submit_orders 1 True [(demo_env, demo_od)]]) ()))"
proof -
  let ?calls = "demo_calls @ [Start_desk 0 (\<lambda>_. ''t''), Start_desk 1 (\<lambda>_. ''t''), Submit_orders 1 True [(demo_env, demo_od)]]"
  have "list_all claims_timed ?calls" using demo_shape(6) by (simp add: demo_env_def)
  from request_reaches_broker_once [OF this demo_shape(2)] demo_sent show ?thesis by blast
qed

section \<open>What the broker answers\<close>

text \<open>C36. An answer REJECTED is not recorded: the answer carries no reason, a rejection without a reason is refused by the
  order, and the refusal is swallowed; so neither book nor ledger changes and the order stays as it was.\<close>

theorem rejected_answer_is_not_recorded:
  assumes "ws_status state = WS_REJECTED"
  shows "record_canonical_state cfg env canonical state m = (Inr (), m)"
proof -
  have "OrderBook_apply now oid Ev_REJECTED None None None b = Inr r \<Longrightarrow> False" for now oid b and r :: "order \<times> order_book"
    by (cases r) (auto simp: OrderBook_apply_Inr Let_def Order_apply_def is_fill_event_def applied_event_def res_bind_Inr_iff
        assert_rejectable_def strip_def split: if_splits)
  then have "\<exists>e. OrderBook_apply now oid Ev_REJECTED None None None b = Inl e" for now oid b
    by (cases "OrderBook_apply now oid Ev_REJECTED None None None b") auto
  then obtain e where "OrderBook_apply (oe_event_time env (length (bk_events (mg_book m)))) (ord_order_id canonical) Ev_REJECTED
      None None None (mg_book m) = Inl e" by blast
  with assms show ?thesis by (simp add: record_canonical_state_def answer_event_def book_apply_def)
qed

theorem rejected_answer_is_not_recorded_witness:
  "\<exists>ca c. broker_calls (plain_broker demo_ops) demo_cfg demo_calls () = [ca] \<and> ord_status c = SUBMITTED
    \<and> (\<forall>m. map_of (bk_orders (mg_book m)) (ord_order_id c) = Some c \<longrightarrow>
         record_canonical_state demo_cfg demo_env c (refused_state demo_od ''no'') m = (Inr (), m))"
proof -
  obtain ca where ca: "broker_calls (plain_broker demo_ops) demo_cfg demo_calls () = [ca]" using demo_sent by blast
  then have "ca \<in> set (broker_calls (plain_broker demo_ops) demo_cfg demo_calls ())" by simp
  from call_of_run [OF demo_well_configured demo_shape(4) this] have "on_file (om_chain demo_cfg) (om_digest demo_cfg) ca"
    by (auto simp: call_ok_def)
  then obtain c :: order where "ord_status c = SUBMITTED" unfolding on_file_def by blast
  with ca show ?thesis
    using rejected_answer_is_not_recorded [of "refused_state demo_od ''no''" demo_cfg demo_env c] by (auto simp: refused_state_def)
qed

end
