(* ===== verification/Rebalance_Props.thy ===== *)
theory Rebalance_Props
  imports Order_Manager Matching_Props
begin

text \<open>From target weights to order intents: what is asked for is wanted, held and worth sending, and sells come first.\<close>

lemma round_order_bounds:
  "0 \<le> round_order_quantity symbol sd q \<and> of_int (round_order_quantity symbol sd q) \<le> max 0 q"
proof -
  obtain lot mn policy where r: "dict_get board_rules (infer_board symbol) (100, 100, '''') = (lot, mn, policy)" by (metis prod_cases3)
  have "0 < fst v" if "map_of board_rules b = Some v" for b v
    using that by (auto simp: board_rules_def split: if_splits)
  then have lot: "0 < lot" using r by (fastforce simp: dict_get_def split: option.splits)
  define w where "w = max 0 \<lfloor>q\<rfloor>"
  have w: "0 \<le> w" "(of_int w :: rat) \<le> max 0 q" by (auto simp: w_def max_def)
  have d: "w div lot * lot \<le> w" "0 \<le> w div lot * lot" 
    using minus_mod_eq_div_mult [of w lot] pos_mod_sign [OF lot, of w] zmod_le_nonneg_dividend [OF w(1), of lot] by linarith+
  have "round_order_quantity symbol sd q \<in> {0, w, w div lot * lot}"
    unfolding round_order_quantity_def r prod.case Let_def w_def [symmetric] by auto
  with w(1) d have "0 \<le> round_order_quantity symbol sd q" "round_order_quantity symbol sd q \<le> w" by auto
  moreover from this(2) have "(of_int (round_order_quantity symbol sd q) :: rat) \<le> of_int w" by simp
  ultimately show ?thesis using w(2) by linarith
qed

lemma round_delta_bounds:
  "of_int (round_delta_quantity symbol sd q full ty) \<le> max 0 q + 1 / 10 ^ 9"
proof (cases "cash_equity_board symbol")
  case None
  then show ?thesis using round_order_bounds [of symbol sd q] by (simp add: round_delta_quantity_def)
next
  case (Some board)
  have "of_int (round_to_lot q board sd full) \<le> max 0 q + 1 / 10 ^ 9" using round_to_lot_bounds by blast
  moreover have "round_delta_quantity symbol sd q full ty \<le> round_to_lot q board sd full"
    by (simp add: round_delta_quantity_def Some Let_def split: option.split)
  ultimately show ?thesis by (meson of_int_le_iff order_trans)
qed

text \<open>The number of shares a weight stands for.\<close>

definition target_shares :: "rat \<Rightarrow> rat \<Rightarrow> rat \<Rightarrow> rat" where
  "target_shares net_value price weight = weight * net_value / price"

lemma sized:
  assumes "size_delta cfg net_value current symbol weight observed = Trade sd q"
  shows "\<exists>price. observed = Some price \<and> 0 < price \<and> 0 < net_value \<and> 0 < q
    \<and> (case sd of
         BUY \<Rightarrow> of_int (current + q) \<le> target_shares net_value price weight + 1 / 10 ^ 9
           \<and> om_min_order_value_yuan cfg \<le> of_int q * price
       | SELL \<Rightarrow> target_shares net_value price weight - 1 / 10 ^ 9 \<le> of_int (current - q)
           \<and> (om_min_order_value_yuan cfg \<le> of_int q * price \<or> weight \<le> om_negligible_weight cfg))"
proof -
  let ?t = "weight * net_value / (case observed of None \<Rightarrow> 0 | Some p \<Rightarrow> p)"
  obtain price where p: "observed = Some price" "0 < price" "0 < net_value"
    using assms by (auto simp: size_delta_def Let_def skip_row_def split: if_splits option.splits)
  have b: "of_int (round_delta_quantity symbol sd (x :: rat) full ty) \<le> x + 1 / 10 ^ 9"
    if "0 < round_delta_quantity symbol sd x full ty" for x sd full ty
  proof -
    have "(1 :: rat) \<le> of_int (round_delta_quantity symbol sd x full ty)" using that by simp
    with round_delta_bounds [of symbol sd x full ty] have "1 \<le> max 0 x + 1 / 10 ^ 9" by linarith
    then have "max 0 x = x" by (cases "0 \<le> x") simp_all
    with round_delta_bounds [of symbol sd x full ty] show ?thesis by simp
  qed
  show ?thesis
    using assms p b [of "''buy''" "?t - of_int current" False "''LIMIT''"]
      b [of "''sell''" "of_int current - ?t" "weight \<le> om_negligible_weight cfg \<and> om_odd_lot_liquidation cfg" "''LIMIT''"]
    by (auto simp: size_delta_def Let_def skip_row_def target_shares_def split: if_splits)
qed

lemma intent_sized:
  assumes "i \<in> set (fst (target_weights_to_order_intents cfg now uuid labels positions net_value weights prices))"
  shows "\<exists>observed. (wi_symbol i, observed) \<in> set prices
    \<and> size_delta cfg net_value (current_shares positions (wi_symbol i)) (wi_symbol i) (dict_get weights (wi_symbol i) 0) observed
        = Trade (wi_side i) (wi_quantity i)"
proof -
  from assms obtain e where e: "e \<in> set prices" "i \<in> set (fst (intent_for cfg now uuid labels positions net_value weights e))"
    by (auto simp: target_weights_to_order_intents_def Let_def)
  obtain y obs where y: "e = (y, obs)" by (cases e)
  from e show ?thesis
    by (auto simp: y intent_for_def Let_def wire_intent_of_def split: sizing.splits intro!: exI [of _ obs])
qed

text \<open>C38. A rebalance asks for what it should: the sells come before the buys, every quantity is positive, a buy does not
  overshoot its target, a sell leaves at least the target and, for a weight that is not negative, sells no share that
  is not held, and an order below the minimum value is sent only to leave a position.  (The tolerance is the one the
  code rounds with.)\<close>

theorem rebalance_is_sound:
  assumes "fst (target_weights_to_order_intents cfg now uuid labels positions net_value weights prices) = intents"
  shows "(\<exists>sells buys. intents = sells @ buys \<and> (\<forall>i \<in> set sells. wi_side i = SELL) \<and> (\<forall>i \<in> set buys. wi_side i = BUY))
    \<and> (\<forall>i \<in> set intents. \<exists>price. (wi_symbol i, Some price) \<in> set prices \<and> 0 < wi_quantity i
         \<and> (let held = current_shares positions (wi_symbol i); weight = dict_get weights (wi_symbol i) 0;
                target = target_shares net_value price weight in
            (wi_side i = BUY \<longrightarrow> of_int (held + wi_quantity i) \<le> target + 1 / 10 ^ 9)
            \<and> (wi_side i = SELL \<longrightarrow> target - 1 / 10 ^ 9 \<le> of_int (held - wi_quantity i) \<and> (0 \<le> weight \<longrightarrow> wi_quantity i \<le> held))
            \<and> (of_int (wi_quantity i) * price < om_min_order_value_yuan cfg \<longrightarrow> wi_side i = SELL \<and> weight \<le> om_negligible_weight cfg)))"
proof (intro conjI ballI)
  have s: "wi_side i \<noteq> SELL \<longleftrightarrow> wi_side i = BUY" for i :: wire_intent by (cases "wi_side i") simp_all
  show "\<exists>sells buys. intents = sells @ buys \<and> (\<forall>i \<in> set sells. wi_side i = SELL) \<and> (\<forall>i \<in> set buys. wi_side i = BUY)"
    unfolding assms [symmetric] target_weights_to_order_intents_def Let_def fst_conv
    by (intro exI conjI, rule refl) (auto simp: s)
next
  fix i
  assume "i \<in> set intents"
  then obtain observed where o: "(wi_symbol i, observed) \<in> set prices"
      "size_delta cfg net_value (current_shares positions (wi_symbol i)) (wi_symbol i) (dict_get weights (wi_symbol i) 0) observed
        = Trade (wi_side i) (wi_quantity i)"
    using intent_sized assms by blast
  let ?h = "current_shares positions (wi_symbol i)" and ?w = "dict_get weights (wi_symbol i) 0"
  from sized [OF o(2)] obtain price where p: "observed = Some price" "0 < price" "0 < net_value" "0 < wi_quantity i"
    and c: "case wi_side i of
         BUY \<Rightarrow> of_int (?h + wi_quantity i) \<le> target_shares net_value price ?w + 1 / 10 ^ 9
           \<and> om_min_order_value_yuan cfg \<le> of_int (wi_quantity i) * price
       | SELL \<Rightarrow> target_shares net_value price ?w - 1 / 10 ^ 9 \<le> of_int (?h - wi_quantity i)
           \<and> (om_min_order_value_yuan cfg \<le> of_int (wi_quantity i) * price \<or> ?w \<le> om_negligible_weight cfg)" by blast
  have held: "wi_quantity i \<le> ?h" if "0 \<le> ?w" "target_shares net_value price ?w - 1 / 10 ^ 9 \<le> of_int (?h - wi_quantity i)"
  proof -
    have "0 \<le> target_shares net_value price ?w" using that(1) p by (simp add: target_shares_def)
    moreover have "(1 :: rat) / 10 ^ 9 < 1" by simp
    ultimately have "(- 1 :: rat) < of_int (?h - wi_quantity i)" using that(2) by linarith
    then have "- 1 < ?h - wi_quantity i" by (metis of_int_less_iff of_int_minus of_int_1)
    then show ?thesis by simp
  qed
  show "\<exists>price. (wi_symbol i, Some price) \<in> set prices \<and> 0 < wi_quantity i
         \<and> (let held = ?h; weight = ?w; target = target_shares net_value price weight in
            (wi_side i = BUY \<longrightarrow> of_int (held + wi_quantity i) \<le> target + 1 / 10 ^ 9)
            \<and> (wi_side i = SELL \<longrightarrow> target - 1 / 10 ^ 9 \<le> of_int (held - wi_quantity i) \<and> (0 \<le> weight \<longrightarrow> wi_quantity i \<le> held))
            \<and> (of_int (wi_quantity i) * price < om_min_order_value_yuan cfg \<longrightarrow> wi_side i = SELL \<and> weight \<le> om_negligible_weight cfg))"
  proof (intro exI [of _ price] conjI)
    show "(wi_symbol i, Some price) \<in> set prices" "0 < wi_quantity i" using o(1) p by simp_all
    show "let held = ?h; weight = ?w; target = target_shares net_value price weight in
            (wi_side i = BUY \<longrightarrow> of_int (held + wi_quantity i) \<le> target + 1 / 10 ^ 9)
            \<and> (wi_side i = SELL \<longrightarrow> target - 1 / 10 ^ 9 \<le> of_int (held - wi_quantity i) \<and> (0 \<le> weight \<longrightarrow> wi_quantity i \<le> held))
            \<and> (of_int (wi_quantity i) * price < om_min_order_value_yuan cfg \<longrightarrow> wi_side i = SELL \<and> weight \<le> om_negligible_weight cfg)"
      using c held unfolding Let_def by (cases "wi_side i") auto
  qed
qed

definition demo_rebalance :: "unit oms" where
  "demo_rebalance = \<lparr>om_broker = undefined, om_chain = (\<lambda>_ _. ''h''), om_digest = (\<lambda>_. ''d''), om_sha = id, om_str = (\<lambda>_. ''n''),
     om_parse = (\<lambda>_. None), om_lineage = (\<lambda>_. None), om_forensic = False, om_constraints = default_constraints,
     om_daily_volume_hints = [], om_min_order_value_yuan = 5000, om_odd_lot_liquidation = True,
     om_max_orders_per_symbol_per_day = 1, om_negligible_weight = 1 / 10 ^ 6, om_strategy_version = ''v''\<rparr>"

definition demo_labels :: request_labels where
  "demo_labels = \<lparr>rl_signal_id = ''s'', rl_model_version = ''m'', rl_feature_version = ''f'', rl_risk_check_result = ''r''\<rparr>"

definition demo_holdings :: "wire_position list" where
  "demo_holdings = [\<lparr>wp_symbol = ''600000.SH'', wp_available = 150, wp_frozen = 0, wp_avg_cost = 10\<rparr>]"

definition demo_targets :: "wire_intent list" where
  "demo_targets = fst (target_weights_to_order_intents demo_rebalance ''t'' id demo_labels demo_holdings 100000
     [(''600000.SH'', 0), (''600519.SH'', 1 / 2)] [(''600519.SH'', Some 30), (''600000.SH'', Some 11)])"

theorem rebalance_is_sound_witness:
  "map (\<lambda>i. (wi_symbol i, wi_side i, wi_quantity i)) demo_targets = [(''600000.SH'', SELL, 150), (''600519.SH'', BUY, 1600)]
   \<and> list_all (\<lambda>i. 0 < wi_quantity i) demo_targets"
proof
  show "map (\<lambda>i. (wi_symbol i, wi_side i, wi_quantity i)) demo_targets = [(''600000.SH'', SELL, 150), (''600519.SH'', BUY, 1600)]"
    by code_simp
  show "list_all (\<lambda>i. 0 < wi_quantity i) demo_targets"
    using rebalance_is_sound [OF refl, of demo_rebalance "''t''" id demo_labels demo_holdings 100000
      "[(''600000.SH'', 0), (''600519.SH'', 1 / 2)]" "[(''600519.SH'', Some 30), (''600000.SH'', Some 11)]"]
    unfolding demo_targets_def list_all_iff by blast
qed

end
