(* ===== verification/Spec2Isabelle.thy ===== *)
theory Spec2Isabelle
  imports Order_Props Account_Props Ledger_Props Timeline_Props Bus_Props Lifecycle_Props
    Market_Props Idempotency_Props Position_Machine Kill_Switch_Props Mode_Props
    Parent_Liveness Ambiguity Matching_Props Paper_Recovery Paper_Mirror Replay_Pass Paper_Account Paper_Frame Paper_Desk Paper_Run Paper_Days Paper_Rebuild Paper_Restart
    Constraint_Props Oms_Props Virtual_Props Rebalance_Props
begin

text \<open>
  A verification library of the trading core of QuantAgent (\<open>src/src/quantagent\<close>): orders, accounts, the
  event ledger, the streaming engine, the market rules and the safety switches.  Every path below is
  relative to that directory.

  \<^bold>\<open>The program and its parts.\<close>  An order (\<open>domain/orders.py\<close>) is an immutable value moved by one
  transition function; the order book keeps the live orders and an append-only event log.  The account
  (\<open>domain/accounting.py\<close>) is never stored: it is a fold over the fills and corporate actions of that
  log.  The ledger (\<open>domain/ledger.py\<close>) records the same events in a hash chain, durable or in memory, and
  the book and the account are replayed from it.  Market events with five clocks
  (\<open>domain/timeline.py\<close>, \<open>streaming/events.py\<close>) go through the event bus (\<open>streaming/bus.py\<close>) to the
  lifecycle (\<open>streaming/lifecycle.py\<close>), which turns them into book and ledger events, and to the matcher
  (\<open>streaming/matching.py\<close>), which answers orders and bars with callbacks and fills by the exchange's rules
  (\<open>market_rules/ashare.py\<close>).  Beside them stand the parent and child planner
  (\<open>execution/parent_child.py\<close>), the claim-once store (\<open>domain/idempotency.py\<close>), the position state machine
  (\<open>portfolio/state_machine/machine.py\<close>), the kill switch (\<open>risk/kill_switch.py\<close>), the operating mode
  (\<open>safety/operating_mode.py\<close>) and the resolution of ambiguous bars (\<open>streaming/ambiguity.py\<close>).
  The paper desk (\<open>paper/\<close>) is a second client of the domain: its broker (\<open>broker.py\<close>) passes an order through
  the venue and the risk engine (\<open>risk.py\<close>), books the fill in its portfolio (\<open>portfolio.py\<close>), in an operational event
  file (\<open>ledger.py\<close>) and in the canonical ledger of the domain, and after a restart rebuilds itself from the
  canonical ledger and compares the two (\<open>recovery.py\<close>).
  The order manager (\<open>execution/order_manager.py\<close>) is the third: it turns target weights into orders and takes each
  order through the claim of its request (the claim-once store), its canonical order in book and ledger, the
  pre-trade decision (board quantities, the daily cap, and in production the limits of \<open>execution/constraints.py\<close> over
  all the session has sent), the broker, and the record of what the broker answered.  A broker
  (\<open>execution/broker_base.py\<close>) is the record of its operations; the simulated one is \<open>execution/virtual_broker.py\<close> with its fills,
  costs and positions.

  \<^bold>\<open>Theories.\<close>
    \<^item> \<open>Prelude\<close>: results with errors (\<open>'a res = exn + 'a\<close>), dictionaries as association lists, JSON values, Python's
      string and number operations, the locales \<open>guarded_machine\<close> (an invariant carried along a run whose
      steps may be refused) and \<open>status_table\<close> (a transition table with a rank).
    \<^item> \<open>Lineage\<close>, \<open>Orders\<close>, \<open>Order_Book\<close>, \<open>Order_Props\<close>: \<open>domain/lineage.py\<close> and \<open>domain/orders.py\<close>.
    \<^item> \<open>Accounting\<close>, \<open>Account_Facts\<close>, \<open>Account_Props\<close>: \<open>domain/accounting.py\<close>.
    \<^item> \<open>Ledger_Codec\<close>, \<open>Ledger\<close>, \<open>Ledger_Facts\<close>, \<open>Ledger_Props\<close>: \<open>domain/ledger.py\<close>.
    \<^item> \<open>Timeline\<close>, \<open>Timeline_Props\<close>: \<open>domain/timeline.py\<close>.
    \<^item> \<open>Stream_Bus\<close>, \<open>Bus_Props\<close>: \<open>streaming/events.py\<close> and \<open>streaming/bus.py\<close>.
    \<^item> \<open>Lifecycle\<close>, \<open>Lifecycle_Props\<close>: \<open>streaming/lifecycle.py\<close> over the book and the ledger.
    \<^item> \<open>Market_Rules\<close>, \<open>Market_Props\<close>: \<open>market_rules/ashare.py\<close>.
    \<^item> \<open>Matching\<close>, \<open>Matching_Props\<close>: \<open>streaming/matching.py\<close> over the lifecycle, the account and the rules.
    \<^item> \<open>Ambiguity\<close>: \<open>streaming/ambiguity.py\<close>.
    \<^item> \<open>Parent_Child\<close>, \<open>Parent_Engine\<close>: \<open>execution/parent_child.py\<close>; \<open>Parent_Facts\<close>, \<open>Parent_Invariant\<close>,
      \<open>Parent_Allocation\<close>, \<open>Parent_Props\<close>, \<open>Parent_Liveness\<close>: its properties.
    \<^item> \<open>Idempotency\<close>, \<open>Idempotency_Props\<close>: \<open>domain/idempotency.py\<close>.
    \<^item> \<open>Position_Machine\<close>: \<open>portfolio/state_machine/machine.py\<close>.
    \<^item> \<open>Kill_Switch\<close>, \<open>Kill_Switch_Props\<close>, \<open>Operating_Mode\<close>, \<open>Mode_Props\<close>: \<open>risk/kill_switch.py\<close> and
      \<open>safety/operating_mode.py\<close>.

    \<^item> \<open>Paper_Orders\<close>, \<open>Paper_Portfolio\<close>, \<open>Paper_Ledger\<close>: \<open>paper/orders.py\<close>, \<open>paper/portfolio.py\<close> and \<open>paper/ledger.py\<close>.
      The hash chain of both ledgers is the locale \<open>hash_chain\<close>.
    \<^item> \<open>Paper_Switch\<close>, \<open>Paper_Risk\<close>: \<open>paper/risk.py\<close>; \<open>Paper_Switch_Props\<close>, \<open>Paper_Risk_Props\<close>, \<open>Paper_Risk_Run\<close>: what
      the switch blocks, what an approved order keeps, what a restart rebuilds.
    \<^item> \<open>Paper_Venue\<close>, \<open>Paper_Broker\<close>: \<open>paper/broker.py\<close>, its market snapshot and venue checks, and its operations.
    \<^item> \<open>Paper_Recovery\<close>: \<open>paper/recovery.py\<close>.
    \<^item> \<open>Replay_Pass\<close> (the replay of an account is one pass over the ledger), \<open>Paper_Mirror\<close>, \<open>Paper_Account\<close>: the
      abstraction from a replayed account to a portfolio, and that each operation of the one mirrors the other.
      \<open>Paper_Frame\<close>, \<open>Paper_Desk\<close>, \<open>Paper_Run\<close>, \<open>Paper_Days\<close>: the invariant of the desk, carried through every call of
      the broker and through whole days.  \<open>Paper_Rebuild\<close>, \<open>Paper_Restart\<close>: a restart rebuilds the live book.

    \<^item> \<open>Constraints\<close>, \<open>Constraint_Props\<close>: \<open>execution/constraints.py\<close>, and what its verdict means.
    \<^item> \<open>Broker_Base\<close>: \<open>execution/broker_base.py\<close> and the board quantities of \<open>quant_math/ashare.py\<close>.
    \<^item> \<open>Order_Manager\<close>: \<open>execution/order_manager.py\<close>.  \<open>Session_View\<close> reads what a session consumed off a book,
      \<open>Ledger_Reopen\<close> carries it over a restart, \<open>Step_Rules\<close> has the rules for steps that may raise after they changed
      the state.  \<open>Oms_Steps\<close>, \<open>Oms_Stages\<close>, \<open>Oms_Route\<close>, \<open>Oms_Submit\<close>: the stages of one submission; \<open>Oms_Venue\<close>: the
      locale \<open>venue\<close>, what a broker must keep of the book and ledger it may share with its client; \<open>Oms_Once\<close>: the
      claims file; \<open>Oms_World\<close>, \<open>Oms_Run\<close>: several managers over one broker and one claims file, through restarts;
      \<open>Oms_Sent\<close>: that an admitted order goes out; \<open>Oms_Props\<close>: the properties, with \<open>venue\<close> interpreted on every broker that
      has no access to book and ledger (\<open>plain_broker\<close>); \<open>Rebalance_Props\<close>: from weights to orders.
    \<^item> \<open>Virtual_Broker\<close>, \<open>Virtual_Props\<close>: \<open>execution/virtual_broker.py\<close>, \<open>fill_simulator.py\<close>, \<open>cost_model.py\<close> and
      \<open>position_ledger.py\<close>.

  \<^bold>\<open>Conventions.\<close>  A data class is a \<open>record\<close>, an enumeration a \<open>datatype\<close>, an exception a value of \<open>exn\<close>
  (its message is dropped); an operation that may raise returns \<open>'a res\<close>, and one that may raise after
  it changed its state returns the result with the state.  Python's \<open>int\<close> is \<open>int\<close> and its \<open>float\<close> is \<open>rat\<close>:
  arithmetic is exact, so rounding errors of binary floating point are outside the model, while every
  rounding the code asks for (ticks, lots, the 1e-9 tolerances) is modelled.  A \<open>dict\<close> is an
  association list in insertion order, a heap a list in pop order.  Datetimes are \<open>moment\<close>s (an instant in
  microseconds and an optional offset), dates are day numbers, and the exchange's zone is UTC+8.
  Clocks are explicit arguments.  On the paper desk the environment \<open>dk_env n\<close> gives the outcome, the identifier and
  the time of the \<open>n\<close>-th append to the event file; a trade date is a text, the time of a session a second of its day.
  A venue is a record of its limits, fees and the parameters below; the texts of its refusals are a parameter.
  The order manager has its configuration in the record \<open>oms\<close>, its state in \<open>manager\<close>, and the clocks and write
  outcomes of one submission in \<open>oms_env\<close>; \<open>om_parse\<close> is \<open>pandas.Timestamp\<close>, \<open>om_sha\<close> the SHA-1 of a text and
  \<open>om_str\<close> the text of a number.  For the properties the broker is watched: \<open>watched\<close> writes down each call with the
  book and the ledger of that moment, and changes nothing else.

  Parameters stand for what is not code of the repository or not deterministic: SHA-256 over canonical JSON
  (\<open>H\<close>, \<open>D\<close>, \<open>K\<close>; never assumed injective, a property that rests on it exhibits the collision
  instead), \<open>str\<close> of a value that is no string (\<open>S\<close>), the outcome of a durable write, and the
  floating-point square root of the impact model.  A file is what it decodes to, with a flag for
  a torn tail or \<open>None\<close> for text that does not parse; a lock makes the operation under it one step.

  \<^bold>\<open>What the lemmas show.\<close>  Invariants of every run with refused calls in it (orders, accounts, ledgers, parents, via
  \<open>guarded_machine\<close>); the book as the fold of its log and as the replay of its ledger; tamper evidence; the
  order of what the bus emits, whatever its consumer publishes; bounds of prices, lots and costs and of each fill
  of the matcher; at most one grant of a claim over any interleaving of processes; that a parent is never
  over-committed through lost and half-landed writes, and that an iceberg completes; and the conditions
  under which the switches and the mode block.  For the paper desk: that an approved order keeps every limit, that a
  breached drawdown stops buying across restarts, and that after any trading days (\<open>desk_days\<close>) and calls (\<open>desk_calls\<close>)
  the canonical ledger rebuilds the live book symbol by symbol.  A trading day of these runs holds accepted
  calls of one session and ends with its close; its corporate actions leave whole shares (\<open>whole_ratio\<close>), since with
  a fractional result the code's own ledger no longer replays (see the findings of the manifest).
  For the order manager: whatever managers start, submit, rebalance, cancel, reset and die in whatever order, no request
  reaches the broker twice, and each call of the broker finds its order on record, within the daily cap and, in
  production, within the limits together with all the session sent; and an order that every check admits is sent.
  The order runs assume a lineage without empty fields and that a time stamp reads back as it was written
  (\<open>well_configured\<close>): an empty field is decoded as absent, so the code's own chain would not verify.  The draining of the bus has fuel: a replay
  uses the number of its events plus one, which \<open>replay_is_order_free\<close> shows to be enough.

  \<^bold>\<open>Not modelled.\<close>  Code over data frames and arrays (factors, training, research, backtest engines, portfolio
  optimisers), calls of third-party services and libraries (language models, HTTP, the broker's client), the
  command line, and the file layout of the daily run.  Of the order manager the paper broker as its venue is not
  instantiated: a canonical venue is covered up to the locale \<open>venue\<close>, whose contract is stated for any broker that
  writes to the shared book.  Of the modelled files: texts of messages and
  reports that are data only, and the parsing of timestamps.
\<close>

end
